(* ===== verification/Prelude.thy ===== *)
theory Prelude
  imports Main
begin

text \<open>
  Shared vocabulary of the development: Go errors as values, the state-and-error functions
  in which every handler is written, the wrap-around of Go's fixed-width integers, the
  rendering functions of package fmt that status messages use, and the collections of
  simplification rules the component theories add to.
\<close>

named_theorems kio_simps \<open>unfolding rules of the state-and-error functions\<close>
named_theorems kspec_intros \<open>introduction rules of the call-trace judgement\<close>
named_theorems machine_upd \<open>the in-place updates of a Machine's status\<close>

section \<open>Go errors\<close>

text \<open>
  An API error keeps the classification the code asks for (\<^verbatim>\<open>apierrors.IsNotFound\<close>,
  \<^verbatim>\<open>apierrors.IsConflict\<close>, \<^verbatim>\<open>apierrors.IsAlreadyExists\<close>); the three planning errors are the exported error types of
  internal/planbuild; \<open>NetError\<close> is an error whose chain holds a \<^verbatim>\<open>net.Error\<close>;
  \<open>Wrapped\<close> is \<^verbatim>\<open>fmt.Errorf("...: %w", err)\<close>. \<open>GoPanic\<close> is a run-time panic (a nil
  dereference), which no handler returns but which a model of it must be able to reach.
  \<open>Diverged\<close> marks a retry loop that used up the fuel of its model.
\<close>

datatype kerr =
    NotFound
  | Conflict
  | AlreadyExists
  | ApiError string
  | NetError string
  | PlainError string
  | NotReadyError string
  | DiskSelectionError string
  | ValidationError string
  | Wrapped string kerr
  | GoPanic string
  | Diverged

fun error_root :: "kerr \<Rightarrow> kerr" where
  "error_root (Wrapped _ e) = error_root e"
| "error_root e = e"

definition isNotFound :: "kerr \<Rightarrow> bool" where
  "isNotFound e \<longleftrightarrow> error_root e = NotFound"

definition isConflict :: "kerr \<Rightarrow> bool" where
  "isConflict e \<longleftrightarrow> error_root e = Conflict"

definition isAlreadyExists :: "kerr \<Rightarrow> bool" where
  "isAlreadyExists e \<longleftrightarrow> error_root e = AlreadyExists"

fun error_text :: "kerr \<Rightarrow> string" where
  "error_text NotFound = ''not found''"
| "error_text Conflict = ''conflict''"
| "error_text AlreadyExists = ''already exists''"
| "error_text (ApiError s) = s"
| "error_text (NetError s) = s"
| "error_text (PlainError s) = s"
| "error_text (NotReadyError s) = s"
| "error_text (DiskSelectionError s) = s"
| "error_text (ValidationError s) = s"
| "error_text (Wrapped c e) = c @ '': '' @ error_text e"
| "error_text (GoPanic s) = s"
| "error_text Diverged = ''diverged''"

section \<open>State-and-error functions\<close>

text \<open>
  A handler that talks to the outside takes the world and returns \<^verbatim>\<open>(value, error)\<close> and
  the new world. \<open>bindK\<close> is the ubiquitous \<^verbatim>\<open>if err != nil { return ..., err }\<close>, \<open>wrapK\<close>
  the same with a \<^verbatim>\<open>%w\<close> wrapper, \<open>attempt\<close> a call whose error the code inspects. A panic (and
  the model's own \<open>Diverged\<close>) is not an error value: neither of them catches it.
\<close>

type_synonym ('w, 'a) kio = "'w \<Rightarrow> (kerr + 'a) \<times> 'w"

definition ret :: "'a \<Rightarrow> ('w, 'a) kio" where
  "ret x = (\<lambda>w. (Inr x, w))"

definition raise :: "kerr \<Rightarrow> ('w, 'a) kio" where
  "raise e = (\<lambda>w. (Inl e, w))"

definition bindK :: "('w, 'a) kio \<Rightarrow> ('a \<Rightarrow> ('w, 'b) kio) \<Rightarrow> ('w, 'b) kio" where
  "bindK m f = (\<lambda>w. case m w of (Inl e, w') \<Rightarrow> (Inl e, w') | (Inr x, w') \<Rightarrow> f x w')"

fun is_abort :: "kerr \<Rightarrow> bool" where
  "is_abort (GoPanic _) = True"
| "is_abort Diverged = True"
| "is_abort _ = False"

definition wrapK :: "string \<Rightarrow> ('w, 'a) kio \<Rightarrow> ('w, 'a) kio" where
  "wrapK c m = (\<lambda>w. case m w of
       (Inl e, w') \<Rightarrow> (Inl (if is_abort e then e else Wrapped c e), w')
     | (Inr x, w') \<Rightarrow> (Inr x, w'))"

definition attempt :: "('w, 'a) kio \<Rightarrow> ('w, kerr + 'a) kio" where
  "attempt m = (\<lambda>w. case m w of
       (Inl e, w') \<Rightarrow> (if is_abort e then Inl e else Inr (Inl e), w')
     | (Inr x, w') \<Rightarrow> (Inr (Inr x), w'))"

lemma ret_run [kio_simps]: "ret x w = (Inr x, w)"
  by (simp add: ret_def)

lemma raise_run [kio_simps]: "raise e w = (Inl e, w)"
  by (simp add: raise_def)

lemma bindK_run [kio_simps]:
  "bindK m f w = (case m w of (Inl e, w') \<Rightarrow> (Inl e, w') | (Inr x, w') \<Rightarrow> f x w')"
  by (simp add: bindK_def)

lemma wrapK_run [kio_simps]:
  "wrapK c m w = (case m w of
       (Inl e, w') \<Rightarrow> (Inl (if is_abort e then e else Wrapped c e), w')
     | (Inr x, w') \<Rightarrow> (Inr x, w'))"
  by (simp add: wrapK_def)

lemma attempt_run [kio_simps]:
  "attempt m w = (case m w of
       (Inl e, w') \<Rightarrow> (if is_abort e then Inl e else Inr (Inl e), w')
     | (Inr x, w') \<Rightarrow> (Inr (Inr x), w'))"
  by (simp add: attempt_def)

lemma wrapK_world [simp]: "snd (wrapK c m w) = snd (m w)"
  by (simp add: wrapK_def split: prod.splits sum.splits)

lemma wrapK_value [simp]: "fst (wrapK c m w) = Inr x \<longleftrightarrow> fst (m w) = Inr x"
  by (auto simp: wrapK_def split: prod.splits sum.splits)

lemma attempt_world [simp]: "snd (attempt m w) = snd (m w)"
  by (simp add: attempt_def split: prod.splits sum.splits)

lemma attempt_value: "fst (attempt m w) = Inr (Inr x) \<longleftrightarrow> fst (m w) = Inr x"
  by (simp add: attempt_def split: prod.splits sum.splits)

lemma bindK_ret [simp]: "bindK (ret x) f = f x"
  by (simp add: bindK_def ret_def)

lemma bindK_raise [simp]: "bindK (raise e) f = raise e"
  by (simp add: bindK_def raise_def)

lemma bindK_assoc: "bindK (bindK m f) g = bindK m (\<lambda>x. bindK (f x) g)"
  by (rule ext) (simp add: bindK_def split: prod.splits sum.splits)

section \<open>Fixed-width integers\<close>

text \<open>Go's \<^verbatim>\<open>int32\<close> as \<open>int\<close> with the two's-complement wrap-around written out.\<close>

definition wrap32 :: "int \<Rightarrow> int" where
  "wrap32 x = (x + 2 ^ 31) mod 2 ^ 32 - 2 ^ 31"

lemma wrap32_id: "- (2 ^ 31) \<le> x \<Longrightarrow> x < 2 ^ 31 \<Longrightarrow> wrap32 x = x"
  by (simp add: wrap32_def)

lemma wrap32_bounds: "- (2 ^ 31) \<le> wrap32 x \<and> wrap32 x < 2 ^ 31"
  by (simp add: wrap32_def)

text \<open>The same for \<^verbatim>\<open>int64\<close>.\<close>

definition wrap64 :: "int \<Rightarrow> int" where
  "wrap64 x = (x + 2 ^ 63) mod 2 ^ 64 - 2 ^ 63"

lemma wrap64_id: "- (2 ^ 63) \<le> x \<Longrightarrow> x < 2 ^ 63 \<Longrightarrow> wrap64 x = x"
  by (simp add: wrap64_def)

section \<open>Rendering\<close>

text \<open>
  \<^verbatim>\<open>%d\<close> and \<^verbatim>\<open>%q\<close> of package fmt. \<^verbatim>\<open>%q\<close> is given on printable ASCII, where it only escapes
  the quote and the backslash: the strings rendered with it are object names and keys.
\<close>

definition digit_char :: "nat \<Rightarrow> char" where
  "digit_char d = char_of (48 + d)"

fun show_nat :: "nat \<Rightarrow> string" where
  "show_nat n = (if n < 10 then [digit_char n] else show_nat (n div 10) @ [digit_char (n mod 10)])"

declare show_nat.simps [simp del]

definition show_int :: "int \<Rightarrow> string" where
  "show_int i = (if i < 0 then ''-'' @ show_nat (nat (- i)) else show_nat (nat i))"

definition go_quote :: "string \<Rightarrow> string" where
  "go_quote s = [CHR 0x22] @
     concat (map (\<lambda>c. if c = CHR 0x22 \<or> c = CHR 0x5C then [CHR 0x5C, c] else [c]) s) @ [CHR 0x22]"

definition hasPrefix :: "string \<Rightarrow> string \<Rightarrow> bool" where
  "hasPrefix s p \<longleftrightarrow> take (length p) s = p"

section \<open>Slices\<close>

text \<open>
  A Go slice that the code compares with \<^verbatim>\<open>reflect.DeepEqual\<close>, which tells a nil slice
  (\<open>None\<close>) from an empty one (\<open>Some []\<close>). \<open>clone_slice\<close> is \<^verbatim>\<open>append([]T(nil), xs...)\<close>: nil when
  there is nothing to append.
\<close>

type_synonym 'a slice = "'a list option"

definition elems :: "'a slice \<Rightarrow> 'a list" where
  "elems xs = (case xs of None \<Rightarrow> [] | Some ys \<Rightarrow> ys)"

definition clone_slice :: "'a slice \<Rightarrow> 'a slice" where
  "clone_slice xs = (if elems xs = [] then None else Some (elems xs))"

lemma clone_slice_id: "xs \<noteq> Some [] \<Longrightarrow> clone_slice xs = xs"
  by (cases xs) (simp_all add: clone_slice_def elems_def)

lemma elems_clone [simp]: "elems (clone_slice xs) = elems xs"
  by (simp add: clone_slice_def elems_def split: option.splits)

lemma find_mem: "find P xs = Some x \<Longrightarrow> x \<in> set xs \<and> P x"
  by (induction xs) (auto split: if_splits)

section \<open>Association lists as Go maps\<close>

text \<open>A Go map whose keys are ranged over: an association list with distinct keys.\<close>

definition alist_delete :: "'k \<Rightarrow> ('k \<times> 'v) list \<Rightarrow> ('k \<times> 'v) list" where
  "alist_delete k kvs = filter (\<lambda>kv. fst kv \<noteq> k) kvs"

definition alist_put :: "'k \<Rightarrow> 'v \<Rightarrow> ('k \<times> 'v) list \<Rightarrow> ('k \<times> 'v) list" where
  "alist_put k v kvs = (k, v) # alist_delete k kvs"

lemma map_of_alist_delete [simp]: "map_of (alist_delete k kvs) = (map_of kvs)(k := None)"
  by (induction kvs) (auto simp: alist_delete_def fun_eq_iff)

lemma map_of_alist_put [simp]: "map_of (alist_put k v kvs) = (map_of kvs)(k := Some v)"
  by (simp add: alist_put_def)

lemma distinct_alist_delete: "distinct (map fst kvs) \<Longrightarrow> distinct (map fst (alist_delete k kvs))"
  by (induction kvs) (auto simp: alist_delete_def)

lemma distinct_alist_put: "distinct (map fst kvs) \<Longrightarrow> distinct (map fst (alist_put k v kvs))"
  using distinct_alist_delete [of kvs k] by (auto simp: alist_put_def alist_delete_def)

end
