(* ===== verification/Machine_Types.thy ===== *)
theory Machine_Types
  imports Prelude
begin

text \<open>
  The custom resources the machine plane reads and writes (api/v1alpha3): Machine, DeployRun,
  MachineClaim, MachineHardware and the parts of Image and Secret that its controllers look at.
  A closed string enumeration of the API is a datatype with one constructor per constant and
  one for any other string a stored object may hold; a pointer field is an \<open>option\<close>.
  Time is in nanoseconds; \<open>None\<close> is the zero time.
\<close>

section \<open>Shared types\<close>

type_synonym key = "string \<times> string"  \<comment> \<open>namespace, name\<close>
type_synonym uid = string
type_synonym time = int
type_synonym duration = int

record NameRef =
  nr_namespace :: string
  nr_name :: string

record MachineClaimReference =
  cr_name :: string
  cr_namespace :: string
  cr_uid :: uid

datatype cond_status = CondTrue | CondFalse | CondUnknown

record condition =
  c_type :: string
  c_status :: cond_status
  c_observedGeneration :: int
  c_reason :: string
  c_message :: string

section \<open>Machine\<close>

datatype MachineState =
    StateEmpty
  | Enrolling
  | Inspecting
  | Available
  | Provisioning
  | Provisioned
  | Deprovisioning
  | PoweringOff
  | Released
  | StateOther string

fun state_text :: "MachineState \<Rightarrow> string" where
  "state_text StateEmpty = ''''"
| "state_text Enrolling = ''Enrolling''"
| "state_text Inspecting = ''Inspecting''"
| "state_text Available = ''Available''"
| "state_text Provisioning = ''Provisioning''"
| "state_text Provisioned = ''Provisioned''"
| "state_text Deprovisioning = ''Deprovisioning''"
| "state_text PoweringOff = ''PoweringOff''"
| "state_text Released = ''Released''"
| "state_text (StateOther s) = s"

datatype MachineOperationalStatus =
    OpEmpty
  | OpOK
  | OpError
  | OpDelayed
  | OpDetached
  | OpOther string

datatype MachineErrorType =
    ErrNone
  | Transient
  | Restart
  | ErrOther string

record MachineBMC =
  bmc_address :: string
  bmc_credentialsSecretRef :: string

record TargetDiskHints =
  h_deviceName :: string
  h_serialNumber :: string
  h_wwn :: string
  h_model :: string
  h_vendor :: string
  h_minSizeGigabytes :: "int option"
  h_maxSizeGigabytes :: "int option"
  h_rotational :: "bool option"
  h_pciePath :: string
  h_hctl :: string
  h_slotNumber :: "int option"

record MachineDataImage =
  di_imageRef :: NameRef
  di_targetDisk :: "TargetDiskHints option"

record MachineSpec =
  ms_bmc :: MachineBMC
  ms_bootMACAddress :: string
  ms_subnetRef :: NameRef
  ms_claimRef :: "MachineClaimReference option"
  ms_console :: "string list"
  ms_bootTimeout :: "duration option"

record MachineCredentialsStatus =
  mc_secretRef :: "string option"
  mc_resourceVersion :: string

record MachineNetBootStatus =
  nb_tokenHash :: string
  nb_expiresAt :: "time option"

record MachineAgentSessionStatus =
  as_tokenHash :: string
  as_expiresAt :: "time option"

record MachineStatus =
  state :: MachineState
  operationalStatus :: MachineOperationalStatus
  errorType :: MachineErrorType
  errorCount :: int
  restartCount :: int
  errorMessage :: string
  goodCredentials :: MachineCredentialsStatus
  triedCredentials :: MachineCredentialsStatus
  currentRunRef :: "NameRef option"
  lastSuccessfulRunRef :: "NameRef option"
  lastAttemptedRunRef :: "NameRef option"
  poweredOn :: "bool option"
  lastUpdated :: "time option"
  netBoot :: "MachineNetBootStatus option"
  agentSession :: "MachineAgentSessionStatus option"
  conditions :: "condition list"

record Machine =
  m_name :: string
  m_namespace :: string
  m_uid :: uid
  m_resourceVersion :: string
  m_generation :: int
  m_annotations :: "(string \<times> string) list"
  m_labels :: "(string \<times> string) list"
  m_finalizers :: "string list"
  m_deletionTimestamp :: "time option"
  m_spec :: MachineSpec
  m_status :: MachineStatus

abbreviation upd_status :: "(MachineStatus \<Rightarrow> MachineStatus) \<Rightarrow> Machine \<Rightarrow> Machine" where
  "upd_status f m \<equiv> m\<lparr>m_status := f (m_status m)\<rparr>"

abbreviation m_state :: "Machine \<Rightarrow> MachineState" where
  "m_state m \<equiv> state (m_status m)"

abbreviation m_key :: "Machine \<Rightarrow> key" where
  "m_key m \<equiv> (m_namespace m, m_name m)"

text \<open>Finalizers, labels, annotations and condition types of api/v1alpha3/machine_types.go.\<close>

definition MachineFinalizer :: string where
  "MachineFinalizer = ''kezio.kojuro.date/machine''"
definition MachineCredentialsSecretLabel :: string where
  "MachineCredentialsSecretLabel = ''kezio.kojuro.date/bmc-credentials-secret''"
definition MachineCredentialsSecretFinalizer :: string where
  "MachineCredentialsSecretFinalizer = ''kezio.kojuro.date/bmc-credentials''"
definition MachineAnnotationPaused :: string where
  "MachineAnnotationPaused = ''kezio.kojuro.date/paused''"
definition MachineAnnotationDetached :: string where
  "MachineAnnotationDetached = ''kezio.kojuro.date/detached''"
definition MachineAnnotationRebootPrefix :: string where
  "MachineAnnotationRebootPrefix = ''kezio.kojuro.date/reboot''"
definition MachineAnnotationInspectDisable :: string where
  "MachineAnnotationInspectDisable = ''kezio.kojuro.date/inspect-disable''"
definition MachineAnnotationReInspect :: string where
  "MachineAnnotationReInspect = ''kezio.kojuro.date/re-inspect''"
definition MachineAnnotationBMCInsecureSkipVerify :: string where
  "MachineAnnotationBMCInsecureSkipVerify = ''kezio.kojuro.date/bmc-insecure-skip-verify''"
definition MachineAnnotationConfirmStatusLoss :: string where
  "MachineAnnotationConfirmStatusLoss = ''kezio.kojuro.date/confirm-status-loss''"
definition MachineAnnotationClearError :: string where
  "MachineAnnotationClearError = ''kezio.kojuro.date/clear-error''"

definition MachineConditionProgressing :: string where
  "MachineConditionProgressing = ''Progressing''"
definition MachineConditionAgentRegistered :: string where
  "MachineConditionAgentRegistered = ''AgentRegistered''"
definition MachineConditionStatusLossHold :: string where
  "MachineConditionStatusLossHold = ''StatusLossHold''"
definition MachineConditionRetryHeld :: string where
  "MachineConditionRetryHeld = ''RetryHeld''"

lemmas annotation_defs =
  MachineAnnotationPaused_def MachineAnnotationDetached_def MachineAnnotationRebootPrefix_def
  MachineAnnotationInspectDisable_def MachineAnnotationReInspect_def
  MachineAnnotationBMCInsecureSkipVerify_def MachineAnnotationConfirmStatusLoss_def
  MachineAnnotationClearError_def

lemmas machine_condition_defs =
  MachineConditionProgressing_def MachineConditionAgentRegistered_def
  MachineConditionStatusLossHold_def MachineConditionRetryHeld_def

lemma machine_conditions_distinct [simp]:
  "MachineConditionRetryHeld \<noteq> MachineConditionStatusLossHold"
  "MachineConditionStatusLossHold \<noteq> MachineConditionRetryHeld"
  "MachineConditionProgressing \<noteq> MachineConditionRetryHeld"
  "MachineConditionRetryHeld \<noteq> MachineConditionProgressing"
  "MachineConditionProgressing \<noteq> MachineConditionStatusLossHold"
  "MachineConditionStatusLossHold \<noteq> MachineConditionProgressing"
  by (simp_all add: machine_condition_defs)

section \<open>DeployRun\<close>

datatype DeployRunPhase =
    PhaseEmpty
  | PhasePending
  | PhasePartitioning
  | PhaseWritingContent
  | PhaseRunningPostHook
  | PhaseFinalizing
  | PhaseSucceeded
  | PhaseFailed
  | PhaseOther string

fun phase_text :: "DeployRunPhase \<Rightarrow> string" where
  "phase_text PhaseEmpty = ''''"
| "phase_text PhasePending = ''Pending''"
| "phase_text PhasePartitioning = ''Partitioning''"
| "phase_text PhaseWritingContent = ''WritingContent''"
| "phase_text PhaseRunningPostHook = ''RunningPostHook''"
| "phase_text PhaseFinalizing = ''Finalizing''"
| "phase_text PhaseSucceeded = ''Succeeded''"
| "phase_text PhaseFailed = ''Failed''"
| "phase_text (PhaseOther s) = s"

definition DeployRunConditionSucceeded :: string where
  "DeployRunConditionSucceeded = ''Succeeded''"

record DeployRunResolvedDisk =
  rd_imageRef :: NameRef
  rd_targetDisk :: string

record DeployRunSpec =
  rs_machineRef :: NameRef
  rs_claimRef :: "MachineClaimReference option"
  rs_imageRef :: "NameRef option"
  rs_dataImages :: "MachineDataImage slice"
  rs_resolvedDisks :: "DeployRunResolvedDisk list"
  rs_hooksHash :: string

record DeployRunPartitionProgress =
  pp_number :: int
  pp_percent :: int
  pp_bytesDone :: int

record DeployRunPhaseTiming =
  pt_phase :: DeployRunPhase
  pt_startedAt :: time
  pt_finishedAt :: "time option"

record DeployRunStatus =
  phase :: DeployRunPhase
  partitions :: "DeployRunPartitionProgress list"
  phaseTimings :: "DeployRunPhaseTiming list"
  lastProgressAt :: "time option"
  r_conditions :: "condition list"

record DeployRun =
  r_name :: string
  r_generateName :: string
  r_namespace :: string
  r_uid :: uid
  r_generation :: int
  r_deletionTimestamp :: "time option"
  r_controllerOwner :: "(string \<times> uid) option"
  r_spec :: DeployRunSpec
  r_status :: DeployRunStatus

section \<open>MachineHardware\<close>

record MachineHardwareDisk =
  d_deviceName :: string
  d_serialNumber :: string
  d_wwn :: string
  d_model :: string
  d_vendor :: string
  d_sizeBytes :: int
  d_rotational :: "bool option"
  d_pciePath :: string
  d_hctl :: string
  d_slotNumber :: "int option"

record MachineHardwareNIC =
  n_name :: string
  n_macAddress :: string

record MachineHardwareSpec =
  hw_disks :: "MachineHardwareDisk list"
  hw_nics :: "MachineHardwareNIC list"
  hw_memoryBytes :: int
  hw_cpuCount :: int

text \<open>The owner reference the writers of a MachineHardware set: the Machine's name and uid.\<close>

record MachineHardware =
  hw_name :: string
  hw_namespace :: string
  hw_owners :: "(string \<times> uid) list"
  hw_spec :: MachineHardwareSpec

section \<open>MachineClaim\<close>

record ClaimHardwareDiskSelector =
  ds_model :: string
  ds_vendor :: string
  ds_minSizeGigabytes :: "int option"
  ds_rotational :: "bool option"

record ClaimHardwareSelector =
  hs_minCPUCount :: "int option"
  hs_minMemoryBytes :: "int option"
  hs_disks :: "ClaimHardwareDiskSelector list"

text \<open>
  \<^verbatim>\<open>metav1.LabelSelector\<close>, inlined in the claim's selector: its expressions are key, operator and
  values.
\<close>

record MachineClaimSelector =
  sel_matchLabels :: "(string \<times> string) list"
  sel_matchExpressions :: "(string \<times> string \<times> string list) list"
  sel_hardware :: "ClaimHardwareSelector option"

record MachineEzioTuning =
  ez_cacheSizeMB :: "int option"
  ez_aioThreads :: "int option"
  ez_maxUploads :: "int option"
  ez_maxConnections :: "int option"
  ez_port :: "int option"

text \<open>Schemaless parameters (\<^verbatim>\<open>apiextensionsv1.JSON\<close>) are their raw bytes.\<close>

record MachineClaimSpec =
  cs_machineName :: string
  cs_selector :: "MachineClaimSelector option"
  cs_imageRef :: "NameRef option"
  cs_dataImages :: "MachineDataImage slice"
  cs_targetDisk :: "TargetDiskHints option"
  cs_postHookRefs :: "NameRef list"
  cs_params :: "string option"
  cs_ezio :: "MachineEzioTuning option"
  cs_afterDeploy :: string

datatype MachineClaimPhase =
    ClaimPhaseEmpty
  | ClaimPending
  | ClaimBound
  | ClaimFailed
  | ClaimPhaseOther string

definition MachineClaimConditionBound :: string where
  "MachineClaimConditionBound = ''Bound''"
definition MachineClaimConditionReady :: string where
  "MachineClaimConditionReady = ''Ready''"
definition MachineClaimFinalizer :: string where
  "MachineClaimFinalizer = ''kezio.kojuro.date/machineclaim''"

record MachineClaimStatus =
  cst_phase :: MachineClaimPhase
  cst_machineName :: string
  cst_boundAt :: "time option"
  cst_currentRunRef :: "NameRef option"
  cst_lastSuccessfulRunRef :: "NameRef option"
  cst_conditions :: "condition list"

record MachineClaim =
  cl_name :: string
  cl_namespace :: string
  cl_uid :: uid
  cl_generation :: int
  cl_finalizers :: "string list"
  cl_deletionTimestamp :: "time option"
  cl_spec :: MachineClaimSpec
  cl_status :: MachineClaimStatus

section \<open>Image, PartitionContent, ImageImport, Secret\<close>

definition ImageConditionReady :: string where
  "ImageConditionReady = ''Ready''"

datatype PartitionRole = RoleESP | RoleData | RoleSwap | RoleMSR | RoleOther string

record ImageSlot =
  sl_number :: int
  sl_role :: PartitionRole
  sl_contentRef :: "NameRef option"
  sl_fsType :: string
  sl_uuid :: string
  sl_typeGUID :: string
  sl_partUUID :: string
  sl_sizeBytes :: int

record ImageDiskLayout =
  ly_partitionTable :: string
  ly_sfdiskJSON :: string
  ly_slots :: "ImageSlot list"

record ImageSpec =
  is_osFamily :: string
  is_bootable :: "bool option"
  is_layout :: ImageDiskLayout
  is_params :: "string option"
  is_postHookRefs :: "NameRef list"

definition OSFamilyLinux :: string where
  "OSFamilyLinux = ''Linux''"

definition EffectiveOSFamily :: "ImageSpec \<Rightarrow> string" where
  "EffectiveOSFamily s = (if is_osFamily s = '''' then OSFamilyLinux else is_osFamily s)"

datatype ImageState = ImageStateEmpty | ImageStatePending | ImageStateReady | ImageStateFailed | ImageStateOther string

record Image =
  im_name :: string
  im_namespace :: string
  im_uid :: uid
  im_generation :: int
  im_annotations :: "(string \<times> string) list"
  im_spec :: ImageSpec
  im_state :: ImageState
  im_conditions :: "condition list"

datatype PartitionContentState =
    ContentStateEmpty
  | ContentPending
  | ContentPublishing
  | ContentReady
  | ContentFailed
  | ContentStateOther string

record PartitionContentSpec =
  ct_fsType :: string
  ct_usedBytes :: int
  ct_sizeBytes :: int
  ct_lastExtentEnd :: int
  ct_pieceLength :: int
  ct_importName :: string
  ct_partitionNumber :: int

record PartitionContentSeederSite =
  ps_site :: string
  ps_machineCount :: int

record PartitionContent =
  pc_name :: string
  pc_namespace :: string
  pc_uid :: uid
  pc_generation :: int
  pc_deletionTimestamp :: "time option"
  pc_finalizers :: "string list"
  pc_owners :: "uid list"
  pc_spec :: PartitionContentSpec
  pc_state :: PartitionContentState
  pc_infoHash :: string
  pc_pvcRef :: "NameRef option"
  pc_seeders :: "PartitionContentSeederSite list"
  pc_conditions :: "condition list"

datatype ImageImportState =
    ImportStateEmpty
  | ImportPending
  | ImportIngesting
  | ImportSucceeded
  | ImportFailed
  | ImportStateOther string

record ImageImportSpec =
  ii_sourceURL :: string
  ii_sourceChecksum :: string
  ii_imageName :: string
  ii_contentPrefix :: string
  ii_osFamily :: string
  ii_bootable :: "bool option"
  ii_params :: "string option"
  ii_postHookRefs :: "NameRef list"
  ii_scratchSize :: "int option"
  ii_ttlSecondsAfterFinished :: "int option"

record ImageImport =
  imp_name :: string
  imp_namespace :: string
  imp_uid :: uid
  imp_generation :: int
  imp_spec :: ImageImportSpec
  imp_state :: ImageImportState
  imp_imageRef :: "NameRef option"
  imp_contentRefs :: "NameRef list"
  imp_completionTime :: "time option"
  imp_conditions :: "condition list"

record Secret =
  s_name :: string
  s_namespace :: string
  s_resourceVersion :: string
  s_labels :: "(string \<times> string) list"
  s_owners :: "(string \<times> uid) list"
  s_finalizers :: "string list"
  s_data :: "(string \<times> string) list"

end
