(* ===== verification/Subnet_Dhcp.thy ===== *)
theory Subnet_Dhcp
  imports Machine_Types "HOL-Library.Word" "HOL-Library.List_Lexorder" "HOL-Library.Char_ord"
    "HOL-Library.Multiset"
begin

unbundle bit_operations_syntax

text \<open>
  internal/subnetdhcp: the boot-scoped DHCP reservation table of a lease-mode Subnet, and the
  Subnet type it works on. Addresses are 32-bit words as in the code
  (\<^verbatim>\<open>binary.BigEndian.Uint32\<close>), rendered and parsed as dotted quads as package net does. The
  schema of the API admits dotted quads only in every address field (the
  \<^verbatim>\<open>kubebuilder:validation:Pattern\<close> markers), so IPv6 literals are outside the model's inputs.
  The digest of package crypto/sha256 is the parameter \<open>sha\<close>.
\<close>

type_synonym ip4 = "32 word"

section \<open>The Subnet resource\<close>

datatype dhcp_mode = ModeProxy | ModeLease | ModeOther string

record SubnetDHCP =
  sd_mode :: dhcp_mode
  sd_leaseRangeStart :: string
  sd_leaseRangeEnd :: string
  sd_gateway :: "string option"
  sd_leaseTime :: "duration option"

record DHCPReservation =
  res_address :: string
  res_machine :: string
  res_mac :: string
  res_since :: time

record SubnetDHCPStatus =
  reservations :: "DHCPReservation list"
  revision :: string
  appliedRevision :: string

record Subnet =
  sn_name :: string
  sn_namespace :: string
  sn_uid :: uid
  sn_deletionTimestamp :: "time option"
  sn_generation :: int
  sn_siteRef :: NameRef
  sn_cidr :: string
  sn_bootdServerIP :: string
  sn_bootdNetworkRef :: "NameRef option"
  sn_seederNetworkRef :: "NameRef option"
  sn_nodeSelector :: "(string \<times> string) list"
  sn_dhcp :: "SubnetDHCP option"
  sn_conditions :: "condition list"
  sn_dhcpStatus :: "SubnetDHCPStatus option"

definition SubnetConditionDHCPPoolExhausted :: string where
  "SubnetConditionDHCPPoolExhausted = ''DHCPPoolExhausted''"

section \<open>Dotted quads\<close>

definition octet :: "nat \<Rightarrow> ip4 \<Rightarrow> nat" where
  "octet i v = (unat v div 2 ^ (8 * i)) mod 256"

definition ip_string :: "ip4 \<Rightarrow> string" where
  "ip_string v = show_nat (octet 3 v) @ ''.'' @ show_nat (octet 2 v) @ ''.'' @
     show_nat (octet 1 v) @ ''.'' @ show_nat (octet 0 v)"

fun split_on :: "char \<Rightarrow> string \<Rightarrow> string list" where
  "split_on c [] = [[]]"
| "split_on c (x # xs) =
     (if x = c then [] # split_on c xs
      else (case split_on c xs of [] \<Rightarrow> [[x]] | y # ys \<Rightarrow> (x # y) # ys))"

definition is_digit :: "char \<Rightarrow> bool" where
  "is_digit c \<longleftrightarrow> 48 \<le> (of_char c :: nat) \<and> (of_char c :: nat) \<le> 57"

definition parse_nat :: "string \<Rightarrow> nat" where
  "parse_nat s = foldl (\<lambda>n c. 10 * n + (of_char c - 48)) 0 s"

text \<open>One field of \<^verbatim>\<open>net.ParseIP\<close>: one to three digits, no leading zero, at most 255.\<close>

definition parse_octet :: "string \<Rightarrow> nat option" where
  "parse_octet s =
     (if s \<noteq> [] \<and> list_all is_digit s \<and> length s \<le> 3 \<and> (length s = 1 \<or> hd s \<noteq> CHR ''0'') \<and>
         parse_nat s \<le> 255 then Some (parse_nat s) else None)"

definition parseIP4 :: "string \<Rightarrow> ip4 option" where
  "parseIP4 s =
     (case map parse_octet (split_on (CHR ''.'') s) of
        [Some a, Some b, Some c, Some d] \<Rightarrow> Some (word_of_nat (((a * 256 + b) * 256 + c) * 256 + d))
      | _ \<Rightarrow> None)"

text \<open>The prefix length of \<^verbatim>\<open>net.ParseCIDR\<close>: decimal digits, at most 32. Go's \<^verbatim>\<open>dtoi\<close> stops at
  a value of \<open>0xFFFFFF\<close>, which is past every admissible prefix.\<close>

definition parse_prefix :: "string \<Rightarrow> nat option" where
  "parse_prefix s = (if s \<noteq> [] \<and> list_all is_digit s \<and> parse_nat s \<le> 32 then Some (parse_nat s) else None)"

definition prefix_mask :: "nat \<Rightarrow> ip4" where
  "prefix_mask p = NOT (mask (32 - p))"

definition parseCIDR4 :: "string \<Rightarrow> (ip4 \<times> ip4) option" where
  "parseCIDR4 s =
     (let a = takeWhile (\<lambda>c. c \<noteq> CHR ''/'') s; r = dropWhile (\<lambda>c. c \<noteq> CHR ''/'') s in
      if r = [] then None
      else case (parseIP4 a, parse_prefix (tl r)) of
        (Some ip, Some p) \<Rightarrow> Some (ip AND prefix_mask p, prefix_mask p)
      | _ \<Rightarrow> None)"

section \<open>Reservation operations\<close>

definition ResolveNamespace :: "NameRef \<Rightarrow> string \<Rightarrow> string" where
  "ResolveNamespace ref defaultNamespace =
     (if nr_namespace ref \<noteq> '''' then nr_namespace ref else defaultNamespace)"

text \<open>
  \<^verbatim>\<open>ErrPoolExhausted\<close> and the configuration errors of \<^verbatim>\<open>LeaseRange\<close>. The guard of the derived
  range is kept as the code writes it, on unsigned 32-bit values: \<open>NOT m - 1 < 1\<close>.
\<close>

datatype reserve_error =
    ErrPoolExhausted
  | ErrNoDHCP
  | ErrBadCIDR
  | ErrBadLeaseRange
  | ErrNoUsableHosts

definition LeaseRange :: "Subnet \<Rightarrow> reserve_error + (ip4 \<times> ip4)" where
  "LeaseRange subnet =
     (case sn_dhcp subnet of
        None \<Rightarrow> Inl ErrNoDHCP
      | Some dhcp \<Rightarrow>
          (case parseCIDR4 (sn_cidr subnet) of
             None \<Rightarrow> Inl ErrBadCIDR
           | Some (n, m) \<Rightarrow>
               if sd_leaseRangeStart dhcp \<noteq> '''' \<and> sd_leaseRangeEnd dhcp \<noteq> '''' then
                 (case (parseIP4 (sd_leaseRangeStart dhcp), parseIP4 (sd_leaseRangeEnd dhcp)) of
                    (Some s, Some e) \<Rightarrow> Inr (s, e)
                  | _ \<Rightarrow> Inl ErrBadLeaseRange)
               else if NOT m - 1 < 1 then Inl ErrNoUsableHosts
               else Inr (n + 1, (n OR NOT m) - 1)))"

definition ReservedAddresses :: "Subnet \<Rightarrow> string list" where
  "ReservedAddresses subnet =
     (if sn_bootdServerIP subnet \<noteq> '''' then [sn_bootdServerIP subnet] else []) @
     (case sn_dhcp subnet of
        None \<Rightarrow> []
      | Some dhcp \<Rightarrow> (case sd_gateway dhcp of
          None \<Rightarrow> [] | Some g \<Rightarrow> if g \<noteq> '''' then [g] else []))"

lemma word_step_up:
  fixes v e :: ip4
  assumes "v \<le> e" and "v \<noteq> e"
  shows "unat (v + 1) = Suc (unat v)"
proof -
  have "v < e" using assms by (rule order_le_neq_trans)
  then have "unat v < unat e" by (simp add: word_less_nat_alt)
  moreover have "unat e < 2 ^ 32" using unsigned_less [of e] by simp
  ultimately show ?thesis by (simp add: unat_word_ariths)
qed

text \<open>The loop of \<^verbatim>\<open>nextFree\<close>: it stops at \<open>e\<close> before the counter could wrap.\<close>

function nextFree_from :: "ip4 \<Rightarrow> ip4 \<Rightarrow> string list \<Rightarrow> ip4 option" where
  "nextFree_from v e taken =
     (if v \<le> e then
        (if ip_string v \<notin> set taken then Some v
         else if v = e then None
         else nextFree_from (v + 1) e taken)
      else None)"
  by pat_completeness auto

termination
  by (relation "measure (\<lambda>(v, e, taken). Suc (unat e) - unat v)")
    (auto simp: word_step_up word_le_nat_alt Suc_diff_le)

declare nextFree_from.simps [simp del]

definition nextFree :: "ip4 \<Rightarrow> ip4 \<Rightarrow> string list \<Rightarrow> ip4 option" where
  "nextFree start end taken = nextFree_from start end taken"

definition join_lines :: "string list \<Rightarrow> string" where
  "join_lines ss = (case ss of [] \<Rightarrow> '''' | s # r \<Rightarrow> s @ concat (map (\<lambda>x. CHR 0x0A # x) r))"

definition pair_line :: "DHCPReservation \<Rightarrow> string" where
  "pair_line r = res_machine r @ ''='' @ res_mac r @ ''='' @ res_address r"

definition Revision :: "(string \<Rightarrow> string) \<Rightarrow> DHCPReservation list \<Rightarrow> string" where
  "Revision sha rs = (if rs = [] then '''' else sha (join_lines (sort (map pair_line rs))))"

definition table_of :: "Subnet \<Rightarrow> DHCPReservation list" where
  "table_of subnet = (case sn_dhcpStatus subnet of None \<Rightarrow> [] | Some d \<Rightarrow> reservations d)"

definition put_table :: "(string \<Rightarrow> string) \<Rightarrow> DHCPReservation list \<Rightarrow> Subnet \<Rightarrow> Subnet" where
  "put_table sha rs subnet =
     subnet\<lparr>sn_dhcpStatus := Some
       ((case sn_dhcpStatus subnet of
           None \<Rightarrow> \<lparr>reservations = [], revision = '''', appliedRevision = ''''\<rparr>
         | Some d \<Rightarrow> d)\<lparr>reservations := rs, revision := Revision sha rs\<rparr>)\<rparr>"

definition Reserve ::
  "(string \<Rightarrow> string) \<Rightarrow> Subnet \<Rightarrow> string \<Rightarrow> string \<Rightarrow> time \<Rightarrow> reserve_error + (string \<times> bool \<times> Subnet)" where
  "Reserve sha subnet machineName mac now =
     (case find (\<lambda>r. res_machine r = machineName) (table_of subnet) of
        Some r \<Rightarrow> Inr (res_address r, False, subnet)
      | None \<Rightarrow>
          (case LeaseRange subnet of
             Inl e \<Rightarrow> Inl e
           | Inr (start, end) \<Rightarrow>
               (case nextFree start end (ReservedAddresses subnet @ map res_address (table_of subnet)) of
                  None \<Rightarrow> Inl ErrPoolExhausted
                | Some addr \<Rightarrow>
                    Inr (ip_string addr, True,
                      put_table sha (table_of subnet @
                        [\<lparr>res_address = ip_string addr, res_machine = machineName,
                          res_mac = mac, res_since = now\<rparr>]) subnet))))"

definition Release :: "(string \<Rightarrow> string) \<Rightarrow> Subnet \<Rightarrow> string \<Rightarrow> bool \<times> Subnet" where
  "Release sha subnet machineName =
     (case sn_dhcpStatus subnet of
        None \<Rightarrow> (False, subnet)
      | Some d \<Rightarrow>
          (if \<exists>r\<in>set (reservations d). res_machine r = machineName
           then (True, put_table sha (filter (\<lambda>r. res_machine r \<noteq> machineName) (reservations d)) subnet)
           else (False, subnet)))"

end
