(* ===== verification/Workload.thy ===== *)
theory Workload
  imports Machine_Types
begin

text \<open>
  The Kubernetes workload objects kezio's controllers create: Deployments with one pod template and
  PersistentVolumeClaims, with the fields the controllers set from their own inputs. Fields that are
  the same constant in every object of a kind (resource requests, security profiles, probes, ports)
  are not part of the records.
\<close>

datatype volume_source = EmptyDir | FromPVC string | FromPVCReadOnly string | HostPath string

record volume_mount =
  vm_name :: string
  vm_path :: string
  vm_readOnly :: bool

record container =
  co_name :: string
  co_image :: string
  co_command :: "string list"
  co_args :: "string list"
  co_env :: "(string \<times> string) list"
  co_mounts :: "volume_mount list"

record pod_template =
  pt_labels :: "(string \<times> string) list"
  pt_annotations :: "(string \<times> string) list"
  pt_serviceAccountName :: string
  pt_nodeSelector :: "(string \<times> string) list"
  pt_initContainers :: "container list"
  pt_containers :: "container list"
  pt_volumes :: "(string \<times> volume_source) list"

record deployment_spec =
  ds_replicas :: int
  ds_recreate :: bool
  ds_selector :: "(string \<times> string) list"
  ds_template :: pod_template

text \<open>The owner is the controlling one: kind, name and uid.\<close>

record Deployment =
  dpl_name :: string
  dpl_namespace :: string
  dpl_labels :: "(string \<times> string) list"
  dpl_annotations :: "(string \<times> string) list"
  dpl_deletionTimestamp :: "time option"
  dpl_owner :: "(string \<times> string \<times> uid) option"
  dpl_spec :: deployment_spec
  dpl_conditions :: "condition list"
  dpl_availableReplicas :: int

record PVC =
  pvc_name :: string
  pvc_namespace :: string
  pvc_labels :: "(string \<times> string) list"
  pvc_owner :: "(string \<times> string \<times> uid) option"
  pvc_accessModes :: "string list"
  pvc_bytes :: int
  pvc_storageClass :: "string option"

text \<open>A Job of one pod that is not retried (a backoff limit of 0), with the counters of its status.\<close>

record Job =
  job_name :: string
  job_namespace :: string
  job_labels :: "(string \<times> string) list"
  job_owner :: "(string \<times> string \<times> uid) option"
  job_ttlSeconds :: int
  job_privileged :: bool
  job_template :: pod_template
  job_succeeded :: int
  job_failed :: int

definition job_key :: "Job \<Rightarrow> key" where
  "job_key j = (job_namespace j, job_name j)"

text \<open>\<^verbatim>\<open>metav1.IsControlledBy\<close>.\<close>

definition controlled_by :: "(string \<times> string \<times> uid) option \<Rightarrow> uid \<Rightarrow> bool" where
  "controlled_by owner uid \<longleftrightarrow> (case owner of None \<Rightarrow> False | Some (_, _, u) \<Rightarrow> u = uid)"

definition dpl_key :: "Deployment \<Rightarrow> key" where
  "dpl_key d = (dpl_namespace d, dpl_name d)"

definition pvc_key :: "PVC \<Rightarrow> key" where
  "pvc_key p = (pvc_namespace p, pvc_name p)"

end
