(* ===== verification/Kube.thy ===== *)
theory Kube
  imports Subnet_Dhcp Workload
begin

text \<open>
  What the machine plane's handlers depend on and what they leave behind.

  The Kubernetes API server, the helper packages of apimachinery and controller-runtime, the
  board management controller and the source of randomness are not part of this repository:
  they are the fields of the records below, passed to every definition that calls them. The
  server state \<open>'s\<close> is abstract; a request may fail in any way and change it in any way.
  What a property needs of them is a named hypothesis stated at the end of this theory.

  A \<open>world\<close> pairs the server state with the trace of the requests made so far, in order, each
  with whether it succeeded. The trace is the observable behaviour of a handler: properties
  that hold of every server are stated over it.
\<close>

section \<open>Steps of the deployer contract\<close>

datatype Outcome = OutcomeInvalid int | Complete | Continuing | Busy | Failed | Delayed

record Result =
  outcome :: Outcome
  res_requeueAfter :: duration
  res_errorType :: MachineErrorType
  res_errorMessage :: string

abbreviation result_of :: "Outcome \<Rightarrow> Result" where
  "result_of oc \<equiv> \<lparr>outcome = oc, res_requeueAfter = 0, res_errorType = ErrNone, res_errorMessage = ''''\<rparr>"

datatype deployer_step = StepInspect | StepProvision | StepDeprovision | StepPowerOff | StepReboot bool

datatype bmc_action = BmcPowerOn | BmcPowerOff | BmcForcePowerOff | BmcPowerCycle | BmcGetPowerState | BmcSetOneTimePXEBoot

datatype power_state = PowerStateOn | PowerStateOff | PowerStateUnknown

section \<open>The trace\<close>

datatype call =
    GetMachine key
  | GetClaim key
  | GetImage key
  | GetRun key
  | GetSecret key
  | GetHardware key
  | GetSubnet key
  | ListRuns string
  | ListMachines string        \<comment> \<open>in a namespace, every one for the empty string\<close>
  | ListByTokenHash string     \<comment> \<open>the field index on the boot token hash\<close>
  | ListBySessionHash string   \<comment> \<open>the field index on the session token hash\<close>
  | ListClaims string
  | UpdateMachine Machine
  | PatchMachine Machine
  | ClearClaimRef key          \<comment> \<open>merge patch that sets spec.claimRef to null\<close>
  | UpdateClaim MachineClaim
  | UpdateClaimStatus MachineClaim
  | ApplyStatus Machine        \<comment> \<open>applyMachineStatus: Server-Side Apply of the whole status\<close>
  | MergeStatus Machine        \<comment> \<open>recordTriedCredentials: merge patch of the status\<close>
  | UpdateMachineStatus Machine \<comment> \<open>the deployer's status update\<close>
  | CreateRun DeployRun
  | UpdateRunStatus DeployRun
  | CreateHardware MachineHardware
  | UpdateHardware MachineHardware
  | DeleteHardware key
  | PatchSecret Secret
  | UpdateSecret Secret
  | WriteSecret Secret
  | UpdateSubnetStatus Subnet
  | GetSite key
  | GetNAD key                 \<comment> \<open>a NetworkAttachmentDefinition of Multus\<close>
  | GetNamespace string
  | GetServiceAccount key
  | GetDeployment key
  | ListSubnets string         \<comment> \<open>in a namespace, every one for the empty string\<close>
  | ListDeployments string
  | CreateDeployment Deployment
  | UpdateDeployment Deployment
  | PatchDeployment Deployment \<comment> \<open>merge patch against the object read\<close>
  | DeleteDeployment key
  | GetPVC key
  | CreatePVC PVC
  | GetJob key
  | CreateJob Job
  | DeleteJob key
  | ListPods key               \<comment> \<open>the pods of a Job\<close>
  | GetContent key
  | CreateContent PartitionContent
  | UpdateContent PartitionContent
  | PatchContent PartitionContent
  | ApplyContentStatus PartitionContent
  | ListImages key             \<comment> \<open>the field index on slot contentRef names, in a namespace\<close>
  | ListClaimsByImage key      \<comment> \<open>the field index on a claim's image references\<close>
  | CreateImage Image
  | ApplyImageStatus Image
  | GetImport key
  | ApplyImportStatus ImageImport
  | DeleteImport key
  | Event string
  | GiveUpMetric string
  | DeployerCall deployer_step
  | BmcConnect string
  | BmcCall bmc_action
  | MintToken string
  | BuildPlan

type_synonym trace = "(call \<times> bool) list"

record 's world =
  srv :: 's
  trace :: trace

type_synonym ('s, 'a) act = "('s world, 'a) kio"

definition kcall :: "call \<Rightarrow> ('s \<Rightarrow> (kerr + 'a) \<times> 's) \<Rightarrow> ('s, 'a) act" where
  "kcall c op = (\<lambda>w. case op (srv w) of
     (r, s') \<Rightarrow> (r, w\<lparr>srv := s', trace := trace w @ [(c, \<not> isl r)]\<rparr>))"

definition note_call :: "call \<Rightarrow> ('s, unit) act" where
  "note_call c = (\<lambda>w. (Inr (), w\<lparr>trace := trace w @ [(c, True)]\<rparr>))"

fun note_calls :: "call list \<Rightarrow> ('s, unit) act" where
  "note_calls [] = ret ()"
| "note_calls (c # cs) = bindK (note_call c) (\<lambda>_. note_calls cs)"

text \<open>\<^verbatim>\<open>client.IgnoreNotFound\<close> and the many \<^verbatim>\<open>if apierrors.IsNotFound(err)\<close> branches.\<close>

definition getOpt :: "('s, 'a) act \<Rightarrow> ('s, 'a option) act" where
  "getOpt m = bindK (attempt m) (\<lambda>r. case r of
       Inl e \<Rightarrow> if isNotFound e then ret None else raise e
     | Inr x \<Rightarrow> ret (Some x))"

section \<open>The parameters\<close>

record 's kube =
  k_getMachine :: "key \<Rightarrow> 's \<Rightarrow> (kerr + Machine) \<times> 's"
  k_getClaim :: "key \<Rightarrow> 's \<Rightarrow> (kerr + MachineClaim) \<times> 's"
  k_getImage :: "key \<Rightarrow> 's \<Rightarrow> (kerr + Image) \<times> 's"
  k_getRun :: "key \<Rightarrow> 's \<Rightarrow> (kerr + DeployRun) \<times> 's"
  k_getSecret :: "key \<Rightarrow> 's \<Rightarrow> (kerr + Secret) \<times> 's"
  k_getHardware :: "key \<Rightarrow> 's \<Rightarrow> (kerr + MachineHardware) \<times> 's"
  k_getSubnet :: "key \<Rightarrow> 's \<Rightarrow> (kerr + Subnet) \<times> 's"
  k_listRuns :: "string \<Rightarrow> 's \<Rightarrow> (kerr + DeployRun list) \<times> 's"
  k_updateMachine :: "Machine \<Rightarrow> 's \<Rightarrow> (kerr + Machine) \<times> 's"
  k_patchMachine :: "Machine \<Rightarrow> 's \<Rightarrow> (kerr + Machine) \<times> 's"
  k_applyStatus :: "Machine \<Rightarrow> 's \<Rightarrow> (kerr + Machine) \<times> 's"
  k_mergeStatus :: "Machine \<Rightarrow> 's \<Rightarrow> (kerr + Machine) \<times> 's"
  k_updateMachineStatus :: "Machine \<Rightarrow> 's \<Rightarrow> (kerr + Machine) \<times> 's"
  k_createRun :: "DeployRun \<Rightarrow> 's \<Rightarrow> (kerr + DeployRun) \<times> 's"
  k_updateRunStatus :: "DeployRun \<Rightarrow> 's \<Rightarrow> (kerr + DeployRun) \<times> 's"
  k_deleteHardware :: "key \<Rightarrow> 's \<Rightarrow> (kerr + unit) \<times> 's"
  k_patchSecret :: "Secret \<Rightarrow> 's \<Rightarrow> (kerr + Secret) \<times> 's"
  k_updateSecret :: "Secret \<Rightarrow> 's \<Rightarrow> (kerr + Secret) \<times> 's"
  k_writeSecret :: "Secret \<Rightarrow> 's \<Rightarrow> (kerr + Secret) \<times> 's"
  k_updateSubnetStatus :: "Subnet \<Rightarrow> 's \<Rightarrow> (kerr + Subnet) \<times> 's"
  k_listMachines :: "string \<Rightarrow> 's \<Rightarrow> (kerr + Machine list) \<times> 's"
  k_listByTokenHash :: "string \<Rightarrow> 's \<Rightarrow> (kerr + Machine list) \<times> 's"
  k_listBySessionHash :: "string \<Rightarrow> 's \<Rightarrow> (kerr + Machine list) \<times> 's"
  k_listClaims :: "string \<Rightarrow> 's \<Rightarrow> (kerr + MachineClaim list) \<times> 's"
  k_clearClaimRef :: "key \<Rightarrow> 's \<Rightarrow> (kerr + Machine) \<times> 's"
  k_updateClaim :: "MachineClaim \<Rightarrow> 's \<Rightarrow> (kerr + MachineClaim) \<times> 's"
  k_updateClaimStatus :: "MachineClaim \<Rightarrow> 's \<Rightarrow> (kerr + MachineClaim) \<times> 's"
  k_createHardware :: "MachineHardware \<Rightarrow> 's \<Rightarrow> (kerr + MachineHardware) \<times> 's"
  k_updateHardware :: "MachineHardware \<Rightarrow> 's \<Rightarrow> (kerr + MachineHardware) \<times> 's"

text \<open>
  \<open>libs\<close>: \<^verbatim>\<open>meta.IsStatusConditionTrue\<close>, \<^verbatim>\<open>FindStatusCondition\<close>, \<^verbatim>\<open>SetStatusCondition\<close>,
  \<^verbatim>\<open>RemoveStatusCondition\<close>; \<^verbatim>\<open>controllerutil.ContainsFinalizer\<close>, \<^verbatim>\<open>AddFinalizer\<close>,
  \<^verbatim>\<open>RemoveFinalizer\<close> (the returned flag says whether the list changed), \<^verbatim>\<open>HasOwnerReference\<close>,
  \<^verbatim>\<open>SetOwnerReference\<close>, \<^verbatim>\<open>SetControllerReference\<close>.
\<close>

record libs =
  isStatusConditionTrue :: "condition list \<Rightarrow> string \<Rightarrow> bool"
  findStatusCondition :: "condition list \<Rightarrow> string \<Rightarrow> condition option"
  setStatusCondition :: "condition list \<Rightarrow> condition \<Rightarrow> condition list"
  removeStatusCondition :: "condition list \<Rightarrow> string \<Rightarrow> condition list"
  containsFinalizer :: "string list \<Rightarrow> string \<Rightarrow> bool"
  addFinalizer :: "string list \<Rightarrow> string \<Rightarrow> bool \<times> string list"
  removeFinalizer :: "string list \<Rightarrow> string \<Rightarrow> bool \<times> string list"
  hasOwnerReference :: "(string \<times> uid) list \<Rightarrow> Machine \<Rightarrow> kerr + bool"
  setOwnerReference :: "Machine \<Rightarrow> Secret \<Rightarrow> kerr + Secret"
  setControllerReference :: "Machine \<Rightarrow> DeployRun \<Rightarrow> kerr + DeployRun"

record snapshot =
  sp_resolvedDisks :: "DeployRunResolvedDisk list"
  sp_hooksHash :: string

text \<open>The two entry points of \<^verbatim>\<open>planbuild.Builder\<close> the machine plane calls.\<close>

record 's builder =
  b_build :: "Machine \<Rightarrow> MachineClaim option \<Rightarrow> DeployRun \<Rightarrow> 's \<Rightarrow> (kerr + snapshot) \<times> 's"
  b_buildSnapshot :: "Machine \<Rightarrow> MachineClaim option \<Rightarrow> 's \<Rightarrow> (kerr + snapshot) \<times> 's"

text \<open>
  The \<^verbatim>\<open>Deployer\<close> interface. A step works on the reconciler's own Machine pointer, so it returns
  the object as it left it beside its result.
\<close>

record 's deployer =
  d_inspect :: "Machine \<Rightarrow> bool \<Rightarrow> ('s, Machine \<times> Result) act"
  d_provision :: "Machine \<Rightarrow> DeployRun \<Rightarrow> bool \<Rightarrow> ('s, Machine \<times> Result) act"
  d_deprovision :: "Machine \<Rightarrow> bool \<Rightarrow> ('s, Machine \<times> Result) act"
  d_powerOff :: "Machine \<Rightarrow> ('s, Machine \<times> Result) act"
  d_reboot :: "Machine \<Rightarrow> bool \<Rightarrow> ('s, Machine \<times> Result) act"

text \<open>
  A reconciler's environment: the client, the helper packages, the package variable \<^verbatim>\<open>jitter\<close>
  (random), \<^verbatim>\<open>time.Now\<close> as read in this pass, the JSON decoder's verdict on a reboot annotation
  (\<open>None\<close> an error, else the decoded mode), the deployer and the optional plan builder.
\<close>

record 's env =
  kube :: "'s kube"
  lib :: libs
  jitter :: "duration \<Rightarrow> duration"
  now :: time
  rebootJSON :: "string \<Rightarrow> string option"
  deployer :: "'s deployer"
  builder :: "'s builder option"

record ctrl_result =
  requeue :: bool
  requeueAfter :: duration

abbreviation noRequeue :: ctrl_result where
  "noRequeue \<equiv> \<lparr>requeue = False, requeueAfter = 0\<rparr>"
abbreviation requeueNow :: ctrl_result where
  "requeueNow \<equiv> \<lparr>requeue = True, requeueAfter = 0\<rparr>"
abbreviation requeueIn :: "duration \<Rightarrow> ctrl_result" where
  "requeueIn d \<equiv> \<lparr>requeue = False, requeueAfter = d\<rparr>"

definition second :: duration where
  "second = 1000000000"

text \<open>A creation that is answered with AlreadyExists is taken for done.\<close>

definition create_or_exists :: "string \<Rightarrow> ('s, 'a) act \<Rightarrow> ('s, unit) act" where
  "create_or_exists ctx m =
     bindK (attempt m) (\<lambda>x. case x of Inr _ \<Rightarrow> ret () | Inl e \<Rightarrow> if isAlreadyExists e then ret () else raise (Wrapped ctx e))"

definition minute :: duration where
  "minute = 60 * second"

section \<open>The call-trace judgement\<close>

text \<open>
  \<open>kspec P R m\<close>: whatever the server answers, every request \<open>m\<close> makes satisfies \<open>P\<close>, and a value
  it returns satisfies \<open>R\<close>. The rules below decompose it along the structure of a handler.
\<close>

definition kspec :: "(call \<Rightarrow> bool) \<Rightarrow> ('a \<Rightarrow> bool) \<Rightarrow> ('s, 'a) act \<Rightarrow> bool" where
  "kspec P R m \<longleftrightarrow> (\<forall>w. \<exists>cs. trace (snd (m w)) = trace w @ cs \<and> (\<forall>c\<in>set cs. P (fst c)) \<and>
     (\<forall>x. fst (m w) = Inr x \<longrightarrow> R x))"

lemma kspec_ret [kspec_intros]: "R x \<Longrightarrow> kspec P R (ret x)"
  by (simp add: kspec_def ret_def)

lemma kspec_raise [kspec_intros]: "kspec P R (raise e)"
  by (simp add: kspec_def raise_def)

lemma kspec_kcall:
  assumes "P c" and "\<And>s x s'. op s = (Inr x, s') \<Longrightarrow> R x"
  shows "kspec P R (kcall c op)"
  using assms by (fastforce simp: kspec_def kcall_def split: prod.splits)

lemma kspec_note_call: "P c \<Longrightarrow> R () \<Longrightarrow> kspec P R (note_call c)"
  by (simp add: kspec_def note_call_def)

lemma kspec_bind:
  assumes m: "kspec P Q m" and f: "\<And>x. Q x \<Longrightarrow> kspec P R (f x)"
  shows "kspec P R (bindK m f)"
  unfolding kspec_def
proof
  fix w
  obtain r w' where mw: "m w = (r, w')" by fastforce
  from m obtain cs where cs: "trace w' = trace w @ cs" "\<forall>c\<in>set cs. P (fst c)" "\<forall>x. r = Inr x \<longrightarrow> Q x"
    unfolding kspec_def by (metis fst_conv mw snd_conv)
  show "\<exists>cs. trace (snd (bindK m f w)) = trace w @ cs \<and> (\<forall>c\<in>set cs. P (fst c)) \<and>
      (\<forall>x. fst (bindK m f w) = Inr x \<longrightarrow> R x)"
  proof (cases r)
    case (Inl e)
    with cs mw show ?thesis by (simp add: bindK_def)
  next
    case (Inr x)
    with cs have "Q x" by simp
    from f [OF this] obtain ds where "trace (snd (f x w')) = trace w' @ ds" "\<forall>c\<in>set ds. P (fst c)"
      "\<forall>y. fst (f x w') = Inr y \<longrightarrow> R y"
      unfolding kspec_def by metis
    with cs mw Inr show ?thesis by (intro exI [of _ "cs @ ds"]) (auto simp: bindK_def)
  qed
qed

lemma kspec_wrap: "kspec P R m \<Longrightarrow> kspec P R (wrapK c m)"
  by (simp add: kspec_def)

lemma kspec_attempt: "kspec P R m \<Longrightarrow> kspec P (\<lambda>r. \<forall>x. r = Inr x \<longrightarrow> R x) (attempt m)"
  unfolding kspec_def by (simp, metis attempt_value)

lemma kspec_weaken: "kspec P R m \<Longrightarrow> (\<And>c. P c \<Longrightarrow> P' c) \<Longrightarrow> (\<And>x. R x \<Longrightarrow> R' x) \<Longrightarrow> kspec P' R' m"
  unfolding kspec_def by meson

lemma kspec_getOpt:
  assumes "kspec P R m"
  shows "kspec P (\<lambda>r. \<forall>x. r = Some x \<longrightarrow> R x) (getOpt m)"
  unfolding getOpt_def
  by (rule kspec_bind [OF kspec_attempt [OF assms]])
    (auto split: sum.splits intro: kspec_ret kspec_raise)

lemma kspec_if [kspec_intros]: "(b \<Longrightarrow> kspec P R m) \<Longrightarrow> (\<not> b \<Longrightarrow> kspec P R n) \<Longrightarrow> kspec P R (if b then m else n)"
  by simp

lemma kspec_note_calls: "(\<And>c. c \<in> set cs \<Longrightarrow> P c) \<Longrightarrow> kspec P (\<lambda>_. True) (note_calls cs)"
proof (induction cs)
  case Nil
  show ?case by (simp add: kspec_ret)
next
  case (Cons c cs)
  show ?case
    using Cons by (simp add: kspec_bind [OF kspec_note_call [where R = "\<lambda>_. True"]])
qed

lemma kspec_case_option: "(x = None \<Longrightarrow> kspec P R a) \<Longrightarrow> (\<And>y. x = Some y \<Longrightarrow> kspec P R (f y)) \<Longrightarrow> kspec P R (case x of None \<Rightarrow> a | Some y \<Rightarrow> f y)"
  by (cases x) auto

lemma kspec_case_sum: "(\<And>e. kspec P R (f e)) \<Longrightarrow> (\<And>y. kspec P R (g y)) \<Longrightarrow> kspec P R (case x of Inl e \<Rightarrow> f e | Inr y \<Rightarrow> g y)"
  by (cases x) auto

lemma kspec_case_prod: "(\<And>a b. kspec P R (f a b)) \<Longrightarrow> kspec P R (case x of (a, b) \<Rightarrow> f a b)"
  by (cases x) auto

lemma kspec_let: "kspec P R (f x) \<Longrightarrow> kspec P R (let y = x in f y)"
  by simp

text \<open>The rules for a handler whose intermediate values do not matter.\<close>

lemma kspec_bindT: "kspec P (\<lambda>_. True) m \<Longrightarrow> (\<And>x. kspec P R (f x)) \<Longrightarrow> kspec P R (bindK m f)"
  by (rule kspec_bind)

lemma kspec_callT: "P c \<Longrightarrow> kspec P (\<lambda>_. True) (kcall c op)"
  by (rule kspec_kcall) auto

lemma kspec_attemptT: "kspec P (\<lambda>_. True) m \<Longrightarrow> kspec P (\<lambda>_. True) (attempt m)"
  by (rule kspec_weaken [OF kspec_attempt]) auto

lemma kspec_getOptT: "kspec P (\<lambda>_. True) m \<Longrightarrow> kspec P (\<lambda>_. True) (getOpt m)"
  by (rule kspec_weaken [OF kspec_getOpt]) auto

lemmas quiet_intros = kspec_ret kspec_raise kspec_if kspec_case_option kspec_case_sum kspec_case_prod kspec_let
  kspec_bindT kspec_callT kspec_attemptT kspec_getOptT kspec_wrap TrueI

text \<open>A judgement gives the fact about a whole run.\<close>

lemma kspec_runD:
  assumes "kspec P R m" and "m w = (r, w')"
  shows "\<exists>cs. trace w' = trace w @ cs \<and> (\<forall>c\<in>set cs. P (fst c))" and "r = Inr x \<Longrightarrow> R x"
  using assms unfolding kspec_def by (metis fst_conv snd_conv)+

text \<open>The requests an action makes when it is run in a world.\<close>

definition calls_of :: "('s, 'a) act \<Rightarrow> 's world \<Rightarrow> trace" where
  "calls_of m w = drop (length (trace w)) (trace (snd (m w)))"

lemma kspec_calls:
  assumes "kspec P R m" and "(c, ok) \<in> set (calls_of m w)"
  shows "P c"
proof -
  obtain cs where "trace (snd (m w)) = trace w @ cs" "\<forall>c\<in>set cs. P (fst c)"
    using assms(1) unfolding kspec_def by metis
  with assms(2) show ?thesis by (force simp: calls_of_def)
qed

lemma kspec_value: "kspec P R m \<Longrightarrow> fst (m w) = Inr x \<Longrightarrow> R x"
  unfolding kspec_def by blast

section \<open>Documented behaviour of the parameters\<close>

text \<open>
  \<open>meta_laws\<close>: the condition helpers of apimachinery, as documented. \<open>finalizer_laws\<close>: the
  finalizer helpers of controller-runtime. \<open>owner_laws\<close>: setting an owner reference changes
  metadata only.
\<close>

definition meta_laws :: "libs \<Rightarrow> bool" where
  "meta_laws L \<longleftrightarrow>
     (\<forall>cs c. isStatusConditionTrue L (setStatusCondition L cs c) (c_type c) = (c_status c = CondTrue)) \<and>
     (\<forall>cs c t. t \<noteq> c_type c \<longrightarrow>
        isStatusConditionTrue L (setStatusCondition L cs c) t = isStatusConditionTrue L cs t) \<and>
     (\<forall>cs t. \<not> isStatusConditionTrue L (removeStatusCondition L cs t) t) \<and>
     (\<forall>cs t t'. t' \<noteq> t \<longrightarrow>
        isStatusConditionTrue L (removeStatusCondition L cs t) t' = isStatusConditionTrue L cs t')"

lemma meta_lawsD:
  assumes "meta_laws L"
  shows "isStatusConditionTrue L (setStatusCondition L cs c) t =
      (if t = c_type c then c_status c = CondTrue else isStatusConditionTrue L cs t)"
    and "isStatusConditionTrue L (removeStatusCondition L cs t) t' =
      (t' \<noteq> t \<and> isStatusConditionTrue L cs t')"
  using assms unfolding meta_laws_def by (metis (full_types))+

definition finalizer_laws :: "libs \<Rightarrow> bool" where
  "finalizer_laws L \<longleftrightarrow>
     (\<forall>fs f. containsFinalizer L fs f = (f \<in> set fs)) \<and>
     (\<forall>fs f. addFinalizer L fs f = (f \<notin> set fs, if f \<in> set fs then fs else fs @ [f])) \<and>
     (\<forall>fs f. removeFinalizer L fs f = (f \<in> set fs, filter (\<lambda>g. g \<noteq> f) fs))"

definition owner_laws :: "libs \<Rightarrow> bool" where
  "owner_laws L \<longleftrightarrow> (\<forall>m r r'. setControllerReference L m r = Inr r' \<longrightarrow> r_spec r' = r_spec r)"

end
