(* ===== verification/Machine_Annotations.thy ===== *)
theory Machine_Annotations
  imports Kube
begin

text \<open>
  internal/controller/machine_annotations.go and machine_claim_intent.go: what the operational
  annotations of a Machine ask for, and the deploy intent its claim carries.
\<close>

section \<open>Annotations\<close>

definition hasAnnotation :: "Machine \<Rightarrow> string \<Rightarrow> bool" where
  "hasAnnotation m k \<longleftrightarrow> map_of (m_annotations m) k \<noteq> None"

definition isPaused :: "Machine \<Rightarrow> bool" where
  "isPaused m \<longleftrightarrow> hasAnnotation m MachineAnnotationPaused"

definition isDetached :: "Machine \<Rightarrow> bool" where
  "isDetached m \<longleftrightarrow> hasAnnotation m MachineAnnotationDetached"

definition annotationValueTrue :: string where
  "annotationValueTrue = ''true''"

definition reInspectRequested :: "Machine \<Rightarrow> bool" where
  "reInspectRequested m \<longleftrightarrow> hasAnnotation m MachineAnnotationReInspect"

definition clearErrorRequested :: "Machine \<Rightarrow> bool" where
  "clearErrorRequested m \<longleftrightarrow> hasAnnotation m MachineAnnotationClearError"

definition inspectDisabled :: "Machine \<Rightarrow> bool" where
  "inspectDisabled m \<longleftrightarrow> map_of (m_annotations m) MachineAnnotationInspectDisable = Some annotationValueTrue"

definition isRebootAnnotationKey :: "string \<Rightarrow> bool" where
  "isRebootAnnotationKey k \<longleftrightarrow>
     k = MachineAnnotationRebootPrefix \<or> hasPrefix k (MachineAnnotationRebootPrefix @ ''-'')"

definition parseRebootAnnotation :: "'s env \<Rightarrow> string \<Rightarrow> kerr + string" where
  "parseRebootAnnotation env value =
     (if value = '''' then Inr ''soft''
      else case rebootJSON env value of
        None \<Rightarrow> Inl (PlainError ''invalid reboot annotation'')
      | Some mode \<Rightarrow> Inr mode)"

fun reboot_scan :: "'s env \<Rightarrow> (string \<times> string) list \<Rightarrow> bool \<times> bool \<Rightarrow> bool \<times> bool" where
  "reboot_scan env [] acc = acc"
| "reboot_scan env ((k, v) # kvs) (requested, hard) =
     (if \<not> isRebootAnnotationKey k then reboot_scan env kvs (requested, hard)
      else case parseRebootAnnotation env v of
        Inl _ \<Rightarrow> reboot_scan env kvs (True, hard)
      | Inr mode \<Rightarrow> reboot_scan env kvs (True, hard \<or> mode = ''hard''))"

definition rebootRequested :: "'s env \<Rightarrow> Machine \<Rightarrow> bool \<times> bool" where
  "rebootRequested env m = reboot_scan env (m_annotations m) (False, False)"

definition dropAnnotation :: "string \<Rightarrow> Machine \<Rightarrow> Machine" where
  "dropAnnotation k m = m\<lparr>m_annotations := alist_delete k (m_annotations m)\<rparr>"

definition putAnnotation :: "string \<Rightarrow> string \<Rightarrow> Machine \<Rightarrow> Machine" where
  "putAnnotation k v m = m\<lparr>m_annotations := alist_put k v (m_annotations m)\<rparr>"

definition patchMachine :: "'s env \<Rightarrow> Machine \<Rightarrow> ('s, Machine) act" where
  "patchMachine env m = kcall (PatchMachine m) (k_patchMachine (kube env) m)"

definition consumeAnnotation :: "'s env \<Rightarrow> string \<Rightarrow> string \<Rightarrow> Machine \<Rightarrow> ('s, Machine) act" where
  "consumeAnnotation env k ctx m = wrapK ctx (patchMachine env (dropAnnotation k m))"

definition clearSuffixlessRebootAnnotation :: "'s env \<Rightarrow> Machine \<Rightarrow> ('s, Machine) act" where
  "clearSuffixlessRebootAnnotation env m =
     (if \<not> hasAnnotation m MachineAnnotationRebootPrefix then ret m
      else wrapK ''clearing suffixless reboot annotation''
        (patchMachine env (dropAnnotation MachineAnnotationRebootPrefix m)))"

section \<open>Claim intent\<close>

definition resolveClaimIntent :: "'s kube \<Rightarrow> Machine \<Rightarrow> ('s, MachineClaim option) act" where
  "resolveClaimIntent k m =
     (case ms_claimRef (m_spec m) of
        None \<Rightarrow> ret None
      | Some ref \<Rightarrow>
          bindK (getOpt (kcall (GetClaim (cr_namespace ref, cr_name ref))
                   (k_getClaim k (cr_namespace ref, cr_name ref))))
            (\<lambda>r. case r of
               None \<Rightarrow> ret None
             | Some claim \<Rightarrow> if cl_uid claim \<noteq> cr_uid ref then ret None else ret (Some claim)))"

definition claimUnresolved :: "Machine \<Rightarrow> MachineClaim option \<Rightarrow> bool" where
  "claimUnresolved m claim \<longleftrightarrow> ms_claimRef (m_spec m) \<noteq> None \<and> claim = None"

definition claimUnresolvedMessage :: "Machine \<Rightarrow> string" where
  "claimUnresolvedMessage m =
     (case ms_claimRef (m_spec m) of
        None \<Rightarrow> ''''
      | Some ref \<Rightarrow> ''claimRef names MachineClaim '' @ cr_namespace ref @ ''/'' @ cr_name ref @
          '' (uid '' @ cr_uid ref @ ''), which does not exist or was recreated with a different uid'')"

text \<open>conditionObservedGenerationStale of crossref.go.\<close>

definition conditionObservedGenerationStale :: "condition option \<Rightarrow> int \<Rightarrow> bool" where
  "conditionObservedGenerationStale cond generation \<longleftrightarrow>
     (case cond of None \<Rightarrow> False | Some c \<Rightarrow> c_observedGeneration c \<noteq> generation)"

section \<open>Facts\<close>

lemma reboot_scan_spec:
  "reboot_scan env kvs (r, h) =
     (r \<or> (\<exists>(k, v)\<in>set kvs. isRebootAnnotationKey k),
      h \<or> (\<exists>(k, v)\<in>set kvs. isRebootAnnotationKey k \<and> parseRebootAnnotation env v = Inr ''hard''))"
  by (induction env kvs "(r, h)" arbitrary: r h rule: reboot_scan.induct) (auto split: sum.splits)

lemma hasAnnotation_drop [simp]: "hasAnnotation (dropAnnotation k m) k' \<longleftrightarrow> k' \<noteq> k \<and> hasAnnotation m k'"
  by (simp add: hasAnnotation_def dropAnnotation_def)

lemma dropAnnotation_frame [simp]:
  "m_status (dropAnnotation k m) = m_status m"
  "m_spec (dropAnnotation k m) = m_spec m"
  "m_name (dropAnnotation k m) = m_name m"
  "m_namespace (dropAnnotation k m) = m_namespace m"
  by (simp_all add: dropAnnotation_def)

end
