(* ===== verification/Machine_Controller.thy ===== *)
theory Machine_Controller
  imports Machine_Annotations
begin

text \<open>
  internal/controller/machine_controller.go: the Machine reconciler, function by function.
  \<open>Reconcile\<close> is one pass of the control loop for one Machine. A Go method that mutates its
  \<^verbatim>\<open>*Machine\<close> argument takes the object and, where the caller goes on with it, returns it: after a
  write it is the object the server answered with, as with controller-runtime's client. The
  error contexts keep the fixed text of the \<^verbatim>\<open>fmt.Errorf\<close> format without the object's name.
\<close>

section \<open>Intervals and limits\<close>

definition continuingRequeueInterval :: duration where
  "continuingRequeueInterval = second"
definition defaultBusyRequeueInterval :: duration where
  "defaultBusyRequeueInterval = 10 * second"
definition failedRequeueInterval :: duration where
  "failedRequeueInterval = 30 * second"
definition delayedRequeueInterval :: duration where
  "delayedRequeueInterval = 15 * second"
definition credentialsSecretAbsentRequeueInterval :: duration where
  "credentialsSecretAbsentRequeueInterval = 10 * second"
definition deleteStageMaxErrorCount :: int where
  "deleteStageMaxErrorCount = 3"
definition maxRestartFailures :: int where
  "maxRestartFailures = 3"

section \<open>Status updates in memory\<close>

definition stampLastUpdated :: "'s env \<Rightarrow> Machine \<Rightarrow> Machine" where
  "stampLastUpdated env m = upd_status (lastUpdated_update (\<lambda>_. Some (now env))) m"

definition markOperational :: "Machine \<Rightarrow> Machine" where
  "markOperational m =
     upd_status (\<lambda>st. st\<lparr>operationalStatus := OpOK, errorType := ErrNone, errorMessage := ''''\<rparr>) m"

definition applyFailure :: "MachineErrorType \<Rightarrow> string \<Rightarrow> Machine \<Rightarrow> Machine" where
  "applyFailure et msg m =
     upd_status (\<lambda>st. st\<lparr>operationalStatus := OpError, errorType := et, errorMessage := msg,
       errorCount := wrap32 (errorCount st + 1),
       restartCount := (if et = Restart then wrap32 (restartCount st + 1) else restartCount st)\<rparr>) m"

definition setCondition :: "'s env \<Rightarrow> condition \<Rightarrow> Machine \<Rightarrow> Machine" where
  "setCondition env c m =
     upd_status (\<lambda>st. st\<lparr>conditions := setStatusCondition (lib env) (conditions st) c\<rparr>) m"

definition removeCondition :: "'s env \<Rightarrow> string \<Rightarrow> Machine \<Rightarrow> Machine" where
  "removeCondition env t m =
     upd_status (\<lambda>st. st\<lparr>conditions := removeStatusCondition (lib env) (conditions st) t\<rparr>) m"

definition resetCounts :: "Machine \<Rightarrow> Machine" where
  "resetCounts m = upd_status (\<lambda>st. st\<lparr>errorCount := 0, restartCount := 0\<rparr>) m"

definition conditionTrue :: "'s env \<Rightarrow> Machine \<Rightarrow> string \<Rightarrow> bool" where
  "conditionTrue env m t \<longleftrightarrow> isStatusConditionTrue (lib env) (conditions (m_status m)) t"

definition statusLossHeld :: "'s env \<Rightarrow> Machine \<Rightarrow> bool" where
  "statusLossHeld env m \<longleftrightarrow> conditionTrue env m MachineConditionStatusLossHold"

definition retryHeld :: "'s env \<Rightarrow> Machine \<Rightarrow> bool" where
  "retryHeld env m \<longleftrightarrow> conditionTrue env m MachineConditionRetryHeld"

definition restartOnFailure :: "Machine \<Rightarrow> bool" where
  "restartOnFailure m \<longleftrightarrow>
     operationalStatus (m_status m) = OpError \<and> errorType (m_status m) = Restart"

definition releaseEligible :: "MachineState \<Rightarrow> bool" where
  "releaseEligible s \<longleftrightarrow> s = Provisioning \<or> s = Provisioned"

definition hasUnknownErrorType :: "Machine \<Rightarrow> bool" where
  "hasUnknownErrorType m \<longleftrightarrow>
     operationalStatus (m_status m) = OpError \<and>
     (case errorType (m_status m) of ErrNone \<Rightarrow> False | Transient \<Rightarrow> False | Restart \<Rightarrow> False | ErrOther _ \<Rightarrow> True)"

section \<open>Status writes\<close>

definition applyMachineStatus :: "'s env \<Rightarrow> Machine \<Rightarrow> call list \<Rightarrow> ('s, Machine) act" where
  "applyMachineStatus env m onSuccess =
     bindK (kcall (ApplyStatus m) (k_applyStatus (kube env) m))
       (\<lambda>m'. bindK (note_calls onSuccess) (\<lambda>_. ret m'))"

definition setState :: "'s env \<Rightarrow> Machine \<Rightarrow> MachineState \<Rightarrow> call list \<Rightarrow> ('s, ctrl_result) act" where
  "setState env m s onSuccess =
     bindK (wrapK ''setting status.state'' (applyMachineStatus env
        (stampLastUpdated env
          (removeCondition env MachineConditionRetryHeld
            (removeCondition env MachineConditionStatusLossHold
              (resetCounts (markOperational (upd_status (state_update (\<lambda>_. s)) m)))))) onSuccess))
       (\<lambda>_. ret requeueNow)"

definition markDelayed :: "'s env \<Rightarrow> Machine \<Rightarrow> duration \<Rightarrow> ('s, ctrl_result) act" where
  "markDelayed env m after =
     bindK (wrapK ''recording delayed status'' (applyMachineStatus env
        (stampLastUpdated env (upd_status (operationalStatus_update (\<lambda>_. OpDelayed)) m)) []))
       (\<lambda>_. ret (requeueIn (jitter env after)))"

definition recordDelayed :: "'s env \<Rightarrow> Machine \<Rightarrow> ('s, ctrl_result) act" where
  "recordDelayed env m = markDelayed env m delayedRequeueInterval"

definition markDelayedNotReady :: "'s env \<Rightarrow> Machine \<Rightarrow> string \<Rightarrow> string \<Rightarrow> ('s, ctrl_result) act" where
  "markDelayedNotReady env m reason message =
     markDelayed env
       (setCondition env \<lparr>c_type = MachineConditionProgressing, c_status = CondFalse,
          c_observedGeneration = m_generation m, c_reason = reason, c_message = message\<rparr> m)
       delayedRequeueInterval"

definition clearRetryStatus :: "'s env \<Rightarrow> Machine \<Rightarrow> bool \<Rightarrow> ctrl_result \<Rightarrow> ('s, ctrl_result) act" where
  "clearRetryStatus env m restarting result =
     (if operationalStatus (m_status m) = OpDelayed \<or>
         restarting \<and> operationalStatus (m_status m) = OpError
      then bindK (wrapK ''clearing retry status''
             (applyMachineStatus env (stampLastUpdated env (markOperational m)) [])) (\<lambda>_. ret result)
      else ret result)"

definition holdForRetry :: "'s env \<Rightarrow> Machine \<Rightarrow> ('s, ctrl_result) act" where
  "holdForRetry env m =
     bindK (wrapK ''entering retry hold'' (applyMachineStatus env
        (setCondition env \<lparr>c_type = MachineConditionRetryHeld, c_status = CondTrue,
           c_observedGeneration = 0, c_reason = ''BootRetryExhausted'',
           c_message = show_int (restartCount (m_status m)) @ '' consecutive restart failures in state '' @
             go_quote (state_text (m_state m)) @ '': '' @ errorMessage (m_status m) @ ''; set the '' @ go_quote MachineAnnotationClearError @
             '' annotation to clear and retry''\<rparr> m)
        [Event ''BootRetryExhausted'']))
       (\<lambda>_. ret noRequeue)"

definition recordFailure :: "'s env \<Rightarrow> Machine \<Rightarrow> Result \<Rightarrow> ('s, ctrl_result) act" where
  "recordFailure env m result =
     (let m1 = stampLastUpdated env (applyFailure (res_errorType result) (res_errorMessage result) m) in
      if res_errorType result = Restart \<and> restartCount (m_status m1) \<ge> maxRestartFailures
      then holdForRetry env m1
      else bindK (wrapK ''recording deployer failure'' (applyMachineStatus env m1 []))
             (\<lambda>_. ret (requeueIn failedRequeueInterval)))"

definition busyRequeue :: "'s env \<Rightarrow> Result \<Rightarrow> duration" where
  "busyRequeue env result =
     (if res_requeueAfter result > 0 then res_requeueAfter result
      else jitter env defaultBusyRequeueInterval)"

definition applyNonCompleteOutcome :: "'s env \<Rightarrow> Machine \<Rightarrow> Result \<Rightarrow> bool \<Rightarrow> ('s, ctrl_result) act" where
  "applyNonCompleteOutcome env m result restarting =
     (case outcome result of
        Continuing \<Rightarrow> clearRetryStatus env m restarting (requeueIn (jitter env continuingRequeueInterval))
      | Busy \<Rightarrow> clearRetryStatus env m restarting (requeueIn (busyRequeue env result))
      | Delayed \<Rightarrow> recordDelayed env m
      | Failed \<Rightarrow> recordFailure env m result
      | _ \<Rightarrow> raise (PlainError ''deployer step returned unrecognized outcome''))"

section \<open>Detach, clear-error, status-loss hold\<close>

definition reconcileDetached :: "'s env \<Rightarrow> Machine \<Rightarrow> ('s, ctrl_result) act" where
  "reconcileDetached env m =
     (if operationalStatus (m_status m) = OpDetached then ret noRequeue
      else bindK (wrapK ''recording detached status'' (applyMachineStatus env
             (stampLastUpdated env (upd_status (operationalStatus_update (\<lambda>_. OpDetached)) m)) []))
             (\<lambda>_. ret noRequeue))"

definition clearDetached :: "'s env \<Rightarrow> Machine \<Rightarrow> ('s, ctrl_result) act" where
  "clearDetached env m =
     bindK (wrapK ''clearing detached status''
       (applyMachineStatus env (stampLastUpdated env (markOperational m)) [])) (\<lambda>_. ret requeueNow)"

definition consumeClearErrorAnnotation :: "'s env \<Rightarrow> Machine \<Rightarrow> ('s, Machine) act" where
  "consumeClearErrorAnnotation env = consumeAnnotation env MachineAnnotationClearError ''consuming clear-error annotation''"

definition reconcileClearError :: "'s env \<Rightarrow> Machine \<Rightarrow> ('s, ctrl_result) act" where
  "reconcileClearError env m =
     bindK (consumeClearErrorAnnotation env m) (\<lambda>m1.
       bindK (wrapK ''clearing error'' (applyMachineStatus env
          (stampLastUpdated env
            (removeCondition env MachineConditionRetryHeld (resetCounts (markOperational m1))))
          [Event ''ErrorCleared'']))
         (\<lambda>_. ret requeueNow))"

definition consumeConfirmStatusLossAnnotation :: "'s env \<Rightarrow> Machine \<Rightarrow> ('s, Machine) act" where
  "consumeConfirmStatusLossAnnotation env =
     consumeAnnotation env MachineAnnotationConfirmStatusLoss ''consuming confirm-status-loss annotation''"

definition enterStatusLossHold :: "'s env \<Rightarrow> Machine \<Rightarrow> ('s, ctrl_result) act" where
  "enterStatusLossHold env m =
     bindK (wrapK ''entering status-loss hold'' (applyMachineStatus env
        (stampLastUpdated env
          (setCondition env \<lparr>c_type = MachineConditionStatusLossHold, c_status = CondTrue,
             c_observedGeneration = 0, c_reason = ''PriorDeployRunsFound'',
             c_message = ''status was never recorded but spec carries deploy intent and DeployRuns already exist for this machine; holding until '' @
               MachineAnnotationConfirmStatusLoss @ '' is set''\<rparr> m))
        [Event ''StatusLossHold'']))
       (\<lambda>_. ret noRequeue)"

definition reconcileStatusLossHold :: "'s env \<Rightarrow> Machine \<Rightarrow> ('s, ctrl_result) act" where
  "reconcileStatusLossHold env m =
     (if \<not> hasAnnotation m MachineAnnotationConfirmStatusLoss then ret noRequeue
      else bindK (consumeConfirmStatusLossAnnotation env m)
             (\<lambda>m1. setState env m1 Enrolling [Event ''StatusLossHoldCleared'']))"

definition isEmptyDeployPayload :: "MachineClaim option \<Rightarrow> bool" where
  "isEmptyDeployPayload claim \<longleftrightarrow>
     (case claim of None \<Rightarrow> True
      | Some c \<Rightarrow> cs_imageRef (cl_spec c) = None \<and> elems (cs_dataImages (cl_spec c)) = [])"

definition hasPriorDeployRuns :: "'s env \<Rightarrow> Machine \<Rightarrow> ('s, bool) act" where
  "hasPriorDeployRuns env m =
     bindK (wrapK ''listing DeployRuns for status-loss detection''
       (kcall (ListRuns (m_namespace m)) (k_listRuns (kube env) (m_namespace m))))
       (\<lambda>runs. ret (\<exists>r\<in>set runs. nr_name (rs_machineRef (r_spec r)) = m_name m))"

definition reconcileEmptyStatus :: "'s env \<Rightarrow> Machine \<Rightarrow> ('s, ctrl_result) act" where
  "reconcileEmptyStatus env m =
     (if statusLossHeld env m then reconcileStatusLossHold env m
      else if lastUpdated (m_status m) = None then
        bindK (resolveClaimIntent (kube env) m) (\<lambda>claim.
          if \<not> isEmptyDeployPayload claim then
            bindK (hasPriorDeployRuns env m) (\<lambda>suspect.
              if suspect then enterStatusLossHold env m else setState env m Enrolling [])
          else setState env m Enrolling [])
      else setState env m Enrolling [])"

section \<open>BMC credentials\<close>

definition credentialsStatusEqual :: "MachineCredentialsStatus \<Rightarrow> MachineCredentialsStatus \<Rightarrow> bool" where
  "credentialsStatusEqual a b \<longleftrightarrow>
     (if mc_resourceVersion a \<noteq> mc_resourceVersion b then False
      else case (mc_secretRef a, mc_secretRef b) of
        (Some x, Some y) \<Rightarrow> x = y
      | (None, None) \<Rightarrow> True
      | _ \<Rightarrow> False)"

definition claimCredentialsSecret :: "'s env \<Rightarrow> Machine \<Rightarrow> Secret \<Rightarrow> ('s, Secret) act" where
  "claimCredentialsSecret env m secret =
     (let labelled = (map_of (s_labels secret) MachineCredentialsSecretLabel = Some annotationValueTrue);
          s1 = (if labelled then secret
                else secret\<lparr>s_labels := alist_put MachineCredentialsSecretLabel annotationValueTrue (s_labels secret)\<rparr>)
      in case hasOwnerReference (lib env) (s_owners s1) m of
           Inl e \<Rightarrow> raise (Wrapped ''checking BMC credentials secret owner reference'' e)
         | Inr hasOwner \<Rightarrow>
             (case (if hasOwner then Inr s1 else setOwnerReference (lib env) m s1) of
                Inl e \<Rightarrow> raise (Wrapped ''setting BMC credentials secret owner reference'' e)
              | Inr s2 \<Rightarrow>
                  (case addFinalizer (lib env) (s_finalizers s2) MachineCredentialsSecretFinalizer of
                     (added, fs) \<Rightarrow>
                       if labelled \<and> hasOwner \<and> \<not> added then ret s2
                       else wrapK ''claiming BMC credentials secret''
                         (kcall (PatchSecret (s2\<lparr>s_finalizers := fs\<rparr>))
                           (k_patchSecret (kube env) (s2\<lparr>s_finalizers := fs\<rparr>))))))"

datatype credentials_gate = CredentialsReady Secret | CredentialsBlocked ctrl_result

definition resolveCredentialsSecret :: "'s env \<Rightarrow> Machine \<Rightarrow> ('s, credentials_gate) act" where
  "resolveCredentialsSecret env m =
     (let name = bmc_credentialsSecretRef (ms_bmc (m_spec m)); key = (m_namespace m, name) in
      if name = '''' then ret (CredentialsBlocked noRequeue)
      else bindK (wrapK ''getting BMC credentials secret''
             (getOpt (kcall (GetSecret key) (k_getSecret (kube env) key))))
        (\<lambda>r. case r of
           None \<Rightarrow> bindK (markDelayed env m credentialsSecretAbsentRequeueInterval)
                    (\<lambda>res. ret (CredentialsBlocked res))
         | Some secret \<Rightarrow> bindK (claimCredentialsSecret env m secret) (\<lambda>s. ret (CredentialsReady s))))"

definition releaseCredentialsSecretFinalizer :: "'s env \<Rightarrow> Machine \<Rightarrow> ('s, unit) act" where
  "releaseCredentialsSecretFinalizer env m =
     (let name = bmc_credentialsSecretRef (ms_bmc (m_spec m)); key = (m_namespace m, name) in
      if name = '''' then ret ()
      else bindK (wrapK ''getting BMC credentials secret for finalizer release''
             (getOpt (kcall (GetSecret key) (k_getSecret (kube env) key))))
        (\<lambda>r. case r of
           None \<Rightarrow> ret ()
         | Some secret \<Rightarrow>
             (case removeFinalizer (lib env) (s_finalizers secret) MachineCredentialsSecretFinalizer of
                (removed, fs) \<Rightarrow>
                  if \<not> removed then ret ()
                  else bindK (wrapK ''releasing BMC credentials secret finalizer''
                         (kcall (UpdateSecret (secret\<lparr>s_finalizers := fs\<rparr>))
                           (k_updateSecret (kube env) (secret\<lparr>s_finalizers := fs\<rparr>))))
                       (\<lambda>_. ret ()))))"

definition recordTriedCredentials :: "'s env \<Rightarrow> Machine \<Rightarrow> Secret \<Rightarrow> ('s, Machine) act" where
  "recordTriedCredentials env m secret =
     (let observed = \<lparr>mc_secretRef = Some (s_name secret), mc_resourceVersion = s_resourceVersion secret\<rparr>;
          good = goodCredentials (m_status m);
          goodStale = (mc_secretRef good \<noteq> None \<and> \<not> credentialsStatusEqual good observed)
      in if credentialsStatusEqual (triedCredentials (m_status m)) observed \<and> \<not> goodStale then ret m
         else (let m1 = stampLastUpdated env (upd_status (\<lambda>st. st\<lparr>triedCredentials := observed,
                 goodCredentials := (if goodStale then \<lparr>mc_secretRef = None, mc_resourceVersion = ''''\<rparr> else good)\<rparr>) m)
               in wrapK ''recording tried BMC credentials''
                    (kcall (MergeStatus m1) (k_mergeStatus (kube env) m1))))"

definition recordGoodCredentials :: "'s env \<Rightarrow> Machine \<Rightarrow> ('s, Machine) act" where
  "recordGoodCredentials env m =
     (if mc_secretRef (triedCredentials (m_status m)) = None then ret m
      else if credentialsStatusEqual (goodCredentials (m_status m)) (triedCredentials (m_status m)) then ret m
      else wrapK ''recording good BMC credentials'' (applyMachineStatus env
             (stampLastUpdated env
               (upd_status (\<lambda>st. st\<lparr>goodCredentials := triedCredentials st\<rparr>) m)) []))"

section \<open>Inspection\<close>

definition deployerStep :: "deployer_step \<Rightarrow> ('s, 'a) act \<Rightarrow> ('s, 'a) act" where
  "deployerStep s a = bindK (note_call (DeployerCall s)) (\<lambda>_. a)"

definition afterStep :: "'s env \<Rightarrow> Machine \<times> Result \<Rightarrow> ('s, Machine \<times> Result) act" where
  "afterStep env mr =
     (case mr of (m, result) \<Rightarrow>
        if outcome result \<noteq> Failed then bindK (recordGoodCredentials env m) (\<lambda>m'. ret (m', result))
        else ret (m, result))"

definition reconcileInspecting :: "'s env \<Rightarrow> Machine \<Rightarrow> ('s, ctrl_result) act" where
  "reconcileInspecting env m =
     (if inspectDisabled m then setState env m Available []
      else bindK (resolveCredentialsSecret env m) (\<lambda>gate. case gate of
          CredentialsBlocked res \<Rightarrow> ret res
        | CredentialsReady secret \<Rightarrow>
            bindK (recordTriedCredentials env m secret) (\<lambda>m1.
              let restarting = restartOnFailure m1 in
              bindK (deployerStep StepInspect (d_inspect (deployer env) m1 restarting)) (\<lambda>mr.
                bindK (afterStep env mr) (\<lambda>(m2, result).
                  if outcome result = Complete then setState env m2 Available []
                  else applyNonCompleteOutcome env m2 result restarting)))))"

definition reInspectAcceptable :: "'s env \<Rightarrow> Machine \<Rightarrow> ('s, bool) act" where
  "reInspectAcceptable env m =
     (case m_state m of
        Available \<Rightarrow> ret True
      | Provisioned \<Rightarrow> bindK (resolveClaimIntent (kube env) m) (\<lambda>claim. ret (isEmptyDeployPayload claim))
      | Released \<Rightarrow> ret True
      | _ \<Rightarrow> ret False)"

definition consumeReInspectAnnotation :: "'s env \<Rightarrow> Machine \<Rightarrow> ('s, Machine) act" where
  "consumeReInspectAnnotation env = consumeAnnotation env MachineAnnotationReInspect ''consuming re-inspect annotation''"

definition deleteMachineHardware :: "'s env \<Rightarrow> Machine \<Rightarrow> ('s, unit) act" where
  "deleteMachineHardware env m =
     wrapK ''deleting MachineHardware for re-inspection''
       (bindK (getOpt (kcall (DeleteHardware (m_key m)) (k_deleteHardware (kube env) (m_key m)))) (\<lambda>_. ret ()))"

definition reconcileReInspect :: "'s env \<Rightarrow> Machine \<Rightarrow> ('s, ctrl_result) act" where
  "reconcileReInspect env m =
     bindK (reInspectAcceptable env m) (\<lambda>accepted.
       bindK (consumeReInspectAnnotation env m) (\<lambda>m1.
         if \<not> accepted then bindK (note_call (Event ''ReInspectRefused'')) (\<lambda>_. ret noRequeue)
         else bindK (deleteMachineHardware env m1)
                (\<lambda>_. setState env m1 Inspecting [Event ''ReInspectAccepted''])))"

section \<open>The provisioning trigger\<close>

definition getRun :: "'s env \<Rightarrow> Machine \<Rightarrow> NameRef \<Rightarrow> ('s, DeployRun) act" where
  "getRun env m ref =
     (let key = (if nr_namespace ref = '''' then m_namespace m else nr_namespace ref, nr_name ref)
      in kcall (GetRun key) (k_getRun (kube env) key))"

definition lastSuccessfulRun :: "'s env \<Rightarrow> Machine \<Rightarrow> ('s, DeployRun option) act" where
  "lastSuccessfulRun env m =
     (case lastSuccessfulRunRef (m_status m) of
        None \<Rightarrow> ret None
      | Some ref \<Rightarrow> getOpt (getRun env m ref))"

definition nameRefEqual :: "NameRef option \<Rightarrow> NameRef option \<Rightarrow> bool" where
  "nameRefEqual a b \<longleftrightarrow>
     (case (a, b) of
        (Some x, Some y) \<Rightarrow> nr_name x = nr_name y \<and> nr_namespace x = nr_namespace y
      | (None, None) \<Rightarrow> True
      | _ \<Rightarrow> False)"

definition intentSubsetEqual :: "MachineClaim \<Rightarrow> DeployRun \<Rightarrow> string \<Rightarrow> bool" where
  "intentSubsetEqual claim lastRun hooksHash \<longleftrightarrow>
     nameRefEqual (cs_imageRef (cl_spec claim)) (rs_imageRef (r_spec lastRun)) \<and>
     cs_dataImages (cl_spec claim) = rs_dataImages (r_spec lastRun) \<and>
     hooksHash = rs_hooksHash (r_spec lastRun)"

definition shouldProvision :: "MachineClaim option \<Rightarrow> DeployRun option \<Rightarrow> string \<Rightarrow> bool" where
  "shouldProvision claim lastRun hooksHash \<longleftrightarrow>
     (if isEmptyDeployPayload claim then False
      else case lastRun of
        None \<Rightarrow> True
      | Some run \<Rightarrow> (case claim of None \<Rightarrow> False | Some c \<Rightarrow> \<not> intentSubsetEqual c run hooksHash))"

definition imageReadyForProvisioning :: "'s env \<Rightarrow> MachineClaim option \<Rightarrow> ('s, bool \<times> string \<times> string) act" where
  "imageReadyForProvisioning env claim =
     (case claim of
        None \<Rightarrow> ret (True, '''', '''')
      | Some c \<Rightarrow>
          (case cs_imageRef (cl_spec c) of
             None \<Rightarrow> ret (True, '''', '''')
           | Some ref \<Rightarrow>
               (let key = (if nr_namespace ref = '''' then cl_namespace c else nr_namespace ref, nr_name ref) in
                bindK (wrapK ''getting Image'' (getOpt (kcall (GetImage key) (k_getImage (kube env) key))))
                  (\<lambda>r. case r of
                     None \<Rightarrow> ret (False, ''ImageNotFound'', ''Image '' @ go_quote (nr_name ref) @ '' not found'')
                   | Some img \<Rightarrow>
                       (case findStatusCondition (lib env) (im_conditions img) ImageConditionReady of
                          None \<Rightarrow> ret (False, ''ImageNotReady'',
                            ''Image '' @ go_quote (nr_name ref) @ '' has no Ready condition yet'')
                        | Some cond \<Rightarrow>
                            if conditionObservedGenerationStale (Some cond) (im_generation img) then
                              ret (False, ''ImageStatusStale'',
                                ''Image '' @ go_quote (nr_name ref) @ '' status has not caught up to its current generation'')
                            else if c_status cond \<noteq> CondTrue then
                              ret (False, ''ImageNotReady'',
                                ''Image '' @ go_quote (nr_name ref) @ '' is not Ready ('' @ c_reason cond @ '')'')
                            else ret (True, '''', ''''))))))"

definition classifyPlanBuildError :: "kerr \<Rightarrow> bool \<times> bool" where
  "classifyPlanBuildError e =
     (case error_root e of
        NotReadyError _ \<Rightarrow> (True, False)
      | DiskSelectionError _ \<Rightarrow> (False, True)
      | ValidationError _ \<Rightarrow> (False, True)
      | _ \<Rightarrow> (False, False))"

definition planBuildFailure :: "kerr \<Rightarrow> Result" where
  "planBuildFailure e = \<lparr>outcome = Failed, res_requeueAfter = 0, res_errorType = Transient,
     res_errorMessage = error_text e\<rparr>"

datatype hooks_gate = HooksHash string | HooksStop ctrl_result

definition currentHooksHash :: "'s env \<Rightarrow> Machine \<Rightarrow> MachineClaim option \<Rightarrow> ('s, hooks_gate) act" where
  "currentHooksHash env m claim =
     (case builder env of
        None \<Rightarrow> ret (HooksHash '''')
      | Some b \<Rightarrow>
          bindK (attempt (kcall BuildPlan (b_buildSnapshot b m claim))) (\<lambda>r. case r of
              Inr snap \<Rightarrow> ret (HooksHash (sp_hooksHash snap))
            | Inl e \<Rightarrow>
                (case classifyPlanBuildError e of (notReady, failed) \<Rightarrow>
                   if notReady then
                     bindK (markDelayedNotReady env m ''PlanNotReady'' (error_text e)) (\<lambda>res. ret (HooksStop res))
                   else if failed then
                     bindK (recordFailure env m (planBuildFailure e)) (\<lambda>res. ret (HooksStop res))
                   else raise (Wrapped ''resolving deploy plan snapshot'' e))))"

definition ApplySnapshot :: "DeployRun \<Rightarrow> snapshot \<Rightarrow> DeployRun" where
  "ApplySnapshot run snap =
     run\<lparr>r_spec := (r_spec run)\<lparr>rs_resolvedDisks := sp_resolvedDisks snap, rs_hooksHash := sp_hooksHash snap\<rparr>\<rparr>"

definition newRun :: "Machine \<Rightarrow> MachineClaim \<Rightarrow> DeployRun" where
  "newRun m claim =
     \<lparr>r_name = '''', r_generateName = m_name m @ ''-'', r_namespace = m_namespace m,
      r_uid = '''', r_generation = 0, r_deletionTimestamp = None, r_controllerOwner = None,
      r_spec = \<lparr>rs_machineRef = \<lparr>nr_namespace = '''', nr_name = m_name m\<rparr>,
        rs_claimRef = ms_claimRef (m_spec m), rs_imageRef = cs_imageRef (cl_spec claim),
        rs_dataImages = clone_slice (cs_dataImages (cl_spec claim)), rs_resolvedDisks = [], rs_hooksHash = ''''\<rparr>,
      r_status = \<lparr>phase = PhaseEmpty, partitions = [], phaseTimings = [], lastProgressAt = None,
        r_conditions = []\<rparr>\<rparr>"

definition createDeployRun :: "'s env \<Rightarrow> Machine \<Rightarrow> MachineClaim option \<Rightarrow> ('s, DeployRun) act" where
  "createDeployRun env m claim =
     (case claim of
        None \<Rightarrow> raise (GoPanic ''nil pointer dereference: claim.Spec'')
      | Some c \<Rightarrow>
          bindK (case builder env of
                   None \<Rightarrow> ret (newRun m c)
                 | Some b \<Rightarrow> bindK (kcall BuildPlan (b_build b m claim (newRun m c)))
                     (\<lambda>snap. ret (ApplySnapshot (newRun m c) snap)))
            (\<lambda>run. case setControllerReference (lib env) m run of
               Inl e \<Rightarrow> raise (Wrapped ''setting owner reference'' e)
             | Inr run' \<Rightarrow> kcall (CreateRun run') (k_createRun (kube env) run')))"

definition startProvisioningRun :: "'s env \<Rightarrow> Machine \<Rightarrow> MachineClaim option \<Rightarrow> ('s, ctrl_result) act" where
  "startProvisioningRun env m claim =
     bindK (attempt (createDeployRun env m claim)) (\<lambda>r. case r of
         Inl e \<Rightarrow>
           (case classifyPlanBuildError e of (notReady, failed) \<Rightarrow>
              if notReady then markDelayedNotReady env m ''PlanNotReady'' (error_text e)
              else if failed then recordFailure env m (planBuildFailure e)
              else raise (Wrapped ''creating DeployRun'' e))
       | Inr run \<Rightarrow>
           bindK (wrapK ''setting status.state to Provisioning'' (applyMachineStatus env
              (stampLastUpdated env (resetCounts (markOperational
                (upd_status (\<lambda>st. st\<lparr>state := Provisioning,
                   currentRunRef := Some \<lparr>nr_namespace = '''', nr_name = r_name run\<rparr>\<rparr>) m)))) []))
             (\<lambda>_. ret requeueNow))"

definition reconcileIdle :: "'s env \<Rightarrow> Machine \<Rightarrow> ('s, ctrl_result) act" where
  "reconcileIdle env m =
     bindK (wrapK ''reading last successful DeployRun'' (lastSuccessfulRun env m)) (\<lambda>lastRun.
       bindK (wrapK ''resolving MachineClaim'' (resolveClaimIntent (kube env) m)) (\<lambda>claim.
         if claimUnresolved m claim then
           markDelayedNotReady env m ''ClaimUnresolved'' (claimUnresolvedMessage m)
         else if isEmptyDeployPayload claim then ret noRequeue
         else bindK (imageReadyForProvisioning env claim) (\<lambda>(ready, reason, message).
           if \<not> ready then markDelayedNotReady env m reason message
           else bindK (currentHooksHash env m claim) (\<lambda>gate. case gate of
               HooksStop res \<Rightarrow> ret res
             | HooksHash hooksHash \<Rightarrow>
                 if \<not> shouldProvision claim lastRun hooksHash then ret noRequeue
                 else startProvisioningRun env (removeCondition env MachineConditionProgressing m) claim))))"

section \<open>Provisioning\<close>

definition recordCurrentRunDeleted :: "'s env \<Rightarrow> Machine \<Rightarrow> NameRef \<Rightarrow> ('s, ctrl_result) act" where
  "recordCurrentRunDeleted env m ref =
     recordFailure env (upd_status (currentRunRef_update (\<lambda>_. None)) m)
       \<lparr>outcome = Failed, res_requeueAfter = 0, res_errorType = Restart,
        res_errorMessage = ''current DeployRun '' @ go_quote (nr_name ref) @ '' no longer exists''\<rparr>"

definition runRef :: "DeployRun \<Rightarrow> NameRef" where
  "runRef run = \<lparr>nr_namespace = '''', nr_name = r_name run\<rparr>"

definition reconcileProvisioning :: "'s env \<Rightarrow> Machine \<Rightarrow> ('s, ctrl_result) act" where
  "reconcileProvisioning env m =
     (case currentRunRef (m_status m) of
        None \<Rightarrow>
          bindK (wrapK ''resolving MachineClaim'' (resolveClaimIntent (kube env) m)) (\<lambda>claim.
            if claimUnresolved m claim then
              markDelayedNotReady env m ''ClaimUnresolved'' (claimUnresolvedMessage m)
            else startProvisioningRun env m claim)
      | Some ref \<Rightarrow>
          bindK (wrapK ''getting DeployRun'' (getOpt (getRun env m ref))) (\<lambda>r. case r of
              None \<Rightarrow> recordCurrentRunDeleted env m ref
            | Some run \<Rightarrow>
                bindK (resolveCredentialsSecret env m) (\<lambda>gate. case gate of
                    CredentialsBlocked res \<Rightarrow> ret res
                  | CredentialsReady secret \<Rightarrow>
                      bindK (recordTriedCredentials env m secret) (\<lambda>m1.
                        let restarting = restartOnFailure m1 in
                        bindK (deployerStep StepProvision (d_provision (deployer env) m1 run restarting)) (\<lambda>mr.
                          bindK (afterStep env mr) (\<lambda>(m2, result).
                            if outcome result \<noteq> Complete then
                              applyNonCompleteOutcome env
                                (if outcome result = Failed
                                 then upd_status (lastAttemptedRunRef_update (\<lambda>_. Some (runRef run))) m2
                                 else m2) result restarting
                            else
                              bindK (wrapK ''setting status.state to Provisioned'' (applyMachineStatus env
                                 (stampLastUpdated env (resetCounts (markOperational
                                   (upd_status (\<lambda>st. st\<lparr>state := Provisioned,
                                      lastSuccessfulRunRef := Some (runRef run),
                                      lastAttemptedRunRef := Some (runRef run)\<rparr>) m2)))) []))
                                (\<lambda>_. ret requeueNow)))))))"

section \<open>Reboot\<close>

definition reconcileReboot :: "'s env \<Rightarrow> Machine \<Rightarrow> bool \<Rightarrow> ('s, ctrl_result) act" where
  "reconcileReboot env m hard =
     bindK (deployerStep (StepReboot hard) (d_reboot (deployer env) m hard)) (\<lambda>(m1, result).
       if outcome result \<noteq> Complete then applyNonCompleteOutcome env m1 result False
       else bindK (clearSuffixlessRebootAnnotation env m1) (\<lambda>_. ret noRequeue))"

section \<open>The delete walk\<close>

definition releaseMachine :: "'s env \<Rightarrow> Machine \<Rightarrow> ('s, ctrl_result) act" where
  "releaseMachine env m =
     bindK (releaseCredentialsSecretFinalizer env m) (\<lambda>_.
       let m1 = m\<lparr>m_finalizers := snd (removeFinalizer (lib env) (m_finalizers m) MachineFinalizer)\<rparr> in
       bindK (kcall (UpdateMachine m1) (k_updateMachine (kube env) m1)) (\<lambda>_. ret noRequeue))"

text \<open>The empty next state stands for "no next stage".\<close>

definition advanceDeleteStage :: "'s env \<Rightarrow> Machine \<Rightarrow> MachineState \<Rightarrow> ('s, ctrl_result) act" where
  "advanceDeleteStage env m nextState =
     (if nextState = StateEmpty then releaseMachine env m
      else bindK (wrapK ''advancing delete walk'' (applyMachineStatus env
             (stampLastUpdated env (upd_status (errorCount_update (\<lambda>_. 0))
               (markOperational (upd_status (state_update (\<lambda>_. nextState)) m)))) []))
             (\<lambda>_. ret requeueNow))"

definition recordDeleteStageFailure :: "'s env \<Rightarrow> Machine \<Rightarrow> Result \<Rightarrow> string \<Rightarrow> MachineState \<Rightarrow> ('s, ctrl_result) act" where
  "recordDeleteStageFailure env m result stageName nextState =
     (let m1 = stampLastUpdated env (applyFailure (res_errorType result) (res_errorMessage result) m);
          giveUp = (errorCount (m_status m1) > deleteStageMaxErrorCount) in
      bindK (wrapK ''recording delete stage failure''
          (applyMachineStatus env m1 (if giveUp then [GiveUpMetric stageName] else [])))
        (\<lambda>m2. if \<not> giveUp then ret (requeueIn failedRequeueInterval)
              else advanceDeleteStage env m2 nextState))"

definition runDeleteStage ::
  "'s env \<Rightarrow> ('s, Machine \<times> Result) act \<Rightarrow> string \<Rightarrow> MachineState \<Rightarrow> ('s, ctrl_result) act" where
  "runDeleteStage env step stageName nextState =
     bindK step (\<lambda>(m, result). case outcome result of
         Complete \<Rightarrow> advanceDeleteStage env m nextState
       | Continuing \<Rightarrow> clearRetryStatus env m False (requeueIn (jitter env continuingRequeueInterval))
       | Busy \<Rightarrow> clearRetryStatus env m False (requeueIn (busyRequeue env result))
       | Delayed \<Rightarrow> markDelayed env m delayedRequeueInterval
       | Failed \<Rightarrow> recordDeleteStageFailure env m result stageName nextState
       | _ \<Rightarrow> raise (PlainError ''delete stage returned unrecognized outcome''))"

definition reconcileDeprovisioning :: "'s env \<Rightarrow> Machine \<Rightarrow> ('s, ctrl_result) act" where
  "reconcileDeprovisioning env m =
     (if isDetached m then advanceDeleteStage env m PoweringOff
      else runDeleteStage env
             (deployerStep StepDeprovision (d_deprovision (deployer env) m (restartOnFailure m)))
             ''deprovision'' PoweringOff)"

definition reconcilePoweringOff :: "'s env \<Rightarrow> Machine \<Rightarrow> ('s, ctrl_result) act" where
  "reconcilePoweringOff env m =
     (if isDetached m then advanceDeleteStage env m StateEmpty
      else runDeleteStage env (deployerStep StepPowerOff (d_powerOff (deployer env) m))
             ''power-off'' StateEmpty)"

definition onDelete :: "'s env \<Rightarrow> Machine \<Rightarrow> ('s, ctrl_result) act" where
  "onDelete env m =
     (if \<not> containsFinalizer (lib env) (m_finalizers m) MachineFinalizer then ret noRequeue
      else case m_state m of
        Deprovisioning \<Rightarrow> reconcileDeprovisioning env m
      | PoweringOff \<Rightarrow> reconcilePoweringOff env m
      | _ \<Rightarrow> advanceDeleteStage env m Deprovisioning)"

section \<open>One pass\<close>

definition onChange :: "'s env \<Rightarrow> Machine \<Rightarrow> ('s, ctrl_result) act" where
  "onChange env m =
     (if isDetached m then reconcileDetached env m
      else if operationalStatus (m_status m) = OpDetached then clearDetached env m
      else case rebootRequested env m of (requested, hard) \<Rightarrow>
        if requested then reconcileReboot env m hard
        else if reInspectRequested m then reconcileReInspect env m
        else if clearErrorRequested m then reconcileClearError env m
        else if retryHeld env m then ret noRequeue
        else if hasUnknownErrorType m then
          setState env (upd_status (currentRunRef_update (\<lambda>_. None)) m) Enrolling []
        else if ms_claimRef (m_spec m) = None \<and> releaseEligible (m_state m) then
          setState env (upd_status (currentRunRef_update (\<lambda>_. None)) m) Released [Event ''MachineReleased'']
        else case m_state m of
          StateEmpty \<Rightarrow> reconcileEmptyStatus env m
        | Enrolling \<Rightarrow> setState env m Inspecting []
        | Inspecting \<Rightarrow> reconcileInspecting env m
        | Available \<Rightarrow> reconcileIdle env m
        | Provisioned \<Rightarrow> reconcileIdle env m
        | Provisioning \<Rightarrow> reconcileProvisioning env m
        | _ \<Rightarrow> raise (PlainError (''unknown status.state '' @ go_quote (state_text (m_state m)))))"

definition reconcileMachine :: "'s env \<Rightarrow> Machine \<Rightarrow> ('s, ctrl_result) act" where
  "reconcileMachine env m =
     (if isPaused m then ret noRequeue
      else if m_deletionTimestamp m \<noteq> None then onDelete env m
      else if \<not> containsFinalizer (lib env) (m_finalizers m) MachineFinalizer then
        (let m1 = m\<lparr>m_finalizers := snd (addFinalizer (lib env) (m_finalizers m) MachineFinalizer)\<rparr> in
         bindK (kcall (UpdateMachine m1) (k_updateMachine (kube env) m1)) (\<lambda>_. ret requeueNow))
      else onChange env m)"

definition Reconcile :: "'s env \<Rightarrow> key \<Rightarrow> ('s, ctrl_result) act" where
  "Reconcile env key =
     bindK (getOpt (kcall (GetMachine key) (k_getMachine (kube env) key))) (\<lambda>r. case r of
         None \<Rightarrow> ret noRequeue
       | Some m \<Rightarrow> reconcileMachine env m)"

section \<open>Watch predicates\<close>

fun count_up :: "string list \<Rightarrow> (string \<Rightarrow> int) \<Rightarrow> (string \<Rightarrow> int)" where
  "count_up [] c = c"
| "count_up (f # fs) c = count_up fs (c(f := c f + 1))"

fun count_down :: "string list \<Rightarrow> (string \<Rightarrow> int) \<Rightarrow> (string \<Rightarrow> int)" where
  "count_down [] c = c"
| "count_down (f # fs) c = count_down fs (c(f := c f - 1))"

definition finalizerSetsEqual :: "string list \<Rightarrow> string list \<Rightarrow> bool" where
  "finalizerSetsEqual a b =
     (if length a \<noteq> length b then False
      else list_all (\<lambda>f. count_down b (count_up a (\<lambda>_. 0)) f = 0) (a @ b))"

definition machineUpdatePredicate :: "Machine \<Rightarrow> Machine \<Rightarrow> bool" where
  "machineUpdatePredicate old new \<longleftrightarrow>
     m_generation new \<noteq> m_generation old \<or>
     map_of (m_annotations new) \<noteq> map_of (m_annotations old) \<or>
     \<not> finalizerSetsEqual (m_finalizers old) (m_finalizers new)"

definition mapClaimToMachine :: "MachineClaim \<Rightarrow> key list" where
  "mapClaimToMachine claim =
     (if cst_machineName (cl_status claim) = '''' then []
      else [(cl_namespace claim, cst_machineName (cl_status claim))])"

end
