(* ===== verification/Deployer_Contract.thy ===== *)
theory Deployer_Contract
  imports Machine_Controller
begin

text \<open>
  The contract between the Machine reconciler and a Deployer (internal/deployer/deployer.go), as
  a locale. A Deployer promises that a step reports one of the five named outcomes, that a
  failure is classified Transient or Restart, that a power or reboot failure is never classified
  Restart, that it makes no request that belongs to the reconciler, and that the fields of the
  Machine's status the reconciler owns come back as they were. The lemmas about the reconciler
  that need the contract are proved once, in the locale.
\<close>

section \<open>Fields the reconciler owns\<close>

text \<open>
  The status without the fields other components write (netBoot, agentSession, conditions), and
  the two hold conditions only the reconciler sets.
\<close>

definition owned_status :: "MachineStatus \<Rightarrow> MachineStatus" where
  "owned_status st = st\<lparr>netBoot := None, agentSession := None, conditions := []\<rparr>"

definition owned :: "libs \<Rightarrow> Machine \<Rightarrow> string \<times> string \<times> MachineStatus \<times> bool \<times> bool" where
  "owned L m = (m_name m, m_namespace m, owned_status (m_status m),
     isStatusConditionTrue L (conditions (m_status m)) MachineConditionRetryHeld,
     isStatusConditionTrue L (conditions (m_status m)) MachineConditionStatusLossHold)"

text \<open>
  Documented behaviour of the client: a successful write of a Machine answers with an object that
  carries, in the owned fields, what the request carried (the Machine controller is the only
  writer of them), and a read answers with the object asked for.
\<close>

definition client_echo :: "'s kube \<Rightarrow> libs \<Rightarrow> bool" where
  "client_echo K L \<longleftrightarrow>
     (\<forall>s m m' s'. k_patchMachine K m s = (Inr m', s') \<longrightarrow> owned L m' = owned L m) \<and>
     (\<forall>s m m' s'. k_applyStatus K m s = (Inr m', s') \<longrightarrow> owned L m' = owned L m) \<and>
     (\<forall>s m m' s'. k_mergeStatus K m s = (Inr m', s') \<longrightarrow> owned L m' = owned L m) \<and>
     (\<forall>s m m' s'. k_updateMachineStatus K m s = (Inr m', s') \<longrightarrow> owned L m' = owned L m) \<and>
     (\<forall>s k m' s'. k_getMachine K k s = (Inr m', s') \<longrightarrow> m_key m' = k)"

lemma client_echoD:
  assumes "client_echo K L"
  shows "k_patchMachine K m s = (Inr m', s') \<Longrightarrow> owned L m' = owned L m"
    and "k_applyStatus K m s = (Inr m', s') \<Longrightarrow> owned L m' = owned L m"
    and "k_mergeStatus K m s = (Inr m', s') \<Longrightarrow> owned L m' = owned L m"
    and "k_updateMachineStatus K m s = (Inr m', s') \<Longrightarrow> owned L m' = owned L m"
    and "k_getMachine K k s = (Inr m', s') \<Longrightarrow> m_key m' = k"
  using assms unfolding client_echo_def by blast+

lemma owned_statusD:
  assumes "owned_status a = owned_status b"
  shows "state a = state b" "operationalStatus a = operationalStatus b" "errorType a = errorType b"
    "errorCount a = errorCount b" "restartCount a = restartCount b" "errorMessage a = errorMessage b"
    "currentRunRef a = currentRunRef b" "lastSuccessfulRunRef a = lastSuccessfulRunRef b"
    "lastAttemptedRunRef a = lastAttemptedRunRef b" "lastUpdated a = lastUpdated b"
    "goodCredentials a = goodCredentials b" "triedCredentials a = triedCredentials b"
  using assms by (cases a; cases b; simp add: owned_status_def)+

lemmas ownedD = owned_statusD

section \<open>The contract\<close>

definition result_ok :: "Result \<Rightarrow> bool" where
  "result_ok r \<longleftrightarrow> (case outcome r of OutcomeInvalid _ \<Rightarrow> False | _ \<Rightarrow> True) \<and>
     (outcome r = Failed \<longrightarrow> res_errorType r = Transient \<or> res_errorType r = Restart)"

definition never_restart :: "Result \<Rightarrow> bool" where
  "never_restart r \<longleftrightarrow> (outcome r = Failed \<longrightarrow> res_errorType r \<noteq> Restart)"

text \<open>Requests only the reconciler makes.\<close>

fun reconciler_call :: "call \<Rightarrow> bool" where
  "reconciler_call (ApplyStatus _) = True"
| "reconciler_call (MergeStatus _) = True"
| "reconciler_call (UpdateMachine _) = True"
| "reconciler_call (CreateRun _) = True"
| "reconciler_call (DeleteHardware _) = True"
| "reconciler_call (PatchSecret _) = True"
| "reconciler_call (UpdateSecret _) = True"
| "reconciler_call (GiveUpMetric _) = True"
| "reconciler_call (DeployerCall _) = True"
| "reconciler_call _ = False"

definition step_ok :: "'s kube \<Rightarrow> libs \<Rightarrow> Machine \<Rightarrow> (Result \<Rightarrow> bool) \<Rightarrow> ('s, Machine \<times> Result) act \<Rightarrow> bool" where
  "step_ok K L m Q a \<longleftrightarrow>
     kspec (\<lambda>c. \<not> reconciler_call c)
       (\<lambda>(m', r). result_ok r \<and> Q r \<and> (client_echo K L \<longrightarrow> owned L m' = owned L m)) a"

locale deployer_contract =
  fixes D :: "'s deployer" and K :: "'s kube" and L :: libs
  assumes inspect_ok: "step_ok K L m (\<lambda>_. True) (d_inspect D m b)"
    and provision_ok: "step_ok K L m (\<lambda>_. True) (d_provision D m run b)"
    and deprovision_ok: "step_ok K L m never_restart (d_deprovision D m b)"
    and powerOff_ok: "step_ok K L m never_restart (d_powerOff D m)"
    and reboot_ok: "step_ok K L m never_restart (d_reboot D m hard)"

section \<open>Helpers for the handlers\<close>

lemma kspec_apply:
  assumes "P (ApplyStatus m)" "\<And>c. c \<in> set cs \<Longrightarrow> P c"
    and "\<And>s m' s'. k_applyStatus (kube env) m s = (Inr m', s') \<Longrightarrow> R m'"
  shows "kspec P R (applyMachineStatus env m cs)"
  unfolding applyMachineStatus_def
  by (rule kspec_bind [where Q = R])
    (auto intro!: kspec_kcall kspec_bind [OF kspec_note_calls] kspec_ret assms)

lemma kspec_apply_done:
  assumes "P (ApplyStatus m)" "\<And>c. c \<in> set cs \<Longrightarrow> P c" "R x"
  shows "kspec P R (bindK (wrapK ctx (applyMachineStatus env m cs)) (\<lambda>_. ret x))"
  by (rule kspec_bind [where Q = "\<lambda>_. True"])
    (auto intro!: kspec_wrap kspec_apply kspec_ret assms)

lemma kspec_read:
  assumes "P c"
  shows "kspec P (\<lambda>_. True) (getOpt (kcall c op))"
  using kspec_getOpt [OF kspec_kcall [of P c op "\<lambda>_. True"]] assms by simp

lemma kspec_step:
  assumes "step_ok K L m Q a" and "\<And>c. \<not> reconciler_call c \<Longrightarrow> P c" and "P (DeployerCall s)"
  shows "kspec P (\<lambda>(m', r). result_ok r \<and> Q r \<and> (client_echo K L \<longrightarrow> owned L m' = owned L m))
     (deployerStep s a)"
  unfolding deployerStep_def
  by (rule kspec_bind [OF kspec_note_call [where R = "\<lambda>_. True"]])
    (auto intro: kspec_weaken [OF assms(1) [unfolded step_ok_def]] assms)

end
