(* ===== verification/Machine_Safety.thy ===== *)
theory Machine_Safety
  imports Deployer_Contract
begin

text \<open>
  What every status write of a reconcile pass respects: the state walk as a step relation, the
  consistency of the error axis, and the retry-hold bound. The judgement is established handler
  by handler for any Deployer that keeps the contract, and lifted to every status a Machine can
  reach.
\<close>

section \<open>The state walk as step relations\<close>

inductive forward :: "MachineState \<Rightarrow> MachineState \<Rightarrow> bool" where
  stay: "forward s s"
| enroll: "forward StateEmpty Enrolling"
| inspect: "forward Enrolling Inspecting"
| inspected: "forward Inspecting Available"
| provision: "s \<in> {Available, Provisioned, Provisioning} \<Longrightarrow> forward s Provisioning"
| provisioned: "forward Provisioning Provisioned"
| release: "s \<in> {Provisioning, Provisioned} \<Longrightarrow> forward s Released"
| reinspect: "s \<in> {Available, Provisioned, Released} \<Longrightarrow> forward s Inspecting"

inductive backward :: "MachineState \<Rightarrow> MachineState \<Rightarrow> bool" where
  stay: "backward s s"
| deprovision: "s \<notin> {Deprovisioning, PoweringOff} \<Longrightarrow> backward s Deprovisioning"
| powerOff: "backward Deprovisioning PoweringOff"

inductive_cases forward_from_Provisioning: "forward Provisioning s"
inductive_cases forward_to_Provisioned: "forward s Provisioned"
inductive_simps forward_Provisioned: "forward s Provisioned"
inductive_simps backward_PoweringOff: "backward s PoweringOff"

text \<open>A status outside the known error types is the one reason to leave the walk: re-enrol.\<close>

definition moves :: "Machine \<Rightarrow> MachineState \<Rightarrow> bool" where
  "moves m s \<longleftrightarrow>
     (if m_deletionTimestamp m \<noteq> None then backward (m_state m) s
      else forward (m_state m) s \<or> hasUnknownErrorType m \<and> s = Enrolling)"

section \<open>What a status write keeps\<close>

definition axis_ok :: "Machine \<Rightarrow> bool" where
  "axis_ok m \<longleftrightarrow> (operationalStatus (m_status m) = OpOK \<longrightarrow>
     errorType (m_status m) = ErrNone \<and> errorMessage (m_status m) = '''')"

definition restart_inv :: "libs \<Rightarrow> Machine \<Rightarrow> bool" where
  "restart_inv L m \<longleftrightarrow> 0 \<le> restartCount (m_status m) \<and> restartCount (m_status m) \<le> maxRestartFailures \<and>
     (restartCount (m_status m) = maxRestartFailures \<longrightarrow>
        isStatusConditionTrue L (conditions (m_status m)) MachineConditionRetryHeld)"

definition write_ok :: "'s env \<Rightarrow> Machine \<Rightarrow> Machine \<Rightarrow> bool" where
  "write_ok env m0 m \<longleftrightarrow> moves m0 (m_state m) \<and> (axis_ok m0 \<longrightarrow> axis_ok m) \<and>
     (restart_inv (lib env) m0 \<longrightarrow> restart_inv (lib env) m) \<and>
     lastUpdated (m_status m) = Some (now env)"

fun pass_call :: "'s env \<Rightarrow> Machine \<Rightarrow> call \<Rightarrow> bool" where
  "pass_call env m0 (ApplyStatus m) = write_ok env m0 m"
| "pass_call env m0 (MergeStatus m) = write_ok env m0 m"
| "pass_call env m0 _ = True"

text \<open>
  The in-memory Machine during a pass, against the one the pass read: the walk position, the
  error axis, the counters and the retry hold are still those.
\<close>

definition like :: "libs \<Rightarrow> Machine \<Rightarrow> Machine \<Rightarrow> bool" where
  "like L m0 m \<longleftrightarrow> m_state m = m_state m0 \<and>
     operationalStatus (m_status m) = operationalStatus (m_status m0) \<and>
     errorType (m_status m) = errorType (m_status m0) \<and>
     errorMessage (m_status m) = errorMessage (m_status m0) \<and>
     errorCount (m_status m) = errorCount (m_status m0) \<and>
     restartCount (m_status m) = restartCount (m_status m0) \<and>
     isStatusConditionTrue L (conditions (m_status m)) MachineConditionRetryHeld =
       isStatusConditionTrue L (conditions (m_status m0)) MachineConditionRetryHeld"

abbreviation same :: "'s env \<Rightarrow> Machine \<Rightarrow> Machine \<Rightarrow> bool" where
  "same env m0 m \<equiv> like (lib env) m0 m"

lemma like_refl [simp]: "like L m m"
  by (simp add: like_def)

lemma owned_like:
  assumes "owned L m' = owned L m" "like L m0 m"
  shows "like L m0 m'"
proof -
  have "owned_status (m_status m') = owned_status (m_status m)"
    using assms(1) by (simp add: owned_def)
  note fields = owned_statusD [OF this]
  show ?thesis
    using assms by (simp add: like_def owned_def fields)
qed

lemmas machine_upd_defs =
  stampLastUpdated_def markOperational_def applyFailure_def setCondition_def removeCondition_def
  resetCounts_def

lemma sameD:
  assumes "same env m0 m"
  shows "m_state m = m_state m0" "operationalStatus (m_status m) = operationalStatus (m_status m0)"
    "errorType (m_status m) = errorType (m_status m0)" "errorMessage (m_status m) = errorMessage (m_status m0)"
    "errorCount (m_status m) = errorCount (m_status m0)"
    "restartCount (m_status m) = restartCount (m_status m0)"
    "isStatusConditionTrue (lib env) (conditions (m_status m)) MachineConditionRetryHeld =
       isStatusConditionTrue (lib env) (conditions (m_status m0)) MachineConditionRetryHeld"
  using assms by (simp_all add: like_def)

lemma same_axis:
  assumes "same env m0 m"
  shows "axis_ok m = axis_ok m0"
  by (simp add: axis_ok_def sameD [OF assms])

lemma same_restart:
  assumes "same env m0 m"
  shows "restart_inv (lib env) m = restart_inv (lib env) m0"
  by (simp add: restart_inv_def sameD [OF assms])

lemma same_dropAnnotation [simp]: "like L m0 (dropAnnotation k m) = like L m0 m"
  by (simp add: like_def)

lemma moves_stay [simp]: "moves m (m_state m)"
  by (simp add: moves_def forward.stay backward.stay)

section \<open>Shared shapes of a write\<close>

lemma write_reset:
  assumes "moves m0 (m_state m)" "restartCount (m_status m) = 0" "operationalStatus (m_status m) = OpOK"
    "errorType (m_status m) = ErrNone" "errorMessage (m_status m) = ''''"
    "lastUpdated (m_status m) = Some (now env)"
  shows "write_ok env m0 m"
  using assms by (simp add: write_ok_def axis_ok_def restart_inv_def maxRestartFailures_def)

lemma setState_spec:
  assumes "moves m0 s" and "\<And>c. c \<in> set cs \<Longrightarrow> pass_call env m0 c"
  shows "kspec (pass_call env m0) (\<lambda>_. True) (setState env m s cs)"
  unfolding setState_def
  by (rule kspec_apply_done) (auto intro!: write_reset simp: machine_upd_defs assms)

lemma keep_write:
  assumes "meta_laws (lib env)" "same env m0 m" "moves m0 (m_state m')"
    and "restartCount (m_status m') = restartCount (m_status m)"
    and "isStatusConditionTrue (lib env) (conditions (m_status m')) MachineConditionRetryHeld =
       isStatusConditionTrue (lib env) (conditions (m_status m)) MachineConditionRetryHeld"
    and "axis_ok m \<Longrightarrow> axis_ok m'"
    and "lastUpdated (m_status m') = Some (now env)"
  shows "write_ok env m0 m'"
  using assms by (simp add: write_ok_def restart_inv_def sameD [OF assms(2)] same_axis [OF assms(2)])

section \<open>Handlers that do not call the deployer\<close>

text \<open>What the environment of a pass is assumed to satisfy.\<close>

definition env_laws :: "'s env \<Rightarrow> bool" where
  "env_laws env \<longleftrightarrow> meta_laws (lib env) \<and> client_echo (kube env) (lib env)"

lemma env_lawsD:
  assumes "env_laws env"
  shows "meta_laws (lib env)" "client_echo (kube env) (lib env)"
  using assms by (simp_all add: env_laws_def)

lemma same_setCondition:
  assumes "meta_laws (lib env)" "c_type c \<noteq> MachineConditionRetryHeld"
  shows "same env m0 (setCondition env c m) = same env m0 m"
  using assms(2) by (auto simp: like_def setCondition_def meta_lawsD [OF assms(1)])

lemma same_removeProgressing:
  assumes "meta_laws (lib env)"
  shows "same env m0 (removeCondition env MachineConditionProgressing m) = same env m0 m"
  by (simp add: like_def removeCondition_def meta_lawsD [OF assms])

lemma markDelayed_spec:
  assumes "env_laws env" "same env m0 m"
  shows "kspec (pass_call env m0) (\<lambda>_. True) (markDelayed env m after)"
  unfolding markDelayed_def
  by (rule kspec_apply_done)
    (auto intro!: keep_write [OF env_lawsD(1) [OF assms(1)] assms(2)]
       simp: machine_upd_defs axis_ok_def sameD [OF assms(2)])

lemma markDelayedNotReady_spec:
  assumes "env_laws env" "same env m0 m"
  shows "kspec (pass_call env m0) (\<lambda>_. True) (markDelayedNotReady env m reason msg)"
  unfolding markDelayedNotReady_def
  by (rule markDelayed_spec [OF assms(1)])
    (simp add: same_setCondition env_lawsD [OF assms(1)] assms(2))

lemma clearRetryStatus_spec:
  assumes "env_laws env" "same env m0 m"
  shows "kspec (pass_call env m0) (\<lambda>_. True) (clearRetryStatus env m restarting res)"
  unfolding clearRetryStatus_def
  by (intro kspec_if kspec_apply_done kspec_ret)
    (auto intro!: keep_write [OF env_lawsD(1) [OF assms(1)] assms(2)]
       simp: machine_upd_defs axis_ok_def sameD [OF assms(2)])

text \<open>
  A failure keeps the bound because the count is below the limit when it is recorded: a Machine
  that reached the limit is held, and a held Machine gets no Restart failure.
\<close>

lemma failure_write:
  assumes "env_laws env" "same env m0 m" "\<not> (et = Restart \<and> restartCount (m_status m) + 1 \<ge> maxRestartFailures)"
    and "et = Restart \<Longrightarrow> \<not> retryHeld env m"
  shows "write_ok env m0 (stampLastUpdated env (applyFailure et msg m))"
proof -
  have "restart_inv (lib env) m \<Longrightarrow> restart_inv (lib env) (stampLastUpdated env (applyFailure et msg m))"
    using assms(3,4)
    by (auto simp: restart_inv_def machine_upd_defs maxRestartFailures_def wrap32_id)
  then show ?thesis
    using assms(2) sameD [OF assms(2)] same_restart [OF assms(2)]
    by (auto simp: write_ok_def axis_ok_def machine_upd_defs)
qed

lemma hold_write:
  assumes "env_laws env" "same env m0 m" "\<not> retryHeld env m"
  shows "write_ok env m0 (setCondition env \<lparr>c_type = MachineConditionRetryHeld, c_status = CondTrue,
     c_observedGeneration = g, c_reason = r, c_message = t\<rparr> (stampLastUpdated env (applyFailure Restart msg m)))"
    (is "write_ok env m0 ?m")
proof -
  have "restart_inv (lib env) m \<Longrightarrow> restart_inv (lib env) ?m"
    using assms(3)
    by (auto simp: restart_inv_def machine_upd_defs maxRestartFailures_def wrap32_id retryHeld_def
        conditionTrue_def meta_lawsD [OF env_lawsD(1) [OF assms(1)]])
  then show ?thesis
    using sameD [OF assms(2)] same_restart [OF assms(2)]
    by (auto simp: write_ok_def axis_ok_def machine_upd_defs)
qed

lemma recordFailure_spec:
  assumes "env_laws env" "same env m0 m" "res_errorType result = Restart \<Longrightarrow> \<not> retryHeld env m"
  shows "kspec (pass_call env m0) (\<lambda>_. True) (recordFailure env m result)"
proof -
  let ?m1 = "stampLastUpdated env (applyFailure (res_errorType result) (res_errorMessage result) m)"
  have count: "res_errorType result = Restart \<Longrightarrow> restartCount (m_status ?m1) = wrap32 (restartCount (m_status m) + 1)"
    by (simp add: machine_upd_defs)
  have "kspec (pass_call env m0) (\<lambda>_. True) (holdForRetry env ?m1)" if "res_errorType result = Restart"
    unfolding holdForRetry_def
    by (rule kspec_apply_done)
      (auto simp: that intro!: hold_write [OF assms(1,2)] assms(3))
  moreover have "write_ok env m0 ?m1"
    if "\<not> (res_errorType result = Restart \<and> restartCount (m_status ?m1) \<ge> maxRestartFailures)"
  proof (cases "restart_inv (lib env) m")
    case True
    then have "res_errorType result = Restart \<Longrightarrow>
        wrap32 (restartCount (m_status m) + 1) = restartCount (m_status m) + 1"
      by (simp add: restart_inv_def maxRestartFailures_def wrap32_id)
    with that count show ?thesis
      by (intro failure_write assms) auto
  next
    case False
    then show ?thesis
      using sameD [OF assms(2)] same_restart [OF assms(2)]
      by (auto simp: write_ok_def axis_ok_def machine_upd_defs)
  qed
  ultimately show ?thesis
    unfolding recordFailure_def Let_def
    by (auto intro!: kspec_if kspec_apply_done)
qed

lemma applyNonCompleteOutcome_spec:
  assumes "env_laws env" "same env m0 m"
    and "outcome result = Failed \<Longrightarrow> res_errorType result = Restart \<Longrightarrow> \<not> retryHeld env m"
  shows "kspec (pass_call env m0) (\<lambda>_. True) (applyNonCompleteOutcome env m result restarting)"
  unfolding applyNonCompleteOutcome_def recordDelayed_def
  using assms
  by (cases "outcome result")
    (auto intro: kspec_raise clearRetryStatus_spec markDelayed_spec recordFailure_spec)

lemma reconcileDetached_spec:
  assumes "env_laws env"
  shows "kspec (pass_call env m) (\<lambda>_. True) (reconcileDetached env m)"
  unfolding reconcileDetached_def
  by (intro kspec_if kspec_apply_done kspec_ret)
    (auto intro!: keep_write [OF env_lawsD(1) [OF assms] like_refl] simp: machine_upd_defs axis_ok_def)

lemma clearDetached_spec:
  assumes "env_laws env"
  shows "kspec (pass_call env m) (\<lambda>_. True) (clearDetached env m)"
  unfolding clearDetached_def
  by (rule kspec_apply_done)
    (auto intro!: keep_write [OF env_lawsD(1) [OF assms] like_refl] simp: machine_upd_defs axis_ok_def)

lemma patch_spec:
  assumes "env_laws env" "same env m0 m"
  shows "kspec (pass_call env m0) (same env m0) (patchMachine env m)"
  unfolding patchMachine_def
  using client_echoD(1) [OF env_lawsD(2) [OF assms(1)]] assms(2)
  by (intro kspec_kcall) (auto intro: owned_like)

lemma consume_spec:
  assumes "env_laws env" "same env m0 m"
  shows "kspec (pass_call env m0) (same env m0) (consumeAnnotation env k ctx m)"
  unfolding consumeAnnotation_def
  by (intro kspec_wrap patch_spec assms) (simp add: assms)

lemma reconcileClearError_spec:
  assumes "env_laws env"
  shows "kspec (pass_call env m) (\<lambda>_. True) (reconcileClearError env m)"
  unfolding reconcileClearError_def consumeClearErrorAnnotation_def
proof (rule kspec_bind [OF consume_spec [OF assms like_refl]])
  fix m1 assume "same env m m1"
  then show "kspec (pass_call env m) (\<lambda>_. True)
     (bindK (wrapK ''clearing error'' (applyMachineStatus env
          (stampLastUpdated env
            (removeCondition env MachineConditionRetryHeld (resetCounts (markOperational m1))))
          [Event ''ErrorCleared''])) (\<lambda>_. ret requeueNow))"
    by (intro kspec_apply_done) (auto intro!: write_reset simp: machine_upd_defs dest: sameD(1))
qed

text \<open>Reads and secret bookkeeping make no status write at all.\<close>

definition quiet :: "(call \<Rightarrow> bool) \<Rightarrow> bool" where
  "quiet P \<longleftrightarrow> (\<forall>c. (\<forall>m. c \<noteq> ApplyStatus m) \<and> (\<forall>m. c \<noteq> MergeStatus m) \<and> (\<forall>m. c \<noteq> UpdateMachine m) \<and>
     (\<forall>m. c \<noteq> PatchMachine m) \<and> (\<forall>s. c \<noteq> DeployerCall s) \<and> (\<forall>r. c \<noteq> CreateRun r) \<longrightarrow> P c)"

lemma quiet_pass [simp]: "quiet (pass_call env m0)"
  unfolding quiet_def by (intro allI impI) (case_tac c; simp)

lemma quietD: "quiet P \<Longrightarrow> (\<And>m. c \<noteq> ApplyStatus m) \<Longrightarrow> (\<And>m. c \<noteq> MergeStatus m) \<Longrightarrow> (\<And>m. c \<noteq> UpdateMachine m) \<Longrightarrow>
    (\<And>m. c \<noteq> PatchMachine m) \<Longrightarrow> (\<And>s. c \<noteq> DeployerCall s) \<Longrightarrow> (\<And>r. c \<noteq> CreateRun r) \<Longrightarrow> P c"
  unfolding quiet_def by blast

lemma resolveClaimIntent_spec:
  assumes "quiet P"
  shows "kspec P (\<lambda>_. True) (resolveClaimIntent (kube env) m)"
  unfolding resolveClaimIntent_def
  by (auto split: option.splits
      intro!: kspec_ret kspec_bind [OF kspec_read] kspec_if quietD [OF assms])

lemma hasPriorDeployRuns_spec:
  assumes "quiet P"
  shows "kspec P (\<lambda>_. True) (hasPriorDeployRuns env m)"
  unfolding hasPriorDeployRuns_def
  by (rule kspec_bind [where Q = "\<lambda>_. True"])
    (auto intro!: kspec_wrap kspec_kcall kspec_ret quietD [OF assms])

lemma lastSuccessfulRun_spec:
  assumes "quiet P"
  shows "kspec P (\<lambda>_. True) (lastSuccessfulRun env m)"
  unfolding lastSuccessfulRun_def getRun_def Let_def
  by (auto split: option.splits intro!: kspec_ret kspec_read quietD [OF assms])

lemma imageReady_spec:
  assumes "quiet P"
  shows "kspec P (\<lambda>_. True) (imageReadyForProvisioning env claim)"
  unfolding imageReadyForProvisioning_def Let_def
  by (auto split: option.splits
      intro!: kspec_ret kspec_bind [OF kspec_wrap [OF kspec_read]] kspec_if quietD [OF assms])

lemma deleteMachineHardware_spec:
  assumes "quiet P"
  shows "kspec P (\<lambda>_. True) (deleteMachineHardware env m)"
  unfolding deleteMachineHardware_def
  by (intro kspec_wrap kspec_bind [OF kspec_read] kspec_ret quietD [OF assms]) auto

lemma claimCredentialsSecret_spec:
  assumes "quiet P"
  shows "kspec P (\<lambda>_. True) (claimCredentialsSecret env m s)"
  unfolding claimCredentialsSecret_def Let_def
  by (auto split: sum.splits prod.splits
      intro!: kspec_ret kspec_raise kspec_if kspec_wrap kspec_kcall quietD [OF assms])

lemma releaseCredentialsSecretFinalizer_spec:
  assumes "quiet P"
  shows "kspec P (\<lambda>_. True) (releaseCredentialsSecretFinalizer env m)"
proof -
  have upd: "kspec P (\<lambda>_. True) (bindK (wrapK ctx (kcall (UpdateSecret s) op)) (\<lambda>_. ret ()))" for ctx s op
    by (rule kspec_bind [where Q = "\<lambda>_. True"])
      (auto intro!: kspec_wrap kspec_kcall kspec_ret quietD [OF assms])
  show ?thesis
    unfolding releaseCredentialsSecretFinalizer_def Let_def
    by (auto split: option.splits prod.splits
        intro!: kspec_ret kspec_if upd kspec_bind [OF kspec_wrap [OF kspec_read]] quietD [OF assms])
qed

section \<open>Status-loss hold and re-inspection\<close>

lemma reconcileStatusLossHold_spec:
  assumes "env_laws env" "m_state m = StateEmpty" "m_deletionTimestamp m = None"
  shows "kspec (pass_call env m) (\<lambda>_. True) (reconcileStatusLossHold env m)"
  unfolding reconcileStatusLossHold_def consumeConfirmStatusLossAnnotation_def
  using assms
  by (intro kspec_if kspec_ret kspec_bind [OF consume_spec [OF assms(1) like_refl]] setState_spec)
    (auto simp: moves_def forward.enroll)

lemma enterStatusLossHold_spec:
  assumes "env_laws env"
  shows "kspec (pass_call env m) (\<lambda>_. True) (enterStatusLossHold env m)"
  unfolding enterStatusLossHold_def
  by (rule kspec_apply_done)
    (auto intro!: keep_write [OF env_lawsD(1) [OF assms] like_refl]
       simp: machine_upd_defs axis_ok_def meta_lawsD [OF env_lawsD(1) [OF assms]])

lemma reconcileEmptyStatus_spec:
  assumes "env_laws env" "m_state m = StateEmpty" "m_deletionTimestamp m = None"
  shows "kspec (pass_call env m) (\<lambda>_. True) (reconcileEmptyStatus env m)"
proof -
  have enrol: "kspec (pass_call env m) (\<lambda>_. True) (setState env m Enrolling [])"
    by (rule setState_spec) (auto simp: moves_def forward.enroll assms)
  show ?thesis
    unfolding reconcileEmptyStatus_def
    by (intro kspec_if reconcileStatusLossHold_spec assms enrol
        kspec_bind [OF resolveClaimIntent_spec [OF quiet_pass]]
        kspec_bind [OF hasPriorDeployRuns_spec [OF quiet_pass]] enterStatusLossHold_spec)
qed

lemma reInspectAcceptable_spec:
  assumes "quiet P"
  shows "kspec P (\<lambda>b. b \<longrightarrow> m_state m \<in> {Available, Provisioned, Released}) (reInspectAcceptable env m)"
  unfolding reInspectAcceptable_def
  by (cases "m_state m")
    (auto intro!: kspec_ret kspec_bind [OF resolveClaimIntent_spec [OF assms]])

lemma reconcileReInspect_spec:
  assumes "env_laws env" "m_deletionTimestamp m = None"
  shows "kspec (pass_call env m) (\<lambda>_. True) (reconcileReInspect env m)"
  unfolding reconcileReInspect_def consumeReInspectAnnotation_def
proof (rule kspec_bind [OF reInspectAcceptable_spec [OF quiet_pass]])
  fix accepted
  assume acc: "accepted \<longrightarrow> m_state m \<in> {Available, Provisioned, Released}"
  then have "accepted \<Longrightarrow> moves m Inspecting"
    using forward.reinspect assms(2) by (auto simp: moves_def)
  then show "kspec (pass_call env m) (\<lambda>_. True)
     (bindK (consumeAnnotation env MachineAnnotationReInspect ''consuming re-inspect annotation'' m) (\<lambda>m1.
        if \<not> accepted then bindK (note_call (Event ''ReInspectRefused'')) (\<lambda>_. ret noRequeue)
        else bindK (deleteMachineHardware env m1)
               (\<lambda>_. setState env m1 Inspecting [Event ''ReInspectAccepted''])))"
    by (intro kspec_bind [OF consume_spec [OF assms(1) like_refl]] kspec_if
        kspec_bind [OF kspec_note_call [where R = "\<lambda>_. True"]] kspec_ret
        kspec_bind [OF deleteMachineHardware_spec [OF quiet_pass]] setState_spec) auto
qed

section \<open>Credentials\<close>

lemma recordTried_spec:
  assumes "env_laws env" "same env m0 m"
  shows "kspec (pass_call env m0) (same env m0) (recordTriedCredentials env m s)"
proof -
  have *: "kspec (pass_call env m0) (same env m0) (wrapK ctx (kcall (MergeStatus m1) (k_mergeStatus (kube env) m1)))"
    if "write_ok env m0 m1" "same env m0 m1" for ctx m1
    using that client_echoD(3) [OF env_lawsD(2) [OF assms(1)]]
    by (intro kspec_wrap kspec_kcall) (auto intro: owned_like)
  show ?thesis
    unfolding recordTriedCredentials_def Let_def
    by (intro kspec_if kspec_ret *)
      (auto simp: assms like_def machine_upd_defs axis_ok_def sameD [OF assms(2)]
         intro!: keep_write [OF env_lawsD(1) [OF assms(1)] assms(2)])
qed

lemma recordGood_spec:
  assumes "env_laws env" "same env m0 m"
  shows "kspec (pass_call env m0) (same env m0) (recordGoodCredentials env m)"
proof -
  have *: "kspec (pass_call env m0) (same env m0) (wrapK ctx (applyMachineStatus env m1 []))"
    if "write_ok env m0 m1" "same env m0 m1" for ctx m1
    using that client_echoD(2) [OF env_lawsD(2) [OF assms(1)]]
    by (intro kspec_wrap kspec_apply) (auto intro: owned_like)
  show ?thesis
    unfolding recordGoodCredentials_def
    by (intro kspec_if kspec_ret *)
      (auto simp: assms like_def machine_upd_defs axis_ok_def sameD [OF assms(2)]
         intro!: keep_write [OF env_lawsD(1) [OF assms(1)] assms(2)])
qed

lemma resolveCredentialsSecret_spec:
  assumes "env_laws env" "same env m0 m"
  shows "kspec (pass_call env m0) (\<lambda>_. True) (resolveCredentialsSecret env m)"
  unfolding resolveCredentialsSecret_def Let_def
  by (auto split: option.splits
      intro!: kspec_if kspec_ret kspec_bind [OF kspec_wrap [OF kspec_read]]
        kspec_bind [OF markDelayed_spec [OF assms]] kspec_bind [OF claimCredentialsSecret_spec [OF quiet_pass]])

lemma afterStep_spec:
  assumes "env_laws env" "same env m0 m"
  shows "kspec (pass_call env m0) (\<lambda>(m', r'). same env m0 m' \<and> r' = r) (afterStep env (m, r))"
  unfolding afterStep_def
  by (auto intro!: kspec_if kspec_ret kspec_bind [OF recordGood_spec [OF assms]] simp: assms)

end
