(* ===== verification/Machine_Pass.thy ===== *)
theory Machine_Pass
  imports Machine_Safety
begin

text \<open>
  The handlers of a reconcile pass that start a DeployRun or call the deployer, and the pass as a
  whole: every status write of \<open>Reconcile\<close> respects the state walk, the error axis and the bound
  on restart failures, for any Deployer that keeps its contract.
\<close>

section \<open>Starting a provisioning run\<close>

lemma planBuildFailure_transient [simp]: "res_errorType (planBuildFailure e) = Transient"
  by (simp add: planBuildFailure_def)

lemma currentHooksHash_spec:
  assumes "env_laws env" "same env m0 m"
  shows "kspec (pass_call env m0) (\<lambda>_. True) (currentHooksHash env m claim)"
  unfolding currentHooksHash_def
  by (auto split: option.splits sum.splits prod.splits
      intro!: kspec_ret kspec_raise kspec_bind [OF kspec_attempt [OF kspec_kcall [where R = "\<lambda>_. True"]]]
        kspec_if kspec_bind [OF markDelayedNotReady_spec [OF assms]]
        kspec_bind [OF recordFailure_spec [OF assms]])

lemma createDeployRun_spec:
  shows "kspec (pass_call env m0) (\<lambda>_. True) (createDeployRun env m claim)"
proof -
  have plan: "kspec (pass_call env m0) (\<lambda>_. True)
      (bindK (kcall BuildPlan op) (\<lambda>snap. ret (f snap)))" for op :: "'a \<Rightarrow> (kerr + 'b) \<times> 'a" and f :: "'b \<Rightarrow> 'c"
    by (rule kspec_bind [where Q = "\<lambda>_. True"]) (auto intro!: kspec_kcall kspec_ret)
  show ?thesis
    unfolding createDeployRun_def
    by (auto split: option.splits sum.splits
        intro!: kspec_raise kspec_bind [where Q = "\<lambda>_. True"] kspec_ret plan kspec_kcall)
qed

lemma startProvisioningRun_spec:
  assumes "env_laws env" "same env m0 m" "moves m0 Provisioning"
  shows "kspec (pass_call env m0) (\<lambda>_. True) (startProvisioningRun env m claim)"
  unfolding startProvisioningRun_def
proof (rule kspec_bind [OF kspec_attempt [OF createDeployRun_spec]])
  fix r :: "kerr + DeployRun"
  have started: "kspec (pass_call env m0) (\<lambda>_. True) (bindK (wrapK ctx (applyMachineStatus env
       (stampLastUpdated env (resetCounts (markOperational (upd_status (\<lambda>st. st\<lparr>state := Provisioning,
          currentRunRef := ref\<rparr>) m)))) [])) (\<lambda>_. ret requeueNow))" for ctx ref
    by (rule kspec_apply_done) (auto intro!: write_reset simp: machine_upd_defs assms(3))
  show "kspec (pass_call env m0) (\<lambda>_. True) (case r of
         Inl e \<Rightarrow>
           (case classifyPlanBuildError e of (notReady, failed) \<Rightarrow>
              if notReady then markDelayedNotReady env m ''PlanNotReady'' (error_text e)
              else if failed then recordFailure env m (planBuildFailure e)
              else raise (Wrapped ''creating DeployRun'' e))
       | Inr run \<Rightarrow>
           bindK (wrapK ''setting status.state to Provisioning'' (applyMachineStatus env
              (stampLastUpdated env (resetCounts (markOperational
                (upd_status (\<lambda>st. st\<lparr>state := Provisioning,
                   currentRunRef := Some \<lparr>nr_namespace = '''', nr_name = r_name run\<rparr>\<rparr>) m)))) []))
             (\<lambda>_. ret requeueNow))"
    by (auto split: sum.splits prod.splits
        intro!: started kspec_raise markDelayedNotReady_spec [OF assms(1,2)] recordFailure_spec [OF assms(1,2)])
qed

lemma reconcileIdle_spec:
  assumes "env_laws env" "moves m Provisioning"
  shows "kspec (pass_call env m) (\<lambda>_. True) (reconcileIdle env m)"
  unfolding reconcileIdle_def
  by (auto split: hooks_gate.splits prod.splits
      simp: same_removeProgressing [OF env_lawsD(1) [OF assms(1)]]
      intro!: kspec_bind [OF kspec_wrap [OF lastSuccessfulRun_spec [OF quiet_pass]]]
        kspec_bind [OF kspec_wrap [OF resolveClaimIntent_spec [OF quiet_pass]]]
        kspec_bind [OF imageReady_spec [OF quiet_pass]]
        kspec_bind [OF currentHooksHash_spec [OF assms(1) like_refl]]
        kspec_if kspec_ret markDelayedNotReady_spec [OF assms(1) like_refl]
        startProvisioningRun_spec assms)

lemma recordCurrentRunDeleted_spec:
  assumes "env_laws env" "\<not> retryHeld env m"
  shows "kspec (pass_call env m) (\<lambda>_. True) (recordCurrentRunDeleted env m ref)"
  unfolding recordCurrentRunDeleted_def
  by (rule recordFailure_spec [OF assms(1)])
    (use assms(2) in \<open>auto simp: like_def retryHeld_def conditionTrue_def\<close>)

section \<open>Handlers that call the deployer\<close>

lemma owned_retryHeld:
  assumes "owned (lib env) m' = owned (lib env) m"
  shows "retryHeld env m' = retryHeld env m"
  using assms by (simp add: owned_def retryHeld_def conditionTrue_def)

lemma same_retryHeld: "same env m0 m \<Longrightarrow> retryHeld env m = retryHeld env m0"
  by (simp add: retryHeld_def conditionTrue_def like_def)

lemma pass_not_reconciler: "\<not> reconciler_call c \<Longrightarrow> pass_call env m0 c"
  by (cases c) simp_all

lemma attempted_same: "same env m0 m \<Longrightarrow> same env m0 (upd_status (lastAttemptedRunRef_update f) m)"
  by (simp add: like_def)

lemma nonComplete_unheld:
  assumes "env_laws env" "same env m0 m" "\<not> retryHeld env m0"
  shows "kspec (pass_call env m0) (\<lambda>_. True) (applyNonCompleteOutcome env m result b)"
  using assms same_retryHeld [OF assms(2)] by (intro applyNonCompleteOutcome_spec) auto

text \<open>One deployer step inside a pass: the reconciler's view of the Machine is still the one it read.\<close>

lemma step_same:
  assumes "step_ok (kube env) (lib env) m Q a" "env_laws env" "same env m0 m"
  shows "kspec (pass_call env m0) (\<lambda>(m', r). result_ok r \<and> Q r \<and> same env m0 m') (deployerStep s a)"
  by (rule kspec_weaken [OF kspec_step [OF assms(1), of "pass_call env m0"]])
    (auto intro: pass_not_reconciler owned_like assms(3) simp: env_lawsD(2) [OF assms(2)])

context deployer_contract
begin

lemma reconcileInspecting_spec:
  assumes env: "deployer env = D" "kube env = K" "lib env = L" "env_laws env"
    and st: "m_state m = Inspecting" "m_deletionTimestamp m = None" "\<not> retryHeld env m"
  shows "kspec (pass_call env m) (\<lambda>_. True) (reconcileInspecting env m)"
proof -
  have av: "moves m Available"
    using forward.inspected st by (simp add: moves_def)
  have insp: "step_ok (kube env) (lib env) x (\<lambda>_. True) (d_inspect (deployer env) x b)" for x b
    by (simp add: env inspect_ok)
  have done_: "kspec (pass_call env m) (\<lambda>_. True) (bindK (afterStep env (m1, r)) (\<lambda>(m2, result).
      if outcome result = Complete then setState env m2 Available []
      else applyNonCompleteOutcome env m2 result b))" if "same env m m1" for m1 r b
    by (rule kspec_bind [OF afterStep_spec [OF env(4) that]])
      (auto intro!: kspec_if setState_spec av nonComplete_unheld env st)
  show ?thesis
    unfolding reconcileInspecting_def Let_def
    by (auto split: credentials_gate.splits
        intro!: kspec_if setState_spec av kspec_bind [OF resolveCredentialsSecret_spec [OF env(4) like_refl]]
          kspec_ret kspec_bind [OF recordTried_spec [OF env(4) like_refl]]
          kspec_bind [OF step_same [OF insp env(4)]] done_)
qed

lemma reconcileProvisioning_spec:
  assumes env: "deployer env = D" "kube env = K" "lib env = L" "env_laws env"
    and st: "m_state m = Provisioning" "m_deletionTimestamp m = None" "\<not> retryHeld env m"
  shows "kspec (pass_call env m) (\<lambda>_. True) (reconcileProvisioning env m)"
proof -
  have mv: "moves m Provisioning" "moves m Provisioned"
    using forward.provision forward.provisioned st by (simp_all add: moves_def)
  have prov: "step_ok (kube env) (lib env) x (\<lambda>_. True) (d_provision (deployer env) x run b)" for x run b
    by (simp add: env provision_ok)
  have finish: "kspec (pass_call env m) (\<lambda>_. True) (bindK (wrapK ctx (applyMachineStatus env
       (stampLastUpdated env (resetCounts (markOperational (upd_status (\<lambda>st. st\<lparr>state := Provisioned,
          lastSuccessfulRunRef := ref, lastAttemptedRunRef := ref'\<rparr>) m2)))) [])) (\<lambda>_. ret requeueNow))"
    for ctx ref ref' m2
    by (rule kspec_apply_done) (auto intro!: write_reset simp: machine_upd_defs mv)
  have after: "kspec (pass_call env m) (\<lambda>_. True) (bindK (afterStep env (m1, r)) (\<lambda>(m2, result).
      if outcome result \<noteq> Complete then
        applyNonCompleteOutcome env (if outcome result = Failed
           then upd_status (lastAttemptedRunRef_update (\<lambda>_. Some (runRef run))) m2 else m2) result b
      else bindK (wrapK ''setting status.state to Provisioned'' (applyMachineStatus env
         (stampLastUpdated env (resetCounts (markOperational (upd_status (\<lambda>st. st\<lparr>state := Provisioned,
            lastSuccessfulRunRef := Some (runRef run), lastAttemptedRunRef := Some (runRef run)\<rparr>) m2)))) []))
         (\<lambda>_. ret requeueNow)))" if "same env m m1" for m1 r b run
    by (rule kspec_bind [OF afterStep_spec [OF env(4) that]])
      (auto intro!: finish nonComplete_unheld attempted_same env st)
  have run: "kspec (pass_call env m) (\<lambda>_. True) (getOpt (getRun env m ref))" for ref
    unfolding getRun_def Let_def by (rule kspec_read) simp
  show ?thesis
    unfolding reconcileProvisioning_def Let_def
    by (auto split: option.splits credentials_gate.splits
        intro!: kspec_bind [OF kspec_wrap [OF resolveClaimIntent_spec [OF quiet_pass]]]
          kspec_if markDelayedNotReady_spec [OF env(4) like_refl] startProvisioningRun_spec mv env(4) like_refl
          kspec_bind [OF kspec_wrap [OF run]] recordCurrentRunDeleted_spec st(3)
          kspec_bind [OF resolveCredentialsSecret_spec [OF env(4) like_refl]] kspec_ret
          kspec_bind [OF recordTried_spec [OF env(4) like_refl]]
          kspec_bind [OF step_same [OF prov env(4)]] after)
qed

lemma reconcileReboot_spec:
  assumes env: "deployer env = D" "kube env = K" "lib env = L" "env_laws env"
  shows "kspec (pass_call env m) (\<lambda>_. True) (reconcileReboot env m hard)"
proof -
  have reb: "step_ok (kube env) (lib env) x never_restart (d_reboot (deployer env) x b)" for x b
    by (simp add: env reboot_ok)
  have clear: "kspec (pass_call env m) (\<lambda>_. True) (bindK (clearSuffixlessRebootAnnotation env m1) (\<lambda>_. ret noRequeue))"
    if "same env m m1" for m1
    unfolding clearSuffixlessRebootAnnotation_def
    by (rule kspec_bind [where Q = "same env m"])
      (auto intro!: kspec_if kspec_ret kspec_wrap patch_spec env that)
  show ?thesis
    unfolding reconcileReboot_def
    by (rule kspec_bind [OF step_same [OF reb env(4) like_refl]])
      (auto intro!: clear applyNonCompleteOutcome_spec env(4) simp: never_restart_def)
qed

end

section \<open>The delete walk\<close>

lemma advanceDeleteStage_spec:
  assumes "next \<noteq> StateEmpty \<Longrightarrow> moves m0 next" "restartCount (m_status m) = restartCount (m_status m0)"
    and "retryHeld env m = retryHeld env m0"
  shows "kspec (pass_call env m0) (\<lambda>_. True) (advanceDeleteStage env m next)"
proof -
  have release: "kspec (pass_call env m0) (\<lambda>_. True) (releaseMachine env m)"
    unfolding releaseMachine_def Let_def
    by (rule kspec_bind [OF releaseCredentialsSecretFinalizer_spec [OF quiet_pass]],
        rule kspec_bind [where Q = "\<lambda>_. True"])
      (auto intro!: kspec_kcall kspec_ret)
  show ?thesis
    unfolding advanceDeleteStage_def
    by (intro kspec_if release kspec_apply_done)
      (use assms in \<open>auto simp: write_ok_def axis_ok_def restart_inv_def machine_upd_defs
         retryHeld_def conditionTrue_def\<close>)
qed

lemma recordDeleteStageFailure_spec:
  assumes "env_laws env" "same env m0 m" "next \<noteq> StateEmpty \<Longrightarrow> moves m0 next" "res_errorType result \<noteq> Restart"
  shows "kspec (pass_call env m0) (\<lambda>_. True) (recordDeleteStageFailure env m result stage next)"
proof -
  let ?m1 = "stampLastUpdated env (applyFailure (res_errorType result) (res_errorMessage result) m)"
  have m1: "restartCount (m_status ?m1) = restartCount (m_status m0)" "retryHeld env ?m1 = retryHeld env m0"
    using assms(4) sameD [OF assms(2)] by (simp_all add: machine_upd_defs retryHeld_def conditionTrue_def)
  have "kspec (pass_call env m0) (\<lambda>x. owned (lib env) x = owned (lib env) ?m1)
      (wrapK ctx (applyMachineStatus env ?m1 (if b then [GiveUpMetric stage] else [])))" for ctx b
  proof (intro kspec_wrap kspec_apply)
    show "pass_call env m0 (ApplyStatus ?m1)"
      using assms(4) by (auto intro: failure_write [OF assms(1,2)])
  qed (auto split: if_splits dest: client_echoD(2) [OF env_lawsD(2) [OF assms(1)]])
  note first = kspec_bind [OF this]
  have advance: "kspec (pass_call env m0) (\<lambda>_. True) (advanceDeleteStage env x next)"
    if eq: "owned (lib env) x = owned (lib env) ?m1" for x
  proof -
    have "owned_status (m_status x) = owned_status (m_status ?m1)"
      using eq by (simp add: owned_def)
    then have "restartCount (m_status x) = restartCount (m_status m0)"
      unfolding m1(1) [symmetric] by (rule owned_statusD)
    moreover have "retryHeld env x = retryHeld env m0"
      unfolding m1(2) [symmetric] by (rule owned_retryHeld [OF eq])
    ultimately show ?thesis
      by (intro advanceDeleteStage_spec assms(3))
  qed
  show ?thesis
    unfolding recordDeleteStageFailure_def Let_def
    by (rule first) (auto intro!: kspec_ret advance)
qed

lemma runDeleteStage_spec:
  assumes "env_laws env" "next \<noteq> StateEmpty \<Longrightarrow> moves m0 next"
    and "kspec (pass_call env m0) (\<lambda>(m', r). result_ok r \<and> never_restart r \<and> same env m0 m') step"
  shows "kspec (pass_call env m0) (\<lambda>_. True) (runDeleteStage env step stage next)"
  unfolding runDeleteStage_def
proof (rule kspec_bind [OF assms(3)], clarify)
  fix m result
  assume res: "result_ok result" "never_restart result" and m: "same env m0 m"
  have adv: "kspec (pass_call env m0) (\<lambda>_. True) (advanceDeleteStage env m next)"
    using sameD [OF m] same_retryHeld [OF m] by (intro advanceDeleteStage_spec assms) auto
  show "kspec (pass_call env m0) (\<lambda>_. True) (case outcome result of
         Complete \<Rightarrow> advanceDeleteStage env m next
       | Continuing \<Rightarrow> clearRetryStatus env m False (requeueIn (jitter env continuingRequeueInterval))
       | Busy \<Rightarrow> clearRetryStatus env m False (requeueIn (busyRequeue env result))
       | Delayed \<Rightarrow> markDelayed env m delayedRequeueInterval
       | Failed \<Rightarrow> recordDeleteStageFailure env m result stage next
       | _ \<Rightarrow> raise (PlainError ''delete stage returned unrecognized outcome''))"
    using res(2)
    by (cases "outcome result")
      (auto intro!: adv clearRetryStatus_spec markDelayed_spec recordDeleteStageFailure_spec kspec_raise assms m
        simp: never_restart_def)
qed

context deployer_contract
begin

lemma onDelete_spec:
  assumes env: "deployer env = D" "kube env = K" "lib env = L" "env_laws env"
    and del: "m_deletionTimestamp m \<noteq> None"
  shows "kspec (pass_call env m) (\<lambda>_. True) (onDelete env m)"
proof -
  have dep: "step_ok (kube env) (lib env) x never_restart (d_deprovision (deployer env) x b)"
    and off: "step_ok (kube env) (lib env) x never_restart (d_powerOff (deployer env) x)" for x b
    by (simp_all add: env deprovision_ok powerOff_ok)
  have mv: "m_state m = Deprovisioning \<Longrightarrow> moves m PoweringOff"
    "m_state m \<notin> {Deprovisioning, PoweringOff} \<Longrightarrow> moves m Deprovisioning"
    using del backward.intros by (simp_all add: moves_def)
  show ?thesis
    unfolding onDelete_def reconcileDeprovisioning_def reconcilePoweringOff_def
    by (cases "m_state m")
      (auto intro!: kspec_ret kspec_if advanceDeleteStage_spec runDeleteStage_spec mv env(4)
         step_same [OF dep env(4) like_refl] step_same [OF off env(4) like_refl])
qed

lemma onChange_spec:
  assumes env: "deployer env = D" "kube env = K" "lib env = L" "env_laws env"
    and live: "m_deletionTimestamp m = None"
  shows "kspec (pass_call env m) (\<lambda>_. True) (onChange env m)"
proof -
  have mv: "m_state m = Enrolling \<Longrightarrow> moves m Inspecting" "hasUnknownErrorType m \<Longrightarrow> moves m Enrolling"
    "releaseEligible (m_state m) \<Longrightarrow> moves m Released"
    "m_state m \<in> {Available, Provisioned} \<Longrightarrow> moves m Provisioning"
    using live forward.inspect forward.release forward.provision
    by (auto simp: moves_def releaseEligible_def)
  have by_state: "kspec (pass_call env m) (\<lambda>_. True) (case m_state m of
          StateEmpty \<Rightarrow> reconcileEmptyStatus env m
        | Enrolling \<Rightarrow> setState env m Inspecting []
        | Inspecting \<Rightarrow> reconcileInspecting env m
        | Available \<Rightarrow> reconcileIdle env m
        | Provisioned \<Rightarrow> reconcileIdle env m
        | Provisioning \<Rightarrow> reconcileProvisioning env m
        | _ \<Rightarrow> raise (PlainError (''unknown status.state '' @ go_quote (state_text (m_state m)))))"
    if "\<not> retryHeld env m"
    by (cases "m_state m")
      (auto intro!: reconcileEmptyStatus_spec setState_spec reconcileInspecting_spec reconcileIdle_spec
         reconcileProvisioning_spec kspec_raise env live that mv)
  show ?thesis
    unfolding onChange_def
    by (auto split: prod.splits intro!: kspec_if reconcileDetached_spec clearDetached_spec
        reconcileReboot_spec reconcileReInspect_spec reconcileClearError_spec kspec_ret setState_spec
        by_state mv env live)
qed

text \<open>The whole pass.\<close>

lemma reconcileMachine_spec:
  assumes env: "deployer env = D" "kube env = K" "lib env = L" "env_laws env"
  shows "kspec (pass_call env m) (\<lambda>_. True) (reconcileMachine env m)"
  unfolding reconcileMachine_def Let_def
  by (intro kspec_if kspec_ret onDelete_spec onChange_spec env kspec_bind [OF kspec_kcall [where R = "\<lambda>_. True"]])
    auto

end

section \<open>Reachable statuses\<close>

text \<open>
  Everything a Machine's stored status can go through: it starts empty; a pass reads a reachable
  Machine (the current one, or an older one from a stale cache) and one of its status writes
  succeeds; anybody else changes what the reconciler does not own (spec, annotations, deletion
  timestamp, the status fields of other components).
\<close>

definition fresh_status :: "Machine \<Rightarrow> bool" where
  "fresh_status m \<longleftrightarrow> m_state m = StateEmpty \<and> operationalStatus (m_status m) = OpEmpty \<and>
     errorType (m_status m) = ErrNone \<and> errorMessage (m_status m) = '''' \<and>
     errorCount (m_status m) = 0 \<and> restartCount (m_status m) = 0"

inductive reachable :: "libs \<Rightarrow> ('s env \<Rightarrow> bool) \<Rightarrow> Machine \<Rightarrow> bool" for L E where
  fresh: "fresh_status m \<Longrightarrow> reachable L E m"
| pass: "reachable L E m \<Longrightarrow> E env \<Longrightarrow> reconcileMachine env m w = (r, w') \<Longrightarrow> trace w' = trace w @ cs \<Longrightarrow>
     (ApplyStatus m', True) \<in> set cs \<or> (MergeStatus m', True) \<in> set cs \<Longrightarrow> reachable L E m'"
| others: "reachable L E m \<Longrightarrow> owned L m' = owned L m \<Longrightarrow> reachable L E m'"

lemma owned_inv:
  assumes "owned L m' = owned L m"
  shows "axis_ok m' = axis_ok m" "restart_inv L m' = restart_inv L m"
  using owned_like [OF assms like_refl] by (simp_all add: like_def axis_ok_def restart_inv_def)

lemma pass_write:
  assumes "kspec (pass_call env m) (\<lambda>_. True) (reconcileMachine env m)"
    and "reconcileMachine env m w = (r, w')" "trace w' = trace w @ cs"
    and "(ApplyStatus m', b) \<in> set cs \<or> (MergeStatus m', b) \<in> set cs"
  shows "write_ok env m m'"
proof -
  from kspec_runD(1) [OF assms(1,2)] assms(3) have "\<forall>c\<in>set cs. pass_call env m (fst c)"
    by auto
  with assms(4) show ?thesis
    by (metis fst_conv pass_call.simps(1,2))
qed

lemma reachable_inv:
  assumes "reachable L E m"
    and E: "\<And>env m. E env \<Longrightarrow> lib env = L \<and> kspec (pass_call env m) (\<lambda>_. True) (reconcileMachine env m)"
  shows "axis_ok m \<and> restart_inv L m"
  using assms(1)
proof induction
  case (fresh m)
  then show ?case
    by (simp add: fresh_status_def axis_ok_def restart_inv_def maxRestartFailures_def)
next
  case (pass m env w r w' cs m')
  have "write_ok env m m'"
    using pass_write pass.hyps E by blast
  then show ?case
    using pass.IH E [OF \<open>E env\<close>] by (simp add: write_ok_def)
next
  case (others m m')
  then show ?case
    using owned_inv [OF others.hyps(2)] by simp
qed

end
