(* ===== verification/Machine_Guards.thy ===== *)
theory Machine_Guards
  imports Machine_Pass
begin

text \<open>
  When a pass may call the deployer or create a DeployRun. Status writes, reads and events are
  left open here; what is constrained is every call of a deployer step and every creation.
\<close>

definition active :: "Machine \<Rightarrow> bool" where
  "active m \<longleftrightarrow> \<not> isPaused m \<and> \<not> isDetached m"

fun step_guard :: "'s env \<Rightarrow> Machine \<Rightarrow> deployer_step \<Rightarrow> bool" where
  "step_guard env m StepInspect \<longleftrightarrow> m_deletionTimestamp m = None \<and> m_state m = Inspecting \<and>
     \<not> inspectDisabled m \<and> \<not> retryHeld env m"
| "step_guard env m StepProvision \<longleftrightarrow> m_deletionTimestamp m = None \<and> m_state m = Provisioning \<and>
     currentRunRef (m_status m) \<noteq> None \<and> ms_claimRef (m_spec m) \<noteq> None \<and> \<not> retryHeld env m"
| "step_guard env m StepDeprovision \<longleftrightarrow> m_deletionTimestamp m \<noteq> None \<and> m_state m = Deprovisioning"
| "step_guard env m StepPowerOff \<longleftrightarrow> m_deletionTimestamp m \<noteq> None \<and> m_state m = PoweringOff"
| "step_guard env m (StepReboot hard) \<longleftrightarrow> m_deletionTimestamp m = None \<and> rebootRequested env m = (True, hard)"

definition run_for :: "Machine \<Rightarrow> DeployRun \<Rightarrow> bool" where
  "run_for m run \<longleftrightarrow> rs_machineRef (r_spec run) = \<lparr>nr_namespace = '''', nr_name = m_name m\<rparr> \<and>
     rs_claimRef (r_spec run) = ms_claimRef (m_spec m)"

definition run_guard :: "'s env \<Rightarrow> Machine \<Rightarrow> DeployRun \<Rightarrow> bool" where
  "run_guard env m run \<longleftrightarrow> m_deletionTimestamp m = None \<and> \<not> retryHeld env m \<and>
     (m_state m \<in> {Available, Provisioned} \<or> m_state m = Provisioning \<and> currentRunRef (m_status m) = None) \<and>
     ms_claimRef (m_spec m) \<noteq> None \<and> run_for m run"

fun guarded :: "'s env \<Rightarrow> Machine \<Rightarrow> call \<Rightarrow> bool" where
  "guarded env m (DeployerCall s) \<longleftrightarrow> active m \<and> step_guard env m s"
| "guarded env m (CreateRun run) \<longleftrightarrow> active m \<and> run_guard env m run"
| "guarded env m _ \<longleftrightarrow> True"

text \<open>Predicates that leave every other request open.\<close>

definition open_calls :: "(call \<Rightarrow> bool) \<Rightarrow> bool" where
  "open_calls P \<longleftrightarrow> (\<forall>c. (\<forall>s. c \<noteq> DeployerCall s) \<and> (\<forall>r. c \<noteq> CreateRun r) \<longrightarrow> P c)"

lemma open_guarded [simp]: "open_calls (guarded env m)"
  unfolding open_calls_def by (intro allI impI) (case_tac c; simp)

lemma open_callsD [simp]:
  assumes "open_calls P"
  shows "P (ApplyStatus m)" "P (MergeStatus m)" "P (UpdateMachine m)" "P (PatchMachine m)" "P (Event e)"
    "P (GiveUpMetric t)" "P BuildPlan" "P (GetRun k)"
  using assms unfolding open_calls_def by simp_all

lemma open_quiet: "open_calls P \<Longrightarrow> quiet P"
  by (auto simp: open_calls_def quiet_def)

lemma open_deployer: "open_calls P \<Longrightarrow> \<not> reconciler_call c \<Longrightarrow> P c"
  by (cases c) (auto simp: open_calls_def)

section \<open>Handlers that only write status\<close>

lemma open_apply:
  assumes "open_calls P" "\<And>c. c \<in> set cs \<Longrightarrow> P c"
  shows "kspec P (\<lambda>_. True) (applyMachineStatus env m cs)"
  by (rule kspec_apply) (use assms in auto)

lemma open_writes:
  assumes "open_calls P"
  shows "kspec P (\<lambda>_. True) (setState env m s [])" "kspec P (\<lambda>_. True) (setState env m s [Event e])"
    "kspec P (\<lambda>_. True) (markDelayed env m d)" "kspec P (\<lambda>_. True) (markDelayedNotReady env m r t)"
    "kspec P (\<lambda>_. True) (clearRetryStatus env m b res)" "kspec P (\<lambda>_. True) (recordFailure env m result)"
  unfolding setState_def markDelayed_def markDelayedNotReady_def clearRetryStatus_def recordFailure_def
    holdForRetry_def Let_def
  using assms by (auto intro!: kspec_apply_done kspec_if kspec_ret)

lemma open_nonComplete:
  assumes "open_calls P"
  shows "kspec P (\<lambda>_. True) (applyNonCompleteOutcome env m result b)"
  unfolding applyNonCompleteOutcome_def recordDelayed_def
  by (cases "outcome result") (auto intro: open_writes [OF assms] kspec_raise)

lemma open_patch:
  assumes "open_calls P"
  shows "kspec P (\<lambda>_. True) (consumeAnnotation env k ctx m)"
    "kspec P (\<lambda>_. True) (clearSuffixlessRebootAnnotation env m)"
  unfolding consumeAnnotation_def clearSuffixlessRebootAnnotation_def patchMachine_def
  using assms by (auto intro!: kspec_wrap kspec_kcall kspec_if kspec_ret)

lemma open_annotation_handlers:
  assumes "open_calls P"
  shows "kspec P (\<lambda>_. True) (reconcileDetached env m)" "kspec P (\<lambda>_. True) (clearDetached env m)"
    "kspec P (\<lambda>_. True) (reconcileClearError env m)" "kspec P (\<lambda>_. True) (reconcileReInspect env m)"
    "kspec P (\<lambda>_. True) (reconcileEmptyStatus env m)"
  unfolding reconcileDetached_def clearDetached_def reconcileClearError_def reconcileReInspect_def
    reconcileEmptyStatus_def reconcileStatusLossHold_def enterStatusLossHold_def
    consumeClearErrorAnnotation_def consumeReInspectAnnotation_def consumeConfirmStatusLossAnnotation_def
  using assms
  by (auto intro!: kspec_if kspec_ret kspec_apply_done open_writes kspec_bind [OF open_patch(1)]
      kspec_bind [OF reInspectAcceptable_spec [OF open_quiet]] kspec_bind [OF kspec_note_call [where R = "\<lambda>_. True"]]
      kspec_bind [OF deleteMachineHardware_spec [OF open_quiet]]
      kspec_bind [OF resolveClaimIntent_spec [OF open_quiet]] kspec_bind [OF hasPriorDeployRuns_spec [OF open_quiet]])

lemma open_advance:
  assumes "open_calls P"
  shows "kspec P (\<lambda>_. True) (advanceDeleteStage env m next)"
proof -
  have "kspec P (\<lambda>_. True) (releaseMachine env m)"
    unfolding releaseMachine_def Let_def
    by (rule kspec_bind [OF releaseCredentialsSecretFinalizer_spec [OF open_quiet [OF assms]]],
        rule kspec_bind [where Q = "\<lambda>_. True"])
      (use assms in \<open>auto intro!: kspec_kcall kspec_ret\<close>)
  then show ?thesis
    unfolding advanceDeleteStage_def using assms by (auto intro!: kspec_apply_done)
qed

lemma open_deleteStage:
  assumes "open_calls P" "kspec P (\<lambda>_. True) step"
  shows "kspec P (\<lambda>_. True) (runDeleteStage env step stage next)"
proof -
  have fail: "kspec P (\<lambda>_. True) (recordDeleteStageFailure env m result stage next)" for m result
    unfolding recordDeleteStageFailure_def Let_def
    using assms(1)
    by (auto intro!: kspec_bind [OF kspec_wrap [OF open_apply]] kspec_ret open_advance)
  show ?thesis
    unfolding runDeleteStage_def
    by (rule kspec_bind [OF assms(2)])
      (auto split: Outcome.splits intro!: open_advance open_writes fail kspec_raise assms(1))
qed

section \<open>Creating a run\<close>

lemma newRun_for: "run_for m (newRun m c)" "run_for m (ApplySnapshot (newRun m c) snap)"
  by (simp_all add: run_for_def newRun_def ApplySnapshot_def)

lemma createDeployRun_guard:
  assumes "open_calls P" "owner_laws (lib env)" "\<And>run. run_for m run \<Longrightarrow> P (CreateRun run)"
  shows "kspec P (\<lambda>_. True) (createDeployRun env m claim)"
proof -
  have "kspec P (\<lambda>_. True) (case setControllerReference (lib env) m run of
      Inl e \<Rightarrow> raise (Wrapped ctx e) | Inr run' \<Rightarrow> kcall (CreateRun run') (k_createRun (kube env) run'))"
    if "run_for m run" for run ctx
    using assms(2,3) that
    by (auto split: sum.splits intro!: kspec_raise kspec_kcall simp: owner_laws_def run_for_def)
  note create = this
  show ?thesis
    unfolding createDeployRun_def
    using assms(1)
    by (auto split: option.splits
        intro!: kspec_raise kspec_bind [where Q = "run_for m"] create kspec_ret newRun_for
          kspec_bind [OF kspec_kcall [where R = "\<lambda>_. True"]])
qed

lemma startProvisioningRun_guard:
  assumes "open_calls P" "owner_laws (lib env)" "\<And>run. run_for m run \<Longrightarrow> P (CreateRun run)"
  shows "kspec P (\<lambda>_. True) (startProvisioningRun env m claim)"
  unfolding startProvisioningRun_def
  using assms(1)
  by (intro kspec_bind [OF kspec_attempt [OF createDeployRun_guard [OF assms]]])
    (auto split: sum.splits prod.splits intro!: open_writes kspec_raise kspec_apply_done)

lemma open_gates:
  assumes "open_calls P"
  shows "kspec P (\<lambda>_. True) (currentHooksHash env m claim)"
    "kspec P (\<lambda>_. True) (resolveCredentialsSecret env m)"
    "kspec P (\<lambda>_. True) (recordTriedCredentials env m s)"
    "kspec P (\<lambda>_. True) (afterStep env mr)"
proof -
  note delayed = open_writes(3) [OF assms] and notReady = open_writes(4) [OF assms]
    and failure = open_writes(6) [OF assms]
  show "kspec P (\<lambda>_. True) (currentHooksHash env m claim)"
    unfolding currentHooksHash_def
    by (auto split: option.splits sum.splits prod.splits simp: assms
        intro!: kspec_ret kspec_raise kspec_bind [OF kspec_attempt [OF kspec_kcall [where R = "\<lambda>_. True"]]]
          kspec_bind [OF notReady] kspec_bind [OF failure])
  show "kspec P (\<lambda>_. True) (resolveCredentialsSecret env m)"
    unfolding resolveCredentialsSecret_def Let_def
    by (auto split: option.splits intro!: kspec_if kspec_ret kspec_bind [OF kspec_wrap [OF kspec_read]]
        kspec_bind [OF delayed] kspec_bind [OF claimCredentialsSecret_spec [OF open_quiet [OF assms]]]
        quietD [OF open_quiet [OF assms]])
  show "kspec P (\<lambda>_. True) (recordTriedCredentials env m s)"
    unfolding recordTriedCredentials_def Let_def
    using assms by (auto intro!: kspec_ret kspec_wrap kspec_kcall)
  show "kspec P (\<lambda>_. True) (afterStep env mr)"
    unfolding afterStep_def recordGoodCredentials_def
    using assms by (auto intro!: kspec_ret kspec_bind [where Q = "\<lambda>_. True"] kspec_wrap open_apply split: prod.splits)
qed

lemma reconcileIdle_guard:
  assumes "open_calls P" "owner_laws (lib env)"
    and "\<And>run. ms_claimRef (m_spec m) \<noteq> None \<Longrightarrow> run_for m run \<Longrightarrow> P (CreateRun run)"
  shows "kspec P (\<lambda>_. True) (reconcileIdle env m)"
proof -
  have claim: "kspec P (\<lambda>claim. claim \<noteq> None \<longrightarrow> ms_claimRef (m_spec m) \<noteq> None) (resolveClaimIntent (kube env) m)"
    unfolding resolveClaimIntent_def
    by (auto split: option.splits intro!: kspec_ret kspec_bind [OF kspec_read] kspec_if
        quietD [OF open_quiet [OF assms(1)]])
  have start: "kspec P (\<lambda>_. True) (startProvisioningRun env (removeCondition env t m) claim)"
    if "ms_claimRef (m_spec m) \<noteq> None" for t claim
    using that assms(3)
    by (intro startProvisioningRun_guard assms(1,2)) (auto simp: run_for_def removeCondition_def)
  show ?thesis
    unfolding reconcileIdle_def
    by (auto split: hooks_gate.splits prod.splits
        simp: isEmptyDeployPayload_def [of None] claimUnresolved_def
        intro!: kspec_bind [OF kspec_wrap [OF lastSuccessfulRun_spec [OF open_quiet [OF assms(1)]]]]
          kspec_bind [OF kspec_wrap [OF claim]] kspec_bind [OF imageReady_spec [OF open_quiet [OF assms(1)]]]
          kspec_bind [OF open_gates(1) [OF assms(1)]] kspec_if kspec_ret open_writes(4) [OF assms(1)] start)
qed

section \<open>Calling the deployer\<close>

lemma open_step:
  assumes "open_calls P" "step_ok K L m Q a" "P (DeployerCall s)"
  shows "kspec P (\<lambda>_. True) (deployerStep s a)"
  by (rule kspec_weaken [OF kspec_step [OF assms(2), of P s]])
    (auto intro: open_deployer [OF assms(1)] assms(3))

context deployer_contract
begin

lemma reconcileInspecting_guard:
  assumes env: "deployer env = D" "open_calls P"
    and "\<not> inspectDisabled m \<Longrightarrow> P (DeployerCall StepInspect)"
  shows "kspec P (\<lambda>_. True) (reconcileInspecting env m)"
  unfolding reconcileInspecting_def env(1) Let_def
  by (auto split: credentials_gate.splits prod.splits
      intro!: kspec_ret open_writes(1) [OF env(2)] open_nonComplete [OF env(2)]
        kspec_bind [OF open_gates(2) [OF env(2)]] kspec_bind [OF open_gates(3) [OF env(2)]]
        kspec_bind [OF open_step [OF env(2) inspect_ok]] kspec_bind [OF open_gates(4) [OF env(2)]] assms(3))

lemma reconcileProvisioning_guard:
  assumes env: "deployer env = D" "open_calls P" "owner_laws (lib env)"
    and step: "currentRunRef (m_status m) \<noteq> None \<Longrightarrow> P (DeployerCall StepProvision)"
    and run: "\<And>run. currentRunRef (m_status m) = None \<Longrightarrow> run_for m run \<Longrightarrow> P (CreateRun run)"
  shows "kspec P (\<lambda>_. True) (reconcileProvisioning env m)"
proof -
  have get: "kspec P (\<lambda>_. True) (getOpt (getRun env m ref))" for ref
    unfolding getRun_def Let_def by (rule kspec_read) (simp add: env)
  show ?thesis
    unfolding reconcileProvisioning_def env(1) Let_def recordCurrentRunDeleted_def
    by (auto split: credentials_gate.splits prod.splits option.splits simp: env(2)
        intro!: kspec_ret kspec_if open_nonComplete [OF env(2)] open_writes(4,6) [OF env(2)]
          startProvisioningRun_guard [OF env(2,3)] run step kspec_apply_done
          kspec_bind [OF kspec_wrap [OF resolveClaimIntent_spec [OF open_quiet [OF env(2)]]]]
          kspec_bind [OF kspec_wrap [OF get]]
          kspec_bind [OF open_gates(2) [OF env(2)]] kspec_bind [OF open_gates(3) [OF env(2)]]
          kspec_bind [OF open_step [OF env(2) provision_ok]] kspec_bind [OF open_gates(4) [OF env(2)]])
qed

lemma reconcileReboot_guard:
  assumes "deployer env = D" "open_calls P" "P (DeployerCall (StepReboot hard))"
  shows "kspec P (\<lambda>_. True) (reconcileReboot env m hard)"
  unfolding reconcileReboot_def assms(1)
  by (rule kspec_bind [OF open_step [OF assms(2) reboot_ok assms(3)]])
    (auto intro!: open_nonComplete [OF assms(2)] kspec_bind [OF open_patch(2) [OF assms(2)]] kspec_ret)

lemma onDelete_guard:
  assumes "deployer env = D" "m_deletionTimestamp m \<noteq> None" "\<not> isPaused m"
  shows "kspec (guarded env m) (\<lambda>_. True) (onDelete env m)"
proof -
  have "kspec (guarded env m) (\<lambda>_. True) (deployerStep StepDeprovision (d_deprovision D m b))"
    if "\<not> isDetached m" "m_state m = Deprovisioning" for b
    by (rule open_step [OF open_guarded deprovision_ok]) (simp add: active_def that assms)
  moreover have "kspec (guarded env m) (\<lambda>_. True) (deployerStep StepPowerOff (d_powerOff D m))"
    if "\<not> isDetached m" "m_state m = PoweringOff"
    by (rule open_step [OF open_guarded powerOff_ok]) (simp add: active_def that assms)
  ultimately show ?thesis
    unfolding onDelete_def reconcileDeprovisioning_def reconcilePoweringOff_def assms(1)
    by (cases "m_state m") (auto intro!: kspec_ret open_advance [OF open_guarded] open_deleteStage [OF open_guarded])
qed

lemma onChange_guard:
  assumes env: "deployer env = D" "owner_laws (lib env)"
    and m: "m_deletionTimestamp m = None" "\<not> isPaused m"
  shows "kspec (guarded env m) (\<lambda>_. True) (onChange env m)"
proof (cases "isDetached m")
  case True
  then show ?thesis
    by (simp add: onChange_def open_annotation_handlers [OF open_guarded])
next
  case False
  then have act: "active m" using m by (simp add: active_def)
  have reboot: "kspec (guarded env m) (\<lambda>_. True) (reconcileReboot env m hard)"
    if "rebootRequested env m = (True, hard)" for hard
    by (rule reconcileReboot_guard [OF env(1) open_guarded]) (simp add: act m that)
  have walk: "kspec (guarded env m) (\<lambda>_. True) (case m_state m of
          StateEmpty \<Rightarrow> reconcileEmptyStatus env m
        | Enrolling \<Rightarrow> setState env m Inspecting []
        | Inspecting \<Rightarrow> reconcileInspecting env m
        | Available \<Rightarrow> reconcileIdle env m
        | Provisioned \<Rightarrow> reconcileIdle env m
        | Provisioning \<Rightarrow> reconcileProvisioning env m
        | _ \<Rightarrow> raise e)"
    if "\<not> retryHeld env m" "m_state m = Provisioning \<Longrightarrow> ms_claimRef (m_spec m) \<noteq> None" for e
    using that
    by (cases "m_state m")
      (auto intro!: open_annotation_handlers open_writes reconcileInspecting_guard reconcileIdle_guard
         reconcileProvisioning_guard env kspec_raise simp: act m run_guard_def)
  show ?thesis
    unfolding onChange_def
    by (auto split: prod.splits
        intro!: reboot walk open_annotation_handlers open_writes kspec_ret simp: False releaseEligible_def)
qed

lemma reconcileMachine_guard:
  assumes "deployer env = D" "owner_laws (lib env)"
  shows "kspec (guarded env m) (\<lambda>_. True) (reconcileMachine env m)"
  unfolding reconcileMachine_def Let_def
  by (intro kspec_if kspec_ret onDelete_guard onChange_guard assms kspec_bind [OF kspec_kcall [where R = "\<lambda>_. True"]])
    auto

end

end
