(* ===== verification/Machine_Holds.thy ===== *)
theory Machine_Holds
  imports Machine_Guards
begin

text \<open>
  The two holds of a Machine. A retry hold survives every pass that carries neither clear-error
  nor re-inspect; a Machine held after a status loss, or about to be, makes no step towards a
  deployment.
\<close>

section \<open>The retry hold\<close>

fun keeps_hold :: "'s env \<Rightarrow> call \<Rightarrow> bool" where
  "keeps_hold env (ApplyStatus m) = retryHeld env m"
| "keeps_hold env (MergeStatus m) = retryHeld env m"
| "keeps_hold env _ = True"

lemma retryHeld_frame [simp]:
  assumes "meta_laws (lib env)"
  shows "retryHeld env (stampLastUpdated env m) = retryHeld env m"
    "retryHeld env (markOperational m) = retryHeld env m"
    "retryHeld env (applyFailure et msg m) = retryHeld env m"
    "retryHeld env (upd_status (operationalStatus_update f) m) = retryHeld env m"
    "c_type c = MachineConditionRetryHeld \<Longrightarrow> c_status c = CondTrue \<Longrightarrow> retryHeld env (setCondition env c m)"
  using assms by (auto simp: retryHeld_def conditionTrue_def machine_upd_defs meta_lawsD)

lemma held_outcome:
  assumes "meta_laws (lib env)" "retryHeld env m"
  shows "kspec (keeps_hold env) (\<lambda>_. True) (applyNonCompleteOutcome env m result b)"
  unfolding applyNonCompleteOutcome_def clearRetryStatus_def recordDelayed_def markDelayed_def
    recordFailure_def holdForRetry_def Let_def
  using assms by (auto split: Outcome.splits intro!: kspec_if kspec_ret kspec_apply_done kspec_raise)

lemma hold_not_reconciler: "\<not> reconciler_call c \<Longrightarrow> keeps_hold env c"
  by (cases c) simp_all

context deployer_contract
begin

lemma held_reboot:
  assumes env: "deployer env = D" "kube env = K" "lib env = L" "env_laws env" and "retryHeld env m"
  shows "kspec (keeps_hold env) (\<lambda>_. True) (reconcileReboot env m hard)"
proof -
  have kept: "retryHeld env m'" if "owned L m' = owned L m" for m'
    using owned_retryHeld [of env m' m] that assms(5) by (simp add: env(3))
  have echo: "client_echo K L"
    using env_lawsD(2) [OF env(4)] by (simp add: env(2,3))
  have "kspec (keeps_hold env)
      (\<lambda>(m', r). result_ok r \<and> never_restart r \<and> (client_echo K L \<longrightarrow> owned L m' = owned L m))
      (deployerStep (StepReboot hard) (d_reboot D m hard))"
    by (rule kspec_step [OF reboot_ok]) (auto intro: hold_not_reconciler)
  then have step: "kspec (keeps_hold env) (\<lambda>(m', r). retryHeld env m')
      (deployerStep (StepReboot hard) (d_reboot (deployer env) m hard))"
    unfolding env(1) by (rule kspec_weaken) (use echo in \<open>auto intro: kept\<close>)
  show ?thesis
    unfolding reconcileReboot_def clearSuffixlessRebootAnnotation_def patchMachine_def
    by (rule kspec_bind [OF step])
      (auto intro!: held_outcome env_lawsD(1) [OF env(4)] kspec_ret kspec_bind [where Q = "\<lambda>_. True"]
        kspec_wrap kspec_kcall)
qed

lemma held_pass:
  assumes env: "deployer env = D" "kube env = K" "lib env = L" "env_laws env"
    and held: "retryHeld env m" "m_deletionTimestamp m = None"
    and "\<not> clearErrorRequested m" "\<not> reInspectRequested m"
  shows "kspec (keeps_hold env) (\<lambda>_. True) (reconcileMachine env m)"
proof -
  have "kspec (keeps_hold env) (\<lambda>_. True) (reconcileDetached env m)"
    "kspec (keeps_hold env) (\<lambda>_. True) (clearDetached env m)"
    unfolding reconcileDetached_def clearDetached_def
    using env_lawsD(1) [OF env(4)] held(1) by (auto intro!: kspec_ret kspec_apply_done)
  then show ?thesis
    unfolding reconcileMachine_def onChange_def Let_def
    using assms(6-8) held(1)
    by (auto split: prod.splits intro!: kspec_ret held_reboot [OF env] kspec_bind [OF kspec_kcall [where R = "\<lambda>_. True"]])
qed

end

end
