(* ===== verification/Machine_Delete.thy ===== *)
theory Machine_Delete
  imports Machine_Guards
begin

text \<open>
  The delete walk comes to an end. Against an API server that accepts writes, and a deployer
  whose two teardown steps are decided (they complete or fail: no step stays busy or delayed for
  ever), a Machine that is being deleted loses its finalizer within nine passes, however often
  the steps fail: one pass to enter the walk and at most four in each of its two stages.
\<close>

section \<open>Passes in sequence\<close>

definition last_written :: "Machine \<Rightarrow> trace \<Rightarrow> Machine" where
  "last_written m cs = foldl (\<lambda>x c. case c of (ApplyStatus y, True) \<Rightarrow> y | _ \<Rightarrow> x) m cs"

fun passes :: "'s env \<Rightarrow> nat \<Rightarrow> Machine \<Rightarrow> 's world \<Rightarrow> Machine \<times> 's world" where
  "passes env 0 m w = (m, w)"
| "passes env (Suc n) m w =
     passes env n (last_written m (calls_of (reconcileMachine env m) w)) (snd (reconcileMachine env m w))"

definition released_in :: "trace \<Rightarrow> bool" where
  "released_in cs \<longleftrightarrow> (\<exists>(c, ok)\<in>set cs. ok \<and>
     (case c of UpdateMachine m \<Rightarrow> MachineFinalizer \<notin> set (m_finalizers m) | _ \<Rightarrow> False))"

lemma last_written_simps [simp]:
  "last_written m [] = m"
  "last_written m (cs @ ds) = last_written (last_written m cs) ds"
  "last_written m ((ApplyStatus m', True) # cs) = last_written m' cs"
  by (simp_all add: last_written_def)

lemma last_written_other:
  assumes "\<forall>c\<in>set cs. \<forall>y. fst c \<noteq> ApplyStatus y"
  shows "last_written m cs = m"
  using assms
proof (induction cs arbitrary: m)
  case (Cons c cs)
  moreover obtain x ok where "c = (x, ok)" by fastforce
  ultimately show ?case
    by (cases x) (simp_all add: last_written_def)
qed simp

lemma released_append [simp]: "released_in (cs @ ds) \<longleftrightarrow> released_in cs \<or> released_in ds"
  by (auto simp: released_in_def)

section \<open>Hypotheses of the liveness claim\<close>

definition server_accepts :: "'s kube \<Rightarrow> bool" where
  "server_accepts K \<longleftrightarrow> (\<forall>m s. \<exists>s'. k_applyStatus K m s = (Inr m, s')) \<and>
     (\<forall>m s. \<exists>m' s'. k_updateMachine K m s = (Inr m', s')) \<and>
     (\<forall>x s. \<exists>x' s'. k_updateSecret K x s = (Inr x', s')) \<and>
     (\<forall>k s. \<exists>r s'. k_getSecret K k s = (r, s') \<and> (\<forall>e. r = Inl e \<longrightarrow> e = NotFound))"

definition decided :: "('s, Machine \<times> Result) act \<Rightarrow> Machine \<Rightarrow> bool" where
  "decided act m \<longleftrightarrow> (\<forall>w. \<exists>r w' cs. act w = (Inr (m, r), w') \<and> outcome r \<in> {Complete, Failed} \<and>
     trace w' = trace w @ cs \<and> (\<forall>c\<in>set cs. \<not> reconciler_call (fst c)))"

definition teardown_decided :: "'s deployer \<Rightarrow> bool" where
  "teardown_decided D \<longleftrightarrow> (\<forall>m b. decided (d_deprovision D m b) m) \<and> (\<forall>m. decided (d_powerOff D m) m)"

section \<open>The measure\<close>

definition deletable :: "'s env \<Rightarrow> Machine \<Rightarrow> bool" where
  "deletable env m \<longleftrightarrow> m_deletionTimestamp m \<noteq> None \<and> \<not> isPaused m \<and>
     containsFinalizer (lib env) (m_finalizers m) MachineFinalizer"

definition in_delete :: "'s env \<Rightarrow> Machine \<Rightarrow> bool" where
  "in_delete env m \<longleftrightarrow> deletable env m \<and>
     0 \<le> errorCount (m_status m) \<and> errorCount (m_status m) < 2 ^ 30"

definition delete_rank :: "Machine \<Rightarrow> nat" where
  "delete_rank m =
     (let left = max 1 (nat (4 - errorCount (m_status m))) in
      case m_state m of PoweringOff \<Rightarrow> left | Deprovisioning \<Rightarrow> 4 + left | _ \<Rightarrow> 9)"

lemma delete_rank_pos: "0 < delete_rank m"
  by (auto simp: delete_rank_def Let_def split: MachineState.splits)

lemma delete_rank_le: "in_delete env m \<Longrightarrow> delete_rank m \<le> 9"
  by (auto simp: delete_rank_def in_delete_def Let_def split: MachineState.splits)

definition leads :: "'s env \<Rightarrow> nat \<Rightarrow> Machine \<Rightarrow> ('s, 'a) act \<Rightarrow> 's world \<Rightarrow> bool" where
  "leads env n m act w \<longleftrightarrow> (\<exists>cs. trace (snd (act w)) = trace w @ cs \<and>
     (released_in cs \<or> in_delete env (last_written m cs) \<and> delete_rank (last_written m cs) < n))"

lemma leads_bind:
  assumes "act w = (Inr x, w1)" "trace w1 = trace w @ cs" "leads env n (last_written m cs) (f x) w1"
  shows "leads env n m (bindK act f) w"
proof -
  obtain ds where "trace (snd (f x w1)) = trace w1 @ ds"
    "released_in ds \<or> in_delete env (last_written (last_written m cs) ds) \<and>
       delete_rank (last_written (last_written m cs) ds) < n"
    using assms(3) unfolding leads_def by blast
  then show ?thesis
    unfolding leads_def using assms(1,2)
    by (intro exI [of _ "cs @ ds"]) (auto simp: bindK_run)
qed

lemma leads_done:
  assumes "act w = (Inr x, w1)" "trace w1 = trace w @ cs"
    and "in_delete env (last_written m cs)" "delete_rank (last_written m cs) < n"
  shows "leads env n m (bindK act (\<lambda>_. ret y)) w"
  using assms by (auto simp: leads_def bindK_run ret_run)

lemma note_calls_run: "note_calls cs w = (Inr (), w\<lparr>trace := trace w @ map (\<lambda>c. (c, True)) cs\<rparr>)"
  by (induction cs arbitrary: w) (simp_all add: kio_simps note_call_def)

lemma apply_run:
  assumes "server_accepts (kube env)"
  obtains w1 where "wrapK ctx (applyMachineStatus env m cs) w = (Inr m, w1)"
    "trace w1 = trace w @ (ApplyStatus m, True) # map (\<lambda>c. (c, True)) cs"
proof -
  obtain s' where s': "k_applyStatus (kube env) m (srv w) = (Inr m, s')"
    using assms unfolding server_accepts_def by blast
  then show thesis
    by (intro that [of "w\<lparr>srv := s', trace := trace w @ (ApplyStatus m, True) # map (\<lambda>c. (c, True)) cs\<rparr>"])
      (simp_all add: applyMachineStatus_def kio_simps kcall_def note_calls_run)
qed

section \<open>One pass\<close>

lemma releaseSecret_run:
  assumes "server_accepts (kube env)"
  obtains w1 cs where "releaseCredentialsSecretFinalizer env m w = (Inr (), w1)" "trace w1 = trace w @ cs"
proof -
  let ?k = "(m_namespace m, bmc_credentialsSecretRef (ms_bmc (m_spec m)))"
  have upd: "\<exists>x' s'. k_updateSecret (kube env) z s = (Inr x', s')" for z s
    using assms unfolding server_accepts_def by blast
  obtain r s1 where get: "k_getSecret (kube env) ?k (srv w) = (r, s1)" "\<forall>e. r = Inl e \<longrightarrow> e = NotFound"
    using assms unfolding server_accepts_def by blast
  have "fst (releaseCredentialsSecretFinalizer env m w) = Inr ()"
  proof (cases r)
    case (Inl e)
    with get show ?thesis
      by (simp add: releaseCredentialsSecretFinalizer_def kio_simps kcall_def getOpt_def isNotFound_def Let_def)
  next
    case (Inr x)
    obtain b fs where rm: "removeFinalizer (lib env) (s_finalizers x) MachineCredentialsSecretFinalizer = (b, fs)"
      by fastforce
    obtain x' s2 where "k_updateSecret (kube env) (x\<lparr>s_finalizers := fs\<rparr>) s1 = (Inr x', s2)"
      using upd by blast
    with get(1) Inr rm show ?thesis
      by (simp add: releaseCredentialsSecretFinalizer_def kio_simps kcall_def getOpt_def Let_def)
  qed
  moreover have "kspec (\<lambda>_. True) (\<lambda>_. True) (releaseCredentialsSecretFinalizer env m)"
    by (rule releaseCredentialsSecretFinalizer_spec) (simp add: quiet_def)
  ultimately show thesis
    using that by (metis kspec_def prod.collapse)
qed

lemma releaseMachine_leads:
  assumes "server_accepts (kube env)" "finalizer_laws (lib env)"
  shows "leads env n m0 (releaseMachine env m) w"
proof -
  let ?m1 = "m\<lparr>m_finalizers := snd (removeFinalizer (lib env) (m_finalizers m) MachineFinalizer)\<rparr>"
  obtain w1 cs where secret: "releaseCredentialsSecretFinalizer env m w = (Inr (), w1)" "trace w1 = trace w @ cs"
    using releaseSecret_run [OF assms(1)] .
  obtain m' s' where "k_updateMachine (kube env) ?m1 (srv w1) = (Inr m', s')"
    using assms(1) unfolding server_accepts_def by blast
  with secret have "trace (snd (releaseMachine env m w)) = trace w @ cs @ [(UpdateMachine ?m1, True)]"
    by (simp add: releaseMachine_def kio_simps kcall_def Let_def)
  moreover have "MachineFinalizer \<notin> set (m_finalizers ?m1)"
    using assms(2) by (simp add: finalizer_laws_def)
  ultimately show ?thesis
    unfolding leads_def by (intro exI [of _ "cs @ [(UpdateMachine ?m1, True)]"]) (simp add: released_in_def)
qed

lemma advance_leads:
  assumes "server_accepts (kube env)" "finalizer_laws (lib env)" "deletable env m"
    and "next = StateEmpty \<or> next = Deprovisioning \<and> 8 < n \<or> next = PoweringOff \<and> 4 < n"
  shows "leads env n m0 (advanceDeleteStage env m next) w"
proof (cases "next = StateEmpty")
  case True
  then show ?thesis
    by (simp add: advanceDeleteStage_def releaseMachine_leads assms)
next
  case False
  let ?m = "stampLastUpdated env (upd_status (errorCount_update (\<lambda>_. 0))
     (markOperational (upd_status (state_update (\<lambda>_. next)) m)))"
  obtain w1 where "wrapK ''advancing delete walk'' (applyMachineStatus env ?m []) w = (Inr ?m, w1)"
    "trace w1 = trace w @ [(ApplyStatus ?m, True)]"
    using apply_run [OF assms(1), of _ ?m "[]"] by (metis list.simps(8))
  then show ?thesis
    unfolding advanceDeleteStage_def using False assms(3,4)
    by (auto intro!: leads_done simp: deletable_def in_delete_def delete_rank_def machine_upd_defs isPaused_def hasAnnotation_def)
qed

lemma failure_leads:
  assumes "server_accepts (kube env)" "finalizer_laws (lib env)" "in_delete env m" "delete_rank m \<le> n"
    and "m_state m = Deprovisioning \<and> next = PoweringOff \<or> m_state m = PoweringOff \<and> next = StateEmpty"
  shows "leads env n m0 (recordDeleteStageFailure env m result stage next) w"
proof -
  let ?m1 = "stampLastUpdated env (applyFailure (res_errorType result) (res_errorMessage result) m)"
  let ?giveUp = "errorCount (m_status ?m1) > deleteStageMaxErrorCount"
  let ?cs = "if ?giveUp then [GiveUpMetric stage] else []"
  have count: "errorCount (m_status ?m1) = errorCount (m_status m) + 1"
    using assms(3) by (simp add: machine_upd_defs in_delete_def wrap32_id)
  have m1: "deletable env ?m1" "m_state ?m1 = m_state m"
    using assms(3) by (simp_all add: in_delete_def deletable_def machine_upd_defs isPaused_def hasAnnotation_def)
  obtain w1 where run: "wrapK ''recording delete stage failure'' (applyMachineStatus env ?m1 ?cs) w = (Inr ?m1, w1)"
    "trace w1 = trace w @ (ApplyStatus ?m1, True) # map (\<lambda>c. (c, True)) ?cs"
    by (rule apply_run [OF assms(1)])
  have noted: "last_written x (map (\<lambda>c. (c, True)) ?cs) = x" for x
    by (rule last_written_other) simp
  have adv: "leads env n m2 (advanceDeleteStage env ?m1 next) w1" if ?giveUp for m2
    using assms(4,5) by (intro advance_leads assms(1,2) m1) (auto simp: delete_rank_def Let_def)
  have stay: "in_delete env ?m1 \<and> delete_rank ?m1 < n" if "\<not> ?giveUp"
    using that count m1 assms(3-5)
    by (auto simp: in_delete_def delete_rank_def Let_def deleteStageMaxErrorCount_def)
  show ?thesis
    unfolding recordDeleteStageFailure_def Let_def
    by (rule leads_bind, rule run(1), rule run(2), unfold last_written_simps noted)
      (use adv stay in \<open>auto simp: leads_def ret_run\<close>)
qed

lemma stage_leads:
  assumes "server_accepts (kube env)" "finalizer_laws (lib env)" "in_delete env m" "decided act m"
    and "m_state m = Deprovisioning \<and> next = PoweringOff \<or> m_state m = PoweringOff \<and> next = StateEmpty"
  shows "leads env (delete_rank m) m (runDeleteStage env (deployerStep s act) stage next) w"
proof -
  let ?w0 = "w\<lparr>trace := trace w @ [(DeployerCall s, True)]\<rparr>"
  obtain r w1 cs where r: "act ?w0 = (Inr (m, r), w1)" "outcome r \<in> {Complete, Failed}"
    "trace w1 = trace ?w0 @ cs" "\<forall>c\<in>set cs. \<not> reconciler_call (fst c)"
    using assms(4) unfolding decided_def by meson
  let ?cs = "(DeployerCall s, True) # cs"
  have run: "deployerStep s act w = (Inr (m, r), w1)" "trace w1 = trace w @ ?cs"
    using r by (simp_all add: deployerStep_def kio_simps note_call_def)
  have same: "last_written m ?cs = m"
    by (rule last_written_other) (use r(4) in fastforce)
  have "next = StateEmpty \<or> next = Deprovisioning \<and> 8 < delete_rank m \<or> next = PoweringOff \<and> 4 < delete_rank m"
    using assms(5) by (auto simp: delete_rank_def Let_def)
  moreover have "deletable env m"
    using assms(3) by (simp add: in_delete_def)
  ultimately have adv: "leads env (delete_rank m) m (advanceDeleteStage env m next) w1"
    by (intro advance_leads assms(1,2))
  have fail: "leads env (delete_rank m) m (recordDeleteStageFailure env m r stage next) w1"
    by (rule failure_leads [OF assms(1-3) order_refl assms(5)])
  show ?thesis
    unfolding runDeleteStage_def
    by (rule leads_bind, rule run(1), rule run(2)) (use r(2) same adv fail in auto)
qed

lemma pass_leads:
  assumes "server_accepts (kube env)" "finalizer_laws (lib env)" "teardown_decided (deployer env)" "in_delete env m"
  shows "leads env (delete_rank m) m (reconcileMachine env m) w"
proof -
  have deletable: "deletable env m"
    using assms(4) by (simp add: in_delete_def)
  have dec: "decided (d_deprovision (deployer env) m b) m" "decided (d_powerOff (deployer env) m) m" for b
    using assms(3) by (simp_all add: teardown_decided_def)
  have enter: "leads env (delete_rank m) m (advanceDeleteStage env m Deprovisioning) w"
    if "m_state m \<notin> {Deprovisioning, PoweringOff}"
    using that by (intro advance_leads assms deletable) (auto simp: delete_rank_def Let_def split: MachineState.splits)
  have skip: "m_state m = Deprovisioning \<Longrightarrow> leads env (delete_rank m) m (advanceDeleteStage env m PoweringOff) w"
    "leads env (delete_rank m) m (advanceDeleteStage env m StateEmpty) w"
    by (intro advance_leads assms deletable; simp add: delete_rank_def Let_def)+
  have "leads env (delete_rank m) m (onDelete env m) w"
    unfolding onDelete_def reconcileDeprovisioning_def reconcilePoweringOff_def
    using deletable enter skip stage_leads [OF assms(1,2,4) dec(1)] stage_leads [OF assms(1,2,4) dec(2)]
    by (cases "m_state m") (auto simp: deletable_def)
  then show ?thesis
    using deletable by (simp add: reconcileMachine_def deletable_def)
qed

section \<open>The walk ends\<close>

lemma passes_release:
  assumes "server_accepts (kube env)" "finalizer_laws (lib env)" "teardown_decided (deployer env)"
  shows "in_delete env m \<Longrightarrow> delete_rank m \<le> n \<Longrightarrow>
    \<exists>k\<le>n. \<exists>cs. trace (snd (passes env k m w)) = trace w @ cs \<and> released_in cs"
proof (induction n arbitrary: m w)
  case 0
  then show ?case using delete_rank_pos [of m] by simp
next
  case (Suc n)
  let ?w1 = "snd (reconcileMachine env m w)"
  obtain cs where cs: "trace ?w1 = trace w @ cs"
    "released_in cs \<or> in_delete env (last_written m cs) \<and> delete_rank (last_written m cs) < delete_rank m"
    using pass_leads [OF assms Suc.prems(1)] unfolding leads_def by blast
  have calls: "calls_of (reconcileMachine env m) w = cs"
    by (simp add: calls_of_def cs(1))
  show ?case
  proof (cases "released_in cs")
    case True
    then show ?thesis
      using cs(1) by (intro exI [of _ 1]) auto
  next
    case False
    with cs(2) Suc.prems(2) obtain k ds where "k \<le> n"
      "trace (snd (passes env k (last_written m cs) ?w1)) = trace ?w1 @ ds" "released_in ds"
      using Suc.IH [of "last_written m cs" ?w1] by auto
    then show ?thesis
      using cs(1) by (intro exI [of _ "Suc k"]) (auto simp: calls)
  qed
qed

end
