(* ===== verification/Token_Store.thy ===== *)
theory Token_Store
  imports Machine_Types
begin

text \<open>
  internal/bootserver/tokenstore.go and token.go, and the MAC normalisation of
  internal/bootd/mac.go: the in-process hand-off of a net boot's registration token. The
  random bytes and the SHA-256 digest are parameters. The mutex makes every operation atomic,
  so each is one function on the map.
\<close>

section \<open>MAC addresses\<close>

definition is_hex :: "char \<Rightarrow> bool" where
  "is_hex c \<longleftrightarrow> (let n = (of_char c :: nat) in
     48 \<le> n \<and> n \<le> 57 \<or> 65 \<le> n \<and> n \<le> 70 \<or> 97 \<le> n \<and> n \<le> 102)"

definition lower_char :: "char \<Rightarrow> char" where
  "lower_char c = (let n = (of_char c :: nat) in if 65 \<le> n \<and> n \<le> 90 then char_of (n + 32) else c)"

text \<open>The pattern \<^verbatim>\<open>^([0-9A-Fa-f]{2}:){5}[0-9A-Fa-f]{2}$\<close>: five pairs with a colon, then one pair.\<close>

fun mac_groups :: "nat \<Rightarrow> string \<Rightarrow> bool" where
  "mac_groups 0 [a, b] \<longleftrightarrow> is_hex a \<and> is_hex b"
| "mac_groups (Suc n) (a # b # c # s) \<longleftrightarrow> is_hex a \<and> is_hex b \<and> c = CHR '':'' \<and> mac_groups n s"
| "mac_groups _ _ \<longleftrightarrow> False"

definition NormalizeMAC :: "string \<Rightarrow> string option" where
  "NormalizeMAC mac = (if mac_groups 5 mac then Some (map lower_char mac) else None)"

section \<open>Tokens\<close>

definition nibble_char :: "nat \<Rightarrow> char" where
  "nibble_char n = (if n < 10 then char_of (48 + n) else char_of (87 + n))"

definition hex_encode :: "string \<Rightarrow> string" where
  "hex_encode bs = concat (map (\<lambda>b. [nibble_char (of_char b div 16), nibble_char (of_char b mod 16)]) bs)"

definition hashToken :: "(string \<Rightarrow> string) \<Rightarrow> string \<Rightarrow> string" where
  "hashToken sha token = hex_encode (sha token)"

definition mintToken :: "(string \<Rightarrow> string) \<Rightarrow> kerr + string \<Rightarrow> kerr + (string \<times> string)" where
  "mintToken sha r =
     (case r of
        Inl e \<Rightarrow> Inl (Wrapped ''generating boot token'' e)
      | Inr buf \<Rightarrow> Inr (hex_encode buf, hashToken sha (hex_encode buf)))"

record tokenStoreEntry =
  te_token :: string
  te_hash :: string

type_synonym TokenStore = "string \<rightharpoonup> tokenStoreEntry"

definition NewTokenStore :: TokenStore where
  "NewTokenStore = Map.empty"

definition Issue ::
  "(string \<Rightarrow> string) \<Rightarrow> kerr + string \<Rightarrow> string \<Rightarrow> time \<Rightarrow> duration \<Rightarrow> TokenStore \<Rightarrow>
     kerr + (string \<times> MachineNetBootStatus \<times> TokenStore)" where
  "Issue sha r mac now ttl store =
     (case mintToken sha r of
        Inl e \<Rightarrow> Inl e
      | Inr (token, hash) \<Rightarrow>
          Inr (token, \<lparr>nb_tokenHash = hash, nb_expiresAt = Some (now + ttl)\<rparr>,
            store(mac \<mapsto> \<lparr>te_token = token, te_hash = hash\<rparr>)))"

definition Restore :: "string \<Rightarrow> string \<Rightarrow> string \<Rightarrow> TokenStore \<Rightarrow> TokenStore" where
  "Restore mac token hash store = store(mac \<mapsto> \<lparr>te_token = token, te_hash = hash\<rparr>)"

definition Lookup :: "TokenStore \<Rightarrow> string \<Rightarrow> string \<Rightarrow> string option" where
  "Lookup store mac wantHash =
     (if wantHash = '''' then None
      else case store mac of
        None \<Rightarrow> None
      | Some entry \<Rightarrow> if te_hash entry \<noteq> wantHash then None else Some (te_token entry))"

definition DefaultTokenTTL :: duration where
  "DefaultTokenTTL = 3600 * 1000000000"

definition BootTokenSecretName :: "string \<Rightarrow> string" where
  "BootTokenSecretName machineName = machineName @ ''-boot-token''"

section \<open>The store's interface\<close>

text \<open>
  What the deployer (which issues) and the boot server (which restores after a restart and looks
  up for every boot script) rely on: a lookup answers with the token of the last issue or restore
  for that MAC address, and only under its own non-empty hash.
\<close>

locale token_store =
  fixes issue :: "kerr + string \<Rightarrow> string \<Rightarrow> time \<Rightarrow> duration \<Rightarrow> 'st \<Rightarrow> kerr + (string \<times> MachineNetBootStatus \<times> 'st)"
    and restore :: "string \<Rightarrow> string \<Rightarrow> string \<Rightarrow> 'st \<Rightarrow> 'st"
    and lookup :: "'st \<Rightarrow> string \<Rightarrow> string \<Rightarrow> string option"
  assumes lookup_issue: "issue r mac t ttl st = Inr (tok, nb, st') \<Longrightarrow>
      lookup st' mac' h = (if mac' = mac then (if h = nb_tokenHash nb \<and> h \<noteq> '''' then Some tok else None) else lookup st mac' h)"
    and lookup_restore: "lookup (restore mac tok hash st) mac' h =
      (if mac' = mac then (if h = hash \<and> h \<noteq> '''' then Some tok else None) else lookup st mac' h)"
begin

text \<open>A second issue for the same machine supersedes the first; the first hash finds nothing.\<close>

lemma superseded:
  assumes "issue r mac t ttl st = Inr (tok, nb, st1)" "issue r' mac t' ttl' st1 = Inr (tok', nb', st2)"
    and "nb_tokenHash nb \<noteq> nb_tokenHash nb'"
  shows "lookup st2 mac (nb_tokenHash nb) = None"
  using lookup_issue [OF assms(2)] assms(3) by simp

lemma issued_found:
  assumes "issue r mac t ttl st = Inr (tok, nb, st')" "nb_tokenHash nb \<noteq> ''''"
  shows "lookup st' mac (nb_tokenHash nb) = Some tok"
  using lookup_issue [OF assms(1)] assms(2) by simp

text \<open>Restoring what was issued, after a restart with an empty store, answers as before.\<close>

lemma restart_equivalent:
  assumes "issue r mac t ttl st = Inr (tok, nb, st')"
  shows "lookup (restore mac tok (nb_tokenHash nb) st0) mac h = lookup st' mac h"
  using lookup_issue [OF assms] lookup_restore by simp

end

interpretation ts: token_store "Issue sha" Restore Lookup for sha
  by unfold_locales
    (auto simp: Issue_def mintToken_def Restore_def Lookup_def split: sum.splits if_splits)

end
