(* ===== verification/Agent_Deployer.thy ===== *)
theory Agent_Deployer
  imports Machine_Annotations Token_Store
begin

text \<open>
  internal/deployer/agent.go, dhcpreserve.go and claim_intent.go, with
  internal/bmc/credentials.go: the Deployer that drives a machine through its BMC and the
  registration of the live agent. The BMC itself, the plan builder, RFC 3339 and JSON text of
  the two markers and the random source are fields of \<open>agent\<close>. The retry loops on an API
  conflict run on fuel; running out of it is the error \<open>Diverged\<close>.
\<close>

record 's agent =
  a_kube :: "'s kube"
  a_lib :: libs
  a_now :: time
  a_build :: "Machine \<Rightarrow> MachineClaim option \<Rightarrow> DeployRun \<Rightarrow> 's \<Rightarrow> (kerr + snapshot) \<times> 's"
  a_tokens :: "(('s \<Rightarrow> TokenStore) \<times> (TokenStore \<Rightarrow> 's \<Rightarrow> 's)) option"
  a_rand :: "'s \<Rightarrow> (kerr + string) \<times> 's"
  a_sha :: "string \<Rightarrow> string"
  a_tokenTTL :: duration
  a_recorder :: bool
  a_connect :: "string \<Rightarrow> string \<times> string \<Rightarrow> bool \<Rightarrow> 's \<Rightarrow> (kerr + unit) \<times> 's"
  a_bmc :: "string \<Rightarrow> bmc_action \<Rightarrow> 's \<Rightarrow> (kerr + power_state) \<times> 's"
  a_formatTime :: "time \<Rightarrow> string"
  a_parseTime :: "string \<Rightarrow> time option"
  a_durationString :: "duration \<Rightarrow> string"
  a_encodeMarker :: "time \<times> string \<Rightarrow> string"
  a_decodeMarker :: "string \<Rightarrow> (time \<times> string) option"
  a_retrySteps :: nat
  a_fuel :: nat

definition agentDeployerPXEArmedAnnotation :: string where
  "agentDeployerPXEArmedAnnotation = ''kezio.kojuro.date/agent-pxe-armed-at''"
definition agentDeployerProvisionBootAnnotation :: string where
  "agentDeployerProvisionBootAnnotation = ''kezio.kojuro.date/agent-provision-boot-armed''"
definition agentDeployerProvisionStallDeadline :: duration where
  "agentDeployerProvisionStallDeadline = 30 * 60 * second"
definition dhcpAckRequeueInterval :: duration where
  "dhcpAckRequeueInterval = 2 * second"

section \<open>BMC access\<close>

definition trimRight :: "string \<Rightarrow> string" where
  "trimRight s = rev (dropWhile (\<lambda>c. c \<in> {CHR '' '', CHR 0x09, CHR 0x0D, CHR 0x0A}) (rev s))"

definition CredentialsFromSecretData :: "(string \<times> string) list \<Rightarrow> kerr + (string \<times> string)" where
  "CredentialsFromSecretData data =
     (let field = (\<lambda>k. trimRight (case map_of data k of None \<Rightarrow> '''' | Some v \<Rightarrow> v));
          username = field ''username''; password = field ''password'' in
      if username = '''' \<and> password = '''' then Inl (PlainError ''bmc: secret data missing username and password keys'')
      else if username = '''' then Inl (PlainError ''bmc: secret data missing username key'')
      else if password = '''' then Inl (PlainError ''bmc: secret data missing password key'')
      else Inr (username, password))"

text \<open>\<open>connectBMC\<close> returns the BMC handle, which is the address it was opened on.\<close>

definition connectBMC :: "'s agent \<Rightarrow> Machine \<Rightarrow> ('s, string) act" where
  "connectBMC a m =
     (let key = (m_namespace m, bmc_credentialsSecretRef (ms_bmc (m_spec m)));
          addr = bmc_address (ms_bmc (m_spec m));
          insecure = (map_of (m_annotations m) MachineAnnotationBMCInsecureSkipVerify = Some ''true'') in
      bindK (wrapK ''agent deployer: getting BMC credentials secret''
               (kcall (GetSecret key) (k_getSecret (a_kube a) key))) (\<lambda>secret.
        case CredentialsFromSecretData (s_data secret) of
          Inl e \<Rightarrow> raise (Wrapped ''agent deployer: resolving BMC credentials'' e)
        | Inr creds \<Rightarrow>
            bindK (wrapK ''agent deployer: connecting to BMC''
              (kcall (BmcConnect addr) (a_connect a addr creds insecure))) (\<lambda>_. ret addr)))"

definition isNetworkUnreachable :: "kerr \<Rightarrow> bool" where
  "isNetworkUnreachable e \<longleftrightarrow> (case error_root e of NetError _ \<Rightarrow> True | _ \<Rightarrow> False)"

definition classifyBMCError :: "kerr \<Rightarrow> Result" where
  "classifyBMCError e =
     (if isNetworkUnreachable e then result_of Delayed
      else \<lparr>outcome = Failed, res_requeueAfter = 0, res_errorType = Transient,
            res_errorMessage = error_text e\<rparr>)"

definition bmc :: "'s agent \<Rightarrow> string \<Rightarrow> bmc_action \<Rightarrow> ('s, power_state) act" where
  "bmc a addr x = kcall (BmcCall x) (a_bmc a addr x)"

text \<open>The result and \<^verbatim>\<open>ok\<close> of \<^verbatim>\<open>powerOnForNetBoot\<close>: \<open>None\<close> when every call succeeded.\<close>

definition powerOnForNetBoot :: "'s agent \<Rightarrow> string \<Rightarrow> ('s, Result option) act" where
  "powerOnForNetBoot a addr =
     bindK (attempt (bmc a addr BmcSetOneTimePXEBoot)) (\<lambda>r. case r of
         Inl e \<Rightarrow> ret (Some (classifyBMCError (Wrapped ''agent deployer: setting one-time PXE boot'' e)))
       | Inr _ \<Rightarrow>
           bindK (attempt (bmc a addr BmcGetPowerState)) (\<lambda>r. case r of
               Inl e \<Rightarrow> ret (Some (classifyBMCError (Wrapped ''agent deployer: reading BMC power state'' e)))
             | Inr st \<Rightarrow>
                 bindK (attempt (bmc a addr (if st = PowerStateOn then BmcPowerCycle else BmcPowerOn))) (\<lambda>r. case r of
                     Inl e \<Rightarrow> ret (Some (classifyBMCError
                       (Wrapped ''agent deployer: powering on machine for net boot'' e)))
                   | Inr _ \<Rightarrow> ret None)))"

section \<open>The boot token\<close>

definition tokenTTL :: "'s agent \<Rightarrow> Machine \<Rightarrow> duration" where
  "tokenTTL a m =
     (let ttl = (if a_tokenTTL a \<le> 0 then DefaultTokenTTL else a_tokenTTL a) in
      case ms_bootTimeout (m_spec m) of None \<Rightarrow> ttl | Some d \<Rightarrow> max ttl d)"

definition bootTokenExpired :: "'s agent \<Rightarrow> Machine \<Rightarrow> bool" where
  "bootTokenExpired a m \<longleftrightarrow>
     (if a_tokens a = None then False
      else case netBoot (m_status m) of
        None \<Rightarrow> True
      | Some nb \<Rightarrow> (case nb_expiresAt nb of None \<Rightarrow> True | Some t \<Rightarrow> \<not> a_now a < t))"

text \<open>\<^verbatim>\<open>retry.RetryOnConflict\<close>: the update is tried at most \<open>a_retrySteps\<close> times, from the second
  try on over a fresh read that carries the same desired status.\<close>

fun retryStatus :: "'s agent \<Rightarrow> MachineStatus \<Rightarrow> nat \<Rightarrow> bool \<Rightarrow> Machine \<Rightarrow> ('s, Machine) act" where
  "retryStatus a desired 0 first m = raise Conflict"
| "retryStatus a desired (Suc n) first m =
     bindK (attempt (bindK
        (if first then ret m
         else bindK (kcall (GetMachine (m_key m)) (k_getMachine (a_kube a) (m_key m)))
                (\<lambda>g. ret (g\<lparr>m_status := desired\<rparr>)))
        (\<lambda>m1. kcall (UpdateMachineStatus m1) (k_updateMachineStatus (a_kube a) m1)))) (\<lambda>r. case r of
          Inr m2 \<Rightarrow> ret m2
        | Inl e \<Rightarrow> if isConflict e \<and> n > 0 then retryStatus a desired n False m else raise e)"

definition updateMachineStatusRetryOnConflict :: "'s agent \<Rightarrow> Machine \<Rightarrow> ('s, Machine) act" where
  "updateMachineStatusRetryOnConflict a m = retryStatus a (m_status m) (a_retrySteps a) True m"

definition writeBootTokenSecret :: "'s agent \<Rightarrow> Machine \<Rightarrow> string \<Rightarrow> string \<Rightarrow> time option \<Rightarrow> ('s, unit) act" where
  "writeBootTokenSecret a m mac token expiresAt =
     (let secret = \<lparr>s_name = BootTokenSecretName (m_name m), s_namespace = m_namespace m,
            s_resourceVersion = '''', s_labels = [], s_owners = [(m_name m, m_uid m)], s_finalizers = [],
            s_data = [(''token'', token), (''mac'', mac),
              (''expiresAt'', case expiresAt of None \<Rightarrow> '''' | Some t \<Rightarrow> a_formatTime a t)]\<rparr>
      in bindK (wrapK ''agent deployer: persisting boot token secret''
           (kcall (WriteSecret secret) (k_writeSecret (a_kube a) secret))) (\<lambda>_. ret ()))"

definition issueToken :: "'s agent \<Rightarrow> (('s \<Rightarrow> TokenStore) \<times> (TokenStore \<Rightarrow> 's \<Rightarrow> 's)) \<Rightarrow> string \<Rightarrow> duration \<Rightarrow>
    's \<Rightarrow> (kerr + (string \<times> MachineNetBootStatus)) \<times> 's" where
  "issueToken a ts mac ttl s =
     (case a_rand a s of (r, s1) \<Rightarrow>
        (case Issue (a_sha a) r mac (a_now a) ttl (fst ts s1) of
           Inl e \<Rightarrow> (Inl e, s1)
         | Inr (token, status, store) \<Rightarrow> (Inr (token, status), snd ts store s1)))"

definition issueBootToken :: "'s agent \<Rightarrow> Machine \<Rightarrow> bool \<Rightarrow> ('s, Machine) act" where
  "issueBootToken a m forceFresh =
     (case a_tokens a of
        None \<Rightarrow> ret m
      | Some ts \<Rightarrow>
          (case NormalizeMAC (ms_bootMACAddress (m_spec m)) of
             None \<Rightarrow> ret m
           | Some mac \<Rightarrow>
               if \<not> forceFresh \<and>
                  (case netBoot (m_status m) of None \<Rightarrow> False | Some nb \<Rightarrow> nb_tokenHash nb \<noteq> '''') \<and>
                  \<not> bootTokenExpired a m
               then ret m
               else
                 bindK (wrapK ''agent deployer: minting boot token''
                   (kcall (MintToken mac) (issueToken a ts mac (tokenTTL a m)))) (\<lambda>(token, status).
                 bindK (writeBootTokenSecret a m mac token (nb_expiresAt status)) (\<lambda>_.
                   wrapK ''agent deployer: persisting boot token hash''
                     (updateMachineStatusRetryOnConflict a
                       (upd_status (netBoot_update (\<lambda>_. Some status)) m))))))"

section \<open>DHCP reservations\<close>

definition subnetKeyOf :: "Machine \<Rightarrow> key" where
  "subnetKeyOf m =
     (ResolveNamespace (ms_subnetRef (m_spec m)) (m_namespace m), nr_name (ms_subnetRef (m_spec m)))"

definition getSubnet :: "'s agent \<Rightarrow> key \<Rightarrow> ('s, Subnet) act" where
  "getSubnet a k = kcall (GetSubnet k) (k_getSubnet (a_kube a) k)"

definition updateSubnetStatus :: "'s agent \<Rightarrow> Subnet \<Rightarrow> ('s, Subnet) act" where
  "updateSubnetStatus a sn = kcall (UpdateSubnetStatus sn) (k_updateSubnetStatus (a_kube a) sn)"

fun reserve_loop :: "'s agent \<Rightarrow> nat \<Rightarrow> key \<Rightarrow> string \<Rightarrow> string \<Rightarrow> Subnet \<Rightarrow> ('s, Subnet \<times> bool) act" where
  "reserve_loop a 0 k machineName mac current = raise Diverged"
| "reserve_loop a (Suc n) k machineName mac current =
     (case Reserve (a_sha a) current machineName mac (a_now a) of
        Inl ErrPoolExhausted \<Rightarrow> ret (current, True)
      | Inl e \<Rightarrow> raise (PlainError ''agent deployer: reserving a DHCP address'')
      | Inr (addr, changed, sn) \<Rightarrow>
          if \<not> changed then ret (sn, False)
          else bindK (attempt (updateSubnetStatus a sn)) (\<lambda>r. case r of
              Inr sn' \<Rightarrow> ret (sn', False)
            | Inl e \<Rightarrow>
                if isConflict e then
                  bindK (wrapK ''agent deployer: re-getting Subnet after a conflict'' (getSubnet a k))
                    (\<lambda>sn'. reserve_loop a n k machineName mac sn')
                else raise (Wrapped ''agent deployer: persisting DHCP reservation'' e)))"

definition reserveOnSubnet :: "'s agent \<Rightarrow> key \<Rightarrow> string \<Rightarrow> string \<Rightarrow> ('s, Subnet \<times> bool) act" where
  "reserveOnSubnet a k machineName mac =
     bindK (wrapK ''agent deployer: getting Subnet for DHCP reservation'' (getSubnet a k))
       (\<lambda>current. reserve_loop a (a_fuel a) k machineName mac current)"

fun exhausted_loop :: "'s agent \<Rightarrow> nat \<Rightarrow> key \<Rightarrow> ('s, unit) act" where
  "exhausted_loop a 0 k = raise Diverged"
| "exhausted_loop a (Suc n) k =
     bindK (wrapK ''agent deployer: getting Subnet to record pool exhaustion'' (getSubnet a k)) (\<lambda>sn.
       bindK (attempt (updateSubnetStatus a (sn\<lparr>sn_conditions := setStatusCondition (a_lib a) (sn_conditions sn)
           \<lparr>c_type = SubnetConditionDHCPPoolExhausted, c_status = CondTrue,
            c_observedGeneration = sn_generation sn, c_reason = ''DHCPPoolExhausted'',
            c_message = ''the lease-mode DHCP address pool has no free address left for a new reservation''\<rparr>\<rparr>)))
         (\<lambda>r. case r of
            Inr _ \<Rightarrow> ret ()
          | Inl e \<Rightarrow> if isConflict e then exhausted_loop a n k
                    else raise (Wrapped ''agent deployer: recording DHCP pool exhaustion'' e)))"

definition recordDHCPPoolExhausted :: "'s agent \<Rightarrow> key \<Rightarrow> ('s, unit) act" where
  "recordDHCPPoolExhausted a k = exhausted_loop a (a_fuel a) k"

fun release_loop :: "'s agent \<Rightarrow> nat \<Rightarrow> key \<Rightarrow> string \<Rightarrow> ('s, unit) act" where
  "release_loop a 0 k machineName = raise Diverged"
| "release_loop a (Suc n) k machineName =
     bindK (wrapK ''agent deployer: getting Subnet to release a DHCP reservation'' (getOpt (getSubnet a k)))
       (\<lambda>r. case r of
          None \<Rightarrow> ret ()
        | Some sn \<Rightarrow>
            (case Release (a_sha a) sn machineName of
               (changed, sn') \<Rightarrow>
                 if \<not> changed then ret ()
                 else bindK (attempt (updateSubnetStatus a sn')) (\<lambda>r. case r of
                     Inr _ \<Rightarrow> ret ()
                   | Inl e \<Rightarrow> if isConflict e then release_loop a n k machineName
                             else raise (Wrapped ''agent deployer: releasing DHCP reservation'' e))))"

definition releaseDHCPReservation :: "'s agent \<Rightarrow> Machine \<Rightarrow> ('s, unit) act" where
  "releaseDHCPReservation a m = release_loop a (a_fuel a) (subnetKeyOf m) (m_name m)"

text \<open>\<open>None\<close> is \<^verbatim>\<open>proceed\<close>.\<close>

definition reserveAndAwaitDHCP :: "'s agent \<Rightarrow> Machine \<Rightarrow> ('s, Result option) act" where
  "reserveAndAwaitDHCP a m =
     bindK (wrapK ''agent deployer: getting Subnet for DHCP reservation'' (getOpt (getSubnet a (subnetKeyOf m))))
       (\<lambda>r. case r of
          None \<Rightarrow> ret (Some (result_of Delayed))
        | Some subnet \<Rightarrow>
            if (case sn_dhcp subnet of None \<Rightarrow> True | Some d \<Rightarrow> sd_mode d \<noteq> ModeLease) then ret None
            else case NormalizeMAC (ms_bootMACAddress (m_spec m)) of
              None \<Rightarrow> ret None
            | Some mac \<Rightarrow>
                bindK (reserveOnSubnet a (subnetKeyOf m) (m_name m) mac) (\<lambda>(sn, exhausted).
                  if exhausted then
                    bindK (recordDHCPPoolExhausted a (subnetKeyOf m)) (\<lambda>_.
                      bindK (if a_recorder a then note_call (Event ''DHCPPoolExhausted'') else ret ())
                        (\<lambda>_. ret (Some (result_of Delayed))))
                  else case sn_dhcpStatus sn of
                    None \<Rightarrow> ret None
                  | Some d \<Rightarrow>
                      if revision d \<noteq> '''' \<and> appliedRevision d \<noteq> revision d
                      then ret (Some ((result_of Busy)\<lparr>res_requeueAfter := dhcpAckRequeueInterval\<rparr>))
                      else ret None))"

section \<open>Boot markers\<close>

definition patchBy :: "'s agent \<Rightarrow> string \<Rightarrow> Machine \<Rightarrow> ('s, Machine) act" where
  "patchBy a ctx m = wrapK ctx (kcall (PatchMachine m) (k_patchMachine (a_kube a) m))"

definition pxeArmedAt :: "'s agent \<Rightarrow> Machine \<Rightarrow> time option" where
  "pxeArmedAt a m =
     (case map_of (m_annotations m) agentDeployerPXEArmedAnnotation of
        None \<Rightarrow> None | Some raw \<Rightarrow> a_parseTime a raw)"

definition armPXE :: "'s agent \<Rightarrow> Machine \<Rightarrow> ('s, Machine) act" where
  "armPXE a m = patchBy a ''agent deployer: recording PXE-armed marker''
     (putAnnotation agentDeployerPXEArmedAnnotation (a_formatTime a (a_now a)) m)"

definition disarmPXE :: "'s agent \<Rightarrow> Machine \<Rightarrow> ('s, Machine) act" where
  "disarmPXE a m =
     (if \<not> hasAnnotation m agentDeployerPXEArmedAnnotation then ret m
      else patchBy a ''agent deployer: clearing PXE-armed marker''
             (dropAnnotation agentDeployerPXEArmedAnnotation m))"

definition provisionBootMarker :: "'s agent \<Rightarrow> Machine \<Rightarrow> (time \<times> string) option" where
  "provisionBootMarker a m =
     (case map_of (m_annotations m) agentDeployerProvisionBootAnnotation of
        None \<Rightarrow> None | Some raw \<Rightarrow> a_decodeMarker a raw)"

definition sessionHash :: "Machine \<Rightarrow> string" where
  "sessionHash m = (case agentSession (m_status m) of None \<Rightarrow> '''' | Some s \<Rightarrow> as_tokenHash s)"

definition armProvisionBoot :: "'s agent \<Rightarrow> Machine \<Rightarrow> ('s, Machine) act" where
  "armProvisionBoot a m = patchBy a ''agent deployer: recording provision-boot marker''
     (putAnnotation agentDeployerProvisionBootAnnotation (a_encodeMarker a (a_now a, sessionHash m)) m)"

definition disarmProvisionBoot :: "'s agent \<Rightarrow> Machine \<Rightarrow> ('s, Machine) act" where
  "disarmProvisionBoot a m =
     (if \<not> hasAnnotation m agentDeployerProvisionBootAnnotation then ret m
      else patchBy a ''agent deployer: clearing provision-boot marker''
             (dropAnnotation agentDeployerProvisionBootAnnotation m))"

definition agentSessionFresh :: "Machine \<Rightarrow> string \<Rightarrow> bool" where
  "agentSessionFresh m baseline \<longleftrightarrow>
     (case agentSession (m_status m) of None \<Rightarrow> False | Some s \<Rightarrow> as_tokenHash s \<noteq> baseline)"

section \<open>Arming a net boot\<close>

text \<open>
  The common body of \<^verbatim>\<open>armPXEAndPowerOn\<close> and \<^verbatim>\<open>armProvisionBootAndPowerOn\<close>, which differ only in
  the marker they write and clear.
\<close>

definition armAndPowerOn ::
  "'s agent \<Rightarrow> (Machine \<Rightarrow> ('s, Machine) act) \<Rightarrow> (Machine \<Rightarrow> ('s, Machine) act) \<Rightarrow> Machine \<Rightarrow> bool \<Rightarrow>
     ('s, Machine \<times> Result) act" where
  "armAndPowerOn a arm disarm m forceFreshToken =
     bindK (attempt (connectBMC a m)) (\<lambda>r. case r of
         Inl e \<Rightarrow> ret (m, classifyBMCError e)
       | Inr addr \<Rightarrow>
           bindK (reserveAndAwaitDHCP a m) (\<lambda>gate. case gate of
               Some result \<Rightarrow> ret (m, result)
             | None \<Rightarrow>
                 bindK (issueBootToken a m forceFreshToken) (\<lambda>m1.
                 bindK (arm m1) (\<lambda>m2.
                 bindK (powerOnForNetBoot a addr) (\<lambda>r. case r of
                     Some result \<Rightarrow> bindK (disarm m2) (\<lambda>m3. ret (m3, result))
                   | None \<Rightarrow> ret (m2, result_of Continuing))))))"

definition armPXEAndPowerOn :: "'s agent \<Rightarrow> Machine \<Rightarrow> bool \<Rightarrow> ('s, Machine \<times> Result) act" where
  "armPXEAndPowerOn a = armAndPowerOn a (armPXE a) (disarmPXE a)"

definition armProvisionBootAndPowerOn :: "'s agent \<Rightarrow> Machine \<Rightarrow> bool \<Rightarrow> ('s, Machine \<times> Result) act" where
  "armProvisionBootAndPowerOn a = armAndPowerOn a (armProvisionBoot a) (disarmProvisionBoot a)"

definition noRegistration :: "'s agent \<Rightarrow> Machine \<Rightarrow> Result" where
  "noRegistration a m = \<lparr>outcome = Failed, res_requeueAfter = 0, res_errorType = Restart,
     res_errorMessage = ''agent deployer: no agent registration before the boot token expired ('' @
       a_durationString a (tokenTTL a m) @ '')''\<rparr>"

section \<open>Inspect\<close>

definition pollAgentRegistration :: "'s agent \<Rightarrow> Machine \<Rightarrow> ('s, Machine \<times> Result) act" where
  "pollAgentRegistration a m =
     (let waiting = (if bootTokenExpired a m then ret (m, noRegistration a m) else ret (m, result_of Continuing)) in
      if isStatusConditionTrue (a_lib a) (conditions (m_status m)) MachineConditionAgentRegistered then
        bindK (wrapK ''agent deployer: getting MachineHardware''
            (getOpt (kcall (GetHardware (m_key m)) (k_getHardware (a_kube a) (m_key m))))) (\<lambda>r. case r of
          Some _ \<Rightarrow>
            bindK (disarmPXE a m) (\<lambda>m1.
              bindK (releaseDHCPReservation a m1) (\<lambda>_. ret (m1, result_of Complete)))
        | None \<Rightarrow> waiting)
      else waiting)"

definition Inspect :: "'s agent \<Rightarrow> Machine \<Rightarrow> bool \<Rightarrow> ('s, Machine \<times> Result) act" where
  "Inspect a m restart =
     (if pxeArmedAt a m = None \<or> restart then armPXEAndPowerOn a m restart
      else pollAgentRegistration a m)"

section \<open>Provision\<close>

definition resetProvisionAttempt :: "'s agent \<Rightarrow> DeployRun \<Rightarrow> ('s, DeployRun) act" where
  "resetProvisionAttempt a run =
     (let run1 = run\<lparr>r_status := \<lparr>phase = PhaseEmpty, partitions = [], phaseTimings = [],
            lastProgressAt = None, r_conditions = []\<rparr>\<rparr>
      in wrapK ''agent deployer: resetting DeployRun for restart''
           (kcall (UpdateRunStatus run1) (k_updateRunStatus (a_kube a) run1)))"

definition agentResolveClaimIntent :: "'s agent \<Rightarrow> Machine \<Rightarrow> ('s, MachineClaim option) act" where
  "agentResolveClaimIntent a m =
     (case ms_claimRef (m_spec m) of
        None \<Rightarrow> ret None
      | Some ref \<Rightarrow>
          bindK (getOpt (kcall (GetClaim (cr_namespace ref, cr_name ref))
                   (k_getClaim (a_kube a) (cr_namespace ref, cr_name ref))))
            (\<lambda>r. case r of
               None \<Rightarrow> ret None
             | Some claim \<Rightarrow> if cl_uid claim \<noteq> cr_uid ref then ret None else ret (Some claim)))"

definition planBuildErrorResult :: "kerr \<Rightarrow> Result option" where
  "planBuildErrorResult e =
     (case error_root e of
        NotReadyError _ \<Rightarrow> Some (result_of Delayed)
      | DiskSelectionError _ \<Rightarrow> Some \<lparr>outcome = Failed, res_requeueAfter = 0,
          res_errorType = Transient, res_errorMessage = error_text e\<rparr>
      | ValidationError _ \<Rightarrow> Some \<lparr>outcome = Failed, res_requeueAfter = 0,
          res_errorType = Transient, res_errorMessage = error_text e\<rparr>
      | _ \<Rightarrow> None)"

definition commitProvisionPending :: "'s agent \<Rightarrow> Machine \<Rightarrow> DeployRun \<Rightarrow> ('s, Result) act" where
  "commitProvisionPending a m run =
     bindK (wrapK ''agent deployer: resolving MachineClaim'' (agentResolveClaimIntent a m)) (\<lambda>claim.
       bindK (attempt (kcall BuildPlan (a_build a m claim run))) (\<lambda>r. case r of
           Inl e \<Rightarrow> (case planBuildErrorResult e of
               Some result \<Rightarrow> ret result
             | None \<Rightarrow> raise (Wrapped ''agent deployer: resolving deploy plan'' e))
         | Inr _ \<Rightarrow>
             (let run1 = run\<lparr>r_status := (r_status run)\<lparr>phase := PhasePending,
                    phaseTimings := phaseTimings (r_status run) @
                      [\<lparr>pt_phase = PhasePending, pt_startedAt = a_now a, pt_finishedAt = None\<rparr>],
                    lastProgressAt := Some (a_now a)\<rparr>\<rparr>
              in bindK (wrapK ''agent deployer: recording DeployRun pending''
                   (kcall (UpdateRunStatus run1) (k_updateRunStatus (a_kube a) run1)))
                   (\<lambda>_. ret (result_of Continuing)))))"

definition pollAgentBoot :: "'s agent \<Rightarrow> Machine \<Rightarrow> DeployRun \<Rightarrow> time \<times> string \<Rightarrow> ('s, Machine \<times> Result) act" where
  "pollAgentBoot a m run marker =
     (if agentSessionFresh m (snd marker) then
        bindK (commitProvisionPending a m run) (\<lambda>result.
          if outcome result = Continuing then
            bindK (disarmProvisionBoot a m) (\<lambda>m1. ret (m1, result))
          else ret (m, result))
      else if bootTokenExpired a m then ret (m, noRegistration a m)
      else ret (m, result_of Continuing))"

definition startProvision :: "'s agent \<Rightarrow> Machine \<Rightarrow> DeployRun \<Rightarrow> bool \<Rightarrow> ('s, Machine \<times> Result) act" where
  "startProvision a m run restart =
     (case provisionBootMarker a m of
        None \<Rightarrow> armProvisionBootAndPowerOn a m restart
      | Some marker \<Rightarrow>
          if restart then armProvisionBootAndPowerOn a m restart
          else pollAgentBoot a m run marker)"

definition provisionStallResult :: "'s agent \<Rightarrow> DeployRun \<Rightarrow> Result" where
  "provisionStallResult a run =
     (let last = (case lastProgressAt (r_status run) of
            Some t \<Rightarrow> Some t
          | None \<Rightarrow> (if phaseTimings (r_status run) = [] then None
                    else Some (pt_startedAt (List.last (phaseTimings (r_status run))))))
      in case last of
           None \<Rightarrow> result_of Continuing
         | Some t \<Rightarrow>
             if a_now a - t \<le> agentDeployerProvisionStallDeadline then result_of Continuing
             else \<lparr>outcome = Failed, res_requeueAfter = 0, res_errorType = Restart,
               res_errorMessage = ''agent deployer: no deploy progress observed for '' @
                 a_durationString a agentDeployerProvisionStallDeadline @ '' with DeployRun '' @
                 go_quote (r_name run) @ '' in phase '' @ phase_text (phase (r_status run)) @
                 ''; treating the run as stalled''\<rparr>)"

definition deployRunFailureMessage :: "'s agent \<Rightarrow> DeployRun \<Rightarrow> string" where
  "deployRunFailureMessage a run =
     (case findStatusCondition (a_lib a) (r_conditions (r_status run)) DeployRunConditionSucceeded of
        Some c \<Rightarrow> if c_message c \<noteq> '''' then c_message c else ''DeployRun '' @ go_quote (r_name run) @ '' failed''
      | None \<Rightarrow> ''DeployRun '' @ go_quote (r_name run) @ '' failed'')"

definition provisionResultFromPhase :: "'s agent \<Rightarrow> Machine \<Rightarrow> DeployRun \<Rightarrow> ('s, Machine \<times> Result) act" where
  "provisionResultFromPhase a m run =
     (case phase (r_status run) of
        PhaseSucceeded \<Rightarrow> bindK (releaseDHCPReservation a m) (\<lambda>_. ret (m, result_of Complete))
      | PhaseFailed \<Rightarrow> ret (m, \<lparr>outcome = Failed, res_requeueAfter = 0, res_errorType = Restart,
          res_errorMessage = deployRunFailureMessage a run\<rparr>)
      | _ \<Rightarrow> ret (m, provisionStallResult a run))"

definition Provision :: "'s agent \<Rightarrow> Machine \<Rightarrow> DeployRun \<Rightarrow> bool \<Rightarrow> ('s, Machine \<times> Result) act" where
  "Provision a m run restart =
     bindK (if restart \<and> phase (r_status run) \<noteq> PhaseEmpty then resetProvisionAttempt a run else ret run)
       (\<lambda>run1. if phase (r_status run1) = PhaseEmpty then startProvision a m run1 restart
               else provisionResultFromPhase a m run1)"

section \<open>Deprovision, PowerOff, Reboot\<close>

definition Deprovision :: "'s agent \<Rightarrow> Machine \<Rightarrow> bool \<Rightarrow> ('s, Machine \<times> Result) act" where
  "Deprovision a m restart =
     bindK (releaseDHCPReservation a m) (\<lambda>_. ret (m, result_of Complete))"

definition bmcOr :: "'s agent \<Rightarrow> Machine \<Rightarrow> string \<Rightarrow> string \<Rightarrow> bmc_action \<Rightarrow>
    (power_state \<Rightarrow> ('s, Machine \<times> Result) act) \<Rightarrow> ('s, Machine \<times> Result) act" where
  "bmcOr a m addr ctx x f =
     bindK (attempt (bmc a addr x)) (\<lambda>r. case r of
         Inl e \<Rightarrow> ret (m, classifyBMCError (Wrapped ctx e))
       | Inr st \<Rightarrow> f st)"

definition PowerOff :: "'s agent \<Rightarrow> Machine \<Rightarrow> ('s, Machine \<times> Result) act" where
  "PowerOff a m =
     bindK (attempt (connectBMC a m)) (\<lambda>r. case r of
         Inl e \<Rightarrow> ret (m, classifyBMCError e)
       | Inr addr \<Rightarrow>
           bmcOr a m addr ''agent deployer: requesting graceful power-off'' BmcPowerOff (\<lambda>_.
           bmcOr a m addr ''agent deployer: reading power state after graceful power-off'' BmcGetPowerState (\<lambda>st.
             if st = PowerStateOn then
               bmcOr a m addr ''agent deployer: forcing power off'' BmcForcePowerOff (\<lambda>_. ret (m, result_of Complete))
             else ret (m, result_of Complete))))"

definition Reboot :: "'s agent \<Rightarrow> Machine \<Rightarrow> bool \<Rightarrow> ('s, Machine \<times> Result) act" where
  "Reboot a m hard =
     bindK (attempt (connectBMC a m)) (\<lambda>r. case r of
         Inl e \<Rightarrow> ret (m, classifyBMCError e)
       | Inr addr \<Rightarrow>
           if hard then
             bmcOr a m addr ''agent deployer: power-cycling for a hard reboot'' BmcPowerCycle (\<lambda>_. ret (m, result_of Complete))
           else
             bmcOr a m addr ''agent deployer: requesting graceful shutdown for a soft reboot'' BmcPowerOff (\<lambda>_.
             bmcOr a m addr ''agent deployer: powering back on for a soft reboot'' BmcPowerOn (\<lambda>_.
               ret (m, result_of Complete))))"

definition AgentDeployer :: "'s agent \<Rightarrow> 's deployer" where
  "AgentDeployer a = \<lparr>d_inspect = Inspect a, d_provision = Provision a, d_deprovision = Deprovision a,
     d_powerOff = PowerOff a, d_reboot = Reboot a\<rparr>"

end
