(* ===== verification/Machine_Total.thy ===== *)
theory Machine_Total
  imports Machine_Controller
begin

text \<open>
  No pass of the Machine reconciler panics: the one dereference that could (\<^verbatim>\<open>claim.Spec\<close> in
  createDeployRun) is unreachable from \<open>Reconcile\<close>. The judgement \<open>safe R m\<close> says that \<open>m\<close> ends in
  a value satisfying \<open>R\<close> or in an error that is not a panic.
\<close>

named_theorems safe_intros \<open>rules of the no-panic judgement\<close>

definition panic_free :: "kerr \<Rightarrow> bool" where
  "panic_free e \<longleftrightarrow> (\<forall>s. e \<noteq> GoPanic s)"

lemma panic_free_simps [simp]:
  "panic_free (PlainError s)" "panic_free (Wrapped c e)" "panic_free NotFound" "panic_free Conflict"
  "\<not> panic_free (GoPanic s)" "panic_free Diverged"
  by (simp_all add: panic_free_def)

definition safe :: "('a \<Rightarrow> bool) \<Rightarrow> ('w, 'a) kio \<Rightarrow> bool" where
  "safe R m \<longleftrightarrow> (\<forall>w. case fst (m w) of Inl e \<Rightarrow> panic_free e | Inr x \<Rightarrow> R x)"

definition answers :: "('s \<Rightarrow> (kerr + 'a) \<times> 's) \<Rightarrow> bool" where
  "answers op \<longleftrightarrow> (\<forall>s e s'. op s = (Inl e, s') \<longrightarrow> panic_free e)"

lemma safe_ret [safe_intros]: "R x \<Longrightarrow> safe R (ret x)"
  by (simp add: safe_def ret_def)

lemma safe_raise [safe_intros]: "panic_free e \<Longrightarrow> safe R (raise e)"
  by (simp add: safe_def raise_def)

lemma safe_kcall [safe_intros]: "answers op \<Longrightarrow> (\<And>x. R x) \<Longrightarrow> safe R (kcall c op)"
  by (auto simp: safe_def kcall_def answers_def split: prod.splits sum.splits)

lemma safe_note_call: "safe (\<lambda>_. True) (note_call c)"
  by (simp add: safe_def note_call_def)

lemma safeI:
  assumes "\<And>w e w'. m w = (Inl e, w') \<Longrightarrow> panic_free e" "\<And>w x w'. m w = (Inr x, w') \<Longrightarrow> R x"
  shows "safe R m"
  unfolding safe_def
proof
  fix w
  show "case fst (m w) of Inl e \<Rightarrow> panic_free e | Inr x \<Rightarrow> R x"
    using assms [of w] by (cases "m w") (auto split: sum.splits)
qed

lemma safeD:
  assumes "safe R m"
  shows "m w = (Inl e, w') \<Longrightarrow> panic_free e" "m w = (Inr x, w') \<Longrightarrow> R x"
  using assms unfolding safe_def by (metis fst_conv sum.case(1), metis fst_conv sum.case(2))

lemma safe_bind:
  assumes "safe Q m" "\<And>x. Q x \<Longrightarrow> safe R (f x)"
  shows "safe R (bindK m f)"
  by (rule safeI)
    (auto simp: bindK_def split: prod.splits sum.splits dest: safeD [OF assms(1)] safeD [OF assms(2)])

lemma safe_bindT: "safe (\<lambda>_. True) m \<Longrightarrow> (\<And>x. safe R (f x)) \<Longrightarrow> safe R (bindK m f)"
  by (rule safe_bind)

lemma safe_weaken: "safe Q m \<Longrightarrow> (\<And>x. Q x \<Longrightarrow> R x) \<Longrightarrow> safe R m"
  by (rule safeI) (auto dest: safeD)

lemma safe_wrap [safe_intros]: "safe R m \<Longrightarrow> safe R (wrapK c m)"
  by (rule safeI) (auto simp: wrapK_def split: prod.splits sum.splits if_splits dest: safeD)

lemma safe_attempt:
  "safe R m \<Longrightarrow> safe (\<lambda>r. case r of Inl e \<Rightarrow> panic_free e | Inr x \<Rightarrow> R x) (attempt m)"
  by (rule safeI) (auto simp: attempt_def split: prod.splits sum.splits if_splits dest: safeD)

lemma safe_attemptT [safe_intros]: "safe (\<lambda>_. True) m \<Longrightarrow> safe (\<lambda>_. True) (attempt m)"
  by (rule safe_weaken [OF safe_attempt]) simp_all

lemma safe_getOpt [safe_intros]: "safe (\<lambda>_. True) m \<Longrightarrow> safe (\<lambda>_. True) (getOpt m)"
  unfolding getOpt_def
proof (rule safe_bind [OF safe_attempt])
  show "safe (\<lambda>_. True) (case r of Inl e \<Rightarrow> if isNotFound e then ret None else raise e | Inr x \<Rightarrow> ret (Some x))"
    if "case r of Inl e \<Rightarrow> panic_free e | Inr x \<Rightarrow> True" for r
    using that by (cases r) (simp_all add: safe_ret safe_raise)
qed

lemma safe_if: "(b \<Longrightarrow> safe R m) \<Longrightarrow> (\<not> b \<Longrightarrow> safe R n) \<Longrightarrow> safe R (if b then m else n)"
  by simp

text \<open>The parameters answer with a value or an error, never with a panic.\<close>

definition kube_answers :: "'s kube \<Rightarrow> bool" where
  "kube_answers K \<longleftrightarrow> (\<forall>k. answers (k_getMachine K k)) \<and> (\<forall>k. answers (k_getClaim K k)) \<and>
     (\<forall>k. answers (k_getImage K k)) \<and> (\<forall>k. answers (k_getRun K k)) \<and> (\<forall>k. answers (k_getSecret K k)) \<and>
     (\<forall>n. answers (k_listRuns K n)) \<and> (\<forall>m. answers (k_updateMachine K m)) \<and>
     (\<forall>m. answers (k_patchMachine K m)) \<and> (\<forall>m. answers (k_applyStatus K m)) \<and>
     (\<forall>m. answers (k_mergeStatus K m)) \<and> (\<forall>r. answers (k_createRun K r)) \<and>
     (\<forall>k. answers (k_deleteHardware K k)) \<and> (\<forall>s. answers (k_patchSecret K s)) \<and>
     (\<forall>s. answers (k_updateSecret K s))"

definition deployer_answers :: "'s deployer \<Rightarrow> bool" where
  "deployer_answers D \<longleftrightarrow> (\<forall>m b. safe (\<lambda>_. True) (d_inspect D m b)) \<and>
     (\<forall>m r b. safe (\<lambda>_. True) (d_provision D m r b)) \<and> (\<forall>m b. safe (\<lambda>_. True) (d_deprovision D m b)) \<and>
     (\<forall>m. safe (\<lambda>_. True) (d_powerOff D m)) \<and> (\<forall>m b. safe (\<lambda>_. True) (d_reboot D m b))"

definition env_answers :: "'s env \<Rightarrow> bool" where
  "env_answers env \<longleftrightarrow> kube_answers (kube env) \<and> deployer_answers (deployer env) \<and>
     (case builder env of None \<Rightarrow> True | Some b \<Rightarrow> (\<forall>m c r. answers (b_build b m c r)) \<and>
        (\<forall>m c. answers (b_buildSnapshot b m c))) \<and>
     (\<forall>os m e. hasOwnerReference (lib env) os m = Inl e \<longrightarrow> panic_free e)"

lemma env_answersD [safe_intros]:
  assumes "env_answers env"
  shows "answers (k_getMachine (kube env) k)" "answers (k_getClaim (kube env) k)"
    "answers (k_getImage (kube env) k)" "answers (k_getRun (kube env) k)"
    "answers (k_getSecret (kube env) k)" "answers (k_listRuns (kube env) n)"
    "answers (k_updateMachine (kube env) m)" "answers (k_patchMachine (kube env) m)"
    "answers (k_applyStatus (kube env) m)" "answers (k_mergeStatus (kube env) m)"
    "answers (k_createRun (kube env) r)" "answers (k_deleteHardware (kube env) k)"
    "answers (k_patchSecret (kube env) s)" "answers (k_updateSecret (kube env) s)"
    "safe (\<lambda>_. True) (d_inspect (deployer env) m b)" "safe (\<lambda>_. True) (d_provision (deployer env) m r b)"
    "safe (\<lambda>_. True) (d_deprovision (deployer env) m b)" "safe (\<lambda>_. True) (d_powerOff (deployer env) m)"
    "safe (\<lambda>_. True) (d_reboot (deployer env) m b)"
    "builder env = Some bd \<Longrightarrow> answers (b_build bd m c r)"
    "builder env = Some bd \<Longrightarrow> answers (b_buildSnapshot bd m c)"
  using assms by (simp_all add: env_answers_def kube_answers_def deployer_answers_def del: split_paired_All)

section \<open>Handlers\<close>

lemma safe_note_calls: "safe (\<lambda>_. True) (note_calls cs)"
  by (induction cs) (auto intro!: safe_bindT safe_note_call safe_ret)

lemma safe_apply [safe_intros]:
  assumes "env_answers env"
  shows "safe (\<lambda>_. True) (applyMachineStatus env m cs)"
  unfolding applyMachineStatus_def
  by (intro safe_bindT safe_kcall safe_note_calls safe_ret env_answersD [OF assms] TrueI)

lemma safe_apply_done [safe_intros]:
  assumes "env_answers env"
  shows "safe (\<lambda>_. True) (bindK (wrapK ctx (applyMachineStatus env m cs)) (\<lambda>_. ret x))"
  by (intro safe_bindT safe_wrap safe_apply safe_ret assms TrueI)

lemma safe_writes [safe_intros]:
  assumes "env_answers env"
  shows "safe (\<lambda>_. True) (setState env m s cs)" "safe (\<lambda>_. True) (markDelayed env m d)"
    "safe (\<lambda>_. True) (markDelayedNotReady env m r t)" "safe (\<lambda>_. True) (clearRetryStatus env m b res)"
    "safe (\<lambda>_. True) (recordFailure env m result)"
    "safe (\<lambda>_. True) (reconcileDetached env m)" "safe (\<lambda>_. True) (clearDetached env m)"
    "safe (\<lambda>_. True) (enterStatusLossHold env m)"
  unfolding setState_def markDelayed_def markDelayedNotReady_def clearRetryStatus_def recordFailure_def
    holdForRetry_def reconcileDetached_def clearDetached_def enterStatusLossHold_def Let_def
  by (intro safe_if safe_apply_done safe_ret assms TrueI)+

lemma safe_outcome [safe_intros]:
  assumes "env_answers env"
  shows "safe (\<lambda>_. True) (applyNonCompleteOutcome env m result b)"
  unfolding applyNonCompleteOutcome_def recordDelayed_def
  by (cases "outcome result") (simp_all add: safe_writes [OF assms] safe_raise)

lemma safe_get [safe_intros]: "answers op \<Longrightarrow> safe (\<lambda>_. True) (getOpt (kcall c op))"
  by (intro safe_getOpt safe_kcall TrueI)

lemma safe_claim:
  assumes "env_answers env"
  shows "safe (\<lambda>c. claimUnresolved m c \<or> ms_claimRef (m_spec m) = None \<or> c \<noteq> None) (resolveClaimIntent (kube env) m)"
  unfolding resolveClaimIntent_def
  by (auto split: option.splits simp: claimUnresolved_def
      intro!: safe_ret safe_if safe_bindT [OF safe_get] env_answersD [OF assms])

lemma safe_claimT [safe_intros]: "env_answers env \<Longrightarrow> safe (\<lambda>_. True) (resolveClaimIntent (kube env) m)"
  by (rule safe_weaken [OF safe_claim]) simp_all

lemma safe_reads [safe_intros]:
  assumes "env_answers env"
  shows "safe (\<lambda>_. True) (hasPriorDeployRuns env m)" "safe (\<lambda>_. True) (deleteMachineHardware env m)"
    "safe (\<lambda>_. True) (consumeAnnotation env k ctx m)" "safe (\<lambda>_. True) (clearSuffixlessRebootAnnotation env m)"
    "safe (\<lambda>_. True) (getRun env m ref)"
  unfolding hasPriorDeployRuns_def deleteMachineHardware_def consumeAnnotation_def
    clearSuffixlessRebootAnnotation_def patchMachine_def getRun_def Let_def
  by (intro safe_if safe_bindT safe_wrap safe_get safe_kcall safe_ret env_answersD [OF assms] TrueI)+

lemma safe_lookups [safe_intros]:
  assumes "env_answers env"
  shows "safe (\<lambda>_. True) (lastSuccessfulRun env m)" "safe (\<lambda>_. True) (imageReadyForProvisioning env claim)"
proof -
  show "safe (\<lambda>_. True) (lastSuccessfulRun env m)"
    unfolding lastSuccessfulRun_def
    by (cases "lastSuccessfulRunRef (m_status m)") (simp_all add: safe_ret safe_getOpt safe_reads [OF assms])
  have img: "safe (\<lambda>_. True) (wrapK ctx (getOpt (kcall (GetImage k) (k_getImage (kube env) k))))" for ctx k
    by (intro safe_wrap safe_get env_answersD [OF assms])
  show "safe (\<lambda>_. True) (imageReadyForProvisioning env claim)"
    unfolding imageReadyForProvisioning_def Let_def
    by (auto split: option.splits intro!: safe_ret safe_bindT [OF img])
qed

lemma safe_annotation_handlers [safe_intros]:
  assumes "env_answers env"
  shows "safe (\<lambda>_. True) (reconcileClearError env m)" "safe (\<lambda>_. True) (reconcileReInspect env m)"
    "safe (\<lambda>_. True) (reconcileEmptyStatus env m)"
proof -
  have acc: "safe (\<lambda>_. True) (reInspectAcceptable env m)"
    unfolding reInspectAcceptable_def
    by (cases "m_state m") (auto intro!: safe_ret safe_bindT [OF safe_claimT] assms)
  show "safe (\<lambda>_. True) (reconcileClearError env m)" "safe (\<lambda>_. True) (reconcileReInspect env m)"
    "safe (\<lambda>_. True) (reconcileEmptyStatus env m)"
    unfolding reconcileClearError_def reconcileReInspect_def reconcileEmptyStatus_def reconcileStatusLossHold_def
      consumeClearErrorAnnotation_def consumeReInspectAnnotation_def consumeConfirmStatusLossAnnotation_def
    by (intro safe_if safe_ret safe_bindT [OF safe_reads(3)] safe_bindT [OF acc] safe_bindT [OF safe_note_call]
        safe_bindT [OF safe_reads(2)] safe_bindT [OF safe_claimT] safe_bindT [OF safe_reads(1)]
        safe_apply_done safe_writes assms TrueI)+
qed

lemma safe_credentials [safe_intros]:
  assumes "env_answers env"
  shows "safe (\<lambda>_. True) (resolveCredentialsSecret env m)" "safe (\<lambda>_. True) (recordTriedCredentials env m s)"
    "safe (\<lambda>_. True) (afterStep env mr)" "safe (\<lambda>_. True) (releaseCredentialsSecretFinalizer env m)"
proof -
  have secret: "safe (\<lambda>_. True) (wrapK ctx (getOpt (kcall (GetSecret k) (k_getSecret (kube env) k))))" for ctx k
    by (intro safe_wrap safe_get env_answersD [OF assms])
  have patch: "safe (\<lambda>_. True) (wrapK ctx (kcall (PatchSecret x) (k_patchSecret (kube env) x)))"
    "safe (\<lambda>_. True) (bindK (wrapK ctx (kcall (UpdateSecret x) (k_updateSecret (kube env) x))) (\<lambda>_. ret ()))"
    "safe (\<lambda>_. True) (wrapK ctx (kcall (MergeStatus y) (k_mergeStatus (kube env) y)))" for ctx x y
    by (intro safe_wrap safe_bindT safe_kcall safe_ret env_answersD [OF assms] TrueI)+
  have claim: "safe (\<lambda>_. True) (claimCredentialsSecret env m s)" for s
    unfolding claimCredentialsSecret_def Let_def
    by (auto split: sum.splits prod.splits intro!: safe_ret safe_raise patch)
  show "safe (\<lambda>_. True) (resolveCredentialsSecret env m)"
    unfolding resolveCredentialsSecret_def Let_def
    by (auto split: option.splits intro!: safe_ret safe_bindT [OF secret] safe_bindT [OF claim]
        safe_bindT [OF safe_writes(2)] assms)
  show "safe (\<lambda>_. True) (recordTriedCredentials env m s)"
    unfolding recordTriedCredentials_def Let_def by (intro safe_if safe_ret patch TrueI)
  show "safe (\<lambda>_. True) (afterStep env mr)"
    unfolding afterStep_def recordGoodCredentials_def
    by (cases mr) (auto intro!: safe_ret safe_bindT [OF safe_wrap [OF safe_apply]] assms)
  show "safe (\<lambda>_. True) (releaseCredentialsSecretFinalizer env m)"
    unfolding releaseCredentialsSecretFinalizer_def Let_def
    by (auto split: option.splits prod.splits intro!: safe_ret safe_bindT [OF secret] patch)
qed

section \<open>Runs, steps and the pass\<close>

lemma safe_createDeployRun:
  assumes "env_answers env" "claim \<noteq> None"
  shows "safe (\<lambda>_. True) (createDeployRun env m claim)"
proof -
  have plan: "safe (\<lambda>_. True) (case builder env of None \<Rightarrow> ret r
      | Some b \<Rightarrow> bindK (kcall BuildPlan (b_build b m c r)) (\<lambda>snap. ret (f snap)))" for c r and f :: "snapshot \<Rightarrow> DeployRun"
    by (cases "builder env")
      (auto intro!: safe_ret safe_bindT [OF safe_kcall] env_answersD [OF assms(1)])
  have create: "safe (\<lambda>_. True) (case setControllerReference (lib env) m run of
      Inl e \<Rightarrow> raise (Wrapped ctx e) | Inr run' \<Rightarrow> kcall (CreateRun run') (k_createRun (kube env) run'))" for run ctx
    by (cases "setControllerReference (lib env) m run")
      (auto intro!: safe_raise safe_kcall env_answersD [OF assms(1)])
  show ?thesis
    using assms(2) unfolding createDeployRun_def by (auto intro!: safe_bindT [OF plan] create)
qed

lemma safe_startProvisioningRun:
  assumes "env_answers env" "claim \<noteq> None"
  shows "safe (\<lambda>_. True) (startProvisioningRun env m claim)"
  unfolding startProvisioningRun_def
  by (rule safe_bindT [OF safe_attemptT [OF safe_createDeployRun [OF assms]]])
    (auto split: sum.splits prod.splits intro!: safe_writes safe_raise safe_apply_done assms(1))

lemma safe_hooks:
  assumes "env_answers env"
  shows "safe (\<lambda>_. True) (currentHooksHash env m claim)"
proof (cases "builder env")
  case None
  then show ?thesis by (simp add: currentHooksHash_def safe_ret)
next
  case (Some b)
  have "safe (\<lambda>_. True) (attempt (kcall BuildPlan (b_buildSnapshot b m claim)))"
    by (intro safe_attemptT safe_kcall env_answersD [OF assms] Some TrueI)
  then show ?thesis
    using Some unfolding currentHooksHash_def
    by (auto split: sum.splits prod.splits intro!: safe_bindT [where m = "attempt (kcall BuildPlan (b_buildSnapshot b m claim))"]
        safe_ret safe_raise safe_bindT [OF safe_writes(3)] safe_bindT [OF safe_writes(5)] assms)
qed

lemma safe_reconcileIdle:
  assumes "env_answers env"
  shows "safe (\<lambda>_. True) (reconcileIdle env m)"
  unfolding reconcileIdle_def
  by (rule safe_bindT [OF safe_wrap [OF safe_lookups(1) [OF assms]]], rule safe_bindT [OF safe_wrap [OF safe_claimT [OF assms]]])
    (auto split: hooks_gate.splits simp: isEmptyDeployPayload_def [of None]
      intro!: safe_if safe_ret safe_writes(3) [OF assms] safe_bindT [OF safe_lookups(2) [OF assms]]
        safe_bindT [OF safe_hooks [OF assms]] safe_startProvisioningRun [OF assms])

lemma safe_step:
  assumes "safe (\<lambda>_. True) a"
  shows "safe (\<lambda>_. True) (deployerStep s a)"
  unfolding deployerStep_def by (intro safe_bindT [OF safe_note_call] assms)

lemma safe_reconcileInspecting:
  assumes "env_answers env"
  shows "safe (\<lambda>_. True) (reconcileInspecting env m)"
  unfolding reconcileInspecting_def Let_def
  by (auto split: credentials_gate.splits prod.splits
      intro!: safe_ret safe_writes(1) [OF assms] safe_outcome [OF assms]
        safe_bindT [OF safe_credentials(1) [OF assms]] safe_bindT [OF safe_credentials(2) [OF assms]]
        safe_bindT [OF safe_step [OF env_answersD(15) [OF assms]]] safe_bindT [OF safe_credentials(3) [OF assms]])

text \<open>A Machine that is provisioning has a claim: without one the pass releases it first.\<close>

lemma safe_reconcileProvisioning:
  assumes "env_answers env" "ms_claimRef (m_spec m) \<noteq> None"
  shows "safe (\<lambda>_. True) (reconcileProvisioning env m)"
proof (cases "currentRunRef (m_status m)")
  case None
  then show ?thesis
    unfolding reconcileProvisioning_def
    by simp (rule safe_bind [OF safe_wrap [OF safe_claim [OF assms(1), of m]]],
        use assms(2) in \<open>auto intro!: safe_writes(3) safe_startProvisioningRun assms(1)\<close>)
next
  case (Some ref)
  have run: "safe (\<lambda>_. True) (wrapK ctx (getOpt (getRun env m ref)))" for ctx ref
    by (intro safe_wrap safe_getOpt safe_reads(5) assms(1))
  from Some show ?thesis
    unfolding reconcileProvisioning_def recordCurrentRunDeleted_def Let_def
    by (auto split: credentials_gate.splits prod.splits option.splits
        intro!: safe_ret safe_writes(5) safe_outcome safe_bindT [OF run] safe_bindT [OF safe_credentials(1)]
          safe_bindT [OF safe_credentials(2)] safe_bindT [OF safe_step [OF env_answersD(16)]]
          safe_bindT [OF safe_credentials(3)] safe_apply_done assms(1))
qed

lemma safe_reconcileReboot:
  assumes "env_answers env"
  shows "safe (\<lambda>_. True) (reconcileReboot env m hard)"
  unfolding reconcileReboot_def
  by (rule safe_bindT [OF safe_step [OF env_answersD(19) [OF assms]]])
    (auto split: prod.splits intro!: safe_outcome safe_bindT [OF safe_reads(4)] safe_ret assms)

lemma safe_advance:
  assumes "env_answers env"
  shows "safe (\<lambda>_. True) (advanceDeleteStage env m next)"
proof -
  have upd: "safe (\<lambda>_. True) (kcall (UpdateMachine x) (k_updateMachine (kube env) x))" for x
    by (intro safe_kcall env_answersD [OF assms] TrueI)
  show ?thesis
    unfolding advanceDeleteStage_def releaseMachine_def Let_def
    by (intro safe_if safe_bindT [OF safe_credentials(4)] safe_bindT [OF upd] safe_ret safe_apply_done assms TrueI)
qed

lemma safe_deleteStage:
  assumes "env_answers env" "safe (\<lambda>_. True) step"
  shows "safe (\<lambda>_. True) (runDeleteStage env step stage next)"
proof -
  have fail: "safe (\<lambda>_. True) (recordDeleteStageFailure env m result stage next)" for m result
    unfolding recordDeleteStageFailure_def Let_def
    by (intro safe_bindT [OF safe_wrap [OF safe_apply]] safe_if safe_ret safe_advance assms TrueI)
  show ?thesis
    unfolding runDeleteStage_def
    by (rule safe_bindT [OF assms(2)])
      (auto split: Outcome.splits intro!: safe_advance safe_writes fail safe_raise assms(1))
qed

lemma safe_onDelete:
  assumes "env_answers env"
  shows "safe (\<lambda>_. True) (onDelete env m)"
  unfolding onDelete_def reconcileDeprovisioning_def reconcilePoweringOff_def
  by (cases "m_state m")
    (auto intro!: safe_ret safe_advance safe_deleteStage safe_step env_answersD(17,18) assms)

lemma safe_onChange:
  assumes "env_answers env"
  shows "safe (\<lambda>_. True) (onChange env m)"
proof -
  have walk: "safe (\<lambda>_. True) (case m_state m of
          StateEmpty \<Rightarrow> reconcileEmptyStatus env m
        | Enrolling \<Rightarrow> setState env m Inspecting []
        | Inspecting \<Rightarrow> reconcileInspecting env m
        | Available \<Rightarrow> reconcileIdle env m
        | Provisioned \<Rightarrow> reconcileIdle env m
        | Provisioning \<Rightarrow> reconcileProvisioning env m
        | _ \<Rightarrow> raise (PlainError t))"
    if "m_state m = Provisioning \<Longrightarrow> ms_claimRef (m_spec m) \<noteq> None" for t
    using that
    by (cases "m_state m")
      (auto intro!: safe_annotation_handlers safe_writes safe_reconcileInspecting safe_reconcileIdle
         safe_reconcileProvisioning safe_raise assms)
  show ?thesis
    unfolding onChange_def
    by (auto split: prod.splits simp: releaseEligible_def
        intro!: walk safe_reconcileReboot safe_annotation_handlers safe_writes safe_ret assms)
qed

lemma safe_Reconcile:
  assumes "env_answers env"
  shows "safe (\<lambda>_. True) (Reconcile env k)"
proof -
  have "safe (\<lambda>_. True) (reconcileMachine env m)" for m
    unfolding reconcileMachine_def Let_def
    by (intro safe_if safe_ret safe_onDelete safe_onChange safe_bindT [OF safe_kcall] env_answersD [OF assms] assms TrueI)
  then show ?thesis
    unfolding Reconcile_def
    by (auto split: option.splits intro!: safe_ret safe_bindT [OF safe_get] env_answersD [OF assms])
qed

end
