(* ===== verification/Agent_Total.thy ===== *)
theory Agent_Total
  imports Agent_Deployer Machine_Total
begin

text \<open>The agent deployer never panics either, so the no-panic result holds of the composed system.\<close>

definition agent_answers :: "'s agent \<Rightarrow> bool" where
  "agent_answers a \<longleftrightarrow> kube_answers (a_kube a) \<and> (\<forall>k. answers (k_getHardware (a_kube a) k)) \<and>
     (\<forall>k. answers (k_getSubnet (a_kube a) k)) \<and> (\<forall>m. answers (k_updateMachineStatus (a_kube a) m)) \<and>
     (\<forall>r. answers (k_updateRunStatus (a_kube a) r)) \<and> (\<forall>s. answers (k_writeSecret (a_kube a) s)) \<and>
     (\<forall>s. answers (k_updateSubnetStatus (a_kube a) s)) \<and> (\<forall>m c r. answers (a_build a m c r)) \<and>
     (\<forall>x c i. answers (a_connect a x c i)) \<and> (\<forall>x y. answers (a_bmc a x y))"

lemma agent_answersD:
  assumes "agent_answers a"
  shows "answers (k_getHardware (a_kube a) k)" "answers (k_getSubnet (a_kube a) k)"
    "answers (k_updateMachineStatus (a_kube a) m)" "answers (k_updateRunStatus (a_kube a) r)"
    "answers (k_writeSecret (a_kube a) s)" "answers (k_updateSubnetStatus (a_kube a) sn)"
    "answers (a_build a m c r)" "answers (a_connect a x cr i)" "answers (a_bmc a x y)"
    "answers (k_getMachine (a_kube a) k)" "answers (k_getSecret (a_kube a) k)" "answers (k_getClaim (a_kube a) k)"
    "answers (k_patchMachine (a_kube a) m)"
  using assms by (simp_all add: agent_answers_def kube_answers_def del: split_paired_All)

lemma safe_connect:
  assumes "agent_answers a"
  shows "safe (\<lambda>_. True) (attempt (connectBMC a m))"
proof -
  have "safe (\<lambda>_. True) (connectBMC a m)"
    unfolding connectBMC_def Let_def
    by (auto split: sum.splits intro!: safe_raise safe_ret safe_bindT [OF safe_wrap [OF safe_kcall]]
        agent_answersD [OF assms])
  then show ?thesis by (rule safe_attemptT)
qed

lemma safe_bmc:
  assumes "agent_answers a"
  shows "safe (\<lambda>_. True) (attempt (bmc a addr x))"
  unfolding bmc_def by (intro safe_attemptT safe_kcall agent_answersD [OF assms] TrueI)

lemma safe_powerOn:
  assumes "agent_answers a"
  shows "safe (\<lambda>_. True) (powerOnForNetBoot a addr)"
  unfolding powerOnForNetBoot_def
  by (auto split: sum.splits intro!: safe_ret safe_bindT [OF safe_bmc [OF assms]])

lemma safe_retryStatus:
  assumes "agent_answers a"
  shows "safe (\<lambda>_. True) (retryStatus a desired n first m)"
proof (induction n arbitrary: first)
  case 0
  show ?case by (simp add: safe_raise)
next
  case (Suc n)
  have upd: "safe (\<lambda>_. True) (bindK
        (if first then ret m
         else bindK (kcall (GetMachine (m_key m)) (k_getMachine (a_kube a) (m_key m)))
                (\<lambda>g. ret (g\<lparr>m_status := desired\<rparr>)))
        (\<lambda>m1. kcall (UpdateMachineStatus m1) (k_updateMachineStatus (a_kube a) m1)))"
    by (intro safe_bindT safe_if safe_ret safe_kcall agent_answersD [OF assms] TrueI)
  show ?case
    unfolding retryStatus.simps
    by (rule safe_bind [OF safe_attempt [OF upd]])
      (auto split: sum.splits intro!: safe_ret safe_raise Suc)
qed

lemma safe_issueBootToken:
  assumes "agent_answers a"
  shows "safe (\<lambda>_. True) (issueBootToken a m force)"
proof -
  have mint: "safe (\<lambda>_. True) (wrapK ctx (kcall c (issueToken a ts mac ttl)))" for ctx c ts mac ttl
    by (intro safe_wrap safe_kcall)
      (auto simp: answers_def issueToken_def Issue_def mintToken_def split: prod.splits sum.splits)
  have secret: "safe (\<lambda>_. True) (writeBootTokenSecret a m mac token t)" for mac token t
    unfolding writeBootTokenSecret_def Let_def
    by (intro safe_bindT [OF safe_wrap [OF safe_kcall]] safe_ret agent_answersD [OF assms] TrueI)
  show ?thesis
    unfolding issueBootToken_def updateMachineStatusRetryOnConflict_def
    by (auto split: option.splits prod.splits
        intro!: safe_ret safe_bindT [OF mint] safe_bindT [OF secret] safe_wrap safe_retryStatus assms)
qed

lemma safe_subnet:
  assumes "agent_answers a"
  shows "safe (\<lambda>_. True) (getSubnet a k)" "safe (\<lambda>r. case r of Inl e \<Rightarrow> panic_free e | Inr x \<Rightarrow> True) (attempt (updateSubnetStatus a sn))"
  unfolding getSubnet_def updateSubnetStatus_def
  by (intro safe_kcall safe_attempt agent_answersD [OF assms] TrueI)+

lemma safe_loops:
  assumes "agent_answers a"
  shows "safe (\<lambda>_. True) (reserve_loop a n k mn mac current)" "safe (\<lambda>_. True) (exhausted_loop a n k)"
    "safe (\<lambda>_. True) (release_loop a n k mn)"
proof -
  have opt: "safe (\<lambda>_. True) (getOpt (getSubnet a k))" for k
    by (intro safe_getOpt safe_subnet assms)
  show "safe (\<lambda>_. True) (reserve_loop a n k mn mac current)"
    by (induction n arbitrary: current)
      (auto split: sum.splits reserve_error.splits prod.splits
        intro!: safe_ret safe_raise safe_bindT [OF safe_attemptT [OF safe_kcall]] safe_bindT [OF safe_wrap [OF safe_subnet(1) [OF assms]]]
          agent_answersD [OF assms] simp: updateSubnetStatus_def)
  show "safe (\<lambda>_. True) (exhausted_loop a n k)"
    by (induction n)
      (auto split: sum.splits
        intro!: safe_ret safe_raise safe_bindT [OF safe_attemptT [OF safe_kcall]] safe_bindT [OF safe_wrap [OF safe_subnet(1) [OF assms]]]
          agent_answersD [OF assms] simp: updateSubnetStatus_def)
  show "safe (\<lambda>_. True) (release_loop a n k mn)"
    by (induction n)
      (auto split: sum.splits option.splits prod.splits
        intro!: safe_ret safe_raise safe_bindT [OF safe_attemptT [OF safe_kcall]] safe_bindT [OF safe_wrap [OF opt]]
          agent_answersD [OF assms] simp: updateSubnetStatus_def)
qed

lemma safe_reserveAndAwait:
  assumes "agent_answers a"
  shows "safe (\<lambda>_. True) (reserveAndAwaitDHCP a m)"
proof -
  have opt: "safe (\<lambda>_. True) (wrapK ctx (getOpt (getSubnet a k)))" for ctx k
    by (intro safe_wrap safe_getOpt safe_subnet assms)
  have reserve: "safe (\<lambda>_. True) (reserveOnSubnet a k mn mac)" for k mn mac
    unfolding reserveOnSubnet_def by (intro safe_bindT [OF safe_wrap] safe_subnet safe_loops assms)
  show ?thesis
    unfolding reserveAndAwaitDHCP_def recordDHCPPoolExhausted_def
    by (auto split: option.splits prod.splits
        intro!: safe_ret safe_bindT [OF opt] safe_bindT [OF reserve] safe_bindT [OF safe_loops(2) [OF assms]]
          safe_bindT [OF safe_note_call])
qed

lemma safe_markers:
  assumes "agent_answers a"
  shows "safe (\<lambda>_. True) (armPXE a m)" "safe (\<lambda>_. True) (disarmPXE a m)"
    "safe (\<lambda>_. True) (armProvisionBoot a m)" "safe (\<lambda>_. True) (disarmProvisionBoot a m)"
  unfolding armPXE_def disarmPXE_def armProvisionBoot_def disarmProvisionBoot_def patchBy_def
  by (intro safe_if safe_ret safe_wrap safe_kcall agent_answersD [OF assms] TrueI)+

lemma safe_arm:
  assumes "agent_answers a" "\<And>m. safe (\<lambda>_. True) (arm m)" "\<And>m. safe (\<lambda>_. True) (disarm m)"
  shows "safe (\<lambda>_. True) (armAndPowerOn a arm disarm m force)"
  unfolding armAndPowerOn_def
  by (rule safe_bindT [OF safe_connect [OF assms(1)]])
    (auto split: sum.splits option.splits
      intro!: safe_ret safe_bindT [OF safe_reserveAndAwait] safe_bindT [OF safe_issueBootToken]
        safe_bindT [OF safe_powerOn] safe_bindT [OF assms(2)] safe_bindT [OF assms(3)] assms(1))

lemma safe_Inspect:
  assumes "agent_answers a"
  shows "safe (\<lambda>_. True) (Inspect a m b)"
proof -
  have hw: "safe (\<lambda>_. True) (wrapK ctx (getOpt (kcall (GetHardware k) (k_getHardware (a_kube a) k))))" for ctx k
    by (intro safe_wrap safe_get agent_answersD [OF assms])
  show ?thesis
    unfolding Inspect_def armPXEAndPowerOn_def pollAgentRegistration_def releaseDHCPReservation_def Let_def
    by (auto split: option.splits
        intro!: safe_ret safe_arm safe_markers safe_bindT [OF hw] safe_bindT [OF safe_markers(2)]
          safe_bindT [OF safe_loops(3)] assms)
qed

lemma safe_Provision:
  assumes "agent_answers a"
  shows "safe (\<lambda>_. True) (Provision a m run b)"
proof -
  have claim: "safe (\<lambda>_. True) (agentResolveClaimIntent a m)"
    unfolding agentResolveClaimIntent_def
    by (auto split: option.splits intro!: safe_ret safe_bindT [OF safe_get] agent_answersD [OF assms])
  have upd: "safe (\<lambda>_. True) (wrapK ctx (kcall (UpdateRunStatus r) (k_updateRunStatus (a_kube a) r)))" for ctx r
    by (intro safe_wrap safe_kcall agent_answersD [OF assms] TrueI)
  have plan: "safe (\<lambda>_. True) (attempt (kcall BuildPlan (a_build a m c r)))" for c r
    by (intro safe_attemptT safe_kcall agent_answersD [OF assms] TrueI)
  have commit: "safe (\<lambda>_. True) (commitProvisionPending a m r)" for r
    unfolding commitProvisionPending_def Let_def
    by (auto split: sum.splits option.splits
        intro!: safe_ret safe_raise safe_bindT [OF safe_wrap [OF claim]] safe_bindT [OF plan] safe_bindT [OF upd])
  have start: "safe (\<lambda>_. True) (startProvision a m r b)" for r
    unfolding startProvision_def pollAgentBoot_def armProvisionBootAndPowerOn_def
    by (auto split: option.splits
        intro!: safe_ret safe_arm safe_markers safe_bindT [OF commit] safe_bindT [OF safe_markers(4)] assms)
  have result: "safe (\<lambda>_. True) (provisionResultFromPhase a m r)" for r
    unfolding provisionResultFromPhase_def releaseDHCPReservation_def
    by (cases "phase (r_status r)") (auto intro!: safe_ret safe_bindT [OF safe_loops(3)] assms)
  show ?thesis
    unfolding Provision_def resetProvisionAttempt_def Let_def
    by (intro safe_bindT safe_if upd safe_ret start result TrueI)
qed

lemma safe_bmcOr:
  assumes "agent_answers a" "\<And>st. safe (\<lambda>_. True) (f st)"
  shows "safe (\<lambda>_. True) (bmcOr a m addr ctx x f)"
  unfolding bmcOr_def
  by (auto split: sum.splits intro!: safe_bindT [OF safe_bmc [OF assms(1)]] safe_ret assms(2))

lemma agent_deployer_answers:
  assumes "agent_answers a"
  shows "deployer_answers (AgentDeployer a)"
proof -
  have "safe (\<lambda>_. True) (Deprovision a m b)" "safe (\<lambda>_. True) (PowerOff a m)" "safe (\<lambda>_. True) (Reboot a m b)" for m b
    unfolding Deprovision_def PowerOff_def Reboot_def releaseDHCPReservation_def
    by (auto split: sum.splits intro!: safe_bindT [OF safe_connect] safe_bmcOr safe_ret safe_bindT [OF safe_loops(3)] assms)
  then show ?thesis
    by (simp add: deployer_answers_def AgentDeployer_def safe_Inspect safe_Provision assms)
qed

end
