(* ===== verification/Agent_Contract.thy ===== *)
theory Agent_Contract
  imports Agent_Deployer Machine_Holds
begin

text \<open>
  AgentDeployer keeps the Deployer contract: the proof, handler by handler, that the interface
  locale of the reconciler is interpreted by the model of internal/deployer/agent.go.
\<close>

section \<open>Helpers of the judgement\<close>

abbreviation deployer_call :: "call \<Rightarrow> bool" where
  "deployer_call c \<equiv> \<not> reconciler_call c"

text \<open>The Machine a step hands back still carries what the reconciler owns.\<close>

definition kept :: "'s agent \<Rightarrow> Machine \<Rightarrow> Machine \<Rightarrow> bool" where
  "kept a m m' \<longleftrightarrow> (client_echo (a_kube a) (a_lib a) \<longrightarrow> owned (a_lib a) m' = owned (a_lib a) m)"

lemma kept_refl [simp]: "kept a m m"
  by (simp add: kept_def)

lemma kept_trans: "kept a m m1 \<Longrightarrow> kept a m1 m2 \<Longrightarrow> kept a m m2"
  by (simp add: kept_def)

lemma kept_annotations [simp]: "kept a m (m1\<lparr>m_annotations := x\<rparr>) = kept a m m1"
  by (simp add: kept_def owned_def)

lemma kept_netBoot [simp]: "kept a m (upd_status (netBoot_update f) m1) = kept a m m1"
  by (simp add: kept_def owned_def owned_status_def)

abbreviation bmc_result_ok :: "Result \<Rightarrow> bool" where
  "bmc_result_ok r \<equiv> result_ok r \<and> never_restart r"

lemma result_ok_make [simp]:
  "result_ok \<lparr>outcome = oc, res_requeueAfter = d, res_errorType = e, res_errorMessage = t\<rparr> \<longleftrightarrow>
     (case oc of OutcomeInvalid _ \<Rightarrow> False | _ \<Rightarrow> True) \<and> (oc = Failed \<longrightarrow> e = Transient \<or> e = Restart)"
  "never_restart \<lparr>outcome = oc, res_requeueAfter = d, res_errorType = e, res_errorMessage = t\<rparr> \<longleftrightarrow>
     (oc = Failed \<longrightarrow> e \<noteq> Restart)"
  by (auto simp: result_ok_def never_restart_def split: Outcome.splits)

lemma classifyBMCError_ok [simp]: "bmc_result_ok (classifyBMCError e)"
  by (simp add: classifyBMCError_def)

section \<open>The requests of a step apart from its BMC actions\<close>

text \<open>
  Everything a step requests besides BMC actions is accepted by any policy that accepts those
  requests. The lemmas are proved once for such a policy and used for two: the requests a
  Deployer may make, and the requests that are not BMC actions.
\<close>

definition no_bmc :: "call \<Rightarrow> bool" where
  "no_bmc c \<longleftrightarrow> (\<forall>x. c \<noteq> BmcCall x)"

locale boot_requests =
  fixes P :: "call \<Rightarrow> bool"
  assumes soft: "\<not> reconciler_call c \<Longrightarrow> no_bmc c \<Longrightarrow> P c"
begin

lemma soft_calls [simp]:
  "P (GetMachine k)" "P (GetClaim k)" "P (GetSecret k)" "P (GetHardware k)" "P (GetSubnet k)"
  "P (PatchMachine m)" "P (UpdateMachineStatus m)" "P (UpdateRunStatus r)" "P (WriteSecret s)"
  "P (UpdateSubnetStatus sn)" "P (Event e)" "P (BmcConnect x)" "P (MintToken t)" "P BuildPlan"
  by (simp_all add: soft no_bmc_def)

lemma connectBMC_spec: "kspec P (\<lambda>_. True) (connectBMC a m)"
  unfolding connectBMC_def Let_def
  by (auto split: sum.splits
      intro!: kspec_raise kspec_ret kspec_bind [OF kspec_wrap [OF kspec_kcall [where R = "\<lambda>_. True"]]])

lemma retryStatus_spec:
  assumes "m_status m = desired"
  shows "kspec P (kept a m) (retryStatus a desired n first m)"
proof (induction n arbitrary: first)
  case 0
  show ?case by (simp add: kspec_raise)
next
  case (Suc n)
  have upd: "kspec P (kept a m)
      (kcall (UpdateMachineStatus m1) (k_updateMachineStatus (a_kube a) m1))" if "kept a m m1" for m1
    using that by (intro kspec_kcall) (auto simp: kept_def dest: client_echoD(4))
  have read: "kspec P (kept a m)
      (if first then ret m
       else bindK (kcall (GetMachine (m_key m)) (k_getMachine (a_kube a) (m_key m)))
              (\<lambda>g. ret (g\<lparr>m_status := desired\<rparr>)))" for first
    by (auto intro!: kspec_ret kspec_bind [OF kspec_kcall
          [where R = "\<lambda>g. client_echo (a_kube a) (a_lib a) \<longrightarrow> m_key g = m_key m"]]
        dest: client_echoD(5) simp: kept_def owned_def assms)
  show ?case
    unfolding retryStatus.simps
    by (rule kspec_bind [OF kspec_attempt [OF kspec_bind [OF read upd]]])
      (auto split: sum.splits intro!: kspec_ret kspec_raise Suc)
qed

lemma issueBootToken_spec: "kspec P (kept a m) (issueBootToken a m force)"
proof -
  have secret: "kspec P (\<lambda>_. True) (writeBootTokenSecret a m mac token t)" for mac token t
    unfolding writeBootTokenSecret_def Let_def
    by (intro kspec_bind [OF kspec_wrap [OF kspec_kcall [where R = "\<lambda>_. True"]]] kspec_ret) auto
  have store: "kspec P (kept a m)
     (updateMachineStatusRetryOnConflict a (upd_status (netBoot_update f) m))" for f
    unfolding updateMachineStatusRetryOnConflict_def
    by (rule kspec_weaken [OF retryStatus_spec]) (auto intro: kept_trans [rotated])
  show ?thesis
    unfolding issueBootToken_def
    by (auto split: option.splits prod.splits
        intro!: kspec_ret kspec_if kspec_bind [OF kspec_wrap [OF kspec_kcall [where R = "\<lambda>_. True"]]]
          kspec_bind [OF secret] kspec_wrap store)
qed

lemma subnet_specs:
  "kspec P (\<lambda>_. True) (getSubnet a k)"
  "kspec P (\<lambda>_. True) (attempt (updateSubnetStatus a sn))"
  unfolding getSubnet_def updateSubnetStatus_def
  by (simp add: kspec_kcall)
    (rule kspec_weaken [OF kspec_attempt [OF kspec_kcall [where R = "\<lambda>_. True"]]], auto)

lemma getSubnet_opt: "kspec P (\<lambda>_. True) (getOpt (getSubnet a k))"
  by (rule kspec_weaken [OF kspec_getOpt [OF subnet_specs(1)]]) auto

lemma reserve_loop_spec: "kspec P (\<lambda>_. True) (reserve_loop a n k machineName mac current)"
  by (induction n arbitrary: current)
    (auto split: sum.splits reserve_error.splits prod.splits
       intro!: kspec_ret kspec_raise kspec_if kspec_bind [OF subnet_specs(2)] kspec_bind [OF kspec_wrap [OF subnet_specs(1)]])

lemma exhausted_loop_spec: "kspec P (\<lambda>_. True) (exhausted_loop a n k)"
  by (induction n)
    (auto split: sum.splits
       intro!: kspec_ret kspec_raise kspec_if kspec_bind [OF subnet_specs(2)] kspec_bind [OF kspec_wrap [OF subnet_specs(1)]])

lemma release_loop_spec: "kspec P (\<lambda>_. True) (release_loop a n k machineName)"
  by (induction n)
    (auto split: sum.splits option.splits prod.splits
       intro!: kspec_ret kspec_raise kspec_if kspec_bind [OF subnet_specs(2)] kspec_bind [OF kspec_wrap [OF getSubnet_opt]])

lemma reserveAndAwaitDHCP_spec:
  "kspec P (\<lambda>r. \<forall>x. r = Some x \<longrightarrow> bmc_result_ok x) (reserveAndAwaitDHCP a m)"
proof -
  have reserve: "kspec P (\<lambda>_. True) (reserveOnSubnet a k n mac)" for k n mac
    unfolding reserveOnSubnet_def
    by (intro kspec_bind [OF kspec_wrap [OF subnet_specs(1)]] reserve_loop_spec)
  have exhausted: "kspec P (\<lambda>_. True) (recordDHCPPoolExhausted a k)" for k
    unfolding recordDHCPPoolExhausted_def by (rule exhausted_loop_spec)
  have event: "kspec P (\<lambda>r. \<forall>x. r = Some x \<longrightarrow> bmc_result_ok x)
      (bindK (note_call (Event e)) (\<lambda>_. ret (Some (result_of Delayed))))" for e
    by (auto intro!: kspec_ret kspec_bind [OF kspec_note_call [where R = "\<lambda>_. True"]])
  show ?thesis
    unfolding reserveAndAwaitDHCP_def
    by (auto split: option.splits prod.splits
        intro!: kspec_ret kspec_if kspec_bind [OF kspec_wrap [OF getSubnet_opt]] kspec_bind [OF reserve]
          kspec_bind [OF exhausted] event)
qed

lemma patchBy_spec: "kept a m m1 \<Longrightarrow> kspec P (kept a m) (patchBy a ctx m1)"
  unfolding patchBy_def
  by (intro kspec_wrap kspec_kcall) (auto simp: kept_def dest: client_echoD(1))

lemma marker_specs:
  assumes "kept a m m1"
  shows "kspec P (kept a m) (armPXE a m1)" "kspec P (kept a m) (disarmPXE a m1)"
    "kspec P (kept a m) (armProvisionBoot a m1)" "kspec P (kept a m) (disarmProvisionBoot a m1)"
  using assms
  unfolding armPXE_def disarmPXE_def armProvisionBoot_def disarmProvisionBoot_def
    putAnnotation_def dropAnnotation_def
  by (auto intro!: patchBy_spec kspec_if kspec_ret)

lemma releaseDHCPReservation_spec: "kspec P (\<lambda>_. True) (releaseDHCPReservation a m)"
  unfolding releaseDHCPReservation_def by (rule release_loop_spec)

end

interpretation dc: boot_requests deployer_call
  by unfold_locales auto

interpretation nb: boot_requests no_bmc
  by unfold_locales auto

section \<open>Net boot\<close>

lemma kspec_bmc: "kspec deployer_call (\<lambda>_. True) (attempt (bmc a addr x))"
  unfolding bmc_def
  by (rule kspec_weaken [OF kspec_attempt [OF kspec_kcall [where R = "\<lambda>_. True"]]]) auto

lemma connect_bind:
  assumes "\<And>e. kspec deployer_call R (f (Inl e))" "\<And>addr. kspec deployer_call R (f (Inr addr))"
  shows "kspec deployer_call R (bindK (attempt (connectBMC a m)) f)"
  by (rule kspec_bind [OF kspec_attempt [OF dc.connectBMC_spec]]) (metis assms sum.exhaust_sel)

lemma powerOnForNetBoot_spec:
  "kspec deployer_call (\<lambda>r. \<forall>x. r = Some x \<longrightarrow> bmc_result_ok x) (powerOnForNetBoot a addr)"
  unfolding powerOnForNetBoot_def
  by (auto split: sum.splits intro!: kspec_ret kspec_bind [OF kspec_bmc])

lemma armAndPowerOn_spec:
  assumes arm: "\<And>m1. kept a m m1 \<Longrightarrow> kspec deployer_call (kept a m) (arm m1)"
    and disarm: "\<And>m1. kept a m m1 \<Longrightarrow> kspec deployer_call (kept a m) (disarm m1)"
  shows "kspec deployer_call (\<lambda>(m', r). result_ok r \<and> never_restart r \<and> kept a m m') (armAndPowerOn a arm disarm m force)"
proof -
  have off: "kspec deployer_call (\<lambda>(m', r). result_ok r \<and> never_restart r \<and> kept a m m') (bindK (disarm m2) (\<lambda>m3. ret (m3, x)))"
    if "kept a m m2" "bmc_result_ok x" for m2 x
    using that by (intro kspec_bind [OF disarm] kspec_ret) auto
  show ?thesis
    unfolding armAndPowerOn_def
    by (intro connect_bind)
      (auto split: option.splits
        intro!: kspec_ret off kspec_bind [OF dc.reserveAndAwaitDHCP_spec] kspec_bind [OF dc.issueBootToken_spec]
          kspec_bind [OF arm] kspec_bind [OF powerOnForNetBoot_spec])
qed

section \<open>The five steps\<close>

lemma arm_specs:
  "kspec deployer_call (\<lambda>(m', r). result_ok r \<and> kept a m m') (armPXEAndPowerOn a m force)"
  "kspec deployer_call (\<lambda>(m', r). result_ok r \<and> kept a m m') (armProvisionBootAndPowerOn a m force)"
  unfolding armPXEAndPowerOn_def armProvisionBootAndPowerOn_def
  by (rule kspec_weaken [OF armAndPowerOn_spec]; auto intro: dc.marker_specs)+

lemma noRegistration_ok [simp]: "result_ok (noRegistration a m)"
  by (simp add: noRegistration_def)

lemma Inspect_spec: "kspec deployer_call (\<lambda>(m', r). result_ok r \<and> kept a m m') (Inspect a m restart)"
proof -
  have hardware: "kspec deployer_call (\<lambda>_. True)
      (wrapK ctx (getOpt (kcall (GetHardware k) (k_getHardware (a_kube a) k))))" for ctx k
    by (intro kspec_wrap kspec_read) simp
  have finish: "kspec deployer_call (\<lambda>(m', r). result_ok r \<and> kept a m m')
      (bindK (disarmPXE a m) (\<lambda>m1. bindK (releaseDHCPReservation a m1) (\<lambda>_. ret (m1, result_of Complete))))"
    by (intro kspec_bind [OF dc.marker_specs(2) [of a m]] kspec_bind [OF dc.releaseDHCPReservation_spec] kspec_ret)
      auto
  show ?thesis
    unfolding Inspect_def pollAgentRegistration_def Let_def
    by (auto split: option.splits intro!: kspec_if arm_specs kspec_bind [OF hardware] finish kspec_ret)
qed

lemma commitProvisionPending_spec: "kspec deployer_call result_ok (commitProvisionPending a m run)"
proof -
  have claim: "kspec deployer_call (\<lambda>_. True) (agentResolveClaimIntent a m)"
    unfolding agentResolveClaimIntent_def
    by (auto split: option.splits intro!: kspec_ret kspec_bind [OF kspec_read] kspec_if)
  have plan: "kspec deployer_call (\<lambda>_. True) (attempt (kcall BuildPlan op))"
    for op :: "'a \<Rightarrow> (kerr + snapshot) \<times> 'a"
    by (rule kspec_weaken [OF kspec_attempt [OF kspec_kcall [where R = "\<lambda>_. True"]]]) auto
  have "planBuildErrorResult e = Some r \<Longrightarrow> result_ok r" for e r
    by (auto simp: planBuildErrorResult_def split: kerr.splits)
  then show ?thesis
    unfolding commitProvisionPending_def Let_def
    by (auto split: option.splits sum.splits
        intro!: kspec_ret kspec_raise kspec_bind [OF kspec_wrap [OF claim]] kspec_bind [OF plan]
          kspec_bind [OF kspec_wrap [OF kspec_kcall [where R = "\<lambda>_. True"]]])
qed

lemma startProvision_spec:
  "kspec deployer_call (\<lambda>(m', r). result_ok r \<and> kept a m m') (startProvision a m run restart)"
proof -
  have disarm: "kspec deployer_call (\<lambda>(m', r). result_ok r \<and> kept a m m')
      (bindK (disarmProvisionBoot a m) (\<lambda>m1. ret (m1, x)))" if "result_ok x" for x
    using that by (intro kspec_bind [OF dc.marker_specs(4) [of a m]] kspec_ret) auto
  show ?thesis
    unfolding startProvision_def pollAgentBoot_def
    by (auto split: option.splits
        intro!: arm_specs kspec_if kspec_ret kspec_bind [OF commitProvisionPending_spec] disarm)
qed

lemma provisionStallResult_ok [simp]: "result_ok (provisionStallResult a run)"
  by (auto simp: provisionStallResult_def Let_def split: option.splits)

lemma Provision_spec:
  "kspec deployer_call (\<lambda>(m', r). result_ok r \<and> kept a m m') (Provision a m run restart)"
proof -
  have complete: "kspec deployer_call (\<lambda>(m', r). result_ok r \<and> kept a m m')
      (bindK (releaseDHCPReservation a m) (\<lambda>_. ret (m, result_of Complete)))"
    by (intro kspec_bind [OF dc.releaseDHCPReservation_spec] kspec_ret) auto
  have go: "kspec deployer_call (\<lambda>(m', r). result_ok r \<and> kept a m m')
      (if phase (r_status run1) = PhaseEmpty then startProvision a m run1 restart
       else provisionResultFromPhase a m run1)" for run1
    unfolding provisionResultFromPhase_def
    by (auto intro!: startProvision_spec complete kspec_ret split: DeployRunPhase.splits)
  have reset: "kspec deployer_call (\<lambda>_. True) (resetProvisionAttempt a run)"
    unfolding resetProvisionAttempt_def Let_def by (intro kspec_wrap kspec_kcall) auto
  show ?thesis
    unfolding Provision_def
    by (rule kspec_bind [where Q = "\<lambda>_. True", OF _ go]) (auto intro!: reset kspec_ret)
qed

lemma bmcOr_spec:
  assumes "\<And>st. kspec deployer_call (\<lambda>(m', r). result_ok r \<and> never_restart r \<and> kept a m m') (f st)"
  shows "kspec deployer_call (\<lambda>(m', r). result_ok r \<and> never_restart r \<and> kept a m m') (bmcOr a m addr ctx x f)"
  unfolding bmcOr_def
  by (rule kspec_bind [OF kspec_bmc]) (auto split: sum.splits intro!: kspec_ret assms)

lemma power_specs:
  "kspec deployer_call (\<lambda>(m', r). result_ok r \<and> never_restart r \<and> kept a m m') (Deprovision a m restart)"
  "kspec deployer_call (\<lambda>(m', r). result_ok r \<and> never_restart r \<and> kept a m m') (PowerOff a m)"
  "kspec deployer_call (\<lambda>(m', r). result_ok r \<and> never_restart r \<and> kept a m m') (Reboot a m hard)"
proof -
  show "kspec deployer_call (\<lambda>(m', r). result_ok r \<and> never_restart r \<and> kept a m m') (Deprovision a m restart)"
    unfolding Deprovision_def by (intro kspec_bind [OF dc.releaseDHCPReservation_spec] kspec_ret) auto
  show "kspec deployer_call (\<lambda>(m', r). result_ok r \<and> never_restart r \<and> kept a m m') (PowerOff a m)"
    unfolding PowerOff_def by (intro connect_bind) (auto intro!: kspec_ret bmcOr_spec)
  show "kspec deployer_call (\<lambda>(m', r). result_ok r \<and> never_restart r \<and> kept a m m') (Reboot a m hard)"
    unfolding Reboot_def by (intro connect_bind) (auto intro!: kspec_ret bmcOr_spec)
qed

interpretation ad: deployer_contract "AgentDeployer a" "a_kube a" "a_lib a" for a :: "'s agent"
proof unfold_locales
  have weak: "kspec deployer_call (\<lambda>(m', r). result_ok r \<and> kept a m m') act \<Longrightarrow>
      step_ok (a_kube a) (a_lib a) m (\<lambda>_. True) act"
    and strong: "kspec deployer_call (\<lambda>(m', r). result_ok r \<and> never_restart r \<and> kept a m m') act \<Longrightarrow>
      step_ok (a_kube a) (a_lib a) m never_restart act" for m :: Machine and act
    by (simp_all add: step_ok_def kept_def)
  show "step_ok (a_kube a) (a_lib a) m (\<lambda>_. True) (d_inspect (AgentDeployer a) m b)"
    "step_ok (a_kube a) (a_lib a) m (\<lambda>_. True) (d_provision (AgentDeployer a) m run b)"
    "step_ok (a_kube a) (a_lib a) m never_restart (d_deprovision (AgentDeployer a) m b)"
    "step_ok (a_kube a) (a_lib a) m never_restart (d_powerOff (AgentDeployer a) m)"
    "step_ok (a_kube a) (a_lib a) m never_restart (d_reboot (AgentDeployer a) m hard)" for m run b hard
    by (simp_all add: AgentDeployer_def weak strong Inspect_spec Provision_spec power_specs)
qed

end
