(* ===== verification/Reference_World.thy ===== *)
theory Reference_World
  imports Agent_Contract
begin

text \<open>
  A concrete world in which the parameters of the model are ordinary functions: the helper
  packages after their documentation, an in-memory API server holding one object store, a BMC
  that always answers, and an agent deployer on top of them. It shows that the hypotheses on the
  parameters can hold together, and it is where the witnesses of the properties are evaluated.
\<close>

section \<open>Helper packages\<close>

definition ref_find :: "condition list \<Rightarrow> string \<Rightarrow> condition option" where
  "ref_find cs t = find (\<lambda>c. c_type c = t) cs"

definition ref_true :: "condition list \<Rightarrow> string \<Rightarrow> bool" where
  "ref_true cs t = (case ref_find cs t of None \<Rightarrow> False | Some c \<Rightarrow> c_status c = CondTrue)"

definition ref_set :: "condition list \<Rightarrow> condition \<Rightarrow> condition list" where
  "ref_set cs c =
     (if ref_find cs (c_type c) = None then cs @ [c]
      else map (\<lambda>x. if c_type x = c_type c then c else x) cs)"

definition ref_remove :: "condition list \<Rightarrow> string \<Rightarrow> condition list" where
  "ref_remove cs t = filter (\<lambda>c. c_type c \<noteq> t) cs"

definition ref_libs :: libs where
  "ref_libs = \<lparr>isStatusConditionTrue = ref_true, findStatusCondition = ref_find,
     setStatusCondition = ref_set, removeStatusCondition = ref_remove,
     containsFinalizer = (\<lambda>fs f. f \<in> set fs),
     addFinalizer = (\<lambda>fs f. (f \<notin> set fs, if f \<in> set fs then fs else fs @ [f])),
     removeFinalizer = (\<lambda>fs f. (f \<in> set fs, filter (\<lambda>g. g \<noteq> f) fs)),
     hasOwnerReference = (\<lambda>os m. Inr ((m_name m, m_uid m) \<in> set os)),
     setOwnerReference = (\<lambda>m s. Inr (s\<lparr>s_owners := s_owners s @ [(m_name m, m_uid m)]\<rparr>)),
     setControllerReference = (\<lambda>m r. Inr (r\<lparr>r_controllerOwner := Some (m_name m, m_uid m)\<rparr>))\<rparr>"

lemma find_append_absent: "find P xs = None \<Longrightarrow> find P (xs @ ys) = find P ys"
  by (induction xs) (auto split: if_splits)

lemma ref_find_set: "ref_find (ref_set cs c) t = (if t = c_type c then Some c else ref_find cs t)"
proof (cases "ref_find cs (c_type c)")
  case None
  then have "find (\<lambda>x. c_type x = t) (cs @ [c]) = (if t = c_type c then Some c else find (\<lambda>x. c_type x = t) cs)"
    unfolding ref_find_def by (induction cs) (auto split: if_splits)
  with None show ?thesis by (simp add: ref_set_def ref_find_def)
next
  case (Some d)
  have "t \<noteq> c_type c \<Longrightarrow>
      find (\<lambda>x. c_type x = t) (map (\<lambda>x. if c_type x = c_type c then c else x) cs) = find (\<lambda>x. c_type x = t) cs"
    by (induction cs) auto
  moreover have "find (\<lambda>x. c_type x = c_type c) (map (\<lambda>x. if c_type x = c_type c then c else x) cs) = Some c"
    using Some unfolding ref_find_def by (induction cs) (auto split: if_splits)
  ultimately show ?thesis
    using Some by (auto simp: ref_set_def ref_find_def)
qed

lemma ref_find_remove: "ref_find (ref_remove cs t) t' = (if t' = t then None else ref_find cs t')"
  unfolding ref_find_def ref_remove_def by (induction cs) auto

lemma ref_meta_laws: "meta_laws ref_libs"
  by (simp add: meta_laws_def ref_libs_def ref_true_def ref_find_set ref_find_remove)

lemma ref_finalizer_laws: "finalizer_laws ref_libs"
  by (simp add: finalizer_laws_def ref_libs_def)

section \<open>An in-memory API server\<close>

record store =
  st_machine :: Machine
  st_claims :: "(key \<times> MachineClaim) list"
  st_images :: "(key \<times> Image) list"
  st_runs :: "(key \<times> DeployRun) list"
  st_secrets :: "(key \<times> Secret) list"
  st_subnets :: "(key \<times> Subnet) list"
  st_hardware :: "(key \<times> MachineHardware) list"
  st_tokens :: TokenStore

definition lookup_or :: "(key \<times> 'a) list \<Rightarrow> key \<Rightarrow> store \<Rightarrow> (kerr + 'a) \<times> store" where
  "lookup_or kvs k s = (case map_of kvs k of None \<Rightarrow> (Inl NotFound, s) | Some x \<Rightarrow> (Inr x, s))"

definition put_status :: "Machine \<Rightarrow> store \<Rightarrow> (kerr + Machine) \<times> store" where
  "put_status m s = (Inr m, s\<lparr>st_machine := (st_machine s)\<lparr>m_status := m_status m\<rparr>\<rparr>)"

definition ref_kube :: "store kube" where
  "ref_kube = \<lparr>
     k_getMachine = (\<lambda>k s. if m_key (st_machine s) = k then (Inr (st_machine s), s) else (Inl NotFound, s)),
     k_getClaim = (\<lambda>k s. lookup_or (st_claims s) k s),
     k_getImage = (\<lambda>k s. lookup_or (st_images s) k s),
     k_getRun = (\<lambda>k s. lookup_or (st_runs s) k s),
     k_getSecret = (\<lambda>k s. lookup_or (st_secrets s) k s),
     k_getHardware = (\<lambda>k s. lookup_or (st_hardware s) k s),
     k_getSubnet = (\<lambda>k s. lookup_or (st_subnets s) k s),
     k_listRuns = (\<lambda>ns s. (Inr (map snd (filter (\<lambda>(k, _). fst k = ns) (st_runs s))), s)),
     k_updateMachine = (\<lambda>m s. (Inr m, s\<lparr>st_machine := m\<lparr>m_status := m_status (st_machine s)\<rparr>\<rparr>)),
     k_patchMachine = (\<lambda>m s. (Inr m, s\<lparr>st_machine := m\<lparr>m_status := m_status (st_machine s)\<rparr>\<rparr>)),
     k_applyStatus = put_status, k_mergeStatus = put_status, k_updateMachineStatus = put_status,
     k_createRun = (\<lambda>r s. let r' = r\<lparr>r_name := r_generateName r @ ''1''\<rparr> in
        (Inr r', s\<lparr>st_runs := ((r_namespace r', r_name r'), r') # st_runs s\<rparr>)),
     k_updateRunStatus = (\<lambda>r s. (Inr r, s\<lparr>st_runs := ((r_namespace r, r_name r), r) # st_runs s\<rparr>)),
     k_deleteHardware = (\<lambda>k s. if map_of (st_hardware s) k \<noteq> None
        then (Inr (), s\<lparr>st_hardware := alist_delete k (st_hardware s)\<rparr>) else (Inl NotFound, s)),
     k_patchSecret = (\<lambda>x s. (Inr x, s\<lparr>st_secrets := ((s_namespace x, s_name x), x) # st_secrets s\<rparr>)),
     k_updateSecret = (\<lambda>x s. (Inr x, s\<lparr>st_secrets := ((s_namespace x, s_name x), x) # st_secrets s\<rparr>)),
     k_writeSecret = (\<lambda>x s. (Inr x, s\<lparr>st_secrets := ((s_namespace x, s_name x), x) # st_secrets s\<rparr>)),
     k_updateSubnetStatus = (\<lambda>x s. (Inr x, s\<lparr>st_subnets := ((sn_namespace x, sn_name x), x) # st_subnets s\<rparr>)),
     k_listMachines = (\<lambda>ns s. (Inr (if ns = '''' \<or> m_namespace (st_machine s) = ns then [st_machine s] else []), s)),
     k_listByTokenHash = (\<lambda>h s. (Inr (if (case netBoot (m_status (st_machine s)) of None \<Rightarrow> False
        | Some b \<Rightarrow> nb_tokenHash b \<noteq> '''' \<and> nb_tokenHash b = h) then [st_machine s] else []), s)),
     k_listBySessionHash = (\<lambda>h s. (Inr (if (case agentSession (m_status (st_machine s)) of None \<Rightarrow> False
        | Some b \<Rightarrow> as_tokenHash b \<noteq> '''' \<and> as_tokenHash b = h) then [st_machine s] else []), s)),
     k_listClaims = (\<lambda>ns s. (Inr (map snd (filter (\<lambda>(k, _). fst k = ns) (st_claims s))), s)),
     k_clearClaimRef = (\<lambda>k s. if m_key (st_machine s) = k
        then (let m = st_machine s; m' = m\<lparr>m_spec := (m_spec m)\<lparr>ms_claimRef := None\<rparr>\<rparr> in (Inr m', s\<lparr>st_machine := m'\<rparr>))
        else (Inl NotFound, s)),
     k_updateClaim = (\<lambda>c s. (Inr c, s\<lparr>st_claims := alist_put (cl_namespace c, cl_name c) c (st_claims s)\<rparr>)),
     k_updateClaimStatus = (\<lambda>c s. (Inr c, s\<lparr>st_claims := alist_put (cl_namespace c, cl_name c) c (st_claims s)\<rparr>)),
     k_createHardware = (\<lambda>h s. if map_of (st_hardware s) (hw_namespace h, hw_name h) \<noteq> None then (Inl AlreadyExists, s)
        else (Inr h, s\<lparr>st_hardware := alist_put (hw_namespace h, hw_name h) h (st_hardware s)\<rparr>)),
     k_updateHardware = (\<lambda>h s. (Inr h, s\<lparr>st_hardware := alist_put (hw_namespace h, hw_name h) h (st_hardware s)\<rparr>))\<rparr>"

lemma ref_client_echo: "client_echo ref_kube L"
  by (auto simp: client_echo_def ref_kube_def put_status_def split: if_splits)

section \<open>A deployer and an environment\<close>

definition ref_agent :: "(string \<Rightarrow> bmc_action \<Rightarrow> store \<Rightarrow> (kerr + power_state) \<times> store) \<Rightarrow> store agent" where
  "ref_agent b = \<lparr>a_kube = ref_kube, a_lib = ref_libs, a_now = 1000,
     a_build = (\<lambda>m c r s. (Inr \<lparr>sp_resolvedDisks = [], sp_hooksHash = ''h''\<rparr>, s)),
     a_tokens = Some (st_tokens, \<lambda>t s. s\<lparr>st_tokens := t\<rparr>),
     a_rand = (\<lambda>s. (Inr ''r'', s)), a_sha = (\<lambda>x. x), a_tokenTTL = 0, a_recorder = True,
     a_connect = (\<lambda>addr creds insecure s. (Inr (), s)), a_bmc = b,
     a_formatTime = show_int, a_parseTime = (\<lambda>s. if s = '''' then None else Some 0),
     a_durationString = show_int,
     a_encodeMarker = (\<lambda>(t, h). h), a_decodeMarker = (\<lambda>s. Some (0, s)),
     a_retrySteps = 5, a_fuel = 10\<rparr>"

definition ref_bmc :: "string \<Rightarrow> bmc_action \<Rightarrow> store \<Rightarrow> (kerr + power_state) \<times> store" where
  "ref_bmc addr x s = (Inr PowerStateOff, s)"

definition dead_bmc :: "string \<Rightarrow> bmc_action \<Rightarrow> store \<Rightarrow> (kerr + power_state) \<times> store" where
  "dead_bmc addr x s = (Inl (PlainError ''bmc: 401 unauthorized''), s)"

definition ref_env :: "store deployer \<Rightarrow> store env" where
  "ref_env d = \<lparr>kube = ref_kube, lib = ref_libs, jitter = (\<lambda>d. d), now = 1000,
     rebootJSON = (\<lambda>s. Some s), deployer = d,
     builder = Some \<lparr>b_build = (\<lambda>m c r s. (Inr \<lparr>sp_resolvedDisks = [], sp_hooksHash = ''h''\<rparr>, s)),
       b_buildSnapshot = (\<lambda>m c s. (Inr \<lparr>sp_resolvedDisks = [], sp_hooksHash = ''h''\<rparr>, s))\<rparr>\<rparr>"

lemma ref_env_laws: "env_laws (ref_env d)"
  by (simp add: env_laws_def ref_env_def ref_meta_laws ref_client_echo)

definition ref_status :: "MachineState \<Rightarrow> MachineStatus" where
  "ref_status s = \<lparr>state = s, operationalStatus = OpEmpty, errorType = ErrNone, errorCount = 0,
     restartCount = 0, errorMessage = '''',
     goodCredentials = \<lparr>mc_secretRef = None, mc_resourceVersion = ''''\<rparr>,
     triedCredentials = \<lparr>mc_secretRef = None, mc_resourceVersion = ''''\<rparr>,
     currentRunRef = None, lastSuccessfulRunRef = None, lastAttemptedRunRef = None, poweredOn = None,
     lastUpdated = None, netBoot = None, agentSession = None, conditions = []\<rparr>"

definition ref_machine :: "MachineState \<Rightarrow> (string \<times> string) list \<Rightarrow> time option \<Rightarrow> Machine" where
  "ref_machine s ann del = \<lparr>m_name = ''m'', m_namespace = ''n'', m_uid = ''u'', m_resourceVersion = ''1'', m_generation = 1,
     m_annotations = ann, m_labels = [], m_finalizers = [MachineFinalizer], m_deletionTimestamp = del,
     m_spec = \<lparr>ms_bmc = \<lparr>bmc_address = ''b'', bmc_credentialsSecretRef = ''c''\<rparr>,
       ms_bootMACAddress = ''02:00:00:00:00:AB'', ms_subnetRef = \<lparr>nr_namespace = '''', nr_name = ''s''\<rparr>,
       ms_claimRef = None, ms_console = [], ms_bootTimeout = None\<rparr>,
     m_status = ref_status s\<rparr>"

definition ref_secret :: Secret where
  "ref_secret = \<lparr>s_name = ''c'', s_namespace = ''n'', s_resourceVersion = ''7'', s_labels = [],
     s_owners = [], s_finalizers = [MachineCredentialsSecretFinalizer],
     s_data = [(''username'', ''u''), (''password'', ''p'')]\<rparr>"

definition ref_subnet :: Subnet where
  "ref_subnet = \<lparr>sn_name = ''s'', sn_namespace = ''n'', sn_uid = ''su'', sn_deletionTimestamp = None, sn_generation = 1,
     sn_siteRef = \<lparr>nr_namespace = '''', nr_name = ''site''\<rparr>, sn_cidr = ''10.0.0.0/29'',
     sn_bootdServerIP = ''10.0.0.1'', sn_bootdNetworkRef = None, sn_seederNetworkRef = None, sn_nodeSelector = [],
     sn_dhcp = Some \<lparr>sd_mode = ModeProxy, sd_leaseRangeStart = '''', sd_leaseRangeEnd = '''', sd_gateway = None, sd_leaseTime = None\<rparr>,
     sn_conditions = [], sn_dhcpStatus = None\<rparr>"

definition ref_claim :: "MachineDataImage slice \<Rightarrow> MachineClaim" where
  "ref_claim ds = \<lparr>cl_name = ''k'', cl_namespace = ''n'', cl_uid = ''x'', cl_generation = 1,
     cl_finalizers = [MachineClaimFinalizer], cl_deletionTimestamp = None,
     cl_spec = \<lparr>cs_machineName = ''m'', cs_selector = None, cs_imageRef = Some \<lparr>nr_namespace = '''', nr_name = ''i''\<rparr>,
       cs_dataImages = ds, cs_targetDisk = None, cs_postHookRefs = [], cs_params = None, cs_ezio = None, cs_afterDeploy = ''''\<rparr>,
     cl_status = \<lparr>cst_phase = ClaimBound, cst_machineName = ''m'', cst_boundAt = None, cst_currentRunRef = None,
       cst_lastSuccessfulRunRef = None, cst_conditions = []\<rparr>\<rparr>"

definition ref_store :: "Machine \<Rightarrow> store" where
  "ref_store m = \<lparr>st_machine = m, st_claims = [], st_images = [], st_runs = [],
     st_secrets = [((''n'', ''c''), ref_secret)], st_subnets = [((''n'', ''s''), ref_subnet)],
     st_hardware = [], st_tokens = Map.empty\<rparr>"

definition ref_world :: "Machine \<Rightarrow> store world" where
  "ref_world m = \<lparr>srv = ref_store m, trace = []\<rparr>"

end
