(* ===== verification/Machine_Properties.thy ===== *)
theory Machine_Properties
  imports Machine_Holds Machine_Delete Agent_Total Reference_World
begin

text \<open>
  The properties of the Machine reconciler, stated for the reconciler composed with the agent
  deployer where a property needs a deployer. Each is followed by an application of it in the
  reference world.
\<close>

section \<open>The composed system\<close>

text \<open>A pass of the reconciler with the agent deployer as its Deployer, on the same client.\<close>

definition agent_env :: "'s env \<Rightarrow> 's agent \<Rightarrow> bool" where
  "agent_env env a \<longleftrightarrow> deployer env = AgentDeployer a \<and> kube env = a_kube a \<and> lib env = a_lib a"

lemma agent_envD:
  assumes "agent_env env a"
  shows "deployer env = AgentDeployer a" "kube env = a_kube a" "lib env = a_lib a"
  using assms by (simp_all add: agent_env_def)

abbreviation ref_pass_env :: "store env" where
  "ref_pass_env \<equiv> ref_env (AgentDeployer (ref_agent ref_bmc))"

lemma ref_agent_env: "agent_env (ref_env (AgentDeployer (ref_agent b))) (ref_agent b)"
  by (simp add: agent_env_def ref_env_def ref_agent_def)

lemma ref_deployer [simp]: "deployer (ref_env d) = d" "kube (ref_env d) = ref_kube" "lib (ref_env d) = ref_libs"
  by (simp_all add: ref_env_def)

lemma agent_pass_spec:
  assumes "agent_env env a" "env_laws env"
  shows "kspec (pass_call env m) (\<lambda>_. True) (reconcileMachine env m)"
  using ad.reconcileMachine_spec agent_envD [OF assms(1)] assms(2) by blast

section \<open>The state walk\<close>

text \<open>
  C1: every status write of a reconcile pass follows the walk: while the
  Machine is live its state moves along the forward relation (or back to Enrolling, from an error
  type the code does not know), while it is being deleted along the backward relation; and every
  write stamps lastUpdated with the time of the pass.
\<close>

theorem status_writes_follow_walk:
  assumes "agent_env env a" "env_laws env"
    and "(ApplyStatus m', ok) \<in> set (calls_of (reconcileMachine env m) w) \<or>
         (MergeStatus m', ok) \<in> set (calls_of (reconcileMachine env m) w)"
  shows "moves m (m_state m') \<and> lastUpdated (m_status m') = Some (now env)"
proof -
  have "write_ok env m m'"
    using assms(3) kspec_calls [OF agent_pass_spec [OF assms(1,2), of m], of _ ok w]
    by (metis pass_call.simps(1,2))
  then show ?thesis
    by (simp add: write_ok_def)
qed

definition enrolled :: Machine where
  "enrolled = (ref_machine Enrolling [] None)\<lparr>m_status := (ref_status Inspecting)\<lparr>operationalStatus := OpOK,
     lastUpdated := Some 1000\<rparr>\<rparr>"

lemma enrol_calls:
  "calls_of (reconcileMachine ref_pass_env (ref_machine Enrolling [] None)) (ref_world (ref_machine Enrolling [] None)) =
     [(ApplyStatus enrolled, True)]"
  by code_simp

theorem status_writes_follow_walk_witness:
  "moves (ref_machine Enrolling [] None) Inspecting \<and> lastUpdated (m_status enrolled) = Some 1000"
  using status_writes_follow_walk [OF ref_agent_env ref_env_laws, of enrolled True ref_bmc
      "ref_machine Enrolling [] None" "ref_world (ref_machine Enrolling [] None)"]
  by (simp add: enrol_calls) (simp add: enrolled_def ref_status_def ref_env_def)


definition fresh_machine :: Machine where
  "fresh_machine = ref_machine StateEmpty [] None"

definition enrolling :: Machine where
  "enrolling = fresh_machine\<lparr>m_status := (ref_status Enrolling)\<lparr>operationalStatus := OpOK, lastUpdated := Some 1000\<rparr>\<rparr>"

lemma fresh_calls:
  "calls_of (reconcileMachine ref_pass_env fresh_machine) (ref_world fresh_machine) = [(ApplyStatus enrolling, True)]"
  by code_simp

lemma enrolling_reachable:
  "reachable ref_libs (\<lambda>env :: store env. (\<exists>a. agent_env env a) \<and> env_laws env \<and> lib env = ref_libs) enrolling"
proof -
  let ?E = "\<lambda>env :: store env. (\<exists>a. agent_env env a) \<and> env_laws env \<and> lib env = ref_libs"
  let ?run = "reconcileMachine ref_pass_env fresh_machine (ref_world fresh_machine)"
  have fresh: "reachable ref_libs ?E fresh_machine"
    by (rule reachable.fresh) (simp add: fresh_status_def fresh_machine_def ref_machine_def ref_status_def)
  have E: "?E ref_pass_env"
    using ref_agent_env ref_env_laws by auto
  have run: "trace (snd ?run) = trace (ref_world fresh_machine) @ [(ApplyStatus enrolling, True)]"
    using fresh_calls by (simp add: calls_of_def ref_world_def)
  show ?thesis
    by (rule reachable.pass [OF fresh E prod.collapse [symmetric] run]) simp
qed


section \<open>Who may act on the machine\<close>

text \<open>
  C6: a pass calls a deployer step, or creates a DeployRun, only for a
  Machine that is neither paused nor detached, and only when the guard of that step holds:
  Inspect in Inspecting with inspection enabled, Provision in Provisioning with a run and a claim,
  Deprovision and PowerOff in their stage of the delete walk, Reboot for a reboot annotation with
  the mode it asks for, a new run for a live claimed Machine that is idle or lost its run; none of
  Inspect, Provision and the creation happens while the Machine is in the retry hold.
\<close>

theorem deployer_calls_guarded:
  assumes "agent_env env a" "owner_laws (lib env)" "(c, ok) \<in> set (calls_of (reconcileMachine env m) w)"
  shows "(\<forall>s. c = DeployerCall s \<longrightarrow> active m \<and> step_guard env m s) \<and>
         (\<forall>run. c = CreateRun run \<longrightarrow> active m \<and> run_guard env m run)"
proof -
  have "guarded env m c"
    by (rule kspec_calls [OF ad.reconcileMachine_guard [of env a] assms(3)])
      (use agent_envD [OF assms(1)] assms(2) in auto)
  then show ?thesis by auto
qed

lemma ref_owner_laws: "owner_laws ref_libs"
  by (auto simp: owner_laws_def ref_libs_def)

definition deleting :: "MachineState \<Rightarrow> Machine" where
  "deleting s = ref_machine s [] (Some 5)"

lemma power_off_calls:
  "map fst (calls_of (reconcileMachine ref_pass_env (deleting PoweringOff)) (ref_world (deleting PoweringOff))) ! 0 =
     DeployerCall StepPowerOff"
  "length (calls_of (reconcileMachine ref_pass_env (deleting PoweringOff)) (ref_world (deleting PoweringOff))) > 0"
  by code_simp+

theorem deployer_calls_guarded_witness:
  "active (deleting PoweringOff) \<and> step_guard ref_pass_env (deleting PoweringOff) StepPowerOff"
proof -
  have "\<exists>ok. (DeployerCall StepPowerOff, ok) \<in>
      set (calls_of (reconcileMachine ref_pass_env (deleting PoweringOff)) (ref_world (deleting PoweringOff)))"
    using power_off_calls by (metis in_set_conv_nth length_map nth_map prod.collapse)
  then show ?thesis
    using deployer_calls_guarded [OF ref_agent_env] ref_owner_laws by fastforce
qed

text \<open>
  A paused Machine is left alone: a pass reads it, makes no other
  request, and asks for no requeue, whatever its state, annotations or deletion timestamp.
\<close>

theorem paused_pass_does_nothing:
  assumes "k_getMachine (kube env) k s = (Inr m, s')" "isPaused m"
  shows "Reconcile env k \<lparr>srv = s, trace = t\<rparr> = (Inr noRequeue, \<lparr>srv = s', trace = t @ [(GetMachine k, True)]\<rparr>)"
  using assms by (simp add: Reconcile_def reconcileMachine_def getOpt_def kcall_def kio_simps)

definition paused_machine :: Machine where
  "paused_machine = ref_machine Inspecting [(MachineAnnotationPaused, '''')] (Some 5)"

theorem paused_pass_does_nothing_witness:
  "Reconcile ref_pass_env (''n'', ''m'') (ref_world paused_machine) =
     (Inr noRequeue, (ref_world paused_machine)\<lparr>trace := [(GetMachine (''n'', ''m''), True)]\<rparr>)"
  using paused_pass_does_nothing [of ref_pass_env "(''n'', ''m'')" "ref_store paused_machine" paused_machine
      "ref_store paused_machine" "[]"]
  by (simp add: ref_kube_def ref_world_def ref_store_def paused_machine_def ref_machine_def isPaused_def hasAnnotation_def)

text \<open>
  A pass over a detached Machine, live or being deleted,
  calls no deployer step, opens no BMC connection, runs no BMC action and creates no DeployRun.
\<close>

fun hands_off :: "call \<Rightarrow> bool" where
  "hands_off (DeployerCall _) = False"
| "hands_off (BmcConnect _) = False"
| "hands_off (BmcCall _) = False"
| "hands_off (CreateRun _) = False"
| "hands_off _ = True"

lemma detached_pass:
  assumes "isDetached m"
  shows "kspec hands_off (\<lambda>_. True) (reconcileMachine env m)"
proof -
  have secret: "kspec hands_off (\<lambda>_. True) (releaseCredentialsSecretFinalizer env m)"
    unfolding releaseCredentialsSecretFinalizer_def Let_def
    by (auto split: option.splits prod.splits intro!: kspec_ret kspec_bind [OF kspec_wrap [OF kspec_read]]
        kspec_bind [OF kspec_wrap [OF kspec_kcall [where R = "\<lambda>_. True"]]])
  have advance: "kspec hands_off (\<lambda>_. True) (advanceDeleteStage env m next)" for "next"
    unfolding advanceDeleteStage_def releaseMachine_def Let_def
    by (auto intro!: kspec_apply_done kspec_bind [OF secret] kspec_bind [OF kspec_kcall [where R = "\<lambda>_. True"]] kspec_ret)
  have "kspec hands_off (\<lambda>_. True) (onDelete env m)" "kspec hands_off (\<lambda>_. True) (onChange env m)"
    unfolding onDelete_def onChange_def reconcileDeprovisioning_def reconcilePoweringOff_def reconcileDetached_def
    using assms by (cases "m_state m"; auto intro!: kspec_ret advance kspec_apply_done)+
  then show ?thesis
    unfolding reconcileMachine_def Let_def
    by (auto intro!: kspec_ret kspec_bind [OF kspec_kcall [where R = "\<lambda>_. True"]])
qed

theorem detached_pass_touches_no_hardware:
  assumes "isDetached m" "(c, ok) \<in> set (calls_of (reconcileMachine env m) w)"
  shows "(\<forall>s. c \<noteq> DeployerCall s) \<and> (\<forall>x. c \<noteq> BmcConnect x) \<and> (\<forall>x. c \<noteq> BmcCall x) \<and> (\<forall>r. c \<noteq> CreateRun r)"
  using kspec_calls [OF detached_pass [OF assms(1)] assms(2)] by (cases c) simp_all

definition detached_machine :: Machine where
  "detached_machine = ref_machine PoweringOff [(MachineAnnotationDetached, '''')] (Some 5)"

lemma detached_calls:
  "map snd (calls_of (reconcileMachine ref_pass_env detached_machine) (ref_world detached_machine)) = [True, True, True]"
  by code_simp

theorem detached_pass_touches_no_hardware_witness:
  "\<exists>c. (c, True) \<in> set (calls_of (reconcileMachine ref_pass_env detached_machine) (ref_world detached_machine)) \<and>
     (\<forall>s. c \<noteq> DeployerCall s)"
proof -
  obtain c where c: "(c, True) \<in> set (calls_of (reconcileMachine ref_pass_env detached_machine) (ref_world detached_machine))"
    using detached_calls by (fastforce simp: map_eq_Cons_conv)
  have "isDetached detached_machine"
    by (simp add: detached_machine_def ref_machine_def isDetached_def hasAnnotation_def)
  from detached_pass_touches_no_hardware [OF this c] c show ?thesis by blast
qed

text \<open>
  A Machine in the retry hold stays in it: over a pass on a live Machine
  with neither a clear-error nor a re-inspect annotation, every status write still carries the
  hold (a reboot, a detach or a re-attach does not release it).
\<close>

theorem retry_hold_persists:
  assumes "agent_env env a" "env_laws env" "retryHeld env m" "m_deletionTimestamp m = None"
    and "\<not> clearErrorRequested m" "\<not> reInspectRequested m"
    and "(ApplyStatus m', ok) \<in> set (calls_of (reconcileMachine env m) w) \<or>
         (MergeStatus m', ok) \<in> set (calls_of (reconcileMachine env m) w)"
  shows "retryHeld env m'"
proof -
  have "kspec (keeps_hold env) (\<lambda>_. True) (reconcileMachine env m)"
    using ad.held_pass agent_envD [OF assms(1)] assms(2-6) by blast
  with assms(7) show ?thesis
    by (metis kspec_calls keeps_hold.simps(1,2))
qed

definition held_machine :: Machine where
  "held_machine = upd_status (\<lambda>st. st\<lparr>operationalStatus := OpError, errorType := Restart, restartCount := 3,
     conditions := [\<lparr>c_type = MachineConditionRetryHeld, c_status = CondTrue, c_observedGeneration = 0,
       c_reason = '''', c_message = ''''\<rparr>]\<rparr>) (ref_machine Provisioning [(MachineAnnotationDetached, '''')] None)"

definition held_detached :: Machine where
  "held_detached = upd_status (\<lambda>st. st\<lparr>operationalStatus := OpDetached, lastUpdated := Some 1000\<rparr>) held_machine"

lemma held_calls:
  "calls_of (reconcileMachine ref_pass_env held_machine) (ref_world held_machine) = [(ApplyStatus held_detached, True)]"
  by code_simp

theorem retry_hold_persists_witness: "retryHeld ref_pass_env held_detached"
proof (rule retry_hold_persists [OF ref_agent_env ref_env_laws])
  show "retryHeld ref_pass_env held_machine" "m_deletionTimestamp held_machine = None"
    "\<not> clearErrorRequested held_machine" "\<not> reInspectRequested held_machine"
    by code_simp+
  show "(ApplyStatus held_detached, True) \<in> set (calls_of (reconcileMachine ref_pass_env held_machine) (ref_world held_machine)) \<or>
      (MergeStatus held_detached, True) \<in> set (calls_of (reconcileMachine ref_pass_env held_machine) (ref_world held_machine))"
    by (simp add: held_calls)
qed

section \<open>No panic\<close>

text \<open>
  C37: with the agent deployer, and for every API server, BMC and plan
  builder that answers each request with a value or an error, a pass never ends in a run-time
  panic; in particular the unguarded dereference of the claim in createDeployRun is unreachable.
\<close>

theorem reconcile_never_panics:
  assumes "agent_env env a" "agent_answers a"
    and "\<forall>b. builder env = Some b \<longrightarrow> (\<forall>m c r. answers (b_build b m c r)) \<and> (\<forall>m c. answers (b_buildSnapshot b m c))"
    and "\<forall>os m e. hasOwnerReference (lib env) os m = Inl e \<longrightarrow> panic_free e"
  shows "fst (Reconcile env k w) \<noteq> Inl (GoPanic s)"
proof -
  have "env_answers env"
    unfolding env_answers_def
    using assms agent_envD [OF assms(1)] agent_deployer_answers [OF assms(2)]
    by (auto simp: agent_answers_def split: option.splits)
  from safe_Reconcile [OF this, of k] show ?thesis
    unfolding safe_def by (metis panic_free_simps(5) sum.case(1))
qed

lemma ref_kube_answers: "kube_answers ref_kube"
  by (simp add: kube_answers_def answers_def ref_kube_def lookup_or_def put_status_def Let_def split: option.splits)

lemma ref_agent_answers: "agent_answers (ref_agent ref_bmc)"
  using ref_kube_answers
  by (simp add: agent_answers_def ref_agent_def)
    (simp add: answers_def ref_bmc_def ref_kube_def lookup_or_def put_status_def split: option.splits)

theorem reconcile_never_panics_witness:
  "\<forall>s. fst (Reconcile ref_pass_env (''n'', ''m'') (ref_world (ref_machine Provisioning [] None))) \<noteq> Inl (GoPanic s)"
  by (rule allI, rule reconcile_never_panics [OF ref_agent_env ref_agent_answers])
    (auto simp: ref_env_def ref_libs_def answers_def)

section \<open>Deletion\<close>


lemma ref_server_accepts: "server_accepts ref_kube"
  by (auto simp: server_accepts_def ref_kube_def put_status_def lookup_or_def split: option.splits)

lemma decidedI:
  assumes "kspec (\<lambda>c. \<not> reconciler_call c) (\<lambda>_. True) act"
    and "\<And>w. \<exists>r. fst (act w) = Inr (m, r) \<and> outcome r \<in> {Complete, Failed}"
  shows "decided act m"
  unfolding decided_def using assms unfolding kspec_def by (metis prod.collapse)

lemma dead_bmc_decided: "teardown_decided (AgentDeployer (ref_agent dead_bmc))"
proof -
  let ?a = "ref_agent dead_bmc"
  have dep: "\<exists>r. fst (Deprovision ?a m b w) = Inr (m, r) \<and> outcome r \<in> {Complete, Failed}" for m b w
  proof -
    have "\<exists>n. a_fuel ?a = Suc n" by (simp add: ref_agent_def)
    then obtain n where n: "a_fuel ?a = Suc n" by blast
    show ?thesis
      unfolding Deprovision_def releaseDHCPReservation_def n release_loop.simps
      by (simp add: kio_simps getOpt_def getSubnet_def updateSubnetStatus_def kcall_def ref_agent_def ref_kube_def lookup_or_def isNotFound_def
          split: option.splits prod.splits)
  qed
  have off: "\<exists>r. fst (PowerOff ?a m w) = Inr (m, r) \<and> outcome r \<in> {Complete, Failed}" for m w
    by (auto simp: PowerOff_def connectBMC_def bmcOr_def bmc_def dead_bmc_def kio_simps kcall_def ref_agent_def ref_kube_def
        lookup_or_def Let_def classifyBMCError_def isNetworkUnreachable_def CredentialsFromSecretData_def
        split: option.splits prod.splits sum.splits)
  show ?thesis
    unfolding teardown_decided_def AgentDeployer_def deployer.simps
    using dep off
    by (auto intro!: decidedI kspec_weaken [OF power_specs(1)] kspec_weaken [OF power_specs(2)])
qed


text \<open>
  A Machine in the power-off stage whose BMC cannot be reached
  over the network is never released: the step reports Delayed, which is not counted as a
  failure, so the pass writes at most a status with the same state and error count and leaves the
  finalizer in place, every time.
\<close>

definition bmc_unreachable :: "'s agent \<Rightarrow> bool" where
  "bmc_unreachable a \<longleftrightarrow> (\<forall>x c i s. \<exists>t s'. a_connect a x c i s = (Inl (NetError t), s')) \<and>
     (\<forall>k s. \<exists>x u p s'. k_getSecret (a_kube a) k s = (Inr x, s') \<and> CredentialsFromSecretData (s_data x) = Inr (u, p))"

fun stuck_call :: "Machine \<Rightarrow> call \<Rightarrow> bool" where
  "stuck_call m (ApplyStatus m') \<longleftrightarrow> m_state m' = m_state m \<and> errorCount (m_status m') = errorCount (m_status m)"
| "stuck_call m (UpdateMachine _) \<longleftrightarrow> False"
| "stuck_call m (UpdateSecret _) \<longleftrightarrow> False"
| "stuck_call m _ \<longleftrightarrow> True"

lemma unreachable_PowerOff:
  assumes "bmc_unreachable a"
  shows "kspec (stuck_call m) (\<lambda>r. r = (m, result_of Delayed)) (PowerOff a m)"
proof -
  let ?k = "(m_namespace m, bmc_credentialsSecretRef (ms_bmc (m_spec m)))"
  show ?thesis
    unfolding kspec_def
  proof
    fix w :: "'a world"
    obtain x u p s1 where x: "k_getSecret (a_kube a) ?k (srv w) = (Inr x, s1)"
      "CredentialsFromSecretData (s_data x) = Inr (u, p)"
      using assms unfolding bmc_unreachable_def by blast
    obtain t s2 where t: "a_connect a (bmc_address (ms_bmc (m_spec m))) (u, p)
        (map_of (m_annotations m) MachineAnnotationBMCInsecureSkipVerify = Some ''true'') s1 = (Inl (NetError t), s2)"
      using assms unfolding bmc_unreachable_def by blast
    have "PowerOff a m w = (Inr (m, result_of Delayed), w\<lparr>srv := s2, trace := trace w @
        [(GetSecret ?k, True), (BmcConnect (bmc_address (ms_bmc (m_spec m))), False)]\<rparr>)"
      using x t by (simp add: PowerOff_def connectBMC_def kcall_def kio_simps Let_def classifyBMCError_def
          isNetworkUnreachable_def)
    then show "\<exists>cs. trace (snd (PowerOff a m w)) = trace w @ cs \<and> (\<forall>c\<in>set cs. stuck_call m (fst c)) \<and>
        (\<forall>r. fst (PowerOff a m w) = Inr r \<longrightarrow> r = (m, result_of Delayed))"
      by simp
  qed
qed

theorem unreachable_bmc_blocks_delete:
  assumes "agent_env env a" "bmc_unreachable a" "m_state m = PoweringOff" "m_deletionTimestamp m \<noteq> None" "\<not> isDetached m"
    and "(c, ok) \<in> set (calls_of (reconcileMachine env m) w)"
  shows "(\<forall>m'. c \<noteq> UpdateMachine m') \<and>
    (\<forall>m'. c = ApplyStatus m' \<longrightarrow> m_state m' = PoweringOff \<and> errorCount (m_status m') = errorCount (m_status m))"
proof -
  have step: "kspec (stuck_call m) (\<lambda>r. r = (m, result_of Delayed)) (deployerStep StepPowerOff (d_powerOff (deployer env) m))"
    unfolding deployerStep_def agent_envD(1) [OF assms(1)] AgentDeployer_def deployer.simps
    by (intro kspec_bind [OF kspec_note_call [where R = "\<lambda>_. True"]] unreachable_PowerOff assms) auto
  have "kspec (stuck_call m) (\<lambda>_. True) (reconcileMachine env m)"
    unfolding reconcileMachine_def onDelete_def reconcilePoweringOff_def runDeleteStage_def markDelayed_def
    using assms(3-5)
    by (auto intro!: kspec_ret kspec_bind [OF step] kspec_apply_done simp: machine_upd_defs)
  from kspec_calls [OF this assms(6)] show ?thesis
    using assms(3) by (cases c) auto
qed

definition cut_off_agent :: "store agent" where
  "cut_off_agent = (ref_agent ref_bmc)\<lparr>
     a_connect := (\<lambda>addr creds insecure s. (Inl (NetError ''i/o timeout''), s)),
     a_kube := ref_kube\<lparr>k_getSecret := (\<lambda>k s. (Inr ref_secret, s))\<rparr>\<rparr>"

definition cut_off_env :: "store env" where
  "cut_off_env = (ref_env (AgentDeployer cut_off_agent))\<lparr>kube := a_kube cut_off_agent\<rparr>"

definition applies_status :: "call \<times> bool \<Rightarrow> bool" where
  "applies_status c = (case c of (ApplyStatus m', True) \<Rightarrow> True | _ \<Rightarrow> False)"

lemma applies_statusD: "applies_status c \<Longrightarrow> \<exists>m'. c = (ApplyStatus m', True)"
  by (auto simp: applies_status_def split: prod.splits call.splits bool.splits)

lemma cut_off_writes:
  "\<exists>m'. (ApplyStatus m', True) \<in>
     set (calls_of (reconcileMachine cut_off_env (deleting PoweringOff)) (ref_world (deleting PoweringOff)))"
proof -
  let ?cs = "calls_of (reconcileMachine cut_off_env (deleting PoweringOff)) (ref_world (deleting PoweringOff))"
  have "?cs \<noteq> []" "applies_status (last ?cs)"
    by code_simp+
  then show ?thesis
    using applies_statusD last_in_set by metis
qed

theorem unreachable_bmc_blocks_delete_witness:
  "\<exists>m'. (ApplyStatus m', True) \<in>
       set (calls_of (reconcileMachine cut_off_env (deleting PoweringOff)) (ref_world (deleting PoweringOff))) \<and>
     m_state m' = PoweringOff \<and> errorCount (m_status m') = errorCount (m_status (deleting PoweringOff))"
proof -
  have "agent_env cut_off_env cut_off_agent"
    by (simp add: agent_env_def cut_off_env_def ref_env_def cut_off_agent_def ref_agent_def)
  moreover have "CredentialsFromSecretData (s_data ref_secret) = Inr (''u'', ''p'')"
    by code_simp
  then have "bmc_unreachable cut_off_agent"
    by (simp add: bmc_unreachable_def cut_off_agent_def)
  moreover have "m_state (deleting PoweringOff) = PoweringOff" "m_deletionTimestamp (deleting PoweringOff) \<noteq> None"
    "\<not> isDetached (deleting PoweringOff)"
    by code_simp+
  ultimately show ?thesis
    using unreachable_bmc_blocks_delete cut_off_writes by blast
qed

text \<open>
  The last act of a deletion keeps the order of the two
  finalizers: the Machine's is dropped only after the credentials secret was read, and when that
  secret still carries the controller's finalizer, only after the update that removes it
  succeeded; if that update fails the Machine keeps its finalizer.
\<close>

theorem secret_released_before_machine:
  assumes "finalizer_laws (lib env)" "bmc_credentialsSecretRef (ms_bmc (m_spec m)) \<noteq> ''''"
    and "k_getSecret (kube env) (m_namespace m, bmc_credentialsSecretRef (ms_bmc (m_spec m))) (srv w) = (Inr x, s1)"
    and "MachineCredentialsSecretFinalizer \<in> set (s_finalizers x)"
    and "k_updateSecret (kube env) (x\<lparr>s_finalizers := filter (\<lambda>g. g \<noteq> MachineCredentialsSecretFinalizer) (s_finalizers x)\<rparr>) s1 = (r, s2)"
  shows "\<exists>ok. calls_of (releaseMachine env m) w =
    [(GetSecret (m_namespace m, bmc_credentialsSecretRef (ms_bmc (m_spec m))), True),
     (UpdateSecret (x\<lparr>s_finalizers := filter (\<lambda>g. g \<noteq> MachineCredentialsSecretFinalizer) (s_finalizers x)\<rparr>), \<not> isl r)] @
    (if isl r then []
     else [(UpdateMachine (m\<lparr>m_finalizers := filter (\<lambda>g. g \<noteq> MachineFinalizer) (m_finalizers m)\<rparr>), ok)])"
proof -
  have rm: "removeFinalizer (lib env) fs f = (f \<in> set fs, filter (\<lambda>g. g \<noteq> f) fs)" for fs f
    using assms(1) by (simp add: finalizer_laws_def)
  show ?thesis
    using assms(2-5)
    by (cases r)
      (auto simp: calls_of_def releaseMachine_def releaseCredentialsSecretFinalizer_def getOpt_def kcall_def kio_simps
         rm Let_def split: prod.splits sum.splits)
qed

theorem secret_released_before_machine_witness:
  "\<exists>ok. calls_of (releaseMachine ref_pass_env (deleting PoweringOff)) (ref_world (deleting PoweringOff)) =
    [(GetSecret (''n'', ''c''), True), (UpdateSecret (ref_secret\<lparr>s_finalizers := []\<rparr>), True),
     (UpdateMachine ((deleting PoweringOff)\<lparr>m_finalizers := []\<rparr>), ok)]"
proof -
  have "lookup_or [((''n'', ''c''), ref_secret)] (''n'', ''c'') (ref_store (deleting PoweringOff)) =
      (Inr ref_secret, ref_store (deleting PoweringOff))"
    by (simp add: lookup_or_def)
  then show ?thesis
    using secret_released_before_machine [of ref_pass_env "deleting PoweringOff" "ref_world (deleting PoweringOff)"
        ref_secret "ref_store (deleting PoweringOff)"] ref_finalizer_laws
    by (simp add: ref_kube_def deleting_def ref_machine_def ref_world_def ref_store_def ref_secret_def
        MachineCredentialsSecretFinalizer_def MachineFinalizer_def)
qed

section \<open>Dead ends and holds of the forward walk\<close>

text \<open>
  A Machine that reached Released stays there with an error: every
  pass over it without a re-inspect, clear-error or reboot annotation makes no request and returns
  an "unknown status.state" error, also when a new claim is bound to it.
\<close>

theorem released_machine_is_stuck:
  assumes "m_state m = Released" "m_deletionTimestamp m = None" "active m"
    and "containsFinalizer (lib env) (m_finalizers m) MachineFinalizer"
    and "operationalStatus (m_status m) = OpOK" "\<not> retryHeld env m"
    and "\<not> fst (rebootRequested env m)" "\<not> reInspectRequested m" "\<not> clearErrorRequested m"
  shows "reconcileMachine env m w = (Inl (PlainError (''unknown status.state '' @ go_quote ''Released'')), w)"
  using assms
  by (auto simp: reconcileMachine_def onChange_def active_def hasUnknownErrorType_def releaseEligible_def kio_simps
      split: prod.splits)

definition released_machine :: Machine where
  "released_machine = upd_status (\<lambda>st. st\<lparr>operationalStatus := OpOK\<rparr>) ((ref_machine Released [] None)\<lparr>m_spec :=
     (m_spec (ref_machine Released [] None))\<lparr>ms_claimRef := Some \<lparr>cr_name = ''k'', cr_namespace = ''n'', cr_uid = ''x''\<rparr>\<rparr>\<rparr>)"

theorem released_machine_is_stuck_witness:
  "reconcileMachine ref_pass_env released_machine (ref_world released_machine) =
     (Inl (PlainError (''unknown status.state '' @ go_quote ''Released'')), ref_world released_machine)"
proof (rule released_machine_is_stuck)
  show "m_state released_machine = Released" "m_deletionTimestamp released_machine = None" "active released_machine"
    "containsFinalizer (lib ref_pass_env) (m_finalizers released_machine) MachineFinalizer"
    "operationalStatus (m_status released_machine) = OpOK" "\<not> retryHeld ref_pass_env released_machine"
    "\<not> fst (rebootRequested ref_pass_env released_machine)" "\<not> reInspectRequested released_machine"
    "\<not> clearErrorRequested released_machine"
    by code_simp+
qed

text \<open>
  When the status of a Machine was lost (it is empty and was never
  stamped) while its claim still carries a deploy payload and a DeployRun of the Machine is still
  listed, the pass does not enrol it: after the two reads it enters the status-loss hold and does
  nothing else.
\<close>

theorem status_loss_is_held:
  assumes "m_state m = StateEmpty" "lastUpdated (m_status m) = None" "\<not> statusLossHeld env m"
    and "ms_claimRef (m_spec m) = Some ref"
    and "k_getClaim (kube env) (cr_namespace ref, cr_name ref) (srv w) = (Inr claim, s1)" "cl_uid claim = cr_uid ref"
    and "\<not> isEmptyDeployPayload (Some claim)"
    and "k_listRuns (kube env) (m_namespace m) s1 = (Inr runs, s2)"
    and "\<exists>r\<in>set runs. nr_name (rs_machineRef (r_spec r)) = m_name m"
  shows "reconcileEmptyStatus env m w =
    enterStatusLossHold env m \<lparr>srv = s2, trace = trace w @
      [(GetClaim (cr_namespace ref, cr_name ref), True), (ListRuns (m_namespace m), True)]\<rparr>"
  using assms
  by (cases w) (simp add: reconcileEmptyStatus_def resolveClaimIntent_def hasPriorDeployRuns_def getOpt_def kcall_def kio_simps)

definition lost_machine :: Machine where
  "lost_machine = (ref_machine StateEmpty [] None)\<lparr>m_spec :=
     (m_spec (ref_machine StateEmpty [] None))\<lparr>ms_claimRef := Some \<lparr>cr_name = ''k'', cr_namespace = ''n'', cr_uid = ''x''\<rparr>\<rparr>\<rparr>"

definition lost_world :: "store world" where
  "lost_world = \<lparr>srv = (ref_store lost_machine)\<lparr>st_claims := [((''n'', ''k''), ref_claim None)],
     st_runs := [((''n'', ''m-1''), newRun lost_machine (ref_claim None))]\<rparr>, trace = []\<rparr>"

theorem status_loss_is_held_witness:
  "reconcileEmptyStatus ref_pass_env lost_machine lost_world =
     enterStatusLossHold ref_pass_env lost_machine
       (lost_world\<lparr>trace := [(GetClaim (''n'', ''k''), True), (ListRuns ''n'', True)]\<rparr>)"
proof -
  have "\<not> statusLossHeld ref_pass_env lost_machine" "\<not> isEmptyDeployPayload (Some (ref_claim None))"
    by code_simp+
  then show ?thesis
    using status_loss_is_held [of lost_machine ref_pass_env "\<lparr>cr_name = ''k'', cr_namespace = ''n'', cr_uid = ''x''\<rparr>"
        lost_world "ref_claim None" "srv lost_world" "[newRun lost_machine (ref_claim None)]" "srv lost_world"]
    by (simp add: lost_machine_def ref_machine_def ref_status_def ref_claim_def lost_world_def ref_kube_def lookup_or_def
        ref_store_def newRun_def)
qed

section \<open>The provisioning trigger\<close>

text \<open>
  A DeployRun created for a claim satisfies the trigger: with that
  run as the last successful one and the hooks hash it carries, the same claim does not ask for
  another deployment (the claim's dataImages is not the empty non-nil list).
\<close>

theorem created_run_satisfies_intent:
  assumes "owner_laws (lib env)" "\<forall>r s r' s'. k_createRun (kube env) r s = (Inr r', s') \<longrightarrow> r_spec r' = r_spec r"
    and "createDeployRun env m (Some c) w = (Inr run, w')" "cs_dataImages (cl_spec c) \<noteq> Some []"
  shows "\<not> shouldProvision (Some c) (Some run) (rs_hooksHash (r_spec run))"
proof -
  have "kspec (\<lambda>_. True) (\<lambda>r. rs_imageRef (r_spec r) = cs_imageRef (cl_spec c) \<and>
      rs_dataImages (r_spec r) = clone_slice (cs_dataImages (cl_spec c))) (createDeployRun env m (Some c))"
    (is "kspec _ ?R _")
  proof -
    have "kspec (\<lambda>_. True) ?R (case setControllerReference (lib env) m r of
        Inl e \<Rightarrow> raise (Wrapped ctx e) | Inr run' \<Rightarrow> kcall (CreateRun run') (k_createRun (kube env) run'))"
      if "?R r" for r ctx
    proof (cases "setControllerReference (lib env) m r")
      case (Inr r')
      then have "r_spec r' = r_spec r"
        using assms(1) by (simp add: owner_laws_def)
      then show ?thesis
        using Inr that assms(2) by (simp, intro kspec_kcall) (simp, metis)
    qed (simp add: kspec_raise)
    note create = this
    show ?thesis
      unfolding createDeployRun_def option.case
      by (rule kspec_bind [where Q = ?R])
        (auto split: option.splits intro!: kspec_ret kspec_bind [OF kspec_kcall [where R = "\<lambda>_. True"]] create
          simp: newRun_def ApplySnapshot_def)
  qed
  from kspec_runD(2) [OF this assms(3)] have "?R run" by blast
  then show ?thesis
    using clone_slice_id [OF assms(4)]
    by (auto simp: shouldProvision_def intentSubsetEqual_def nameRefEqual_def split: option.splits)
qed

lemma ref_create:
  "\<exists>run w'. createDeployRun ref_pass_env lost_machine (Some (ref_claim None)) lost_world = (Inr run, w') \<and> rs_hooksHash (r_spec run) = ''h''"
  by (simp add: createDeployRun_def ref_env_def kcall_def kio_simps ref_libs_def ref_kube_def ApplySnapshot_def Let_def)

theorem created_run_satisfies_intent_witness:
  "\<exists>run w'. createDeployRun ref_pass_env lost_machine (Some (ref_claim None)) lost_world = (Inr run, w') \<and>
     \<not> shouldProvision (Some (ref_claim None)) (Some run) ''h''"
proof -
  obtain run w' where "createDeployRun ref_pass_env lost_machine (Some (ref_claim None)) lost_world = (Inr run, w')"
    "rs_hooksHash (r_spec run) = ''h''"
    using ref_create by blast
  moreover have "owner_laws (lib ref_pass_env)"
    "\<forall>r s r' s'. k_createRun (kube ref_pass_env) r s = (Inr r', s') \<longrightarrow> r_spec r' = r_spec r"
    using ref_owner_laws by (auto simp: ref_kube_def Let_def)
  moreover have "cs_dataImages (cl_spec (ref_claim None)) \<noteq> Some []"
    by (simp add: ref_claim_def)
  ultimately show ?thesis
    using created_run_satisfies_intent by metis
qed

text \<open>
  A claim whose dataImages is the empty non-nil list asks for a new
  deployment whatever run it last completed and whatever the hooks hash: the run always stores the
  nil list, which the trigger's deep comparison tells apart.
\<close>

theorem empty_data_images_redeploy:
  assumes "cs_imageRef (cl_spec c) \<noteq> None" "cs_dataImages (cl_spec c) = Some []"
  shows "shouldProvision (Some c) (Some (newRun m c)) hash \<and>
    (\<forall>snap. shouldProvision (Some c) (Some (ApplySnapshot (newRun m c) snap)) hash)"
  using assms
  by (simp add: shouldProvision_def isEmptyDeployPayload_def intentSubsetEqual_def newRun_def ApplySnapshot_def
      clone_slice_def elems_def)

theorem empty_data_images_redeploy_witness:
  "shouldProvision (Some (ref_claim (Some []))) (Some (newRun lost_machine (ref_claim (Some [])))) ''h''"
  using empty_data_images_redeploy [of "ref_claim (Some [])" lost_machine "''h''"] by (simp add: ref_claim_def)

section \<open>Annotations and watches\<close>

text \<open>
  What a Machine's annotations ask for does not depend on the order of
  the map: a reboot is requested when some reboot key is present, and it is hard exactly when some
  reboot key decodes to the hard mode; a value that does not decode still asks for a soft reboot.
\<close>

theorem reboot_request_hard_wins:
  "rebootRequested env m =
     (\<exists>(k, v)\<in>set (m_annotations m). isRebootAnnotationKey k,
      \<exists>(k, v)\<in>set (m_annotations m). isRebootAnnotationKey k \<and> parseRebootAnnotation env v = Inr ''hard'')"
  by (simp add: rebootRequested_def reboot_scan_spec)

text \<open>
  FinalizerSetsEqual compares two finalizer lists as multisets:
  it is insensitive to order and sensitive to repetition.
\<close>

lemma count_up_spec: "count_up xs c f = c f + int (count (mset xs) f)"
  by (induction xs arbitrary: c) auto

lemma count_down_spec: "count_down xs c f = c f - int (count (mset xs) f)"
  by (induction xs arbitrary: c) auto

theorem finalizer_sets_equal_multiset: "finalizerSetsEqual a b \<longleftrightarrow> mset a = mset b"
proof -
  have "finalizerSetsEqual a b \<longleftrightarrow> length a = length b \<and> (\<forall>f\<in>set a \<union> set b. count (mset a) f = count (mset b) f)"
    by (auto simp: finalizerSetsEqual_def count_up_spec count_down_spec list_all_iff)
  also have "\<dots> \<longleftrightarrow> mset a = mset b"
  proof
    assume *: "length a = length b \<and> (\<forall>f\<in>set a \<union> set b. count (mset a) f = count (mset b) f)"
    show "mset a = mset b"
    proof (rule multiset_eqI)
      fix f
      show "count (mset a) f = count (mset b) f"
        using * by (cases "f \<in> set a \<union> set b") (simp, metis UnI1 UnI2 not_in_iff set_mset_mset)
    qed
  qed (metis size_mset)
  finally show ?thesis .
qed

end
