(* ===== verification/Agent_Properties.thy ===== *)
theory Agent_Properties
  imports Reference_World
begin

text \<open>
  The properties of the agent deployer: what must be persisted before a machine is powered, what
  a failed boot leaves behind, when a token is minted, and how a run's phase is classified.
\<close>

section \<open>Order of requests\<close>

text \<open>\<open>marked Q cs\<close>: no BMC action, or none before a successful patch of a Machine satisfying \<open>Q\<close>.\<close>

definition marked :: "(Machine \<Rightarrow> bool) \<Rightarrow> trace \<Rightarrow> bool" where
  "marked Q cs \<longleftrightarrow> (\<forall>c\<in>set cs. no_bmc (fst c)) \<or>
     (\<exists>pre m' post. cs = pre @ (PatchMachine m', True) # post \<and> (\<forall>c\<in>set pre. no_bmc (fst c)) \<and> Q m')"

definition kmarked :: "(Machine \<Rightarrow> bool) \<Rightarrow> ('s, 'a) act \<Rightarrow> bool" where
  "kmarked Q act \<longleftrightarrow> (\<forall>w. \<exists>cs. trace (snd (act w)) = trace w @ cs \<and> marked Q cs)"

lemma kmarked_quiet: "kspec no_bmc R act \<Longrightarrow> kmarked Q act"
  unfolding kspec_def kmarked_def marked_def by (metis (no_types, lifting))

lemma kmarked_ret: "kmarked Q (ret x)" and kmarked_raise: "kmarked Q (raise e)"
  by (auto intro: kmarked_quiet kspec_ret kspec_raise)

lemma marked_prefix: "\<forall>c\<in>set pre. no_bmc (fst c) \<Longrightarrow> marked Q cs \<Longrightarrow> marked Q (pre @ cs)"
  unfolding marked_def
proof (elim disjE exE conjE)
  fix p m' post
  assume "\<forall>c\<in>set pre. no_bmc (fst c)" "cs = p @ (PatchMachine m', True) # post" "\<forall>c\<in>set p. no_bmc (fst c)" "Q m'"
  then have "pre @ cs = (pre @ p) @ (PatchMachine m', True) # post \<and> (\<forall>c\<in>set (pre @ p). no_bmc (fst c)) \<and> Q m'"
    by auto
  then show "(\<forall>c\<in>set (pre @ cs). no_bmc (fst c)) \<or> (\<exists>p m' post. pre @ cs = p @ (PatchMachine m', True) # post \<and>
      (\<forall>c\<in>set p. no_bmc (fst c)) \<and> Q m')"
    by blast
qed auto

lemma kmarked_bind:
  assumes "kspec no_bmc R act" "\<And>x. R x \<Longrightarrow> kmarked Q (f x)"
  shows "kmarked Q (bindK act f)"
  unfolding kmarked_def
proof
  fix w
  obtain r w1 where run: "act w = (r, w1)" by fastforce
  from kspec_runD [OF assms(1) run] obtain cs where cs: "trace w1 = trace w @ cs" "\<forall>c\<in>set cs. no_bmc (fst c)"
    and R: "\<And>x. r = Inr x \<Longrightarrow> R x"
    by blast
  show "\<exists>cs. trace (snd (bindK act f w)) = trace w @ cs \<and> marked Q cs"
  proof (cases r)
    case (Inl e)
    then show ?thesis using run cs by (auto simp: bindK_run marked_def)
  next
    case (Inr x)
    with assms(2) [OF R] obtain ds where "trace (snd (f x w1)) = trace w1 @ ds" "marked Q ds"
      unfolding kmarked_def by blast
    then show ?thesis
      using Inr run cs by (auto simp: bindK_run intro!: exI [of _ "cs @ ds"] marked_prefix)
  qed
qed

text \<open>Once the marker is stored, anything may follow.\<close>

lemma kmarked_patch:
  assumes "Q m1" "\<And>x. kspec (\<lambda>_. True) (\<lambda>_. True) (f x)"
  shows "kmarked Q (bindK (patchBy a ctx m1) f)"
  unfolding kmarked_def
proof
  fix w :: "'b world"
  obtain r s1 where r: "k_patchMachine (a_kube a) m1 (srv w) = (r, s1)" by fastforce
  show "\<exists>cs. trace (snd (bindK (patchBy a ctx m1) f w)) = trace w @ cs \<and> marked Q cs"
  proof (cases r)
    case (Inl e)
    with r show ?thesis
      by (auto simp: patchBy_def kcall_def kio_simps marked_def no_bmc_def)
  next
    case (Inr x)
    let ?w1 = "w\<lparr>srv := s1, trace := trace w @ [(PatchMachine m1, True)]\<rparr>"
    obtain ds where "trace (snd (f x ?w1)) = trace ?w1 @ ds"
      using assms(2) unfolding kspec_def by blast
    then show ?thesis
      using r Inr assms(1)
      by (intro exI [of _ "(PatchMachine m1, True) # ds"])
        (fastforce simp: patchBy_def kcall_def kio_simps marked_def)
  qed
qed

lemma any_calls: "kspec P R act \<Longrightarrow> kspec (\<lambda>_. True) (\<lambda>_. True) act"
  by (erule kspec_weaken) simp_all

lemma connect_marked:
  assumes "\<And>r. kmarked Q (f r)"
  shows "kmarked Q (bindK (attempt (connectBMC a m)) f)"
  by (rule kmarked_bind [OF kspec_attempt [OF nb.connectBMC_spec]]) (rule assms)

lemma arm_marked:
  assumes arm: "\<And>m1 (f :: Machine \<Rightarrow> ('s, Machine \<times> Result) act).
      (\<And>x. kspec (\<lambda>_. True) (\<lambda>_. True) (f x)) \<Longrightarrow> kmarked Q (bindK (arm m1) f)"
    and disarm: "\<And>m1. kspec (\<lambda>_. True) (\<lambda>_. True) (disarm m1)"
  shows "kmarked Q (armAndPowerOn (a :: 's agent) arm disarm m force)"
proof -
  have tail: "kspec (\<lambda>_. True) (\<lambda>_. True) (bindK (powerOnForNetBoot a addr) (\<lambda>r. case r of
        Some result \<Rightarrow> bindK (disarm m2) (\<lambda>m3. ret (m3, result)) | None \<Rightarrow> ret (m2, result_of Continuing)))" for addr m2
    by (rule kspec_bind [OF any_calls [OF powerOnForNetBoot_spec]])
      (auto split: option.splits intro!: kspec_ret kspec_bind [OF disarm])
  show ?thesis
    unfolding armAndPowerOn_def
    by (intro connect_marked)
      (auto split: sum.splits option.splits
        intro!: kmarked_ret kmarked_bind [OF nb.reserveAndAwaitDHCP_spec] kmarked_bind [OF nb.issueBootToken_spec] arm tail)
qed

lemma Inspect_marked:
  "kmarked (\<lambda>m'. hasAnnotation m' agentDeployerPXEArmedAnnotation) (Inspect a m restart)"
proof -
  have arm: "kmarked (\<lambda>m'. hasAnnotation m' agentDeployerPXEArmedAnnotation) (armPXEAndPowerOn a m restart)" for restart
    unfolding armPXEAndPowerOn_def
    by (rule arm_marked)
      (auto simp: armPXE_def hasAnnotation_def putAnnotation_def intro!: kmarked_patch any_calls [OF dc.marker_specs(2) [OF kept_refl]])
  have hw: "kspec no_bmc (\<lambda>_. True) (wrapK ctx (getOpt (kcall (GetHardware k) (k_getHardware (a_kube a) k))))" for ctx k
    by (intro kspec_wrap kspec_read nb.soft_calls)
  have finish: "kspec no_bmc (\<lambda>_. True)
      (bindK (disarmPXE a m) (\<lambda>m1. bindK (releaseDHCPReservation a m1) (\<lambda>_. ret (m1, result_of Complete))))"
    by (intro kspec_bind [OF nb.marker_specs(2) [OF kept_refl]] kspec_bind [OF nb.releaseDHCPReservation_spec] kspec_ret TrueI)
  show ?thesis
    unfolding Inspect_def pollAgentRegistration_def Let_def
    by (auto split: option.splits intro!: arm kmarked_bind [OF hw] kmarked_ret kmarked_quiet [OF finish])
qed

lemma Provision_marked:
  "kmarked (\<lambda>m'. hasAnnotation m' agentDeployerProvisionBootAnnotation) (Provision a m run restart)"
proof -
  let ?Q = "\<lambda>m'. hasAnnotation m' agentDeployerProvisionBootAnnotation"
  have arm: "kmarked ?Q (armProvisionBootAndPowerOn a m restart)" for restart
    unfolding armProvisionBootAndPowerOn_def
    by (rule arm_marked)
      (auto simp: armProvisionBoot_def hasAnnotation_def putAnnotation_def
        intro!: kmarked_patch any_calls [OF dc.marker_specs(4) [OF kept_refl]])
  have claim: "kspec no_bmc (\<lambda>_. True) (agentResolveClaimIntent a m)"
    unfolding agentResolveClaimIntent_def
    by (auto split: option.splits intro!: kspec_ret kspec_bind [OF kspec_read])
  have plan: "kspec no_bmc (\<lambda>_. True) (attempt (kcall BuildPlan op))" for op :: "'a \<Rightarrow> (kerr + snapshot) \<times> 'a"
    by (rule kspec_weaken [OF kspec_attempt [OF kspec_kcall [where R = "\<lambda>_. True" and P = no_bmc]]]) auto
  have commit: "kspec no_bmc (\<lambda>_. True) (commitProvisionPending a m r)" for r
    unfolding commitProvisionPending_def Let_def
    by (auto split: option.splits sum.splits
        intro!: kspec_ret kspec_raise kspec_bind [OF kspec_wrap [OF claim]] kspec_bind [OF plan]
          kspec_bind [OF kspec_wrap [OF kspec_kcall [where R = "\<lambda>_. True"]]])
  have disarm: "kspec no_bmc (\<lambda>_. True) (bindK (disarmProvisionBoot a m) (\<lambda>m1. ret (m1, x)))" for x :: Result
    by (intro kspec_bind [OF nb.marker_specs(4) [OF kept_refl]] kspec_ret TrueI)
  have release: "kspec no_bmc (\<lambda>_. True) (bindK (releaseDHCPReservation a m) (\<lambda>_. ret (m, result_of Complete)))"
    by (intro kspec_bind [OF nb.releaseDHCPReservation_spec] kspec_ret TrueI)
  have reset: "kspec no_bmc (\<lambda>_. True) (resetProvisionAttempt a run)"
    unfolding resetProvisionAttempt_def Let_def by (intro kspec_wrap kspec_kcall nb.soft_calls TrueI)
  have go: "kmarked ?Q (if phase (r_status r) = PhaseEmpty then startProvision a m r restart else provisionResultFromPhase a m r)" for r
    unfolding startProvision_def pollAgentBoot_def provisionResultFromPhase_def
    by (auto split: option.splits DeployRunPhase.splits
        intro!: arm kmarked_ret kmarked_bind [OF commit] kmarked_quiet [OF disarm] kmarked_quiet [OF release])
  show ?thesis
    unfolding Provision_def
    by (rule kmarked_bind [where R = "\<lambda>_. True", OF _ go]) (auto intro!: reset kspec_ret)
qed

lemma kmarked_before:
  assumes "kmarked Q act" "i < length (calls_of act w)" "calls_of act w ! i = (BmcCall x, ok)"
  shows "\<exists>j<i. \<exists>m'. calls_of act w ! j = (PatchMachine m', True) \<and> Q m'"
proof -
  obtain cs where cs: "calls_of act w = cs" "marked Q cs"
    using assms(1) unfolding kmarked_def calls_of_def by (metis append_eq_conv_conj)
  have "\<not> (\<forall>c\<in>set cs. no_bmc (fst c))"
    using assms(2,3) cs(1) by (metis fst_conv no_bmc_def nth_mem)
  then obtain pre m' post where split: "cs = pre @ (PatchMachine m', True) # post"
    "\<forall>c\<in>set pre. no_bmc (fst c)" "Q m'"
    using cs(2) unfolding marked_def by blast
  have "\<not> i < length pre"
    using assms(3) cs(1) split by (metis fst_conv no_bmc_def nth_append nth_mem)
  moreover have "i \<noteq> length pre"
    using assms(3) cs(1) split by auto
  ultimately show ?thesis
    using split cs(1) by (intro exI [of _ "length pre"]) auto
qed

section \<open>What precedes a power action\<close>

text \<open>
  C8: a net boot is recorded before the machine is touched: in every run of
  Inspect and of Provision, each BMC action (boot override, power query, power on or cycle) comes
  after a patch of the Machine that stored the step's boot marker and succeeded.
\<close>

theorem power_only_after_marker:
  "(\<forall>i<length (calls_of (Inspect a m restart) w). \<forall>x ok. calls_of (Inspect a m restart) w ! i = (BmcCall x, ok) \<longrightarrow>
      (\<exists>j<i. \<exists>m'. calls_of (Inspect a m restart) w ! j = (PatchMachine m', True) \<and>
         hasAnnotation m' agentDeployerPXEArmedAnnotation)) \<and>
   (\<forall>i<length (calls_of (Provision a m run restart) w). \<forall>x ok. calls_of (Provision a m run restart) w ! i = (BmcCall x, ok) \<longrightarrow>
      (\<exists>j<i. \<exists>m'. calls_of (Provision a m run restart) w ! j = (PatchMachine m', True) \<and>
         hasAnnotation m' agentDeployerProvisionBootAnnotation))"
  using kmarked_before [OF Inspect_marked] kmarked_before [OF Provision_marked] by blast

definition plain_agent :: "store agent" where
  "plain_agent = (ref_agent ref_bmc)\<lparr>a_tokens := None, a_formatTime := \<lambda>_. ''t''\<rparr>"

lemma ref_inspect_calls:
  "let cs = calls_of (Inspect plain_agent (ref_machine Inspecting [] None) False) (ref_world (ref_machine Inspecting [] None))
   in length cs = 7 \<and> cs ! 6 = (BmcCall BmcPowerOn, True)"
  by code_simp

theorem power_only_after_marker_witness:
  "\<exists>j<6. \<exists>m'. calls_of (Inspect plain_agent (ref_machine Inspecting [] None) False) (ref_world (ref_machine Inspecting [] None)) ! j =
      (PatchMachine m', True) \<and> hasAnnotation m' agentDeployerPXEArmedAnnotation"
proof -
  have "6 < length (calls_of (Inspect plain_agent (ref_machine Inspecting [] None) False) (ref_world (ref_machine Inspecting [] None)))"
    "calls_of (Inspect plain_agent (ref_machine Inspecting [] None) False) (ref_world (ref_machine Inspecting [] None)) ! 6 =
      (BmcCall BmcPowerOn, True)"
    using ref_inspect_calls by (simp_all add: Let_def)
  then show ?thesis
    using power_only_after_marker [of plain_agent "ref_machine Inspecting [] None" False "ref_world (ref_machine Inspecting [] None)"]
    by blast
qed

section \<open>What a boot attempt leaves behind\<close>

text \<open>
  After arming a net boot the marker tells what happened: Continuing
  means the returned Machine carries the marker; any other result means it does not, unless the
  attempt ended before the marker was written and the Machine is the one handed in. So a boot that
  failed is armed again by the next attempt, and one under way is polled.
\<close>

definition patch_keeps_annotations :: "'s kube \<Rightarrow> bool" where
  "patch_keeps_annotations K \<longleftrightarrow>
     (\<forall>m s m' s'. k_patchMachine K m s = (Inr m', s') \<longrightarrow> m_annotations m' = m_annotations m)"

lemma marker_value:
  assumes arm: "\<And>m1. kspec (\<lambda>_. True) (\<lambda>m2. hasAnnotation m2 k) (arm m1)"
    and disarm: "\<And>m1. kspec (\<lambda>_. True) (\<lambda>m2. \<not> hasAnnotation m2 k) (disarm m1)"
  shows "kspec (\<lambda>_. True) (\<lambda>(m', r). (outcome r = Continuing \<longrightarrow> hasAnnotation m' k) \<and>
      (outcome r \<noteq> Continuing \<longrightarrow> hasAnnotation m' k \<longrightarrow> m' = m)) (armAndPowerOn a arm disarm m force)"
    (is "kspec _ ?R _")
proof -
  have classified: "outcome (classifyBMCError e) \<noteq> Continuing" for e
    by (simp add: classifyBMCError_def)
  have power: "kspec (\<lambda>_. True) (\<lambda>r. \<forall>x. r = Some x \<longrightarrow> outcome x \<noteq> Continuing) (powerOnForNetBoot a addr)" for addr
    unfolding powerOnForNetBoot_def
    by (auto split: sum.splits simp: classified intro!: kspec_ret kspec_bind [OF any_calls [OF kspec_bmc]])
  have gate: "kspec (\<lambda>_. True) (\<lambda>r. \<forall>x. r = Some x \<longrightarrow> outcome x \<noteq> Continuing) (reserveAndAwaitDHCP a m)"
  proof -
    have opt: "kspec (\<lambda>_. True) (\<lambda>_. True) (wrapK ctx (getOpt (getSubnet a k)))" for ctx k
      by (intro kspec_wrap any_calls [OF dc.getSubnet_opt])
    have reserve: "kspec (\<lambda>_. True) (\<lambda>_. True) (reserveOnSubnet a k n mac)" for k n mac
      unfolding reserveOnSubnet_def
      by (intro kspec_bind [OF kspec_wrap [OF any_calls [OF dc.subnet_specs(1)]]] any_calls [OF dc.reserve_loop_spec])
    show ?thesis
      unfolding reserveAndAwaitDHCP_def recordDHCPPoolExhausted_def
      by (auto split: option.splits prod.splits
          intro!: kspec_ret kspec_bind [OF opt] kspec_bind [OF reserve] kspec_bind [OF any_calls [OF dc.exhausted_loop_spec]]
            kspec_bind [OF kspec_note_call [where R = "\<lambda>_. True"]])
  qed
  have off: "kspec (\<lambda>_. True) ?R (bindK (disarm m2) (\<lambda>m3. ret (m3, x)))" if "outcome x \<noteq> Continuing" for m2 x
    using that by (intro kspec_bind [OF disarm] kspec_ret) auto
  show ?thesis
    unfolding armAndPowerOn_def
    by (rule kspec_bind [OF any_calls [OF kspec_attempt [OF dc.connectBMC_spec]]])
      (auto split: sum.splits option.splits simp: classified
        intro!: kspec_ret kspec_bind [OF gate] kspec_bind [OF any_calls [OF dc.issueBootToken_spec]]
          kspec_bind [OF arm] kspec_bind [OF power] off)
qed

lemma marker_ops:
  assumes "patch_keeps_annotations (a_kube a)"
  shows "kspec (\<lambda>_. True) (\<lambda>m2. hasAnnotation m2 agentDeployerPXEArmedAnnotation) (armPXE a m1)"
    "kspec (\<lambda>_. True) (\<lambda>m2. \<not> hasAnnotation m2 agentDeployerPXEArmedAnnotation) (disarmPXE a m1)"
    "kspec (\<lambda>_. True) (\<lambda>m2. hasAnnotation m2 agentDeployerProvisionBootAnnotation) (armProvisionBoot a m1)"
    "kspec (\<lambda>_. True) (\<lambda>m2. \<not> hasAnnotation m2 agentDeployerProvisionBootAnnotation) (disarmProvisionBoot a m1)"
proof -
  have patch: "kspec (\<lambda>_. True) (\<lambda>m2. m_annotations m2 = m_annotations m3) (patchBy a ctx m3)" for ctx m3
    unfolding patchBy_def using assms
    by (intro kspec_wrap kspec_kcall) (auto simp: patch_keeps_annotations_def)
  have weak: "kspec (\<lambda>_. True) Q (patchBy a ctx m3)" if "\<And>m2. m_annotations m2 = m_annotations m3 \<Longrightarrow> Q m2" for Q ctx m3
    by (rule kspec_weaken [OF patch]) (use that in auto)
  show "kspec (\<lambda>_. True) (\<lambda>m2. hasAnnotation m2 agentDeployerPXEArmedAnnotation) (armPXE a m1)"
    "kspec (\<lambda>_. True) (\<lambda>m2. \<not> hasAnnotation m2 agentDeployerPXEArmedAnnotation) (disarmPXE a m1)"
    "kspec (\<lambda>_. True) (\<lambda>m2. hasAnnotation m2 agentDeployerProvisionBootAnnotation) (armProvisionBoot a m1)"
    "kspec (\<lambda>_. True) (\<lambda>m2. \<not> hasAnnotation m2 agentDeployerProvisionBootAnnotation) (disarmProvisionBoot a m1)"
    unfolding armPXE_def disarmPXE_def armProvisionBoot_def disarmProvisionBoot_def
    by (auto intro!: weak kspec_ret simp: hasAnnotation_def putAnnotation_def dropAnnotation_def)
qed

theorem marker_tells_boot_armed:
  assumes "patch_keeps_annotations (a_kube a)" "armPXEAndPowerOn a m force w = (Inr (m', r), w')"
  shows "(outcome r = Continuing \<longrightarrow> hasAnnotation m' agentDeployerPXEArmedAnnotation) \<and>
    (outcome r \<noteq> Continuing \<longrightarrow> hasAnnotation m' agentDeployerPXEArmedAnnotation \<longrightarrow> m' = m)"
  using kspec_runD(2) [OF marker_value [OF marker_ops(1,2) [OF assms(1)]] assms(2) [unfolded armPXEAndPowerOn_def], of "(m', r)"]
  by simp

definition broken_agent :: "store agent" where
  "broken_agent = plain_agent\<lparr>a_bmc := dead_bmc\<rparr>"

lemma broken_arm:
  "let r = fst (armPXEAndPowerOn broken_agent (ref_machine Inspecting [] None) False (ref_world (ref_machine Inspecting [] None)))
   in case r of Inr (m', x) \<Rightarrow> outcome x = Failed \<and> m_annotations m' = [] | Inl _ \<Rightarrow> False"
  by code_simp

theorem marker_tells_boot_armed_witness:
  "\<exists>m' r w'. armPXEAndPowerOn broken_agent (ref_machine Inspecting [] None) False (ref_world (ref_machine Inspecting [] None)) =
      (Inr (m', r), w') \<and> outcome r = Failed \<and> (\<not> hasAnnotation m' agentDeployerPXEArmedAnnotation \<or> m' = ref_machine Inspecting [] None)"
proof -
  obtain m' r w' where run: "armPXEAndPowerOn broken_agent (ref_machine Inspecting [] None) False (ref_world (ref_machine Inspecting [] None)) =
      (Inr (m', r), w')" "outcome r = Failed"
    using broken_arm by (cases "armPXEAndPowerOn broken_agent (ref_machine Inspecting [] None) False (ref_world (ref_machine Inspecting [] None))")
      (auto simp: Let_def split: sum.splits)
  have "patch_keeps_annotations (a_kube broken_agent)"
    by (simp add: patch_keeps_annotations_def broken_agent_def plain_agent_def ref_agent_def ref_kube_def)
  from marker_tells_boot_armed [OF this run(1)] run show ?thesis
    by auto
qed

section \<open>The boot token\<close>

fun token_call :: "'s agent \<Rightarrow> Machine \<Rightarrow> string \<Rightarrow> call \<Rightarrow> bool" where
  "token_call a m tok (WriteSecret s) \<longleftrightarrow> s_name s = BootTokenSecretName (m_name m) \<and> map_of (s_data s) ''token'' = Some tok"
| "token_call a m tok (UpdateMachineStatus m') \<longleftrightarrow>
     netBoot (m_status m') = Some \<lparr>nb_tokenHash = hashToken (a_sha a) tok, nb_expiresAt = Some (a_now a + tokenTTL a m)\<rparr>"
| "token_call a m tok _ \<longleftrightarrow> True"

lemma retryStatus_token:
  assumes "m_status m1 = desired" "netBoot desired = Some \<lparr>nb_tokenHash = hashToken (a_sha a) tok, nb_expiresAt = Some (a_now a + tokenTTL a m)\<rparr>"
  shows "kspec (token_call a m tok) (\<lambda>_. True) (retryStatus a desired n first m1)"
proof (induction n arbitrary: first)
  case 0
  show ?case by (simp add: kspec_raise)
next
  case (Suc n)
  have once: "kspec (token_call a m tok) (\<lambda>_. True) (bindK
        (if first then ret m1
         else bindK (kcall (GetMachine (m_key m1)) (k_getMachine (a_kube a) (m_key m1)))
                (\<lambda>g. ret (g\<lparr>m_status := desired\<rparr>)))
        (\<lambda>x. kcall (UpdateMachineStatus x) (k_updateMachineStatus (a_kube a) x)))" for first
    by (rule kspec_bind [where Q = "\<lambda>x. m_status x = desired"])
      (use assms in \<open>auto intro!: kspec_ret kspec_bind [OF kspec_kcall [where R = "\<lambda>_. True"]] kspec_kcall\<close>)
  show ?case
    unfolding retryStatus.simps
    by (rule kspec_bind [OF kspec_attempt [OF once]])
      (auto split: sum.splits intro!: kspec_ret kspec_raise Suc)
qed

text \<open>
  A boot token is persisted consistently: within one issue, the
  secret holds a token and every status update carries the digest of that same token, expiring
  after the token's lifetime, which is never shorter than the Machine's boot timeout; also across
  the retries on a conflict.
\<close>

theorem token_secret_matches_status:
  "(\<exists>tok. \<forall>(c, ok)\<in>set (calls_of (issueBootToken a m force) w). token_call a m tok c) \<and>
   (\<forall>d. ms_bootTimeout (m_spec m) = Some d \<longrightarrow> d \<le> tokenTTL a m)"
proof -
  have rest: "kspec (token_call a m tok) (\<lambda>_. True)
      (bindK (writeBootTokenSecret a m mac tok (nb_expiresAt status)) (\<lambda>_.
         wrapK ctx (updateMachineStatusRetryOnConflict a (upd_status (netBoot_update (\<lambda>_. Some status)) m))))"
    if "status = \<lparr>nb_tokenHash = hashToken (a_sha a) tok, nb_expiresAt = Some (a_now a + tokenTTL a m)\<rparr>" for tok status mac ctx
    unfolding writeBootTokenSecret_def updateMachineStatusRetryOnConflict_def Let_def bindK_assoc
    by (intro kspec_bind [OF kspec_wrap [OF kspec_kcall [where R = "\<lambda>_. True"]]])
      (auto simp: that intro!: kspec_wrap retryStatus_token)
  have "\<exists>tok cs. trace (snd (issueBootToken a m force w)) = trace w @ cs \<and> (\<forall>c\<in>set cs. token_call a m tok (fst c))"
  proof (cases "issueBootToken a m force = ret m")
    case True
    then show ?thesis by (simp add: ret_run)
  next
    case False
    then obtain ts mac where ts: "a_tokens a = Some ts" "NormalizeMAC (ms_bootMACAddress (m_spec m)) = Some mac"
      and mint: "\<not> (\<not> force \<and> (case netBoot (m_status m) of None \<Rightarrow> False | Some nb \<Rightarrow> nb_tokenHash nb \<noteq> '''') \<and> \<not> bootTokenExpired a m)"
      unfolding issueBootToken_def by (auto split: option.splits if_splits)
    obtain r s1 where r: "issueToken a ts mac (tokenTTL a m) (srv w) = (r, s1)" by fastforce
    show ?thesis
    proof (cases r)
      case (Inl e)
      then show ?thesis
        using ts mint r by (auto simp: issueBootToken_def kcall_def kio_simps)
    next
      case (Inr x)
      obtain tok status where x: "x = (tok, status)" by fastforce
      have "status = \<lparr>nb_tokenHash = hashToken (a_sha a) tok, nb_expiresAt = Some (a_now a + tokenTTL a m)\<rparr>"
        using r Inr x by (auto simp: issueToken_def Issue_def mintToken_def split: prod.splits sum.splits)
      note spec = rest [OF this, of mac "''agent deployer: persisting boot token hash''"]
      let ?w1 = "w\<lparr>srv := s1, trace := trace w @ [(MintToken mac, True)]\<rparr>"
      obtain cs where "trace (snd (bindK (writeBootTokenSecret a m mac tok (nb_expiresAt status)) (\<lambda>_.
           wrapK ''agent deployer: persisting boot token hash''
             (updateMachineStatusRetryOnConflict a (upd_status (netBoot_update (\<lambda>_. Some status)) m))) ?w1)) = trace ?w1 @ cs"
        "\<forall>c\<in>set cs. token_call a m tok (fst c)"
        using spec unfolding kspec_def by blast
      then show ?thesis
        using ts mint r Inr x
        by (intro exI [of _ tok] exI [of _ "(MintToken mac, True) # cs"]) (auto simp: issueBootToken_def kcall_def kio_simps)
    qed
  qed
  then show ?thesis
    by (fastforce simp: calls_of_def tokenTTL_def Let_def)
qed

definition token_agent :: "store agent" where
  "token_agent = (ref_agent ref_bmc)\<lparr>a_formatTime := \<lambda>_. ''t''\<rparr>"

definition token_machine :: Machine where
  "token_machine = upd_status (\<lambda>st. st\<lparr>netBoot := Some \<lparr>nb_tokenHash = ''h'', nb_expiresAt = Some 2000\<rparr>\<rparr>)
     (ref_machine Inspecting [] None)"

lemma token_calls:
  "map snd (calls_of (issueBootToken token_agent (ref_machine Inspecting [] None) True) (ref_world (ref_machine Inspecting [] None))) =
     [True, True, True]"
  by code_simp

theorem token_secret_matches_status_witness:
  "\<exists>tok. \<forall>(c, ok)\<in>set (calls_of (issueBootToken token_agent (ref_machine Inspecting [] None) True)
     (ref_world (ref_machine Inspecting [] None))). token_call token_agent (ref_machine Inspecting [] None) tok c"
  using token_secret_matches_status [of token_agent "ref_machine Inspecting [] None" True] by blast

text \<open>
  Without a forced refresh, a Machine whose token is recorded and not
  expired keeps it: nothing is minted, written or updated.
\<close>

theorem live_token_is_reused:
  assumes "netBoot (m_status m) = Some nb" "nb_tokenHash nb \<noteq> ''''" "nb_expiresAt nb = Some t" "a_now a < t"
  shows "issueBootToken a m False w = (Inr m, w)"
  using assms by (auto simp: issueBootToken_def bootTokenExpired_def kio_simps split: option.splits)

theorem live_token_is_reused_witness:
  "issueBootToken token_agent token_machine False (ref_world token_machine) = (Inr token_machine, ref_world token_machine)"
  by (rule live_token_is_reused [where nb = "\<lparr>nb_tokenHash = ''h'', nb_expiresAt = Some 2000\<rparr>" and t = 2000])
    (simp_all add: token_agent_def ref_agent_def token_machine_def)

section \<open>Provisioning\<close>

text \<open>
  While a run is under way (a phase between Pending and
  Finalizing, or one the code does not know), Provision makes no request and reports Continuing,
  except when the last progress (or, without any, the start of the last phase) is older than thirty
  minutes: then it reports a Restart failure.
\<close>

theorem running_phase_classification:
  assumes "phase (r_status run) \<notin> {PhaseEmpty, PhaseSucceeded, PhaseFailed}"
    and "since = (case lastProgressAt (r_status run) of Some t \<Rightarrow> Some t
       | None \<Rightarrow> if phaseTimings (r_status run) = [] then None else Some (pt_startedAt (List.last (phaseTimings (r_status run)))))"
  shows "\<exists>r. Provision a m run False w = (Inr (m, r), w) \<and>
    (if (case since of None \<Rightarrow> False | Some t \<Rightarrow> a_now a - t > 30 * 60 * 1000000000)
     then outcome r = Failed \<and> res_errorType r = Restart else r = result_of Continuing)"
proof (intro exI conjI)
  show "Provision a m run False w = (Inr (m, provisionStallResult a run), w)"
    using assms(1)
    by (cases "phase (r_status run)") (simp_all add: Provision_def provisionResultFromPhase_def kio_simps)
  show "if (case since of None \<Rightarrow> False | Some t \<Rightarrow> a_now a - t > 30 * 60 * 1000000000)
      then outcome (provisionStallResult a run) = Failed \<and> res_errorType (provisionStallResult a run) = Restart
      else provisionStallResult a run = result_of Continuing"
    unfolding provisionStallResult_def Let_def assms(2) [symmetric]
    by (cases since) (simp_all add: agentDeployerProvisionStallDeadline_def second_def)
qed

definition stalled_run :: DeployRun where
  "stalled_run = \<lparr>r_name = ''r'', r_generateName = ''m-'', r_namespace = ''n'', r_uid = ''v'', r_generation = 1,
     r_deletionTimestamp = None, r_controllerOwner = None,
     r_spec = \<lparr>rs_machineRef = \<lparr>nr_namespace = '''', nr_name = ''m''\<rparr>, rs_claimRef = None, rs_imageRef = None,
       rs_dataImages = None, rs_resolvedDisks = [], rs_hooksHash = ''''\<rparr>,
     r_status = \<lparr>phase = PhaseWritingContent, partitions = [], phaseTimings = [],
       lastProgressAt = Some (- 30 * 60 * 1000000000), r_conditions = []\<rparr>\<rparr>"

theorem running_phase_classification_witness:
  "\<exists>r. Provision plain_agent (ref_machine Provisioning [] None) stalled_run False (ref_world (ref_machine Provisioning [] None)) =
      (Inr (ref_machine Provisioning [] None, r), ref_world (ref_machine Provisioning [] None)) \<and> outcome r = Failed \<and> res_errorType r = Restart"
  using running_phase_classification [of stalled_run _ plain_agent "ref_machine Provisioning [] None" "ref_world (ref_machine Provisioning [] None)", OF _ refl]
  by (simp add: stalled_run_def plain_agent_def ref_agent_def)

text \<open>
  On a restart over a run that already has a phase, the first request
  is the status update that clears the run (phase, progress, timings and conditions); if that
  update fails, Provision fails with it and makes no other request.
\<close>

definition cleared :: "DeployRun \<Rightarrow> DeployRun" where
  "cleared run = run\<lparr>r_status := \<lparr>phase = PhaseEmpty, partitions = [], phaseTimings = [], lastProgressAt = None, r_conditions = []\<rparr>\<rparr>"

theorem restart_resets_run_first:
  assumes "phase (r_status run) \<noteq> PhaseEmpty" "k_updateRunStatus (a_kube a) (cleared run) (srv w) = (r, s1)"
    and "\<forall>e. r = Inl e \<longrightarrow> \<not> is_abort e"
  shows "case r of
      Inl e \<Rightarrow> Provision a m run True w = (Inl (Wrapped ''agent deployer: resetting DeployRun for restart'' e),
        w\<lparr>srv := s1, trace := trace w @ [(UpdateRunStatus (cleared run), False)]\<rparr>)
    | Inr run1 \<Rightarrow> Provision a m run True w =
        (if phase (r_status run1) = PhaseEmpty then startProvision a m run1 True else provisionResultFromPhase a m run1)
          (w\<lparr>srv := s1, trace := trace w @ [(UpdateRunStatus (cleared run), True)]\<rparr>)"
  using assms
  by (auto simp: Provision_def resetProvisionAttempt_def cleared_def kcall_def kio_simps Let_def split: sum.splits)

theorem restart_resets_run_first_witness:
  "Provision plain_agent (ref_machine Provisioning [] None) stalled_run True (ref_world (ref_machine Provisioning [] None)) =
   startProvision plain_agent (ref_machine Provisioning [] None) (cleared stalled_run) True
     ((ref_world (ref_machine Provisioning [] None))\<lparr>srv := (ref_store (ref_machine Provisioning [] None))\<lparr>st_runs := [((''n'', ''r''), cleared stalled_run)]\<rparr>,
        trace := [(UpdateRunStatus (cleared stalled_run), True)]\<rparr>)"
  using restart_resets_run_first [of stalled_run plain_agent "ref_world (ref_machine Provisioning [] None)" "Inr (cleared stalled_run)"
      "(ref_store (ref_machine Provisioning [] None))\<lparr>st_runs := [((''n'', ''r''), cleared stalled_run)]\<rparr>" "ref_machine Provisioning [] None"]
  by (simp add: stalled_run_def plain_agent_def ref_agent_def ref_kube_def cleared_def ref_world_def ref_store_def)

section \<open>DHCP reservation loops\<close>

text \<open>
  C40: the three unbounded retry loops on the Subnet end whenever conflicts do:
  if some measure of the server never grows over a read and shrinks with every conflicting write,
  then fuel above its value is enough, and none of the loops runs out of it.
\<close>

definition conflicts_end :: "'s kube \<Rightarrow> ('s \<Rightarrow> nat) \<Rightarrow> bool" where
  "conflicts_end K mu \<longleftrightarrow>
     (\<forall>k s r s'. k_getSubnet K k s = (r, s') \<longrightarrow> mu s' \<le> mu s \<and> (\<forall>e. r = Inl e \<longrightarrow> \<not> is_abort e)) \<and>
     (\<forall>x s e s'. k_updateSubnetStatus K x s = (Inl e, s') \<longrightarrow> \<not> is_abort e \<and> (isConflict e \<longrightarrow> mu s' < mu s))"

lemma getSubnet_run:
  assumes "conflicts_end (a_kube a) mu"
  obtains r w1 where "getSubnet a k w = (r, w1)" "mu (srv w1) \<le> mu (srv w)" "\<forall>e. r = Inl e \<longrightarrow> \<not> is_abort e"
proof -
  obtain r s1 where "k_getSubnet (a_kube a) k (srv w) = (r, s1)" by fastforce
  then show thesis
    using assms that by (auto simp: conflicts_end_def getSubnet_def kcall_def simp del: split_paired_All)
qed

lemma updateSubnet_run:
  assumes "conflicts_end (a_kube a) mu"
  obtains r w1 where "updateSubnetStatus a sn w = (r, w1)" "\<forall>e. r = Inl e \<longrightarrow> \<not> is_abort e \<and> (isConflict e \<longrightarrow> mu (srv w1) < mu (srv w))"
proof -
  obtain r s1 where r: "k_updateSubnetStatus (a_kube a) sn (srv w) = (r, s1)" by fastforce
  show thesis
  proof (rule that)
    show "updateSubnetStatus a sn w = (r, w\<lparr>srv := s1, trace := trace w @ [(UpdateSubnetStatus sn, \<not> isl r)]\<rparr>)"
      using r by (simp add: updateSubnetStatus_def kcall_def)
    show "\<forall>e. r = Inl e \<longrightarrow> \<not> is_abort e \<and> (isConflict e \<longrightarrow>
        mu (srv (w\<lparr>srv := s1, trace := trace w @ [(UpdateSubnetStatus sn, \<not> isl r)]\<rparr>)) < mu (srv w))"
    proof (intro allI impI)
      fix e
      assume "r = Inl e"
      with r have "k_updateSubnetStatus (a_kube a) sn (srv w) = (Inl e, s1)" by simp
      with assms show "\<not> is_abort e \<and> (isConflict e \<longrightarrow>
          mu (srv (w\<lparr>srv := s1, trace := trace w @ [(UpdateSubnetStatus sn, \<not> isl r)]\<rparr>)) < mu (srv w))"
        unfolding conflicts_end_def by simp
    qed
  qed
qed

lemma reserve_loop_ends:
  assumes "conflicts_end (a_kube a) mu"
  shows "mu (srv w) < n \<Longrightarrow> fst (reserve_loop a n k mn mac cur w) \<noteq> Inl Diverged"
proof (induction n arbitrary: cur w)
  case (Suc n)
  show ?case
  proof (cases "\<exists>addr sn. Reserve (a_sha a) cur mn mac (a_now a) = Inr (addr, True, sn)")
    case False
    then show ?thesis
      by (auto simp: kio_simps split: sum.splits reserve_error.splits prod.splits)
  next
    case True
    then obtain addr sn where reserve: "Reserve (a_sha a) cur mn mac (a_now a) = Inr (addr, True, sn)" by blast
    obtain r w1 where upd: "updateSubnetStatus a sn w = (r, w1)"
      "\<forall>e. r = Inl e \<longrightarrow> \<not> is_abort e \<and> (isConflict e \<longrightarrow> mu (srv w1) < mu (srv w))"
      by (rule updateSubnet_run [OF assms])
    obtain g w2 where get: "getSubnet a k w1 = (g, w2)" "mu (srv w2) \<le> mu (srv w1)" "\<forall>e. g = Inl e \<longrightarrow> \<not> is_abort e"
      by (rule getSubnet_run [OF assms])
    have again: "isConflict e \<Longrightarrow> r = Inl e \<Longrightarrow> fst (reserve_loop a n k mn mac sn' w2) \<noteq> Inl Diverged" for e sn'
      using upd(2) get(2) Suc.prems by (intro Suc.IH) auto
    show ?thesis
      using upd get again
      by (cases r; cases g) (auto simp: reserve kio_simps)
  qed
qed simp

lemma exhausted_loop_ends:
  assumes "conflicts_end (a_kube a) mu"
  shows "mu (srv w) < n \<Longrightarrow> fst (exhausted_loop a n k w) \<noteq> Inl Diverged"
proof (induction n arbitrary: w)
  case (Suc n)
  obtain g w1 where get: "getSubnet a k w = (g, w1)" "mu (srv w1) \<le> mu (srv w)" "\<forall>e. g = Inl e \<longrightarrow> \<not> is_abort e"
    by (rule getSubnet_run [OF assms])
  show ?case
  proof (cases g)
    case (Inl e)
    then show ?thesis using get by (auto simp: kio_simps)
  next
    case (Inr sn)
    let ?sn = "sn\<lparr>sn_conditions := setStatusCondition (a_lib a) (sn_conditions sn)
           \<lparr>c_type = SubnetConditionDHCPPoolExhausted, c_status = CondTrue,
            c_observedGeneration = sn_generation sn, c_reason = ''DHCPPoolExhausted'',
            c_message = ''the lease-mode DHCP address pool has no free address left for a new reservation''\<rparr>\<rparr>"
    obtain r w2 where upd: "updateSubnetStatus a ?sn w1 = (r, w2)"
      "\<forall>e. r = Inl e \<longrightarrow> \<not> is_abort e \<and> (isConflict e \<longrightarrow> mu (srv w2) < mu (srv w1))"
      by (rule updateSubnet_run [OF assms])
    have "isConflict e \<Longrightarrow> r = Inl e \<Longrightarrow> fst (exhausted_loop a n k w2) \<noteq> Inl Diverged" for e
      using upd(2) get(2) Suc.prems by (intro Suc.IH) auto
    then show ?thesis
      using upd get Inr by (cases r) (auto simp: kio_simps)
  qed
qed simp

lemma release_loop_ends:
  assumes "conflicts_end (a_kube a) mu"
  shows "mu (srv w) < n \<Longrightarrow> fst (release_loop a n k mn w) \<noteq> Inl Diverged"
proof (induction n arbitrary: w)
  case (Suc n)
  obtain g w1 where get: "getSubnet a k w = (g, w1)" "mu (srv w1) \<le> mu (srv w)" "\<forall>e. g = Inl e \<longrightarrow> \<not> is_abort e"
    by (rule getSubnet_run [OF assms])
  show ?case
  proof (cases g)
    case (Inl e)
    then show ?thesis using get by (auto simp: kio_simps getOpt_def)
  next
    case (Inr sn)
    obtain changed sn' where rel: "Release (a_sha a) sn mn = (changed, sn')" by fastforce
    obtain r w2 where upd: "updateSubnetStatus a sn' w1 = (r, w2)"
      "\<forall>e. r = Inl e \<longrightarrow> \<not> is_abort e \<and> (isConflict e \<longrightarrow> mu (srv w2) < mu (srv w1))"
      by (rule updateSubnet_run [OF assms])
    have "isConflict e \<Longrightarrow> r = Inl e \<Longrightarrow> fst (release_loop a n k mn w2) \<noteq> Inl Diverged" for e
      using upd(2) get(2) Suc.prems by (intro Suc.IH) auto
    then show ?thesis
      using upd get Inr rel by (cases r) (auto simp: kio_simps getOpt_def)
  qed
qed simp



text \<open>
  The Subnet with which a reservation ends is one whose table holds an
  entry of the machine, after any number of conflicts, as long as a successful status update
  answers with the table it was sent.
\<close>

definition table_echo :: "'s kube \<Rightarrow> bool" where
  "table_echo K \<longleftrightarrow> (\<forall>x s x' s'. k_updateSubnetStatus K x s = (Inr x', s') \<longrightarrow> table_of x' = table_of x)"

lemma Reserve_holds:
  assumes "Reserve sha sn mn mac t = Inr (addr, changed, sn')"
  shows "\<exists>r\<in>set (table_of sn'). res_machine r = mn \<and> res_address r = addr"
proof (cases "find (\<lambda>r. res_machine r = mn) (table_of sn)")
  case None
  with assms show ?thesis
    by (auto simp: Reserve_def put_table_def table_of_def split: sum.splits option.splits prod.splits)
next
  case (Some r)
  then have "r \<in> set (table_of sn)" "res_machine r = mn"
    by (auto simp: find_Some_iff)
  with Some assms show ?thesis
    by (auto simp: Reserve_def)
qed

definition holds_entry :: "string \<Rightarrow> Subnet \<Rightarrow> bool" where
  "holds_entry mn sn \<longleftrightarrow> (\<exists>r\<in>set (table_of sn). res_machine r = mn)"

lemma reserve_loop_value:
  assumes "table_echo (a_kube a)"
  shows "kspec (\<lambda>_. True) (\<lambda>(sn, exhausted). \<not> exhausted \<longrightarrow> holds_entry mn sn) (reserve_loop a n k mn mac cur)"
proof (induction n arbitrary: cur)
  case 0
  show ?case by (simp add: kspec_raise)
next
  case (Suc n)
  have upd: "kspec (\<lambda>_. True) (\<lambda>r. \<forall>x. r = Inr x \<longrightarrow> holds_entry mn x) (attempt (updateSubnetStatus a sn))"
    if "holds_entry mn sn" for sn
  proof -
    have "holds_entry mn x" if "k_updateSubnetStatus (a_kube a) sn s = (Inr x, s')" for s x s'
    proof -
      have "table_of x = table_of sn"
        using assms that unfolding table_echo_def by blast
      then show ?thesis using \<open>holds_entry mn sn\<close> by (simp add: holds_entry_def)
    qed
    then show ?thesis
      unfolding updateSubnetStatus_def by (intro kspec_attempt kspec_kcall) auto
  qed
  show ?case
  proof (cases "Reserve (a_sha a) cur mn mac (a_now a)")
    case (Inl e)
    then show ?thesis by (cases e) (auto intro!: kspec_ret kspec_raise)
  next
    case (Inr x)
    obtain addr changed sn where x: "x = (addr, changed, sn)" by (cases x)
    from Reserve_holds [OF Inr [unfolded x]] have holds: "holds_entry mn sn"
      unfolding holds_entry_def by blast
    show ?thesis
      unfolding reserve_loop.simps
      using Inr x holds
      by (auto split: sum.splits intro!: kspec_ret kspec_raise kspec_bind [OF upd]
          kspec_bind [OF kspec_wrap [OF any_calls [OF dc.subnet_specs(1)]]] Suc)
  qed
qed

theorem reservation_is_held:
  assumes "table_echo (a_kube a)" "reserve_loop a n k mn mac cur w = (Inr (sn, False), w')"
  shows "\<exists>r\<in>set (table_of sn). res_machine r = mn"
  using kspec_runD(2) [OF reserve_loop_value [OF assms(1)] assms(2), of "(sn, False)"] by (simp add: holds_entry_def)

definition lease_subnet :: Subnet where
  "lease_subnet = ref_subnet\<lparr>sn_dhcp := Some \<lparr>sd_mode = ModeLease, sd_leaseRangeStart = '''', sd_leaseRangeEnd = '''', sd_gateway = None, sd_leaseTime = None\<rparr>,
     sn_dhcpStatus := Some \<lparr>reservations = [\<lparr>res_address = ''10.0.0.2'', res_machine = ''m'', res_mac = ''x'', res_since = 0\<rparr>],
       revision = ''v'', appliedRevision = ''v''\<rparr>\<rparr>"

theorem reservation_is_held_witness:
  "\<exists>r\<in>set (table_of lease_subnet). res_machine r = ''m''"
proof (rule reservation_is_held)
  show "table_echo (a_kube plain_agent)"
    by (simp add: table_echo_def plain_agent_def ref_agent_def ref_kube_def)
  show "reserve_loop plain_agent 1 (''n'', ''s'') ''m'' ''x'' lease_subnet (ref_world (ref_machine Provisioning [] None)) =
      (Inr (lease_subnet, False), ref_world (ref_machine Provisioning [] None))"
    by (simp add: Reserve_def table_of_def lease_subnet_def kio_simps)
qed

end
