(* ===== verification/Token_Properties.thy ===== *)
theory Token_Properties
  imports Token_Store
begin

text \<open>The properties of the token hand-off and of MAC addresses.\<close>

lemma hex_encode_eq_Nil: "hex_encode s = '''' \<longleftrightarrow> s = ''''"
  by (cases s) (simp_all add: hex_encode_def)

text \<open>
  A token is handed out exactly under the hash the status records:
  after an issue, a lookup with that hash finds the token, a lookup with any other hash finds
  nothing for that machine (so a re-issue invalidates the previous token), other machines are
  untouched, and restoring the recorded pair into an empty store answers the same way.
\<close>

theorem issued_token_is_handed_out:
  assumes "Issue sha r mac t ttl st = Inr (tok, nb, st')" "sha tok \<noteq> ''''"
  shows "nb_tokenHash nb = hashToken sha tok \<and>
    (\<forall>h. Lookup st' mac h = (if h = nb_tokenHash nb then Some tok else None)) \<and>
    (\<forall>mac' h. mac' \<noteq> mac \<longrightarrow> Lookup st' mac' h = Lookup st mac' h) \<and>
    (\<forall>h. Lookup (Restore mac tok (nb_tokenHash nb) NewTokenStore) mac h = Lookup st' mac h)"
proof -
  have hash: "nb_tokenHash nb = hashToken sha tok"
    using assms(1) by (auto simp: Issue_def mintToken_def split: sum.splits)
  moreover have "nb_tokenHash nb \<noteq> ''''"
    using assms(2) by (simp add: hash hashToken_def hex_encode_eq_Nil)
  ultimately show ?thesis
    using ts.lookup_issue [OF assms(1)] ts.restart_equivalent [OF assms(1)] by auto
qed

theorem issued_token_is_handed_out_witness:
  "\<exists>tok nb st'. Issue (\<lambda>x. x) (Inr ''k'') ''02:00:00:00:00:ab'' 0 10 NewTokenStore = Inr (tok, nb, st') \<and>
     Lookup st' ''02:00:00:00:00:ab'' (nb_tokenHash nb) = Some tok"
proof -
  have issue: "Issue (\<lambda>x. x) (Inr ''k'') ''02:00:00:00:00:ab'' 0 10 NewTokenStore =
      Inr (hex_encode ''k'', \<lparr>nb_tokenHash = hashToken (\<lambda>x. x) (hex_encode ''k''), nb_expiresAt = Some 10\<rparr>,
        NewTokenStore(''02:00:00:00:00:ab'' \<mapsto> \<lparr>te_token = hex_encode ''k'', te_hash = hashToken (\<lambda>x. x) (hex_encode ''k'')\<rparr>))"
    by (simp add: Issue_def mintToken_def)
  have "hex_encode ''k'' \<noteq> ''''"
    by (simp add: hex_encode_eq_Nil)
  note found = issued_token_is_handed_out [OF issue this]
  show ?thesis
    by (intro exI conjI, rule issue) (use found in simp)
qed

section \<open>MAC addresses\<close>

lemma lower_char_hex: "is_hex c \<Longrightarrow> is_hex (lower_char c)"
  by (auto simp: is_hex_def lower_char_def Let_def)

lemma lower_char_idem [simp]: "lower_char (lower_char c) = lower_char c"
  by (auto simp: lower_char_def Let_def)

lemma mac_groups_lower: "mac_groups n s \<Longrightarrow> mac_groups n (map lower_char s)"
proof (induction n s rule: mac_groups.induct)
  case (2 n a b c s)
  have "lower_char (CHR '':'') = CHR '':''" by (simp add: lower_char_def)
  with 2 show ?case by (auto simp: lower_char_hex)
qed (auto simp: lower_char_hex)

lemma mac_groups_length: "mac_groups n s \<Longrightarrow> length s = 3 * n + 2"
  by (induction n s rule: mac_groups.induct) auto

text \<open>
  A normalised MAC address is canonical: seventeen characters, all in
  lower case, and normalising it again gives it back; two spellings that differ only in case
  normalise to the same string.
\<close>

theorem normalize_mac_canonical:
  assumes "NormalizeMAC s = Some t"
  shows "length t = 17 \<and> NormalizeMAC t = Some t \<and> (\<forall>c\<in>set t. lower_char c = c) \<and>
    (\<forall>s'. mac_groups 5 s' \<and> map lower_char s' = map lower_char s \<longrightarrow> NormalizeMAC s' = Some t)"
proof -
  have s: "mac_groups 5 s" "t = map lower_char s"
    using assms by (auto simp: NormalizeMAC_def split: if_splits)
  then show ?thesis
    using mac_groups_lower [OF s(1)] mac_groups_length [OF s(1)] by (auto simp: NormalizeMAC_def)
qed

theorem normalize_mac_canonical_witness:
  "NormalizeMAC ''02:AB:cd:00:00:01'' = Some ''02:ab:cd:00:00:01'' \<and> NormalizeMAC ''02:ab:cd:00:00:01'' = Some ''02:ab:cd:00:00:01''"
proof -
  have "NormalizeMAC ''02:AB:cd:00:00:01'' = Some ''02:ab:cd:00:00:01''" by code_simp
  with normalize_mac_canonical [OF this] show ?thesis by blast
qed

end
