(* ===== verification/Subnet_Properties.thy ===== *)
theory Subnet_Properties
  imports Subnet_Dhcp
begin

text \<open>
  The properties of the DHCP reservation table: dotted quads round-trip, the search for a free
  address finds the lowest one, and the table keeps its invariant (one entry per machine, one
  machine per address, inside the lease range and off the reserved addresses).
\<close>

section \<open>Dotted quads\<close>

lemma show_nat_small: "n < 10 \<Longrightarrow> show_nat n = [digit_char n]"
  by (simp add: show_nat.simps)

lemma show_nat_two: "10 \<le> n \<Longrightarrow> n < 100 \<Longrightarrow> show_nat n = [digit_char (n div 10), digit_char (n mod 10)]"
  by (subst show_nat.simps) (simp add: show_nat_small)

lemma show_nat_three:
  assumes "100 \<le> n" "n < 1000"
  shows "show_nat n = [digit_char (n div 100), digit_char (n div 10 mod 10), digit_char (n mod 10)]"
proof -
  have "10 \<le> n div 10" "n div 10 < 100" "n div 10 div 10 = n div 100"
    using assms by (auto simp: div_mult2_eq [symmetric])
  then show ?thesis
    using assms by (subst show_nat.simps) (simp add: show_nat_two)
qed

lemma digit_char_code: "d < 10 \<Longrightarrow> (of_char (digit_char d) :: nat) = 48 + d"
  by (simp add: digit_char_def)

lemma digit_char_digit [simp]: "d < 10 \<Longrightarrow> is_digit (digit_char d)"
  by (simp add: is_digit_def digit_char_code)

lemma digit_char_dot [simp]: "d < 10 \<Longrightarrow> digit_char d \<noteq> CHR ''.''"
  using digit_char_code by fastforce

lemma digit_char_zero: "d < 10 \<Longrightarrow> digit_char d = CHR ''0'' \<longleftrightarrow> d = 0"
proof -
  assume "d < 10"
  moreover have "(of_char (CHR ''0'') :: nat) = 48" by simp
  ultimately show ?thesis
    using digit_char_code [of d] by (metis add.right_neutral add_left_cancel of_char_eq_iff)
qed

text \<open>The three widths an octet is rendered in.\<close>

lemma octet_cases:
  assumes "n < (256 :: nat)"
  obtains "n < 10" | "10 \<le> n" "n < 100" | "100 \<le> n" "n < 1000"
  using assms by linarith

lemma three_digits: "100 * (n div 100) + 10 * (n div 10 mod 10) + n mod 10 = (n :: nat)"
proof -
  have "n div 100 = n div 10 div 10" by (simp add: div_mult2_eq [symmetric])
  then have "100 * (n div 100) + 10 * (n div 10 mod 10) = 10 * (n div 10)"
    using mult_div_mod_eq [of 10 "n div 10"] by linarith
  then show ?thesis
    using mult_div_mod_eq [of 10 n] by linarith
qed

lemma parse_octet_show:
  assumes "n < 256"
  shows "parse_octet (show_nat n) = Some n"
  using assms
proof (cases rule: octet_cases)
  case 3
  then show ?thesis
    using assms three_digits [of n]
    by (auto simp: parse_octet_def parse_nat_def show_nat_three digit_char_code digit_char_zero)
qed (auto simp: parse_octet_def parse_nat_def show_nat_small show_nat_two digit_char_code digit_char_zero)

lemma show_octet_no_dot: "n < 256 \<Longrightarrow> CHR ''.'' \<notin> set (show_nat n)"
  by (erule octet_cases) (auto simp: show_nat_small show_nat_two show_nat_three dest!: sym [of "CHR ''.''"])

lemma split_on_append: "c \<notin> set xs \<Longrightarrow> split_on c (xs @ c # ys) = xs # split_on c ys"
  by (induction xs) (auto split: list.splits)

lemma split_on_none: "c \<notin> set xs \<Longrightarrow> split_on c xs = [xs]"
  by (induction xs) auto

lemma octet_less: "octet i v < 256"
  by (simp add: octet_def)

lemma octets_recompose:
  "((octet 3 v * 256 + octet 2 v) * 256 + octet 1 v) * 256 + octet 0 v = unat v"
proof -
  have "unat v < 256 * 16777216" using unsigned_less [of v] by simp
  then have top: "octet 3 v = unat v div 16777216"
    by (simp add: octet_def less_mult_imp_div_less)
  have "unat v div 65536 div 256 = unat v div 16777216" "unat v div 256 div 256 = unat v div 65536"
    by (simp_all add: div_mult2_eq [symmetric])
  then have "octet 3 v * 256 + octet 2 v = unat v div 65536" "unat v div 65536 * 256 + octet 1 v = unat v div 256"
    using div_mult_mod_eq [of "unat v div 65536" 256] div_mult_mod_eq [of "unat v div 256" 256]
    by (simp_all add: top) (simp_all add: octet_def)
  then show ?thesis
    using div_mult_mod_eq [of "unat v" 256] by (simp add: octet_def)
qed

lemma parse_ip_string: "parseIP4 (ip_string v) = Some v"
proof -
  have nodot: "CHR ''.'' \<notin> set (show_nat (octet i v))" for i
    by (rule show_octet_no_dot [OF octet_less])
  have "split_on (CHR ''.'') (ip_string v) =
      [show_nat (octet 3 v), show_nat (octet 2 v), show_nat (octet 1 v), show_nat (octet 0 v)]"
    by (simp add: ip_string_def split_on_append nodot split_on_none)
  then show ?thesis
    by (simp add: parseIP4_def parse_octet_show octet_less octets_recompose [simplified] del: of_nat_add of_nat_mult)
qed

lemma ip_string_inj: "ip_string a = ip_string b \<Longrightarrow> a = b"
  using parse_ip_string by (metis option.inject)

text \<open>
  The rendering of an address parses back to it, for each of the 2^32 addresses,
  and two addresses have the same text only if they are equal.
\<close>

theorem ip_round_trip: "parseIP4 (ip_string v) = Some v \<and> (ip_string v = ip_string u \<longleftrightarrow> v = u)"
  using parse_ip_string ip_string_inj by blast

section \<open>The search for a free address\<close>

lemma word_between_step:
  fixes v e u :: ip4
  assumes "v \<le> e" "v \<noteq> e" "v \<le> u" "u \<noteq> v"
  shows "v + 1 \<le> u"
proof -
  have "unat (v + 1) = Suc (unat v)"
    using word_step_up assms(1,2) .
  moreover have "unat v < unat u"
    using assms(3,4) by (metis order_le_less word_less_nat_alt)
  ultimately show ?thesis
    by (simp add: word_le_nat_alt)
qed

lemma nextFree_from_some:
  "nextFree_from v e taken = Some x \<Longrightarrow>
     v \<le> x \<and> x \<le> e \<and> ip_string x \<notin> set taken \<and> (\<forall>u. v \<le> u \<and> u < x \<longrightarrow> ip_string u \<in> set taken)"
proof (induction v e taken rule: nextFree_from.induct)
  case (1 v e taken)
  show ?case
  proof (cases "v \<le> e \<and> ip_string v \<in> set taken \<and> v \<noteq> e")
    case True
    with "1.prems" have "nextFree_from (v + 1) e taken = Some x"
      by (simp add: nextFree_from.simps [of v])
    with "1.IH" True have IH: "v + 1 \<le> x" "x \<le> e" "ip_string x \<notin> set taken"
      "\<forall>u. v + 1 \<le> u \<and> u < x \<longrightarrow> ip_string u \<in> set taken"
      by auto
    have "v \<le> x"
      using IH(1) word_step_up [of v e] True by (simp add: word_le_nat_alt)
    moreover have "ip_string u \<in> set taken" if "v \<le> u" "u < x" for u
      using that IH(4) True word_between_step [of v e u] by (cases "u = v") auto
    ultimately show ?thesis using IH by blast
  next
    case False
    with "1.prems" show ?thesis
      by (auto simp: nextFree_from.simps [of v] split: if_splits)
  qed
qed

lemma nextFree_from_none:
  "nextFree_from v e taken = None \<Longrightarrow> v \<le> u \<Longrightarrow> u \<le> e \<Longrightarrow> ip_string u \<in> set taken"
proof (induction v e taken rule: nextFree_from.induct)
  case (1 v e taken)
  have "v \<le> e" using 1 by simp
  then have v: "ip_string v \<in> set taken" "v = e \<or> nextFree_from (v + 1) e taken = None"
    using "1.prems"(1) by (auto simp: nextFree_from.simps [of v] split: if_splits)
  show ?case
  proof (cases "u = v")
    case False
    then have "v \<noteq> e" using "1.prems" by auto
    then show ?thesis
      using "1.IH" v "1.prems" False \<open>v \<le> e\<close> word_between_step [of v e u] by simp
  qed (simp add: v)
qed

text \<open>
  The search returns the lowest address of the range whose text is not
  taken, and reports exhaustion exactly when every address of the range is taken; it terminates
  also when the range ends at the highest 32-bit address.
\<close>

theorem next_free_is_lowest:
  "(\<forall>x. nextFree s e taken = Some x \<longrightarrow> s \<le> x \<and> x \<le> e \<and> ip_string x \<notin> set taken \<and>
      (\<forall>u. s \<le> u \<and> u < x \<longrightarrow> ip_string u \<in> set taken)) \<and>
   (nextFree s e taken = None \<longleftrightarrow> (\<forall>u. s \<le> u \<and> u \<le> e \<longrightarrow> ip_string u \<in> set taken))"
proof -
  have "(\<forall>u. s \<le> u \<and> u \<le> e \<longrightarrow> ip_string u \<in> set taken) \<Longrightarrow> nextFree s e taken = None"
    using nextFree_from_some [of s e taken] unfolding nextFree_def by (cases "nextFree_from s e taken") auto
  then show ?thesis
    using nextFree_from_some nextFree_from_none unfolding nextFree_def by metis
qed

theorem next_free_is_lowest_witness:
  "nextFree 0 1 [''0.0.0.0''] = Some 1 \<and> ip_string 1 \<notin> set [''0.0.0.0'']"
proof -
  have "nextFree 0 1 [''0.0.0.0''] = Some 1"
    by (simp add: nextFree_def nextFree_from.simps ip_string_def octet_def show_nat.simps digit_char_zero)
  with next_free_is_lowest [of 0 1 "[''0.0.0.0'']"] show ?thesis by blast
qed

section \<open>The reservation table\<close>

text \<open>
  The invariant of a lease-mode table: at most one entry per machine, at most one machine per
  address, and every address is that of a host of the lease range which is not reserved.
\<close>

definition table_ok :: "Subnet \<Rightarrow> bool" where
  "table_ok sn \<longleftrightarrow> distinct (map res_machine (table_of sn)) \<and> distinct (map res_address (table_of sn)) \<and>
     (\<forall>r\<in>set (table_of sn). res_address r \<notin> set (ReservedAddresses sn) \<and>
        (case LeaseRange sn of Inl _ \<Rightarrow> False
         | Inr (s, e) \<Rightarrow> \<exists>v. s \<le> v \<and> v \<le> e \<and> res_address r = ip_string v))"

lemma put_table_frame [simp]:
  "LeaseRange (put_table sha rs sn) = LeaseRange sn" "ReservedAddresses (put_table sha rs sn) = ReservedAddresses sn"
  "table_of (put_table sha rs sn) = rs"
  by (simp_all add: put_table_def LeaseRange_def ReservedAddresses_def table_of_def split: option.splits)

lemma Reserve_cases:
  assumes "Reserve sha sn mn mac t = Inr (addr, changed, sn')"
  obtains (kept) r where "r \<in> set (table_of sn)" "res_machine r = mn" "addr = res_address r" "\<not> changed" "sn' = sn"
  | (new) s e v where "\<forall>r\<in>set (table_of sn). res_machine r \<noteq> mn" "LeaseRange sn = Inr (s, e)"
      "nextFree s e (ReservedAddresses sn @ map res_address (table_of sn)) = Some v" "addr = ip_string v" "changed"
      "sn' = put_table sha (table_of sn @ [\<lparr>res_address = ip_string v, res_machine = mn, res_mac = mac, res_since = t\<rparr>]) sn"
proof (cases "find (\<lambda>r. res_machine r = mn) (table_of sn)")
  case None
  obtain s e where range: "LeaseRange sn = Inr (s, e)"
    using assms None by (auto simp: Reserve_def split: sum.splits)
  obtain v where v: "nextFree s e (ReservedAddresses sn @ map res_address (table_of sn)) = Some v"
    using assms None range by (auto simp: Reserve_def split: option.splits)
  show thesis
    by (rule new [OF _ range v]) (use assms None range v in \<open>auto simp: Reserve_def find_None_iff\<close>)
next
  case (Some r)
  then have "r \<in> set (table_of sn)" "res_machine r = mn"
    by (auto simp: find_Some_iff)
  with Some assms show thesis
    by (intro kept [of r]) (simp_all add: Reserve_def)
qed

text \<open>
  C34: a reservation keeps the table's invariant: one entry per machine
  and per address, addresses inside the lease range and off the server and gateway addresses; and
  the address returned is the one the table holds for the machine.
\<close>

theorem reserve_keeps_table_invariant:
  assumes "table_ok sn" "Reserve sha sn mn mac t = Inr (addr, changed, sn')"
  shows "table_ok sn' \<and> (\<exists>r\<in>set (table_of sn'). res_machine r = mn \<and> res_address r = addr)"
  using assms(2)
proof (cases rule: Reserve_cases)
  case (kept r)
  then show ?thesis using assms(1) by auto
next
  case (new s e v)
  have "s \<le> v" "v \<le> e" "ip_string v \<notin> set (ReservedAddresses sn @ map res_address (table_of sn))"
    using nextFree_from_some [OF new(3) [unfolded nextFree_def]] by blast+
  then show ?thesis
    using assms(1) new unfolding table_ok_def by auto
qed

definition small_subnet :: Subnet where
  "small_subnet = \<lparr>sn_name = ''s'', sn_namespace = ''n'', sn_uid = ''su'', sn_deletionTimestamp = None, sn_generation = 1,
     sn_siteRef = \<lparr>nr_namespace = '''', nr_name = ''site''\<rparr>, sn_cidr = ''0.0.0.0/29'',
     sn_bootdServerIP = ''0.0.0.1'', sn_bootdNetworkRef = None, sn_seederNetworkRef = None, sn_nodeSelector = [],
     sn_dhcp = Some \<lparr>sd_mode = ModeLease, sd_leaseRangeStart = '''', sd_leaseRangeEnd = '''', sd_gateway = None, sd_leaseTime = None\<rparr>,
     sn_conditions = [], sn_dhcpStatus = None\<rparr>"

lemma small_subnet_ok: "table_ok small_subnet"
  by (simp add: table_ok_def table_of_def small_subnet_def)

lemma small_free: "nextFree 1 6 [''0.0.0.1''] = Some 2"
proof -
  have "(of_char (digit_char 1) :: nat) = of_char (CHR ''1'')" by (simp add: digit_char_code)
  then have "digit_char 1 = CHR ''1''" by (metis of_char_eq_iff)
  then have "ip_string 1 = ''0.0.0.1''"
    using digit_char_zero [of 0] by (simp add: ip_string_def octet_def show_nat_small)
  moreover have "ip_string 2 \<noteq> ip_string 1" using ip_string_inj [of 2 1] by auto
  ultimately show ?thesis
    by (simp add: nextFree_def nextFree_from.simps [of 1] nextFree_from.simps [of 2])
qed

lemma small_reserve:
  "Reserve sha small_subnet ''m'' ''x'' 7 = Inr (ip_string 2, True,
     put_table sha [\<lparr>res_address = ip_string 2, res_machine = ''m'', res_mac = ''x'', res_since = 7\<rparr>] small_subnet)"
proof -
  have "parseCIDR4 ''0.0.0.0/29'' = Some (0, prefix_mask 29)"
    by code_simp
  then have "LeaseRange small_subnet = Inr (1, 6)"
    by (simp add: LeaseRange_def prefix_mask_def small_subnet_def mask_eq_exp_minus_1)
  then show ?thesis
    using small_free by (simp add: Reserve_def table_of_def small_subnet_def ReservedAddresses_def)
qed

theorem reserve_keeps_table_invariant_witness:
  "table_ok (put_table (\<lambda>x. x) [\<lparr>res_address = ip_string 2, res_machine = ''m'', res_mac = ''x'', res_since = 7\<rparr>] small_subnet)"
  using reserve_keeps_table_invariant [OF small_subnet_ok small_reserve] by blast

text \<open>
  Reserving again for a machine that has a reservation returns the same
  address and leaves the Subnet as it is, so a retried step never takes a second address.
\<close>

lemma find_skip: "\<forall>x\<in>set xs. \<not> P x \<Longrightarrow> find P (xs @ [y]) = (if P y then Some y else None)"
  by (induction xs) auto

theorem reserve_is_idempotent:
  assumes "Reserve sha sn mn mac t = Inr (addr, changed, sn')"
  shows "Reserve sha sn' mn mac' t' = Inr (addr, False, sn')"
proof (cases "find (\<lambda>r. res_machine r = mn) (table_of sn)")
  case (Some r)
  then show ?thesis
    using assms by (auto simp: Reserve_def)
next
  case None
  show ?thesis
    using assms
  proof (cases rule: Reserve_cases)
    case (kept r)
    then show ?thesis using None by (auto simp: find_None_iff)
  next
    case (new s e v)
    then show ?thesis by (simp add: Reserve_def find_skip)
  qed
qed

theorem reserve_is_idempotent_witness:
  "Reserve (\<lambda>x. x) (put_table (\<lambda>x. x) [\<lparr>res_address = ip_string 2, res_machine = ''m'', res_mac = ''x'', res_since = 7\<rparr>] small_subnet)
     ''m'' ''y'' 9 =
   Inr (ip_string 2, False, put_table (\<lambda>x. x) [\<lparr>res_address = ip_string 2, res_machine = ''m'', res_mac = ''x'', res_since = 7\<rparr>] small_subnet)"
  using reserve_is_idempotent [OF small_reserve] .

text \<open>
  A release drops exactly the machine's own entry: it reports a change
  exactly when there was one, every other entry stays in place and in order, the table invariant is
  kept, and a second release changes nothing.
\<close>

theorem release_removes_only_own:
  assumes "Release sha sn mn = (changed, sn')"
  shows "(changed \<longleftrightarrow> (\<exists>r\<in>set (table_of sn). res_machine r = mn)) \<and>
    table_of sn' = filter (\<lambda>r. res_machine r \<noteq> mn) (table_of sn) \<and> (table_ok sn \<longrightarrow> table_ok sn') \<and>
    Release sha sn' mn = (False, sn')"
proof (cases "\<exists>r\<in>set (table_of sn). res_machine r = mn")
  case True
  then obtain d where "sn_dhcpStatus sn = Some d"
    by (cases "sn_dhcpStatus sn") (auto simp: table_of_def)
  with True assms have rel: "changed" "sn' = put_table sha (filter (\<lambda>r. res_machine r \<noteq> mn) (table_of sn)) sn"
    by (auto simp: Release_def table_of_def)
  have "table_ok sn \<Longrightarrow> table_ok sn'"
    unfolding rel(2) table_ok_def by (auto simp: distinct_map_filter)
  moreover have "Release sha sn' mn = (False, sn')"
    unfolding rel(2) by (auto simp: Release_def put_table_def)
  ultimately show ?thesis
    using True rel by simp
next
  case False
  with assms have "changed = False" "sn' = sn"
    by (auto simp: Release_def table_of_def split: option.splits if_splits)
  moreover have "Release sha sn mn = (False, sn)"
    using False by (auto simp: Release_def table_of_def split: option.splits)
  ultimately show ?thesis
    using False by (auto simp: filter_id_conv)
qed

theorem release_removes_only_own_witness:
  "table_of (snd (Release (\<lambda>x. x) (put_table (\<lambda>x. x) [\<lparr>res_address = ip_string 2, res_machine = ''m'', res_mac = ''x'', res_since = 7\<rparr>] small_subnet) ''m'')) = []"
proof -
  let ?sn = "put_table (\<lambda>x. x) [\<lparr>res_address = ip_string 2, res_machine = ''m'', res_mac = ''x'', res_since = 7\<rparr>] small_subnet"
  have "Release (\<lambda>x. x) ?sn ''m'' = (fst (Release (\<lambda>x. x) ?sn ''m''), snd (Release (\<lambda>x. x) ?sn ''m''))" by simp
  from release_removes_only_own [OF this] show ?thesis by simp
qed

text \<open>
  The revision of a table depends on its entries and not on their order:
  two tables with the same entries in any order have the same revision, and the empty table has the
  empty revision.
\<close>

theorem revision_ignores_order:
  assumes "mset rs = mset rs'"
  shows "Revision sha rs = Revision sha rs' \<and> Revision sha [] = ''''"
proof -
  have "sort (map pair_line rs) = sort (map pair_line rs')"
    using assms by (intro properties_for_sort) simp_all
  moreover have "rs = [] \<longleftrightarrow> rs' = []"
    using assms by auto
  ultimately show ?thesis
    by (simp add: Revision_def)
qed

theorem revision_ignores_order_witness:
  "Revision (\<lambda>x. x) [\<lparr>res_address = ''1'', res_machine = ''a'', res_mac = ''x'', res_since = 7\<rparr>,
      \<lparr>res_address = ''2'', res_machine = ''b'', res_mac = ''y'', res_since = 8\<rparr>] =
   Revision (\<lambda>x. x) [\<lparr>res_address = ''2'', res_machine = ''b'', res_mac = ''y'', res_since = 8\<rparr>,
      \<lparr>res_address = ''1'', res_machine = ''a'', res_mac = ''x'', res_since = 7\<rparr>]"
  using revision_ignores_order [of "[\<lparr>res_address = ''1'', res_machine = ''a'', res_mac = ''x'', res_since = 7\<rparr>,
      \<lparr>res_address = ''2'', res_machine = ''b'', res_mac = ''y'', res_since = 8\<rparr>]"
    "[\<lparr>res_address = ''2'', res_machine = ''b'', res_mac = ''y'', res_since = 8\<rparr>,
      \<lparr>res_address = ''1'', res_machine = ''a'', res_mac = ''x'', res_since = 7\<rparr>]" "\<lambda>x. x"]
  by simp

section \<open>The derived lease range\<close>

lemma parseCIDR4_mask:
  assumes "parseCIDR4 c = Some (n, m)"
  obtains p where "p \<le> 32" "m = prefix_mask p" "n AND NOT m = 0"
  using assms
proof -
  assume *: "\<And>p. p \<le> 32 \<Longrightarrow> m = prefix_mask p \<Longrightarrow> n AND NOT m = 0 \<Longrightarrow> thesis"
  obtain ip p where "p \<le> 32" "m = prefix_mask p" "n = ip AND prefix_mask p"
    using assms
    by (auto simp: parseCIDR4_def parse_prefix_def Let_def split: if_splits option.splits)
  then show thesis
    using * by (simp add: and.assoc)
qed

lemma unat_mask:
  assumes "k \<le> 32"
  shows "unat (mask k :: ip4) = 2 ^ k - 1"
proof -
  have "unat (mask k :: ip4) = take_bit k (unat (- 1 :: ip4))"
    by (simp only: take_bit_minus_one_eq_mask [symmetric] unsigned_take_bit_eq)
  also have "\<dots> = mask k"
    using assms by (simp add: unsigned_minus_1_eq_mask take_bit_of_mask min_def del: mask_numeral)
  finally show ?thesis
    by (simp add: mask_eq_exp_minus_1)
qed

lemma host_part:
  fixes n :: ip4
  assumes "n AND mask k = 0" "k \<le> 32"
  shows "unat (n OR mask k) = unat n + (2 ^ k - 1)"
proof -
  have "unat (take_bit k n) = take_bit k (unat n)"
    by (simp add: unsigned_take_bit_eq)
  then have "unat n mod 2 ^ k = 0"
    using assms(1) by (simp add: take_bit_eq_mask) (simp add: take_bit_eq_mask [symmetric] take_bit_eq_mod)
  then obtain q where q: "unat n = q * 2 ^ k"
    by (metis mult.commute mod_0_imp_dvd dvdE)
  have pow: "(2 :: nat) ^ 32 = 2 ^ (32 - k) * 2 ^ k"
    using assms(2) by (simp add: power_add [symmetric])
  have "q * 2 ^ k < 2 ^ (32 - k) * 2 ^ k"
    using unsigned_less [of n, where ?'a = nat] q pow by simp
  then have "Suc q * 2 ^ k \<le> 2 ^ (32 - k) * 2 ^ k"
    by (intro mult_right_mono) auto
  then have bound: "unat n + (2 ^ k - 1) < 2 ^ 32"
    using q pow by simp
  have "n OR mask k = n + mask k"
    using assms(1) by (simp add: disjunctive_add_eq_or)
  moreover have "unat (mask k :: ip4) = 2 ^ k - 1"
    using assms(2) by (rule unat_mask)
  ultimately show ?thesis
    using bound by (simp add: unat_word_ariths)
qed

text \<open>
  Without an explicit range, a subnet of prefix length up to 30 leases
  exactly its host addresses: from the address after the network address to the address before the
  broadcast address, 2^(32-p) - 2 of them; a /31 has none and is refused.
\<close>

theorem lease_range_is_the_hosts:
  assumes "sn_dhcp sn = Some d" "sd_leaseRangeStart d = ''''" "parseCIDR4 (sn_cidr sn) = Some (n, prefix_mask p)" "p \<le> 31"
  shows "LeaseRange sn = (if p = 31 then Inl ErrNoUsableHosts else Inr (n + 1, (n OR mask (32 - p)) - 1)) \<and>
    (p \<le> 30 \<longrightarrow> unat (n + 1) = unat n + 1 \<and> unat ((n OR mask (32 - p)) - 1) = unat n + (2 ^ (32 - p) - 2))"
proof -
  have "n AND NOT (prefix_mask p) = 0"
    using parseCIDR4_mask [OF assms(3)] by metis
  then have host: "n AND mask (32 - p) = 0"
    by (simp add: prefix_mask_def)
  note last = host_part [OF host]
  have pow: "4 \<le> (2 :: nat) ^ (32 - p)" if "p \<le> 30"
    using power_increasing [of 2 "32 - p" "2 :: nat"] that by simp
  have m: "unat (mask (32 - p) :: ip4) = 2 ^ (32 - p) - 1"
    by (rule unat_mask) simp
  have first: "unat (n + 1) = unat n + 1" if "p \<le> 30"
  proof -
    have "unat n < unat (n OR mask (32 - p))"
      using last pow [OF that] by simp
    moreover from this have "n \<noteq> n OR mask (32 - p)" by (metis less_irrefl)
    ultimately show ?thesis
      using word_step_up [of n "n OR mask (32 - p)"] by (simp add: word_le_nat_alt)
  qed
  have less_one: "unat (x - 1) = unat x - 1" if "0 < unat x" for x :: ip4
    using that by (intro unat_sub [THEN trans]) (simp_all add: word_le_nat_alt)
  have guard: "mask (32 - p) - 1 < (1 :: ip4) \<longleftrightarrow> p = 31"
  proof (cases "p = 31")
    case False
    then show ?thesis
      using assms(4) pow less_one [of "mask (32 - p)"] m by (auto simp: word_less_nat_alt)
  qed (simp add: mask_eq_exp_minus_1)
  have "LeaseRange sn = (if p = 31 then Inl ErrNoUsableHosts else Inr (n + 1, (n OR mask (32 - p)) - 1))"
    using assms(1-3) guard by (simp add: LeaseRange_def prefix_mask_def)
  moreover have "unat ((n OR mask (32 - p)) - 1) = unat n + (2 ^ (32 - p) - 2)" if "p \<le> 30"
    using last pow [OF that] less_one [of "n OR mask (32 - p)"] by (simp add: numeral_2_eq_2)
  ultimately show ?thesis
    using first by simp
qed

theorem lease_range_is_the_hosts_witness: "LeaseRange small_subnet = Inr (1, 6)"
proof -
  have "parseCIDR4 (sn_cidr small_subnet) = Some (0, prefix_mask 29)"
    by code_simp
  from lease_range_is_the_hosts [OF _ _ this] show ?thesis
    by (simp add: small_subnet_def mask_eq_exp_minus_1)
qed

text \<open>
  On a /32 the guard of the derived range does not fire, because the
  unsigned host count wraps: the range comes out inverted, and a reservation reports an exhausted
  pool where it should report that the subnet has no usable hosts.
\<close>

theorem slash32_reports_exhaustion:
  assumes "sn_dhcp sn = Some d" "sd_leaseRangeStart d = ''''" "parseCIDR4 (sn_cidr sn) = Some (n, prefix_mask 32)"
    and "0 < n" "n < - 1" "\<forall>r\<in>set (table_of sn). res_machine r \<noteq> mn"
  shows "LeaseRange sn = Inr (n + 1, n - 1) \<and> Reserve sha sn mn mac t = Inl ErrPoolExhausted"
proof -
  have range: "LeaseRange sn = Inr (n + 1, n - 1)"
    using assms(1-3) by (simp add: LeaseRange_def prefix_mask_def)
  have "unat n < unat (- 1 :: ip4)"
    using assms(5) by (simp add: word_less_nat_alt)
  then have "unat (n + 1) = unat n + 1"
    using word_step_up [of n "- 1"] assms(5) by simp
  moreover have "unat (n - 1) = unat n - 1"
    using assms(4) by (intro unat_sub [THEN trans]) (simp_all add: word_le_nat_alt word_less_nat_alt)
  ultimately have "\<not> n + 1 \<le> n - 1"
    by (simp add: word_le_nat_alt)
  moreover have "find (\<lambda>r. res_machine r = mn) (table_of sn) = None"
    using assms(6) by (simp add: find_None_iff)
  ultimately show ?thesis
    using range by (simp add: Reserve_def nextFree_def nextFree_from.simps [of "n + 1"])
qed

definition host_subnet :: Subnet where
  "host_subnet = small_subnet\<lparr>sn_cidr := ''0.0.0.9/32''\<rparr>"

theorem slash32_reports_exhaustion_witness:
  "LeaseRange host_subnet = Inr (10, 8) \<and> Reserve (\<lambda>x. x) host_subnet ''m'' ''x'' 0 = Inl ErrPoolExhausted"
proof -
  have "parseCIDR4 (sn_cidr host_subnet) = Some (9, prefix_mask 32)"
    by code_simp
  from slash32_reports_exhaustion [OF _ _ this] show ?thesis
    by (simp add: host_subnet_def small_subnet_def table_of_def)
qed

end
