(* ===== verification/Disk_Match.thy ===== *)
theory Disk_Match
  imports Machine_Types
begin

text \<open>
  internal/diskmatch/diskmatch.go: the choice of the disk a deployment writes to, from the hints of
  a claim and the inventory the agent reported, and the check that two images never share a disk.
  Sizes are Go's \<^verbatim>\<open>int64\<close>, with the wrap-around of the multiplication by \<open>giB\<close> written out. White
  space is the ASCII white space of \<^verbatim>\<open>strings.TrimSpace\<close>.
\<close>

section \<open>Constants and errors\<close>

definition giB :: int where
  "giB = 2 ^ 30"

definition maxListedDisks :: nat where
  "maxListedDisks = 5"

text \<open>The two sentinel errors, each with the text \<^verbatim>\<open>fmt.Errorf\<close> adds to it.\<close>

datatype match_error = ErrNoMatch string | ErrAmbiguous string

definition is_space :: "char \<Rightarrow> bool" where
  "is_space c \<longleftrightarrow> c \<in> {CHR '' '', CHR 0x09, CHR 0x0A, CHR 0x0B, CHR 0x0C, CHR 0x0D}"

definition trimSpace :: "string \<Rightarrow> string" where
  "trimSpace s = rev (dropWhile is_space (rev (dropWhile is_space s)))"

section \<open>Matching\<close>

definition hasAnyHint :: "TargetDiskHints option \<Rightarrow> bool" where
  "hasAnyHint hints \<longleftrightarrow> (case hints of None \<Rightarrow> False
     | Some h \<Rightarrow> h_deviceName h \<noteq> '''' \<or> h_serialNumber h \<noteq> '''' \<or> h_wwn h \<noteq> '''' \<or> h_model h \<noteq> '''' \<or>
         h_vendor h \<noteq> '''' \<or> h_minSizeGigabytes h \<noteq> None \<or> h_maxSizeGigabytes h \<noteq> None \<or>
         h_rotational h \<noteq> None \<or> h_pciePath h \<noteq> '''' \<or> h_hctl h \<noteq> '''' \<or> h_slotNumber h \<noteq> None)"

definition hintsMatch :: "MachineHardwareDisk \<Rightarrow> TargetDiskHints \<Rightarrow> bool" where
  "hintsMatch d h =
     (if h_deviceName h \<noteq> '''' \<and> d_deviceName d \<noteq> h_deviceName h then False
      else if h_serialNumber h \<noteq> '''' \<and> d_serialNumber d \<noteq> h_serialNumber h then False
      else if h_wwn h \<noteq> '''' \<and> d_wwn d \<noteq> h_wwn h then False
      else if h_model h \<noteq> '''' \<and> trimSpace (d_model d) \<noteq> trimSpace (h_model h) then False
      else if h_vendor h \<noteq> '''' \<and> trimSpace (d_vendor d) \<noteq> trimSpace (h_vendor h) then False
      else if (case h_minSizeGigabytes h of None \<Rightarrow> False | Some g \<Rightarrow> d_sizeBytes d < wrap64 (g * giB)) then False
      else if (case h_maxSizeGigabytes h of None \<Rightarrow> False | Some g \<Rightarrow> d_sizeBytes d > wrap64 (g * giB)) then False
      else if (case h_rotational h of None \<Rightarrow> False | Some r \<Rightarrow> d_rotational d = None \<or> d_rotational d \<noteq> Some r) then False
      else if h_pciePath h \<noteq> '''' \<and> d_pciePath d \<noteq> h_pciePath h then False
      else if h_hctl h \<noteq> '''' \<and> d_hctl d \<noteq> h_hctl h then False
      else if (case h_slotNumber h of None \<Rightarrow> False | Some n \<Rightarrow> d_slotNumber d = None \<or> d_slotNumber d \<noteq> Some n) then False
      else True)"

definition describe_name :: "MachineHardwareDisk \<Rightarrow> string" where
  "describe_name d = (if d_deviceName d = '''' then ''(unnamed device)'' else d_deviceName d)"

definition join_comma :: "string list \<Rightarrow> string" where
  "join_comma ss = (case ss of [] \<Rightarrow> '''' | s # r \<Rightarrow> s @ concat (map (\<lambda>x. '', '' @ x) r))"

definition describeDisks :: "MachineHardwareDisk list \<Rightarrow> string" where
  "describeDisks disks = join_comma (map describe_name (take maxListedDisks disks) @
     (if maxListedDisks < length disks then [''and '' @ show_nat (length disks - maxListedDisks) @ '' more''] else []))"

definition Match :: "MachineHardwareDisk list \<Rightarrow> TargetDiskHints option \<Rightarrow> match_error + MachineHardwareDisk" where
  "Match disks hints =
     (if \<not> hasAnyHint hints then
        (case disks of
           [] \<Rightarrow> Inl (ErrNoMatch ''no disks reported'')
         | [d] \<Rightarrow> Inr d
         | _ \<Rightarrow> Inl (ErrAmbiguous (show_nat (length disks) @ '' disks present; a targetDisk hint is required: '' @ describeDisks disks)))
      else
        (case filter (\<lambda>d. case hints of None \<Rightarrow> False | Some h \<Rightarrow> hintsMatch d h) disks of
           [] \<Rightarrow> Inl (ErrNoMatch ''no disk matches the hints'')
         | [d] \<Rightarrow> Inr d
         | ds \<Rightarrow> Inl (ErrAmbiguous (show_nat (length ds) @ '' disks match the hints; refine them: '' @ describeDisks ds))))"

section \<open>Distinct disks\<close>

record Selection =
  sel_label :: string
  sel_disk :: "MachineHardwareDisk option"

definition diskIdentity :: "MachineHardwareDisk \<Rightarrow> string" where
  "diskIdentity d = (if d_serialNumber d \<noteq> '''' then d_serialNumber d else d_deviceName d)"

definition describeIdentity :: "MachineHardwareDisk \<Rightarrow> string" where
  "describeIdentity d =
     (if d_serialNumber d \<noteq> '''' then d_deviceName d @ '' (serial '' @ d_serialNumber d @ '')'' else d_deviceName d)"

fun distinct_from :: "(string \<rightharpoonup> string) \<Rightarrow> Selection list \<Rightarrow> match_error option" where
  "distinct_from firstLabel [] = None"
| "distinct_from firstLabel (s # ss) =
     (case sel_disk s of
        None \<Rightarrow> distinct_from firstLabel ss
      | Some d \<Rightarrow>
          (case firstLabel (diskIdentity d) of
             Some prev \<Rightarrow> Some (ErrAmbiguous (''target disk conflict: '' @ prev @ '' and '' @ sel_label s @
               '' both resolve to disk '' @ describeIdentity d))
           | None \<Rightarrow> distinct_from (firstLabel(diskIdentity d \<mapsto> sel_label s)) ss))"

definition CheckDistinct :: "Selection list \<Rightarrow> match_error option" where
  "CheckDistinct selections = distinct_from Map.empty selections"

section \<open>Properties\<close>

definition satisfies :: "TargetDiskHints option \<Rightarrow> MachineHardwareDisk \<Rightarrow> bool" where
  "satisfies hints d \<longleftrightarrow> \<not> hasAnyHint hints \<or> (case hints of None \<Rightarrow> True | Some h \<Rightarrow> hintsMatch d h)"

lemma pick_one:
  fixes msg :: "'a list \<Rightarrow> string" and e :: string
  defines "pick ds \<equiv> (case ds of [] \<Rightarrow> Inl (ErrNoMatch e) | [d] \<Rightarrow> Inr d | d # x # l \<Rightarrow> Inl (ErrAmbiguous (msg (d # x # l))))"
  shows "(\<forall>d. pick ds = Inr d \<longleftrightarrow> ds = [d]) \<and> ((\<exists>t. pick ds = Inl (ErrNoMatch t)) \<longleftrightarrow> ds = []) \<and>
    ((\<exists>t. pick ds = Inl (ErrAmbiguous t)) \<longleftrightarrow> 2 \<le> length ds)"
  unfolding pick_def by (cases ds rule: remdups_adj.cases) auto

text \<open>
  A disk is chosen only when it is the one disk of the inventory that satisfies
  every hint: a choice is returned exactly when the satisfying disks form a one-element list, an
  empty list gives ErrNoMatch and a longer one ErrAmbiguous; with no hint every disk satisfies.
\<close>

theorem match_is_unique:
  "(\<forall>d. Match disks hints = Inr d \<longleftrightarrow> filter (satisfies hints) disks = [d]) \<and>
   ((\<exists>t. Match disks hints = Inl (ErrNoMatch t)) \<longleftrightarrow> filter (satisfies hints) disks = []) \<and>
   ((\<exists>t. Match disks hints = Inl (ErrAmbiguous t)) \<longleftrightarrow> 2 \<le> length (filter (satisfies hints) disks))"
proof (cases "hasAnyHint hints")
  case True
  then have "filter (satisfies hints) disks = filter (\<lambda>d. case hints of None \<Rightarrow> False | Some h \<Rightarrow> hintsMatch d h) disks"
    by (intro filter_cong) (auto simp: satisfies_def hasAnyHint_def split: option.splits)
  with True show ?thesis
    unfolding Match_def by (simp only: not_True_eq_False if_False) (rule pick_one)
next
  case False
  then have "filter (satisfies hints) disks = disks"
    by (simp add: satisfies_def)
  with False show ?thesis
    unfolding Match_def by (simp only: not_False_eq_True if_True) (rule pick_one)
qed

text \<open>
  A minimum size of 2^33 gigabytes or a multiple of 2^34 more, which the schema
  admits, is no bound at all: the multiplication by the gigabyte wraps to the lowest 64-bit value,
  so a hint that asks for an impossibly large disk accepts a disk of any size.
\<close>

theorem size_hint_wraps:
  assumes "0 \<le> d_sizeBytes d"
  shows "hintsMatch d \<lparr>h_deviceName = '''', h_serialNumber = '''', h_wwn = '''', h_model = '''', h_vendor = '''',
     h_minSizeGigabytes = Some (2 ^ 33 + 2 ^ 34 * int k), h_maxSizeGigabytes = None, h_rotational = None, h_pciePath = '''',
     h_hctl = '''', h_slotNumber = None\<rparr>"
proof -
  have "(2 ^ 33 + 2 ^ 34 * int k) * 2 ^ 30 + 2 ^ 63 = 2 ^ 64 * (1 + int k)"
    by simp
  then have "wrap64 ((2 ^ 33 + 2 ^ 34 * int k) * giB) = - (2 ^ 63)"
    by (simp only: wrap64_def giB_def) simp
  then show ?thesis
    using assms by (simp add: hintsMatch_def)
qed

definition tiny_disk :: MachineHardwareDisk where
  "tiny_disk = \<lparr>d_deviceName = ''/dev/sda'', d_serialNumber = '''', d_wwn = '''', d_model = '''', d_vendor = '''',
     d_sizeBytes = 0, d_rotational = None, d_pciePath = '''', d_hctl = '''', d_slotNumber = None\<rparr>"

theorem size_hint_wraps_witness:
  "hintsMatch tiny_disk \<lparr>h_deviceName = '''', h_serialNumber = '''', h_wwn = '''', h_model = '''', h_vendor = '''',
     h_minSizeGigabytes = Some 8589934592, h_maxSizeGigabytes = None, h_rotational = None, h_pciePath = '''',
     h_hctl = '''', h_slotNumber = None\<rparr>"
  using size_hint_wraps [of tiny_disk 0] by (simp add: tiny_disk_def)

lemma distinct_from_none:
  "distinct_from f ss = None \<longleftrightarrow>
     distinct (map diskIdentity (List.map_filter sel_disk ss)) \<and>
     (\<forall>d\<in>set (List.map_filter sel_disk ss). f (diskIdentity d) = None)"
proof (induction ss arbitrary: f)
  case (Cons s ss)
  show ?case
  proof (cases "sel_disk s")
    case None
    then show ?thesis by (simp add: Cons.IH map_filter_simps)
  next
    case (Some d)
    then show ?thesis
      by (cases "f (diskIdentity d)") (fastforce simp: Cons.IH map_filter_simps image_iff split: if_splits)+
  qed
qed (simp add: map_filter_simps)

text \<open>
  The check passes exactly when the selections that resolved to a disk
  have pairwise different disk identities (the serial number, or the device name without one).
\<close>

theorem check_distinct_is_pairwise:
  "CheckDistinct selections = None \<longleftrightarrow> distinct (map diskIdentity (List.map_filter sel_disk selections))"
  by (simp add: CheckDistinct_def distinct_from_none)

end
