(* ===== verification/Claim_Match.thy ===== *)
theory Claim_Match
  imports Machine_Types
begin

text \<open>
  internal/controller/machineclaim_match.go: does a machine's reported hardware satisfy the hardware
  selector of a claim? Each disk requirement has to be met by a disk of its own, so the code looks
  for a bipartite matching with Kuhn's algorithm. The arrays it updates in place (\<open>visited\<close>,
  \<open>matchOfDisk\<close>, with \<open>-1\<close> for a free disk) are lists passed along; an index out of range, which
  panics in Go, is the value \<open>None\<close>. The theory ends with the proof that the algorithm neither
  panics nor loops and answers exactly whether such an assignment exists.
\<close>

section \<open>One disk\<close>

definition machineClaimGiB :: int where
  "machineClaimGiB = 2 ^ 30"

definition diskMatchesRequirement :: "MachineHardwareDisk \<Rightarrow> ClaimHardwareDiskSelector \<Rightarrow> bool" where
  "diskMatchesRequirement disk req =
     (if ds_model req \<noteq> '''' \<and> ds_model req \<noteq> d_model disk then False
      else if ds_vendor req \<noteq> '''' \<and> ds_vendor req \<noteq> d_vendor disk then False
      else if (case ds_minSizeGigabytes req of None \<Rightarrow> False
               | Some g \<Rightarrow> d_sizeBytes disk < wrap64 (g * machineClaimGiB)) then False
      else if (case ds_rotational req of None \<Rightarrow> False
               | Some r \<Rightarrow> d_rotational disk = None \<or> d_rotational disk \<noteq> Some r) then False
      else True)"

section \<open>The augmenting path\<close>

text \<open>
  \<open>augment adj req ds visited matchOfDisk\<close> is the loop of \<^verbatim>\<open>tryAugmentDiskMatch\<close> with the disks
  \<open>ds\<close> of \<open>adj[req]\<close> still to come.
\<close>

function augment :: "nat list list \<Rightarrow> int \<Rightarrow> nat list \<Rightarrow> bool list \<Rightarrow> int list \<Rightarrow> (bool \<times> bool list \<times> int list) option" where
  "augment adj req [] visited matchOfDisk = Some (False, visited, matchOfDisk)"
| "augment adj req (disk # ds) visited matchOfDisk =
     (if disk \<ge> length visited then None
      else if visited ! disk then augment adj req ds visited matchOfDisk
      else
        (let visited1 = visited[disk := True] in
         if disk \<ge> length matchOfDisk then None
         else if matchOfDisk ! disk = -1 then Some (True, visited1, matchOfDisk[disk := req])
         else if matchOfDisk ! disk < 0 \<or> nat (matchOfDisk ! disk) \<ge> length adj then None
         else
           (case augment adj (matchOfDisk ! disk) (adj ! nat (matchOfDisk ! disk)) visited1 matchOfDisk of
              None \<Rightarrow> None
            | Some (True, visited2, match2) \<Rightarrow> Some (True, visited2, match2[disk := req])
            | Some (False, visited2, match2) \<Rightarrow> augment adj req ds visited2 match2)))"
  by pat_completeness auto

text \<open>The disks not visited yet bound the recursion.\<close>

definition fresh :: "bool list \<Rightarrow> nat" where
  "fresh visited = card {i. i < length visited \<and> \<not> visited ! i}"

lemma fresh_visit:
  assumes "disk < length visited" "\<not> visited ! disk"
  shows "fresh (visited[disk := True]) < fresh visited"
  unfolding fresh_def
proof (rule psubset_card_mono)
  show "{i. i < length (visited[disk := True]) \<and> \<not> visited[disk := True] ! i} \<subset> {i. i < length visited \<and> \<not> visited ! i}"
    using assms by (auto simp: nth_list_update split: if_splits)
qed simp

lemma augment_fresh:
  "augment_dom (adj, req, ds, visited, matchOfDisk) \<Longrightarrow>
     augment adj req ds visited matchOfDisk = Some (b, visited2, match2) \<Longrightarrow> fresh visited2 \<le> fresh visited"
proof (induction arbitrary: b visited2 match2 rule: augment.pinduct)
  case (1 adj req visited matchOfDisk)
  then show ?case by (simp add: augment.psimps)
next
  case (2 adj req disk ds visited matchOfDisk)
  then show ?case
    using fresh_visit [of disk visited]
    by (fastforce simp: augment.psimps Let_def split: if_splits option.splits prod.splits bool.splits)
qed

termination augment
proof (relation "measures [\<lambda>(adj, req, ds, visited, matchOfDisk). fresh visited, \<lambda>(adj, req, ds, visited, matchOfDisk). length ds]",
    goal_cases)
  case 1
  show ?case by simp
next
  case (2 adj req disk ds visited matchOfDisk)
  then show ?case by simp
next
  case (3 adj req disk ds visited matchOfDisk)
  then show ?case using fresh_visit by simp
next
  case (4 adj req disk ds visited matchOfDisk)
  then show ?case
    using augment_fresh fresh_visit [of disk visited] by fastforce
qed

definition tryAugmentDiskMatch :: "nat \<Rightarrow> nat list list \<Rightarrow> bool list \<Rightarrow> int list \<Rightarrow> (bool \<times> bool list \<times> int list) option" where
  "tryAugmentDiskMatch req adj visited matchOfDisk =
     (if req < length adj then augment adj (int req) (adj ! req) visited matchOfDisk else None)"

fun match_all :: "nat list list \<Rightarrow> nat \<Rightarrow> nat list \<Rightarrow> int list \<Rightarrow> bool option" where
  "match_all adj ndisks [] matchOfDisk = Some True"
| "match_all adj ndisks (i # is) matchOfDisk =
     (case tryAugmentDiskMatch i adj (replicate ndisks False) matchOfDisk of
        None \<Rightarrow> None
      | Some (True, _, match2) \<Rightarrow> match_all adj ndisks is match2
      | Some (False, _, _) \<Rightarrow> Some False)"

definition adjacency :: "MachineHardwareDisk list \<Rightarrow> ClaimHardwareDiskSelector list \<Rightarrow> nat list list" where
  "adjacency disks reqs = map (\<lambda>req. filter (\<lambda>j. diskMatchesRequirement (disks ! j) req) [0..<length disks]) reqs"

definition disksSatisfy :: "MachineHardwareDisk list \<Rightarrow> ClaimHardwareDiskSelector list \<Rightarrow> bool option" where
  "disksSatisfy disks reqs =
     (if reqs = [] then Some True
      else if length reqs > length disks then Some False
      else match_all (adjacency disks reqs) (length disks) [0..<length reqs] (replicate (length disks) (-1)))"

definition hardwareMatchesSelector :: "MachineHardwareSpec \<Rightarrow> ClaimHardwareSelector \<Rightarrow> bool option" where
  "hardwareMatchesSelector hw sel =
     (if (case hs_minCPUCount sel of None \<Rightarrow> False | Some n \<Rightarrow> hw_cpuCount hw < n) then Some False
      else if (case hs_minMemoryBytes sel of None \<Rightarrow> False | Some n \<Rightarrow> hw_memoryBytes hw < n) then Some False
      else disksSatisfy (hw_disks hw) (hs_disks sel))"

section \<open>No panic\<close>

definition adj_ok :: "nat \<Rightarrow> nat list list \<Rightarrow> bool" where
  "adj_ok n adj \<longleftrightarrow> (\<forall>ds\<in>set adj. \<forall>d\<in>set ds. d < n)"

definition match_ok :: "nat \<Rightarrow> nat list list \<Rightarrow> int list \<Rightarrow> bool" where
  "match_ok n adj m \<longleftrightarrow> length m = n \<and> (\<forall>d<n. m ! d = -1 \<or> 0 \<le> m ! d \<and> nat (m ! d) < length adj \<and> d \<in> set (adj ! nat (m ! d)))"

lemma match_ok_update:
  "match_ok n adj m \<Longrightarrow> d \<in> set (adj ! r) \<Longrightarrow> r < length adj \<Longrightarrow> match_ok n adj (m[d := int r])"
  by (cases "d < length m") (auto simp: match_ok_def nth_list_update list_update_beyond)

lemma augment_total:
  assumes "adj_ok n adj" "match_ok n adj m" "length v = n" "set ds \<subseteq> set (adj ! r)" "req = int r" "r < length adj"
  shows "\<exists>b v2 m2. augment adj req ds v m = Some (b, v2, m2) \<and> length v2 = n \<and> match_ok n adj m2"
  using assms
proof (induction adj req ds v m arbitrary: r rule: augment.induct)
  case (1 adj req v m)
  then show ?case by auto
next
  case (2 adj req d ds v m)
  have d: "d < n" "d \<in> set (adj ! r)"
    using 2(4,7,9) by (auto simp: adj_ok_def)
  show ?case
  proof (cases "v ! d")
    case True
    then show ?thesis using 2(1) [OF _ True 2(4-6) _ 2(8,9)] 2(6,7) d by auto
  next
    case False
    show ?thesis
    proof (cases "m ! d = -1")
      case True
      then show ?thesis
        using False d 2(4-9) match_ok_update [OF 2(5) d(2) 2(9)] by (auto simp: match_ok_def)
    next
      case matched: False
      have md: "0 \<le> m ! d" "nat (m ! d) < length adj"
        using matched 2(5) d by (auto simp: match_ok_def)
      obtain b v2 m2 where call: "augment adj (m ! d) (adj ! nat (m ! d)) (v[d := True]) m = Some (b, v2, m2)"
        "length v2 = n" "match_ok n adj m2"
        using 2(2) [OF _ False refl _ matched _ 2(4,5), of "nat (m ! d)"] 2(5,6) d md
        by (auto simp: match_ok_def)
      show ?thesis
      proof (cases b)
        case True
        then show ?thesis
          using call False matched md d 2(5-9) match_ok_update [OF call(3) d(2) 2(9)]
          by (auto simp: match_ok_def Let_def)
      next
        case failed: False
        have "\<exists>b v3 m3. augment adj req ds v2 m2 = Some (b, v3, m3) \<and> length v3 = n \<and> match_ok n adj m3"
          using 2(3) [OF _ False refl _ matched _ call(1) refl _ refl 2(4) call(3,2) _ 2(8,9)] failed d md 2(5,6,7)
          by (auto simp: match_ok_def)
        then show ?thesis
          using call failed False matched md d 2(5,6) by (auto simp: match_ok_def Let_def)
      qed
    qed
  qed
qed

section \<open>A failed search has found a bottleneck\<close>

definition seen :: "bool list \<Rightarrow> nat set" where
  "seen v = {i. i < length v \<and> v ! i}"

lemma seen_visit [simp]: "d < length v \<Longrightarrow> seen (v[d := True]) = insert d (seen v)"
  by (auto simp: seen_def nth_list_update)

text \<open>
  When the search fails it leaves the matching alone, has visited every disk it could reach, and
  every disk it visited is taken by a requirement all of whose disks were visited.
\<close>

lemma augment_fail:
  assumes "augment adj req ds v m = Some (False, v2, m2)"
  shows "m2 = m \<and> length v2 = length v \<and> seen v \<subseteq> seen v2 \<and> set ds \<subseteq> seen v2 \<and>
    (\<forall>d\<in>seen v2 - seen v. m ! d \<noteq> -1 \<and> set (adj ! nat (m ! d)) \<subseteq> seen v2)"
  using assms
proof (induction adj req ds v m arbitrary: v2 m2 rule: augment.induct)
  case (1 adj req v m)
  then show ?case by auto
next
  case (2 adj req d ds v m)
  show ?case
  proof (cases "v ! d")
    case True
    with 2(4) have dv: "d < length v" and rest: "augment adj req ds v m = Some (False, v2, m2)"
      by (auto split: if_splits)
    from 2(1) [OF _ True rest] dv have
      "m2 = m \<and> length v2 = length v \<and> seen v \<subseteq> seen v2 \<and> set ds \<subseteq> seen v2 \<and>
        (\<forall>d\<in>seen v2 - seen v. m ! d \<noteq> -1 \<and> set (adj ! nat (m ! d)) \<subseteq> seen v2)"
      by simp
    moreover have "d \<in> seen v"
      using dv True by (simp add: seen_def)
    ultimately show ?thesis by auto
  next
    case False
    have dv: "d < length v"
      using 2(4) by (auto split: if_splits)
    obtain v1 m1 where call: "augment adj (m ! d) (adj ! nat (m ! d)) (v[d := True]) m = Some (False, v1, m1)"
      "augment adj req ds v1 m1 = Some (False, v2, m2)" "m ! d \<noteq> -1" "\<not> (m ! d < 0 \<or> length adj \<le> nat (m ! d))" "d < length m"
      using 2(4) False by (auto simp: Let_def split: if_splits option.splits prod.splits bool.splits)
    have inner: "m1 = m" "length v1 = length v" "insert d (seen v) \<subseteq> seen v1" "set (adj ! nat (m ! d)) \<subseteq> seen v1"
      "\<forall>x\<in>seen v1 - insert d (seen v). m ! x \<noteq> -1 \<and> set (adj ! nat (m ! x)) \<subseteq> seen v1"
      using 2(2) [OF _ False refl _ call(3,4), OF _ _ call(1)] dv call(5) by auto
    have outer: "m2 = m" "length v2 = length v" "seen v1 \<subseteq> seen v2" "set ds \<subseteq> seen v2"
      "\<forall>x\<in>seen v2 - seen v1. m ! x \<noteq> -1 \<and> set (adj ! nat (m ! x)) \<subseteq> seen v2"
      using 2(3) [OF _ False refl _ call(3,4) call(1) refl _ refl, OF _ _ _ call(2)] inner(1,2) dv call(5) by auto
    have "m ! x \<noteq> -1 \<and> set (adj ! nat (m ! x)) \<subseteq> seen v2" if "x \<in> seen v2 - seen v" for x
    proof (cases "x = d \<or> x \<notin> seen v1")
      case True
      then show ?thesis using that inner outer call(3) by blast
    next
      case False
      then show ?thesis using that inner(5) outer(3) by blast
    qed
    moreover have "seen v \<subseteq> seen v2" "set (d # ds) \<subseteq> seen v2"
      using inner(3) outer(3,4) by auto
    ultimately show ?thesis
      using outer(1,2) by simp
  qed
qed

section \<open>A successful search adds its requirement\<close>

text \<open>
  \<open>taken v m\<close>: the disks outside the visited ones that hold a requirement. A successful search
  leaves the visited disks alone; on the others it adds the new requirement and keeps the rest.
\<close>

definition taken :: "bool list \<Rightarrow> int list \<Rightarrow> nat set" where
  "taken v m = {d. d < length m \<and> d \<notin> seen v \<and> m ! d \<noteq> -1}"

definition extends :: "bool list \<Rightarrow> int list \<Rightarrow> int \<Rightarrow> int list \<Rightarrow> bool" where
  "extends v m req m2 \<longleftrightarrow> length m2 = length m \<and> (\<forall>d\<in>seen v. m2 ! d = m ! d) \<and>
     inj_on (nth m2) (taken v m2) \<and> nth m2 ` taken v m2 = insert req (nth m ` taken v m)"

lemma taken_split: "d < length m \<Longrightarrow> d \<notin> seen v \<Longrightarrow> m ! d \<noteq> -1 \<Longrightarrow> length v = length m \<Longrightarrow>
    taken v m = insert d (taken (v[d := True]) m)"
  by (auto simp: taken_def)

lemma extends_free:
  assumes "d < length m" "d \<notin> seen v" "m ! d = -1" "req \<noteq> -1" "inj_on (nth m) (taken v m)" "req \<notin> nth m ` taken v m"
  shows "extends v m req (m[d := req])"
proof -
  have "taken v (m[d := req]) = insert d (taken v m)"
    using assms(1-4) by (auto simp: taken_def nth_list_update)
  moreover have "x \<in> taken v m \<Longrightarrow> m[d := req] ! x = m ! x" for x
    using assms(1,3) by (auto simp: taken_def nth_list_update)
  moreover have "d \<notin> taken v m"
    using assms(3) by (simp add: taken_def)
  ultimately show ?thesis
    using assms(1,2,5,6) by (auto simp: extends_def inj_on_def nth_list_update image_def)
qed

lemma extends_displace:
  assumes "extends (v[d := True]) m (m ! d) m2" "d < length m" "length v = length m" "d \<notin> seen v" "m ! d \<noteq> -1" "req \<noteq> -1"
    and "req \<notin> nth m ` taken v m"
  shows "extends v m req (m2[d := req])"
proof -
  let ?v = "v[d := True]"
  have len: "length m2 = length m" and kept: "\<forall>x\<in>insert d (seen v). m2 ! x = m ! x"
    and inj: "inj_on (nth m2) (taken ?v m2)" and img: "nth m2 ` taken ?v m2 = insert (m ! d) (nth m ` taken ?v m)"
    using assms(1-3) by (simp_all add: extends_def)
  have split: "taken v m = insert d (taken ?v m)"
    using assms(2-5) by (intro taken_split)
  have "taken v (m2[d := req]) = insert d (taken ?v m2)"
    using assms(2-6) len by (auto simp: taken_def nth_list_update)
  moreover have same: "x \<in> taken ?v m2 \<Longrightarrow> m2[d := req] ! x = m2 ! x" for x
    using assms(2,3) by (auto simp: taken_def nth_list_update)
  moreover have "d \<notin> taken ?v m2"
    using assms(2,3) by (simp add: taken_def)
  moreover have "req \<notin> nth m2 ` taken ?v m2"
    using img assms(7) split by auto
  ultimately show ?thesis
    using len kept inj img split assms(2,4)
    by (auto simp: extends_def inj_on_def nth_list_update image_def)
qed

lemma extends_later:
  assumes "extends v1 m req m2" "seen v \<subseteq> seen v1" "inj_on (nth m) (taken v m)" "req \<notin> nth m ` taken v m" "req \<noteq> -1"
  shows "extends v m req m2"
proof -
  let ?mid = "{d. d < length m \<and> d \<in> seen v1 \<and> d \<notin> seen v \<and> m ! d \<noteq> -1}"
  have len: "length m2 = length m" and kept: "\<forall>x\<in>seen v1. m2 ! x = m ! x"
    and inj: "inj_on (nth m2) (taken v1 m2)" and img: "nth m2 ` taken v1 m2 = insert req (nth m ` taken v1 m)"
    using assms(1) by (simp_all add: extends_def)
  have before: "taken v m = ?mid \<union> taken v1 m" and after: "taken v m2 = ?mid \<union> taken v1 m2"
    using assms(2) len kept by (auto simp: taken_def)
  have mid: "nth m2 ` ?mid = nth m ` ?mid"
    using kept by (auto simp: image_iff)
  have "nth m ` ?mid \<inter> nth m ` taken v1 m = {}"
    using assms(3) before by (auto simp: inj_on_def taken_def)
  then have disj: "nth m2 ` ?mid \<inter> nth m2 ` taken v1 m2 = {}"
    using mid img assms(4) before by auto
  have "inj_on (nth m2) ?mid"
    using assms(3) kept before by (auto simp: inj_on_def)
  then have "inj_on (nth m2) (taken v m2)"
    unfolding after inj_on_Un using inj disj by blast
  moreover have "nth m2 ` taken v m2 = insert req (nth m ` taken v m)"
    unfolding after before image_Un mid img by auto
  ultimately show ?thesis
    using len kept assms(2) by (auto simp: extends_def)
qed

lemma taken_mono: "seen v \<subseteq> seen v1 \<Longrightarrow> taken v1 m \<subseteq> taken v m"
  by (auto simp: taken_def)

lemma augment_success:
  assumes "augment adj req ds v m = Some (True, v2, m2)" "length v = length m" "req \<noteq> -1"
    and "inj_on (nth m) (taken v m)" "req \<notin> nth m ` taken v m"
  shows "extends v m req m2"
  using assms
proof (induction adj req ds v m arbitrary: v2 m2 rule: augment.induct)
  case (1 adj req v m)
  then show ?case by simp
next
  case (2 adj req d ds v m)
  show ?case
  proof (cases "v ! d")
    case True
    then show ?thesis
      using 2(1) [OF _ True _ 2(5-8)] 2(4) by (auto split: if_splits)
  next
    case False
    have d: "d < length v" "d < length m" "d \<notin> seen v"
      using 2(4,5) False by (auto simp: seen_def split: if_splits)
    show ?thesis
    proof (cases "m ! d = -1")
      case True
      then show ?thesis
        using 2(4) False d extends_free [OF d(2,3) True 2(6-8)] by (auto split: if_splits)
    next
      case matched: False
      have range: "\<not> (m ! d < 0 \<or> length adj \<le> nat (m ! d))"
        using 2(4) False matched by (auto simp: Let_def split: if_splits)
      obtain b v1 m1 where call: "augment adj (m ! d) (adj ! nat (m ! d)) (v[d := True]) m = Some (b, v1, m1)"
        using 2(4) False matched by (auto simp: Let_def split: if_splits option.splits)
      have split: "taken v m = insert d (taken (v[d := True]) m)"
        using d 2(5) matched by (intro taken_split)
      show ?thesis
      proof (cases b)
        case True
        have "inj_on (nth m) (taken (v[d := True]) m)" "m ! d \<notin> nth m ` taken (v[d := True]) m"
          using 2(7) split d 2(5) by (auto simp: inj_on_def taken_def)
        then have "extends (v[d := True]) m (m ! d) m1"
          using 2(2) [OF _ False refl _ matched range, OF _ _ _ _ matched] call True d 2(5) by auto
        moreover have "m2 = m1[d := req]"
          using 2(4) False matched range call True d by (auto simp: Let_def)
        ultimately show ?thesis
          using extends_displace d 2(5,6,8) matched by metis
      next
        case failed: False
        have rest: "augment adj req ds v1 m1 = Some (True, v2, m2)"
          using 2(4) False matched range call failed d by (auto simp: Let_def)
        have f: "m1 = m" "length v1 = length v" "seen v \<subseteq> seen v1"
          using augment_fail call failed d by fastforce+
        have "extends v1 m1 req m2"
          using 2(3) [OF _ False refl _ matched range call refl _ refl rest] failed d f 2(5-8) taken_mono [OF f(3), of m]
          by (auto intro: inj_on_subset)
        then show ?thesis
          using extends_later f 2(6-8) by metis
      qed
    qed
  qed
qed

section \<open>The algorithm decides the matching problem\<close>

abbreviation unseen :: "nat \<Rightarrow> bool list" where
  "unseen n \<equiv> replicate n False"

lemma seen_unseen [simp]: "seen (unseen n) = {}"
  by (auto simp: seen_def)

text \<open>After the requirements below \<open>i\<close> have been placed.\<close>

definition placed :: "nat \<Rightarrow> nat list list \<Rightarrow> nat \<Rightarrow> int list \<Rightarrow> bool" where
  "placed n adj i m \<longleftrightarrow> match_ok n adj m \<and> inj_on (nth m) (taken (unseen n) m) \<and>
     nth m ` taken (unseen n) m = int ` {..<i}"

lemma placed_initial: "placed n adj 0 (replicate n (-1))"
proof -
  have "taken (unseen n) (replicate n (-1)) = {}"
    by (auto simp: taken_def)
  then show ?thesis
    by (simp add: placed_def match_ok_def)
qed

lemma placed_complete:
  assumes "placed n adj (length adj) m"
  shows "\<exists>f. inj_on f {..<length adj} \<and> (\<forall>r<length adj. f r \<in> set (adj ! r))"
proof -
  let ?T = "taken (unseen n) m"
  let ?f = "\<lambda>r. inv_into ?T (nth m) (int r)"
  have img: "nth m ` ?T = int ` {..<length adj}" and ok: "match_ok n adj m"
    using assms by (simp_all add: placed_def)
  have f: "?f r \<in> ?T" "m ! ?f r = int r" if "r < length adj" for r
    using that img inv_into_into [of "int r" "nth m" ?T] f_inv_into_f [of "int r" "nth m" ?T] by auto
  have "?f r \<in> set (adj ! r)" if "r < length adj" for r
    using f [OF that] ok by (auto simp: match_ok_def taken_def)
  moreover have "inj_on ?f {..<length adj}"
    by (rule inj_onI) (metis f(2) lessThan_iff of_nat_eq_iff)
  ultimately show ?thesis by blast
qed

lemma placed_step:
  assumes "placed n adj i m" "adj_ok n adj" "i < length adj"
    and "tryAugmentDiskMatch i adj (unseen n) m = Some (True, v2, m2)"
  shows "placed n adj (Suc i) m2"
proof -
  have call: "augment adj (int i) (adj ! i) (unseen n) m = Some (True, v2, m2)"
    using assms(3,4) by (simp add: tryAugmentDiskMatch_def)
  have ok: "match_ok n adj m" "length m = n"
    using assms(1) by (simp_all add: placed_def match_ok_def)
  have "match_ok n adj m2"
    using augment_total [OF assms(2) ok(1) _ subset_refl refl assms(3), of "unseen n"] call by auto
  moreover have "extends (unseen n) m (int i) m2"
    using assms(1) ok(2) by (intro augment_success [OF call]) (auto simp: placed_def)
  ultimately show ?thesis
    using assms(1) by (simp add: placed_def extends_def lessThan_Suc)
qed

lemma placed_stuck:
  assumes "placed n adj i m" "i < length adj"
    and "tryAugmentDiskMatch i adj (unseen n) m = Some (False, v2, m2)"
  shows "\<nexists>f. inj_on f {..<length adj} \<and> (\<forall>r<length adj. f r \<in> set (adj ! r))"
proof
  assume "\<exists>f. inj_on f {..<length adj} \<and> (\<forall>r<length adj. f r \<in> set (adj ! r))"
  then obtain f where f: "inj_on f {..<length adj}" "\<forall>r<length adj. f r \<in> set (adj ! r)" by blast
  let ?V = "seen v2" and ?R = "insert i ((\<lambda>d. nat (m ! d)) ` seen v2)"
  have fail: "length v2 = n" "set (adj ! i) \<subseteq> ?V" "\<forall>d\<in>?V. m ! d \<noteq> -1 \<and> set (adj ! nat (m ! d)) \<subseteq> ?V"
    using augment_fail [of adj "int i" "adj ! i" "unseen n" m v2 m2] assms(2,3) by (auto simp: tryAugmentDiskMatch_def)
  have V: "?V \<subseteq> taken (unseen n) m"
    using fail(1,3) assms(1) by (auto simp: placed_def match_ok_def taken_def seen_def)
  then have small: "m ! d \<in> int ` {..<i}" if "d \<in> ?V" for d
    using that assms(1) by (auto simp: placed_def)
  have fin: "finite ?V" by (simp add: seen_def)
  have "inj_on (\<lambda>d. nat (m ! d)) ?V"
  proof (rule inj_onI)
    fix x y assume xy: "x \<in> ?V" "y \<in> ?V" "nat (m ! x) = nat (m ! y)"
    then have "m ! x = m ! y" using small [OF xy(1)] small [OF xy(2)] by auto
    then show "x = y" using assms(1) V xy(1,2) by (auto simp: placed_def dest: inj_onD)
  qed
  moreover have "i \<notin> (\<lambda>d. nat (m ! d)) ` ?V"
    using small by fastforce
  ultimately have "card ?R = Suc (card ?V)"
    using fin by (simp add: card_image)
  moreover have "?R \<subseteq> {..<length adj}"
    using small assms(2) by fastforce
  then have "inj_on f ?R"
    using f(1) by (rule inj_on_subset [rotated])
  moreover have "f ` ?R \<subseteq> ?V"
  proof
    fix x assume "x \<in> f ` ?R"
    then obtain r where "r \<in> ?R" "x = f r" by blast
    then show "x \<in> ?V"
      using f(2) fail(2,3) \<open>?R \<subseteq> {..<length adj}\<close> by blast
  qed
  ultimately show False
    using card_inj_on_le [of f ?R ?V] fin by simp
qed

lemma match_all_decides:
  assumes "placed n adj i m" "adj_ok n adj" "i \<le> length adj"
  shows "match_all adj n [i..<length adj] m = Some (\<exists>f. inj_on f {..<length adj} \<and> (\<forall>r<length adj. f r \<in> set (adj ! r)))"
  using assms
proof (induction "length adj - i" arbitrary: i m)
  case 0
  then show ?case using placed_complete [of n adj m] by auto
next
  case (Suc k)
  then have i: "i < length adj" by simp
  have "\<exists>b v2 m2. tryAugmentDiskMatch i adj (unseen n) m = Some (b, v2, m2)"
    using augment_total [OF Suc(4) _ _ subset_refl refl i, of m "unseen n"] Suc(3) i
    by (auto simp: tryAugmentDiskMatch_def placed_def)
  then obtain b v2 m2 where call: "tryAugmentDiskMatch i adj (unseen n) m = Some (b, v2, m2)" by blast
  show ?case
  proof (cases b)
    case True
    have "match_all adj n [Suc i..<length adj] m2 =
        Some (\<exists>f. inj_on f {..<length adj} \<and> (\<forall>r<length adj. f r \<in> set (adj ! r)))"
      using Suc(1) [of "Suc i"] Suc(2,4) i placed_step [OF Suc(3,4) i] call True by simp
    then show ?thesis
      using call True i by (simp add: upt_conv_Cons)
  next
    case False
    then show ?thesis
      using call i placed_stuck [OF Suc(3) i] by (simp add: upt_conv_Cons)
  qed
qed

text \<open>What the selector asks for: a disk of its own for every requirement.\<close>

definition disk_assignment ::
  "MachineHardwareDisk list \<Rightarrow> ClaimHardwareDiskSelector list \<Rightarrow> (nat \<Rightarrow> nat) \<Rightarrow> bool" where
  "disk_assignment disks reqs f \<longleftrightarrow> inj_on f {..<length reqs} \<and>
     (\<forall>i<length reqs. f i < length disks \<and> diskMatchesRequirement (disks ! f i) (reqs ! i))"

lemma adjacency_ok: "adj_ok (length disks) (adjacency disks reqs)"
  by (auto simp: adj_ok_def adjacency_def)

lemma adjacency_assignment:
  "inj_on f {..<length (adjacency disks reqs)} \<and> (\<forall>r<length (adjacency disks reqs). f r \<in> set (adjacency disks reqs ! r)) \<longleftrightarrow>
     disk_assignment disks reqs f"
  by (auto simp: adjacency_def disk_assignment_def)

lemma disksSatisfy_decides: "disksSatisfy disks reqs = Some (\<exists>f. disk_assignment disks reqs f)"
proof (cases "reqs = [] \<or> length reqs > length disks")
  case True
  have "\<not> disk_assignment disks reqs f" if "length reqs > length disks" for f
  proof
    assume "disk_assignment disks reqs f"
    then have "inj_on f {..<length reqs}" "f ` {..<length reqs} \<subseteq> {..<length disks}"
      by (auto simp: disk_assignment_def)
    then show False
      using card_inj_on_le [of f "{..<length reqs}" "{..<length disks}"] that by simp
  qed
  with True show ?thesis
    by (auto simp: disksSatisfy_def disk_assignment_def)
next
  case False
  have "match_all (adjacency disks reqs) (length disks) [0..<length (adjacency disks reqs)] (replicate (length disks) (-1)) =
      Some (\<exists>f. disk_assignment disks reqs f)"
    using match_all_decides [OF placed_initial adjacency_ok, of disks reqs] unfolding adjacency_assignment by simp
  moreover have "length (adjacency disks reqs) = length reqs"
    by (simp add: adjacency_def)
  ultimately show ?thesis
    using False by (auto simp: disksSatisfy_def)
qed

text \<open>
  The hardware selector of a claim accepts a machine exactly when
  the CPU and memory floors hold and every disk requirement can be given a disk of its own; the
  matching ends and never indexes out of range.
\<close>

theorem selector_needs_distinct_disks:
  "hardwareMatchesSelector hw sel = Some
     ((case hs_minCPUCount sel of None \<Rightarrow> True | Some n \<Rightarrow> n \<le> hw_cpuCount hw) \<and>
      (case hs_minMemoryBytes sel of None \<Rightarrow> True | Some n \<Rightarrow> n \<le> hw_memoryBytes hw) \<and>
      (\<exists>f. disk_assignment (hw_disks hw) (hs_disks sel) f))"
  by (auto simp: hardwareMatchesSelector_def disksSatisfy_decides split: option.splits)


end
