(* ===== verification/Claim_Controller.thy ===== *)
theory Claim_Controller
  imports Claim_Match Machine_Controller
begin

text \<open>
  internal/controller/machineclaim_controller.go: the reconciler that binds a MachineClaim to a
  Machine by writing spec.claimRef on it, keeps the claim's status in step with the Machine, and
  clears the binding when the claim goes away. One definition per function, in the same
  state-and-error style as the Machine reconciler. \<open>c_selector\<close> stands for
  \<^verbatim>\<open>metav1.LabelSelectorAsSelector\<close> of apimachinery: the predicate on labels a selector denotes, or
  its parse error.
\<close>

section \<open>The reconciler's environment\<close>

record 's claim_env =
  c_kube :: "'s kube"
  c_lib :: libs
  c_now :: time
  c_selector :: "MachineClaimSelector \<Rightarrow> kerr + ((string \<times> string) list \<Rightarrow> bool)"

definition machineClaimNoCandidateRequeueInterval :: duration where
  "machineClaimNoCandidateRequeueInterval = 30 * second"

abbreviation upd_claim_status :: "(MachineClaimStatus \<Rightarrow> MachineClaimStatus) \<Rightarrow> MachineClaim \<Rightarrow> MachineClaim" where
  "upd_claim_status f c \<equiv> c\<lparr>cl_status := f (cl_status c)\<rparr>"

abbreviation cl_key :: "MachineClaim \<Rightarrow> key" where
  "cl_key c \<equiv> (cl_namespace c, cl_name c)"

definition claim_ref :: "MachineClaim \<Rightarrow> MachineClaimReference" where
  "claim_ref claim = \<lparr>cr_name = cl_name claim, cr_namespace = cl_namespace claim, cr_uid = cl_uid claim\<rparr>"

definition set_claim_condition :: "'s claim_env \<Rightarrow> string \<Rightarrow> cond_status \<Rightarrow> string \<Rightarrow> string \<Rightarrow> MachineClaim \<Rightarrow> MachineClaim" where
  "set_claim_condition env t st reason msg claim =
     upd_claim_status (\<lambda>s. s\<lparr>cst_conditions := setStatusCondition (c_lib env) (cst_conditions s)
       \<lparr>c_type = t, c_status = st, c_observedGeneration = cl_generation claim, c_reason = reason, c_message = msg\<rparr>\<rparr>) claim"

definition update_claim_status :: "'s claim_env \<Rightarrow> string \<Rightarrow> MachineClaim \<Rightarrow> ('s, MachineClaim) act" where
  "update_claim_status env ctx claim =
     wrapK ctx (kcall (UpdateClaimStatus claim) (k_updateClaimStatus (c_kube env) claim))"

section \<open>Finding and clearing a binding\<close>

definition claimRefMatches :: "MachineClaimReference option \<Rightarrow> MachineClaim \<Rightarrow> bool" where
  "claimRefMatches ref claim \<longleftrightarrow> (case ref of None \<Rightarrow> False
     | Some r \<Rightarrow> cr_name r = cl_name claim \<and> cr_namespace r = cl_namespace claim \<and> cr_uid r = cl_uid claim)"

definition findBoundMachine :: "'s claim_env \<Rightarrow> MachineClaim \<Rightarrow> ('s, Machine option) act" where
  "findBoundMachine env claim =
     (let name = cst_machineName (cl_status claim) in
      if name \<noteq> '''' then
        (let key = (cl_namespace claim, name) in
         bindK (wrapK ''getting bound machine'' (getOpt (kcall (GetMachine key) (k_getMachine (c_kube env) key))))
           (\<lambda>r. case r of
               None \<Rightarrow> ret None
             | Some m \<Rightarrow> ret (if claimRefMatches (ms_claimRef (m_spec m)) claim then Some m else None)))
      else
        bindK (wrapK ''listing machines''
            (kcall (ListMachines (cl_namespace claim)) (k_listMachines (c_kube env) (cl_namespace claim))))
          (\<lambda>ms. ret (find (\<lambda>m. claimRefMatches (ms_claimRef (m_spec m)) claim) ms)))"

definition clearClaimRef :: "'s claim_env \<Rightarrow> Machine \<Rightarrow> ('s, unit) act" where
  "clearClaimRef env m =
     bindK (wrapK ''clearing claimRef'' (kcall (ClearClaimRef (m_key m)) (k_clearClaimRef (c_kube env) (m_key m))))
       (\<lambda>_. ret ())"

fun clear_each :: "'s claim_env \<Rightarrow> string \<Rightarrow> string \<Rightarrow> Machine list \<Rightarrow> ('s, unit) act" where
  "clear_each env ns name [] = ret ()"
| "clear_each env ns name (m # ms) =
     (case ms_claimRef (m_spec m) of
        None \<Rightarrow> clear_each env ns name ms
      | Some ref \<Rightarrow>
          if cr_name ref \<noteq> name \<or> cr_namespace ref \<noteq> ns then clear_each env ns name ms
          else bindK (clearClaimRef env m) (\<lambda>_.
               bindK (note_call (Event ''ClaimLost'')) (\<lambda>_. clear_each env ns name ms)))"

definition clearOrphanedClaimRefs :: "'s claim_env \<Rightarrow> string \<Rightarrow> string \<Rightarrow> ('s, ctrl_result) act" where
  "clearOrphanedClaimRefs env ns name =
     bindK (wrapK ''listing machines to find a claimRef orphaned by the deletion of a claim''
         (kcall (ListMachines ns) (k_listMachines (c_kube env) ns)))
       (\<lambda>ms. bindK (clear_each env ns name ms) (\<lambda>_. ret noRequeue))"

definition onDeleteClaim :: "'s claim_env \<Rightarrow> MachineClaim \<Rightarrow> ('s, ctrl_result) act" where
  "onDeleteClaim env claim =
     (if \<not> containsFinalizer (c_lib env) (cl_finalizers claim) MachineClaimFinalizer then ret noRequeue
      else
        bindK (findBoundMachine env claim) (\<lambda>r.
        bindK (case r of None \<Rightarrow> ret () | Some m \<Rightarrow> clearClaimRef env m) (\<lambda>_.
          let claim1 = claim\<lparr>cl_finalizers := snd (removeFinalizer (c_lib env) (cl_finalizers claim) MachineClaimFinalizer)\<rparr> in
          bindK (kcall (UpdateClaim claim1) (k_updateClaim (c_kube env) claim1)) (\<lambda>_. ret noRequeue))))"

section \<open>A bound claim\<close>

definition recordLostBinding :: "'s claim_env \<Rightarrow> MachineClaim \<Rightarrow> string \<Rightarrow> ('s, ctrl_result) act" where
  "recordLostBinding env claim reason =
     (let claim1 = set_claim_condition env MachineClaimConditionBound CondFalse ''LostBinding'' reason
            (upd_claim_status (\<lambda>s. s\<lparr>cst_phase := ClaimPending, cst_machineName := '''', cst_boundAt := None\<rparr>) claim) in
      bindK (update_claim_status env ''recording lost binding'' claim1) (\<lambda>_.
      bindK (note_call (Event ''LostBinding'')) (\<lambda>_. ret requeueNow)))"

text \<open>The value of the Ready condition and the three places where the mirror may change the status.\<close>

definition ready_of :: "Machine \<Rightarrow> cond_status \<times> string \<times> string" where
  "ready_of m =
     (if m_state m = Provisioned
      then (CondTrue, ''MachineProvisioned'', ''machine '' @ go_quote (m_name m) @ '' reached Provisioned'')
      else (CondFalse, ''MachineNotProvisioned'', ''machine '' @ go_quote (m_name m) @ '' has not reached Provisioned''))"

definition mirror_current :: "Machine \<Rightarrow> MachineClaim \<times> bool \<Rightarrow> MachineClaim \<times> bool" where
  "mirror_current m = (\<lambda>(claim, changed).
     if nameRefEqual (cst_currentRunRef (cl_status claim)) (currentRunRef (m_status m)) then (claim, changed)
     else (upd_claim_status (\<lambda>s. s\<lparr>cst_currentRunRef := currentRunRef (m_status m)\<rparr>) claim, True))"

definition mirror_last :: "Machine \<Rightarrow> MachineClaim \<times> bool \<Rightarrow> MachineClaim \<times> bool" where
  "mirror_last m = (\<lambda>(claim, changed).
     if nameRefEqual (cst_lastSuccessfulRunRef (cl_status claim)) (lastSuccessfulRunRef (m_status m)) then (claim, changed)
     else (upd_claim_status (\<lambda>s. s\<lparr>cst_lastSuccessfulRunRef := lastSuccessfulRunRef (m_status m)\<rparr>) claim, True))"

definition mirror_ready :: "'s claim_env \<Rightarrow> Machine \<Rightarrow> MachineClaim \<times> bool \<Rightarrow> MachineClaim \<times> bool" where
  "mirror_ready env m = (\<lambda>(claim, changed). case ready_of m of (status, reason, message) \<Rightarrow>
     if (case findStatusCondition (c_lib env) (cst_conditions (cl_status claim)) MachineClaimConditionReady of
           None \<Rightarrow> True
         | Some c \<Rightarrow> c_status c \<noteq> status \<or> c_reason c \<noteq> reason \<or> c_observedGeneration c \<noteq> cl_generation claim)
     then (set_claim_condition env MachineClaimConditionReady status reason message claim, True)
     else (claim, changed))"

definition mirror_bound :: "'s claim_env \<Rightarrow> Machine \<Rightarrow> MachineClaim \<times> bool \<Rightarrow> MachineClaim \<times> bool" where
  "mirror_bound env m = (\<lambda>(claim, changed).
     if isStatusConditionTrue (c_lib env) (cst_conditions (cl_status claim)) MachineClaimConditionBound then (claim, changed)
     else (set_claim_condition env MachineClaimConditionBound CondTrue ''Bound'' (''bound to machine '' @ go_quote (m_name m)) claim,
           True))"

definition mirrored :: "'s claim_env \<Rightarrow> Machine \<Rightarrow> MachineClaim \<Rightarrow> MachineClaim \<times> bool" where
  "mirrored env m claim = mirror_bound env m (mirror_ready env m (mirror_last m (mirror_current m (claim, False))))"

definition mirrorMachineStatus :: "'s claim_env \<Rightarrow> MachineClaim \<Rightarrow> Machine \<Rightarrow> ('s, ctrl_result) act" where
  "mirrorMachineStatus env claim m =
     (case mirrored env m claim of (claim1, changed) \<Rightarrow>
        if \<not> changed then ret noRequeue
        else bindK (update_claim_status env ''mirroring machine status'' claim1) (\<lambda>_. ret noRequeue))"

definition reconcileBound :: "'s claim_env \<Rightarrow> MachineClaim \<Rightarrow> ('s, ctrl_result) act" where
  "reconcileBound env claim =
     (let name = cst_machineName (cl_status claim); key = (cl_namespace claim, name) in
      bindK (wrapK ''getting bound machine'' (getOpt (kcall (GetMachine key) (k_getMachine (c_kube env) key)))) (\<lambda>r. case r of
          None \<Rightarrow> recordLostBinding env claim (''bound machine '' @ go_quote name @ '' no longer exists'')
        | Some m \<Rightarrow>
            if \<not> claimRefMatches (ms_claimRef (m_spec m)) claim then
              recordLostBinding env claim (''machine '' @ go_quote name @ '' no longer carries this claim's claimRef'')
            else mirrorMachineStatus env claim m))"

section \<open>A claim without a binding\<close>

definition bound_claim :: "'s claim_env \<Rightarrow> Machine \<Rightarrow> time option \<Rightarrow> MachineClaim \<Rightarrow> MachineClaim" where
  "bound_claim env m at claim =
     set_claim_condition env MachineClaimConditionBound CondTrue ''Bound'' (''bound to machine '' @ go_quote (m_name m))
       (upd_claim_status (\<lambda>s. s\<lparr>cst_phase := ClaimBound, cst_machineName := m_name m, cst_boundAt := at\<rparr>) claim)"

definition adoptExistingBinding :: "'s claim_env \<Rightarrow> MachineClaim \<Rightarrow> ('s, bool) act" where
  "adoptExistingBinding env claim =
     bindK (findBoundMachine env claim) (\<lambda>r. case r of
         None \<Rightarrow> ret False
       | Some m \<Rightarrow>
           (let at = (case cst_boundAt (cl_status claim) of None \<Rightarrow> Some (c_now env) | Some t \<Rightarrow> Some t) in
            bindK (update_claim_status env ''recording bound status'' (bound_claim env m at claim)) (\<lambda>_. ret True)))"

definition markNoCandidate :: "'s claim_env \<Rightarrow> MachineClaim \<Rightarrow> string \<Rightarrow> ('s, ctrl_result) act" where
  "markNoCandidate env claim message =
     bindK (update_claim_status env ''recording no matching machine''
         (set_claim_condition env MachineClaimConditionBound CondFalse ''NoMatchingMachine'' message
           (upd_claim_status (cst_phase_update (\<lambda>_. ClaimPending)) claim)))
       (\<lambda>_. ret (requeueIn machineClaimNoCandidateRequeueInterval))"

definition markFailed :: "'s claim_env \<Rightarrow> MachineClaim \<Rightarrow> string \<Rightarrow> string \<Rightarrow> ('s, ctrl_result) act" where
  "markFailed env claim reason message =
     bindK (update_claim_status env ''recording failed phase''
         (set_claim_condition env MachineClaimConditionBound CondFalse reason message
           (upd_claim_status (cst_phase_update (\<lambda>_. ClaimFailed)) claim)))
       (\<lambda>_. bindK (note_call (Event reason)) (\<lambda>_. ret noRequeue))"

definition machineIsFreeAndAvailable :: "Machine \<Rightarrow> bool" where
  "machineIsFreeAndAvailable m \<longleftrightarrow> ms_claimRef (m_spec m) = None \<and> m_state m = Available"

definition with_claimRef :: "MachineClaim \<Rightarrow> Machine \<Rightarrow> Machine" where
  "with_claimRef claim m = m\<lparr>m_spec := (m_spec m)\<lparr>ms_claimRef := Some (claim_ref claim)\<rparr>\<rparr>"

definition tryBind :: "'s claim_env \<Rightarrow> MachineClaim \<Rightarrow> Machine \<Rightarrow> ('s, bool) act" where
  "tryBind env claim m =
     (let m1 = with_claimRef claim m in
      bindK (attempt (kcall (UpdateMachine m1) (k_updateMachine (c_kube env) m1))) (\<lambda>r. case r of
          Inl e \<Rightarrow> if isConflict e then ret False else raise (Wrapped ''binding claimRef'' e)
        | Inr m2 \<Rightarrow>
            bindK (update_claim_status env ''recording bound status'' (bound_claim env m2 (Some (c_now env)) claim)) (\<lambda>_.
            bindK (note_call (Event ''Bound'')) (\<lambda>_. ret True))))"

definition reconcilePendingByName :: "'s claim_env \<Rightarrow> MachineClaim \<Rightarrow> ('s, ctrl_result) act" where
  "reconcilePendingByName env claim =
     (let name = cs_machineName (cl_spec claim); key = (cl_namespace claim, name) in
      bindK (wrapK ''getting machine'' (getOpt (kcall (GetMachine key) (k_getMachine (c_kube env) key)))) (\<lambda>r. case r of
          None \<Rightarrow> markFailed env claim ''MachineNotFound''
            (''spec.machineName names Machine '' @ go_quote name @ '', which does not exist'')
        | Some m \<Rightarrow>
            if \<not> machineIsFreeAndAvailable m then
              markNoCandidate env claim (''machine '' @ go_quote name @ '' is not Available, or is already bound to another claim'')
            else
              bindK (tryBind env claim m) (\<lambda>bound.
                if bound then ret requeueNow
                else markNoCandidate env claim (''machine '' @ go_quote name @ '' was bound by another MachineClaim first''))))"

definition machineMatchesHardware :: "'s claim_env \<Rightarrow> Machine \<Rightarrow> ClaimHardwareSelector \<Rightarrow> ('s, bool) act" where
  "machineMatchesHardware env m sel =
     bindK (wrapK ''getting MachineHardware'' (getOpt (kcall (GetHardware (m_key m)) (k_getHardware (c_kube env) (m_key m)))))
       (\<lambda>r. case r of
           None \<Rightarrow> ret False
         | Some hw \<Rightarrow>
             (case hardwareMatchesSelector (hw_spec hw) sel of
                None \<Rightarrow> raise (GoPanic ''index out of range'')
              | Some b \<Rightarrow> ret b))"

fun filter_candidates :: "'s claim_env \<Rightarrow> ((string \<times> string) list \<Rightarrow> bool) \<Rightarrow> ClaimHardwareSelector option \<Rightarrow>
    Machine list \<Rightarrow> ('s, Machine list) act" where
  "filter_candidates env matches hwsel [] = ret []"
| "filter_candidates env matches hwsel (m # ms) =
     (if \<not> machineIsFreeAndAvailable m then filter_candidates env matches hwsel ms
      else if \<not> matches (m_labels m) then filter_candidates env matches hwsel ms
      else bindK (case hwsel of None \<Rightarrow> ret True | Some sel \<Rightarrow> machineMatchesHardware env m sel) (\<lambda>ok.
             bindK (filter_candidates env matches hwsel ms) (\<lambda>rest. ret (if ok then m # rest else rest))))"

text \<open>The candidates are sorted by name; names are unique in a namespace, so the order is determined.\<close>

definition matchingCandidates :: "'s claim_env \<Rightarrow> MachineClaim \<Rightarrow> MachineClaimSelector \<Rightarrow> ('s, Machine list) act" where
  "matchingCandidates env claim sel =
     (case c_selector env sel of
        Inl e \<Rightarrow> raise (Wrapped ''parsing spec.selector'' e)
      | Inr matches \<Rightarrow>
          bindK (wrapK ''listing machines''
              (kcall (ListMachines (cl_namespace claim)) (k_listMachines (c_kube env) (cl_namespace claim))))
            (\<lambda>ms. bindK (filter_candidates env matches (sel_hardware sel) ms) (\<lambda>cs. ret (sort_key m_name cs))))"

fun bind_first :: "'s claim_env \<Rightarrow> MachineClaim \<Rightarrow> Machine list \<Rightarrow> ('s, bool) act" where
  "bind_first env claim [] = ret False"
| "bind_first env claim (m # ms) =
     bindK (tryBind env claim m) (\<lambda>bound. if bound then ret True else bind_first env claim ms)"

definition reconcilePendingBySelector :: "'s claim_env \<Rightarrow> MachineClaim \<Rightarrow> MachineClaimSelector \<Rightarrow> ('s, ctrl_result) act" where
  "reconcilePendingBySelector env claim sel =
     bindK (matchingCandidates env claim sel) (\<lambda>cs.
     bindK (bind_first env claim cs) (\<lambda>bound.
       if bound then ret requeueNow
       else markNoCandidate env claim ''no Machine currently matches spec.selector''))"

definition reconcilePending :: "'s claim_env \<Rightarrow> MachineClaim \<Rightarrow> ('s, ctrl_result) act" where
  "reconcilePending env claim =
     bindK (adoptExistingBinding env claim) (\<lambda>adopted.
       if adopted then ret requeueNow
       else if cs_machineName (cl_spec claim) \<noteq> '''' then reconcilePendingByName env claim
       else case cs_selector (cl_spec claim) of
           Some sel \<Rightarrow> reconcilePendingBySelector env claim sel
         | None \<Rightarrow> markNoCandidate env claim ''spec gives neither machineName nor selector: nothing can bind this claim'')"

definition onChangeClaim :: "'s claim_env \<Rightarrow> MachineClaim \<Rightarrow> ('s, ctrl_result) act" where
  "onChangeClaim env claim =
     (if cst_phase (cl_status claim) = ClaimBound then reconcileBound env claim else reconcilePending env claim)"

definition reconcileClaim :: "'s claim_env \<Rightarrow> MachineClaim \<Rightarrow> ('s, ctrl_result) act" where
  "reconcileClaim env claim =
     (if cl_deletionTimestamp claim \<noteq> None then onDeleteClaim env claim
      else if \<not> containsFinalizer (c_lib env) (cl_finalizers claim) MachineClaimFinalizer then
        (let claim1 = claim\<lparr>cl_finalizers := snd (addFinalizer (c_lib env) (cl_finalizers claim) MachineClaimFinalizer)\<rparr> in
         bindK (kcall (UpdateClaim claim1) (k_updateClaim (c_kube env) claim1)) (\<lambda>_. ret requeueNow))
      else onChangeClaim env claim)"

definition ReconcileClaim :: "'s claim_env \<Rightarrow> key \<Rightarrow> ('s, ctrl_result) act" where
  "ReconcileClaim env key =
     bindK (getOpt (kcall (GetClaim key) (k_getClaim (c_kube env) key))) (\<lambda>r. case r of
         None \<Rightarrow> clearOrphanedClaimRefs env (fst key) (snd key)
       | Some claim \<Rightarrow> reconcileClaim env claim)"

section \<open>Watches\<close>

definition mapMachineToClaims :: "'s claim_env \<Rightarrow> Machine \<Rightarrow> ('s, key list) act" where
  "mapMachineToClaims env m =
     (case ms_claimRef (m_spec m) of
        Some ref \<Rightarrow> ret [(cr_namespace ref, cr_name ref)]
      | None \<Rightarrow>
          if m_state m \<noteq> Available then ret []
          else bindK (attempt (kcall (ListClaims (m_namespace m)) (k_listClaims (c_kube env) (m_namespace m)))) (\<lambda>r. case r of
                 Inl e \<Rightarrow> ret []
               | Inr claims \<Rightarrow> ret (map cl_key (filter (\<lambda>c. cst_phase (cl_status c) = ClaimPending) claims))))"

end
