(* ===== verification/Server_Logic.thy ===== *)
theory Server_Logic
  imports Kube
begin

text \<open>
  A Hoare logic over the state of the API server. \<open>kspec\<close> (Kube) speaks of the requests a handler
  makes, for any server; \<open>hoare R P m Q E\<close> speaks of the server: from a state that satisfies \<open>P\<close>, the
  handler moves it along steps of \<open>R\<close>, ends in \<open>Q x\<close> when it returns \<open>x\<close> and in \<open>E\<close> when it returns an
  error. One step of \<open>R\<close> is one request, together with whatever other clients did meanwhile.
\<close>

named_theorems hoare_intros \<open>rules of the server logic\<close>

fun post :: "('a \<Rightarrow> 's \<Rightarrow> bool) \<Rightarrow> ('s \<Rightarrow> bool) \<Rightarrow> kerr + 'a \<Rightarrow> 's \<Rightarrow> bool" where
  "post Q E (Inr x) s = Q x s"
| "post Q E (Inl e) s = E s"

lemma post_partial [simp]: "post Q E (Inr x) = Q x" "post Q E (Inl e) = E"
  by (simp_all add: fun_eq_iff)

definition hoare ::
  "('s \<Rightarrow> 's \<Rightarrow> bool) \<Rightarrow> ('s \<Rightarrow> bool) \<Rightarrow> ('s, 'a) act \<Rightarrow> ('a \<Rightarrow> 's \<Rightarrow> bool) \<Rightarrow> ('s \<Rightarrow> bool) \<Rightarrow> bool" where
  "hoare R P m Q E \<longleftrightarrow> (\<forall>w r w'. m w = (r, w') \<longrightarrow> P (srv w) \<longrightarrow> R\<^sup>*\<^sup>* (srv w) (srv w') \<and> post Q E r (srv w'))"

lemma hoare_ret [hoare_intros]: "(\<And>s. P s \<Longrightarrow> Q x s) \<Longrightarrow> hoare R P (ret x) Q E"
  by (simp add: hoare_def ret_def)

lemma hoare_raise [hoare_intros]: "(\<And>s. P s \<Longrightarrow> E s) \<Longrightarrow> hoare R P (raise e) Q E"
  by (simp add: hoare_def raise_def)

lemma hoare_note_call [hoare_intros]: "(\<And>s. P s \<Longrightarrow> Q () s) \<Longrightarrow> hoare R P (note_call c) Q E"
  by (simp add: hoare_def note_call_def)

lemma hoare_kcall:
  assumes "\<And>s r s'. P s \<Longrightarrow> op s = (r, s') \<Longrightarrow> R s s' \<and> post Q E r s'"
  shows "hoare R P (kcall c op) Q E"
  using assms by (fastforce simp: hoare_def kcall_def split: prod.splits)

lemma hoare_bind:
  assumes "hoare R P m B E" and "\<And>x. hoare R (B x) (f x) Q E"
  shows "hoare R P (bindK m f) Q E"
  unfolding hoare_def
proof (intro allI impI)
  fix w w'' :: "'a world" and r assume run: "bindK m f w = (r, w'')" and "P (srv w)"
  obtain q w' where mw: "m w = (q, w')" by fastforce
  with assms(1) \<open>P (srv w)\<close> have m: "R\<^sup>*\<^sup>* (srv w) (srv w')" "post B E q (srv w')"
    unfolding hoare_def by blast+
  show "R\<^sup>*\<^sup>* (srv w) (srv w'') \<and> post Q E r (srv w'')"
  proof (cases q)
    case (Inl e)
    with m mw run show ?thesis by (auto simp: bindK_def)
  next
    case (Inr x)
    with mw run have "f x w' = (r, w'')"
      by (simp add: bindK_def)
    with m Inr assms(2) [of x] have "R\<^sup>*\<^sup>* (srv w') (srv w'')" "post Q E r (srv w'')"
      unfolding hoare_def by auto
    with m(1) show ?thesis by auto
  qed
qed

lemma hoare_wrap [hoare_intros]: "hoare R P m Q E \<Longrightarrow> hoare R P (wrapK c m) Q E"
  unfolding hoare_def wrapK_def by (auto split: prod.splits sum.splits) force+

lemma hoare_attempt: "hoare R P m Q E \<Longrightarrow> hoare R P (attempt m) (post Q E) E"
  unfolding hoare_def attempt_def by (auto split: prod.splits sum.splits if_splits) force+

lemma hoare_getOpt:
  assumes "hoare R P m Q E"
  shows "hoare R P (getOpt m) (\<lambda>r s. case r of Some x \<Rightarrow> Q x s | None \<Rightarrow> E s) E"
  unfolding getOpt_def
  by (rule hoare_bind [OF hoare_attempt [OF assms]]) (auto split: sum.splits intro!: hoare_ret hoare_raise)

lemma hoare_if [hoare_intros]: "(b \<Longrightarrow> hoare R P m Q E) \<Longrightarrow> (\<not> b \<Longrightarrow> hoare R P n Q E) \<Longrightarrow> hoare R P (if b then m else n) Q E"
  by simp


lemma hoare_weaken:
  assumes "hoare R P m Q E" "\<And>s. P' s \<Longrightarrow> P s" "\<And>x s. Q x s \<Longrightarrow> Q' x s" "\<And>s. E s \<Longrightarrow> E' s"
  shows "hoare R P' m Q' E'"
  unfolding hoare_def
proof (intro allI impI)
  fix w w' :: "'a world" and r assume "m w = (r, w')" "P' (srv w)"
  with assms(1,2) have "R\<^sup>*\<^sup>* (srv w) (srv w')" "post Q E r (srv w')"
    unfolding hoare_def by blast+
  then show "R\<^sup>*\<^sup>* (srv w) (srv w') \<and> post Q' E' r (srv w')"
    using assms(3,4) by (cases r) auto
qed

text \<open>A fact no step destroys is kept beside the others.\<close>

lemma hoare_frame:
  assumes "hoare R P m Q E" and "\<And>s s'. R s s' \<Longrightarrow> S s \<Longrightarrow> S s'"
  shows "hoare R (\<lambda>s. P s \<and> S s) m (\<lambda>x s. Q x s \<and> S s) E"
proof -
  have "S s'" if "R\<^sup>*\<^sup>* s s'" "S s" for s s'
    using that by (induction rule: rtranclp_induct) (auto intro: assms(2))
  note S = this
  show ?thesis
    unfolding hoare_def
  proof (intro allI impI)
    fix w w' :: "'a world" and r assume "m w = (r, w')" "P (srv w) \<and> S (srv w)"
    with assms(1) S have "R\<^sup>*\<^sup>* (srv w) (srv w')" "post Q E r (srv w')" "S (srv w')"
      unfolding hoare_def by blast+
    then show "R\<^sup>*\<^sup>* (srv w) (srv w') \<and> post (\<lambda>x s. Q x s \<and> S s) E r (srv w')"
      by (cases r) auto
  qed
qed

lemma hoareD: "hoare R P m Q E \<Longrightarrow> P (srv w) \<Longrightarrow> R\<^sup>*\<^sup>* (srv w) (srv (snd (m w)))"
  unfolding hoare_def by (metis prod.collapse)

end
