(* ===== verification/Claim_Binding.thy ===== *)
theory Claim_Binding
  imports Claim_Controller Server_Logic
begin

text \<open>
  A binding is exclusive: whatever other clients do between two requests and however stale the
  reads of the reconciler are, no pass over a claim replaces the claimRef another claim has on a
  Machine. What is relied on is the optimistic concurrency of the API server: a version of an
  object is identified by its resourceVersion, and an Update is accepted only on the version it was
  made from.
\<close>

section \<open>Optimistic concurrency\<close>

text \<open>
  A view of the server: the stored Machines, every version of a Machine that was ever stored (reads
  may return an old one), and an invariant of the server's own.
\<close>

record 's view =
  v_stored :: "'s \<Rightarrow> key \<Rightarrow> Machine option"
  v_hist :: "'s \<Rightarrow> Machine set"
  v_inv :: "'s \<Rightarrow> bool"

definition honest :: "'s view \<Rightarrow> 's \<Rightarrow> bool" where
  "honest V s \<longleftrightarrow> v_inv V s \<and>
     (\<forall>k m. v_stored V s k = Some m \<longrightarrow> m \<in> v_hist V s \<and> m_key m = k) \<and>
     (\<forall>m\<in>v_hist V s. \<forall>m'\<in>v_hist V s. m_key m = m_key m' \<and> m_resourceVersion m = m_resourceVersion m' \<longrightarrow> m = m')"

text \<open>One step of the cluster in which no binding is replaced by another one.\<close>

definition keeps_bindings :: "'s view \<Rightarrow> 's \<Rightarrow> 's \<Rightarrow> bool" where
  "keeps_bindings V s s' \<longleftrightarrow> v_hist V s \<subseteq> v_hist V s' \<and> honest V s' \<and>
     (\<forall>k m m' c c'. v_stored V s k = Some m \<and> ms_claimRef (m_spec m) = Some c \<and>
        v_stored V s' k = Some m' \<and> ms_claimRef (m_spec m') = Some c' \<longrightarrow> c' = c)"

text \<open>
  The documented behaviour of the server. Every request but an Update of a Machine is a step that
  keeps bindings (the merge patch that clears a claimRef does); a read returns a version that was
  stored; an accepted Update replaces the version it names by the new object.
\<close>

definition steps_kept :: "'s view \<Rightarrow> ('s \<Rightarrow> (kerr + 'a) \<times> 's) \<Rightarrow> bool" where
  "steps_kept V op \<longleftrightarrow> (\<forall>s r s'. honest V s \<longrightarrow> op s = (r, s') \<longrightarrow> keeps_bindings V s s')"

definition optimistic_server :: "'s kube \<Rightarrow> 's view \<Rightarrow> bool" where
  "optimistic_server K V \<longleftrightarrow>
     (\<forall>k s r s'. honest V s \<longrightarrow> k_getMachine K k s = (r, s') \<longrightarrow>
        keeps_bindings V s s' \<and> (\<forall>m. r = Inr m \<longrightarrow> m \<in> v_hist V s')) \<and>
     (\<forall>ns s r s'. honest V s \<longrightarrow> k_listMachines K ns s = (r, s') \<longrightarrow>
        keeps_bindings V s s' \<and> (\<forall>ms. r = Inr ms \<longrightarrow> set ms \<subseteq> v_hist V s')) \<and>
     (\<forall>k. steps_kept V (k_getClaim K k)) \<and> (\<forall>k. steps_kept V (k_getHardware K k)) \<and>
     (\<forall>c. steps_kept V (k_updateClaim K c)) \<and> (\<forall>c. steps_kept V (k_updateClaimStatus K c)) \<and>
     (\<forall>k. steps_kept V (k_clearClaimRef K k)) \<and>
     (\<forall>m s e s'. honest V s \<longrightarrow> k_updateMachine K m s = (Inl e, s') \<longrightarrow> keeps_bindings V s s') \<and>
     (\<forall>m s m2 s'. honest V s \<longrightarrow> k_updateMachine K m s = (Inr m2, s') \<longrightarrow>
        (\<exists>cur. v_stored V s (m_key m) = Some cur \<and> m_resourceVersion cur = m_resourceVersion m) \<and>
        v_stored V s' = (v_stored V s)(m_key m \<mapsto> m2) \<and> ms_claimRef (m_spec m2) = ms_claimRef (m_spec m) \<and>
        v_hist V s \<subseteq> v_hist V s' \<and> honest V s')"

lemma optimistic_getMachine:
  "optimistic_server K V \<Longrightarrow> honest V s \<Longrightarrow> k_getMachine K k s = (r, s') \<Longrightarrow>
     keeps_bindings V s s' \<and> (\<forall>m. r = Inr m \<longrightarrow> m \<in> v_hist V s')"
  unfolding optimistic_server_def by (elim conjE) metis

lemma optimistic_listMachines:
  "optimistic_server K V \<Longrightarrow> honest V s \<Longrightarrow> k_listMachines K ns s = (r, s') \<Longrightarrow>
     keeps_bindings V s s' \<and> (\<forall>ms. r = Inr ms \<longrightarrow> set ms \<subseteq> v_hist V s')"
  unfolding optimistic_server_def by (elim conjE) metis

lemma keeps_bindings_honest: "keeps_bindings V s s' \<Longrightarrow> honest V s'"
  by (simp add: keeps_bindings_def)

lemma keeps_bindings_hist: "keeps_bindings V s s' \<Longrightarrow> m \<in> v_hist V s \<Longrightarrow> m \<in> v_hist V s'"
  by (auto simp: keeps_bindings_def)

section \<open>The requests of a claim pass\<close>

text \<open>\<open>sim env V P m Q\<close>: the judgement for a handler of this reconciler.\<close>

abbreviation sim :: "'s view \<Rightarrow> ('s \<Rightarrow> bool) \<Rightarrow> ('s, 'a) act \<Rightarrow> ('a \<Rightarrow> 's \<Rightarrow> bool) \<Rightarrow> bool" where
  "sim V P m Q \<equiv> hoare (keeps_bindings V) P m Q (honest V)"

lemma sim_quiet: "steps_kept V op \<Longrightarrow> sim V (honest V) (kcall c op) (\<lambda>_. honest V)"
  unfolding steps_kept_def
  by (rule hoare_kcall) (metis keeps_bindings_honest post.elims)

lemma sim_getMachine:
  assumes "optimistic_server K V"
  shows "sim V (honest V) (getOpt (kcall c (k_getMachine K k)))
    (\<lambda>r s. honest V s \<and> (\<forall>m. r = Some m \<longrightarrow> m \<in> v_hist V s))"
proof -
  have "sim V (honest V) (kcall c (k_getMachine K k)) (\<lambda>m s. honest V s \<and> m \<in> v_hist V s)"
  proof (rule hoare_kcall)
    fix s r s' assume "honest V s" "k_getMachine K k s = (r, s')"
    from optimistic_getMachine [OF assms this] show "keeps_bindings V s s' \<and> post (\<lambda>m s. honest V s \<and> m \<in> v_hist V s) (honest V) r s'"
      by (cases r) (auto simp: keeps_bindings_honest)
  qed
  from hoare_getOpt [OF this] show ?thesis
    by (rule hoare_weaken) (auto split: option.splits)
qed

lemma sim_listMachines:
  assumes "optimistic_server K V"
  shows "sim V (honest V) (kcall c (k_listMachines K ns)) (\<lambda>ms s. honest V s \<and> set ms \<subseteq> v_hist V s)"
proof (rule hoare_kcall)
  fix s r s' assume "honest V s" "k_listMachines K ns s = (r, s')"
  from optimistic_listMachines [OF assms this]
  show "keeps_bindings V s s' \<and> post (\<lambda>ms s. honest V s \<and> set ms \<subseteq> v_hist V s) (honest V) r s'"
    by (cases r) (auto simp: keeps_bindings_honest)
qed

text \<open>
  The one request that could take a Machine away from a claim: an Update made from a version
  without a claimRef is accepted only when that version is the stored one.
\<close>

lemma sim_bind_update:
  assumes "optimistic_server K V" "machineIsFreeAndAvailable m"
  shows "sim V (\<lambda>s. honest V s \<and> m \<in> v_hist V s) (kcall c (k_updateMachine K (with_claimRef claim m))) (\<lambda>_. honest V)"
proof (rule hoare_kcall)
  fix s r s' assume pre: "honest V s \<and> m \<in> v_hist V s" and run: "k_updateMachine K (with_claimRef claim m) s = (r, s')"
  show "keeps_bindings V s s' \<and> post (\<lambda>_. honest V) (honest V) r s'"
  proof (cases r)
    case (Inl e)
    then have "keeps_bindings V s s'"
      using assms(1) pre run unfolding optimistic_server_def by blast
    then show ?thesis using Inl by (simp add: keeps_bindings_honest)
  next
    case (Inr m2)
    then have upd: "\<exists>cur. v_stored V s (m_key m) = Some cur \<and> m_resourceVersion cur = m_resourceVersion m"
      "v_stored V s' = (v_stored V s)(m_key m \<mapsto> m2)" "v_hist V s \<subseteq> v_hist V s'" "honest V s'"
      using assms(1) pre run unfolding optimistic_server_def with_claimRef_def by fastforce+
    then have stored: "v_stored V s (m_key m) = Some m"
      using pre unfolding honest_def by blast
    moreover have "ms_claimRef (m_spec m) = None"
      using assms(2) by (simp add: machineIsFreeAndAvailable_def)
    ultimately show ?thesis
      using upd(2-4) Inr by (auto simp: keeps_bindings_def)
  qed
qed

lemma optimistic_quiet:
  assumes "optimistic_server K V"
  shows "steps_kept V (k_getClaim K k)" "steps_kept V (k_getHardware K k)" "steps_kept V (k_updateClaim K cl)"
    "steps_kept V (k_updateClaimStatus K cl)" "steps_kept V (k_clearClaimRef K k)"
  using assms unfolding optimistic_server_def by - (elim conjE, erule spec)+

lemma sim_hist:
  assumes "sim V (honest V) m Q"
  shows "sim V (\<lambda>s. honest V s \<and> ms \<subseteq> v_hist V s) m (\<lambda>x s. Q x s \<and> ms \<subseteq> v_hist V s)"
  by (rule hoare_frame [OF assms]) (auto simp: keeps_bindings_def)

lemma sim_update_claim_status:
  assumes "optimistic_server (c_kube env) V"
  shows "sim V (honest V) (update_claim_status env ctx claim) (\<lambda>_. honest V)"
  unfolding update_claim_status_def by (intro hoare_wrap sim_quiet optimistic_quiet [OF assms])

lemma sim_clearClaimRef:
  assumes "optimistic_server (c_kube env) V"
  shows "sim V (honest V) (clearClaimRef env m) (\<lambda>_. honest V)"
  unfolding clearClaimRef_def
  by (rule hoare_bind [OF hoare_wrap [OF sim_quiet [OF optimistic_quiet(5) [OF assms]]]]) (rule hoare_ret)

lemma sim_findBoundMachine:
  assumes "optimistic_server (c_kube env) V"
  shows "sim V (honest V) (findBoundMachine env claim) (\<lambda>_. honest V)"
  unfolding findBoundMachine_def Let_def
  by (intro hoare_if hoare_bind [OF hoare_wrap [OF sim_getMachine [OF assms]]]
      hoare_bind [OF hoare_wrap [OF sim_listMachines [OF assms]]])
    (auto split: option.splits intro!: hoare_ret)

lemma sim_tryBind:
  assumes "optimistic_server (c_kube env) V" "machineIsFreeAndAvailable m"
  shows "sim V (\<lambda>s. honest V s \<and> m \<in> v_hist V s) (tryBind env claim m) (\<lambda>_. honest V)"
proof -
  have claim: "sim V (honest V) (bindK (update_claim_status env ctx cl) (\<lambda>_. bindK (note_call c) (\<lambda>_. ret True))) (\<lambda>_. honest V)"
    for ctx cl c
    by (rule hoare_bind [OF sim_update_claim_status [OF assms(1)]],
        rule hoare_bind [OF hoare_note_call [where Q = "\<lambda>_. honest V"]]) (auto intro: hoare_ret)
  show ?thesis
    unfolding tryBind_def Let_def
    by (rule hoare_bind [OF hoare_attempt [OF sim_bind_update [OF assms]]])
      (auto split: sum.splits intro!: hoare_ret hoare_raise claim)
qed

lemma sim_bind_first:
  assumes "optimistic_server (c_kube env) V" "\<forall>m\<in>set ms. machineIsFreeAndAvailable m"
  shows "sim V (\<lambda>s. honest V s \<and> set ms \<subseteq> v_hist V s) (bind_first env claim ms) (\<lambda>_. honest V)"
  using assms(2)
proof (induction ms)
  case Nil
  show ?case by (simp add: hoare_ret)
next
  case (Cons m ms)
  have "sim V (\<lambda>s. (honest V s \<and> m \<in> v_hist V s) \<and> set ms \<subseteq> v_hist V s) (tryBind env claim m)
      (\<lambda>_ s. honest V s \<and> set ms \<subseteq> v_hist V s)"
    using Cons.prems by (intro hoare_frame [OF sim_tryBind [OF assms(1)]]) (auto simp: keeps_bindings_def)
  then have "sim V (\<lambda>s. honest V s \<and> set (m # ms) \<subseteq> v_hist V s) (tryBind env claim m)
      (\<lambda>_ s. honest V s \<and> set ms \<subseteq> v_hist V s)"
    by (rule hoare_weaken) auto
  moreover have "sim V (\<lambda>s. honest V s \<and> set ms \<subseteq> v_hist V s) (if bound then ret True else bind_first env claim ms) (\<lambda>_. honest V)"
    for bound
    using Cons by (auto intro: hoare_ret)
  ultimately show ?case
    by (simp add: hoare_bind)
qed

lemma sim_machineMatchesHardware:
  assumes "optimistic_server (c_kube env) V"
  shows "sim V (honest V) (machineMatchesHardware env m sel) (\<lambda>_. honest V)"
  unfolding machineMatchesHardware_def
  by (rule hoare_bind [OF hoare_wrap [OF hoare_getOpt [OF sim_quiet [OF optimistic_quiet(2) [OF assms]]]]])
    (auto split: option.splits intro!: hoare_ret hoare_raise)

lemma sim_filter_candidates:
  assumes "optimistic_server (c_kube env) V"
  shows "sim V (honest V) (filter_candidates env matches hwsel ms)
    (\<lambda>cs s. honest V s \<and> set cs \<subseteq> set ms \<and> (\<forall>m\<in>set cs. machineIsFreeAndAvailable m))"
proof (induction ms)
  case Nil
  show ?case by (simp add: hoare_ret)
next
  case (Cons m ms)
  have hw: "sim V (honest V) (case hwsel of None \<Rightarrow> ret True | Some sel \<Rightarrow> machineMatchesHardware env m sel) (\<lambda>_. honest V)"
    by (auto split: option.splits intro: hoare_ret sim_machineMatchesHardware [OF assms])
  have skip: "sim V (honest V) (filter_candidates env matches hwsel ms)
    (\<lambda>cs s. honest V s \<and> set cs \<subseteq> set (m # ms) \<and> (\<forall>m\<in>set cs. machineIsFreeAndAvailable m))"
    by (rule hoare_weaken [OF Cons]) auto
  have "sim V (honest V) (bindK (case hwsel of None \<Rightarrow> ret True | Some sel \<Rightarrow> machineMatchesHardware env m sel) (\<lambda>ok.
        bindK (filter_candidates env matches hwsel ms) (\<lambda>rest. ret (if ok then m # rest else rest))))
      (\<lambda>cs s. honest V s \<and> set cs \<subseteq> set (m # ms) \<and> (\<forall>m\<in>set cs. machineIsFreeAndAvailable m))"
    if "machineIsFreeAndAvailable m"
    by (rule hoare_bind [OF hw], rule hoare_bind [OF Cons], rule hoare_ret) (use that in auto)
  with skip show ?case by simp
qed

lemma sim_markNoCandidate:
  assumes "optimistic_server (c_kube env) V"
  shows "sim V (honest V) (markNoCandidate env claim msg) (\<lambda>_. honest V)"
  unfolding markNoCandidate_def
  by (rule hoare_bind [OF sim_update_claim_status [OF assms]]) (rule hoare_ret)

lemma sim_status_and_event:
  assumes "optimistic_server (c_kube env) V"
  shows "sim V (honest V) (bindK (update_claim_status env ctx claim) (\<lambda>_. bindK (note_call ev) (\<lambda>_. ret r))) (\<lambda>_. honest V)"
  by (rule hoare_bind [OF sim_update_claim_status [OF assms]],
      rule hoare_bind [OF hoare_note_call [where Q = "\<lambda>_. honest V"]]) (auto intro: hoare_ret)

lemma sim_reconcilePendingByName:
  assumes "optimistic_server (c_kube env) V"
  shows "sim V (honest V) (reconcilePendingByName env claim) (\<lambda>_. honest V)"
proof -
  have bind: "sim V (\<lambda>s. honest V s \<and> m \<in> v_hist V s) (bindK (tryBind env claim m)
      (\<lambda>bound. if bound then ret requeueNow else markNoCandidate env claim msg)) (\<lambda>_. honest V)"
    if "machineIsFreeAndAvailable m" for m msg
    by (rule hoare_bind [OF sim_tryBind [OF assms that]]) (auto intro: hoare_ret sim_markNoCandidate [OF assms])
  have weak: "sim V (\<lambda>s. honest V s \<and> m \<in> v_hist V s) (markNoCandidate env claim msg) (\<lambda>_. honest V)" for m msg
    by (rule hoare_weaken [OF sim_markNoCandidate [OF assms]]) auto
  show ?thesis
    unfolding reconcilePendingByName_def Let_def markFailed_def
    by (rule hoare_bind [OF hoare_wrap [OF sim_getMachine [OF assms]]])
      (auto split: option.splits intro!: sim_status_and_event [OF assms] weak bind)
qed

lemma sim_reconcilePendingBySelector:
  assumes "optimistic_server (c_kube env) V"
  shows "sim V (honest V) (reconcilePendingBySelector env claim sel) (\<lambda>_. honest V)"
proof -
  have cands: "sim V (honest V) (matchingCandidates env claim sel)
      (\<lambda>cs s. honest V s \<and> set cs \<subseteq> v_hist V s \<and> (\<forall>m\<in>set cs. machineIsFreeAndAvailable m))"
  proof -
    have "sim V (\<lambda>s. honest V s \<and> set ms \<subseteq> v_hist V s) (filter_candidates env matches hwsel ms)
        (\<lambda>cs s. honest V s \<and> set cs \<subseteq> v_hist V s \<and> (\<forall>m\<in>set cs. machineIsFreeAndAvailable m))" for matches hwsel ms
      by (rule hoare_weaken [OF sim_hist [OF sim_filter_candidates [OF assms], where ms = "set ms"]]) auto
    then have "sim V (\<lambda>s. honest V s \<and> set ms \<subseteq> v_hist V s) (bindK (filter_candidates env matches hwsel ms) (\<lambda>cs. ret (sort_key m_name cs)))
        (\<lambda>cs s. honest V s \<and> set cs \<subseteq> v_hist V s \<and> (\<forall>m\<in>set cs. machineIsFreeAndAvailable m))" for matches hwsel ms
      by (rule hoare_bind) (rule hoare_ret, simp)
    then show ?thesis
      unfolding matchingCandidates_def
      by (auto split: sum.splits intro: hoare_raise hoare_bind [OF hoare_wrap [OF sim_listMachines [OF assms]]])
  qed
  have "sim V (\<lambda>s. honest V s \<and> set cs \<subseteq> v_hist V s \<and> (\<forall>m\<in>set cs. machineIsFreeAndAvailable m)) (bind_first env claim cs) (\<lambda>_. honest V)"
    for cs
  proof (cases "\<forall>m\<in>set cs. machineIsFreeAndAvailable m")
    case True
    then show ?thesis by (rule hoare_weaken [OF sim_bind_first [OF assms]]) auto
  qed (auto simp: hoare_def)
  then show ?thesis
    unfolding reconcilePendingBySelector_def
    by (intro hoare_bind [OF cands] hoare_bind) (auto intro: hoare_ret sim_markNoCandidate [OF assms])
qed

lemma sim_reconcilePending:
  assumes "optimistic_server (c_kube env) V"
  shows "sim V (honest V) (reconcilePending env claim) (\<lambda>_. honest V)"
proof -
  have note_bound: "sim V (honest V) (bindK (update_claim_status env ctx cl) (\<lambda>_. ret True)) (\<lambda>_. honest V)" for ctx cl
    by (rule hoare_bind [OF sim_update_claim_status [OF assms]]) (rule hoare_ret)
  have "sim V (honest V) (adoptExistingBinding env claim) (\<lambda>_. honest V)"
    unfolding adoptExistingBinding_def Let_def
    by (rule hoare_bind [OF sim_findBoundMachine [OF assms]]) (auto split: option.splits intro: hoare_ret note_bound)
  then show ?thesis
    unfolding reconcilePending_def
    by (rule hoare_bind) (auto split: option.splits intro: hoare_ret sim_markNoCandidate [OF assms]
        sim_reconcilePendingByName [OF assms] sim_reconcilePendingBySelector [OF assms])
qed

lemma sim_reconcileBound:
  assumes "optimistic_server (c_kube env) V"
  shows "sim V (honest V) (reconcileBound env claim) (\<lambda>_. honest V)"
proof -
  have mirror: "sim V (honest V) (mirrorMachineStatus env claim m) (\<lambda>_. honest V)" for m
    unfolding mirrorMachineStatus_def
    by (auto split: prod.splits intro: hoare_ret hoare_bind [OF sim_update_claim_status [OF assms]])
  have lost: "sim V (honest V) (recordLostBinding env claim r) (\<lambda>_. honest V)" for r
    unfolding recordLostBinding_def Let_def by (rule sim_status_and_event [OF assms])
  have weak: "sim V (\<lambda>s. honest V s \<and> m \<in> v_hist V s) act Q" if "sim V (honest V) act Q" for m and act :: "('a, 'b) act" and Q
    by (rule hoare_weaken [OF that]) auto
  show ?thesis
    unfolding reconcileBound_def Let_def
    by (rule hoare_bind [OF hoare_wrap [OF sim_getMachine [OF assms]]])
      (auto split: option.splits intro!: weak mirror lost)
qed

lemma sim_clear_each:
  assumes "optimistic_server (c_kube env) V"
  shows "sim V (honest V) (clear_each env ns name ms) (\<lambda>_. honest V)"
proof (induction ms)
  case Nil
  show ?case by (simp add: hoare_ret)
next
  case (Cons m ms)
  have "sim V (honest V) (bindK (clearClaimRef env m) (\<lambda>_. bindK (note_call ev) (\<lambda>_. clear_each env ns name ms))) (\<lambda>_. honest V)" for ev
    by (rule hoare_bind [OF sim_clearClaimRef [OF assms]],
        rule hoare_bind [OF hoare_note_call [where Q = "\<lambda>_. honest V"]]) (auto intro: Cons)
  with Cons show ?case by (auto split: option.splits)
qed

lemma sim_ReconcileClaim:
  assumes "optimistic_server (c_kube env) V"
  shows "sim V (honest V) (ReconcileClaim env key) (\<lambda>_. honest V)"
proof -
  have upd: "sim V (honest V) (bindK (kcall c (k_updateClaim (c_kube env) cl)) (\<lambda>_. ret r)) (\<lambda>_. honest V)" for c cl r
    by (rule hoare_bind [OF sim_quiet [OF optimistic_quiet(3) [OF assms]]]) (rule hoare_ret)
  have clear: "sim V (honest V) (case r of None \<Rightarrow> ret () | Some m \<Rightarrow> clearClaimRef env m) (\<lambda>_. honest V)" for r
    by (auto split: option.splits intro: hoare_ret sim_clearClaimRef [OF assms])
  have orphans: "sim V (honest V) (clearOrphanedClaimRefs env ns name) (\<lambda>_. honest V)" for ns name
  proof -
    have "sim V (\<lambda>s. honest V s \<and> X s) (bindK (clear_each env ns name ms) (\<lambda>_. ret noRequeue)) (\<lambda>_. honest V)" for X ms
      by (rule hoare_bind [OF hoare_weaken [OF sim_clear_each [OF assms], where Q' = "\<lambda>_. honest V"]]) (auto intro: hoare_ret)
    then show ?thesis
      unfolding clearOrphanedClaimRefs_def
      by (intro hoare_bind [OF hoare_wrap [OF sim_listMachines [OF assms]]])
  qed
  have delete: "sim V (honest V) (onDeleteClaim env claim) (\<lambda>_. honest V)" for claim
    unfolding onDeleteClaim_def Let_def
    by (intro hoare_if hoare_bind [OF sim_findBoundMachine [OF assms]] hoare_bind [OF clear] upd) (rule hoare_ret)
  have "sim V (honest V) (reconcileClaim env claim) (\<lambda>_. honest V)" for claim
    unfolding reconcileClaim_def onChangeClaim_def Let_def
    by (intro hoare_if delete upd sim_reconcilePending [OF assms] sim_reconcileBound [OF assms])
  then show ?thesis
    unfolding ReconcileClaim_def
    by (intro hoare_bind [OF hoare_getOpt [OF sim_quiet [OF optimistic_quiet(1) [OF assms]]]])
      (auto split: option.splits intro: orphans)
qed

end
