(* ===== verification/Claim_Properties.thy ===== *)
theory Claim_Properties
  imports Claim_Binding Reference_World
begin

text \<open>
  The properties of the claim controller, each applied in a cluster of its own: an API server with
  resource versions and a cache that may lag behind.
\<close>

section \<open>A server with resource versions\<close>

definition closed_kube :: "'s kube" where
  "closed_kube = \<lparr>
     k_getMachine = (\<lambda>k s. (Inl NotFound, s)), k_getClaim = (\<lambda>k s. (Inl NotFound, s)),
     k_getImage = (\<lambda>k s. (Inl NotFound, s)), k_getRun = (\<lambda>k s. (Inl NotFound, s)),
     k_getSecret = (\<lambda>k s. (Inl NotFound, s)), k_getHardware = (\<lambda>k s. (Inl NotFound, s)),
     k_getSubnet = (\<lambda>k s. (Inl NotFound, s)), k_listRuns = (\<lambda>k s. (Inl NotFound, s)),
     k_updateMachine = (\<lambda>k s. (Inl NotFound, s)), k_patchMachine = (\<lambda>k s. (Inl NotFound, s)),
     k_applyStatus = (\<lambda>k s. (Inl NotFound, s)), k_mergeStatus = (\<lambda>k s. (Inl NotFound, s)),
     k_updateMachineStatus = (\<lambda>k s. (Inl NotFound, s)), k_createRun = (\<lambda>k s. (Inl NotFound, s)),
     k_updateRunStatus = (\<lambda>k s. (Inl NotFound, s)), k_deleteHardware = (\<lambda>k s. (Inl NotFound, s)),
     k_patchSecret = (\<lambda>k s. (Inl NotFound, s)), k_updateSecret = (\<lambda>k s. (Inl NotFound, s)),
     k_writeSecret = (\<lambda>k s. (Inl NotFound, s)), k_updateSubnetStatus = (\<lambda>k s. (Inl NotFound, s)),
     k_listMachines = (\<lambda>k s. (Inl NotFound, s)), k_listByTokenHash = (\<lambda>k s. (Inl NotFound, s)),
     k_listBySessionHash = (\<lambda>k s. (Inl NotFound, s)), k_listClaims = (\<lambda>k s. (Inl NotFound, s)),
     k_clearClaimRef = (\<lambda>k s. (Inl NotFound, s)), k_updateClaim = (\<lambda>k s. (Inl NotFound, s)),
     k_updateClaimStatus = (\<lambda>k s. (Inl NotFound, s)), k_createHardware = (\<lambda>k s. (Inl NotFound, s)),
     k_updateHardware = (\<lambda>k s. (Inl NotFound, s))\<rparr>"

record cluster =
  cu_machines :: "(key \<times> Machine) list"
  cu_cache :: "Machine list"
  cu_hist :: "Machine list"
  cu_next :: nat
  cu_claims :: "(key \<times> MachineClaim) list"

definition version :: "nat \<Rightarrow> string" where
  "version n = replicate n (CHR ''v'')"

definition cluster_store :: "Machine \<Rightarrow> cluster \<Rightarrow> (kerr + Machine) \<times> cluster" where
  "cluster_store m s = (let m' = m\<lparr>m_resourceVersion := version (cu_next s)\<rparr> in
     (Inr m', s\<lparr>cu_machines := alist_put (m_key m) m' (cu_machines s), cu_hist := m' # cu_hist s, cu_next := Suc (cu_next s)\<rparr>))"

definition cluster_kube :: "cluster kube" where
  "cluster_kube = closed_kube\<lparr>
     k_getMachine := (\<lambda>k s. case find (\<lambda>m. m_key m = k) (cu_cache s) of None \<Rightarrow> (Inl NotFound, s) | Some m \<Rightarrow> (Inr m, s)),
     k_listMachines := (\<lambda>ns s. (Inr (filter (\<lambda>m. m_namespace m = ns) (cu_cache s)), s)),
     k_updateMachine := (\<lambda>m s. case map_of (cu_machines s) (m_key m) of
         None \<Rightarrow> (Inl NotFound, s)
       | Some cur \<Rightarrow> if m_resourceVersion cur = m_resourceVersion m then cluster_store m s else (Inl Conflict, s)),
     k_clearClaimRef := (\<lambda>k s. case map_of (cu_machines s) k of
         None \<Rightarrow> (Inl NotFound, s)
       | Some cur \<Rightarrow> cluster_store (cur\<lparr>m_spec := (m_spec cur)\<lparr>ms_claimRef := None\<rparr>\<rparr>) s),
     k_getClaim := (\<lambda>k s. case map_of (cu_claims s) k of None \<Rightarrow> (Inl NotFound, s) | Some c \<Rightarrow> (Inr c, s)),
     k_updateClaim := (\<lambda>c s. (Inr c, s\<lparr>cu_claims := alist_put (cl_key c) c (cu_claims s)\<rparr>)),
     k_updateClaimStatus := (\<lambda>c s. (Inr c, s\<lparr>cu_claims := alist_put (cl_key c) c (cu_claims s)\<rparr>))\<rparr>"

definition cluster_view :: "cluster view" where
  "cluster_view = \<lparr>v_stored = (\<lambda>s. map_of (cu_machines s)), v_hist = (\<lambda>s. set (cu_hist s)),
     v_inv = (\<lambda>s. set (cu_cache s) \<subseteq> set (cu_hist s) \<and> (\<forall>m\<in>set (cu_hist s). \<exists>i<cu_next s. m_resourceVersion m = version i))\<rparr>"

lemma version_inj [simp]: "version i = version j \<longleftrightarrow> i = j"
  by (metis length_replicate version_def)

lemma cluster_store_honest:
  assumes "honest cluster_view s" "cluster_store m s = (Inr m', s')"
  shows "honest cluster_view s'" "set (cu_hist s) \<subseteq> set (cu_hist s')"
    "map_of (cu_machines s') = (map_of (cu_machines s))(m_key m \<mapsto> m')" "m_spec m' = m_spec m"
proof -
  have s': "m' = m\<lparr>m_resourceVersion := version (cu_next s)\<rparr>"
    "s' = s\<lparr>cu_machines := alist_put (m_key m) m' (cu_machines s), cu_hist := m' # cu_hist s, cu_next := Suc (cu_next s)\<rparr>"
    using assms(2) by (auto simp: cluster_store_def Let_def)
  have fresh: "m_resourceVersion x \<noteq> version (cu_next s)" if "x \<in> set (cu_hist s)" for x
    using assms(1) that by (auto simp: honest_def cluster_view_def)
  then have rv: "\<forall>x\<in>set (cu_hist s). m_resourceVersion x \<noteq> m_resourceVersion m'"
    using s'(1) by simp
  have inv: "v_inv cluster_view s'"
    using assms(1) s' by (auto simp: honest_def cluster_view_def less_Suc_eq)
  have stored: "v_stored cluster_view s' k = Some x \<Longrightarrow> x \<in> v_hist cluster_view s' \<and> m_key x = k" for k x
    using assms(1) s' by (cases k) (auto simp: honest_def cluster_view_def split: if_splits)
  have "x = y" if "x \<in> set (cu_hist s')" "y \<in> set (cu_hist s')" "m_key x = m_key y" "m_resourceVersion x = m_resourceVersion y" for x y
  proof (cases "x = m' \<or> y = m'")
    case True
    then show ?thesis using that rv s'(2) by fastforce
  next
    case False
    then show ?thesis
      using assms(1) that s'(2) unfolding honest_def cluster_view_def by simp
  qed
  then show "honest cluster_view s'"
    unfolding honest_def using inv stored by (simp add: cluster_view_def)
  show "set (cu_hist s) \<subseteq> set (cu_hist s')" "map_of (cu_machines s') = (map_of (cu_machines s))(m_key m \<mapsto> m')" "m_spec m' = m_spec m"
    using s' by auto
qed

lemma honest_cache: "honest cluster_view s \<Longrightarrow> set (cu_cache s) \<subseteq> set (cu_hist s)"
  by (simp add: honest_def cluster_view_def)

lemma cluster_same:
  assumes "honest cluster_view s" "cu_machines s' = cu_machines s" "cu_cache s' = cu_cache s" "cu_hist s' = cu_hist s" "cu_next s' = cu_next s"
  shows "keeps_bindings cluster_view s s'"
  using assms by (auto simp: keeps_bindings_def honest_def cluster_view_def)

lemma cluster_optimistic: "optimistic_server cluster_kube cluster_view"
proof -
  have clear: "keeps_bindings cluster_view s s'" if "honest cluster_view s" "k_clearClaimRef cluster_kube k s = (r, s')" for s s' k r
  proof (cases "map_of (cu_machines s) k")
    case None
    then show ?thesis using that by (auto simp: cluster_kube_def intro: cluster_same)
  next
    case (Some cur)
    let ?m = "cur\<lparr>m_spec := (m_spec cur)\<lparr>ms_claimRef := None\<rparr>\<rparr>"
    have run: "cluster_store ?m s = (r, s')"
      using that Some by (simp add: cluster_kube_def)
    then obtain m' where "r = Inr m'" by (auto simp: cluster_store_def Let_def)
    with run that(1) cluster_store_honest [of s ?m m' s'] show ?thesis
      by (auto simp: keeps_bindings_def cluster_view_def split: if_splits)
  qed
  have get: "keeps_bindings cluster_view s s' \<and> (\<forall>m. r = Inr m \<longrightarrow> m \<in> set (cu_hist s'))"
    if "honest cluster_view s" "k_getMachine cluster_kube k s = (r, s')" for s s' k r
    using that honest_cache [OF that(1)] by (auto simp: cluster_kube_def split: option.splits
        intro!: cluster_same dest!: find_mem)
  have list: "keeps_bindings cluster_view s s' \<and> (\<forall>ms. r = Inr ms \<longrightarrow> set ms \<subseteq> set (cu_hist s'))"
    if "honest cluster_view s" "k_listMachines cluster_kube ns s = (r, s')" for s s' ns r
    using that honest_cache [OF that(1)] by (auto simp: cluster_kube_def intro!: cluster_same)
  have quiet: "keeps_bindings cluster_view s s'" if "honest cluster_view s"
    "k_getClaim cluster_kube k s = (r, s') \<or> k_getHardware cluster_kube k s = (q, s') \<or>
     k_updateClaim cluster_kube c s = (r, s') \<or> k_updateClaimStatus cluster_kube c s = (r, s')" for s s' k r q c
    using that by (auto simp: cluster_kube_def closed_kube_def split: option.splits intro: cluster_same)
  have refused: "keeps_bindings cluster_view s s'" if "honest cluster_view s" "k_updateMachine cluster_kube m s = (Inl e, s')" for s s' m e
    using that by (auto simp: cluster_kube_def cluster_store_def Let_def split: option.splits if_splits intro: cluster_same)
  have update: "(\<exists>cur. map_of (cu_machines s) (m_key m) = Some cur \<and> m_resourceVersion cur = m_resourceVersion m) \<and>
      map_of (cu_machines s') = (map_of (cu_machines s))(m_key m \<mapsto> m2) \<and> ms_claimRef (m_spec m2) = ms_claimRef (m_spec m) \<and>
      set (cu_hist s) \<subseteq> set (cu_hist s') \<and> honest cluster_view s'"
    if "honest cluster_view s" "k_updateMachine cluster_kube m s = (Inr m2, s')" for s s' m m2
    using that cluster_store_honest [OF that(1), of m m2 s'] by (auto simp: cluster_kube_def split: option.splits if_splits)
  have view: "v_stored cluster_view s = map_of (cu_machines s)" "v_hist cluster_view s = set (cu_hist s)" for s
    by (simp_all add: cluster_view_def)
  show ?thesis
    unfolding optimistic_server_def steps_kept_def view
    by (intro conjI) (use get in metis, use list in metis, use quiet in metis, use quiet in metis, use quiet in metis,
        use quiet in metis, use clear in metis, use refused in metis, use update in metis)
qed

section \<open>Exclusive bindings\<close>


text \<open>Two claims for one Machine: the second one reads the version from before the first bind.\<close>

definition cluster_env :: "cluster claim_env" where
  "cluster_env = \<lparr>c_kube = cluster_kube, c_lib = ref_libs, c_now = 1000, c_selector = (\<lambda>sel. Inr (\<lambda>l. True))\<rparr>"

definition free_machine :: Machine where
  "free_machine = (ref_machine Available [] None)\<lparr>m_resourceVersion := version 0\<rparr>"

definition taken_machine :: Machine where
  "taken_machine = (with_claimRef (ref_claim None) free_machine)\<lparr>m_resourceVersion := version 1\<rparr>"

definition late_claim :: MachineClaim where
  "late_claim = upd_claim_status (\<lambda>s. s\<lparr>cst_phase := ClaimPending, cst_machineName := ''''\<rparr>)
     ((ref_claim None)\<lparr>cl_name := ''late'', cl_uid := ''y''\<rparr>)"

definition contested :: cluster where
  "contested = \<lparr>cu_machines = [((''n'', ''m''), taken_machine)], cu_cache = [free_machine],
     cu_hist = [taken_machine, free_machine], cu_next = 2, cu_claims = [((''n'', ''late''), late_claim)]\<rparr>"

lemma contested_honest: "honest cluster_view contested"
  by (auto simp: honest_def cluster_view_def contested_def taken_machine_def free_machine_def with_claimRef_def
      ref_machine_def split: if_splits)

lemma contested_refused:
  "map fst (trace (snd (ReconcileClaim cluster_env (''n'', ''late'') \<lparr>srv = contested, trace = []\<rparr>))) !  3 =
     UpdateMachine (with_claimRef late_claim free_machine) \<and>
   \<not> snd (trace (snd (ReconcileClaim cluster_env (''n'', ''late'') \<lparr>srv = contested, trace = []\<rparr>)) ! 3)"
  by code_simp


text \<open>
  The claimRef a bind writes names the claim for every reader of the
  Machine's intent: as long as that claim exists, the Machine reconciler and the agent deployer
  resolve the bound Machine to it; once a different claim of the same name exists instead (another
  uid), both resolve it to no intent.
\<close>

theorem bound_machine_resolves_claim:
  assumes "k_getClaim (kube env) (cl_key claim) (srv w) = (Inr found, s)" "a_kube a = kube env"
  shows "fst (resolveClaimIntent (kube env) (with_claimRef claim m) w) = Inr (if cl_uid found = cl_uid claim then Some found else None) \<and>
    fst (agentResolveClaimIntent a (with_claimRef claim m) w) = Inr (if cl_uid found = cl_uid claim then Some found else None)"
  using assms
  by (simp add: resolveClaimIntent_def agentResolveClaimIntent_def with_claimRef_def claim_ref_def getOpt_def kcall_def kio_simps)

definition claim_world :: "store world" where
  "claim_world = \<lparr>srv = (ref_store free_machine)\<lparr>st_claims := [((''n'', ''k''), ref_claim None)]\<rparr>, trace = []\<rparr>"

theorem bound_machine_resolves_claim_witness:
  "fst (resolveClaimIntent (kube (ref_env (AgentDeployer (ref_agent ref_bmc)))) (with_claimRef (ref_claim None) free_machine) claim_world) =
     Inr (Some (ref_claim None))"
  using bound_machine_resolves_claim [of "ref_env (AgentDeployer (ref_agent ref_bmc))" "ref_claim None" claim_world "ref_claim None"
      "srv claim_world" "ref_agent ref_bmc" free_machine]
  by (simp add: ref_env_def ref_kube_def lookup_or_def claim_world_def ref_claim_def ref_agent_def)

section \<open>Deletion\<close>

text \<open>
  C38: a claim that is being deleted loses its finalizer only after its
  binding is gone: the update that drops the finalizer is the last request of the pass, and it is
  made either right after a read that found no Machine carrying the claim's claimRef, or after the
  patch that cleared the claimRef of the Machine found has succeeded.
\<close>

definition bound_to :: "MachineClaim \<Rightarrow> Machine \<Rightarrow> bool" where
  "bound_to claim m \<longleftrightarrow> claimRefMatches (ms_claimRef (m_spec m)) claim"

lemma findBoundMachine_run:
  assumes "findBoundMachine env claim w = (r, w')"
  shows "\<exists>c ok. trace w' = trace w @ [(c, ok)] \<and> (\<forall>cl. c \<noteq> UpdateClaim cl) \<and>
    (\<forall>m. r = Inr (Some m) \<longrightarrow> bound_to claim m)"
  using assms
  by (cases w) (auto simp: findBoundMachine_def Let_def getOpt_def kcall_def kio_simps bound_to_def dest!: find_mem
      split: if_splits prod.splits sum.splits)

theorem claim_released_after_unbinding:
  assumes "(UpdateClaim cl, ok) \<in> set (calls_of (onDeleteClaim env claim) w)"
  shows "\<exists>c okc m. calls_of (onDeleteClaim env claim) w = [(c, okc), (UpdateClaim cl, ok)] \<and>
        fst (findBoundMachine env claim w) = Inr None \<or>
      calls_of (onDeleteClaim env claim) w = [(c, okc), (ClearClaimRef (m_key m), True), (UpdateClaim cl, ok)] \<and>
        fst (findBoundMachine env claim w) = Inr (Some m) \<and> bound_to claim m"
proof -
  obtain r w1 where find: "findBoundMachine env claim w = (r, w1)" by fastforce
  obtain c okc where w1: "trace w1 = trace w @ [(c, okc)]" "\<forall>x. c \<noteq> UpdateClaim x"
    "\<forall>m. r = Inr (Some m) \<longrightarrow> bound_to claim m"
    using findBoundMachine_run [OF find] by blast
  note tr = w1(1)
  have fin: "containsFinalizer (c_lib env) (cl_finalizers claim) MachineClaimFinalizer"
    using assms by (auto simp: onDeleteClaim_def calls_of_def ret_def split: if_splits)
  show ?thesis
  proof (cases r)
    case (Inl e)
    then show ?thesis
      using assms fin w1(2) find tr by (auto simp: onDeleteClaim_def calls_of_def kio_simps)
  next
    case (Inr found)
    show ?thesis
    proof (cases found)
      case None
      then show ?thesis
        using assms fin w1(2) find tr Inr
        by (auto simp: onDeleteClaim_def Let_def calls_of_def kcall_def kio_simps split: prod.splits sum.splits)
    next
      case (Some m)
      then show ?thesis
        using assms fin w1(2,3) find tr Inr
        by (auto simp: onDeleteClaim_def Let_def calls_of_def clearClaimRef_def kcall_def kio_simps
            split: prod.splits sum.splits if_splits)
    qed
  qed
qed

definition leaving_claim :: MachineClaim where
  "leaving_claim = (ref_claim None)\<lparr>cl_deletionTimestamp := Some 5\<rparr>"

definition leaving :: "cluster world" where
  "leaving = \<lparr>srv = \<lparr>cu_machines = [((''n'', ''m''), taken_machine)], cu_cache = [taken_machine],
     cu_hist = [taken_machine, free_machine], cu_next = 2, cu_claims = [((''n'', ''k''), leaving_claim)]\<rparr>, trace = []\<rparr>"

lemma leaving_calls:
  "calls_of (onDeleteClaim cluster_env leaving_claim) leaving =
     [(GetMachine (''n'', ''m''), True), (ClearClaimRef (''n'', ''m''), True), (UpdateClaim (leaving_claim\<lparr>cl_finalizers := []\<rparr>), True)]"
  by code_simp

theorem claim_released_after_unbinding_witness:
  "\<exists>m. (ClearClaimRef (m_key m), True) \<in> set (calls_of (onDeleteClaim cluster_env leaving_claim) leaving) \<and> bound_to leaving_claim m"
  using claim_released_after_unbinding [of "leaving_claim\<lparr>cl_finalizers := []\<rparr>" True cluster_env leaving_claim leaving]
  unfolding leaving_calls by auto

section \<open>The status of a claim\<close>

text \<open>
  Copying the Machine's progress onto a bound claim settles: whatever the claim's
  status was, once the mirror has been written a further pass over the claim with the same Machine
  makes no request, so a bound claim's status does not churn.
\<close>

definition find_laws :: "libs \<Rightarrow> bool" where
  "find_laws L \<longleftrightarrow>
     (\<forall>cs c. \<exists>d. findStatusCondition L (setStatusCondition L cs c) (c_type c) = Some d \<and> c_status d = c_status c \<and>
        c_reason d = c_reason c \<and> c_observedGeneration d = c_observedGeneration c) \<and>
     (\<forall>cs c t. t \<noteq> c_type c \<longrightarrow> findStatusCondition L (setStatusCondition L cs c) t = findStatusCondition L cs t)"

lemma find_set:
  assumes "find_laws L"
  shows "\<exists>d. findStatusCondition L (setStatusCondition L cs
      \<lparr>c_type = t, c_status = st, c_observedGeneration = g, c_reason = r, c_message = msg\<rparr>) t = Some d \<and>
    c_status d = st \<and> c_reason d = r \<and> c_observedGeneration d = g"
  using assms [unfolded find_laws_def, THEN conjunct1, rule_format,
      of cs "\<lparr>c_type = t, c_status = st, c_observedGeneration = g, c_reason = r, c_message = msg\<rparr>"]
  by simp

lemma claim_conditions_distinct [simp]: "MachineClaimConditionBound \<noteq> MachineClaimConditionReady"
  "MachineClaimConditionReady \<noteq> MachineClaimConditionBound"
  by (simp_all add: MachineClaimConditionBound_def MachineClaimConditionReady_def)

text \<open>The condition of the claim on which the mirror writes nothing.\<close>

definition settled :: "'s claim_env \<Rightarrow> Machine \<Rightarrow> MachineClaim \<Rightarrow> bool" where
  "settled env m claim \<longleftrightarrow>
     nameRefEqual (cst_currentRunRef (cl_status claim)) (currentRunRef (m_status m)) \<and>
     nameRefEqual (cst_lastSuccessfulRunRef (cl_status claim)) (lastSuccessfulRunRef (m_status m)) \<and>
     (case ready_of m of (status, reason, message) \<Rightarrow>
        \<exists>c. findStatusCondition (c_lib env) (cst_conditions (cl_status claim)) MachineClaimConditionReady = Some c \<and>
          c_status c = status \<and> c_reason c = reason \<and> c_observedGeneration c = cl_generation claim) \<and>
     isStatusConditionTrue (c_lib env) (cst_conditions (cl_status claim)) MachineClaimConditionBound"

lemma nameRefEqual_refl [simp]: "nameRefEqual r r"
  by (simp add: nameRefEqual_def split: option.splits)

lemma settled_unchanged: "settled env m claim \<Longrightarrow> mirrored env m claim = (claim, False)"
  by (auto simp: settled_def mirrored_def mirror_current_def mirror_last_def mirror_ready_def mirror_bound_def split: prod.splits)

lemma mirrored_settled:
  assumes "meta_laws (c_lib env)" "find_laws (c_lib env)"
  shows "settled env m (fst (mirrored env m claim))"
proof -
  obtain status reason message where ready: "ready_of m = (status, reason, message)" by (cases "ready_of m") auto
  obtain c1 b1 where p1: "mirror_last m (mirror_current m (claim, False)) = (c1, b1)" by fastforce
  have refs: "nameRefEqual (cst_currentRunRef (cl_status c1)) (currentRunRef (m_status m))"
    "nameRefEqual (cst_lastSuccessfulRunRef (cl_status c1)) (lastSuccessfulRunRef (m_status m))"
    using p1 by (auto simp: mirror_current_def mirror_last_def split: if_splits)
  obtain c2 b2 where p2: "mirror_ready env m (c1, b1) = (c2, b2)" by fastforce
  have step2: "cst_currentRunRef (cl_status c2) = cst_currentRunRef (cl_status c1)"
    "cst_lastSuccessfulRunRef (cl_status c2) = cst_lastSuccessfulRunRef (cl_status c1)" "cl_generation c2 = cl_generation c1"
    "\<exists>c. findStatusCondition (c_lib env) (cst_conditions (cl_status c2)) MachineClaimConditionReady = Some c \<and>
          c_status c = status \<and> c_reason c = reason \<and> c_observedGeneration c = cl_generation c2"
    using p2 ready find_set [OF assms(2)]
    by (auto simp: mirror_ready_def set_claim_condition_def split: if_splits option.splits)
  let ?new = "\<lparr>c_type = MachineClaimConditionBound, c_status = CondTrue, c_observedGeneration = cl_generation c2,
      c_reason = ''Bound'', c_message = ''bound to machine '' @ go_quote (m_name m)\<rparr>"
  have keep: "findStatusCondition (c_lib env) (setStatusCondition (c_lib env) cs \<lparr>c_type = MachineClaimConditionBound,
      c_status = st, c_observedGeneration = g, c_reason = r, c_message = msg\<rparr>) MachineClaimConditionReady =
      findStatusCondition (c_lib env) cs MachineClaimConditionReady" for cs st g r msg
    using assms(2) by (simp add: find_laws_def)
  have true: "isStatusConditionTrue (c_lib env) (setStatusCondition (c_lib env) cs \<lparr>c_type = MachineClaimConditionBound,
      c_status = CondTrue, c_observedGeneration = g, c_reason = r, c_message = msg\<rparr>) MachineClaimConditionBound" for cs g r msg
    using assms(1) unfolding meta_laws_def by (metis condition.select_convs(1,2))
  let ?is = "isStatusConditionTrue (c_lib env) (cst_conditions (cl_status c2)) MachineClaimConditionBound"
  have res: "fst (mirrored env m claim) = (if ?is then c2 else
      upd_claim_status (\<lambda>s. s\<lparr>cst_conditions := setStatusCondition (c_lib env) (cst_conditions s) ?new\<rparr>) c2)"
    by (simp add: mirrored_def p1 p2 mirror_bound_def set_claim_condition_def)
  show ?thesis
  proof (cases ?is)
    case True
    then show ?thesis using refs step2 by (simp add: res settled_def ready)
  next
    case False
    then show ?thesis using refs step2 by (simp add: res settled_def ready keep true)
  qed
qed

theorem mirror_settles:
  assumes "meta_laws (c_lib env)" "find_laws (c_lib env)"
  shows "mirrorMachineStatus env (fst (mirrored env m claim)) m w = (Inr noRequeue, w)"
  using settled_unchanged [OF mirrored_settled [OF assms]] by (simp add: mirrorMachineStatus_def ret_def)

lemma ref_find_laws: "find_laws ref_libs"
  by (simp add: find_laws_def ref_libs_def ref_find_set)

theorem mirror_settles_witness:
  "mirrorMachineStatus cluster_env (fst (mirrored cluster_env taken_machine (ref_claim None))) taken_machine leaving =
     (Inr noRequeue, leaving)"
  using mirror_settles [of cluster_env taken_machine "ref_claim None" leaving] ref_meta_laws ref_find_laws
  by (simp add: cluster_env_def)

text \<open>
  Failed is not terminal: a pass over a Failed claim that names its
  Machine binds the Machine as soon as it exists free and Available, and records the claim as Bound.
\<close>

theorem failed_claim_still_binds:
  assumes "cst_phase (cl_status claim) = ClaimFailed" "cst_machineName (cl_status claim) = ''''"
    and "cs_machineName (cl_spec claim) \<noteq> ''''" "machineIsFreeAndAvailable m"
    and "k_listMachines (c_kube env) (cl_namespace claim) (srv w) = (Inr ms, s1)" "\<forall>x\<in>set ms. \<not> bound_to claim x"
    and "k_getMachine (c_kube env) (cl_namespace claim, cs_machineName (cl_spec claim)) s1 = (Inr m, s2)"
    and "k_updateMachine (c_kube env) (with_claimRef claim m) s2 = (Inr m2, s3)"
    and "k_updateClaimStatus (c_kube env) (bound_claim env m2 (Some (c_now env)) claim) s3 = (Inr c2, s4)"
  shows "fst (onChangeClaim env claim w) = Inr requeueNow \<and>
    (UpdateClaimStatus (bound_claim env m2 (Some (c_now env)) claim), True) \<in> set (calls_of (onChangeClaim env claim) w) \<and>
    cst_phase (cl_status (bound_claim env m2 (Some (c_now env)) claim)) = ClaimBound"
proof -
  have "find (\<lambda>x. claimRefMatches (ms_claimRef (m_spec x)) claim) ms = None"
    using assms(6) by (auto simp: find_None_iff bound_to_def)
  then show ?thesis
    using assms
    by (simp add: onChangeClaim_def reconcilePending_def adoptExistingBinding_def findBoundMachine_def reconcilePendingByName_def
        tryBind_def update_claim_status_def calls_of_def getOpt_def kcall_def kio_simps Let_def note_call_def
        bound_claim_def set_claim_condition_def)
qed

definition failed_claim :: MachineClaim where
  "failed_claim = upd_claim_status (cst_phase_update (\<lambda>_. ClaimFailed)) late_claim"

definition recovered :: cluster where
  "recovered = \<lparr>cu_machines = [((''n'', ''m''), free_machine)], cu_cache = [free_machine], cu_hist = [free_machine], cu_next = 1,
     cu_claims = [((''n'', ''late''), failed_claim)]\<rparr>"

theorem failed_claim_still_binds_witness:
  "fst (onChangeClaim cluster_env failed_claim \<lparr>srv = recovered, trace = []\<rparr>) = Inr requeueNow"
proof -
  let ?m = "(with_claimRef failed_claim free_machine)\<lparr>m_resourceVersion := version 1\<rparr>"
  let ?s = "snd (cluster_store (with_claimRef failed_claim free_machine) recovered)"
  let ?c = "bound_claim cluster_env ?m (Some 1000) failed_claim"
  have "cst_phase (cl_status failed_claim) = ClaimFailed" "cst_machineName (cl_status failed_claim) = ''''"
    "cs_machineName (cl_spec failed_claim) \<noteq> ''''" "machineIsFreeAndAvailable free_machine" "\<not> bound_to failed_claim free_machine"
    by code_simp+
  moreover have "k_listMachines cluster_kube (cl_namespace failed_claim) recovered = (Inr [free_machine], recovered)"
    "k_getMachine cluster_kube (cl_namespace failed_claim, cs_machineName (cl_spec failed_claim)) recovered = (Inr free_machine, recovered)"
    "k_updateMachine cluster_kube (with_claimRef failed_claim free_machine) recovered = (Inr ?m, ?s)"
    by code_simp+
  moreover have "k_updateClaimStatus cluster_kube ?c ?s = (Inr ?c, ?s\<lparr>cu_claims := alist_put (cl_key ?c) ?c (cu_claims ?s)\<rparr>)"
    by (simp add: cluster_kube_def)
  ultimately show ?thesis
    using failed_claim_still_binds [of failed_claim free_machine cluster_env "\<lparr>srv = recovered, trace = []\<rparr>" "[free_machine]" recovered
        recovered ?m ?s ?c]
    by (simp add: cluster_env_def)
qed

end
