(* ===== verification/Go_Text.thy ===== *)
theory Go_Text
  imports Token_Store
begin

text \<open>
  The parts of Go's standard library with which kezio reads and writes its text formats: unsigned
  integers in a base (\<^verbatim>\<open>strconv.ParseUint\<close>, the verbs \<^verbatim>\<open>%x\<close> and \<^verbatim>\<open>%0*x\<close> of fmt), encoding/hex, and the
  line scanner of bufio; with the lemmas that relate each printer to its parser.
\<close>

section \<open>Joining\<close>

text \<open>\<^verbatim>\<open>strings.Join\<close>.\<close>

fun join_with :: "string \<Rightarrow> string list \<Rightarrow> string" where
  "join_with sep [] = ''''"
| "join_with sep [x] = x"
| "join_with sep (x # y # ys) = x @ sep @ join_with sep (y # ys)"

section \<open>Unsigned integers\<close>

text \<open>\<open>show_base b n\<close> is \<^verbatim>\<open>strconv.FormatUint(n, b)\<close> for bases up to 16.\<close>

fun show_base :: "nat \<Rightarrow> nat \<Rightarrow> string" where
  "show_base b n = (if b < 2 \<or> n < b then [nibble_char n] else show_base b (n div b) @ [nibble_char (n mod b)])"

declare show_base.simps [simp del]

definition digit_value :: "char \<Rightarrow> nat option" where
  "digit_value c =
     (let n = of_char c :: nat in
      if 48 \<le> n \<and> n \<le> 57 then Some (n - 48)
      else if 97 \<le> n \<and> n \<le> 102 then Some (n - 87)
      else if 65 \<le> n \<and> n \<le> 70 then Some (n - 55)
      else None)"

fun digits_value :: "nat \<Rightarrow> nat \<Rightarrow> string \<Rightarrow> nat option" where
  "digits_value b acc [] = Some acc"
| "digits_value b acc (c # cs) =
     (case digit_value c of
        None \<Rightarrow> None
      | Some d \<Rightarrow> if d \<ge> b then None else digits_value b (b * acc + d) cs)"

definition parse_uint :: "nat \<Rightarrow> nat \<Rightarrow> string \<Rightarrow> nat option" where
  "parse_uint b bits s =
     (if s = '''' then None
      else case digits_value b 0 s of None \<Rightarrow> None | Some n \<Rightarrow> if n < 2 ^ bits then Some n else None)"

definition zero_pad :: "nat \<Rightarrow> string \<Rightarrow> string" where
  "zero_pad w s = replicate (w - length s) (CHR ''0'') @ s"

lemma nibble_value: "d < 16 \<Longrightarrow> digit_value (nibble_char d) = Some d"
  by (auto simp: digit_value_def nibble_char_def Let_def)

lemma digits_value_append: "digits_value b acc (xs @ ys) =
    (case digits_value b acc xs of None \<Rightarrow> None | Some n \<Rightarrow> digits_value b n ys)"
  by (induction b acc xs rule: digits_value.induct) (auto split: option.splits)

lemma digits_value_show:
  assumes "2 \<le> b" "b \<le> 16"
  shows "digits_value b 0 (show_base b n) = Some n"
proof (induction n rule: less_induct)
  case (less n)
  show ?case
  proof (cases "n < b")
    case True
    then show ?thesis using assms by (simp add: show_base.simps [of b n] nibble_value)
  next
    case False
    then have "n div b < n" using assms by simp
    moreover have "n mod b < b" "n mod b < 16" using assms by (auto intro: order.strict_trans2 [OF mod_less_divisor])
    ultimately show ?thesis
      using False assms less [of "n div b"]
      by (simp add: show_base.simps [of b n] digits_value_append nibble_value not_le)
  qed
qed

lemma show_base_nonempty [simp]: "show_base b n \<noteq> []"
  by (simp add: show_base.simps)

lemma digits_value_zeros: "2 \<le> b \<Longrightarrow> digits_value b 0 (replicate k (CHR ''0'') @ s) = digits_value b 0 s"
  by (induction k) (simp_all add: digit_value_def)

lemma parse_uint_padded:
  assumes "2 \<le> b" "b \<le> 16" "n < 2 ^ bits"
  shows "parse_uint b bits (zero_pad w (show_base b n)) = Some n"
  using assms by (simp add: parse_uint_def zero_pad_def digits_value_zeros digits_value_show)

lemma parse_uint_show: "2 \<le> b \<Longrightarrow> b \<le> 16 \<Longrightarrow> n < 2 ^ bits \<Longrightarrow> parse_uint b bits (show_base b n) = Some n"
  by (simp add: parse_uint_def digits_value_show)

lemma digit_nibble: "d < 10 \<Longrightarrow> digit_char d = nibble_char d"
  by (simp add: digit_char_def nibble_char_def)

lemma show_nat_base: "show_nat n = show_base 10 n"
proof (induction n rule: show_nat.induct)
  case (1 n)
  then show ?case
    by (subst show_nat.simps, subst show_base.simps) (simp add: digit_nibble)
qed

text \<open>The characters a rendered number is made of, and how long it is.\<close>

lemma show_base_digits: "2 \<le> b \<Longrightarrow> b \<le> 16 \<Longrightarrow> \<forall>c\<in>set (show_base b n). \<exists>d<b. c = nibble_char d"
proof (induction n rule: less_induct)
  case (less n)
  show ?case
  proof (cases "n < b")
    case True
    then show ?thesis by (auto simp: show_base.simps [of b n])
  next
    case False
    then have "n div b < n" "n mod b < b" using less.prems by auto
    with less(1) [of "n div b"] less.prems have "\<forall>c\<in>set (show_base b (n div b)). \<exists>d<b. c = nibble_char d" by simp
    moreover have "\<exists>d<b. nibble_char (n mod b) = nibble_char d"
      using \<open>n mod b < b\<close> by blast
    ultimately show ?thesis
      using less.prems False by (subst show_base.simps) auto
  qed
qed

lemma show_base_length: "2 \<le> b \<Longrightarrow> n < b ^ k \<Longrightarrow> 0 < k \<Longrightarrow> length (show_base b n) \<le> k"
proof (induction k arbitrary: n)
  case 0
  then show ?case by simp
next
  case (Suc k)
  show ?case
  proof (cases "n < b")
    case True
    then show ?thesis by (simp add: show_base.simps)
  next
    case False
    then have "0 < k" using Suc.prems by (cases k) auto
    moreover have "n div b < b ^ k"
      using Suc.prems by (simp add: less_mult_imp_div_less mult.commute)
    ultimately have "length (show_base b (n div b)) \<le> k"
      using Suc by simp
    then show ?thesis
      using False Suc.prems by (simp add: show_base.simps [of b n])
  qed
qed

section \<open>encoding/hex\<close>

fun hex_decode :: "string \<Rightarrow> string option" where
  "hex_decode [] = Some []"
| "hex_decode [c] = None"
| "hex_decode (a # b # cs) =
     (case (digit_value a, digit_value b) of
        (Some x, Some y) \<Rightarrow> (case hex_decode cs of None \<Rightarrow> None | Some r \<Rightarrow> Some (char_of (16 * x + y) # r))
      | _ \<Rightarrow> None)"

lemma hex_decode_encode: "hex_decode (hex_encode s) = Some s"
proof (induction s)
  case Nil
  show ?case by (simp add: hex_encode_def)
next
  case (Cons c s)
  have "(of_char c :: nat) div 16 < 16" by (simp add: less_mult_imp_div_less)
  then show ?case
    using Cons by (simp add: hex_encode_def nibble_value)
qed

lemma hex_encode_length [simp]: "length (hex_encode s) = 2 * length s"
  by (induction s) (simp_all add: hex_encode_def)

section \<open>bufio.Scanner\<close>

text \<open>
  The default scanner cuts its input at newlines, drops one carriage return at the end of a line,
  and gives up on a line that does not fit its buffer of 64 KiB.
\<close>

fun lines_of :: "string \<Rightarrow> string \<Rightarrow> string list" where
  "lines_of cur [] = (if cur = '''' then [] else [cur])"
| "lines_of cur (c # cs) = (if c = CHR 0x0A then cur # lines_of '''' cs else lines_of (cur @ [c]) cs)"

definition drop_cr :: "string \<Rightarrow> string" where
  "drop_cr s = (if s \<noteq> '''' \<and> last s = CHR 0x0D then butlast s else s)"

definition maxScanTokenSize :: nat where
  "maxScanTokenSize = 65536"

datatype scanned = Line string | TooLong

definition scan :: "string \<Rightarrow> scanned list" where
  "scan s = map (\<lambda>l. if length l \<ge> maxScanTokenSize then TooLong else Line (drop_cr l)) (lines_of '''' s)"

lemma lines_of_append: "CHR 0x0A \<notin> set l \<Longrightarrow> lines_of cur (l @ CHR 0x0A # s) = (cur @ l) # lines_of '''' s"
  by (induction l arbitrary: cur) auto

lemma scan_line:
  assumes "CHR 0x0A \<notin> set l" "CHR 0x0D \<notin> set l" "length l < maxScanTokenSize"
  shows "scan (l @ CHR 0x0A # s) = Line l # scan s"
proof -
  have "drop_cr l = l"
    using assms(2) by (auto simp: drop_cr_def) (metis last_in_set)
  then show ?thesis
    using assms by (simp add: scan_def lines_of_append)
qed

lemma scan_nil [simp]: "scan '''' = []"
  by (simp add: scan_def)

end
