(* ===== verification/Torrent_Store.thy ===== *)
theory Torrent_Store
  imports Go_Text "HOL-Library.Multiset"
begin

text \<open>
  internal/store: the torrent.info file partclone writes (torrentinfo.go), the bencoded info dict
  whose SHA-1 names a content (bencode.go, torrent.go), the names of content objects (paths.go) and
  the directory a content is kept in (layout.go). Bytes are \<open>char\<close>; unsigned integers are \<open>nat\<close> with
  the width checked where the code parses and wrapped where it converts; the SHA-1 digest is a
  parameter.
\<close>

section \<open>torrentinfo.go\<close>

definition PieceSize :: int where
  "PieceSize = 16 * 1024 * 1024"

definition SHA1Size :: nat where
  "SHA1Size = 20"

definition hexFieldWidth :: nat where
  "hexFieldWidth = 32"

record Extent =
  ex_offset :: nat
  ex_length :: nat

record TorrentInfo =
  ti_blockSize :: nat
  ti_blocksTotal :: nat
  ti_extents :: "Extent list"
  ti_pieceHashes :: "string list"

definition prefixBlockSize :: string where
  "prefixBlockSize = ''block_size: ''"
definition prefixBlocksTotal :: string where
  "prefixBlocksTotal = ''blocks_total: ''"
definition prefixOffset :: string where
  "prefixOffset = ''offset: ''"
definition prefixLength :: string where
  "prefixLength = ''length: ''"
definition prefixSha1 :: string where
  "prefixSha1 = ''sha1: ''"

lemmas info_prefixes = prefixBlockSize_def prefixBlocksTotal_def prefixOffset_def prefixLength_def prefixSha1_def

definition cutPrefix :: "string \<Rightarrow> string \<Rightarrow> string" where
  "cutPrefix line p = (if length line \<le> length p \<or> take (length p) line \<noteq> p then '''' else drop (length p) line)"

text \<open>The variables of the parser's loop; \<open>pendingOffset\<close> is set when \<^verbatim>\<open>havePendingOffset\<close> is.\<close>

record info_state =
  is_info :: TorrentInfo
  haveBlockSize :: bool
  haveBlocksTotal :: bool
  pendingOffset :: "nat option"

definition line_error :: "nat \<Rightarrow> string \<Rightarrow> kerr" where
  "line_error lineNo msg = PlainError (''torrent.info:'' @ show_nat lineNo @ '': '' @ msg)"

definition parse_line :: "nat \<Rightarrow> string \<Rightarrow> info_state \<Rightarrow> kerr + info_state" where
  "parse_line lineNo line st =
     (if cutPrefix line prefixBlockSize \<noteq> '''' then
        if haveBlockSize st then Inl (line_error lineNo ''duplicate block_size line'')
        else case parse_uint 10 32 (cutPrefix line prefixBlockSize) of
            None \<Rightarrow> Inl (line_error lineNo ''invalid block_size'')
          | Some v \<Rightarrow> Inr (st\<lparr>is_info := (is_info st)\<lparr>ti_blockSize := v\<rparr>, haveBlockSize := True\<rparr>)
      else if cutPrefix line prefixBlocksTotal \<noteq> '''' then
        if haveBlocksTotal st then Inl (line_error lineNo ''duplicate blocks_total line'')
        else case parse_uint 10 64 (cutPrefix line prefixBlocksTotal) of
            None \<Rightarrow> Inl (line_error lineNo ''invalid blocks_total'')
          | Some v \<Rightarrow> Inr (st\<lparr>is_info := (is_info st)\<lparr>ti_blocksTotal := v\<rparr>, haveBlocksTotal := True\<rparr>)
      else if cutPrefix line prefixOffset \<noteq> '''' then
        if pendingOffset st \<noteq> None then
          Inl (line_error lineNo ''offset line follows another offset line with no length line between them'')
        else case parse_uint 16 64 (cutPrefix line prefixOffset) of
            None \<Rightarrow> Inl (line_error lineNo ''invalid offset'')
          | Some v \<Rightarrow> Inr (st\<lparr>pendingOffset := Some v\<rparr>)
      else if cutPrefix line prefixLength \<noteq> '''' then
        case pendingOffset st of
          None \<Rightarrow> Inl (line_error lineNo ''length line without a preceding offset'')
        | Some off \<Rightarrow>
            (case parse_uint 16 64 (cutPrefix line prefixLength) of
               None \<Rightarrow> Inl (line_error lineNo ''invalid length'')
             | Some v \<Rightarrow> Inr (st\<lparr>is_info := (is_info st)\<lparr>ti_extents := ti_extents (is_info st) @ [\<lparr>ex_offset = off, ex_length = v\<rparr>]\<rparr>,
                 pendingOffset := None\<rparr>))
      else if cutPrefix line prefixSha1 \<noteq> '''' then
        (let hexHash = cutPrefix line prefixSha1 in
         if length hexHash \<noteq> SHA1Size * 2 then
           Inl (line_error lineNo (''sha1 line has '' @ show_nat (length hexHash) @ '' hex chars, want '' @ show_nat (SHA1Size * 2)))
         else case hex_decode hexHash of
             None \<Rightarrow> Inl (line_error lineNo ''invalid sha1'')
           | Some h \<Rightarrow> Inr (st\<lparr>is_info := (is_info st)\<lparr>ti_pieceHashes := ti_pieceHashes (is_info st) @ [h]\<rparr>\<rparr>))
      else if line = '''' then Inr st
      else Inl (line_error lineNo (''unrecognized line '' @ go_quote line)))"

fun parse_lines :: "nat \<Rightarrow> scanned list \<Rightarrow> info_state \<Rightarrow> kerr + info_state" where
  "parse_lines lineNo [] st = Inr st"
| "parse_lines lineNo (TooLong # ls) st = Inl (PlainError ''torrent.info: bufio.Scanner: token too long'')"
| "parse_lines lineNo (Line line # ls) st =
     (case parse_line (Suc lineNo) line st of
        Inl e \<Rightarrow> Inl e
      | Inr st' \<Rightarrow> parse_lines (Suc lineNo) ls st')"

definition info_start :: info_state where
  "info_start = \<lparr>is_info = \<lparr>ti_blockSize = 0, ti_blocksTotal = 0, ti_extents = [], ti_pieceHashes = []\<rparr>,
     haveBlockSize = False, haveBlocksTotal = False, pendingOffset = None\<rparr>"

definition ParseTorrentInfo :: "string \<Rightarrow> kerr + TorrentInfo" where
  "ParseTorrentInfo data =
     (case parse_lines 0 (scan data) info_start of
        Inl e \<Rightarrow> Inl e
      | Inr st \<Rightarrow>
          if pendingOffset st \<noteq> None then Inl (PlainError ''torrent.info: trailing offset line without a matching length'')
          else if \<not> haveBlockSize st then Inl (PlainError ''torrent.info: missing block_size line'')
          else if \<not> haveBlocksTotal st then Inl (PlainError ''torrent.info: missing blocks_total line'')
          else Inr (is_info st))"

definition ExtentFileName :: "nat \<Rightarrow> string" where
  "ExtentFileName offset = zero_pad hexFieldWidth (show_base 16 offset)"

definition ParseExtentFileName :: "string \<Rightarrow> kerr + nat" where
  "ParseExtentFileName name =
     (if length name \<noteq> hexFieldWidth then Inl (PlainError ''parse extent file name: wrong length'')
      else case parse_uint 16 64 name of
          None \<Rightarrow> Inl (PlainError ''parse extent file name: invalid syntax'')
        | Some offset \<Rightarrow> Inr offset)"

definition nl :: string where
  "nl = [CHR 0x0A]"

definition extent_lines :: "Extent \<Rightarrow> string" where
  "extent_lines e = prefixOffset @ zero_pad hexFieldWidth (show_base 16 (ex_offset e)) @ nl @
     prefixLength @ zero_pad hexFieldWidth (show_base 16 (ex_length e)) @ nl"

definition WriteTorrentInfo :: "TorrentInfo \<Rightarrow> string" where
  "WriteTorrentInfo info =
     prefixBlockSize @ show_nat (ti_blockSize info) @ nl @
     prefixBlocksTotal @ show_nat (ti_blocksTotal info) @ nl @
     concat (map extent_lines (ti_extents info)) @
     concat (map (\<lambda>h. prefixSha1 @ hex_encode h @ nl) (ti_pieceHashes info))"

section \<open>bencode.go\<close>

definition bencodeString :: "string \<Rightarrow> string" where
  "bencodeString s = show_nat (length s) @ '':'' @ s"

definition bencodeInt :: "int \<Rightarrow> string" where
  "bencodeInt n = ''i'' @ show_int n @ ''e''"

definition bencodeExtentFile :: "string \<Rightarrow> nat \<Rightarrow> string" where
  "bencodeExtentFile name len =
     ''d'' @ bencodeString ''length'' @ bencodeInt (wrap64 (int len)) @
     bencodeString ''path'' @ ''l'' @ bencodeString name @ ''e'' @ ''e''"

section \<open>torrent.go\<close>

definition InfoHashSize :: nat where
  "InfoHashSize = 20"

definition contentName :: string where
  "contentName = ''content''"

text \<open>\<^verbatim>\<open>sort.Slice\<close> by offset; partclone never writes two extents with one offset.\<close>

definition BuildInfoDict :: "TorrentInfo \<Rightarrow> kerr + string" where
  "BuildInfoDict info =
     (if ti_extents info = [] then Inl (PlainError ''build info dict: no extents'')
      else if ti_pieceHashes info = [] then Inl (PlainError ''build info dict: no piece hashes'')
      else
        (let extents = sort_key ex_offset (ti_extents info) in
         Inr (''d'' @ bencodeString ''files'' @ ''l'' @
           concat (map (\<lambda>e. bencodeExtentFile (ExtentFileName (ex_offset e)) (ex_length e)) extents) @ ''e'' @
           bencodeString ''name'' @ bencodeString contentName @
           bencodeString ''piece length'' @ bencodeInt PieceSize @
           bencodeString ''pieces'' @ bencodeString (concat (ti_pieceHashes info)) @ ''e'')))"

definition ComputeInfoHash :: "(string \<Rightarrow> string) \<Rightarrow> TorrentInfo \<Rightarrow> kerr + string" where
  "ComputeInfoHash sha1 info = (case BuildInfoDict info of Inl e \<Rightarrow> Inl e | Inr dict \<Rightarrow> Inr (sha1 dict))"

definition BuildTorrentFile :: "TorrentInfo \<Rightarrow> string \<Rightarrow> kerr + string" where
  "BuildTorrentFile info trackerURL =
     (if trackerURL = '''' then Inl (PlainError ''build torrent file: empty tracker URL'')
      else case BuildInfoDict info of
          Inl e \<Rightarrow> Inl (Wrapped ''build torrent file'' e)
        | Inr dict \<Rightarrow>
            Inr (''d'' @ bencodeString ''announce'' @ bencodeString trackerURL @ bencodeString ''info'' @ dict @ ''e''))"

definition ParseInfoHash :: "string \<Rightarrow> kerr + string" where
  "ParseInfoHash s =
     (if length s \<noteq> 2 * InfoHashSize then Inl (PlainError ''parse info hash: wrong length'')
      else case hex_decode s of None \<Rightarrow> Inl (PlainError ''parse info hash: invalid byte'') | Some h \<Rightarrow> Inr h)"

definition infoHash_string :: "string \<Rightarrow> string" where
  "infoHash_string h = hex_encode h"

section \<open>paths.go\<close>

definition pvcContentSuffix :: string where
  "pvcContentSuffix = ''-content''"

definition partitionInfix :: string where
  "partitionInfix = ''-p''"

definition k8sObjectNameMaxLength :: nat where
  "k8sObjectNameMaxLength = 253"

definition MaxContentNameLength :: nat where
  "MaxContentNameLength = k8sObjectNameMaxLength - length pvcContentSuffix"

definition ContentName :: "string \<Rightarrow> int \<Rightarrow> string" where
  "ContentName prefix partitionNumber = prefix @ partitionInfix @ show_int partitionNumber"

definition PVCName :: "string \<Rightarrow> string" where
  "PVCName name = name @ pvcContentSuffix"

section \<open>layout.go\<close>

text \<open>
  A directory as a list of its entries, each with whether it is a directory, its size and, for a
  directory, the entries below it; names are unique in a directory. \<^verbatim>\<open>os.ReadDir\<close> lists them in
  order of name, which decides which of several errors is reported first; the last loop of
  \<^verbatim>\<open>ValidateContentDir\<close> ranges over a Go map, whose order is not specified, so its error carries no
  name.
\<close>

datatype fs_entry = File nat | Dir "(string \<times> fs_entry) list"

type_synonym dir = "(string \<times> fs_entry) list"

fun is_dir :: "fs_entry \<Rightarrow> bool" where
  "is_dir (File _) = False"
| "is_dir (Dir _) = True"

datatype layout_error =
    InfoIsDirectory
  | ContentIsFile
  | UnexpectedEntry string
  | MissingInfo
  | MissingContent
  | MissingExtent string
  | ExtentIsDirectory string
  | WrongSize string
  | UnexpectedData
  | NestFailed string

definition TorrentInfoFileName :: string where
  "TorrentInfoFileName = ''torrent.info''"

fun check_entries :: "dir \<Rightarrow> bool \<times> bool \<Rightarrow> layout_error + (bool \<times> bool)" where
  "check_entries [] saw = Inr saw"
| "check_entries ((name, e) # es) (sawInfo, sawContent) =
     (if name = TorrentInfoFileName then
        if is_dir e then Inl InfoIsDirectory else check_entries es (True, sawContent)
      else if name = contentName then
        if \<not> is_dir e then Inl ContentIsFile else check_entries es (sawInfo, True)
      else Inl (UnexpectedEntry name))"

fun check_extents :: "dir \<Rightarrow> Extent list \<Rightarrow> layout_error option" where
  "check_extents present [] = None"
| "check_extents present (x # xs) =
     (case map_of present (ExtentFileName (ex_offset x)) of
        None \<Rightarrow> Some (MissingExtent (ExtentFileName (ex_offset x)))
      | Some (Dir _) \<Rightarrow> Some (ExtentIsDirectory (ExtentFileName (ex_offset x)))
      | Some (File sz) \<Rightarrow> if sz \<noteq> ex_length x then Some (WrongSize (ExtentFileName (ex_offset x))) else check_extents present xs)"

definition ValidateContentDir :: "dir \<Rightarrow> TorrentInfo \<Rightarrow> layout_error option" where
  "ValidateContentDir d info =
     (case check_entries d (False, False) of
        Inl e \<Rightarrow> Some e
      | Inr (sawInfo, sawContent) \<Rightarrow>
          if \<not> sawInfo then Some MissingInfo
          else if \<not> sawContent then Some MissingContent
          else case map_of d contentName of
              Some (Dir present) \<Rightarrow>
                (case check_extents present (ti_extents info) of
                   Some e \<Rightarrow> Some e
                 | None \<Rightarrow>
                     if list_all (\<lambda>(name, _). name \<in> set (map (\<lambda>x. ExtentFileName (ex_offset x)) (ti_extents info))) present
                     then None else Some UnexpectedData)
            | _ \<Rightarrow> Some ContentIsFile)"

text \<open>\<^verbatim>\<open>os.MkdirAll\<close> of the data directory, then one \<^verbatim>\<open>os.Rename\<close> per extent; a rename replaces its target.\<close>

definition mkdir_data :: "dir \<Rightarrow> layout_error + dir" where
  "mkdir_data d =
     (case map_of d contentName of
        None \<Rightarrow> Inr (alist_put contentName (Dir []) d)
      | Some (Dir _) \<Rightarrow> Inr d
      | Some (File _) \<Rightarrow> Inl (NestFailed contentName))"

definition rename_into_data :: "string \<Rightarrow> dir \<Rightarrow> layout_error + dir" where
  "rename_into_data name d =
     (case (map_of d name, map_of d contentName) of
        (Some e, Some (Dir sub)) \<Rightarrow>
          Inr (alist_put contentName (Dir (alist_put name e sub)) (alist_delete name d))
      | _ \<Rightarrow> Inl (NestFailed name))"

fun nest_each :: "Extent list \<Rightarrow> dir \<Rightarrow> layout_error + dir" where
  "nest_each [] d = Inr d"
| "nest_each (x # xs) d =
     (case rename_into_data (ExtentFileName (ex_offset x)) d of
        Inl e \<Rightarrow> Inl e
      | Inr d' \<Rightarrow> nest_each xs d')"

definition NestExtentFiles :: "dir \<Rightarrow> TorrentInfo \<Rightarrow> layout_error + dir" where
  "NestExtentFiles d info = (case mkdir_data d of Inl e \<Rightarrow> Inl e | Inr d' \<Rightarrow> nest_each (ti_extents info) d')"

end
