(* ===== verification/Store_Properties.thy ===== *)
theory Store_Properties
  imports Torrent_Store
begin

text \<open>
  Correctness of the content store's formats: what is written is read back, the info dict of a
  torrent determines the content and nothing else, and the directory that ingest leaves behind is
  the one the seeder's check accepts.
\<close>

section \<open>Rendered numbers\<close>

lemma nibble_code: "d < 16 \<Longrightarrow> (of_char (nibble_char d) :: nat) = (if d < 10 then 48 + d else 87 + d)"
  by (simp add: nibble_char_def)

lemma nibble_not:
  assumes "d < 16" "(of_char c :: nat) < 48 \<or> 57 < (of_char c :: nat) \<and> (of_char c :: nat) < 97 \<or> 102 < (of_char c :: nat)"
  shows "nibble_char d \<noteq> c"
  using nibble_code [OF assms(1)] assms by (auto split: if_splits)

lemma show_base_not:
  assumes "2 \<le> b" "b \<le> 16" "(of_char c :: nat) < 48 \<or> 57 < (of_char c :: nat) \<and> (of_char c :: nat) < 97 \<or> 102 < (of_char c :: nat)"
  shows "c \<notin> set (show_base b n)"
proof
  assume "c \<in> set (show_base b n)"
  then obtain d where "d < b" "c = nibble_char d"
    using show_base_digits [OF assms(1,2), of n] by blast
  then show False using nibble_not [OF _ assms(3), of d] assms(2) by simp
qed

lemma hex_encode_not:
  assumes "(of_char c :: nat) < 48 \<or> 57 < (of_char c :: nat) \<and> (of_char c :: nat) < 97 \<or> 102 < (of_char c :: nat)"
  shows "c \<notin> set (hex_encode s)"
proof -
  have "(of_char x :: nat) div 16 < 16" for x by (simp add: less_mult_imp_div_less)
  then have "c \<noteq> nibble_char (of_char x div 16)" "c \<noteq> nibble_char (of_char x mod 16)" for x
    using nibble_not [OF _ assms, of "of_char x div 16"] nibble_not [OF _ assms, of "of_char x mod 16"] by auto
  then show ?thesis
    by (induction s) (auto simp: hex_encode_def)
qed

lemma length_hex_field:
  assumes "n < 2 ^ 64"
  shows "length (zero_pad hexFieldWidth (show_base 16 n)) = 32"
proof -
  have "length (show_base 16 n) \<le> 16"
    by (rule show_base_length) (use assms in simp_all)
  then show ?thesis by (simp add: zero_pad_def hexFieldWidth_def)
qed

lemma length_decimal: "n < 2 ^ 64 \<Longrightarrow> length (show_nat n) \<le> 20"
  unfolding show_nat_base by (rule show_base_length) simp_all

lemma hex_field_not:
  assumes "(of_char c :: nat) < 48 \<or> 57 < (of_char c :: nat) \<and> (of_char c :: nat) < 97 \<or> 102 < (of_char c :: nat)"
  shows "c \<notin> set (zero_pad w (show_base 16 n))"
  using show_base_not [of 16 c n] assms by (auto simp: zero_pad_def)

section \<open>Reading back what was written\<close>

lemma cutPrefix_same: "s \<noteq> '''' \<Longrightarrow> cutPrefix (p @ s) p = s"
  by (simp add: cutPrefix_def)

lemma cutPrefix_other:
  "cutPrefix (prefixBlocksTotal @ s) prefixBlockSize = ''''"
  "cutPrefix (prefixOffset @ s) prefixBlockSize = ''''" "cutPrefix (prefixOffset @ s) prefixBlocksTotal = ''''"
  "cutPrefix (prefixLength @ s) prefixBlockSize = ''''" "cutPrefix (prefixLength @ s) prefixBlocksTotal = ''''"
  "cutPrefix (prefixLength @ s) prefixOffset = ''''"
  "cutPrefix (prefixSha1 @ s) prefixBlockSize = ''''" "cutPrefix (prefixSha1 @ s) prefixBlocksTotal = ''''"
  "cutPrefix (prefixSha1 @ s) prefixOffset = ''''" "cutPrefix (prefixSha1 @ s) prefixLength = ''''"
  by (simp_all add: cutPrefix_def info_prefixes)

lemma hex_field_nonempty [simp]: "zero_pad w (show_base b n) \<noteq> []"
  by (simp add: zero_pad_def)

lemma parse_written_line:
  "v < 2 ^ 32 \<Longrightarrow> \<not> haveBlockSize st \<Longrightarrow> parse_line k (prefixBlockSize @ show_nat v) st =
     Inr (st\<lparr>is_info := (is_info st)\<lparr>ti_blockSize := v\<rparr>, haveBlockSize := True\<rparr>)"
  "v < 2 ^ 64 \<Longrightarrow> \<not> haveBlocksTotal st \<Longrightarrow> parse_line k (prefixBlocksTotal @ show_nat v) st =
     Inr (st\<lparr>is_info := (is_info st)\<lparr>ti_blocksTotal := v\<rparr>, haveBlocksTotal := True\<rparr>)"
  "v < 2 ^ 64 \<Longrightarrow> pendingOffset st = None \<Longrightarrow> parse_line k (prefixOffset @ zero_pad hexFieldWidth (show_base 16 v)) st =
     Inr (st\<lparr>pendingOffset := Some v\<rparr>)"
  "v < 2 ^ 64 \<Longrightarrow> pendingOffset st = Some off \<Longrightarrow> parse_line k (prefixLength @ zero_pad hexFieldWidth (show_base 16 v)) st =
     Inr (st\<lparr>is_info := (is_info st)\<lparr>ti_extents := ti_extents (is_info st) @ [\<lparr>ex_offset = off, ex_length = v\<rparr>]\<rparr>, pendingOffset := None\<rparr>)"
  "length h = SHA1Size \<Longrightarrow> parse_line k (prefixSha1 @ hex_encode h) st =
     Inr (st\<lparr>is_info := (is_info st)\<lparr>ti_pieceHashes := ti_pieceHashes (is_info st) @ [h]\<rparr>\<rparr>)"
proof -
  show "v < 2 ^ 32 \<Longrightarrow> \<not> haveBlockSize st \<Longrightarrow> parse_line k (prefixBlockSize @ show_nat v) st =
     Inr (st\<lparr>is_info := (is_info st)\<lparr>ti_blockSize := v\<rparr>, haveBlockSize := True\<rparr>)"
    by (simp add: parse_line_def cutPrefix_same show_nat_base parse_uint_show)
  show "v < 2 ^ 64 \<Longrightarrow> \<not> haveBlocksTotal st \<Longrightarrow> parse_line k (prefixBlocksTotal @ show_nat v) st =
     Inr (st\<lparr>is_info := (is_info st)\<lparr>ti_blocksTotal := v\<rparr>, haveBlocksTotal := True\<rparr>)"
    by (simp add: parse_line_def cutPrefix_same cutPrefix_other show_nat_base parse_uint_show)
  show "v < 2 ^ 64 \<Longrightarrow> pendingOffset st = None \<Longrightarrow> parse_line k (prefixOffset @ zero_pad hexFieldWidth (show_base 16 v)) st =
     Inr (st\<lparr>pendingOffset := Some v\<rparr>)"
    by (simp add: parse_line_def cutPrefix_same cutPrefix_other parse_uint_padded)
  show "v < 2 ^ 64 \<Longrightarrow> pendingOffset st = Some off \<Longrightarrow> parse_line k (prefixLength @ zero_pad hexFieldWidth (show_base 16 v)) st =
     Inr (st\<lparr>is_info := (is_info st)\<lparr>ti_extents := ti_extents (is_info st) @ [\<lparr>ex_offset = off, ex_length = v\<rparr>]\<rparr>, pendingOffset := None\<rparr>)"
    by (simp add: parse_line_def cutPrefix_same cutPrefix_other parse_uint_padded)
  show "length h = SHA1Size \<Longrightarrow> parse_line k (prefixSha1 @ hex_encode h) st =
     Inr (st\<lparr>is_info := (is_info st)\<lparr>ti_pieceHashes := ti_pieceHashes (is_info st) @ [h]\<rparr>\<rparr>)"
  proof -
    assume h: "length h = SHA1Size"
    then have "hex_encode h \<noteq> ''''"
      using hex_encode_length [of h] by (auto simp: SHA1Size_def simp del: hex_encode_length)
    with h show ?thesis
      by (simp add: parse_line_def cutPrefix_same cutPrefix_other hex_decode_encode)
  qed
qed

definition clean :: "string \<Rightarrow> bool" where
  "clean l \<longleftrightarrow> CHR 0x0A \<notin> set l \<and> CHR 0x0D \<notin> set l \<and> length l < maxScanTokenSize"

lemma clean_lines:
  "v < 2 ^ 64 \<Longrightarrow> clean (prefixBlockSize @ show_nat v)" "v < 2 ^ 64 \<Longrightarrow> clean (prefixBlocksTotal @ show_nat v)"
  "v < 2 ^ 64 \<Longrightarrow> clean (prefixOffset @ zero_pad hexFieldWidth (show_base 16 v))"
  "v < 2 ^ 64 \<Longrightarrow> clean (prefixLength @ zero_pad hexFieldWidth (show_base 16 v))"
  "length h = SHA1Size \<Longrightarrow> clean (prefixSha1 @ hex_encode h)"
proof -
  have dec: "CHR 0x0A \<notin> set (show_nat v)" "CHR 0x0D \<notin> set (show_nat v)" for v
    unfolding show_nat_base by (rule show_base_not; simp)+
  have fld: "CHR 0x0A \<notin> set (zero_pad w (show_base 16 v))" "CHR 0x0D \<notin> set (zero_pad w (show_base 16 v))" for w v
    by (rule hex_field_not; simp)+
  have hex: "CHR 0x0A \<notin> set (hex_encode h)" "CHR 0x0D \<notin> set (hex_encode h)" for h
    by (rule hex_encode_not; simp)+
  show "v < 2 ^ 64 \<Longrightarrow> clean (prefixBlockSize @ show_nat v)" "v < 2 ^ 64 \<Longrightarrow> clean (prefixBlocksTotal @ show_nat v)"
    using dec [of v] length_decimal [of v] by (simp_all add: clean_def info_prefixes maxScanTokenSize_def)
  show "v < 2 ^ 64 \<Longrightarrow> clean (prefixOffset @ zero_pad hexFieldWidth (show_base 16 v))"
    "v < 2 ^ 64 \<Longrightarrow> clean (prefixLength @ zero_pad hexFieldWidth (show_base 16 v))"
    using fld length_hex_field [of v] by (simp_all add: clean_def info_prefixes maxScanTokenSize_def)
  show "length h = SHA1Size \<Longrightarrow> clean (prefixSha1 @ hex_encode h)"
    using hex by (simp add: clean_def info_prefixes maxScanTokenSize_def SHA1Size_def)
qed

lemma scan_clean: "clean (p @ d) \<Longrightarrow> scan (p @ d @ nl @ s) = Line (p @ d) # scan s"
  using scan_line [of "p @ d" s] by (simp add: clean_def nl_def)

text \<open>The values a torrent.info file can hold.\<close>

definition wf_info :: "TorrentInfo \<Rightarrow> bool" where
  "wf_info info \<longleftrightarrow> ti_blockSize info < 2 ^ 32 \<and> ti_blocksTotal info < 2 ^ 64 \<and>
     (\<forall>e\<in>set (ti_extents info). ex_offset e < 2 ^ 64 \<and> ex_length e < 2 ^ 64) \<and>
     (\<forall>h\<in>set (ti_pieceHashes info). length h = SHA1Size)"

lemma parse_extents:
  assumes "\<forall>e\<in>set es. ex_offset e < 2 ^ 64 \<and> ex_length e < 2 ^ 64" "pendingOffset st = None"
  shows "parse_lines k (scan (concat (map extent_lines es) @ rest)) st =
    parse_lines (k + 2 * length es) (scan rest) (st\<lparr>is_info := (is_info st)\<lparr>ti_extents := ti_extents (is_info st) @ es\<rparr>\<rparr>)"
  using assms
proof (induction es arbitrary: k st)
  case Nil
  then show ?case by simp
next
  case (Cons e es)
  let ?st = "st\<lparr>is_info := (is_info st)\<lparr>ti_extents := ti_extents (is_info st) @ [e]\<rparr>\<rparr>"
  have e: "ex_offset e < 2 ^ 64" "ex_length e < 2 ^ 64" using Cons.prems by auto
  have "parse_lines k (scan (concat (map extent_lines (e # es)) @ rest)) st =
      parse_lines (Suc (Suc k)) (scan (concat (map extent_lines es) @ rest)) ?st"
    using parse_written_line(3) [OF e(1) Cons.prems(2)] parse_written_line(4) [OF e(2), of "st\<lparr>pendingOffset := Some (ex_offset e)\<rparr>" "ex_offset e"]
      clean_lines(3) [OF e(1)] clean_lines(4) [OF e(2)] Cons.prems(2)
    by (cases st, cases e) (simp add: extent_lines_def scan_clean)
  also have "\<dots> = parse_lines (Suc (Suc k) + 2 * length es) (scan rest)
      (?st\<lparr>is_info := (is_info ?st)\<lparr>ti_extents := ti_extents (is_info ?st) @ es\<rparr>\<rparr>)"
    using Cons by simp
  finally show ?case by simp
qed

lemma parse_hashes:
  assumes "\<forall>h\<in>set hs. length h = SHA1Size"
  shows "parse_lines k (scan (concat (map (\<lambda>h. prefixSha1 @ hex_encode h @ nl) hs))) st =
    Inr (st\<lparr>is_info := (is_info st)\<lparr>ti_pieceHashes := ti_pieceHashes (is_info st) @ hs\<rparr>\<rparr>)"
  using assms
proof (induction hs arbitrary: k st)
  case Nil
  then show ?case by simp
next
  case (Cons h hs)
  then show ?case
    using scan_clean [OF clean_lines(5), of h] by (simp add: parse_written_line(5))
qed

text \<open>
  C28: a torrent.info file that WriteTorrentInfo produced is read back by
  ParseTorrentInfo as the very same value, for every value whose fields fit their widths.
\<close>

theorem torrent_info_round_trip:
  assumes "wf_info info"
  shows "ParseTorrentInfo (WriteTorrentInfo info) = Inr info"
proof -
  have w: "ti_blockSize info < 2 ^ 32" "ti_blocksTotal info < 2 ^ 64" "ti_blockSize info < 2 ^ 64"
    using assms by (auto simp: wf_info_def)
  have "parse_lines 0 (scan (WriteTorrentInfo info)) info_start = Inr \<lparr>is_info = info, haveBlockSize = True,
      haveBlocksTotal = True, pendingOffset = None\<rparr>"
    using assms parse_extents [of "ti_extents info"] parse_hashes [of "ti_pieceHashes info"]
      scan_clean [OF clean_lines(1) [OF w(3)]] scan_clean [OF clean_lines(2) [OF w(2)]]
    by (simp add: wf_info_def WriteTorrentInfo_def parse_written_line(1,2) info_start_def)
  then show ?thesis by (simp add: ParseTorrentInfo_def)
qed

definition small_info :: TorrentInfo where
  "small_info = \<lparr>ti_blockSize = 4096, ti_blocksTotal = 17, ti_extents = [\<lparr>ex_offset = 0, ex_length = 512\<rparr>, \<lparr>ex_offset = 8192, ex_length = 4096\<rparr>],
     ti_pieceHashes = [replicate 20 (CHR 0x0A)]\<rparr>"

lemma small_info_wf: "wf_info small_info"
  by (simp add: wf_info_def small_info_def SHA1Size_def)

theorem torrent_info_round_trip_witness: "ParseTorrentInfo (WriteTorrentInfo small_info) = Inr small_info"
  by (rule torrent_info_round_trip [OF small_info_wf])

lemma extent_name_round_trip: "n < 2 ^ 64 \<Longrightarrow> ParseExtentFileName (ExtentFileName n) = Inr n"
  using length_hex_field by (simp add: ParseExtentFileName_def ExtentFileName_def hexFieldWidth_def parse_uint_padded)

lemma info_hash_round_trip: "length h = InfoHashSize \<Longrightarrow> ParseInfoHash (infoHash_string h) = Inr h"
  by (simp add: ParseInfoHash_def infoHash_string_def hex_decode_encode)

section \<open>The info dict determines the content\<close>

lemma append_at_mark: "c \<notin> set a \<Longrightarrow> c \<notin> set b \<Longrightarrow> a @ c # x = b @ c # y \<Longrightarrow> a = b \<and> x = y"
proof (induction a arbitrary: b)
  case Nil
  then show ?case by (cases b) auto
next
  case (Cons h a)
  then show ?case by (cases b) auto
qed

lemma decimal_codes:
  assumes "c \<in> set (show_nat n)"
  shows "48 \<le> (of_char c :: nat) \<and> (of_char c :: nat) \<le> 57"
proof -
  obtain d where "d < 10" "c = nibble_char d"
    using assms show_base_digits [of 10 n] by (auto simp: show_nat_base)
  then show ?thesis by (simp add: nibble_char_def)
qed

lemma show_nat_inj: "show_nat m = show_nat n \<Longrightarrow> m = n"
proof -
  assume eq: "show_nat m = show_nat n"
  have "digits_value 10 0 (show_nat k) = Some k" for k
    unfolding show_nat_base by (rule digits_value_show) simp_all
  from this [of m] this [of n] show "m = n" unfolding eq by (metis option.inject)
qed

lemma bencodeString_inj:
  assumes "bencodeString s @ x = bencodeString t @ y"
  shows "s = t \<and> x = y"
proof -
  have colon: "CHR '':'' \<notin> set (show_nat n)" for n
    using decimal_codes [of "CHR '':''" n] by auto
  have "show_nat (length s) = show_nat (length t) \<and> s @ x = t @ y"
    using assms append_at_mark [OF colon colon, of "length s" "s @ x" "length t" "t @ y"] by (simp add: bencodeString_def)
  then show ?thesis
    using show_nat_inj by auto
qed

lemma show_int_codes: "c \<in> set (show_int i) \<Longrightarrow> (of_char c :: nat) \<le> 57"
  using decimal_codes by (fastforce simp: show_int_def split: if_splits)

lemma show_int_inj: "show_int i = show_int j \<Longrightarrow> i = j"
proof -
  assume eq: "show_int i = show_int j"
  have minus: "show_nat n \<noteq> CHR ''-'' # s" for n s
    using decimal_codes [of "CHR ''-''" n] by auto
  show "i = j"
    using eq minus minus [symmetric] by (auto simp: show_int_def split: if_splits dest!: show_nat_inj)
qed

lemma bencodeInt_inj:
  assumes "bencodeInt i @ x = bencodeInt j @ y"
  shows "i = j \<and> x = y"
proof -
  have e: "CHR ''e'' \<notin> set (show_int n)" for n
    using show_int_codes [of "CHR ''e''" n] by auto
  have "show_int i = show_int j \<and> x = y"
    using assms append_at_mark [OF e e, of i x j y] by (simp add: bencodeInt_def)
  then show ?thesis using show_int_inj by auto
qed

lemma wrap64_inj:
  assumes "wrap64 (int a) = wrap64 (int b)" "a < 2 ^ 64" "b < 2 ^ 64"
  shows "a = b"
proof -
  have eq: "(int a + 2 ^ 63) mod 2 ^ 64 = (int b + 2 ^ 63) mod 2 ^ 64"
    using assms(1) by (simp add: wrap64_def)
  have "int a mod 2 ^ 64 = int b mod 2 ^ 64"
  proof -
    have "int c mod 2 ^ 64 = ((int c + 2 ^ 63) mod 2 ^ 64 + 2 ^ 63) mod 2 ^ 64" for c
    proof -
      have "((int c + 2 ^ 63) mod 2 ^ 64 + 2 ^ 63) mod 2 ^ 64 = (int c + 2 ^ 64) mod 2 ^ 64"
        by (simp add: mod_add_left_eq)
      then show ?thesis by simp
    qed
    then show ?thesis using eq by metis
  qed
  then show ?thesis using assms(2,3) by simp
qed

definition extent_entry :: "Extent \<Rightarrow> string" where
  "extent_entry e = bencodeExtentFile (ExtentFileName (ex_offset e)) (ex_length e)"

lemma extent_entry_inj:
  assumes "extent_entry e @ x = extent_entry f @ y" "ex_offset e < 2 ^ 64" "ex_length e < 2 ^ 64" "ex_offset f < 2 ^ 64" "ex_length f < 2 ^ 64"
  shows "e = f \<and> x = y"
proof -
  have "bencodeString ''length'' @ (bencodeInt (wrap64 (int (ex_length e))) @ bencodeString ''path'' @ ''l'' @ bencodeString (ExtentFileName (ex_offset e)) @ ''ee'' @ x) =
      bencodeString ''length'' @ (bencodeInt (wrap64 (int (ex_length f))) @ bencodeString ''path'' @ ''l'' @ bencodeString (ExtentFileName (ex_offset f)) @ ''ee'' @ y)"
    using assms(1) by (simp add: extent_entry_def bencodeExtentFile_def)
  note s1 = bencodeString_inj [OF this, THEN conjunct2]
  note s2 = bencodeInt_inj [OF s1]
  note s3 = bencodeString_inj [OF s2 [THEN conjunct2], THEN conjunct2]
  have "bencodeString (ExtentFileName (ex_offset e)) @ ''ee'' @ x = bencodeString (ExtentFileName (ex_offset f)) @ ''ee'' @ y"
    using s3 by simp
  note s4 = bencodeString_inj [OF this]
  have "ex_offset e = ex_offset f"
    using extent_name_round_trip [OF assms(2)] extent_name_round_trip [OF assms(4)] unfolding s4 [THEN conjunct1] by simp
  moreover have "ex_length e = ex_length f"
    using s2 wrap64_inj assms(3,5) by blast
  ultimately show ?thesis using s4 by simp
qed

lemma entries_inj:
  assumes "concat (map extent_entry es) @ ''e'' @ x = concat (map extent_entry fs) @ ''e'' @ y"
    and "\<forall>e\<in>set es \<union> set fs. ex_offset e < 2 ^ 64 \<and> ex_length e < 2 ^ 64"
  shows "es = fs \<and> x = y"
  using assms
proof (induction es arbitrary: fs)
  case Nil
  then show ?case by (cases fs) (auto simp: extent_entry_def bencodeExtentFile_def)
next
  case (Cons e es)
  show ?case
  proof (cases fs)
    case Nil
    then show ?thesis using Cons.prems(1) by (simp add: extent_entry_def bencodeExtentFile_def)
  next
    case (Cons f fs')
    have "extent_entry e @ (concat (map extent_entry es) @ ''e'' @ x) = extent_entry f @ (concat (map extent_entry fs') @ ''e'' @ y)"
      using Cons.prems(1) Cons by simp
    then have "e = f" "concat (map extent_entry es) @ ''e'' @ x = concat (map extent_entry fs') @ ''e'' @ y"
      using extent_entry_inj Cons.prems(2) Cons by (metis UnI1 UnI2 list.set_intros(1))+
    then show ?thesis
      using Cons.IH [of fs'] Cons.prems(2) Cons by auto
  qed
qed

lemma concat_blocks_inj:
  "concat hs = concat gs \<Longrightarrow> \<forall>h\<in>set hs \<union> set gs. length h = k \<Longrightarrow> 0 < k \<Longrightarrow> hs = gs"
proof (induction hs arbitrary: gs)
  case Nil
  then show ?case by (cases gs) auto
next
  case (Cons h hs)
  then show ?case by (cases gs) auto
qed

lemma sort_extents_eq:
  assumes "distinct (map ex_offset es)" "distinct (map ex_offset fs)"
  shows "sort_key ex_offset es = sort_key ex_offset fs \<longleftrightarrow> mset es = mset fs"
proof
  assume "mset es = mset fs"
  then show "sort_key ex_offset es = sort_key ex_offset fs"
    using assms(1) by (intro sort_key_inj_key_eq) (simp_all add: distinct_map)
qed (metis mset_sort)


lemma info_dict_split:
  assumes "ti_extents i \<noteq> []" "ti_pieceHashes i \<noteq> []"
  shows "BuildInfoDict i = Inr (''d'' @ bencodeString ''files'' @ ''l'' @
      (concat (map extent_entry (sort_key ex_offset (ti_extents i))) @ ''e'' @
       (bencodeString ''name'' @ bencodeString contentName @ bencodeString ''piece length'' @ bencodeInt PieceSize @
        bencodeString ''pieces'' @ bencodeString (concat (ti_pieceHashes i)) @ ''e'')))"
  using assms by (simp add: BuildInfoDict_def extent_entry_def [abs_def])

text \<open>
  The info dict, hence the info hash, identifies a content: two
  torrent.info contents that partclone can write give the same info dict exactly when they list the
  same extents, in whatever order, and the same piece hashes.
\<close>

theorem info_dict_identifies_content:
  assumes "wf_info i" "wf_info j"
    and "ti_extents i \<noteq> []" "ti_pieceHashes i \<noteq> []" "ti_extents j \<noteq> []" "ti_pieceHashes j \<noteq> []"
    and "distinct (map ex_offset (ti_extents i))" "distinct (map ex_offset (ti_extents j))"
  shows "BuildInfoDict i = BuildInfoDict j \<longleftrightarrow>
    mset (ti_extents i) = mset (ti_extents j) \<and> ti_pieceHashes i = ti_pieceHashes j"
proof
  assume "BuildInfoDict i = BuildInfoDict j"
  then have eq: "concat (map extent_entry (sort_key ex_offset (ti_extents i))) @ ''e'' @
       (bencodeString ''name'' @ bencodeString contentName @ bencodeString ''piece length'' @ bencodeInt PieceSize @
        bencodeString ''pieces'' @ bencodeString (concat (ti_pieceHashes i)) @ ''e'') =
      concat (map extent_entry (sort_key ex_offset (ti_extents j))) @ ''e'' @
       (bencodeString ''name'' @ bencodeString contentName @ bencodeString ''piece length'' @ bencodeInt PieceSize @
        bencodeString ''pieces'' @ bencodeString (concat (ti_pieceHashes j)) @ ''e'')"
    unfolding info_dict_split [OF assms(3,4)] info_dict_split [OF assms(5,6)] by simp
  have bounds: "\<forall>e\<in>set (sort_key ex_offset (ti_extents i)) \<union> set (sort_key ex_offset (ti_extents j)).
      ex_offset e < 2 ^ 64 \<and> ex_length e < 2 ^ 64"
    using assms(1,2) by (auto simp: wf_info_def)
  have sorted: "sort_key ex_offset (ti_extents i) = sort_key ex_offset (ti_extents j)"
    using entries_inj [OF eq bounds] by (rule conjunct1)
  have "bencodeString (concat (ti_pieceHashes i)) @ ''e'' = bencodeString (concat (ti_pieceHashes j)) @ ''e''"
    using entries_inj [OF eq bounds, THEN conjunct2] by simp
  then have "concat (ti_pieceHashes i) = concat (ti_pieceHashes j)"
    using bencodeString_inj by blast
  then have "ti_pieceHashes i = ti_pieceHashes j"
    by (rule concat_blocks_inj [where k = SHA1Size]) (use assms(1,2) in \<open>auto simp: wf_info_def SHA1Size_def\<close>)
  then show "mset (ti_extents i) = mset (ti_extents j) \<and> ti_pieceHashes i = ti_pieceHashes j"
    using sorted sort_extents_eq [OF assms(7,8)] by simp
next
  assume "mset (ti_extents i) = mset (ti_extents j) \<and> ti_pieceHashes i = ti_pieceHashes j"
  then show "BuildInfoDict i = BuildInfoDict j"
    using assms(3-6) sort_extents_eq [OF assms(7,8)] by (simp add: info_dict_split)
qed

definition swapped_info :: TorrentInfo where
  "swapped_info = small_info\<lparr>ti_blocksTotal := 0, ti_extents := rev (ti_extents small_info)\<rparr>"

theorem info_dict_identifies_content_witness: "BuildInfoDict swapped_info = BuildInfoDict small_info"
  by (subst info_dict_identifies_content)
    (simp_all add: swapped_info_def small_info_def wf_info_def SHA1Size_def)

section \<open>Content directories\<close>

definition extent_files :: "Extent list \<Rightarrow> dir" where
  "extent_files es = map (\<lambda>e. (ExtentFileName (ex_offset e), File (ex_length e))) es"

definition partclone_output :: "nat \<Rightarrow> TorrentInfo \<Rightarrow> dir" where
  "partclone_output sz info = (TorrentInfoFileName, File sz) # extent_files (ti_extents info)"

lemma extent_name_inj:
  "a < 2 ^ 64 \<Longrightarrow> b < 2 ^ 64 \<Longrightarrow> ExtentFileName a = ExtentFileName b \<longleftrightarrow> a = b"
  using extent_name_round_trip by (metis sum.inject(2))

lemma map_of_extent_files_Some:
  assumes "distinct (map ex_offset es)" "\<forall>e\<in>set es. ex_offset e < 2 ^ 64" "e \<in> set es"
  shows "map_of (extent_files es) (ExtentFileName (ex_offset e)) = Some (File (ex_length e))"
  using assms
proof (induction es)
  case (Cons x es)
  then show ?case
    using extent_name_inj by (auto simp: extent_files_def) (metis imageI)
qed simp

lemma check_extents_None:
  "check_extents present es = None \<longleftrightarrow> (\<forall>e\<in>set es. map_of present (ExtentFileName (ex_offset e)) = Some (File (ex_length e)))"
  by (induction es) (auto split: option.splits fs_entry.splits)

lemma check_entries_ok:
  "check_entries d (a, b) = Inr (a', b') \<longleftrightarrow>
     (\<forall>(n, e)\<in>set d. n = TorrentInfoFileName \<and> \<not> is_dir e \<or> n = contentName \<and> is_dir e) \<and>
     a' = (a \<or> TorrentInfoFileName \<in> fst ` set d) \<and> b' = (b \<or> contentName \<in> fst ` set d)"
  by (induction d "(a, b)" arbitrary: a b rule: check_entries.induct)
    (auto simp: TorrentInfoFileName_def contentName_def)


lemma map_of_extent_files_None:
  "map_of (extent_files es) n = None \<longleftrightarrow> n \<notin> set (map (\<lambda>x. ExtentFileName (ex_offset x)) es)"
  by (auto simp: extent_files_def map_of_eq_None_iff image_image)

lemma present_exactly:
  assumes "distinct (map ex_offset es)" "\<forall>e\<in>set es. ex_offset e < 2 ^ 64"
  shows "check_extents present es = None \<and> list_all (\<lambda>(n, _). n \<in> set (map (\<lambda>x. ExtentFileName (ex_offset x)) es)) present \<longleftrightarrow>
    map_of present = map_of (extent_files es)"
    (is "?checked \<and> ?known \<longleftrightarrow> ?same")
proof
  assume ok: "?checked \<and> ?known"
  show ?same
  proof
    fix n
    show "map_of present n = map_of (extent_files es) n"
    proof (cases "n \<in> set (map (\<lambda>x. ExtentFileName (ex_offset x)) es)")
      case True
      then obtain e where "e \<in> set es" "n = ExtentFileName (ex_offset e)" by auto
      then show ?thesis using ok map_of_extent_files_Some [OF assms] by (simp add: check_extents_None)
    next
      case False
      then have "n \<notin> fst ` set present" using ok by (auto simp: list_all_iff)
      then show ?thesis using False map_of_extent_files_None by (metis map_of_eq_None_iff)
    qed
  qed
next
  assume same: ?same
  have "n \<in> set (map (\<lambda>x. ExtentFileName (ex_offset x)) es)" if "(n, e) \<in> set present" for n e
    using that same map_of_extent_files_None [of es n] by (metis map_of_eq_None_iff fst_conv image_eqI)
  then show "?checked \<and> ?known"
    using same map_of_extent_files_Some [OF assms] by (auto simp: check_extents_None list_all_iff)
qed

lemma content_dir_valid_iff:
  assumes "distinct (map fst d)" "distinct (map ex_offset (ti_extents info))" "\<forall>e\<in>set (ti_extents info). ex_offset e < 2 ^ 64"
  shows "ValidateContentDir d info = None \<longleftrightarrow>
    (\<exists>n sub. map_of d = [TorrentInfoFileName \<mapsto> File n, contentName \<mapsto> Dir sub] \<and> map_of sub = map_of (extent_files (ti_extents info)))"
    (is "?valid \<longleftrightarrow> ?exact")
proof
  assume ?valid
  then obtain sub where entries: "check_entries d (False, False) = Inr (True, True)"
    and sub: "map_of d contentName = Some (Dir sub)" "map_of sub = map_of (extent_files (ti_extents info))"
    unfolding ValidateContentDir_def using present_exactly [OF assms(2,3)]
    by (auto split: sum.splits prod.splits if_splits option.splits fs_entry.splits)
  have shape: "\<forall>(n, e)\<in>set d. n = TorrentInfoFileName \<and> \<not> is_dir e \<or> n = contentName \<and> is_dir e" "TorrentInfoFileName \<in> fst ` set d"
    using entries by (simp_all add: check_entries_ok)
  then obtain n where "map_of d TorrentInfoFileName = Some (File n)"
    using assms(1) by (force simp: TorrentInfoFileName_def contentName_def elim: is_dir.elims)
  moreover have "map_of d k = None" if "k \<noteq> TorrentInfoFileName" "k \<noteq> contentName" for k
    using that shape(1) by (auto simp: map_of_eq_None_iff)
  ultimately have "map_of d = [TorrentInfoFileName \<mapsto> File n, contentName \<mapsto> Dir sub]"
    using sub(1) by (auto simp: fun_eq_iff)
  then show ?exact using sub(2) by blast
next
  assume ?exact
  then obtain n sub where m: "map_of d = [TorrentInfoFileName \<mapsto> File n, contentName \<mapsto> Dir sub]"
    and sub: "map_of sub = map_of (extent_files (ti_extents info))" by blast
  have "check_entries d (False, False) = Inr (True, True)"
  proof -
    have "k = TorrentInfoFileName \<and> \<not> is_dir e \<or> k = contentName \<and> is_dir e" if "(k, e) \<in> set d" for k e
    proof -
      have "map_of d k = Some e" using that assms(1) by simp
      then show ?thesis by (auto simp: m split: if_splits)
    qed
    moreover have "{TorrentInfoFileName, contentName} \<subseteq> fst ` set d"
      using m by (simp flip: dom_map_of_conv_image_fst)
    ultimately show ?thesis by (auto simp: check_entries_ok)
  qed
  moreover have "map_of d contentName = Some (Dir sub)" by (simp add: m)
  ultimately show ?valid
    using sub present_exactly [OF assms(2,3), of sub] by (simp add: ValidateContentDir_def)
qed


lemma extent_names_distinct:
  assumes "distinct (map ex_offset es)" "\<forall>e\<in>set es. ex_offset e < 2 ^ 64"
  shows "distinct (map fst (extent_files es))"
  using assms extent_name_inj by (induction es) (auto simp: extent_files_def)

lemma extent_name_fresh:
  "ExtentFileName a \<noteq> TorrentInfoFileName" "ExtentFileName a \<noteq> contentName"
proof -
  have "32 \<le> length (ExtentFileName a)"
    by (simp only: ExtentFileName_def zero_pad_def hexFieldWidth_def length_append length_replicate)
  then show "ExtentFileName a \<noteq> TorrentInfoFileName" "ExtentFileName a \<noteq> contentName"
    by (auto simp: TorrentInfoFileName_def contentName_def)
qed

text \<open>While the extents are moved one by one: \<open>rest\<close> is still beside torrent.info, \<open>done\<close> already below the data directory.\<close>

lemma nest_each_moves:
  assumes "map_of d = [TorrentInfoFileName \<mapsto> File n, contentName \<mapsto> Dir sub] ++ map_of (extent_files rest)"
    and "distinct (map fst d)" "distinct (map ex_offset rest)" "\<forall>e\<in>set rest. ex_offset e < 2 ^ 64"
  shows "\<exists>d' sub'. nest_each rest d = Inr d' \<and> distinct (map fst d') \<and>
    map_of d' = [TorrentInfoFileName \<mapsto> File n, contentName \<mapsto> Dir sub'] \<and> map_of sub' = map_of sub ++ map_of (extent_files rest)"
  using assms
proof (induction rest arbitrary: d sub)
  case Nil
  then show ?case by (auto simp: extent_files_def)
next
  case (Cons x rest)
  let ?name = "ExtentFileName (ex_offset x)"
  let ?d = "alist_put contentName (Dir (alist_put ?name (File (ex_length x)) sub)) (alist_delete ?name d)"
  have not_later: "map_of (extent_files rest) ?name = None"
    using Cons.prems(3,4) extent_name_inj by (auto simp: map_of_extent_files_None)
  have no_content: "map_of (extent_files (x # rest)) contentName = None"
    using extent_name_fresh(2) by (metis (no_types, lifting) map_of_extent_files_None ex_map_conv)
  have "rename_into_data ?name d = Inr ?d"
    using no_content by (simp add: rename_into_data_def Cons.prems(1) map_add_def extent_files_def)
  moreover have "\<exists>d' sub'. nest_each rest ?d = Inr d' \<and> distinct (map fst d') \<and>
      map_of d' = [TorrentInfoFileName \<mapsto> File n, contentName \<mapsto> Dir sub'] \<and>
      map_of sub' = map_of (alist_put ?name (File (ex_length x)) sub) ++ map_of (extent_files rest)"
  proof (rule Cons.IH)
    show "map_of ?d = [TorrentInfoFileName \<mapsto> File n, contentName \<mapsto> Dir (alist_put ?name (File (ex_length x)) sub)] ++ map_of (extent_files rest)"
      using not_later no_content extent_name_fresh
      by (auto simp: Cons.prems(1) fun_eq_iff map_add_def extent_files_def split: option.splits if_splits)
    show "distinct (map fst ?d)"
      using Cons.prems(2) by (intro distinct_alist_put distinct_alist_delete)
  qed (use Cons.prems in auto)
  moreover have "map_of (alist_put ?name (File (ex_length x)) sub) ++ map_of (extent_files rest) = map_of sub ++ map_of (extent_files (x # rest))"
    using not_later by (auto simp: fun_eq_iff map_add_def extent_files_def split: option.splits)
  ultimately show ?case by (metis (no_types, lifting) nest_each.simps(2) sum.case(2))
qed

text \<open>
  What \<^verbatim>\<open>NestExtentFiles\<close> makes of partclone's flat output passes
  \<^verbatim>\<open>ValidateContentDir\<close>, and no directory that has lost an extent, gained a file or kept an extent
  of another size does: a directory is accepted exactly when it holds torrent.info and one data
  directory with exactly the extents' files, each of its extent's size.
\<close>

theorem nested_content_validates:
  assumes "distinct (map ex_offset (ti_extents info))" "\<forall>e\<in>set (ti_extents info). ex_offset e < 2 ^ 64"
  shows "(\<exists>d. NestExtentFiles (partclone_output sz info) info = Inr d \<and> ValidateContentDir d info = None) \<and>
    (distinct (map fst c) \<longrightarrow> (ValidateContentDir c info = None \<longleftrightarrow>
      (\<exists>n sub. map_of c = [TorrentInfoFileName \<mapsto> File n, contentName \<mapsto> Dir sub] \<and>
        map_of sub = map_of (extent_files (ti_extents info)))))"
proof (intro conjI impI content_dir_valid_iff assms)
  let ?d = "alist_put contentName (Dir []) (partclone_output sz info)"
  have no_content: "map_of (extent_files (ti_extents info)) contentName = None" "map_of (extent_files (ti_extents info)) TorrentInfoFileName = None"
    using extent_name_fresh by (metis (no_types, lifting) map_of_extent_files_None ex_map_conv)+
  then have mk: "mkdir_data (partclone_output sz info) = Inr ?d"
    by (simp add: mkdir_data_def partclone_output_def TorrentInfoFileName_def contentName_def)
  have "map_of ?d = [TorrentInfoFileName \<mapsto> File sz, contentName \<mapsto> Dir []] ++ map_of (extent_files (ti_extents info))"
    using no_content by (auto simp: fun_eq_iff map_add_def partclone_output_def TorrentInfoFileName_def contentName_def split: option.splits)
  moreover have "distinct (map fst ?d)"
    using no_content(2) extent_names_distinct [OF assms]
    by (intro distinct_alist_put) (simp add: partclone_output_def map_of_eq_None_iff)
  ultimately obtain d' sub' where "nest_each (ti_extents info) ?d = Inr d'" "distinct (map fst d')"
    "map_of d' = [TorrentInfoFileName \<mapsto> File sz, contentName \<mapsto> Dir sub']" "map_of sub' = map_of (extent_files (ti_extents info))"
    using nest_each_moves [OF _ _ assms, of ?d sz "[]"] by auto
  then show "\<exists>d. NestExtentFiles (partclone_output sz info) info = Inr d \<and> ValidateContentDir d info = None"
    using content_dir_valid_iff [OF _ assms, of d'] mk by (auto simp: NestExtentFiles_def)
qed

theorem nested_content_validates_witness:
  "\<exists>d. NestExtentFiles (partclone_output 100 small_info) small_info = Inr d \<and> ValidateContentDir d small_info = None"
  by (rule nested_content_validates [THEN conjunct1]) (simp_all add: small_info_def)

end
