(* ===== verification/Deploy_Plan.thy ===== *)
theory Deploy_Plan
  imports Machine_Types
begin

text \<open>
  The wire types of internal/agentapi that the plan builder writes, the agent server hands out and
  the live agent executes, with the structural check \<^verbatim>\<open>DeployPlan.Validate\<close>; the PostHook resource
  (api/v1alpha3/posthook_types.go) and the checks of internal/posthookvalidate. A Go map with string
  keys is a map; one that the code ranges over is an association list with distinct keys, in the
  order the iteration takes.
\<close>

section \<open>agentapi: the plan\<close>

definition AgentSchemaVersion :: int where
  "AgentSchemaVersion = 3"

record DeployTorrent =
  dt_url :: string
  dt_infoHash :: string

record DeployMkfs =
  dm_filesystem :: string
  dm_label :: string
  dm_uuid :: string

record DeploySwap =
  dw_uuid :: string

record DeploySlot =
  ds_number :: int
  ds_device :: string
  ds_torrent :: "DeployTorrent option"
  ds_mkfs :: "DeployMkfs option"
  ds_swap :: "DeploySwap option"

record DeployDataImagePlan =
  dd_imageRef :: NameRef
  dd_targetDisk :: string
  dd_sfdiskScript :: string
  dd_slots :: "DeploySlot list"

datatype HookStepType = HookStepTypeBuiltin | HookStepTypeScript | HookStepTypeOther string

record ResolvedHookStep =
  hs_type :: HookStepType
  hs_builtin :: string
  hs_params :: "string \<rightharpoonup> string"
  hs_content :: string
  hs_osFamily :: string
  hs_timeoutSeconds :: int

record ResolvedHook =
  rh_name :: string
  rh_steps :: "ResolvedHookStep list"

record DeployPlan =
  dp_schemaVersion :: int
  dp_runName :: string
  dp_runUID :: string
  dp_machineName :: string
  dp_targetDisk :: string
  dp_sfdiskScript :: string
  dp_slots :: "DeploySlot list"
  dp_dataImages :: "DeployDataImagePlan list"
  dp_hooks :: "ResolvedHook list"
  dp_afterDeploy :: string
  dp_maxUploads :: int
  dp_maxConnections :: int
  dp_cacheSizeMB :: "int option"
  dp_aioThreads :: "int option"
  dp_port :: "int option"

section \<open>DeployPlan.Validate\<close>

definition slot_kinds :: "DeploySlot \<Rightarrow> nat" where
  "slot_kinds s = (if ds_torrent s \<noteq> None then 1 else 0) + (if ds_mkfs s \<noteq> None then 1 else 0) + (if ds_swap s \<noteq> None then 1 else 0)"

fun check_slots :: "int set \<Rightarrow> DeploySlot list \<Rightarrow> kerr option" where
  "check_slots seen [] = None"
| "check_slots seen (s # ss) =
     (if ds_number s \<in> seen then Some (PlainError ''partition appears more than once'')
      else if slot_kinds s \<noteq> 1 then Some (PlainError ''partition must set exactly one of torrent, mkfs, or swap'')
      else check_slots (insert (ds_number s) seen) ss)"

definition validateSlots :: "DeploySlot list \<Rightarrow> kerr option" where
  "validateSlots slots = (if slots = [] then Some (PlainError ''no slots'') else check_slots {} slots)"

definition validateHookStep :: "ResolvedHookStep \<Rightarrow> kerr option" where
  "validateHookStep s =
     (case hs_type s of
        HookStepTypeBuiltin \<Rightarrow>
          if hs_builtin s = '''' then Some (PlainError ''builtin step has no builtin name'')
          else if hs_timeoutSeconds s \<le> 0 then Some (PlainError ''timeoutSeconds must be positive'') else None
      | HookStepTypeScript \<Rightarrow>
          if hs_content s = '''' then Some (PlainError ''script step has no content'')
          else if hs_timeoutSeconds s \<le> 0 then Some (PlainError ''timeoutSeconds must be positive'') else None
      | HookStepTypeOther _ \<Rightarrow> Some (PlainError ''unknown step type''))"

fun first_error :: "('a \<Rightarrow> kerr option) \<Rightarrow> 'a list \<Rightarrow> kerr option" where
  "first_error f [] = None"
| "first_error f (x # xs) = (case f x of Some e \<Rightarrow> Some e | None \<Rightarrow> first_error f xs)"

lemma first_error_None: "first_error f xs = None \<longleftrightarrow> (\<forall>x\<in>set xs. f x = None)"
  by (induction xs) (auto split: option.splits)

definition validateDataImage :: "DeployDataImagePlan \<Rightarrow> kerr option" where
  "validateDataImage di =
     (if dd_targetDisk di = '''' then Some (PlainError ''dataImages: targetDisk is empty'')
      else map_option (Wrapped ''dataImages: slots'') (validateSlots (dd_slots di)))"

definition Validate :: "DeployPlan \<Rightarrow> kerr option" where
  "Validate p =
     (if dp_schemaVersion p \<noteq> AgentSchemaVersion then Some (PlainError ''schemaVersion does not match the agent wire schema version'')
      else case
          (if dp_targetDisk p = '''' then
             if dp_slots p \<noteq> [] then Some (PlainError ''slots set with no targetDisk'') else None
           else map_option (Wrapped ''slots'') (validateSlots (dp_slots p))) of
          Some e \<Rightarrow> Some e
        | None \<Rightarrow>
            (case first_error validateDataImage (dp_dataImages p) of
               Some e \<Rightarrow> Some e
             | None \<Rightarrow> first_error (\<lambda>h. first_error (\<lambda>s. map_option (Wrapped ''hooks'') (validateHookStep s)) (rh_steps h)) (dp_hooks p)))"

section \<open>PostHook\<close>

definition PostHookDefaultTimeoutSeconds :: int where
  "PostHookDefaultTimeoutSeconds = 60"

definition PostHookReservedParamMachineName :: string where
  "PostHookReservedParamMachineName = ''machineName''"
definition PostHookReservedParamImageName :: string where
  "PostHookReservedParamImageName = ''imageName''"
definition PostHookReservedParamTargetDisk :: string where
  "PostHookReservedParamTargetDisk = ''targetDisk''"

lemmas reserved_param_defs = PostHookReservedParamMachineName_def PostHookReservedParamImageName_def PostHookReservedParamTargetDisk_def

record PostHookParam =
  php_name :: string
  php_default :: "string option"

definition BuiltinStepMkswap :: string where
  "BuiltinStepMkswap = ''mkswap''"
definition BuiltinStepEfibootmgr :: string where
  "BuiltinStepEfibootmgr = ''efibootmgr''"
definition BuiltinStepGrowLastPartition :: string where
  "BuiltinStepGrowLastPartition = ''growLastPartition''"
definition BuiltinStepInstallRemovableFallback :: string where
  "BuiltinStepInstallRemovableFallback = ''install-removable-fallback''"

lemmas builtin_step_defs = BuiltinStepMkswap_def BuiltinStepEfibootmgr_def BuiltinStepGrowLastPartition_def BuiltinStepInstallRemovableFallback_def

record PostHookBuiltinStep =
  pb_name :: string
  pb_timeoutSeconds :: int
  pb_params :: "(string \<times> string) list"

definition builtinTimeoutSeconds :: "PostHookBuiltinStep \<Rightarrow> int" where
  "builtinTimeoutSeconds s = (if pb_timeoutSeconds s = 0 then PostHookDefaultTimeoutSeconds else pb_timeoutSeconds s)"

record KeyRef =
  kr_name :: string
  kr_key :: string

record PostHookScriptSource =
  ss_script :: string
  ss_configMapRef :: "KeyRef option"
  ss_secretRef :: "KeyRef option"
  ss_timeoutSeconds :: int

datatype SourceKind = SourceInline | SourceConfigMapRef | SourceSecretRef | SourceUnknown

definition sourceKind :: "PostHookScriptSource \<Rightarrow> SourceKind" where
  "sourceKind s =
     (if ss_script s \<noteq> '''' then SourceInline
      else if ss_configMapRef s \<noteq> None then SourceConfigMapRef
      else if ss_secretRef s \<noteq> None then SourceSecretRef
      else SourceUnknown)"

definition scriptTimeoutSeconds :: "PostHookScriptSource \<Rightarrow> int" where
  "scriptTimeoutSeconds s = (if ss_timeoutSeconds s = 0 then PostHookDefaultTimeoutSeconds else ss_timeoutSeconds s)"

record PostHookStep =
  ps_osFamily :: string
  ps_builtin :: "PostHookBuiltinStep option"
  ps_script :: "PostHookScriptSource option"

record PostHook =
  ph_name :: string
  ph_namespace :: string
  ph_generation :: int
  ph_params :: "PostHookParam list"
  ph_steps :: "PostHookStep list"
  ph_conditions :: "condition list"

definition PostHookConditionReady :: string where
  "PostHookConditionReady = ''Ready''"
definition PostHookConditionValid :: string where
  "PostHookConditionValid = ''Valid''"

section \<open>posthookvalidate\<close>

fun check_params :: "string set \<Rightarrow> PostHookParam list \<Rightarrow> kerr option" where
  "check_params seen [] = None"
| "check_params seen (p # ps) =
     (if php_name p \<in> seen then Some (PlainError ''spec.params: duplicate param name'')
      else check_params (insert (php_name p) seen) ps)"

definition ValidateParams :: "PostHookParam list \<Rightarrow> kerr option" where
  "ValidateParams params = check_params {} params"

definition DeclaredPlaceholderNames :: "PostHookParam list \<Rightarrow> string set" where
  "DeclaredPlaceholderNames params =
     {PostHookReservedParamMachineName, PostHookReservedParamImageName, PostHookReservedParamTargetDisk} \<union> php_name ` set params"

definition osFamilyRestrictedBuiltins :: "string set" where
  "osFamilyRestrictedBuiltins = {BuiltinStepMkswap, BuiltinStepEfibootmgr, BuiltinStepGrowLastPartition}"

definition builtinAllowedParams :: "string \<Rightarrow> string set" where
  "builtinAllowedParams name =
     (if name = BuiltinStepEfibootmgr \<or> name = BuiltinStepInstallRemovableFallback then {''disk'', ''part''}
      else if name = BuiltinStepGrowLastPartition then {''disk'', ''partition'', ''fsType''}
      else {})"

text \<open>
  \<^verbatim>\<open>placeholderPattern\<close>: two braces, white space, a dot, a name, white space, two braces. \<open>placeholders\<close>
  is \<^verbatim>\<open>FindAllStringSubmatch\<close>: matches from left to right, the search going on after each one. White
  space is RE2's class (tab, line feed, form feed, carriage return, space).
\<close>

definition re_space :: "char \<Rightarrow> bool" where
  "re_space c \<longleftrightarrow> c \<in> {CHR '' '', CHR 0x09, CHR 0x0A, CHR 0x0C, CHR 0x0D}"

definition name_start :: "char \<Rightarrow> bool" where
  "name_start c \<longleftrightarrow> (let n = (of_char c :: nat) in 65 \<le> n \<and> n \<le> 90 \<or> 97 \<le> n \<and> n \<le> 122 \<or> n = 95)"

definition name_char :: "char \<Rightarrow> bool" where
  "name_char c \<longleftrightarrow> name_start c \<or> (let n = (of_char c :: nat) in 48 \<le> n \<and> n \<le> 57)"

definition match_placeholder :: "string \<Rightarrow> (string \<times> string) option" where
  "match_placeholder s =
     (case s of
        a # b # s1 \<Rightarrow>
          if a = CHR ''{'' \<and> b = CHR ''{'' then
            (case dropWhile re_space s1 of
               d # s2 \<Rightarrow>
                 if d = CHR ''.'' \<and> s2 \<noteq> [] \<and> name_start (hd s2) then
                   (let name = takeWhile name_char s2 in
                    case dropWhile re_space (dropWhile name_char s2) of
                      x # y # s3 \<Rightarrow> if x = CHR ''}'' \<and> y = CHR ''}'' then Some (name, s3) else None
                    | _ \<Rightarrow> None)
                 else None
             | [] \<Rightarrow> None)
          else None
      | _ \<Rightarrow> None)"

lemma match_placeholder_shorter:
  assumes "match_placeholder s = Some (n, r)"
  shows "length r < length s"
proof -
  obtain a b s1 where s: "s = a # b # s1"
    using assms by (auto simp: match_placeholder_def split: list.splits)
  have drop: "length (dropWhile P xs) \<le> length xs" for P and xs :: string
    by (induction xs) auto
  obtain d s2 where d: "dropWhile re_space s1 = d # s2"
    using assms s by (auto simp: match_placeholder_def split: list.splits if_splits)
  obtain x y where e: "dropWhile re_space (dropWhile name_char s2) = x # y # r"
    using assms s d by (auto simp: match_placeholder_def Let_def split: list.splits if_splits)
  show ?thesis
    using s d e drop [of re_space s1] drop [of name_char s2] drop [of re_space "dropWhile name_char s2"] by simp
qed

function placeholders :: "string \<Rightarrow> string list" where
  "placeholders s =
     (case s of
        [] \<Rightarrow> []
      | _ # rest \<Rightarrow>
          (case match_placeholder s of
             Some (name, after) \<Rightarrow> name # placeholders after
           | None \<Rightarrow> placeholders rest))"
  by pat_completeness auto
termination
  by (relation "measure length") (use match_placeholder_shorter in \<open>fastforce+\<close>)

declare placeholders.simps [simp del]

definition validatePlaceholders :: "string \<Rightarrow> string set \<Rightarrow> kerr option" where
  "validatePlaceholders content declared =
     (if list_all (\<lambda>n. n \<in> declared) (placeholders content) then None
      else Some (PlainError ''placeholder does not reference a declared param or a reserved name''))"

definition validateOSFamilyGating :: "PostHookStep \<Rightarrow> string \<Rightarrow> kerr option" where
  "validateOSFamilyGating step name =
     (if name \<notin> osFamilyRestrictedBuiltins then None
      else if ps_osFamily step \<noteq> OSFamilyLinux then Some (PlainError ''builtin requires osFamily to be set to Linux'')
      else None)"

definition validateBuiltinParams :: "PostHookBuiltinStep \<Rightarrow> string set \<Rightarrow> kerr option" where
  "validateBuiltinParams step declared =
     first_error (\<lambda>(k, v). if k \<notin> builtinAllowedParams (pb_name step) then Some (PlainError ''not a valid parameter for builtin'')
       else validatePlaceholders v declared) (pb_params step)"

definition validateScriptSource :: "PostHookScriptSource \<Rightarrow> string set \<Rightarrow> kerr option" where
  "validateScriptSource src declared =
     (case sourceKind src of
        SourceUnknown \<Rightarrow> Some (PlainError ''exactly one of script, configMapRef, or secretRef must be set'')
      | SourceInline \<Rightarrow> validatePlaceholders (ss_script src) declared
      | _ \<Rightarrow> None)"

definition ValidateStep :: "PostHookStep \<Rightarrow> string set \<Rightarrow> kerr option" where
  "ValidateStep step declared =
     (case ps_builtin step of
        Some b \<Rightarrow>
          (case validateOSFamilyGating step (pb_name b) of
             Some e \<Rightarrow> Some e
           | None \<Rightarrow> validateBuiltinParams b declared)
      | None \<Rightarrow>
          (case ps_script step of
             Some src \<Rightarrow> validateScriptSource src declared
           | None \<Rightarrow> Some (PlainError ''exactly one of builtin or script must be set'')))"

definition ValidateHook :: "PostHook \<Rightarrow> kerr option" where
  "ValidateHook ph =
     (case ValidateParams (ph_params ph) of
        Some e \<Rightarrow> Some e
      | None \<Rightarrow> first_error (\<lambda>s. ValidateStep s (DeclaredPlaceholderNames (ph_params ph))) (ph_steps ph))"

definition CheckOSFamilyCompatible :: "PostHook \<Rightarrow> string \<Rightarrow> kerr option" where
  "CheckOSFamilyCompatible hook imageOSFamily =
     first_error (\<lambda>s. if ps_osFamily s = '''' \<or> ps_osFamily s = imageOSFamily then None
       else Some (PlainError ''osFamily is incompatible with the image's osFamily'')) (ph_steps hook)"

section \<open>posthookdefaults\<close>

definition DefaultFinalizeHookName :: string where
  "DefaultFinalizeHookName = ''kezio-default-finalize''"

definition linux_builtin :: "string \<Rightarrow> PostHookStep" where
  "linux_builtin name = \<lparr>ps_osFamily = OSFamilyLinux, ps_builtin = Some \<lparr>pb_name = name, pb_timeoutSeconds = 0, pb_params = []\<rparr>, ps_script = None\<rparr>"

definition defaultFinalizeSteps :: "PostHookStep list" where
  "defaultFinalizeSteps = [linux_builtin BuiltinStepMkswap, linux_builtin BuiltinStepInstallRemovableFallback, linux_builtin BuiltinStepEfibootmgr]"

end
