(* ===== verification/Plan_Builder.thy ===== *)
theory Plan_Builder
  imports Deploy_Plan Disk_Match Torrent_Store Kube
begin

text \<open>
  internal/planbuild: the resolution of a claim's deploy intent against the cluster into the plan the
  live agent executes and the snapshot a DeployRun records; with internal/sitederive (from a Machine
  to the Site that seeds for it), internal/seeder/tuning.go and internal/seederdeploy (the name of a
  seeder Deployment). The builder only reads: its client is the record \<open>reader\<close>, a failing read an
  error value. JSON decoding and encoding, SHA-256, package text/template and \<^verbatim>\<open>net.JoinHostPort\<close> are
  fields of the record \<open>Builder\<close>.
\<close>

section \<open>What the builder reads\<close>

record Site =
  si_name :: string
  si_namespace :: string
  si_seederSubnetRef :: "NameRef option"
  si_trackerURL :: string

definition PartitionContentConditionReady :: string where
  "PartitionContentConditionReady = ''Ready''"

record Deployment =
  dep_name :: string
  dep_selector :: "(string \<times> string) list option"

record Pod =
  pod_ip :: string

record 's reader =
  rd_machineHardware :: "key \<Rightarrow> ('s, MachineHardware) kio"
  rd_image :: "key \<Rightarrow> ('s, Image) kio"
  rd_partitionContent :: "key \<Rightarrow> ('s, PartitionContent) kio"
  rd_postHook :: "key \<Rightarrow> ('s, PostHook) kio"
  rd_configMap :: "key \<Rightarrow> ('s, string \<rightharpoonup> string) kio"
  rd_secret :: "key \<Rightarrow> ('s, string \<rightharpoonup> string) kio"
  rd_subnet :: "key \<Rightarrow> ('s, Subnet) kio"
  rd_site :: "key \<Rightarrow> ('s, Site) kio"
  rd_deployment :: "key \<Rightarrow> ('s, Deployment) kio"
  rd_pods :: "string \<Rightarrow> (string \<times> string) list \<Rightarrow> ('s, Pod list) kio"

datatype json = JNull | JBool bool | JNumber string | JString string | JArray "json list" | JObject "(string \<times> json) list"

record LeecherEzioConfig =
  le_maxUploads :: int
  le_maxConnections :: int

text \<open>
  \<open>b_unmarshal\<close> is \<^verbatim>\<open>json.Unmarshal\<close> into a map, \<open>None\<close> the nil map it leaves for a JSON null;
  \<open>b_template\<close> parses and executes a template with missingkey=error.
\<close>

record 's Builder =
  b_client :: "'s reader"
  b_conditionTrue :: "condition list \<Rightarrow> string \<Rightarrow> bool"
  b_managerNamespace :: string
  b_leecherEzio :: LeecherEzioConfig
  b_unmarshal :: "string \<Rightarrow> kerr + (string \<rightharpoonup> json) option"
  b_marshalHooks :: "ResolvedHook list \<Rightarrow> kerr + string"
  b_sha256 :: "string \<Rightarrow> string"
  b_template :: "string \<Rightarrow> (string \<rightharpoonup> json) \<Rightarrow> kerr + string"
  b_joinHostPort :: "string \<Rightarrow> int \<Rightarrow> string"

definition resolveNamespace :: "NameRef \<Rightarrow> string \<Rightarrow> string" where
  "resolveNamespace ref defaultNS = (if nr_namespace ref \<noteq> '''' then nr_namespace ref else defaultNS)"

text \<open>A read whose absence has a meaning of its own; any other failure is wrapped.\<close>

definition read_or :: "kerr \<Rightarrow> string \<Rightarrow> ('s, 'a) kio \<Rightarrow> ('s, 'a) kio" where
  "read_or absent what m = bindK (attempt m) (\<lambda>r. case r of
       Inr x \<Rightarrow> ret x
     | Inl e \<Rightarrow> if isNotFound e then raise absent else raise (Wrapped what e))"

section \<open>seeder/tuning.go and seederdeploy\<close>

definition DefaultMaxUploads :: int where
  "DefaultMaxUploads = 3"
definition DefaultMaxConnections :: int where
  "DefaultMaxConnections = 10"

definition ResolveMaxUploads :: "int \<Rightarrow> int option \<Rightarrow> int" where
  "ResolveMaxUploads clusterDefault override =
     (let v = DefaultMaxUploads;
          v = (if clusterDefault > 0 then clusterDefault else v)
      in case override of None \<Rightarrow> v | Some x \<Rightarrow> x)"

definition ResolveMaxConnections :: "int \<Rightarrow> int option \<Rightarrow> int" where
  "ResolveMaxConnections clusterDefault override =
     (let v = DefaultMaxConnections;
          v = (if clusterDefault > 0 then clusterDefault else v)
      in case override of None \<Rightarrow> v | Some x \<Rightarrow> x)"

definition TorrentHTTPPort :: int where
  "TorrentHTTPPort = 8080"

definition namePrefix :: string where
  "namePrefix = ''kezio-seeder-''"

definition maxNameLength :: nat where
  "maxNameLength = 63"

definition Name :: "(string \<Rightarrow> string) \<Rightarrow> string \<Rightarrow> string \<Rightarrow> string" where
  "Name sha256 imageName siteIdentity =
     (let suffix = ''-'' @ take 8 (hex_encode (sha256 siteIdentity));
          maxBaseLen = maxNameLength - length namePrefix - length suffix
      in namePrefix @ take maxBaseLen imageName @ suffix)"

section \<open>sitederive\<close>

definition ErrSubnetNotFound :: kerr where
  "ErrSubnetNotFound = PlainError ''subnet not found''"
definition ErrSiteNotFound :: kerr where
  "ErrSiteNotFound = PlainError ''site not found''"
definition ErrSeederSubnetNotFound :: kerr where
  "ErrSeederSubnetNotFound = PlainError ''seeder subnet not found''"

record Resolution =
  sr_siteIdentity :: string
  sr_trackerURL :: string
  sr_hasSeeder :: bool
  sr_identity :: string
  sr_seederNetworkRef :: "NameRef option"
  sr_nodeSelector :: "(string \<times> string) list"
  sr_subnet :: "Subnet option"

definition Identity :: "Subnet \<Rightarrow> string" where
  "Identity subnet = sn_namespace subnet @ ''/'' @ sn_name subnet"

definition SiteIdentity :: "Site \<Rightarrow> string" where
  "SiteIdentity site = si_namespace site @ ''/'' @ si_name site"

definition SiteRefIdentity :: "Subnet \<Rightarrow> string" where
  "SiteRefIdentity subnet =
     (let ns = nr_namespace (sn_siteRef subnet);
          ns = (if ns = '''' then sn_namespace subnet else ns)
      in ns @ ''/'' @ nr_name (sn_siteRef subnet))"

definition ResolveSubnet :: "Subnet \<Rightarrow> Resolution" where
  "ResolveSubnet subnet = \<lparr>sr_siteIdentity = '''', sr_trackerURL = '''', sr_hasSeeder = True, sr_identity = Identity subnet,
     sr_seederNetworkRef = sn_seederNetworkRef subnet, sr_nodeSelector = sn_nodeSelector subnet, sr_subnet = Some subnet\<rparr>"

definition Resolve :: "'s reader \<Rightarrow> Machine \<Rightarrow> ('s, Resolution) kio" where
  "Resolve c machine =
     (let subnetRef = ms_subnetRef (m_spec machine);
          subnetNS = (if nr_namespace subnetRef = '''' then m_namespace machine else nr_namespace subnetRef)
      in bindK (read_or ErrSubnetNotFound ''get subnet'' (rd_subnet c (subnetNS, nr_name subnetRef))) (\<lambda>subnet.
      let siteRef = sn_siteRef subnet;
          siteNS = (if nr_namespace siteRef = '''' then sn_namespace subnet else nr_namespace siteRef)
      in bindK (read_or ErrSiteNotFound ''get site'' (rd_site c (siteNS, nr_name siteRef))) (\<lambda>site.
      case si_seederSubnetRef site of
        None \<Rightarrow> ret \<lparr>sr_siteIdentity = SiteIdentity site, sr_trackerURL = si_trackerURL site, sr_hasSeeder = False,
          sr_identity = '''', sr_seederNetworkRef = None, sr_nodeSelector = [], sr_subnet = None\<rparr>
      | Some seederRef \<Rightarrow>
          (let seederNS = (if nr_namespace seederRef = '''' then si_namespace site else nr_namespace seederRef)
           in bindK (read_or ErrSeederSubnetNotFound ''get seeder subnet'' (rd_subnet c (seederNS, nr_name seederRef))) (\<lambda>seederSubnet.
           ret ((ResolveSubnet seederSubnet)\<lparr>sr_siteIdentity := SiteIdentity site, sr_trackerURL := si_trackerURL site\<rparr>))))))"

section \<open>site.go\<close>

text \<open>
  The shared \<^verbatim>\<open>*lazySiteResolution\<close>: a nil pointer, not asked yet, or the memoised result. A caller
  that mutates it through \<^verbatim>\<open>once.Do\<close> returns it.
\<close>

datatype lazySite = NilSite | Unresolved | Resolved "kerr + Resolution"

definition resolve_site :: "'s Builder \<Rightarrow> Machine \<Rightarrow> lazySite \<Rightarrow> ('s, (kerr + Resolution) \<times> lazySite) kio" where
  "resolve_site b machine l =
     (case l of
        NilSite \<Rightarrow> raise (GoPanic ''nil lazySiteResolution'')
      | Resolved r \<Rightarrow> ret (r, l)
      | Unresolved \<Rightarrow> bindK (attempt (Resolve (b_client b) machine)) (\<lambda>r. ret (r, Resolved r)))"

section \<open>params.go\<close>

definition jsonToMap :: "'s Builder \<Rightarrow> string option \<Rightarrow> kerr + (string \<rightharpoonup> json) option" where
  "jsonToMap b j =
     (case j of
        None \<Rightarrow> Inr (Some Map.empty)
      | Some raw \<Rightarrow>
          if raw = '''' then Inr (Some Map.empty)
          else case b_unmarshal b raw of
              Inl e \<Rightarrow> Inl (Wrapped ''parsing params JSON'' e)
            | Inr m \<Rightarrow> Inr m)"

text \<open>\<^verbatim>\<open>maps.Copy\<close>: an entry assigned to a nil map panics, copying nothing does not.\<close>

definition maps_copy :: "(string \<rightharpoonup> 'v) option \<Rightarrow> (string \<rightharpoonup> 'v) option \<Rightarrow> kerr + (string \<rightharpoonup> 'v) option" where
  "maps_copy dst src =
     (case src of
        None \<Rightarrow> Inr dst
      | Some m \<Rightarrow> if m = Map.empty then Inr dst
          else case dst of None \<Rightarrow> Inl (GoPanic ''assignment to entry in nil map'') | Some d \<Rightarrow> Inr (Some (d ++ m)))"

definition mergeParams :: "'s Builder \<Rightarrow> string option \<Rightarrow> string option \<Rightarrow> kerr + (string \<rightharpoonup> json) option" where
  "mergeParams b imageParams machineParams =
     (case jsonToMap b imageParams of
        Inl e \<Rightarrow> Inl (Wrapped ''image params'' e)
      | Inr merged \<Rightarrow>
          (case jsonToMap b machineParams of
             Inl e \<Rightarrow> Inl (Wrapped ''machine params'' e)
           | Inr fromMachine \<Rightarrow> maps_copy merged fromMachine))"

section \<open>disks.go\<close>

fun match_text :: "match_error \<Rightarrow> string" where
  "match_text (ErrNoMatch s) = s"
| "match_text (ErrAmbiguous s) = s"

definition resolveDisk :: "MachineHardwareDisk list \<Rightarrow> TargetDiskHints option \<Rightarrow> string \<Rightarrow> ('s, MachineHardwareDisk) kio" where
  "resolveDisk disks hints label =
     (case Match disks hints of
        Inl e \<Rightarrow> raise (DiskSelectionError (label @ '': '' @ match_text e))
      | Inr d \<Rightarrow> ret d)"

definition checkDistinctDisks :: "Selection list \<Rightarrow> ('s, unit) kio" where
  "checkDistinctDisks selections =
     (case CheckDistinct selections of
        Some e \<Rightarrow> raise (DiskSelectionError (match_text e))
      | None \<Rightarrow> ret ())"

definition ends_in_digit :: "string \<Rightarrow> bool" where
  "ends_in_digit s \<longleftrightarrow> s \<noteq> '''' \<and> (let n = (of_char (last s) :: nat) in 48 \<le> n \<and> n \<le> 57)"

definition partitionDevicePath :: "string \<Rightarrow> int \<Rightarrow> string" where
  "partitionDevicePath disk number =
     (if ends_in_digit disk then disk @ ''p'' @ show_int number else disk @ show_int number)"

section \<open>seeder.go\<close>

definition resolveTorrentURL :: "'s Builder \<Rightarrow> string \<Rightarrow> string \<Rightarrow> string \<Rightarrow> string \<Rightarrow> ('s, string) kio" where
  "resolveTorrentURL b ns imageName siteIdentity hash =
     (let name = Name (b_sha256 b) imageName siteIdentity in
      bindK (read_or (NotReadyError ''no seeder deployment yet'') ''get seeder deployment'' (rd_deployment (b_client b) (ns, name))) (\<lambda>dep.
      case dep_selector dep of
        None \<Rightarrow> raise (PlainError ''seeder deployment has no pod selector'')
      | Some labels \<Rightarrow>
          bindK (wrapK ''list pods for seeder deployment'' (rd_pods (b_client b) ns labels)) (\<lambda>pods.
          case find (\<lambda>p. pod_ip p \<noteq> '''') pods of
            Some p \<Rightarrow> ret (''http://'' @ b_joinHostPort b (pod_ip p) TorrentHTTPPort @ ''/torrents/'' @ infoHash_string hash)
          | None \<Rightarrow> raise (NotReadyError ''no ready seeder pod yet''))))"

section \<open>slots.go\<close>

definition buildTorrent :: "'s Builder \<Rightarrow> Machine \<Rightarrow> Image \<Rightarrow> NameRef \<Rightarrow> lazySite \<Rightarrow> ('s, DeployTorrent \<times> lazySite) kio" where
  "buildTorrent b machine img ref site =
     (let ns = resolveNamespace ref (im_namespace img) in
      bindK (read_or (NotReadyError ''partitioncontent not found'') ''get partitioncontent'' (rd_partitionContent (b_client b) (ns, nr_name ref))) (\<lambda>pc.
      if \<not> b_conditionTrue b (pc_conditions pc) PartitionContentConditionReady then
        raise (NotReadyError ''partitioncontent is not Ready yet'')
      else
      bindK (resolve_site b machine site) (\<lambda>(r, site').
      case r of
        Inl e \<Rightarrow> raise (ValidationError (''resolving machine's seeder placement: '' @ error_text e))
      | Inr siteRes \<Rightarrow>
          if \<not> sr_hasSeeder siteRes then raise (NotReadyError ''machine's Site has no seeding subnet configured'')
          else if pc_infoHash pc = '''' then raise (NotReadyError ''partitioncontent has not reported its info hash yet'')
          else case ParseInfoHash (pc_infoHash pc) of
              Inl e \<Rightarrow> raise (Wrapped ''status.infoHash is not a valid content hash'' e)
            | Inr hash \<Rightarrow>
                bindK (resolveTorrentURL b (im_namespace img) (im_name img) (sr_siteIdentity siteRes) hash) (\<lambda>url.
                ret (\<lparr>dt_url = url, dt_infoHash = infoHash_string hash\<rparr>, site')))))"

definition blank_slot :: "string \<Rightarrow> ImageSlot \<Rightarrow> DeploySlot" where
  "blank_slot targetDisk s = \<lparr>ds_number = sl_number s, ds_device = partitionDevicePath targetDisk (sl_number s),
     ds_torrent = None, ds_mkfs = None, ds_swap = None\<rparr>"

definition buildSlot :: "'s Builder \<Rightarrow> Machine \<Rightarrow> Image \<Rightarrow> ImageSlot \<Rightarrow> string \<Rightarrow> lazySite \<Rightarrow> ('s, DeploySlot \<times> lazySite) kio" where
  "buildSlot b machine img s targetDisk site =
     (let slot = blank_slot targetDisk s in
      case sl_contentRef s of
        Some ref \<Rightarrow> bindK (buildTorrent b machine img ref site) (\<lambda>(torrent, site'). ret (slot\<lparr>ds_torrent := Some torrent\<rparr>, site'))
      | None \<Rightarrow>
          if sl_role s = RoleSwap then ret (slot\<lparr>ds_swap := Some \<lparr>dw_uuid = sl_uuid s\<rparr>\<rparr>, site)
          else ret (slot\<lparr>ds_mkfs := Some \<lparr>dm_filesystem = sl_fsType s, dm_label = '''', dm_uuid = ''''\<rparr>\<rparr>, site))"

fun build_each_slot :: "'s Builder \<Rightarrow> Machine \<Rightarrow> Image \<Rightarrow> string \<Rightarrow> ImageSlot list \<Rightarrow> lazySite \<Rightarrow> ('s, DeploySlot list \<times> lazySite) kio" where
  "build_each_slot b machine img targetDisk [] site = ret ([], site)"
| "build_each_slot b machine img targetDisk (s # ss) site =
     bindK (wrapK ''image slot'' (buildSlot b machine img s targetDisk site)) (\<lambda>(slot, site').
     bindK (build_each_slot b machine img targetDisk ss site') (\<lambda>(slots, site''). ret (slot # slots, site'')))"

definition buildSlots :: "'s Builder \<Rightarrow> Machine \<Rightarrow> Image \<Rightarrow> string \<Rightarrow> lazySite \<Rightarrow> ('s, DeploySlot list \<times> lazySite) kio" where
  "buildSlots b machine img targetDisk site = build_each_slot b machine img targetDisk (ly_slots (is_layout (im_spec img))) site"

section \<open>hooks.go\<close>

definition hookTemplateData :: "(string \<rightharpoonup> json) \<Rightarrow> PostHook \<Rightarrow> (string \<rightharpoonup> json)" where
  "hookTemplateData shared hook =
     foldl (\<lambda>data p. if php_name p \<in> dom data then data
       else case php_default p of Some v \<Rightarrow> data(php_name p \<mapsto> JString v) | None \<Rightarrow> data) shared (ph_params hook)"

text \<open>\<^verbatim>\<open>renderTemplate\<close> wraps the engine's error, parse and execution alike.\<close>

definition renderTemplate :: "'s Builder \<Rightarrow> string \<Rightarrow> (string \<rightharpoonup> json) \<Rightarrow> kerr + string" where
  "renderTemplate b raw data = (case b_template b raw data of Inl e \<Rightarrow> Inl (Wrapped ''template'' e) | Inr s \<Rightarrow> Inr s)"

definition fetchScriptSource :: "'s Builder \<Rightarrow> string \<Rightarrow> PostHookScriptSource \<Rightarrow> ('s, string) kio" where
  "fetchScriptSource b ns source =
     (case sourceKind source of
        SourceInline \<Rightarrow> ret (ss_script source)
      | SourceConfigMapRef \<Rightarrow>
          (case ss_configMapRef source of
             None \<Rightarrow> raise (GoPanic ''nil configMapRef'')
           | Some ref \<Rightarrow>
               bindK (read_or (NotReadyError ''configmap not found'') ''get configmap'' (rd_configMap (b_client b) (ns, kr_name ref))) (\<lambda>cm.
               case cm (kr_key ref) of None \<Rightarrow> raise (NotReadyError ''configmap: missing key'') | Some v \<Rightarrow> ret v))
      | SourceSecretRef \<Rightarrow>
          (case ss_secretRef source of
             None \<Rightarrow> raise (GoPanic ''nil secretRef'')
           | Some ref \<Rightarrow>
               bindK (read_or (NotReadyError ''secret not found'') ''get secret'' (rd_secret (b_client b) (ns, kr_name ref))) (\<lambda>s.
               case s (kr_key ref) of None \<Rightarrow> raise (NotReadyError ''secret: missing key'') | Some v \<Rightarrow> ret v))
      | SourceUnknown \<Rightarrow> raise (PlainError ''script source has none of script, configMapRef, or secretRef set''))"

definition resolveScriptStep :: "'s Builder \<Rightarrow> string \<Rightarrow> string \<Rightarrow> PostHookScriptSource \<Rightarrow> (string \<rightharpoonup> json) \<Rightarrow> ('s, ResolvedHookStep) kio" where
  "resolveScriptStep b ns osFamily source data =
     bindK (fetchScriptSource b ns source) (\<lambda>raw.
     case renderTemplate b raw data of
       Inl e \<Rightarrow> raise (ValidationError (''templating script: '' @ error_text e))
     | Inr content \<Rightarrow> ret \<lparr>hs_type = HookStepTypeScript, hs_builtin = '''', hs_params = Map.empty, hs_content = content,
         hs_osFamily = osFamily, hs_timeoutSeconds = scriptTimeoutSeconds source\<rparr>)"

record builtinDefaults =
  bd_disk :: string
  bd_espPartition :: int
  bd_lastPartition :: int

definition espDependentBuiltins :: "string set" where
  "espDependentBuiltins = {BuiltinStepEfibootmgr, BuiltinStepInstallRemovableFallback}"

fun render_params :: "'s Builder \<Rightarrow> (string \<rightharpoonup> json) \<Rightarrow> (string \<times> string) list \<Rightarrow> (string \<rightharpoonup> string) \<Rightarrow> kerr + (string \<rightharpoonup> string)" where
  "render_params b data [] merged = Inr merged"
| "render_params b data ((k, v) # kvs) merged =
     (case renderTemplate b v data of
        Inl e \<Rightarrow> Inl (ValidationError (''builtin param: '' @ error_text e))
      | Inr rendered \<Rightarrow> render_params b data kvs (merged(k \<mapsto> rendered)))"

definition derived_params :: "string \<Rightarrow> builtinDefaults \<Rightarrow> (string \<rightharpoonup> string)" where
  "derived_params name defaults =
     (let disk = (\<lambda>m. if bd_disk defaults \<noteq> '''' then m(''disk'' \<mapsto> bd_disk defaults) else m) in
      if name = BuiltinStepEfibootmgr \<or> name = BuiltinStepInstallRemovableFallback then
        (\<lambda>m. if bd_espPartition defaults > 0 then m(''part'' \<mapsto> show_int (bd_espPartition defaults)) else m) (disk Map.empty)
      else if name = BuiltinStepGrowLastPartition then
        (\<lambda>m. if bd_lastPartition defaults > 0 then m(''partition'' \<mapsto> show_int (bd_lastPartition defaults)) else m) (disk Map.empty)
      else Map.empty)"

definition resolveBuiltinParams ::
  "'s Builder \<Rightarrow> string \<Rightarrow> (string \<times> string) list \<Rightarrow> builtinDefaults \<Rightarrow> (string \<rightharpoonup> json) \<Rightarrow> kerr + (string \<rightharpoonup> string)" where
  "resolveBuiltinParams b name userParams defaults data =
     (case render_params b data userParams (derived_params name defaults) of
        Inl e \<Rightarrow> Inl e
      | Inr merged \<Rightarrow>
          if name \<in> espDependentBuiltins \<and> (case merged ''part'' of None \<Rightarrow> True | Some v \<Rightarrow> v = '''') then
            Inl (ValidationError ''builtin needs the OS image's ESP partition number but none could be identified'')
          else Inr merged)"

definition resolveStep :: "'s Builder \<Rightarrow> string \<Rightarrow> PostHookStep \<Rightarrow> (string \<rightharpoonup> json) \<Rightarrow> builtinDefaults \<Rightarrow> ('s, ResolvedHookStep) kio" where
  "resolveStep b ns step data defaults =
     (case ps_builtin step of
        Some builtin \<Rightarrow>
          (case resolveBuiltinParams b (pb_name builtin) (pb_params builtin) defaults data of
             Inl e \<Rightarrow> raise e
           | Inr params \<Rightarrow> ret \<lparr>hs_type = HookStepTypeBuiltin, hs_builtin = pb_name builtin, hs_params = params, hs_content = '''',
               hs_osFamily = ps_osFamily step, hs_timeoutSeconds = builtinTimeoutSeconds builtin\<rparr>)
      | None \<Rightarrow>
          (case ps_script step of
             Some source \<Rightarrow> resolveScriptStep b ns (ps_osFamily step) source data
           | None \<Rightarrow> raise (PlainError ''step has neither builtin nor script set'')))"

fun mapK :: "('a \<Rightarrow> ('w, 'b) kio) \<Rightarrow> 'a list \<Rightarrow> ('w, 'b list) kio" where
  "mapK f [] = ret []"
| "mapK f (x # xs) = bindK (f x) (\<lambda>y. bindK (mapK f xs) (\<lambda>ys. ret (y # ys)))"

definition resolveHook :: "'s Builder \<Rightarrow> string \<Rightarrow> (string \<rightharpoonup> json) \<Rightarrow> builtinDefaults \<Rightarrow> string \<Rightarrow> NameRef \<Rightarrow> ('s, ResolvedHook) kio" where
  "resolveHook b defaultNS shared defaults imageOSFamily ref =
     (let ns = resolveNamespace ref defaultNS in
      bindK (read_or (NotReadyError ''posthook not found'') ''get posthook'' (rd_postHook (b_client b) (ns, nr_name ref))) (\<lambda>hook.
      if \<not> b_conditionTrue b (ph_conditions hook) PostHookConditionValid then raise (NotReadyError ''posthook is not Valid yet'')
      else case (if imageOSFamily \<noteq> '''' then CheckOSFamilyCompatible hook imageOSFamily else None) of
          Some e \<Rightarrow> raise (ValidationError (''posthook: '' @ error_text e))
        | None \<Rightarrow>
            bindK (mapK (\<lambda>step. wrapK ''step'' (resolveStep b ns step (hookTemplateData shared hook) defaults)) (ph_steps hook)) (\<lambda>steps.
            ret \<lparr>rh_name = ph_name hook, rh_steps = steps\<rparr>)))"

definition resolveHooks :: "'s Builder \<Rightarrow> string \<Rightarrow> NameRef list \<Rightarrow> (string \<rightharpoonup> json) \<Rightarrow> builtinDefaults \<Rightarrow> string \<Rightarrow> ('s, ResolvedHook list) kio" where
  "resolveHooks b defaultNS refs shared defaults imageOSFamily =
     mapK (\<lambda>ref. wrapK ''posthook'' (resolveHook b defaultNS shared defaults imageOSFamily ref)) refs"


section \<open>snapshot.go\<close>

definition hooksHash :: "'s Builder \<Rightarrow> ResolvedHook list \<Rightarrow> kerr + string" where
  "hooksHash b hooks =
     (case b_marshalHooks b hooks of
        Inl e \<Rightarrow> Inl (Wrapped ''marshaling resolved hooks'' e)
      | Inr raw \<Rightarrow> Inr (hex_encode (b_sha256 b raw)))"

section \<open>builder.go\<close>

record resolvedImage =
  ri_ref :: NameRef
  ri_image :: Image
  ri_targetDisk :: string
  ri_slots :: "DeploySlot list"

definition getMachineHardware :: "'s Builder \<Rightarrow> Machine \<Rightarrow> ('s, MachineHardware) kio" where
  "getMachineHardware b machine =
     read_or (NotReadyError ''machinehardware not found yet'') ''get machinehardware''
       (rd_machineHardware (b_client b) (m_namespace machine, m_name machine))"

definition resolveImage ::
  "'s Builder \<Rightarrow> Machine \<Rightarrow> NameRef \<Rightarrow> TargetDiskHints option \<Rightarrow> MachineHardwareDisk list \<Rightarrow> string \<Rightarrow> lazySite \<Rightarrow> bool \<Rightarrow>
    ('s, resolvedImage \<times> lazySite) kio" where
  "resolveImage b machine ref hints disks label site withSlots =
     (let ns = resolveNamespace ref (m_namespace machine) in
      bindK (read_or (NotReadyError (label @ '': image not found'')) (label @ '': get image'') (rd_image (b_client b) (ns, nr_name ref))) (\<lambda>img.
      if im_state img \<noteq> ImageStateReady then raise (NotReadyError (label @ '': image is not Ready yet''))
      else
      bindK (resolveDisk disks hints label) (\<lambda>disk.
      bindK (if withSlots then buildSlots b machine img (d_deviceName disk) site else ret ([], site)) (\<lambda>(slots, site').
      ret (\<lparr>ri_ref = ref, ri_image = img, ri_targetDisk = d_deviceName disk, ri_slots = slots\<rparr>, site')))))"

definition diskForSelection :: "MachineHardwareDisk list \<Rightarrow> string \<Rightarrow> MachineHardwareDisk option" where
  "diskForSelection disks deviceName = find (\<lambda>d. d_deviceName d = deviceName) disks"

definition deriveBuiltinDefaults :: "resolvedImage option \<Rightarrow> builtinDefaults" where
  "deriveBuiltinDefaults osImage =
     (case osImage of
        None \<Rightarrow> \<lparr>bd_disk = '''', bd_espPartition = 0, bd_lastPartition = 0\<rparr>
      | Some os \<Rightarrow>
          (let slots = ly_slots (is_layout (im_spec (ri_image os))) in
           \<lparr>bd_disk = ri_targetDisk os,
            bd_espPartition = (case find (\<lambda>s. sl_role s = RoleESP) slots of None \<Rightarrow> 0 | Some s \<Rightarrow> sl_number s),
            bd_lastPartition = (if slots = [] then 0 else sl_number (last slots))\<rparr>))"

definition imageParamsOf :: "resolvedImage option \<Rightarrow> string option" where
  "imageParamsOf osImage = (case osImage of None \<Rightarrow> None | Some os \<Rightarrow> is_params (im_spec (ri_image os)))"

definition AfterDeployReboot :: string where
  "AfterDeployReboot = ''Reboot''"

definition effectiveAfterDeploy :: "MachineClaim \<Rightarrow> string" where
  "effectiveAfterDeploy claim = (if cs_afterDeploy (cl_spec claim) = '''' then AfterDeployReboot else cs_afterDeploy (cl_spec claim))"

definition claimEzio :: "(MachineEzioTuning \<Rightarrow> int option) \<Rightarrow> MachineClaim \<Rightarrow> int option" where
  "claimEzio field claim = (case cs_ezio (cl_spec claim) of None \<Rightarrow> None | Some e \<Rightarrow> field e)"

text \<open>The reserved names, set after the merge; a nil map cannot be assigned to.\<close>

definition reserve_params :: "Machine \<Rightarrow> string \<Rightarrow> string \<Rightarrow> (string \<rightharpoonup> json) \<Rightarrow> (string \<rightharpoonup> json)" where
  "reserve_params machine imageName targetDisk shared =
     shared(PostHookReservedParamMachineName \<mapsto> JString (m_name machine),
       PostHookReservedParamImageName \<mapsto> JString imageName,
       PostHookReservedParamTargetDisk \<mapsto> JString targetDisk)"

definition resolveMachineHooks :: "'s Builder \<Rightarrow> Machine \<Rightarrow> MachineClaim \<Rightarrow> resolvedImage option \<Rightarrow> ('s, ResolvedHook list) kio" where
  "resolveMachineHooks b machine claim osImage =
     (case mergeParams b (imageParamsOf osImage) (cs_params (cl_spec claim)) of
        Inl e \<Rightarrow> raise (if is_abort e then e else ValidationError (''merging posthook params: '' @ error_text e))
      | Inr None \<Rightarrow> raise (GoPanic ''assignment to entry in nil map'')
      | Inr (Some merged) \<Rightarrow>
          (let imageName = (case osImage of None \<Rightarrow> '''' | Some os \<Rightarrow> im_name (ri_image os));
               targetDisk = (case osImage of None \<Rightarrow> '''' | Some os \<Rightarrow> ri_targetDisk os);
               imageOSFamily = (case osImage of None \<Rightarrow> '''' | Some os \<Rightarrow> EffectiveOSFamily (im_spec (ri_image os)));
               imageNS = (case osImage of None \<Rightarrow> '''' | Some os \<Rightarrow> im_namespace (ri_image os));
               imageRefs = (case osImage of None \<Rightarrow> [] | Some os \<Rightarrow> is_postHookRefs (im_spec (ri_image os)));
               shared = reserve_params machine imageName targetDisk merged;
               defaults = deriveBuiltinDefaults osImage
           in bindK (resolveHooks b imageNS imageRefs shared defaults imageOSFamily) (\<lambda>imageHooks.
           bindK
             (if cs_postHookRefs (cl_spec claim) \<noteq> [] then
                resolveHooks b (m_namespace machine) (cs_postHookRefs (cl_spec claim)) shared defaults imageOSFamily
              else if imageRefs = [] \<and> osImage \<noteq> None then
                resolveHooks b (b_managerNamespace b) [\<lparr>nr_namespace = '''', nr_name = DefaultFinalizeHookName\<rparr>] shared defaults imageOSFamily
              else ret []) (\<lambda>machineHooks.
           ret (imageHooks @ machineHooks)))))"

definition buildSnapshot :: "'s Builder \<Rightarrow> resolvedImage option \<Rightarrow> resolvedImage list \<Rightarrow> ResolvedHook list \<Rightarrow> ('s, snapshot) kio" where
  "buildSnapshot b osImage dataImages hooks =
     (let disks = (case osImage of None \<Rightarrow> [] | Some os \<Rightarrow> [\<lparr>rd_imageRef = ri_ref os, rd_targetDisk = ri_targetDisk os\<rparr>]) @
          map (\<lambda>di. \<lparr>rd_imageRef = ri_ref di, rd_targetDisk = ri_targetDisk di\<rparr>) dataImages
      in case hooksHash b hooks of
          Inl e \<Rightarrow> raise (Wrapped ''computing hooks hash'' e)
        | Inr hash \<Rightarrow> ret \<lparr>sp_resolvedDisks = disks, sp_hooksHash = hash\<rparr>)"

definition data_label :: "nat \<Rightarrow> string" where
  "data_label i = ''dataImages['' @ show_nat i @ '']''"

fun resolve_data :: "'s Builder \<Rightarrow> Machine \<Rightarrow> MachineHardwareDisk list \<Rightarrow> bool \<Rightarrow> nat \<Rightarrow> MachineDataImage list \<Rightarrow> lazySite \<Rightarrow>
    ('s, resolvedImage list \<times> lazySite) kio" where
  "resolve_data b machine disks withSlots i [] site = ret ([], site)"
| "resolve_data b machine disks withSlots i (di # dis) site =
     bindK (resolveImage b machine (di_imageRef di) (di_targetDisk di) disks (data_label i) site withSlots) (\<lambda>(r, site').
     bindK (resolve_data b machine disks withSlots (Suc i) dis site') (\<lambda>(rs, site''). ret (r # rs, site'')))"

definition resolve_os :: "'s Builder \<Rightarrow> Machine \<Rightarrow> MachineClaim \<Rightarrow> MachineHardwareDisk list \<Rightarrow> lazySite \<Rightarrow> bool \<Rightarrow>
    ('s, resolvedImage option \<times> lazySite) kio" where
  "resolve_os b machine claim disks site withSlots =
     (case cs_imageRef (cl_spec claim) of
        None \<Rightarrow> ret (None, site)
      | Some ref \<Rightarrow>
          bindK (resolveImage b machine ref (cs_targetDisk (cl_spec claim)) disks ''OS image'' site withSlots) (\<lambda>(r, site').
          ret (Some r, site')))"

definition selections_of :: "MachineHardwareDisk list \<Rightarrow> resolvedImage option \<Rightarrow> resolvedImage list \<Rightarrow> Selection list" where
  "selections_of disks osImage dataImages =
     (case osImage of None \<Rightarrow> [] | Some os \<Rightarrow> [\<lparr>sel_label = ''OS image'', sel_disk = diskForSelection disks (ri_targetDisk os)\<rparr>]) @
     map (\<lambda>(i, r). \<lparr>sel_label = data_label i, sel_disk = diskForSelection disks (ri_targetDisk r)\<rparr>) (enumerate 0 dataImages)"

definition plan_of :: "'s Builder \<Rightarrow> Machine \<Rightarrow> MachineClaim \<Rightarrow> DeployRun \<Rightarrow> resolvedImage option \<Rightarrow> resolvedImage list \<Rightarrow> ResolvedHook list \<Rightarrow> DeployPlan" where
  "plan_of b machine claim run osImage dataImages hooks =
     \<lparr>dp_schemaVersion = AgentSchemaVersion, dp_runName = r_name run, dp_runUID = r_uid run, dp_machineName = m_name machine,
      dp_targetDisk = (case osImage of None \<Rightarrow> '''' | Some os \<Rightarrow> ri_targetDisk os),
      dp_sfdiskScript = (case osImage of None \<Rightarrow> '''' | Some os \<Rightarrow> ly_sfdiskJSON (is_layout (im_spec (ri_image os)))),
      dp_slots = (case osImage of None \<Rightarrow> [] | Some os \<Rightarrow> ri_slots os),
      dp_dataImages = map (\<lambda>(di, r). \<lparr>dd_imageRef = di_imageRef di, dd_targetDisk = ri_targetDisk r,
        dd_sfdiskScript = ly_sfdiskJSON (is_layout (im_spec (ri_image r))), dd_slots = ri_slots r\<rparr>)
        (zip (elems (cs_dataImages (cl_spec claim))) dataImages),
      dp_hooks = hooks, dp_afterDeploy = effectiveAfterDeploy claim,
      dp_maxUploads = ResolveMaxUploads (le_maxUploads (b_leecherEzio b)) (claimEzio ez_maxUploads claim),
      dp_maxConnections = ResolveMaxConnections (le_maxConnections (b_leecherEzio b)) (claimEzio ez_maxConnections claim),
      dp_cacheSizeMB = claimEzio ez_cacheSizeMB claim, dp_aioThreads = claimEzio ez_aioThreads claim, dp_port = claimEzio ez_port claim\<rparr>"

definition nothing_to_deploy :: "MachineClaim \<Rightarrow> bool" where
  "nothing_to_deploy claim \<longleftrightarrow> cs_imageRef (cl_spec claim) = None \<and> elems (cs_dataImages (cl_spec claim)) = []"

definition noDeployPayload :: kerr where
  "noDeployPayload = ValidationError ''machine has no bound claim with an OS image or data images to deploy''"

definition Build :: "'s Builder \<Rightarrow> Machine \<Rightarrow> MachineClaim option \<Rightarrow> DeployRun \<Rightarrow> ('s, DeployPlan \<times> snapshot) kio" where
  "Build b machine claim' run =
     (case claim' of
        None \<Rightarrow> raise noDeployPayload
      | Some claim \<Rightarrow>
          if nothing_to_deploy claim then raise noDeployPayload
          else
          bindK (getMachineHardware b machine) (\<lambda>hardware.
          let disks = hw_disks (hw_spec hardware) in
          bindK (resolve_os b machine claim disks Unresolved True) (\<lambda>(osImage, site).
          bindK (resolve_data b machine disks True 0 (elems (cs_dataImages (cl_spec claim))) site) (\<lambda>(dataImages, site').
          bindK (checkDistinctDisks (selections_of disks osImage dataImages)) (\<lambda>_.
          bindK (resolveMachineHooks b machine claim osImage) (\<lambda>hooks.
          let plan = plan_of b machine claim run osImage dataImages hooks in
          case Validate plan of
            Some e \<Rightarrow> raise (ValidationError (''built plan failed validation: '' @ error_text e))
          | None \<Rightarrow> bindK (buildSnapshot b osImage dataImages hooks) (\<lambda>snap. ret (plan, snap))))))))"

definition BuildSnapshot :: "'s Builder \<Rightarrow> Machine \<Rightarrow> MachineClaim option \<Rightarrow> ('s, snapshot) kio" where
  "BuildSnapshot b machine claim' =
     (case claim' of
        None \<Rightarrow> raise noDeployPayload
      | Some claim \<Rightarrow>
          if nothing_to_deploy claim then raise noDeployPayload
          else
          bindK (getMachineHardware b machine) (\<lambda>hardware.
          let disks = hw_disks (hw_spec hardware) in
          bindK (resolve_os b machine claim disks NilSite False) (\<lambda>(osImage, site).
          bindK (resolve_data b machine disks False 0 (elems (cs_dataImages (cl_spec claim))) site) (\<lambda>(dataImages, site').
          bindK (resolveMachineHooks b machine claim osImage) (\<lambda>hooks.
          buildSnapshot b osImage dataImages hooks)))))"

text \<open>The two entry points as the machine plane calls them; the plan itself is read by the agent server.\<close>

definition PlanBuilder :: "'s Builder \<Rightarrow> 's builder" where
  "PlanBuilder b = \<lparr>b_build = (\<lambda>m c r. bindK (Build b m c r) (\<lambda>(plan, snap). ret snap)), b_buildSnapshot = BuildSnapshot b\<rparr>"

end
