(* ===== verification/Plan_World.thy ===== *)
theory Plan_World
  imports Plan_Builder Reference_World
begin

text \<open>
  A cluster in which the plan builder succeeds: two disks, an OS image with a seeded content and a
  swap slot, a data image with a blank slot, the shipped default hook, a Site with a seeder. The
  parameters of the builder are concrete functions.
\<close>

section \<open>A cluster to plan in\<close>

definition stored :: "(key \<times> 'a) list \<Rightarrow> key \<Rightarrow> ('s, 'a) kio" where
  "stored kvs k = (\<lambda>s. case map_of kvs k of None \<Rightarrow> (Inl NotFound, s) | Some x \<Rightarrow> (Inr x, s))"

definition demo_disk :: "string \<Rightarrow> MachineHardwareDisk" where
  "demo_disk dev = tiny_disk\<lparr>d_deviceName := dev\<rparr>"

definition demo_hints :: "string \<Rightarrow> TargetDiskHints" where
  "demo_hints dev = \<lparr>h_deviceName = dev, h_serialNumber = '''', h_wwn = '''', h_model = '''', h_vendor = '''',
     h_minSizeGigabytes = None, h_maxSizeGigabytes = None, h_rotational = None, h_pciePath = '''', h_hctl = '''', h_slotNumber = None\<rparr>"

definition demo_slot :: "int \<Rightarrow> PartitionRole \<Rightarrow> NameRef option \<Rightarrow> ImageSlot" where
  "demo_slot n role content = \<lparr>sl_number = n, sl_role = role, sl_contentRef = content, sl_fsType = ''ext4'', sl_uuid = ''id'',
     sl_typeGUID = '''', sl_partUUID = '''', sl_sizeBytes = 0\<rparr>"

definition demo_image :: "string \<Rightarrow> string \<Rightarrow> ImageSlot list \<Rightarrow> Image" where
  "demo_image name family slots = \<lparr>im_name = name, im_namespace = ''n'', im_uid = name, im_generation = 1, im_annotations = [],
     im_spec = \<lparr>is_osFamily = family, is_bootable = None, is_layout = \<lparr>ly_partitionTable = ''gpt'', ly_sfdiskJSON = ''{}'', ly_slots = slots\<rparr>, is_params = None, is_postHookRefs = []\<rparr>,
     im_state = ImageStateReady, im_conditions = []\<rparr>"

definition is_valid :: "string \<Rightarrow> condition list" where
  "is_valid t = [\<lparr>c_type = t, c_status = CondTrue, c_observedGeneration = 1, c_reason = ''Ok'', c_message = ''''\<rparr>]"

definition demo_hook :: PostHook where
  "demo_hook = \<lparr>ph_name = DefaultFinalizeHookName, ph_namespace = ''sys'', ph_generation = 1, ph_params = [],
     ph_steps = defaultFinalizeSteps, ph_conditions = is_valid PostHookConditionValid\<rparr>"

definition demo_content :: PartitionContent where
  "demo_content = \<lparr>pc_name = ''pc'', pc_namespace = ''n'', pc_uid = ''u'', pc_generation = 1, pc_deletionTimestamp = None, pc_finalizers = [], pc_owners = [],
     pc_spec = \<lparr>ct_fsType = ''ext4'', ct_usedBytes = 1, ct_sizeBytes = 1, ct_lastExtentEnd = 1, ct_pieceLength = 1, ct_importName = ''imp'', ct_partitionNumber = 1\<rparr>,
     pc_state = ContentReady, pc_infoHash = hex_encode (replicate 20 (CHR ''x'')), pc_pvcRef = None, pc_seeders = [],
     pc_conditions = is_valid PartitionContentConditionReady\<rparr>"

definition demo_reader :: "string \<Rightarrow> 's reader" where
  "demo_reader family = \<lparr>
     rd_machineHardware = stored [((''n'', ''m''), \<lparr>hw_name = ''m'', hw_namespace = ''n'', hw_owners = [],
       hw_spec = \<lparr>hw_disks = [demo_disk ''/dev/sda'', demo_disk ''/dev/nvme0n1''], hw_nics = [], hw_memoryBytes = 0, hw_cpuCount = 1\<rparr>\<rparr>)],
     rd_image = stored [((''n'', ''i''), demo_image ''i'' family [demo_slot 1 RoleESP (Some \<lparr>nr_namespace = '''', nr_name = ''pc''\<rparr>), demo_slot 2 RoleSwap None]),
       ((''n'', ''j''), demo_image ''j'' '''' [demo_slot 1 RoleData None])],
     rd_partitionContent = stored [((''n'', ''pc''), demo_content)],
     rd_postHook = stored [((''sys'', DefaultFinalizeHookName), demo_hook)],
     rd_configMap = stored [], rd_secret = stored [],
     rd_subnet = stored [((''n'', ''s''), ref_subnet)],
     rd_site = stored [((''n'', ''site''), \<lparr>si_name = ''site'', si_namespace = ''n'', si_seederSubnetRef = Some \<lparr>nr_namespace = '''', nr_name = ''s''\<rparr>, si_trackerURL = ''''\<rparr>)],
     rd_deployment = (\<lambda>(ns, name). ret \<lparr>dep_name = name, dep_selector = Some []\<rparr>),
     rd_pods = (\<lambda>ns labels. ret [\<lparr>pod_ip = ''''\<rparr>, \<lparr>pod_ip = ''10.0.0.3''\<rparr>])\<rparr>"

definition demo_builder :: "string \<Rightarrow> 's Builder" where
  "demo_builder family = \<lparr>b_client = demo_reader family, b_conditionTrue = ref_true, b_managerNamespace = ''sys'',
     b_leecherEzio = \<lparr>le_maxUploads = 0, le_maxConnections = 7\<rparr>, b_unmarshal = (\<lambda>_. Inr (Some Map.empty)), b_marshalHooks = (\<lambda>hs. Inr (concat (map rh_name hs))),
     b_sha256 = id, b_template = (\<lambda>raw data. Inr raw), b_joinHostPort = (\<lambda>h p. h @ '':8080'')\<rparr>"

definition demo_claim :: MachineClaim where
  "demo_claim = (ref_claim (Some [\<lparr>di_imageRef = \<lparr>nr_namespace = '''', nr_name = ''j''\<rparr>, di_targetDisk = Some (demo_hints ''/dev/nvme0n1'')\<rparr>]))
     \<lparr>cl_spec := (cl_spec (ref_claim (Some [\<lparr>di_imageRef = \<lparr>nr_namespace = '''', nr_name = ''j''\<rparr>, di_targetDisk = Some (demo_hints ''/dev/nvme0n1'')\<rparr>])))
       \<lparr>cs_targetDisk := Some (demo_hints ''/dev/sda'')\<rparr>\<rparr>"

definition demo_machine :: Machine where
  "demo_machine = (let m = ref_machine Provisioning [] None in
     upd_status (\<lambda>st. st\<lparr>currentRunRef := Some \<lparr>nr_namespace = '''', nr_name = ''run''\<rparr>, netBoot := Some \<lparr>nb_tokenHash = hex_encode ''t'', nb_expiresAt = Some 2000\<rparr>,
       agentSession := Some \<lparr>as_tokenHash = hex_encode ''t'', as_expiresAt = Some 2000\<rparr>\<rparr>)
       (m\<lparr>m_spec := (m_spec m)\<lparr>ms_claimRef := Some \<lparr>cr_name = ''k'', cr_namespace = ''n'', cr_uid = ''x''\<rparr>\<rparr>\<rparr>))"

definition demo_run :: DeployRun where
  "demo_run = \<lparr>r_name = ''run'', r_generateName = '''', r_namespace = ''n'', r_uid = ''ru'', r_generation = 1, r_deletionTimestamp = None,
     r_controllerOwner = None,
     r_spec = \<lparr>rs_machineRef = \<lparr>nr_namespace = ''n'', nr_name = ''m''\<rparr>, rs_claimRef = None, rs_imageRef = None, rs_dataImages = None,
       rs_resolvedDisks = [], rs_hooksHash = ''''\<rparr>,
     r_status = \<lparr>phase = PhasePending, partitions = [], phaseTimings = [], lastProgressAt = None, r_conditions = []\<rparr>\<rparr>"

lemmas demo_defs = demo_builder_def demo_reader_def demo_content_def demo_claim_def demo_machine_def demo_image_def demo_slot_def demo_disk_def tiny_disk_def
  demo_hints_def demo_hook_def is_valid_def stored_def ref_claim_def ref_machine_def ref_subnet_def ref_true_def ref_find_def

lemma demo_hardware:
  "getMachineHardware (demo_builder f) demo_machine s =
     (Inr \<lparr>hw_name = ''m'', hw_namespace = ''n'', hw_owners = [],
       hw_spec = \<lparr>hw_disks = [demo_disk ''/dev/sda'', demo_disk ''/dev/nvme0n1''], hw_nics = [], hw_memoryBytes = 0, hw_cpuCount = 1\<rparr>\<rparr>, s)"
  by (simp add: getMachineHardware_def read_or_def demo_defs kio_simps)

lemma demo_match:
  "Match [demo_disk ''/dev/sda'', demo_disk ''/dev/nvme0n1''] (Some (demo_hints ''/dev/sda'')) = Inr (demo_disk ''/dev/sda'')"
  "Match [demo_disk ''/dev/sda'', demo_disk ''/dev/nvme0n1''] (Some (demo_hints ''/dev/nvme0n1'')) = Inr (demo_disk ''/dev/nvme0n1'')"
  by (simp_all add: Match_def hasAnyHint_def hintsMatch_def demo_defs)



definition demo_torrent :: DeployTorrent where
  "demo_torrent = \<lparr>dt_url = ''http://10.0.0.3:8080/torrents/'' @ hex_encode (replicate 20 (CHR ''x'')), dt_infoHash = hex_encode (replicate 20 (CHR ''x''))\<rparr>"

definition demo_site :: Resolution where
  "demo_site = \<lparr>sr_siteIdentity = ''n/site'', sr_trackerURL = '''', sr_hasSeeder = True, sr_identity = ''n/s'', sr_seederNetworkRef = None,
     sr_nodeSelector = [], sr_subnet = Some ref_subnet\<rparr>"

lemma demo_resolve: "Resolve (demo_reader f) demo_machine s = (Inr demo_site, s)"
  by (simp add: Resolve_def Let_def read_or_def demo_defs demo_site_def kio_simps ResolveSubnet_def Identity_def SiteIdentity_def)

lemma demo_hash: "ParseInfoHash (hex_encode (replicate 20 (CHR ''x''))) = Inr (replicate 20 (CHR ''x''))"
  by (simp add: ParseInfoHash_def InfoHashSize_def hex_decode_encode)

lemma hash_nonempty: "hex_encode (replicate 20 (CHR ''x'')) \<noteq> ''''"
  by (simp add: hex_encode_def)

lemma demo_buildTorrent:
  "buildTorrent (demo_builder f) demo_machine (demo_image ''i'' f' sl) \<lparr>nr_namespace = '''', nr_name = ''pc''\<rparr> Unresolved s = (Inr (demo_torrent, Resolved (Inr demo_site)), s)"
proof -
  have c: "b_client (demo_builder f) = demo_reader f" "b_conditionTrue (demo_builder f) = ref_true" by (simp_all add: demo_builder_def)
  have "rd_partitionContent (demo_reader f) (''n'', ''pc'') s = (Inr demo_content, s)" for s :: 'a
    by (simp add: demo_reader_def stored_def)
  moreover have "resolveTorrentURL (demo_builder f) ''n'' ''i'' (sr_siteIdentity demo_site) (replicate 20 (CHR ''x'')) s = (Inr (dt_url demo_torrent), s)" for s :: 'a
    by (simp add: resolveTorrentURL_def Let_def demo_builder_def demo_reader_def read_or_def kio_simps demo_torrent_def infoHash_string_def)
  ultimately show ?thesis
    by (simp add: buildTorrent_def resolve_site_def kio_simps read_or_def c demo_resolve demo_hash resolveNamespace_def is_valid_def ref_true_def ref_find_def
      demo_image_def demo_torrent_def infoHash_string_def hash_nonempty demo_content_def) (simp add: demo_site_def)
qed


definition demo_os :: "string \<Rightarrow> resolvedImage" where
  "demo_os f = \<lparr>ri_ref = \<lparr>nr_namespace = '''', nr_name = ''i''\<rparr>,
     ri_image = demo_image ''i'' f [demo_slot 1 RoleESP (Some \<lparr>nr_namespace = '''', nr_name = ''pc''\<rparr>), demo_slot 2 RoleSwap None],
     ri_targetDisk = ''/dev/sda'',
     ri_slots = [(blank_slot ''/dev/sda'' (demo_slot 1 RoleESP None))\<lparr>ds_torrent := Some demo_torrent\<rparr>,
       (blank_slot ''/dev/sda'' (demo_slot 2 RoleSwap None))\<lparr>ds_swap := Some \<lparr>dw_uuid = ''id''\<rparr>\<rparr>]\<rparr>"

definition demo_data :: resolvedImage where
  "demo_data = \<lparr>ri_ref = \<lparr>nr_namespace = '''', nr_name = ''j''\<rparr>, ri_image = demo_image ''j'' '''' [demo_slot 1 RoleData None],
     ri_targetDisk = ''/dev/nvme0n1'',
     ri_slots = [(blank_slot ''/dev/nvme0n1'' (demo_slot 1 RoleData None))\<lparr>ds_mkfs := Some \<lparr>dm_filesystem = ''ext4'', dm_label = '''', dm_uuid = ''''\<rparr>\<rparr>]\<rparr>"

abbreviation demo_disks :: "MachineHardwareDisk list" where
  "demo_disks \<equiv> [demo_disk ''/dev/sda'', demo_disk ''/dev/nvme0n1'']"

lemma demo_slots:
  "build_each_slot (demo_builder f) demo_machine (demo_image ''i'' f' sl) ''/dev/sda''
     [demo_slot 1 RoleESP (Some \<lparr>nr_namespace = '''', nr_name = ''pc''\<rparr>), demo_slot 2 RoleSwap None] Unresolved s =
     (Inr (ri_slots (demo_os f), Resolved (Inr demo_site)), s)"
  "build_each_slot (demo_builder f) demo_machine img ''/dev/nvme0n1'' [demo_slot 1 RoleData None] site s = (Inr (ri_slots demo_data, site), s)"
  by (simp_all add: kio_simps buildSlot_def demo_slot_def demo_buildTorrent demo_os_def demo_data_def Let_def)
    (simp_all add: blank_slot_def)

lemma demo_images:
  "rd_image (demo_reader f) (''n'', ''i'') s = (Inr (ri_image (demo_os f)), s)"
  "rd_image (demo_reader f) (''n'', ''j'') s = (Inr (ri_image demo_data), s)"
  by (simp_all add: demo_reader_def stored_def demo_os_def demo_data_def)

lemma demo_image_fields [simp]:
  "im_state (demo_image n f sl) = ImageStateReady" "ly_slots (is_layout (im_spec (demo_image n f sl))) = sl" "im_namespace (demo_image n f sl) = ''n''"
  "is_params (im_spec (demo_image n f sl)) = None" "is_postHookRefs (im_spec (demo_image n f sl)) = []" "im_name (demo_image n f sl) = n"
  "EffectiveOSFamily (im_spec (demo_image n f sl)) = (if f = '''' then OSFamilyLinux else f)"
  "d_deviceName (demo_disk dev) = dev" "m_namespace demo_machine = ''n'' " "b_client (demo_builder f) = demo_reader f"
  by (simp_all add: demo_image_def demo_disk_def demo_machine_def ref_machine_def demo_builder_def EffectiveOSFamily_def)

lemma demo_claim_fields [simp]:
  "cs_imageRef (cl_spec demo_claim) = Some \<lparr>nr_namespace = '''', nr_name = ''i''\<rparr>"
  "cs_targetDisk (cl_spec demo_claim) = Some (demo_hints ''/dev/sda'')"
  "elems (cs_dataImages (cl_spec demo_claim)) = [\<lparr>di_imageRef = \<lparr>nr_namespace = '''', nr_name = ''j''\<rparr>, di_targetDisk = Some (demo_hints ''/dev/nvme0n1'')\<rparr>]"
  "cs_params (cl_spec demo_claim) = None" "cs_postHookRefs (cl_spec demo_claim) = []"
  by (simp_all add: demo_claim_def ref_claim_def elems_def)

lemma demo_resolve_os:
  "resolve_os (demo_builder f) demo_machine demo_claim demo_disks Unresolved True s = (Inr (Some (demo_os f), Resolved (Inr demo_site)), s)"
  by (simp add: resolve_os_def resolveImage_def Let_def kio_simps read_or_def resolveNamespace_def demo_images resolveDisk_def demo_match buildSlots_def demo_os_def
      del: build_each_slot.simps)
    (simp add: demo_slots demo_os_def kio_simps del: build_each_slot.simps)

lemma demo_resolve_data:
  "resolve_data (demo_builder f) demo_machine demo_disks True 0 (elems (cs_dataImages (cl_spec demo_claim))) site s = (Inr ([demo_data], site), s)"
  by (simp add: resolveImage_def Let_def kio_simps read_or_def resolveNamespace_def demo_images resolveDisk_def demo_match buildSlots_def demo_data_def
      del: build_each_slot.simps)
    (simp add: demo_slots demo_data_def kio_simps del: build_each_slot.simps)

lemma demo_distinct: "checkDistinctDisks (selections_of demo_disks (Some (demo_os f)) [demo_data]) s = (Inr (), s)"
  by (simp add: checkDistinctDisks_def selections_of_def CheckDistinct_def diskForSelection_def demo_os_def demo_data_def diskIdentity_def demo_disk_def tiny_disk_def kio_simps)


definition demo_hooks :: "ResolvedHook list" where
  "demo_hooks = [\<lparr>rh_name = DefaultFinalizeHookName, rh_steps =
     [\<lparr>hs_type = HookStepTypeBuiltin, hs_builtin = BuiltinStepMkswap, hs_params = Map.empty, hs_content = '''', hs_osFamily = OSFamilyLinux, hs_timeoutSeconds = 60\<rparr>,
      \<lparr>hs_type = HookStepTypeBuiltin, hs_builtin = BuiltinStepInstallRemovableFallback, hs_params = [''disk'' \<mapsto> ''/dev/sda'', ''part'' \<mapsto> ''1''], hs_content = '''',
        hs_osFamily = OSFamilyLinux, hs_timeoutSeconds = 60\<rparr>,
      \<lparr>hs_type = HookStepTypeBuiltin, hs_builtin = BuiltinStepEfibootmgr, hs_params = [''disk'' \<mapsto> ''/dev/sda'', ''part'' \<mapsto> ''1''], hs_content = '''',
        hs_osFamily = OSFamilyLinux, hs_timeoutSeconds = 60\<rparr>]\<rparr>]"

lemma demo_one: "show_int 1 = ''1''"
  by code_simp

lemma demo_derived:
  "derived_params BuiltinStepMkswap d = Map.empty"
  "bd_disk d = ''/dev/sda'' \<Longrightarrow> bd_espPartition d = 1 \<Longrightarrow> derived_params BuiltinStepEfibootmgr d = [''disk'' \<mapsto> ''/dev/sda'', ''part'' \<mapsto> ''1'']"
  "bd_disk d = ''/dev/sda'' \<Longrightarrow> bd_espPartition d = 1 \<Longrightarrow> derived_params BuiltinStepInstallRemovableFallback d = [''disk'' \<mapsto> ''/dev/sda'', ''part'' \<mapsto> ''1'']"
  by (simp_all add: derived_params_def builtin_step_defs demo_one)

lemma demo_step:
  "resolveStep b ns (linux_builtin name) data d = (let params = derived_params name d in
     if name \<in> espDependentBuiltins \<and> (case params ''part'' of None \<Rightarrow> True | Some v \<Rightarrow> v = '''') then
       raise (ValidationError ''builtin needs the OS image's ESP partition number but none could be identified'')
     else ret \<lparr>hs_type = HookStepTypeBuiltin, hs_builtin = name, hs_params = params, hs_content = '''', hs_osFamily = OSFamilyLinux, hs_timeoutSeconds = 60\<rparr>)"
  by (simp add: resolveStep_def linux_builtin_def resolveBuiltinParams_def builtinTimeoutSeconds_def PostHookDefaultTimeoutSeconds_def Let_def)

lemma demo_resolve_hooks: "resolveMachineHooks (demo_builder '''') demo_machine demo_claim (Some (demo_os '''')) s = (Inr demo_hooks, s)"
proof -
  have hook: "rd_postHook (demo_reader f) (''sys'', DefaultFinalizeHookName) s = (Inr demo_hook, s)" for f and s :: 'a
    by (simp add: demo_reader_def stored_def)
  have d: "bd_disk (deriveBuiltinDefaults (Some (demo_os ''''))) = ''/dev/sda''" "bd_espPartition (deriveBuiltinDefaults (Some (demo_os ''''))) = 1"
    by (simp_all add: deriveBuiltinDefaults_def demo_os_def demo_slot_def)
  have compat: "CheckOSFamilyCompatible demo_hook OSFamilyLinux = None"
    by (simp add: CheckOSFamilyCompatible_def demo_hook_def defaultFinalizeSteps_def linux_builtin_def)
  have valid: "ref_true (ph_conditions demo_hook) PostHookConditionValid" "ph_steps demo_hook = defaultFinalizeSteps" "ph_name demo_hook = DefaultFinalizeHookName"
    by (simp_all add: demo_hook_def is_valid_def ref_true_def ref_find_def)
  have b: "b_managerNamespace (demo_builder f) = ''sys''" "b_conditionTrue (demo_builder f) = ref_true" for f
    by (simp_all add: demo_builder_def)
  have os: "imageParamsOf (Some (demo_os '''')) = None" "is_postHookRefs (im_spec (ri_image (demo_os ''''))) = []" "EffectiveOSFamily (im_spec (ri_image (demo_os ''''))) = OSFamilyLinux"
    by (simp_all add: imageParamsOf_def demo_os_def)
  have esp: "BuiltinStepMkswap \<notin> espDependentBuiltins"
    by (simp add: espDependentBuiltins_def builtin_step_defs)
  have "OSFamilyLinux \<noteq> ''''" by (simp add: OSFamilyLinux_def)
  then have "resolveHook (demo_builder '''') ''sys'' shared (deriveBuiltinDefaults (Some (demo_os ''''))) OSFamilyLinux \<lparr>nr_namespace = '''', nr_name = DefaultFinalizeHookName\<rparr> s = (Inr (hd demo_hooks), s)" for shared and s :: 'a
    by (simp add: resolveHook_def Let_def resolveNamespace_def read_or_def kio_simps hook b valid compat defaultFinalizeSteps_def demo_step demo_derived d
      esp demo_hooks_def)
  then show ?thesis
    by (simp add: resolveMachineHooks_def mergeParams_def jsonToMap_def maps_copy_def os b resolveHooks_def kio_simps) (simp add: demo_hooks_def)
qed

abbreviation planned :: "'s Builder \<Rightarrow> DeployRun \<Rightarrow> DeployPlan" where
  "planned b run \<equiv> plan_of b demo_machine demo_claim run (Some (demo_os [])) [demo_data] demo_hooks"

lemma planned_valid: "Validate (planned b run) = None"
  by (simp add: Validate_def plan_of_def AgentSchemaVersion_def demo_os_def demo_data_def validateSlots_def blank_slot_def demo_slot_def
      slot_kinds_def validateDataImage_def demo_hooks_def validateHookStep_def builtin_step_defs)

definition demo_plan :: DeployPlan where
  "demo_plan = planned (demo_builder [] :: unit Builder) demo_run"

definition demo_snapshot :: snapshot where
  "demo_snapshot = \<lparr>sp_resolvedDisks = [\<lparr>rd_imageRef = \<lparr>nr_namespace = [], nr_name = [CHR 0x69]\<rparr>, rd_targetDisk = ri_targetDisk (demo_os [])\<rparr>,
     \<lparr>rd_imageRef = \<lparr>nr_namespace = [], nr_name = [CHR 0x6A]\<rparr>, rd_targetDisk = ri_targetDisk demo_data\<rparr>], sp_hooksHash = hex_encode DefaultFinalizeHookName\<rparr>"

lemma demo_buildSnapshot: "buildSnapshot (demo_builder f) (Some (demo_os [])) [demo_data] demo_hooks s = (Inr demo_snapshot, s)"
  by (simp add: buildSnapshot_def hooksHash_def demo_builder_def demo_hooks_def demo_snapshot_def demo_os_def demo_data_def kio_simps)

lemma demo_Build_any:
  "Build (demo_builder [] :: 's Builder) demo_machine (Some demo_claim) run s = (Inr (planned (demo_builder [] :: 's Builder) run, demo_snapshot), s)"
  by (simp add: Build_def Let_def nothing_to_deploy_def demo_hardware kio_simps demo_resolve_os demo_resolve_data demo_distinct demo_resolve_hooks demo_buildSnapshot
      planned_valid del: resolve_data.simps demo_claim_fields(3))

lemma demo_Build:
  "Build (demo_builder [] :: unit Builder) demo_machine (Some demo_claim) demo_run s = (Inr (demo_plan, demo_snapshot), s)"
  by (simp add: demo_Build_any demo_plan_def)

end
