(* ===== verification/Plan_Properties.thy ===== *)
theory Plan_Properties
  imports Plan_World Machine_Properties
begin

text \<open>
  The properties of the plan builder: what a plan it returns looks like for any cluster state, that
  the snapshot used to detect a hook change is the one a deployment records, which errors it
  returns, and the precedence of template parameters.
\<close>

section \<open>What a reading function returns\<close>

text \<open>\<open>runs R E m\<close>: whatever the server answers, a value of \<open>m\<close> satisfies \<open>R\<close> and an error \<open>E\<close>.\<close>

definition runs :: "('a \<Rightarrow> bool) \<Rightarrow> (kerr \<Rightarrow> bool) \<Rightarrow> ('w, 'a) kio \<Rightarrow> bool" where
  "runs R E m \<longleftrightarrow> (\<forall>w x w'. m w = (Inr x, w') \<longrightarrow> R x) \<and> (\<forall>w e w'. m w = (Inl e, w') \<longrightarrow> E e)"

named_theorems runs_intros \<open>rules of \<open>runs\<close>\<close>

lemma runs_ret [runs_intros]: "R x \<Longrightarrow> runs R E (ret x)"
  by (simp add: runs_def ret_def)

lemma runs_raise [runs_intros]: "E e \<Longrightarrow> runs R E (raise e)"
  by (simp add: runs_def raise_def)

lemma runs_bind: "runs Q E m \<Longrightarrow> (\<And>x. Q x \<Longrightarrow> runs R E (f x)) \<Longrightarrow> runs R E (bindK m f)"
  unfolding runs_def bindK_def by (auto split: prod.splits sum.splits; blast)

lemma runs_value: "runs R E m \<Longrightarrow> m w = (Inr x, w') \<Longrightarrow> R x"
  unfolding runs_def by blast

lemma runs_error: "runs R E m \<Longrightarrow> m w = (Inl e, w') \<Longrightarrow> E e"
  unfolding runs_def by blast

lemma runs_mono: "runs Q E m \<Longrightarrow> (\<And>x. Q x \<Longrightarrow> R x) \<Longrightarrow> (\<And>e. E e \<Longrightarrow> F e) \<Longrightarrow> runs R F m"
  unfolding runs_def by blast

lemma runs_any: "runs (\<lambda>_. True) (\<lambda>_. True) m"
  by (simp add: runs_def)

lemma runs_wrap: "runs R E m \<Longrightarrow> (\<And>e. E e \<Longrightarrow> \<not> is_abort e \<Longrightarrow> E (Wrapped c e)) \<Longrightarrow> runs R E (wrapK c m)"
  unfolding runs_def wrapK_def by (auto split: prod.splits sum.splits if_splits; blast)

lemma runs_attempt:
  "runs R E m \<Longrightarrow> (\<And>e. is_abort e \<Longrightarrow> E e \<Longrightarrow> F e) \<Longrightarrow> runs (\<lambda>r. case r of Inr x \<Rightarrow> R x | Inl e \<Rightarrow> E e) F (attempt m)"
  unfolding runs_def attempt_def by (auto split: prod.splits sum.splits if_splits; blast)

lemma runs_case_option [runs_intros]:
  "(x = None \<Longrightarrow> runs R E a) \<Longrightarrow> (\<And>y. x = Some y \<Longrightarrow> runs R E (f y)) \<Longrightarrow> runs R E (case x of None \<Rightarrow> a | Some y \<Rightarrow> f y)"
  by (cases x) auto

lemma runs_case_sum [runs_intros]:
  "(\<And>e. x = Inl e \<Longrightarrow> runs R E (f e)) \<Longrightarrow> (\<And>y. x = Inr y \<Longrightarrow> runs R E (g y)) \<Longrightarrow> runs R E (case x of Inl e \<Rightarrow> f e | Inr y \<Rightarrow> g y)"
  by (cases x) auto

lemma runs_case_prod [runs_intros]: "(\<And>a c. x = (a, c) \<Longrightarrow> runs R E (f a c)) \<Longrightarrow> runs R E (case x of (a, c) \<Rightarrow> f a c)"
  by (cases x) auto

lemma runs_if [runs_intros]: "(c \<Longrightarrow> runs R E a) \<Longrightarrow> (\<not> c \<Longrightarrow> runs R E d) \<Longrightarrow> runs R E (if c then a else d)"
  by auto

lemma runs_let [runs_intros]: "(\<And>y. y = x \<Longrightarrow> runs R E (f y)) \<Longrightarrow> runs R E (let y = x in f y)"
  by (simp add: Let_def)

lemma runs_mapK:
  assumes "\<And>x. x \<in> set xs \<Longrightarrow> runs (R x) E (f x)"
  shows "runs (\<lambda>ys. list_all2 R xs ys) E (mapK f xs)"
  using assms
proof (induction xs)
  case (Cons x xs)
  show ?case
    unfolding mapK.simps
    by (rule runs_bind [OF Cons.prems], simp, rule runs_bind [OF Cons.IH], use Cons.prems in simp, rule runs_ret, simp)
qed (simp add: runs_ret)

section \<open>Slots and disks of a resolved image\<close>

definition slot_of :: "string \<Rightarrow> ImageSlot \<Rightarrow> DeploySlot \<Rightarrow> bool" where
  "slot_of disk s d \<longleftrightarrow> ds_number d = sl_number s \<and> ds_device d = partitionDevicePath disk (sl_number s) \<and>
     (case sl_contentRef s of
        Some _ \<Rightarrow> ds_torrent d \<noteq> None \<and> ds_mkfs d = None \<and> ds_swap d = None
      | None \<Rightarrow> ds_torrent d = None \<and>
          (if sl_role s = RoleSwap then ds_swap d = Some \<lparr>dw_uuid = sl_uuid s\<rparr> \<and> ds_mkfs d = None
           else ds_swap d = None \<and> ds_mkfs d = Some \<lparr>dm_filesystem = sl_fsType s, dm_label = '''', dm_uuid = ''''\<rparr>))"

abbreviation layout_of :: "resolvedImage \<Rightarrow> ImageSlot list" where
  "layout_of r \<equiv> ly_slots (is_layout (im_spec (ri_image r)))"

definition resolved_from :: "NameRef \<Rightarrow> TargetDiskHints option \<Rightarrow> MachineHardwareDisk list \<Rightarrow> resolvedImage \<Rightarrow> bool" where
  "resolved_from ref hints disks r \<longleftrightarrow> ri_ref r = ref \<and> im_state (ri_image r) = ImageStateReady \<and>
     (\<exists>d. Match disks hints = Inr d \<and> ri_targetDisk r = d_deviceName d) \<and>
     list_all2 (slot_of (ri_targetDisk r)) (layout_of r) (ri_slots r)"

lemma runs_buildSlot: "runs (\<lambda>(d, _). slot_of disk s d) (\<lambda>_. True) (buildSlot b m img s disk site)"
  unfolding buildSlot_def Let_def
  by (intro runs_intros runs_bind [OF runs_any]) (auto simp: slot_of_def blank_slot_def)

lemma runs_build_each_slot:
  "runs (\<lambda>(ds, _). list_all2 (slot_of disk) ss ds) (\<lambda>_. True) (build_each_slot b m img disk ss site)"
proof (induction ss arbitrary: site)
  case (Cons s ss)
  show ?case
    unfolding build_each_slot.simps
    by (rule runs_bind [OF runs_wrap [OF runs_buildSlot]], simp, intro runs_case_prod, rule runs_bind [OF Cons.IH],
        intro runs_intros) auto
qed (simp add: runs_ret)

lemma runs_resolveImage:
  "runs (\<lambda>(r, _). resolved_from ref hints disks r) (\<lambda>_. True) (resolveImage b m ref hints disks label site True)"
  unfolding resolveImage_def Let_def if_True
  by (rule runs_bind [OF runs_any], intro runs_intros, simp, rule runs_bind [where Q = "\<lambda>d. Match disks hints = Inr d"],
      simp add: resolveDisk_def, (intro runs_intros; simp), rule runs_bind, unfold buildSlots_def, rule runs_build_each_slot,
      intro runs_intros) (auto simp: resolved_from_def)

lemma runs_resolve_os:
  "runs (\<lambda>(os, _). (case cs_imageRef (cl_spec c) of None \<Rightarrow> os = None
      | Some ref \<Rightarrow> (\<exists>r. os = Some r \<and> resolved_from ref (cs_targetDisk (cl_spec c)) disks r))) (\<lambda>_. True)
    (resolve_os b m c disks site True)"
  unfolding resolve_os_def
  by (intro runs_case_option, rule runs_ret, simp, rule runs_bind [OF runs_resolveImage], intro runs_intros) auto

lemma runs_resolve_data:
  "runs (\<lambda>(rs, _). list_all2 (\<lambda>di r. resolved_from (di_imageRef di) (di_targetDisk di) disks r) dis rs) (\<lambda>_. True)
    (resolve_data b m disks True i dis site)"
proof (induction dis arbitrary: i site)
  case (Cons di dis)
  show ?case
    unfolding resolve_data.simps
    by (rule runs_bind [OF runs_resolveImage], intro runs_case_prod, rule runs_bind [OF Cons.IH], intro runs_intros) auto
qed (simp add: runs_ret)


section \<open>The structural check\<close>

lemma check_slots_None:
  "check_slots seen ss = None \<longleftrightarrow>
     distinct (map ds_number ss) \<and> set (map ds_number ss) \<inter> seen = {} \<and> (\<forall>s\<in>set ss. slot_kinds s = 1)"
  by (induction ss arbitrary: seen) auto

definition slots_ok :: "DeploySlot list \<Rightarrow> bool" where
  "slots_ok ss \<longleftrightarrow> ss \<noteq> [] \<and> distinct (map ds_number ss) \<and> (\<forall>s\<in>set ss. slot_kinds s = 1)"

lemma validateSlots_None: "validateSlots ss = None \<longleftrightarrow> slots_ok ss"
  by (auto simp: validateSlots_def slots_ok_def check_slots_None)

definition hook_step_ok :: "ResolvedHookStep \<Rightarrow> bool" where
  "hook_step_ok s \<longleftrightarrow> 0 < hs_timeoutSeconds s \<and>
     (hs_type s = HookStepTypeBuiltin \<and> hs_builtin s \<noteq> '''' \<or> hs_type s = HookStepTypeScript \<and> hs_content s \<noteq> '''')"

lemma validateHookStep_None: "validateHookStep s = None \<longleftrightarrow> hook_step_ok s"
  by (cases "hs_type s") (auto simp: validateHookStep_def hook_step_ok_def)

lemma or_else_None: "(case x of Some e \<Rightarrow> Some e | None \<Rightarrow> y) = None \<longleftrightarrow> x = None \<and> y = None"
  by (cases x) auto

lemma validateDataImage_None: "validateDataImage di = None \<longleftrightarrow> dd_targetDisk di \<noteq> '''' \<and> slots_ok (dd_slots di)"
  by (auto simp: validateDataImage_def validateSlots_None)


definition bare_plan :: DeployPlan where
  "bare_plan = \<lparr>dp_schemaVersion = 3, dp_runName = ''r'', dp_runUID = ''u'', dp_machineName = ''m'', dp_targetDisk = '''',
     dp_sfdiskScript = '''', dp_slots = [],
     dp_dataImages = [\<lparr>dd_imageRef = \<lparr>nr_namespace = '''', nr_name = ''i''\<rparr>, dd_targetDisk = ''/dev/sda'', dd_sfdiskScript = '''',
       dd_slots = [\<lparr>ds_number = 1, ds_device = ''/dev/sda1'', ds_torrent = None, ds_mkfs = None, ds_swap = Some \<lparr>dw_uuid = ''''\<rparr>\<rparr>]\<rparr>],
     dp_hooks = [], dp_afterDeploy = ''Reboot'', dp_maxUploads = 3, dp_maxConnections = 10, dp_cacheSizeMB = None,
     dp_aioThreads = None, dp_port = None\<rparr>"


section \<open>Hook steps\<close>

definition esp_known :: "ResolvedHookStep \<Rightarrow> bool" where
  "esp_known s \<longleftrightarrow> hs_type s = HookStepTypeBuiltin \<longrightarrow> hs_builtin s \<in> espDependentBuiltins \<longrightarrow>
     (\<exists>p. hs_params s ''part'' = Some p \<and> p \<noteq> '''')"

definition os_compatible :: "string \<Rightarrow> ResolvedHookStep \<Rightarrow> bool" where
  "os_compatible family s \<longleftrightarrow> family = '''' \<or> hs_osFamily s = '''' \<or> hs_osFamily s = family"

lemma runs_resolveStep:
  assumes "family = '''' \<or> ps_osFamily step = '''' \<or> ps_osFamily step = family"
  shows "runs (\<lambda>s. esp_known s \<and> os_compatible family s) (\<lambda>_. True) (resolveStep b ns step data defaults)"
  unfolding resolveStep_def resolveScriptStep_def
  by (intro runs_intros runs_bind [OF runs_any])
    (use assms in \<open>auto simp: esp_known_def os_compatible_def resolveBuiltinParams_def split: sum.splits if_splits option.splits\<close>)

lemma list_all2_const: "list_all2 (\<lambda>_. P) xs ys \<Longrightarrow> y \<in> set ys \<Longrightarrow> P y"
  by (metis in_set_conv_nth list_all2_conv_all_nth)

lemma runs_resolveHook:
  "runs (\<lambda>h. \<forall>s\<in>set (rh_steps h). esp_known s \<and> os_compatible family s) (\<lambda>_. True) (resolveHook b ns shared defaults family ref)"
proof -
  have ok: "runs (\<lambda>_. True) (\<lambda>_. True) (read_or e w m)" for e w and m :: "('a, PostHook) kio"
    by (rule runs_any)
  show ?thesis
    unfolding resolveHook_def Let_def
  proof (rule runs_bind [OF ok], rule runs_if)
    fix hook :: PostHook
    let ?check = "if family \<noteq> '''' then CheckOSFamilyCompatible hook family else None"
    let ?steps = "mapK (\<lambda>step. wrapK ''step'' (resolveStep b (resolveNamespace ref ns) step (hookTemplateData shared hook) defaults)) (ph_steps hook)"
    have "runs (list_all2 (\<lambda>_ s. esp_known s \<and> os_compatible family s) (ph_steps hook)) (\<lambda>_. True) ?steps" if "?check = None"
    proof (rule runs_mapK, rule runs_wrap, rule runs_resolveStep)
      fix step assume "step \<in> set (ph_steps hook)"
      then show "family = '''' \<or> ps_osFamily step = '''' \<or> ps_osFamily step = family"
        using that by (auto simp: CheckOSFamilyCompatible_def first_error_None split: if_splits)
    qed simp
    then show "runs (\<lambda>h. \<forall>s\<in>set (rh_steps h). esp_known s \<and> os_compatible family s) (\<lambda>_. True)
        (case ?check of None \<Rightarrow> bindK ?steps (\<lambda>steps. ret \<lparr>rh_name = ph_name hook, rh_steps = steps\<rparr>)
         | Some e \<Rightarrow> raise (ValidationError (''posthook: '' @ error_text e)))"
      by (intro runs_case_option runs_intros runs_bind [where Q = "list_all2 (\<lambda>_ s. esp_known s \<and> os_compatible family s) (ph_steps hook)"])
        (auto dest: list_all2_const)
  qed (simp add: runs_raise)
qed

lemma runs_resolveHooks:
  "runs (\<lambda>hs. \<forall>h\<in>set hs. \<forall>s\<in>set (rh_steps h). esp_known s \<and> os_compatible family s) (\<lambda>_. True) (resolveHooks b ns refs shared defaults family)"
  unfolding resolveHooks_def
  by (rule runs_mono [OF runs_mapK [OF runs_wrap [OF runs_resolveHook]]]) (auto dest: list_all2_const)

abbreviation family_of :: "resolvedImage option \<Rightarrow> string" where
  "family_of osImage \<equiv> (case osImage of None \<Rightarrow> '''' | Some os \<Rightarrow> EffectiveOSFamily (im_spec (ri_image os)))"

lemma runs_resolveMachineHooks:
  "runs (\<lambda>hs. \<forall>h\<in>set hs. \<forall>s\<in>set (rh_steps h). esp_known s \<and> os_compatible (family_of osImage) s) (\<lambda>_. True) (resolveMachineHooks b m c osImage)"
  unfolding resolveMachineHooks_def Let_def
  by (intro runs_case_sum runs_case_option runs_raise TrueI runs_bind [OF runs_resolveHooks] runs_ret runs_bind
      [where Q = "\<lambda>hs. \<forall>h\<in>set hs. \<forall>s\<in>set (rh_steps h). esp_known s \<and> os_compatible (family_of osImage) s"] runs_if runs_resolveHooks) auto


section \<open>What Build returns\<close>

definition targets_of :: "resolvedImage option \<Rightarrow> resolvedImage list \<Rightarrow> string list" where
  "targets_of os dis = (case os of None \<Rightarrow> [] | Some r \<Rightarrow> [ri_targetDisk r]) @ map ri_targetDisk dis"

text \<open>One resolved image per image of the claim, on the disk its hints select.\<close>

definition images_resolved :: "MachineClaim \<Rightarrow> MachineHardwareDisk list \<Rightarrow> resolvedImage option \<Rightarrow> resolvedImage list \<Rightarrow> bool" where
  "images_resolved c disks os dis \<longleftrightarrow>
     (case cs_imageRef (cl_spec c) of None \<Rightarrow> os = None
      | Some ref \<Rightarrow> (\<exists>r. os = Some r \<and> resolved_from ref (cs_targetDisk (cl_spec c)) disks r)) \<and>
     list_all2 (\<lambda>di r. resolved_from (di_imageRef di) (di_targetDisk di) disks r) (elems (cs_dataImages (cl_spec c))) dis"

definition hooks_ok :: "resolvedImage option \<Rightarrow> ResolvedHook list \<Rightarrow> bool" where
  "hooks_ok os hooks \<longleftrightarrow> (\<forall>h\<in>set hooks. \<forall>s\<in>set (rh_steps h). esp_known s \<and> os_compatible (family_of os) s)"

definition built_from :: "'s Builder \<Rightarrow> Machine \<Rightarrow> MachineClaim \<Rightarrow> DeployRun \<Rightarrow> DeployPlan \<Rightarrow> snapshot \<Rightarrow> bool" where
  "built_from b m c run plan snap \<longleftrightarrow> (\<exists>disks os dis hooks.
     images_resolved c disks os dis \<and> hooks_ok os hooks \<and>
     CheckDistinct (selections_of disks os dis) = None \<and>
     plan = plan_of b m c run os dis hooks \<and> Validate plan = None \<and>
     map rd_targetDisk (sp_resolvedDisks snap) = targets_of os dis)"

lemma runs_buildSnapshot:
  "runs (\<lambda>snap. map rd_targetDisk (sp_resolvedDisks snap) = targets_of os dis) (\<lambda>_. True) (buildSnapshot b os dis hooks)"
  unfolding buildSnapshot_def Let_def
  by (intro runs_intros) (auto simp: targets_of_def o_def split: option.splits)

lemma runs_checkDistinct: "runs (\<lambda>_. CheckDistinct sels = None) (\<lambda>_. True) (checkDistinctDisks sels)"
  unfolding checkDistinctDisks_def by (intro runs_intros) auto

lemma runs_Build: "runs (\<lambda>(plan, snap). built_from b m c run plan snap) (\<lambda>_. True) (Build b m (Some c) run)"
  unfolding Build_def option.case Let_def
proof (rule runs_if, simp add: runs_raise, rule runs_bind [OF runs_any], rule runs_bind [OF runs_resolve_os], rule runs_case_prod,
    rule runs_bind [OF runs_resolve_data], rule runs_case_prod, rule runs_bind [OF runs_checkDistinct],
    rule runs_bind [OF runs_resolveMachineHooks])
  fix hw :: MachineHardware and x1 :: "resolvedImage option \<times> lazySite" and os s1 and x2 :: "resolvedImage list \<times> lazySite" and dis s2 u
    and hooks :: "ResolvedHook list"
  assume c: "x1 = (os, s1)" "x2 = (dis, s2)"
    "case x1 of (os, _) \<Rightarrow> (case cs_imageRef (cl_spec c) of None \<Rightarrow> os = None
      | Some ref \<Rightarrow> (\<exists>r. os = Some r \<and> resolved_from ref (cs_targetDisk (cl_spec c)) (hw_disks (hw_spec hw)) r))"
    "case x2 of (rs, _) \<Rightarrow> list_all2 (\<lambda>di r. resolved_from (di_imageRef di) (di_targetDisk di) (hw_disks (hw_spec hw)) r) (elems (cs_dataImages (cl_spec c))) rs"
    "CheckDistinct (selections_of (hw_disks (hw_spec hw)) os dis) = None"
    "\<forall>h\<in>set hooks. \<forall>s\<in>set (rh_steps h). esp_known s \<and> os_compatible (family_of os) s"
  then have "built_from b m c run (plan_of b m c run os dis hooks) snap"
    if "Validate (plan_of b m c run os dis hooks) = None" "map rd_targetDisk (sp_resolvedDisks snap) = targets_of os dis" for snap
    unfolding built_from_def images_resolved_def hooks_ok_def using that by auto
  then show "runs (\<lambda>(plan, snap). built_from b m c run plan snap) (\<lambda>_. True)
      (case Validate (plan_of b m c run os dis hooks) of
         None \<Rightarrow> bindK (buildSnapshot b os dis hooks) (\<lambda>snap. ret (plan_of b m c run os dis hooks, snap))
       | Some e \<Rightarrow> raise (ValidationError (''built plan failed validation: '' @ error_text e)))"
    by (intro runs_case_option runs_raise TrueI runs_bind [OF runs_buildSnapshot] runs_ret) auto
qed

lemma Match_in: "Match disks hints = Inr d \<Longrightarrow> d \<in> set disks"
  by (auto simp: Match_def filter_eq_Cons_iff split: if_splits list.splits)

lemma diskForSelection_found:
  assumes "resolved_from ref hints disks r"
  shows "\<exists>d. diskForSelection disks (ri_targetDisk r) = Some d \<and> d \<in> set disks \<and> d_deviceName d = ri_targetDisk r"
proof -
  obtain d where "Match disks hints = Inr d" "ri_targetDisk r = d_deviceName d"
    using assms by (auto simp: resolved_from_def)
  then have "diskForSelection disks (ri_targetDisk r) \<noteq> None"
    using Match_in [of disks hints d] by (auto simp: diskForSelection_def find_None_iff)
  then show ?thesis
    unfolding diskForSelection_def using find_mem by fastforce
qed

lemma images_resolved_all:
  assumes "images_resolved c disks os dis" "r \<in> set_option os \<union> set dis"
  shows "\<exists>ref hints. resolved_from ref hints disks r"
  using assms list_all2_const [of "\<lambda>r. \<exists>ref hints. resolved_from ref hints disks r"]
  by (fastforce simp: images_resolved_def list_all2_conv_all_nth in_set_conv_nth split: option.splits)

lemma selected_disks:
  assumes "images_resolved c disks os dis"
  shows "List.map_filter sel_disk (selections_of disks os dis) = map (\<lambda>t. the (diskForSelection disks t)) (targets_of os dis)"
proof -
  have found: "diskForSelection disks (ri_targetDisk r) = Some (the (diskForSelection disks (ri_targetDisk r)))" if "r \<in> set_option os \<union> set dis" for r
    using images_resolved_all [OF assms that] diskForSelection_found by (metis option.sel)
  have "List.map_filter sel_disk (map (\<lambda>(i, r). \<lparr>sel_label = data_label i, sel_disk = diskForSelection disks (ri_targetDisk r)\<rparr>) (enumerate k rs)) =
      map (\<lambda>r. the (diskForSelection disks (ri_targetDisk r))) rs" if "set rs \<subseteq> set dis" for k rs
    using that
  proof (induction rs arbitrary: k)
    case (Cons r rs)
    then obtain d where "diskForSelection disks (ri_targetDisk r) = Some d" using found [of r] by auto
    then show ?case using Cons by (simp add: map_filter_simps)
  qed (simp add: map_filter_simps)
  note data = this [of dis 0, simplified]
  show ?thesis
  proof (cases os)
    case None
    then show ?thesis using data by (simp add: selections_of_def targets_of_def o_def)
  next
    case (Some r)
    then obtain d where "diskForSelection disks (ri_targetDisk r) = Some d" using found [of r] by auto
    then show ?thesis using data Some by (simp add: selections_of_def targets_of_def o_def map_filter_simps)
  qed
qed

lemma chosen_disks:
  assumes "images_resolved c disks os dis" "CheckDistinct (selections_of disks os dis) = None"
  shows "distinct (targets_of os dis) \<and> (\<exists>chosen. map d_deviceName chosen = targets_of os dis \<and> distinct (map diskIdentity chosen))"
proof -
  let ?chosen = "map (\<lambda>t. the (diskForSelection disks t)) (targets_of os dis)"
  have ids: "distinct (map diskIdentity ?chosen)"
    using assms(2) selected_disks [OF assms(1)] by (simp add: CheckDistinct_def distinct_from_none)
  have "d_deviceName (the (diskForSelection disks t)) = t" if target: "t \<in> set (targets_of os dis)" for t
  proof -
    obtain x where "x \<in> set_option os \<union> set dis" "t = ri_targetDisk x"
      using target by (cases os) (auto simp: targets_of_def)
    then show ?thesis
      using images_resolved_all [OF assms(1)] diskForSelection_found by (metis option.sel)
  qed
  then have "map d_deviceName ?chosen = targets_of os dis"
    by (simp add: map_idI)
  moreover have "distinct (targets_of os dis)"
    using ids by (auto simp: o_def distinct_map)
  ultimately show ?thesis using ids by blast
qed

text \<open>
  C4: whatever the cluster holds and however it changes while the plan is
  built, the plan never directs two images to one disk: the target disks of the OS image and of the
  data images are pairwise different device paths, each the path of an inventory disk chosen by its
  hints, the disks have pairwise different identities, and the snapshot recorded in the DeployRun
  names exactly these targets.
\<close>

definition plan_targets :: "MachineClaim \<Rightarrow> DeployPlan \<Rightarrow> string list" where
  "plan_targets c plan = (if cs_imageRef (cl_spec c) = None then [] else [dp_targetDisk plan]) @ map dd_targetDisk (dp_dataImages plan)"

lemma plan_targets_of:
  assumes "images_resolved c disks os dis"
  shows "plan_targets c (plan_of b m c run os dis hooks) = targets_of os dis"
proof -
  have "length (elems (cs_dataImages (cl_spec c))) = length dis"
    using assms by (auto simp: images_resolved_def dest: list_all2_lengthD)
  then have "map (\<lambda>(di, r). ri_targetDisk r) (zip (elems (cs_dataImages (cl_spec c))) dis) = map ri_targetDisk dis"
    by (simp add: case_prod_unfold map_zip_map2 [symmetric] flip: map_map [where g = snd, unfolded o_def])
  then show ?thesis
    using assms by (auto simp: plan_targets_def plan_of_def targets_of_def images_resolved_def o_def case_prod_unfold split: option.splits)
qed







section \<open>The snapshot of an idle machine\<close>

text \<open>Reads that leave the cluster as it is: nothing changes between one Build and one BuildSnapshot.\<close>

definition still :: "('s, 'a) kio \<Rightarrow> bool" where
  "still m \<longleftrightarrow> (\<forall>s. snd (m s) = s)"

definition still_reader :: "'s reader \<Rightarrow> bool" where
  "still_reader c \<longleftrightarrow> (\<forall>k. still (rd_machineHardware c k)) \<and> (\<forall>k. still (rd_image c k)) \<and> (\<forall>k. still (rd_partitionContent c k)) \<and>
     (\<forall>k. still (rd_postHook c k)) \<and> (\<forall>k. still (rd_configMap c k)) \<and> (\<forall>k. still (rd_secret c k)) \<and> (\<forall>k. still (rd_subnet c k)) \<and>
     (\<forall>k. still (rd_site c k)) \<and> (\<forall>k. still (rd_deployment c k)) \<and> (\<forall>ns l. still (rd_pods c ns l))"

named_theorems still_intros \<open>functions that leave the cluster unchanged\<close>

lemma still_ret [still_intros]: "still (ret x)"
  by (simp add: still_def ret_def)

lemma still_raise [still_intros]: "still (raise e)"
  by (simp add: still_def raise_def)

lemma still_bind [still_intros]: "still m \<Longrightarrow> (\<And>x. still (f x)) \<Longrightarrow> still (bindK m f)"
  unfolding still_def bindK_def by (auto split: prod.splits sum.splits; metis snd_conv)

lemma still_wrap [still_intros]: "still m \<Longrightarrow> still (wrapK c m)"
  by (simp add: still_def)

lemma still_if [still_intros]: "still a \<Longrightarrow> still d \<Longrightarrow> still (if c then a else d)"
  by simp

lemma still_case_option [still_intros]: "still a \<Longrightarrow> (\<And>y. still (f y)) \<Longrightarrow> still (case x of None \<Rightarrow> a | Some y \<Rightarrow> f y)"
  by (cases x) auto

lemma still_case_sum [still_intros]: "(\<And>y. still (f y)) \<Longrightarrow> (\<And>y. still (g y)) \<Longrightarrow> still (case x of Inl y \<Rightarrow> f y | Inr y \<Rightarrow> g y)"
  by (cases x) auto

lemma still_case_prod [still_intros]: "(\<And>a c. still (f a c)) \<Longrightarrow> still (case x of (a, c) \<Rightarrow> f a c)"
  by (cases x) auto

lemma still_read_or [still_intros]: "still m \<Longrightarrow> still (read_or e c m)"
  unfolding read_or_def
  by (intro still_bind still_case_sum still_if still_ret still_raise) (auto simp: still_def kio_simps split: sum.splits prod.splits; metis snd_conv)

lemma still_mapK [still_intros]: "(\<And>x. still (f x)) \<Longrightarrow> still (mapK f xs)"
  by (induction xs) (auto intro!: still_intros)

lemma still_run: "still m \<Longrightarrow> m s = (r, s') \<Longrightarrow> s' = s"
  unfolding still_def by (metis snd_conv)


lemma still_reads:
  assumes "still_reader (b_client b)"
  shows "still (rd_machineHardware (b_client b) k)" "still (rd_image (b_client b) k)" "still (rd_partitionContent (b_client b) k)"
    "still (rd_postHook (b_client b) k)" "still (rd_configMap (b_client b) k)" "still (rd_secret (b_client b) k)" "still (rd_subnet (b_client b) k)"
    "still (rd_site (b_client b) k)" "still (rd_deployment (b_client b) k)" "still (rd_pods (b_client b) ns l)"
  using assms unfolding still_reader_def by blast+

lemma still_attempt [still_intros]: "still m \<Longrightarrow> still (attempt m)"
  by (simp add: still_def)

lemma still_lazy [still_intros]: "still a \<Longrightarrow> still c \<Longrightarrow> (\<And>r. still (f r)) \<Longrightarrow> still (case l of NilSite \<Rightarrow> a | Unresolved \<Rightarrow> c | Resolved r \<Rightarrow> f r)"
  by (cases l) auto

lemma still_buildSlots:
  assumes "still_reader (b_client b)"
  shows "still (buildSlots b m img disk site)"
proof -
  note r = still_reads [OF assms]
  have torrent: "still (buildTorrent b m img ref site)" for ref site
    unfolding buildTorrent_def resolve_site_def Resolve_def resolveTorrentURL_def Let_def by (intro still_intros r)
  have "still (build_each_slot b m img disk ss site)" for ss site
  proof (induction ss arbitrary: site)
    case (Cons s ss)
    then show ?case unfolding build_each_slot.simps buildSlot_def Let_def by (intro still_intros torrent)
  qed (simp add: still_ret)
  then show ?thesis by (simp add: buildSlots_def)
qed

lemma still_hardware: "still_reader (b_client b) \<Longrightarrow> still (getMachineHardware b m)"
  unfolding getMachineHardware_def by (intro still_intros still_reads)

lemma still_resolveDisk: "still (resolveDisk disks hints label)"
  unfolding resolveDisk_def by (intro still_intros)

lemma still_checkDistinct: "still (checkDistinctDisks sels)"
  unfolding checkDistinctDisks_def by (intro still_intros)

lemma still_resolveMachineHooks:
  assumes "still_reader (b_client b)"
  shows "still (resolveMachineHooks b m c os)"
proof -
  note r = still_reads [OF assms]
  have kind: "still x \<Longrightarrow> still y \<Longrightarrow> still z \<Longrightarrow> still u \<Longrightarrow> still (case k of SourceInline \<Rightarrow> x | SourceConfigMapRef \<Rightarrow> y | SourceSecretRef \<Rightarrow> z | SourceUnknown \<Rightarrow> u)" for k and x y z u :: "('a, 'c) kio"
    by (cases k) auto
  have "still (resolveStep b ns step data defaults)" for ns step data defaults
    unfolding resolveStep_def resolveScriptStep_def fetchScriptSource_def by (intro still_intros kind r)
  then have "still (resolveHooks b ns refs shared defaults f)" for ns refs shared defaults f
    unfolding resolveHooks_def resolveHook_def Let_def by (intro still_intros r)
  then show ?thesis
    unfolding resolveMachineHooks_def Let_def by (intro still_intros)
qed


definition unslotted :: "resolvedImage \<Rightarrow> resolvedImage" where
  "unslotted r = r\<lparr>ri_slots := []\<rparr>"

lemma bindK_value:
  "bindK m f s = (Inr y, s'') \<longleftrightarrow> (\<exists>x s'. m s = (Inr x, s') \<and> f x s' = (Inr y, s''))"
  by (auto simp: bindK_def split: prod.splits sum.splits)

lemma resolveImage_unslotted:
  assumes "still_reader (b_client b)" "resolveImage b m ref hints disks label site True s = (Inr (r, site'), s')"
  shows "s' = s \<and> resolveImage b m ref hints disks label NilSite False s = (Inr (unslotted r, NilSite), s)"
proof -
  let ?read = "read_or (NotReadyError (label @ '': image not found'')) (label @ '': get image'') (rd_image (b_client b) (resolveNamespace ref (m_namespace m), nr_name ref))"
  obtain img s1 where img: "?read s = (Inr img, s1)" "im_state img = ImageStateReady"
    and rest: "bindK (resolveDisk disks hints label) (\<lambda>disk. bindK (buildSlots b m img (d_deviceName disk) site) (\<lambda>(slots, site').
      ret (\<lparr>ri_ref = ref, ri_image = img, ri_targetDisk = d_deviceName disk, ri_slots = slots\<rparr>, site'))) s1 = (Inr (r, site'), s')"
    using assms(2) by (auto simp: resolveImage_def Let_def bindK_value raise_def split: if_splits)
  have "s1 = s"
    using still_run [OF still_read_or [OF still_reads(2) [OF assms(1)]] img(1)] .
  with rest obtain disk s2 where disk: "resolveDisk disks hints label s = (Inr disk, s2)"
    and slots: "bindK (buildSlots b m img (d_deviceName disk) site) (\<lambda>(slots, site').
      ret (\<lparr>ri_ref = ref, ri_image = img, ri_targetDisk = d_deviceName disk, ri_slots = slots\<rparr>, site')) s2 = (Inr (r, site'), s')"
    by (auto simp: bindK_value)
  have "s2 = s" using still_run [OF still_resolveDisk disk] .
  with slots obtain ss s3 where "buildSlots b m img (d_deviceName disk) site s = (Inr (ss, site'), s3)" "s' = s3"
    "r = \<lparr>ri_ref = ref, ri_image = img, ri_targetDisk = d_deviceName disk, ri_slots = ss\<rparr>"
    by (auto simp: bindK_value ret_def)
  then show ?thesis
    using still_run [OF still_buildSlots [OF assms(1)]] img \<open>s1 = s\<close> disk \<open>s2 = s\<close>
    by (auto simp: resolveImage_def Let_def kio_simps unslotted_def)
qed

lemma resolve_os_unslotted:
  assumes "still_reader (b_client b)" "resolve_os b m c disks site True s = (Inr (os, site'), s')"
  shows "s' = s \<and> resolve_os b m c disks NilSite False s = (Inr (map_option unslotted os, NilSite), s)"
  using assms(2) resolveImage_unslotted [OF assms(1)]
  by (fastforce simp: resolve_os_def bindK_value ret_def split: option.splits)

lemma resolve_data_unslotted:
  assumes "still_reader (b_client b)" "resolve_data b m disks True i dis site s = (Inr (rs, site'), s')"
  shows "s' = s \<and> resolve_data b m disks False i dis NilSite s = (Inr (map unslotted rs, NilSite), s)"
  using assms(2)
proof (induction dis arbitrary: i site rs site' s)
  case (Cons di dis)
  obtain r site1 s1 qs s2 where r: "resolveImage b m (di_imageRef di) (di_targetDisk di) disks (data_label i) site True s = (Inr (r, site1), s1)"
    and qs: "resolve_data b m disks True (Suc i) dis site1 s1 = (Inr (qs, site'), s2)" "rs = r # qs" "s' = s2"
    using Cons.prems by (auto simp: bindK_value ret_def)
  note r' = resolveImage_unslotted [OF assms(1) r]
  have "s2 = s1 \<and> resolve_data b m disks False (Suc i) dis NilSite s1 = (Inr (map unslotted qs, NilSite), s1)"
    using Cons.IH qs by blast
  then show ?case using r' qs by (auto simp: kio_simps)
qed (simp add: ret_def)

lemma hooks_unslotted: "resolveMachineHooks b m c (map_option unslotted os) = resolveMachineHooks b m c os"
  by (cases os) (simp_all add: resolveMachineHooks_def imageParamsOf_def deriveBuiltinDefaults_def unslotted_def Let_def split: sum.split option.split)

lemma buildSnapshot_unslotted: "buildSnapshot b (map_option unslotted os) (map unslotted dis) hooks = buildSnapshot b os dis hooks"
  by (cases os) (simp_all add: buildSnapshot_def unslotted_def o_def)

lemma snapshot_of_build:
  assumes "still_reader (b_client b)" "b_build (PlanBuilder b) m c run s = (Inr snap, s')"
  shows "b_buildSnapshot (PlanBuilder b) m c s = (Inr snap, s)"
proof -
  obtain plan where B: "Build b m c run s = (Inr (plan, snap), s')"
    using assms(2) by (auto simp: PlanBuilder_def bindK_value ret_def)
  then obtain claim where c: "c = Some claim" "\<not> nothing_to_deploy claim"
    by (auto simp: Build_def raise_def split: option.splits if_splits)
  note still = still_hardware [OF assms(1)] still_checkDistinct still_resolveMachineHooks [OF assms(1)]
  obtain hw s0 os site s1 dis site' s2 u s3 hooks s4 where
    hw: "getMachineHardware b m s = (Inr hw, s0)" and
    os: "resolve_os b m claim (hw_disks (hw_spec hw)) Unresolved True s0 = (Inr (os, site), s1)" and
    dis: "resolve_data b m (hw_disks (hw_spec hw)) True 0 (elems (cs_dataImages (cl_spec claim))) site s1 = (Inr (dis, site'), s2)" and
    ok: "checkDistinctDisks (selections_of (hw_disks (hw_spec hw)) os dis) s2 = (Inr u, s3)" and
    hooks: "resolveMachineHooks b m claim os s3 = (Inr hooks, s4)" and
    snap: "buildSnapshot b os dis hooks s4 = (Inr snap, s')"
    using B c by (auto simp: Build_def Let_def bindK_value ret_def raise_def split: option.splits)
  have eqs: "s0 = s" "s1 = s0" "s2 = s1" "s3 = s2" "s4 = s3"
    using still_run [OF still(1) hw] resolve_os_unslotted [OF assms(1) os] resolve_data_unslotted [OF assms(1) dis]
      still_run [OF still(2) ok] still_run [OF still(3) hooks] by blast+
  have "s' = s4"
    using snap by (auto simp: buildSnapshot_def ret_def raise_def Let_def split: sum.splits)
  then have "BuildSnapshot b m (Some claim) s = (Inr snap, s)"
    using hw resolve_os_unslotted [OF assms(1) os] resolve_data_unslotted [OF assms(1) dis] hooks snap eqs c(2)
    by (simp add: BuildSnapshot_def kio_simps hooks_unslotted buildSnapshot_unslotted Let_def)
  then show ?thesis by (simp add: PlanBuilder_def c(1))
qed

text \<open>
  The hook hash an idle machine is compared by is the one its
  deployment recorded: when a plan can be built, \<^verbatim>\<open>BuildSnapshot\<close>, which resolves no slot and needs
  no seeder, returns from the same cluster state exactly the snapshot \<^verbatim>\<open>Build\<close> returns, so an
  unchanged cluster never looks like a hook change.
\<close>

theorem snapshot_agrees_with_build:
  assumes "still_reader (b_client b)" "b_build (PlanBuilder b) m c run s = (Inr snap, s')"
  shows "b_buildSnapshot (PlanBuilder b) m c s = (Inr snap, s)"
  by (rule snapshot_of_build [OF assms])

lemma demo_still: "still_reader (b_client (demo_builder f))"
  by (simp add: still_reader_def demo_builder_def demo_reader_def demo_content_def still_def stored_def ret_def split: option.splits prod.splits)

theorem snapshot_agrees_with_build_witness:
  "b_buildSnapshot (PlanBuilder (demo_builder '''' :: unit Builder)) demo_machine (Some demo_claim) () = (Inr demo_snapshot, ())"
  by (rule snapshot_agrees_with_build [OF demo_still, where run = demo_run]) (simp add: PlanBuilder_def kio_simps demo_Build)


section \<open>Parameters of the hook templates\<close>

text \<open>What a hook's own declaration contributes: the first default among the params of a name.\<close>

definition declared_default :: "PostHookParam list \<Rightarrow> string \<Rightarrow> json option" where
  "declared_default ps k = (case find (\<lambda>p. php_name p = k \<and> php_default p \<noteq> None) ps of
     None \<Rightarrow> None | Some p \<Rightarrow> map_option JString (php_default p))"

lemma hookTemplateData_lookup:
  "hookTemplateData shared hook k = (case shared k of Some v \<Rightarrow> Some v | None \<Rightarrow> declared_default (ph_params hook) k)"
proof -
  have "foldl (\<lambda>data p. if php_name p \<in> dom data then data else case php_default p of Some v \<Rightarrow> data(php_name p \<mapsto> JString v) | None \<Rightarrow> data) shared ps k =
      (case shared k of Some v \<Rightarrow> Some v | None \<Rightarrow> declared_default ps k)" for ps and shared :: "string \<rightharpoonup> json"
  proof (induction ps arbitrary: shared)
    case (Cons p ps)
    then show ?case by (auto simp: declared_default_def split: option.splits if_splits)
  qed (simp add: declared_default_def split: option.splits)
  then show ?thesis by (simp add: hookTemplateData_def)
qed

lemma mergeParams_lookup:
  assumes "jsonToMap b ip = Inr (Some i)" "jsonToMap b mp = Inr (Some c)"
  shows "mergeParams b ip mp = Inr (Some (i ++ c))"
  using assms by (simp add: mergeParams_def maps_copy_def)

text \<open>
  The value a template sees for a name: the machine's name, the OS
  image's name and the target disk under the three reserved names, whatever anyone declares; under any
  other name the claim's parameter, else the image's, else the first default the hook declares for it.
\<close>

theorem template_parameter_precedence:
  assumes "jsonToMap b ip = Inr (Some imageParams)" "jsonToMap b mp = Inr (Some claimParams)"
  shows "\<exists>merged. mergeParams b ip mp = Inr (Some merged) \<and>
    hookTemplateData (reserve_params m imageName disk merged) hook k =
      (if k = ''machineName'' then Some (JString (m_name m))
       else if k = ''imageName'' then Some (JString imageName)
       else if k = ''targetDisk'' then Some (JString disk)
       else case claimParams k of Some v \<Rightarrow> Some v
         | None \<Rightarrow> (case imageParams k of Some v \<Rightarrow> Some v | None \<Rightarrow> declared_default (ph_params hook) k))"
  using mergeParams_lookup [OF assms]
  by (auto simp: hookTemplateData_lookup reserve_params_def reserved_param_defs map_add_def split: option.splits)

definition vlan_hook :: PostHook where
  "vlan_hook = demo_hook\<lparr>ph_params := [\<lparr>php_name = ''machineName'', php_default = Some ''x''\<rparr>, \<lparr>php_name = ''vlan'', php_default = Some ''1''\<rparr>]\<rparr>"

theorem template_parameter_precedence_witness:
  "\<exists>merged. mergeParams (demo_builder '''' :: unit Builder) None (Some ''{}'') = Inr (Some merged) \<and>
    hookTemplateData (reserve_params demo_machine ''i'' ''/dev/sda'' merged) vlan_hook ''vlan'' = Some (JString ''1'')"
  using template_parameter_precedence [of "demo_builder '''' :: unit Builder" None Map.empty "Some ''{}''" Map.empty demo_machine "''i''" "''/dev/sda''" vlan_hook "''vlan''"]
  by (simp add: jsonToMap_def demo_builder_def vlan_hook_def declared_default_def)

section \<open>Names of seeder Deployments\<close>

lemma Name_take: "Name sha imageName site = namePrefix @ take (maxNameLength - length namePrefix - Suc (min 8 (2 * length (sha site)))) imageName @ ''-'' @ take 8 (hex_encode (sha site))"
  by (simp add: Name_def Let_def min.commute)

text \<open>
  The name of a seeder Deployment never exceeds the 63 characters
  Kubernetes allows, and names of at most 41 characters are kept apart; but two images of one
  namespace whose names agree in the first 41 characters share one Deployment name at a Site, so the
  plan of the one is given the pod of the other's seeder.
\<close>

theorem seeder_names_fit_and_collide:
  assumes "length (sha site) = 32"
  shows "length (Name sha a site) \<le> maxNameLength \<and> (Name sha a site = Name sha a' site \<longleftrightarrow> take 41 a = take 41 a')"
proof -
  have "maxNameLength - length namePrefix - Suc (min 8 (2 * length (sha site))) = 41"
    by (simp add: assms maxNameLength_def namePrefix_def)
  then have "Name sha x site = namePrefix @ take 41 x @ ''-'' @ take 8 (hex_encode (sha site))" for x
    by (simp add: Name_take)
  then show ?thesis by (simp add: assms maxNameLength_def namePrefix_def)
qed

theorem seeder_names_fit_and_collide_witness:
  "Name (\<lambda>s. replicate 32 (CHR ''h'')) (replicate 41 (CHR ''a'') @ ''-2024'') ''n/site'' = Name (\<lambda>s. replicate 32 (CHR ''h'')) (replicate 41 (CHR ''a'') @ ''-2025'') ''n/site''"
  by (subst seeder_names_fit_and_collide [THEN conjunct2]) simp_all


section \<open>Errors\<close>

text \<open>An error the deployer has an outcome for: Delayed, or Failed.\<close>

definition classified :: "kerr \<Rightarrow> bool" where
  "classified e \<longleftrightarrow> planBuildErrorResult e \<noteq> None"

lemma classified_roots:
  "classified (NotReadyError t)" "classified (DiskSelectionError t)" "classified (ValidationError t)" "classified (Wrapped c e) \<longleftrightarrow> classified e"
  by (simp_all add: classified_def planBuildErrorResult_def split: kerr.splits)

text \<open>
  A cluster whose objects the CRD schemas admit and whose API server answers: a read returns an object
  or NotFound; a content's info hash is empty or 40 hex digits, a hook's step has exactly one kind, a
  Deployment has a selector; resolved hooks can be marshalled and params are a JSON object.
\<close>

definition orderly :: "'s Builder \<Rightarrow> bool" where
  "orderly b \<longleftrightarrow>
     (\<forall>k. runs (\<lambda>_. True) (\<lambda>e. e = NotFound) (rd_machineHardware (b_client b) k)) \<and>
     (\<forall>k. runs (\<lambda>_. True) (\<lambda>e. e = NotFound) (rd_image (b_client b) k)) \<and>
     (\<forall>k. runs (\<lambda>pc. pc_infoHash pc = '''' \<or> \<not> isl (ParseInfoHash (pc_infoHash pc))) (\<lambda>e. e = NotFound) (rd_partitionContent (b_client b) k)) \<and>
     (\<forall>k. runs (\<lambda>h. \<forall>s\<in>set (ph_steps h). ps_builtin s \<noteq> None \<or> (\<exists>src. ps_script s = Some src \<and> sourceKind src \<noteq> SourceUnknown)) (\<lambda>e. e = NotFound)
       (rd_postHook (b_client b) k)) \<and>
     (\<forall>k. runs (\<lambda>_. True) (\<lambda>e. e = NotFound) (rd_configMap (b_client b) k)) \<and>
     (\<forall>k. runs (\<lambda>_. True) (\<lambda>e. e = NotFound) (rd_secret (b_client b) k)) \<and>
     (\<forall>k. runs (\<lambda>_. True) (\<lambda>e. e = NotFound) (rd_subnet (b_client b) k)) \<and>
     (\<forall>k. runs (\<lambda>_. True) (\<lambda>e. e = NotFound) (rd_site (b_client b) k)) \<and>
     (\<forall>k. runs (\<lambda>d. dep_selector d \<noteq> None) (\<lambda>e. e = NotFound) (rd_deployment (b_client b) k)) \<and>
     (\<forall>ns l. runs (\<lambda>_. True) (\<lambda>_. False) (rd_pods (b_client b) ns l)) \<and>
     (\<forall>hs. \<not> isl (b_marshalHooks b hs)) \<and> (\<forall>raw. b_unmarshal b raw \<noteq> Inr None)"

lemma orderly_reads:
  assumes "orderly b"
  shows "runs (\<lambda>_. True) (\<lambda>e. e = NotFound) (rd_machineHardware (b_client b) k)"
    "runs (\<lambda>_. True) (\<lambda>e. e = NotFound) (rd_image (b_client b) k)"
    "runs (\<lambda>pc. pc_infoHash pc = '''' \<or> \<not> isl (ParseInfoHash (pc_infoHash pc))) (\<lambda>e. e = NotFound) (rd_partitionContent (b_client b) k)"
    "runs (\<lambda>h. \<forall>s\<in>set (ph_steps h). ps_builtin s \<noteq> None \<or> (\<exists>src. ps_script s = Some src \<and> sourceKind src \<noteq> SourceUnknown)) (\<lambda>e. e = NotFound)
       (rd_postHook (b_client b) k)"
    "runs (\<lambda>_. True) (\<lambda>e. e = NotFound) (rd_configMap (b_client b) k)"
    "runs (\<lambda>_. True) (\<lambda>e. e = NotFound) (rd_secret (b_client b) k)"
    "runs (\<lambda>_. True) (\<lambda>e. e = NotFound) (rd_subnet (b_client b) k)"
    "runs (\<lambda>_. True) (\<lambda>e. e = NotFound) (rd_site (b_client b) k)"
    "runs (\<lambda>d. dep_selector d \<noteq> None) (\<lambda>e. e = NotFound) (rd_deployment (b_client b) k)"
    "runs (\<lambda>_. True) (\<lambda>_. False) (rd_pods (b_client b) ns l)"
  using assms unfolding orderly_def by blast+

lemma orderly_values:
  assumes "orderly b"
  shows "\<not> isl (b_marshalHooks b hs)" "b_unmarshal b raw \<noteq> Inr None"
  using assms unfolding orderly_def by blast+

lemma runs_read_or:
  assumes "runs R (\<lambda>e. e = NotFound) m" "F absent"
  shows "runs R F (read_or absent what m)"
  unfolding read_or_def
  by (rule runs_bind [OF runs_attempt [OF assms(1)]], simp, intro runs_case_sum)
    (use assms(2) in \<open>auto simp: isNotFound_def intro!: runs_ret runs_raise\<close>)

lemma runs_wrap_classified: "runs R classified m \<Longrightarrow> runs R classified (wrapK c m)"
  by (erule runs_wrap) (simp add: classified_roots)

lemma runs_Resolve:
  assumes "orderly b"
  shows "runs (\<lambda>_. True) (\<lambda>e. \<not> is_abort e) (Resolve (b_client b) m)"
  unfolding Resolve_def Let_def
  by (intro runs_bind [OF runs_read_or [OF orderly_reads(7) [OF assms]]] runs_bind [OF runs_read_or [OF orderly_reads(8) [OF assms]]]
      runs_case_option runs_ret TrueI)
    (auto simp: ErrSubnetNotFound_def ErrSiteNotFound_def ErrSeederSubnetNotFound_def)

lemma runs_resolve_site:
  assumes "orderly b" "site \<noteq> NilSite"
  shows "runs (\<lambda>(_, site'). site' \<noteq> NilSite) (\<lambda>_. False) (resolve_site b m site)"
proof (cases site)
  case Unresolved
  then show ?thesis
    unfolding resolve_site_def
    by simp (rule runs_bind [OF runs_attempt [OF runs_Resolve [OF assms(1)]]], simp, rule runs_ret, simp)
qed (use assms(2) in \<open>simp_all add: resolve_site_def runs_ret\<close>)

lemma runs_resolveTorrentURL:
  assumes "orderly b"
  shows "runs (\<lambda>_. True) classified (resolveTorrentURL b ns img site hash)"
proof -
  have pods: "runs (\<lambda>_. True) classified (rd_pods (b_client b) ns l)" for ns l
    by (rule runs_mono [OF orderly_reads(10) [OF assms]]) auto
  note dep = orderly_reads(9) [OF assms]
  show ?thesis
    unfolding resolveTorrentURL_def Let_def
    by (rule runs_bind [OF runs_read_or [OF dep]], simp add: classified_roots, rule runs_case_option, simp,
        rule runs_bind [OF runs_wrap_classified [OF pods]], intro runs_intros) (simp_all add: classified_roots)
qed

lemma runs_buildTorrent:
  assumes "orderly b" "site \<noteq> NilSite"
  shows "runs (\<lambda>(_, site'). site' \<noteq> NilSite) classified (buildTorrent b m img ref site)"
proof -
  note pc = orderly_reads(3) [OF assms(1)]
  have site: "runs (\<lambda>(_, site'). site' \<noteq> NilSite) classified (resolve_site b m site)"
    by (rule runs_mono [OF runs_resolve_site [OF assms]]) auto
  show ?thesis
    unfolding buildTorrent_def Let_def
    by (rule runs_bind [OF runs_read_or [OF pc]], simp add: classified_roots, rule runs_if, simp add: runs_raise classified_roots,
        rule runs_bind [OF site], rule runs_case_prod, rule runs_case_sum, simp add: runs_raise classified_roots, rule runs_if,
        simp add: runs_raise classified_roots, rule runs_if, simp add: runs_raise classified_roots, rule runs_case_sum, force,
        rule runs_bind [OF runs_resolveTorrentURL [OF assms(1)]], rule runs_ret) auto
qed

lemma runs_build_each_slot_classified:
  assumes "orderly b" "site \<noteq> NilSite"
  shows "runs (\<lambda>(_, site'). site' \<noteq> NilSite) classified (build_each_slot b m img disk ss site)"
  using assms(2)
proof (induction ss arbitrary: site)
  case (Cons s ss)
  have "runs (\<lambda>(_, site'). site' \<noteq> NilSite) classified (buildSlot b m img s disk site)"
    unfolding buildSlot_def Let_def
    by (rule runs_case_option, intro runs_if runs_ret, (simp add: Cons.prems)+, rule runs_bind [OF runs_buildTorrent [OF assms(1) Cons.prems]],
        rule runs_case_prod, rule runs_ret) auto
  then show ?case
    unfolding build_each_slot.simps
    by (intro runs_bind [OF runs_wrap_classified] runs_case_prod, assumption)
      (rule runs_bind [OF Cons.IH], auto intro!: runs_ret)
qed (simp add: runs_ret)


lemma runs_resolveImage_classified:
  assumes "orderly b" "site \<noteq> NilSite"
  shows "runs (\<lambda>(_, site'). site' \<noteq> NilSite) classified (resolveImage b m ref hints disks label site True)"
proof -
  have disk: "runs (\<lambda>_. True) classified (resolveDisk disks hints label)"
    unfolding resolveDisk_def by (intro runs_intros) (simp_all add: classified_roots)
  show ?thesis
    unfolding resolveImage_def Let_def if_True buildSlots_def
    by (rule runs_bind [OF runs_read_or [OF orderly_reads(2) [OF assms(1)]]], simp add: classified_roots, rule runs_if,
        simp add: runs_raise classified_roots, rule runs_bind [OF disk], rule runs_bind [OF runs_build_each_slot_classified [OF assms]],
        rule runs_case_prod, rule runs_ret) auto
qed

lemma runs_resolve_os_classified:
  assumes "orderly b"
  shows "runs (\<lambda>(_, site'). site' \<noteq> NilSite) classified (resolve_os b m c disks Unresolved True)"
  unfolding resolve_os_def
  by (rule runs_case_option, rule runs_ret, simp, rule runs_bind [OF runs_resolveImage_classified [OF assms]], simp,
      rule runs_case_prod, rule runs_ret) auto

lemma runs_resolve_data_classified:
  assumes "orderly b" "site \<noteq> NilSite"
  shows "runs (\<lambda>_. True) classified (resolve_data b m disks True i dis site)"
  using assms(2)
proof (induction dis arbitrary: i site)
  case (Cons di dis)
  show ?case
    unfolding resolve_data.simps
    by (rule runs_bind [OF runs_resolveImage_classified [OF assms(1) Cons.prems]], rule runs_case_prod, rule runs_bind [OF Cons.IH])
      (auto intro!: runs_ret)
qed (simp add: runs_ret)

lemma render_params_error: "render_params b data kvs merged = Inl e \<Longrightarrow> classified e"
  by (induction b data kvs merged rule: render_params.induct) (auto simp: classified_roots split: sum.splits)

lemma runs_resolveStep_classified:
  assumes "orderly b" "ps_builtin s \<noteq> None \<or> (\<exists>src. ps_script s = Some src \<and> sourceKind src \<noteq> SourceUnknown)"
  shows "runs (\<lambda>_. True) classified (resolveStep b ns s data defaults)"
proof -
  have fetch: "runs (\<lambda>_. True) classified (fetchScriptSource b ns src)" if kind: "sourceKind src \<noteq> SourceUnknown" for src
  proof (cases "sourceKind src")
    case SourceConfigMapRef
    then obtain ref where "ss_configMapRef src = Some ref" by (auto simp: sourceKind_def split: if_splits)
    with SourceConfigMapRef show ?thesis
      unfolding fetchScriptSource_def
      by simp (rule runs_bind [OF runs_read_or [OF orderly_reads(5) [OF assms(1)]]], simp add: classified_roots, intro runs_intros, simp_all add: classified_roots)
  next
    case SourceSecretRef
    then obtain ref where "ss_secretRef src = Some ref" by (auto simp: sourceKind_def split: if_splits)
    with SourceSecretRef show ?thesis
      unfolding fetchScriptSource_def
      by simp (rule runs_bind [OF runs_read_or [OF orderly_reads(6) [OF assms(1)]]], simp add: classified_roots, intro runs_intros, simp_all add: classified_roots)
  qed (use kind in \<open>simp_all add: fetchScriptSource_def runs_ret\<close>)
  have params: "resolveBuiltinParams b n us d dat = Inl e \<Longrightarrow> classified e" for n us d dat e
    using render_params_error by (fastforce simp: resolveBuiltinParams_def classified_roots split: sum.splits if_splits)
  show ?thesis
  proof (cases "ps_builtin s")
    case None
    with assms(2) obtain src where "ps_script s = Some src" "sourceKind src \<noteq> SourceUnknown" by auto
    with None show ?thesis
      unfolding resolveStep_def resolveScriptStep_def
      by simp (rule runs_bind [OF fetch], simp, intro runs_intros, simp_all add: classified_roots)
  next
    case (Some bi)
    then show ?thesis
      unfolding resolveStep_def by simp (intro runs_intros, simp_all add: params)
  qed
qed

lemma runs_resolveHooks_classified:
  assumes "orderly b"
  shows "runs (\<lambda>_. True) classified (resolveHooks b ns refs shared defaults family)"
proof -
  have "runs (\<lambda>_. True) classified (resolveHook b ns shared defaults family ref)" for ref
    unfolding resolveHook_def Let_def
  proof (rule runs_bind [OF runs_read_or [OF orderly_reads(4) [OF assms]]], simp add: classified_roots, rule runs_if, simp add: runs_raise classified_roots,
      rule runs_case_option)
    fix hook :: PostHook
    assume steps: "\<forall>s\<in>set (ph_steps hook). ps_builtin s \<noteq> None \<or> (\<exists>src. ps_script s = Some src \<and> sourceKind src \<noteq> SourceUnknown)"
    show "runs (\<lambda>_. True) classified (bindK (mapK (\<lambda>step. wrapK ''step'' (resolveStep b (resolveNamespace ref ns) step (hookTemplateData shared hook) defaults)) (ph_steps hook))
        (\<lambda>steps. ret \<lparr>rh_name = ph_name hook, rh_steps = steps\<rparr>))"
      by (rule runs_bind [OF runs_mapK [OF runs_wrap_classified [OF runs_resolveStep_classified [OF assms]]]], use steps in blast, rule runs_ret, simp)
  qed (simp add: runs_raise classified_roots)
  then show ?thesis
    unfolding resolveHooks_def
    by (intro runs_mono [OF runs_mapK [where R = "\<lambda>_ _. True" and E = classified]] runs_wrap_classified) auto
qed

lemma runs_resolveMachineHooks_classified:
  assumes "orderly b"
  shows "runs (\<lambda>_. True) classified (resolveMachineHooks b m c os)"
proof -
  have not_nil: "\<exists>mp. jsonToMap b j = Inr (Some mp) \<or> (\<exists>e. jsonToMap b j = Inl (Wrapped ''parsing params JSON'' e))" for j
  proof (cases j)
    case (Some raw)
    have "b_unmarshal b raw \<noteq> Inr None" using orderly_values(2) [OF assms] .
    then show ?thesis
      using Some by (cases "b_unmarshal b raw") (auto simp: jsonToMap_def)
  qed (simp add: jsonToMap_def)
  have "(\<exists>mp. mergeParams b i j = Inr (Some mp)) \<or> (\<exists>e. mergeParams b i j = Inl e \<and> \<not> is_abort e)" for i j
    using not_nil [of i] not_nil [of j] by (auto simp: mergeParams_def maps_copy_def)
  from this [of "imageParamsOf os" "cs_params (cl_spec c)"] show ?thesis
  proof
    assume "\<exists>e. mergeParams b (imageParamsOf os) (cs_params (cl_spec c)) = Inl e \<and> \<not> is_abort e"
    then show ?thesis by (auto simp: resolveMachineHooks_def intro!: runs_raise simp: classified_roots)
  next
    assume "\<exists>mp. mergeParams b (imageParamsOf os) (cs_params (cl_spec c)) = Inr (Some mp)"
    then show ?thesis
      by (auto simp: resolveMachineHooks_def Let_def intro!: runs_bind [OF runs_resolveHooks_classified [OF assms]]
          runs_bind [where Q = "\<lambda>_. True"] runs_if runs_resolveHooks_classified [OF assms] runs_ret)
  qed
qed

lemma runs_Build_classified:
  assumes "orderly b"
  shows "runs (\<lambda>_. True) classified (Build b m c run)"
proof (cases "\<exists>claim. c = Some claim \<and> \<not> nothing_to_deploy claim")
  case False
  then show ?thesis
    by (cases c) (auto simp: Build_def noDeployPayload_def classified_roots intro: runs_raise)
next
  case True
  have snap: "runs (\<lambda>_. True) classified (buildSnapshot b os dis hooks)" for os dis hooks
    using orderly_values(1) [OF assms, of hooks] by (auto simp: buildSnapshot_def Let_def hooksHash_def runs_ret split: sum.splits)
  have distinct: "runs (\<lambda>_. True) classified (checkDistinctDisks sels)" for sels
    unfolding checkDistinctDisks_def by (intro runs_intros) (simp_all add: classified_roots)
  have hw: "runs (\<lambda>_. True) classified (getMachineHardware b m)"
    unfolding getMachineHardware_def by (intro runs_read_or [OF orderly_reads(1) [OF assms]]) (simp add: classified_roots)
  from True obtain claim where "c = Some claim" "\<not> nothing_to_deploy claim" by blast
  then show ?thesis
    unfolding Build_def Let_def
    by simp (rule runs_bind [OF hw], rule runs_bind [OF runs_resolve_os_classified [OF assms]], rule runs_case_prod,
        rule runs_bind [OF runs_resolve_data_classified [OF assms]], simp, rule runs_case_prod, rule runs_bind [OF distinct],
        rule runs_bind [OF runs_resolveMachineHooks_classified [OF assms]], rule runs_case_option, rule runs_bind [OF snap],
        auto intro!: runs_ret runs_raise simp: classified_roots)
qed


text \<open>
  On a cluster whose API server answers and whose objects the schemas
  admit, every failure of the plan builder, however deep, reaches the deployer as one of the three
  planning errors, so the deployment step always has an outcome (Delayed or Failed) and never a bare
  error or a panic.
\<close>

theorem build_errors_have_outcomes:
  assumes "orderly b" "Build b m c run s = (Inl e, s')"
  shows "\<exists>result. planBuildErrorResult e = Some result \<and> outcome result \<in> {Delayed, Failed}"
proof -
  have "planBuildErrorResult e \<noteq> None"
    using runs_error [OF runs_Build_classified [OF assms(1)] assms(2)] by (simp add: classified_def)
  then show ?thesis
    by (auto simp: planBuildErrorResult_def split: kerr.splits)
qed

lemma demo_orderly: "orderly (demo_builder f)"
  unfolding orderly_def
  by (auto simp: demo_builder_def demo_reader_def demo_content_def runs_def stored_def ret_def demo_hash demo_hook_def defaultFinalizeSteps_def linux_builtin_def
      split: option.splits prod.splits if_splits)

theorem build_errors_have_outcomes_witness:
  "\<exists>e result. fst (Build (demo_builder '''' :: unit Builder) demo_machine None demo_run ()) = Inl e \<and> planBuildErrorResult e = Some result \<and>
     outcome result \<in> {Delayed, Failed}"
  using build_errors_have_outcomes [OF demo_orderly, where m = demo_machine and c = None and run = demo_run and s = "()"]
  by (simp add: Build_def raise_def)

text \<open>
  An API outage while the Machine's Site is resolved is not treated as the
  transient failure it is: the read error of a Subnet or a Site comes out of the slot as a
  ValidationError, which the deployer counts as a failed deployment, whereas the same outage at the
  read of the content is returned as it is and retried.
\<close>

theorem site_outage_is_final:
  assumes "rd_partitionContent (b_client b) (resolveNamespace ref (im_namespace img), nr_name ref) s = (Inr pc, s1)"
    and "b_conditionTrue b (pc_conditions pc) PartitionContentConditionReady"
    and "rd_subnet (b_client b) (if nr_namespace (ms_subnetRef (m_spec m)) = '''' then m_namespace m else nr_namespace (ms_subnetRef (m_spec m)),
        nr_name (ms_subnetRef (m_spec m))) s1 = (Inl (ApiError t), s2)"
    and "rd_partitionContent (b_client b) (resolveNamespace ref' (im_namespace img), nr_name ref') s = (Inl (ApiError t), s3)"
  shows "(\<exists>e result. buildTorrent b m img ref Unresolved s = (Inl e, s2) \<and> planBuildErrorResult e = Some result \<and> outcome result = Failed) \<and>
    (\<exists>e. buildTorrent b m img ref' Unresolved s = (Inl e, s3) \<and> planBuildErrorResult e = None)"
proof
  have "Resolve (b_client b) m s1 = (Inl (Wrapped ''get subnet'' (ApiError t)), s2)"
    using assms(3) by (simp add: Resolve_def Let_def read_or_def kio_simps isNotFound_def)
  then show "\<exists>e result. buildTorrent b m img ref Unresolved s = (Inl e, s2) \<and> planBuildErrorResult e = Some result \<and> outcome result = Failed"
    using assms(1,2) by (simp add: buildTorrent_def Let_def read_or_def kio_simps resolve_site_def planBuildErrorResult_def)
  show "\<exists>e. buildTorrent b m img ref' Unresolved s = (Inl e, s3) \<and> planBuildErrorResult e = None"
    using assms(4) by (simp add: buildTorrent_def Let_def read_or_def kio_simps isNotFound_def planBuildErrorResult_def)
qed

definition outage_reader :: "unit reader" where
  "outage_reader = (demo_reader '''')\<lparr>rd_subnet := (\<lambda>k. raise (ApiError ''timeout'')),
     rd_partitionContent := (\<lambda>k. if snd k = ''gone'' then raise (ApiError ''timeout'') else rd_partitionContent (demo_reader '''') k)\<rparr>"

theorem site_outage_is_final_witness:
  "\<exists>e result. buildTorrent ((demo_builder '''')\<lparr>b_client := outage_reader\<rparr>) demo_machine (demo_image ''i'' '''' []) \<lparr>nr_namespace = '''', nr_name = ''pc''\<rparr> Unresolved () = (Inl e, ()) \<and>
     planBuildErrorResult e = Some result \<and> outcome result = Failed"
  by (rule site_outage_is_final [where ref' = "\<lparr>nr_namespace = '''', nr_name = ''gone''\<rparr>" and t = "''timeout''", THEN conjunct1])
    (auto simp: outage_reader_def demo_reader_def demo_content_def demo_builder_def stored_def raise_def resolveNamespace_def is_valid_def ref_true_def ref_find_def)

text \<open>
  With the shipped default hook in place, an OS image of any other family
  than Linux that names no hooks of its own, deployed by a claim that names none, is never planned:
  the substituted hook's steps are declared Linux-only, so the compatibility check turns every attempt
  into a ValidationError.
\<close>

theorem default_hook_needs_linux:
  assumes "rd_postHook (b_client b) (b_managerNamespace b, DefaultFinalizeHookName) s = (Inr hook, s')"
    and "ph_steps hook = defaultFinalizeSteps" "b_conditionTrue b (ph_conditions hook) PostHookConditionValid"
    and "EffectiveOSFamily (im_spec (ri_image os)) \<noteq> OSFamilyLinux"
    and "is_postHookRefs (im_spec (ri_image os)) = []" "cs_postHookRefs (cl_spec c) = []"
    and "mergeParams b (is_params (im_spec (ri_image os))) (cs_params (cl_spec c)) = Inr (Some merged)"
  shows "\<exists>t. resolveMachineHooks b m c (Some os) s = (Inl (Wrapped ''posthook'' (ValidationError t)), s')"
proof -
  have "EffectiveOSFamily (im_spec (ri_image os)) \<noteq> ''''"
    by (simp add: EffectiveOSFamily_def OSFamilyLinux_def)
  moreover have "\<exists>e. CheckOSFamilyCompatible hook (EffectiveOSFamily (im_spec (ri_image os))) = Some e"
    using assms(2,4) by (simp add: CheckOSFamilyCompatible_def defaultFinalizeSteps_def linux_builtin_def OSFamilyLinux_def)
  ultimately show ?thesis
    using assms by (auto simp: resolveMachineHooks_def imageParamsOf_def Let_def resolveHooks_def resolveHook_def resolveNamespace_def read_or_def kio_simps)
qed

theorem default_hook_needs_linux_witness:
  "\<exists>t. resolveMachineHooks (demo_builder ''Windows'' :: unit Builder) demo_machine demo_claim (Some (demo_os ''Windows'')) () = (Inl (Wrapped ''posthook'' (ValidationError t)), ())"
  by (rule default_hook_needs_linux [where hook = demo_hook and merged = Map.empty])
    (auto simp: demo_builder_def demo_reader_def demo_content_def stored_def demo_hook_def is_valid_def ref_true_def ref_find_def demo_os_def OSFamilyLinux_def mergeParams_def jsonToMap_def maps_copy_def)


section \<open>The trigger with the real builder\<close>

lemma createDeployRun_hash:
  assumes "owner_laws (lib env)" "\<forall>r s r' s'. k_createRun (kube env) r s = (Inr r', s') \<longrightarrow> r_spec r' = r_spec r"
    and "builder env = Some (PlanBuilder b)" "createDeployRun env m (Some c) w = (Inr run, w')"
  shows "\<exists>snap s'. b_build (PlanBuilder b) m (Some c) (newRun m c) (srv w) = (Inr snap, s') \<and> rs_hooksHash (r_spec run) = sp_hooksHash snap"
proof -
  obtain snap w1 run1 where build: "kcall BuildPlan (b_build (PlanBuilder b) m (Some c) (newRun m c)) w = (Inr snap, w1)"
    and owner: "setControllerReference (lib env) m (ApplySnapshot (newRun m c) snap) = Inr run1"
    and create: "kcall (CreateRun run1) (k_createRun (kube env) run1) w1 = (Inr run, w')"
  proof -
    obtain run0 w1 where "bindK (kcall BuildPlan (b_build (PlanBuilder b) m (Some c) (newRun m c))) (\<lambda>snap. ret (ApplySnapshot (newRun m c) snap)) w = (Inr run0, w1)"
      and rest: "(case setControllerReference (lib env) m run0 of Inl e \<Rightarrow> raise (Wrapped ''setting owner reference'' e)
        | Inr run' \<Rightarrow> kcall (CreateRun run') (k_createRun (kube env) run')) w1 = (Inr run, w')"
      using assms(4) unfolding createDeployRun_def assms(3) option.case bindK_value [of _ "\<lambda>run. case_sum (_ run) (_ run) (_ run)"] by blast
    then obtain snap where "kcall BuildPlan (b_build (PlanBuilder b) m (Some c) (newRun m c)) w = (Inr snap, w1)" "run0 = ApplySnapshot (newRun m c) snap"
      by (auto simp: bindK_value ret_def)
    then show thesis
      using rest that by (auto simp: raise_def split: sum.splits)
  qed
  have "r_spec run1 = r_spec (ApplySnapshot (newRun m c) snap)"
    using assms(1) owner by (simp add: owner_laws_def)
  moreover have "r_spec run = r_spec run1"
    using create assms(2) by (auto simp: kcall_def split: prod.splits)
  ultimately show ?thesis
    using build by (auto simp: kcall_def ApplySnapshot_def split: prod.splits)
qed

text \<open>
  C25: the trigger is quiet on an unchanged cluster: when the reconciler
  created a DeployRun with the plan builder of this repository and later computes the current hook
  hash from the same cluster state, the comparison with that run, as the last successful one, does not
  ask for another disk-wiping deployment (the claim's dataImages is not the empty non-nil list).
\<close>

theorem unchanged_cluster_no_redeploy:
  assumes "owner_laws (lib env)" "\<forall>r s r' s'. k_createRun (kube env) r s = (Inr r', s') \<longrightarrow> r_spec r' = r_spec r"
    and "builder env = Some (PlanBuilder b)" "still_reader (b_client b)" "cs_dataImages (cl_spec c) \<noteq> Some []"
    and "createDeployRun env m (Some c) w = (Inr run, w')" "srv v = srv w"
  shows "\<exists>h v'. currentHooksHash env m (Some c) v = (Inr (HooksHash h), v') \<and> \<not> shouldProvision (Some c) (Some run) h"
proof -
  obtain snap s' where build: "b_build (PlanBuilder b) m (Some c) (newRun m c) (srv w) = (Inr snap, s')"
    and hash: "rs_hooksHash (r_spec run) = sp_hooksHash snap"
    using createDeployRun_hash [OF assms(1-3,6)] by blast
  then have "b_buildSnapshot (PlanBuilder b) m (Some c) (srv v) = (Inr snap, srv v)"
    using snapshot_of_build [OF assms(4) build] assms(7) by simp
  then have "\<exists>v'. currentHooksHash env m (Some c) v = (Inr (HooksHash (sp_hooksHash snap)), v')"
    by (simp add: currentHooksHash_def assms(3) kio_simps kcall_def)
  then show ?thesis
    using created_run_satisfies_intent [OF assms(1,2,6,5)] hash by metis
qed

definition demo_env :: "store env" where
  "demo_env = ref_pass_env\<lparr>builder := Some (PlanBuilder (demo_builder ''''))\<rparr>"

lemma demo_create: "\<exists>run w'. createDeployRun demo_env demo_machine (Some demo_claim) lost_world = (Inr run, w')"
  by (simp add: createDeployRun_def demo_env_def PlanBuilder_def kcall_def kio_simps demo_Build_any ref_env_def ref_libs_def ref_kube_def ApplySnapshot_def Let_def)

theorem unchanged_cluster_no_redeploy_witness:
  "\<exists>run w' h v'. createDeployRun demo_env demo_machine (Some demo_claim) lost_world = (Inr run, w') \<and>
     currentHooksHash demo_env demo_machine (Some demo_claim) lost_world = (Inr (HooksHash h), v') \<and> \<not> shouldProvision (Some demo_claim) (Some run) h"
proof -
  obtain run w' where "createDeployRun demo_env demo_machine (Some demo_claim) lost_world = (Inr run, w')"
    using demo_create by blast
  moreover have "owner_laws (lib demo_env)" "\<forall>r s r' s'. k_createRun (kube demo_env) r s = (Inr r', s') \<longrightarrow> r_spec r' = r_spec r"
    "builder demo_env = Some (PlanBuilder (demo_builder ''''))"
    using ref_owner_laws by (auto simp: demo_env_def ref_env_def ref_kube_def Let_def)
  moreover have "cs_dataImages (cl_spec demo_claim) \<noteq> Some []"
    by (simp add: demo_claim_def ref_claim_def)
  ultimately show ?thesis
    using unchanged_cluster_no_redeploy [OF _ _ _ demo_still] by metis
qed

end
