(* ===== verification/Agent_Server.thy ===== *)
theory Agent_Server
  imports Plan_Builder Agent_Deployer
begin

text \<open>
  internal/agentserver: the HTTP endpoints the live agent talks to (server.go), the progress reports
  it persists onto a DeployRun (progress.go), session credentials (session.go), the abort decision
  (abort.go), the two field indexes (index.go) and the configuration (config.go). A request carries
  its headers and the decoded body (\<open>None\<close> when the JSON decoder rejects it); a response is a value.
  Handlers log errors and answer; they return no Go error.
\<close>

section \<open>Wire types\<close>

datatype ProgressState = ProgressRunning | ProgressSucceeded | ProgressFailed | ProgressStateOther string

record ProgressPartition =
  ppn_number :: int
  ppn_percent :: int
  ppn_bytesDone :: int

text \<open>The step is a phase name; the run's status stores it as the phase it names.\<close>

record ProgressRequest =
  pr_runName :: string
  pr_runUID :: string
  pr_step :: DeployRunPhase
  pr_state :: ProgressState
  pr_message :: string
  pr_percentDone :: "int option"
  pr_bytesDone :: "int option"
  pr_partitions :: "ProgressPartition list"
  pr_timestamp :: time

datatype ProgressAction = ActionContinue | ActionAbort

datatype http_response =
    Unauthorized
  | BadRequest string
  | InternalError
  | Registered string string int       \<comment> \<open>machine name, session token, TTL in seconds\<close>
  | NextWait int
  | NextDeploy DeployPlan int
  | ProgressAnswer ProgressAction

record 'b http_request =
  rq_schemaVersion :: string
  rq_authorization :: string
  rq_body :: "'b option"

section \<open>config.go and session.go\<close>

definition hour :: duration where
  "hour = 3600 * second"

definition DefaultSessionTTL :: duration where
  "DefaultSessionTTL = 6 * hour"

definition DefaultPollInterval :: duration where
  "DefaultPollInterval = 15 * second"

record Config =
  cfg_sessionTTL :: duration
  cfg_pollInterval :: duration

definition sessionTTL :: "Config \<Rightarrow> duration" where
  "sessionTTL c = (if cfg_sessionTTL c \<le> 0 then DefaultSessionTTL else cfg_sessionTTL c)"

definition pollInterval :: "Config \<Rightarrow> duration" where
  "pollInterval c = (if cfg_pollInterval c \<le> 0 then DefaultPollInterval else cfg_pollInterval c)"

text \<open>\<open>int64(d.Seconds())\<close>, exact for the durations of a configuration.\<close>

definition in_seconds :: "duration \<Rightarrow> int" where
  "in_seconds d = d div second"

type_synonym 's AbortDecider = "string \<Rightarrow> string \<Rightarrow> string \<Rightarrow> ('s, bool) act"

record 's Server =
  sv_kube :: "'s kube"
  sv_lib :: libs
  sv_config :: Config
  sv_now :: time
  sv_sha :: "string \<Rightarrow> string"
  sv_rand :: "'s \<Rightarrow> (kerr + string) \<times> 's"
  sv_abort :: "'s AbortDecider option"
  sv_planBuilder :: "'s Builder option"
  sv_backoffSteps :: nat

definition mintSessionToken :: "'s Server \<Rightarrow> 's \<Rightarrow> (kerr + (string \<times> string)) \<times> 's" where
  "mintSessionToken v s =
     (case sv_rand v s of
        (Inl e, s') \<Rightarrow> (Inl (Wrapped ''generating agent session token'' e), s')
      | (Inr buf, s') \<Rightarrow> (Inr (hex_encode buf, hashToken (sv_sha v) (hex_encode buf)), s'))"

definition newAgentSessionStatus :: "string \<Rightarrow> time \<Rightarrow> duration \<Rightarrow> MachineAgentSessionStatus" where
  "newAgentSessionStatus hash t ttl = \<lparr>as_tokenHash = hash, as_expiresAt = Some (t + ttl)\<rparr>"

section \<open>index.go\<close>

definition IndexMachineTokenHash :: "Machine \<Rightarrow> string list" where
  "IndexMachineTokenHash m =
     (case netBoot (m_status m) of None \<Rightarrow> [] | Some nb \<Rightarrow> if nb_tokenHash nb = '''' then [] else [nb_tokenHash nb])"

definition IndexMachineSessionTokenHash :: "Machine \<Rightarrow> string list" where
  "IndexMachineSessionTokenHash m =
     (case agentSession (m_status m) of None \<Rightarrow> [] | Some se \<Rightarrow> if as_tokenHash se = '''' then [] else [as_tokenHash se])"

section \<open>abort.go\<close>

definition findMachineByName :: "'s kube \<Rightarrow> string \<Rightarrow> ('s, Machine option) act" where
  "findMachineByName k name =
     bindK (kcall (ListMachines '''') (k_listMachines k '''')) (\<lambda>items.
     case filter (\<lambda>m. m_name m = name) items of [m] \<Rightarrow> ret (Some m) | _ \<Rightarrow> ret None)"

definition NewAbortDecider :: "'s kube \<Rightarrow> 's AbortDecider" where
  "NewAbortDecider k machineName runName runUID =
     bindK (attempt (findMachineByName k machineName)) (\<lambda>r. case r of
         Inl e \<Rightarrow> ret True
       | Inr None \<Rightarrow> ret True
       | Inr (Some machine) \<Rightarrow>
           (case currentRunRef (m_status machine) of
              None \<Rightarrow> ret True
            | Some ref \<Rightarrow>
                if nr_name ref \<noteq> runName then ret True
                else
                  (let key = (if nr_namespace ref = '''' then m_namespace machine else nr_namespace ref, runName) in
                   bindK (attempt (kcall (GetRun key) (k_getRun k key))) (\<lambda>r. case r of
                       Inl e \<Rightarrow> ret True
                     | Inr run \<Rightarrow> ret (r_deletionTimestamp run \<noteq> None)))))"

section \<open>progress.go\<close>

definition closeCurrentPhaseTiming :: "DeployRunPhaseTiming list \<Rightarrow> time \<Rightarrow> DeployRunPhaseTiming list" where
  "closeCurrentPhaseTiming ts t =
     (if ts = [] then ts
      else if pt_finishedAt (last ts) = None then butlast ts @ [(last ts)\<lparr>pt_finishedAt := Some t\<rparr>] else ts)"

definition enterPhase :: "DeployRunStatus \<Rightarrow> DeployRunPhase \<Rightarrow> time \<Rightarrow> DeployRunStatus" where
  "enterPhase st step t =
     (if phase st = step then st
      else st\<lparr>phaseTimings := closeCurrentPhaseTiming (phaseTimings st) t @ [\<lparr>pt_phase = step, pt_startedAt = t, pt_finishedAt = None\<rparr>],
        phase := step\<rparr>)"

definition progress_entry :: "ProgressPartition \<Rightarrow> DeployRunPartitionProgress" where
  "progress_entry p = \<lparr>pp_number = ppn_number p, pp_percent = ppn_percent p, pp_bytesDone = ppn_bytesDone p\<rparr>"

text \<open>Replace the first entry of the number, or append.\<close>

fun upsert :: "DeployRunPartitionProgress \<Rightarrow> DeployRunPartitionProgress list \<Rightarrow> DeployRunPartitionProgress list" where
  "upsert e [] = [e]"
| "upsert e (x # xs) = (if pp_number x = pp_number e then e # xs else x # upsert e xs)"

definition applyPartitionProgress :: "DeployRunPartitionProgress list \<Rightarrow> ProgressPartition list \<Rightarrow> DeployRunPartitionProgress list" where
  "applyPartitionProgress ps reported = foldl (\<lambda>ps p. upsert (progress_entry p) ps) ps reported"

definition progressMessage :: "string \<Rightarrow> string \<Rightarrow> string" where
  "progressMessage msg fallback = (if msg \<noteq> '''' then msg else fallback)"

definition setSucceededCondition :: "libs \<Rightarrow> DeployRun \<Rightarrow> cond_status \<Rightarrow> string \<Rightarrow> string \<Rightarrow> DeployRun" where
  "setSucceededCondition l run status reason message =
     run\<lparr>r_status := (r_status run)\<lparr>r_conditions := setStatusCondition l (r_conditions (r_status run))
       \<lparr>c_type = DeployRunConditionSucceeded, c_status = status, c_observedGeneration = r_generation run, c_reason = reason, c_message = message\<rparr>\<rparr>\<rparr>"

definition applyProgressToDeployRun :: "libs \<Rightarrow> time \<Rightarrow> DeployRun \<Rightarrow> ProgressRequest \<Rightarrow> DeployRun" where
  "applyProgressToDeployRun l progressNow run req =
     (let t = pr_timestamp req;
          st = (r_status run)\<lparr>lastProgressAt := Some progressNow\<rparr>;
          st = enterPhase st (pr_step req) t;
          st = st\<lparr>partitions := applyPartitionProgress (partitions st) (pr_partitions req)\<rparr>
      in case pr_state req of
          ProgressSucceeded \<Rightarrow>
            (let run' = run\<lparr>r_status := st\<lparr>phaseTimings := closeCurrentPhaseTiming (phaseTimings st) t\<rparr>\<rparr>
             in if pr_step req = PhaseSucceeded
                then setSucceededCondition l run' CondTrue ''DeploySucceeded'' (progressMessage (pr_message req) ''deploy completed successfully'')
                else run')
        | ProgressFailed \<Rightarrow>
            setSucceededCondition l (run\<lparr>r_status := st\<lparr>phaseTimings := closeCurrentPhaseTiming (phaseTimings st) t, phase := PhaseFailed\<rparr>\<rparr>)
              CondFalse ''DeployFailed'' (progressMessage (pr_message req) ''deploy failed'')
        | _ \<Rightarrow> run\<lparr>r_status := st\<rparr>)"

text \<open>\<^verbatim>\<open>retry.RetryOnConflict\<close> with the steps of \<^verbatim>\<open>retry.DefaultBackoff\<close>.\<close>

fun retryOnConflict :: "nat \<Rightarrow> ('s, 'a) act \<Rightarrow> ('s, 'a) act" where
  "retryOnConflict 0 m = raise Conflict"
| "retryOnConflict (Suc n) m =
     bindK (attempt m) (\<lambda>r. case r of
         Inr x \<Rightarrow> ret x
       | Inl e \<Rightarrow> if isConflict e \<and> n > 0 then retryOnConflict n m else raise e)"

definition persistProgress :: "'s Server \<Rightarrow> Machine \<Rightarrow> ProgressRequest \<Rightarrow> ('s, unit) act" where
  "persistProgress v machine req =
     (let key = (m_namespace machine, pr_runName req) in
      bindK (attempt (retryOnConflict (sv_backoffSteps v)
        (bindK (kcall (GetRun key) (k_getRun (sv_kube v) key)) (\<lambda>run.
         if pr_runUID req \<noteq> '''' \<and> r_uid run \<noteq> pr_runUID req then ret ()
         else (let run' = applyProgressToDeployRun (sv_lib v) (sv_now v) run req in
               bindK (kcall (UpdateRunStatus run') (k_updateRunStatus (sv_kube v) run')) (\<lambda>_. ret ())))))) (\<lambda>r. case r of
          Inr _ \<Rightarrow> ret ()
        | Inl e \<Rightarrow> if isNotFound e then ret () else raise (Wrapped ''persisting progress onto DeployRun'' e)))"

section \<open>server.go\<close>

text \<open>\<^verbatim>\<open>strconv.Atoi\<close>: an optional sign and decimal digits within \<^verbatim>\<open>int64\<close>.\<close>

definition atoi :: "string \<Rightarrow> int option" where
  "atoi s =
     (let neg = (s \<noteq> [] \<and> hd s = CHR ''-'');
          ds = (if s \<noteq> [] \<and> (hd s = CHR ''-'' \<or> hd s = CHR ''+'') then tl s else s)
      in if ds = [] then None
         else case digits_value 10 0 ds of
             None \<Rightarrow> None
           | Some n \<Rightarrow> (let i = (if neg then - int n else int n) in if - (2 ^ 63) \<le> i \<and> i < 2 ^ 63 then Some i else None))"

definition requireAgentSchemaVersion :: "('b http_request \<Rightarrow> ('s, http_response) act) \<Rightarrow> 'b http_request \<Rightarrow> ('s, http_response) act" where
  "requireAgentSchemaVersion handler r =
     (if rq_schemaVersion r = '''' \<or> atoi (rq_schemaVersion r) \<noteq> Some AgentSchemaVersion
      then ret (BadRequest ''missing or unsupported X-Kezio-Agent-Schema-Version'')
      else handler r)"

definition bearerToken :: "'b http_request \<Rightarrow> string option" where
  "bearerToken r =
     (let h = rq_authorization r; prefix = ''Bearer '' in
      if \<not> hasPrefix h prefix then None
      else if drop (length prefix) h = '''' then None
      else Some (drop (length prefix) h))"

definition after :: "time option \<Rightarrow> time \<Rightarrow> bool" where
  "after expiresAt t0 \<longleftrightarrow> (case expiresAt of None \<Rightarrow> False | Some t \<Rightarrow> t0 < t)"

definition lookupMachineByToken :: "'s Server \<Rightarrow> string \<Rightarrow> ('s, Machine option) act" where
  "lookupMachineByToken v token =
     (let hash = hashToken (sv_sha v) token in
      bindK (kcall (ListByTokenHash hash) (k_listByTokenHash (sv_kube v) hash)) (\<lambda>items.
      case items of
        [machine] \<Rightarrow>
          (case netBoot (m_status machine) of
             None \<Rightarrow> ret None
           | Some nb \<Rightarrow> if \<not> after (nb_expiresAt nb) (sv_now v) then ret None else ret (Some machine))
      | _ \<Rightarrow> ret None))"

definition lookupMachineBySession :: "'s Server \<Rightarrow> string \<Rightarrow> ('s, Machine option) act" where
  "lookupMachineBySession v token =
     (let hash = hashToken (sv_sha v) token in
      bindK (kcall (ListBySessionHash hash) (k_listBySessionHash (sv_kube v) hash)) (\<lambda>items.
      case items of
        [machine] \<Rightarrow>
          (case agentSession (m_status machine) of
             None \<Rightarrow> ret None
           | Some se \<Rightarrow> if \<not> after (as_expiresAt se) (sv_now v) then ret None else ret (Some machine))
      | _ \<Rightarrow> ret None))"

text \<open>Every rejection of a credential, a failed lookup included, is the same answer.\<close>

definition authenticated :: "('s, Machine option) act \<Rightarrow> (Machine \<Rightarrow> ('s, http_response) act) \<Rightarrow> ('s, http_response) act" where
  "authenticated lookup k =
     bindK (attempt lookup) (\<lambda>r. case r of
         Inl e \<Rightarrow> ret Unauthorized
       | Inr None \<Rightarrow> ret Unauthorized
       | Inr (Some machine) \<Rightarrow> k machine)"

definition ensureMachineHardware :: "'s Server \<Rightarrow> Machine \<Rightarrow> MachineHardwareSpec \<Rightarrow> ('s, unit) act" where
  "ensureMachineHardware v machine hardware =
     (let key = (m_namespace machine, m_name machine) in
      bindK (attempt (kcall (GetHardware key) (k_getHardware (sv_kube v) key))) (\<lambda>r. case r of
          Inl e \<Rightarrow>
            if isNotFound e then
              (let hw = \<lparr>hw_name = m_name machine, hw_namespace = m_namespace machine, hw_owners = [(m_name machine, m_uid machine)], hw_spec = hardware\<rparr> in
               bindK (kcall (CreateHardware hw) (k_createHardware (sv_kube v) hw)) (\<lambda>_. ret ()))
            else raise (Wrapped ''getting MachineHardware'' e)
        | Inr found \<Rightarrow>
            (let hw = found\<lparr>hw_spec := hardware, hw_owners := [(m_name machine, m_uid machine)]\<rparr> in
             bindK (kcall (UpdateHardware hw) (k_updateHardware (sv_kube v) hw)) (\<lambda>_. ret ()))))"

definition ingestRegistration :: "libs \<Rightarrow> Machine \<Rightarrow> string \<Rightarrow> time \<Rightarrow> duration \<Rightarrow> Machine" where
  "ingestRegistration l machine hash' t ttl =
     upd_status (\<lambda>st. st\<lparr>
       netBoot := map_option (\<lambda>nb. nb\<lparr>nb_tokenHash := ''''\<rparr>) (netBoot st),
       agentSession := Some (newAgentSessionStatus hash' t ttl),
       conditions := setStatusCondition l (conditions st)
         \<lparr>c_type = MachineConditionAgentRegistered, c_status = CondTrue, c_observedGeneration = m_generation machine,
          c_reason = ''Registered'', c_message = ''kezio-agent registered and reported its hardware inventory''\<rparr>\<rparr>) machine"

definition handleRegister :: "'s Server \<Rightarrow> MachineHardwareSpec http_request \<Rightarrow> ('s, http_response) act" where
  "handleRegister v r =
     (case bearerToken r of
        None \<Rightarrow> ret Unauthorized
      | Some token \<Rightarrow> authenticated (lookupMachineByToken v token) (\<lambda>machine.
          case rq_body r of
            None \<Rightarrow> ret (BadRequest ''malformed request body'')
          | Some hardware \<Rightarrow>
              bindK (attempt (ensureMachineHardware v machine hardware)) (\<lambda>r. case r of
                  Inl e \<Rightarrow> ret InternalError
                | Inr _ \<Rightarrow>
                    bindK (attempt (kcall (MintToken (m_name machine)) (mintSessionToken v))) (\<lambda>r. case r of
                        Inl e \<Rightarrow> ret InternalError
                      | Inr (sessionToken, hash') \<Rightarrow>
                          bindK (attempt (retryOnConflict (sv_backoffSteps v)
                            (bindK (kcall (GetMachine (m_key machine)) (k_getMachine (sv_kube v) (m_key machine))) (\<lambda>current.
                             let m' = ingestRegistration (sv_lib v) current hash' (sv_now v) (sessionTTL (sv_config v)) in
                             bindK (kcall (UpdateMachineStatus m') (k_updateMachineStatus (sv_kube v) m')) (\<lambda>_. ret ()))))) (\<lambda>r. case r of
                              Inl e \<Rightarrow> ret InternalError
                            | Inr _ \<Rightarrow> ret (Registered (m_name machine) sessionToken (in_seconds (sessionTTL (sv_config v)))))))))"

definition getCurrentRun :: "'s Server \<Rightarrow> Machine \<Rightarrow> NameRef \<Rightarrow> ('s, DeployRun) act" where
  "getCurrentRun v machine ref =
     (let key = (if nr_namespace ref = '''' then m_namespace machine else nr_namespace ref, nr_name ref) in
      kcall (GetRun key) (k_getRun (sv_kube v) key))"

definition deployRunExpectsAgent :: "DeployRunPhase \<Rightarrow> bool" where
  "deployRunExpectsAgent ph \<longleftrightarrow>
     (case ph of PhasePending \<Rightarrow> True | PhasePartitioning \<Rightarrow> True | PhaseWritingContent \<Rightarrow> True | PhaseRunningPostHook \<Rightarrow> True
      | PhaseFinalizing \<Rightarrow> True | _ \<Rightarrow> False)"

definition serverResolveClaimIntent :: "'s Server \<Rightarrow> Machine \<Rightarrow> ('s, MachineClaim option) act" where
  "serverResolveClaimIntent v m =
     (case ms_claimRef (m_spec m) of
        None \<Rightarrow> ret None
      | Some ref \<Rightarrow>
          bindK (getOpt (kcall (GetClaim (cr_namespace ref, cr_name ref)) (k_getClaim (sv_kube v) (cr_namespace ref, cr_name ref)))) (\<lambda>r. case r of
              None \<Rightarrow> ret None
            | Some claim \<Rightarrow> if cl_uid claim \<noteq> cr_uid ref then ret None else ret (Some claim)))"

definition resolveDeployPlan :: "'s Server \<Rightarrow> Machine \<Rightarrow> ('s, DeployPlan option) act" where
  "resolveDeployPlan v machine =
     (case (sv_planBuilder v, currentRunRef (m_status machine)) of
        (Some b, Some ref) \<Rightarrow>
          bindK (attempt (getCurrentRun v machine ref)) (\<lambda>r. case r of
              Inl e \<Rightarrow> ret None
            | Inr run \<Rightarrow>
                if \<not> deployRunExpectsAgent (phase (r_status run)) then ret None
                else
                  bindK (attempt (serverResolveClaimIntent v machine)) (\<lambda>r. case r of
                      Inl e \<Rightarrow> ret None
                    | Inr claim \<Rightarrow>
                        bindK (attempt (kcall BuildPlan (Build b machine claim run))) (\<lambda>r. case r of
                            Inl e \<Rightarrow> ret None
                          | Inr (plan, snap) \<Rightarrow> ret (Some plan))))
      | _ \<Rightarrow> ret None)"

definition handleNext :: "'s Server \<Rightarrow> 'b http_request \<Rightarrow> ('s, http_response) act" where
  "handleNext v r =
     (case bearerToken r of
        None \<Rightarrow> ret Unauthorized
      | Some token \<Rightarrow> authenticated (lookupMachineBySession v token) (\<lambda>machine.
          bindK (resolveDeployPlan v machine) (\<lambda>plan.
          let poll = in_seconds (pollInterval (sv_config v)) in
          case plan of None \<Rightarrow> ret (NextWait poll) | Some p \<Rightarrow> ret (NextDeploy p poll))))"

definition handleProgress :: "'s Server \<Rightarrow> ProgressRequest http_request \<Rightarrow> ('s, http_response) act" where
  "handleProgress v r =
     (case bearerToken r of
        None \<Rightarrow> ret Unauthorized
      | Some token \<Rightarrow> authenticated (lookupMachineBySession v token) (\<lambda>machine.
          case rq_body r of
            None \<Rightarrow> ret (BadRequest ''malformed request body'')
          | Some req \<Rightarrow>
              bindK (case sv_abort v of None \<Rightarrow> ret False | Some decide \<Rightarrow> decide (m_name machine) (pr_runName req) (pr_runUID req)) (\<lambda>abort.
              bindK (attempt (persistProgress v machine req)) (\<lambda>_.
              ret (ProgressAnswer (if abort then ActionAbort else ActionContinue))))))"

end
