(* ===== verification/Agent_Reports.thy ===== *)
theory Agent_Reports
  imports Agent_Server Plan_Properties Claim_Properties
begin

text \<open>
  The properties of the agent-facing server: what a sequence of progress reports makes of a
  DeployRun, what the deployer then concludes, who may write what, and which plans are handed out.
\<close>

section \<open>Progress reports\<close>

text \<open>
  The shape of a run's progress: a partition has one entry, every phase but the last is closed, and a
  current phase is the last one of the timings unless the run has failed.
\<close>

definition run_shape :: "DeployRunStatus \<Rightarrow> bool" where
  "run_shape st \<longleftrightarrow> distinct (map pp_number (partitions st)) \<and>
     (\<forall>t\<in>set (butlast (phaseTimings st)). pt_finishedAt t \<noteq> None) \<and>
     (phaseTimings st \<noteq> [] \<longrightarrow> phase st = PhaseFailed \<and> pt_finishedAt (last (phaseTimings st)) \<noteq> None \<or> phase st = pt_phase (last (phaseTimings st)))"

definition entry_of :: "DeployRunPartitionProgress list \<Rightarrow> int \<Rightarrow> DeployRunPartitionProgress option" where
  "entry_of ps n = find (\<lambda>e. pp_number e = n) ps"

lemma upsert_numbers: "set (map pp_number (upsert e ps)) = insert (pp_number e) (set (map pp_number ps))"
  by (induction e ps rule: upsert.induct) auto

lemma upsert_distinct: "distinct (map pp_number ps) \<Longrightarrow> distinct (map pp_number (upsert e ps))"
  using upsert_numbers by (induction e ps rule: upsert.induct) (auto simp del: set_map)

lemma upsert_entry: "entry_of (upsert e ps) n = (if n = pp_number e then Some e else entry_of ps n)"
  by (induction e ps rule: upsert.induct) (auto simp: entry_of_def)

lemma applyPartition_distinct: "distinct (map pp_number ps) \<Longrightarrow> distinct (map pp_number (applyPartitionProgress ps reported))"
  by (induction reported arbitrary: ps) (simp_all add: applyPartitionProgress_def upsert_distinct)

lemma applyPartition_entry:
  "entry_of (applyPartitionProgress ps reported) n =
     (case find (\<lambda>p. ppn_number p = n) (rev reported) of Some p \<Rightarrow> Some (progress_entry p) | None \<Rightarrow> entry_of ps n)"
proof (induction reported arbitrary: ps)
  case (Cons p ps')
  have "find P (xs @ [y]) = (case find P xs of Some x \<Rightarrow> Some x | None \<Rightarrow> if P y then Some y else None)" for P xs and y :: ProgressPartition
    by (induction xs) auto
  moreover have "applyPartitionProgress ps (p # ps') = applyPartitionProgress (upsert (progress_entry p) ps) ps'"
    by (simp add: applyPartitionProgress_def)
  ultimately show ?case
    using Cons.IH [of "upsert (progress_entry p) ps"] by (auto simp: upsert_entry progress_entry_def split: option.splits)
qed (simp add: applyPartitionProgress_def)

lemma close_timings:
  "butlast (closeCurrentPhaseTiming ts t) = butlast ts"
  "closeCurrentPhaseTiming ts t = [] \<longleftrightarrow> ts = []"
  "ts \<noteq> [] \<Longrightarrow> pt_finishedAt (last (closeCurrentPhaseTiming ts t)) \<noteq> None"
  "ts \<noteq> [] \<Longrightarrow> pt_phase (last (closeCurrentPhaseTiming ts t)) = pt_phase (last ts)"
  by (auto simp: closeCurrentPhaseTiming_def)

lemma close_all:
  "\<forall>x\<in>set (butlast ts). pt_finishedAt x \<noteq> None \<Longrightarrow> x \<in> set (closeCurrentPhaseTiming ts t) \<Longrightarrow> pt_finishedAt x \<noteq> None"
  by (cases ts rule: rev_cases) (auto simp: closeCurrentPhaseTiming_def split: if_splits)

lemma enterPhase_shape:
  assumes "run_shape st"
  shows "run_shape (enterPhase st step t) \<and> phase (enterPhase st step t) = step \<and>
    (phaseTimings (enterPhase st step t) \<noteq> [] \<longrightarrow> step \<noteq> PhaseFailed \<longrightarrow> pt_phase (last (phaseTimings (enterPhase st step t))) = step)"
  using assms close_all [of "phaseTimings st"] by (auto simp: run_shape_def enterPhase_def)

lemma progress_shape:
  assumes "run_shape (r_status run)"
  shows "run_shape (r_status (applyProgressToDeployRun l t run req))"
proof -
  let ?st = "enterPhase ((r_status run)\<lparr>lastProgressAt := Some t\<rparr>) (pr_step req) (pr_timestamp req)"
  have "run_shape ((r_status run)\<lparr>lastProgressAt := Some t\<rparr>)" using assms by (simp add: run_shape_def)
  from enterPhase_shape [OF this] have st: "run_shape ?st" "phase ?st = pr_step req"
    "phaseTimings ?st \<noteq> [] \<longrightarrow> pr_step req \<noteq> PhaseFailed \<longrightarrow> pt_phase (last (phaseTimings ?st)) = pr_step req"
    by auto
  show ?thesis
    using st applyPartition_distinct [of "partitions ?st" "pr_partitions req"] close_timings [of "phaseTimings ?st" "pr_timestamp req"]
    by (cases "pr_state req") (auto simp: applyProgressToDeployRun_def Let_def setSucceededCondition_def run_shape_def)
qed

text \<open>A history of reports, each with the time the server received it.\<close>

definition reported :: "libs \<Rightarrow> DeployRun \<Rightarrow> (time \<times> ProgressRequest) list \<Rightarrow> DeployRun" where
  "reported l run reports = foldl (\<lambda>r (t, req). applyProgressToDeployRun l t r req) run reports"

lemma progress_fields:
  "entry_of (partitions (r_status (applyProgressToDeployRun l t run req))) n =
     (case find (\<lambda>p. ppn_number p = n) (rev (pr_partitions req)) of Some p \<Rightarrow> Some (progress_entry p) | None \<Rightarrow> entry_of (partitions (r_status run)) n)"
  "lastProgressAt (r_status (applyProgressToDeployRun l t run req)) = Some t"
  by (simp_all add: applyProgressToDeployRun_def Let_def setSucceededCondition_def applyPartition_entry enterPhase_def split: ProgressState.splits)

text \<open>
  C26: whatever reports arrive, in whatever order, a run keeps its shape: one
  entry per partition number, every phase timing but the last closed, the current phase the last one
  opened (or Failed, with that one closed too); the entry of a partition is the latest reported for it
  and the last-progress stamp is the server's own clock at the last report.
\<close>

theorem reports_keep_run_shape:
  assumes "run_shape (r_status run)"
  shows "run_shape (r_status (reported l run reports)) \<and>
    entry_of (partitions (r_status (reported l run reports))) n =
      (case find (\<lambda>p. ppn_number p = n) (rev (concat (map (\<lambda>(t, req). pr_partitions req) reports))) of
         Some p \<Rightarrow> Some (progress_entry p) | None \<Rightarrow> entry_of (partitions (r_status run)) n) \<and>
    (reports \<noteq> [] \<longrightarrow> lastProgressAt (r_status (reported l run reports)) = Some (fst (last reports)))"
  using assms
proof (induction reports rule: rev_induct)
  case (snoc x reports)
  obtain t req where x: "x = (t, req)" by fastforce
  have find_append: "find P (xs @ ys) = (case find P xs of Some y \<Rightarrow> Some y | None \<Rightarrow> find P ys)" for P and xs ys :: "ProgressPartition list"
    by (induction xs) auto
  have "reported l run (reports @ [x]) = applyProgressToDeployRun l t (reported l run reports) req"
    by (simp add: reported_def x)
  then show ?case
    using snoc progress_shape progress_fields by (simp add: x find_append split: option.splits)
qed (simp add: reported_def)

definition tick :: "int \<Rightarrow> int \<Rightarrow> ProgressRequest" where
  "tick n pct = \<lparr>pr_runName = ''run'', pr_runUID = ''ru'', pr_step = PhaseWritingContent, pr_state = ProgressRunning, pr_message = '''',
     pr_percentDone = None, pr_bytesDone = None, pr_partitions = [\<lparr>ppn_number = n, ppn_percent = pct, ppn_bytesDone = pct\<rparr>], pr_timestamp = 5\<rparr>"

theorem reports_keep_run_shape_witness:
  "run_shape (r_status (reported ref_libs demo_run [(7, tick 1 50), (8, tick 2 10), (9, tick 1 60)])) \<and>
   entry_of (partitions (r_status (reported ref_libs demo_run [(7, tick 1 50), (8, tick 2 10), (9, tick 1 60)]))) 1 =
     Some \<lparr>pp_number = 1, pp_percent = 60, pp_bytesDone = 60\<rparr>"
  using reports_keep_run_shape [of demo_run ref_libs "[(7, tick 1 50), (8, tick 2 10), (9, tick 1 60)]" 1]
  by (simp add: demo_run_def run_shape_def tick_def progress_entry_def)


section \<open>What the deployer concludes\<close>

definition found_message :: "libs \<Rightarrow> bool" where
  "found_message l \<longleftrightarrow> (\<forall>cs c. \<exists>d. findStatusCondition l (setStatusCondition l cs c) (c_type c) = Some d \<and> c_message d = c_message c)"

text \<open>
  The agent's last report is what the deployment step reads: after the
  report that the whole run succeeded, the run's phase and Succeeded condition say so and
  \<^verbatim>\<open>Provision\<close> completes (once the DHCP reservation is released); after a failed report of any step
  they say the opposite and \<^verbatim>\<open>Provision\<close> fails the attempt for a restart, with the agent's message.
\<close>

theorem terminal_report_decides:
  assumes "meta_laws l" "found_message l" "a_lib a = l"
  shows "(pr_state req = ProgressSucceeded \<and> pr_step req = PhaseSucceeded \<longrightarrow>
      (let run' = applyProgressToDeployRun l t run req in
       phase (r_status run') = PhaseSucceeded \<and> isStatusConditionTrue l (r_conditions (r_status run')) DeployRunConditionSucceeded \<and>
       Provision a m run' False = bindK (releaseDHCPReservation a m) (\<lambda>_. ret (m, result_of Complete)))) \<and>
    (pr_state req = ProgressFailed \<longrightarrow>
      (let run' = applyProgressToDeployRun l t run req in
       phase (r_status run') = PhaseFailed \<and> \<not> isStatusConditionTrue l (r_conditions (r_status run')) DeployRunConditionSucceeded \<and>
       Provision a m run' False = ret (m, \<lparr>outcome = Failed, res_requeueAfter = 0, res_errorType = Restart,
         res_errorMessage = progressMessage (pr_message req) ''deploy failed''\<rparr>)))"
proof -
  have true: "isStatusConditionTrue l (setStatusCondition l cs c) (c_type c) \<longleftrightarrow> c_status c = CondTrue" for cs c
    using assms(1) by (simp add: meta_laws_def)
  have enter: "phase (enterPhase st s t') = s" for st s t'
    by (simp add: enterPhase_def)
  have msg: "deployRunFailureMessage a (setSucceededCondition l r stt reason s) = s" if "s \<noteq> []" for r stt reason s
  proof -
    obtain d where "findStatusCondition l (setStatusCondition l (r_conditions (r_status r)) \<lparr>c_type = DeployRunConditionSucceeded, c_status = stt,
        c_observedGeneration = r_generation r, c_reason = reason, c_message = s\<rparr>) DeployRunConditionSucceeded = Some d" "c_message d = s"
      using assms(2) unfolding found_message_def by (metis (no_types, lifting) condition.select_convs(1,5))
    then show ?thesis using that assms(3) by (simp add: deployRunFailureMessage_def setSucceededCondition_def)
  qed
  have cond: "isStatusConditionTrue l (r_conditions (r_status (setSucceededCondition l r stt reason s))) DeployRunConditionSucceeded \<longleftrightarrow> stt = CondTrue"
    "phase (r_status (setSucceededCondition l r stt reason s)) = phase (r_status r)" for r stt reason s
    using true [of _ "\<lparr>c_type = DeployRunConditionSucceeded, c_status = stt, c_observedGeneration = r_generation r, c_reason = reason, c_message = s\<rparr>"]
    by (simp_all add: setSucceededCondition_def)
  have "progressMessage s ''deploy failed'' \<noteq> []" for s
    by (simp add: progressMessage_def)
  then show ?thesis
    by (simp add: applyProgressToDeployRun_def Let_def enter Provision_def provisionResultFromPhase_def cond msg)
qed

lemma ref_found_message: "found_message ref_libs"
  by (simp add: found_message_def ref_libs_def ref_find_set)

definition failed_report :: ProgressRequest where
  "failed_report = (tick 1 60)\<lparr>pr_state := ProgressFailed, pr_message := ''disk error''\<rparr>"

theorem terminal_report_decides_witness:
  "Provision (ref_agent ref_bmc) demo_machine (applyProgressToDeployRun ref_libs 9 demo_run failed_report) False =
     ret (demo_machine, \<lparr>outcome = Failed, res_requeueAfter = 0, res_errorType = Restart, res_errorMessage = ''disk error''\<rparr>)"
  using terminal_report_decides [OF ref_meta_laws ref_found_message, of "ref_agent ref_bmc" failed_report 9 demo_run demo_machine]
  by (simp add: failed_report_def tick_def progressMessage_def ref_agent_def Let_def)

text \<open>
  Nothing protects a finished run: a report of an earlier step that is
  processed after the terminal one moves the phase of a succeeded run back to that step, its Succeeded
  condition still True, and \<^verbatim>\<open>Provision\<close>, which goes by the phase, no longer completes.
\<close>

theorem late_report_reopens_run:
  assumes "phase (r_status run) = PhaseSucceeded" "isStatusConditionTrue l (r_conditions (r_status run)) DeployRunConditionSucceeded"
    and "pr_state req = ProgressRunning" "pr_step req \<notin> {PhaseEmpty, PhaseSucceeded, PhaseFailed}"
  shows "let run' = applyProgressToDeployRun l t run req in
    phase (r_status run') = pr_step req \<and> isStatusConditionTrue l (r_conditions (r_status run')) DeployRunConditionSucceeded \<and>
    (\<exists>res. Provision a m run' False = ret (m, res) \<and> outcome res \<noteq> Complete)"
proof -
  have run': "applyProgressToDeployRun l t run req = run\<lparr>r_status := (enterPhase ((r_status run)\<lparr>lastProgressAt := Some t\<rparr>) (pr_step req) (pr_timestamp req))
      \<lparr>partitions := applyPartitionProgress (partitions (enterPhase ((r_status run)\<lparr>lastProgressAt := Some t\<rparr>) (pr_step req) (pr_timestamp req))) (pr_partitions req)\<rparr>\<rparr>"
    using assms(3) by (simp add: applyProgressToDeployRun_def Let_def)
  have enter: "phase (enterPhase st s u) = s" "r_conditions (enterPhase st s u) = r_conditions st" for st s u
    by (simp_all add: enterPhase_def)
  have "outcome (provisionStallResult a r) \<noteq> Complete" for r
    by (simp add: provisionStallResult_def Let_def split: option.splits)
  then have "\<exists>res. Provision a m (applyProgressToDeployRun l t run req) False = ret (m, res) \<and> outcome res \<noteq> Complete"
    using assms(4) by (cases "pr_step req") (auto simp: Provision_def provisionResultFromPhase_def run' enter)
  then show ?thesis
    using assms(2) by (simp add: run' enter)
qed

definition done_run :: DeployRun where
  "done_run = applyProgressToDeployRun ref_libs 9 demo_run ((tick 1 100)\<lparr>pr_step := PhaseSucceeded, pr_state := ProgressSucceeded\<rparr>)"

theorem late_report_reopens_run_witness:
  "\<exists>res. Provision (ref_agent ref_bmc) demo_machine (applyProgressToDeployRun ref_libs 10 done_run (tick 1 90)) False = ret (demo_machine, res) \<and> outcome res \<noteq> Complete"
  using late_report_reopens_run [of done_run ref_libs "tick 1 90" 10 "ref_agent ref_bmc" demo_machine]
  by (simp add: Let_def done_run_def tick_def applyProgressToDeployRun_def setSucceededCondition_def enterPhase_def demo_run_def ref_libs_def ref_true_def ref_find_set)


section \<open>Credentials\<close>

fun is_read :: "call \<Rightarrow> bool" where
  "is_read (GetMachine _) = True"
| "is_read (GetClaim _) = True"
| "is_read (GetRun _) = True"
| "is_read (GetHardware _) = True"
| "is_read (ListMachines _) = True"
| "is_read (ListByTokenHash _) = True"
| "is_read (ListBySessionHash _) = True"
| "is_read _ = False"

definition rejected :: "http_response \<Rightarrow> bool" where
  "rejected resp \<longleftrightarrow> resp = Unauthorized \<or> (\<exists>t. resp = BadRequest t)"

text \<open>A rejection leaves only reads behind.\<close>

definition rejects_quietly :: "('s, http_response) act \<Rightarrow> bool" where
  "rejects_quietly m \<longleftrightarrow> (\<forall>w resp w'. m w = (Inr resp, w') \<longrightarrow> rejected resp \<longrightarrow>
     (\<exists>cs. trace w' = trace w @ cs \<and> (\<forall>c\<in>set cs. is_read (fst c))))"

lemma rejects_ret: "rejects_quietly (ret x)"
  by (auto simp: rejects_quietly_def ret_def)

lemma rejects_accepting: "kspec (\<lambda>_. True) (\<lambda>resp. \<not> rejected resp) m \<Longrightarrow> rejects_quietly m"
  unfolding rejects_quietly_def kspec_def by (metis fst_conv)

lemma rejects_authenticated:
  assumes "kspec is_read (\<lambda>_. True) lookup" "\<And>m. rejects_quietly (k m)"
  shows "rejects_quietly (authenticated lookup k)"
  unfolding rejects_quietly_def
proof (intro allI impI)
  fix w w' resp
  assume run: "authenticated lookup k w = (Inr resp, w')" and rej: "rejected resp"
  obtain r w1 where l: "attempt lookup w = (r, w1)" by fastforce
  obtain cs where cs: "trace w1 = trace w @ cs" "\<forall>c\<in>set cs. is_read (fst c)"
    using kspec_attempt [OF assms(1)] l unfolding kspec_def by (metis snd_conv)
  show "\<exists>cs. trace w' = trace w @ cs \<and> (\<forall>c\<in>set cs. is_read (fst c))"
  proof (cases "\<exists>m. r = Inr (Inr (Some m))")
    case True
    then obtain m where "k m w1 = (Inr resp, w')"
      using run l by (auto simp: authenticated_def kio_simps)
    then obtain ds where "trace w' = trace w1 @ ds" "\<forall>c\<in>set ds. is_read (fst c)"
      using assms(2) rej unfolding rejects_quietly_def by blast
    then show ?thesis using cs by (intro exI [of _ "cs @ ds"]) auto
  next
    case False
    then have "w' = w1"
      using run l by (auto simp: authenticated_def kio_simps split: sum.splits option.splits)
    then show ?thesis using cs by blast
  qed
qed

lemma rejects_case_option:
  "rejects_quietly a \<Longrightarrow> (\<And>y. rejects_quietly (f y)) \<Longrightarrow> rejects_quietly (case x of None \<Rightarrow> a | Some y \<Rightarrow> f y)"
  by (cases x) auto

lemma lookups_read:
  "kspec is_read (\<lambda>_. True) (lookupMachineByToken v token)" "kspec is_read (\<lambda>_. True) (lookupMachineBySession v token)"
  unfolding lookupMachineByToken_def lookupMachineBySession_def Let_def
  by (intro kspec_bind [OF kspec_kcall [where R = "\<lambda>_. True"]]; auto intro!: kspec_ret split: list.splits option.splits)+

lemma kspec_retry: "kspec P R m \<Longrightarrow> kspec P R (retryOnConflict n m)"
proof (induction n)
  case (Suc n)
  then show ?case
    unfolding retryOnConflict.simps
    by (intro kspec_bind [OF kspec_attempt [OF Suc.prems]]) (auto intro!: kspec_ret kspec_raise split: sum.splits)
qed (simp add: kspec_raise)


abbreviation makes_calls :: "('s, 'a) act \<Rightarrow> bool" where
  "makes_calls m \<equiv> kspec (\<lambda>_. True) (\<lambda>_. True) m"

lemma calls_kcall: "makes_calls (kcall c f)"
  by (rule kspec_kcall) auto

lemma calls_attempt: "makes_calls m \<Longrightarrow> makes_calls (attempt m)"
  by (drule kspec_attempt) (erule kspec_weaken; simp)

lemma calls_getOpt: "makes_calls m \<Longrightarrow> makes_calls (getOpt m)"
  by (drule kspec_getOpt) (erule kspec_weaken; simp)

lemma calls_ensure: "makes_calls (ensureMachineHardware v m hw)"
  unfolding ensureMachineHardware_def
  by (intro kspec_let kspec_bind [OF calls_attempt [OF calls_kcall]] kspec_case_sum kspec_if kspec_bind [OF calls_kcall] kspec_ret kspec_raise TrueI)

lemma calls_registration:
  "makes_calls (retryOnConflict n (bindK (kcall c f) (\<lambda>current. let m' = g current in bindK (kcall (UpdateMachineStatus m') (h m')) (\<lambda>_. ret ()))))"
  by (intro kspec_retry kspec_bind [OF calls_kcall] kspec_let kspec_ret TrueI)

lemma calls_abort: "makes_calls (NewAbortDecider k a b c)"
proof -
  have "makes_calls (findMachineByName k a)"
    unfolding findMachineByName_def by (rule kspec_bind [OF calls_kcall]) (auto intro: kspec_ret split: list.splits)
  then show ?thesis
    unfolding NewAbortDecider_def
    by (intro kspec_bind [OF calls_attempt] kspec_case_sum kspec_case_option kspec_let kspec_if kspec_bind [OF calls_attempt [OF calls_kcall]] kspec_ret TrueI)
qed

lemma calls_persist: "makes_calls (persistProgress v m req)"
  unfolding persistProgress_def
  by (intro kspec_let kspec_bind [OF calls_attempt [OF kspec_retry]] kspec_bind [OF calls_kcall] kspec_if kspec_ret TrueI kspec_case_sum kspec_raise)

lemma calls_resolveDeployPlan: "makes_calls (resolveDeployPlan v m)"
proof -
  have claim: "makes_calls (serverResolveClaimIntent v m)"
    unfolding serverResolveClaimIntent_def
    by (intro kspec_case_option kspec_ret TrueI kspec_bind [OF calls_getOpt [OF calls_kcall]] kspec_if)
  have run: "makes_calls (getCurrentRun v m ref)" for ref
    unfolding getCurrentRun_def Let_def by (rule calls_kcall)
  show ?thesis
    unfolding resolveDeployPlan_def
    by (intro kspec_case_prod kspec_case_option kspec_ret TrueI kspec_bind [OF calls_attempt [OF run]] kspec_case_sum kspec_if
        kspec_bind [OF calls_attempt [OF claim]] kspec_bind [OF calls_attempt [OF calls_kcall]])
qed

text \<open>
  C39: a request the server rejects, for its schema version, its
  credential or its body, changes nothing: when the answer of any of the three endpoints is
  Unauthorized or BadRequest, every request the handler made to the API server was a read.
\<close>

theorem rejected_requests_write_nothing:
  assumes "sv_abort v = None \<or> sv_abort v = Some (NewAbortDecider (sv_kube v))"
  shows "rejects_quietly (requireAgentSchemaVersion (handleRegister v) r1) \<and>
    rejects_quietly (requireAgentSchemaVersion (handleNext v) r2) \<and>
    rejects_quietly (requireAgentSchemaVersion (handleProgress v) r3)"
proof -
  have gate: "rejects_quietly (h r) \<Longrightarrow> rejects_quietly (requireAgentSchemaVersion h r)" for h :: "'x http_request \<Rightarrow> ('s, http_response) act" and r
    by (auto simp: requireAgentSchemaVersion_def intro: rejects_ret)
  have "rejects_quietly (handleRegister v r1)"
    unfolding handleRegister_def
    by (intro rejects_case_option rejects_authenticated lookups_read rejects_ret rejects_accepting)
      (intro kspec_bind [OF calls_attempt [OF calls_ensure]] kspec_case_sum kspec_bind [OF calls_attempt [OF calls_kcall]] kspec_case_prod
        kspec_bind [OF calls_attempt [OF calls_registration]] kspec_ret; simp add: rejected_def)+
  moreover have "rejects_quietly (handleNext v r2)"
    unfolding handleNext_def
    by (intro rejects_case_option rejects_authenticated lookups_read rejects_ret rejects_accepting)
      (intro kspec_bind [OF calls_resolveDeployPlan] kspec_let kspec_case_option kspec_ret; simp add: rejected_def)+
  moreover have "rejects_quietly (handleProgress v r3)"
  proof -
    have abort: "makes_calls (case sv_abort v of None \<Rightarrow> ret False | Some decide \<Rightarrow> decide x y z)" for x y z
      using assms calls_abort by (auto intro: kspec_ret)
    show ?thesis
      unfolding handleProgress_def
      by (intro rejects_case_option rejects_authenticated lookups_read rejects_ret rejects_accepting)
        (intro kspec_bind [OF abort] kspec_bind [OF calls_attempt [OF calls_persist]] kspec_ret; simp add: rejected_def)+
  qed
  ultimately show ?thesis by (intro conjI gate)
qed


definition demo_server :: "store Server" where
  "demo_server = \<lparr>sv_kube = ref_kube, sv_lib = ref_libs, sv_config = \<lparr>cfg_sessionTTL = 0, cfg_pollInterval = 0\<rparr>, sv_now = 1000, sv_sha = id,
     sv_rand = (\<lambda>s. (Inr ''r'', s)), sv_abort = Some (NewAbortDecider ref_kube), sv_planBuilder = Some (demo_builder ''''), sv_backoffSteps = 4\<rparr>"

definition demo_request :: "'b option \<Rightarrow> 'b http_request" where
  "demo_request body = \<lparr>rq_schemaVersion = ''3'', rq_authorization = ''Bearer t'', rq_body = body\<rparr>"

theorem rejected_requests_write_nothing_witness:
  "rejects_quietly (requireAgentSchemaVersion (handleProgress demo_server) (demo_request None))"
  by (rule rejected_requests_write_nothing [THEN conjunct2, THEN conjunct2]) (simp add: demo_server_def)

section \<open>Plans handed out\<close>

definition demo_world :: "store world" where
  "demo_world = \<lparr>srv = (ref_store demo_machine)\<lparr>st_claims := [((''n'', ''k''), demo_claim)], st_runs := [((''n'', ''run''), demo_run)]\<rparr>, trace = []\<rparr>"

lemma attempt_Inr: "attempt m w = (Inr (Inr x), w') \<longleftrightarrow> m w = (Inr x, w')"
  by (auto simp: attempt_def split: prod.splits sum.splits if_splits)

lemma kcall_value: "kcall c f w = (Inr x, w') \<longleftrightarrow> (\<exists>s'. f (srv w) = (Inr x, s') \<and> w' = w\<lparr>srv := s', trace := trace w @ [(c, True)]\<rparr>)"
  by (auto simp: kcall_def split: prod.splits)

lemma attemptE:
  assumes "bindK (attempt m) (\<lambda>r. case r of Inl e \<Rightarrow> f e | Inr x \<Rightarrow> g x) w = (Inr y, w')"
  obtains (error) e w1 where "m w = (Inl e, w1)" "f e w1 = (Inr y, w')"
  | (result) x w1 where "m w = (Inr x, w1)" "g x w1 = (Inr y, w')"
  using assms by (auto simp: bindK_def attempt_def split: prod.splits sum.splits if_splits)

lemma bindE:
  assumes "bindK m f w = (Inr y, w')"
  obtains x w1 where "m w = (Inr x, w1)" "f x w1 = (Inr y, w')"
  using assms by (auto simp: bindK_value)

lemma authenticated_value:
  assumes "authenticated lookup k w = (Inr resp, w')" "resp \<noteq> Unauthorized"
  shows "\<exists>m w1. lookup w = (Inr (Some m), w1) \<and> k m w1 = (Inr resp, w')"
  using assms by (auto simp: authenticated_def ret_def elim!: attemptE split: option.splits)

lemma lookup_session_value:
  assumes "lookupMachineBySession v token w = (Inr (Some m), w1)"
  shows "fst (k_listBySessionHash (sv_kube v) (hashToken (sv_sha v) token) (srv w)) = Inr [m] \<and>
    (\<exists>se t. agentSession (m_status m) = Some se \<and> as_expiresAt se = Some t \<and> sv_now v < t)"
  using assms
  by (auto simp: lookupMachineBySession_def Let_def kcall_value ret_def after_def elim!: bindE split: list.splits option.splits if_splits)

lemma resolveDeployPlan_value:
  assumes "resolveDeployPlan v m w = (Inr (Some plan), w')"
  shows "\<exists>ref run s. currentRunRef (m_status m) = Some ref \<and>
    fst (k_getRun (sv_kube v) (if nr_namespace ref = '''' then m_namespace m else nr_namespace ref, nr_name ref) s) = Inr run \<and>
    deployRunExpectsAgent (phase (r_status run)) \<and>
    (\<exists>b claim snap s1 s2. sv_planBuilder v = Some b \<and> Build b m claim run s1 = (Inr (plan, snap), s2))"
proof -
  obtain b ref where b: "sv_planBuilder v = Some b" "currentRunRef (m_status m) = Some ref"
    using assms by (auto simp: resolveDeployPlan_def ret_def split: option.splits)
  let ?key = "(if nr_namespace ref = '''' then m_namespace m else nr_namespace ref, nr_name ref)"
  obtain run w1 where run: "getCurrentRun v m ref w = (Inr run, w1)" "deployRunExpectsAgent (phase (r_status run))"
    and rest: "bindK (attempt (serverResolveClaimIntent v m)) (\<lambda>r. case r of Inl e \<Rightarrow> ret None
      | Inr claim \<Rightarrow> bindK (attempt (kcall BuildPlan (Build b m claim run))) (\<lambda>r. case r of Inl e \<Rightarrow> ret None | Inr (plan, snap) \<Rightarrow> ret (Some plan))) w1 = (Inr (Some plan), w')"
    using assms b by (auto simp: resolveDeployPlan_def ret_def elim!: attemptE split: if_splits)
  then obtain claim snap s1 s2 where "Build b m claim run s1 = (Inr (plan, snap), s2)"
    by (auto simp: ret_def kcall_value elim!: attemptE)
  moreover have "fst (k_getRun (sv_kube v) ?key (srv w)) = Inr run"
    using run(1) by (auto simp: getCurrentRun_def Let_def kcall_value)
  ultimately show ?thesis using b run(2) by blast
qed

text \<open>
  C10: a plan is handed out only to the machine it was made for: when
  /agent/next answers with a plan, the presented token is the live session token of exactly one
  Machine, the plan is that Machine's, it executes the run the Machine's status names, that run is in
  a phase in which the agent is expected to work, and the plan passes the agent's own check.
\<close>

theorem handed_out_plan_is_live:
  assumes "handleNext v r w = (Inr (NextDeploy plan poll), w')"
  shows "\<exists>token m se t ref run s. bearerToken r = Some token \<and>
    fst (k_listBySessionHash (sv_kube v) (hashToken (sv_sha v) token) (srv w)) = Inr [m] \<and>
    agentSession (m_status m) = Some se \<and> as_expiresAt se = Some t \<and> sv_now v < t \<and>
    currentRunRef (m_status m) = Some ref \<and>
    fst (k_getRun (sv_kube v) (if nr_namespace ref = '''' then m_namespace m else nr_namespace ref, nr_name ref) s) = Inr run \<and>
    phase (r_status run) \<in> {PhasePending, PhasePartitioning, PhaseWritingContent, PhaseRunningPostHook, PhaseFinalizing} \<and>
    dp_machineName plan = m_name m \<and> dp_runName plan = r_name run \<and> dp_runUID plan = r_uid run \<and> Validate plan = None"
proof -
  obtain token where token: "bearerToken r = Some token"
    using assms by (auto simp: handleNext_def ret_def split: option.splits)
  then obtain m w1 where m: "lookupMachineBySession v token w = (Inr (Some m), w1)"
    and k: "bindK (resolveDeployPlan v m) (\<lambda>plan. let poll = in_seconds (pollInterval (sv_config v)) in
      case plan of None \<Rightarrow> ret (NextWait poll) | Some p \<Rightarrow> ret (NextDeploy p poll)) w1 = (Inr (NextDeploy plan poll), w')"
    using assms authenticated_value [of "lookupMachineBySession v token"] by (fastforce simp: handleNext_def)
  obtain w2 where "resolveDeployPlan v m w1 = (Inr (Some plan), w2)"
    using k by (auto simp: bindK_value ret_def Let_def split: option.splits)
  from resolveDeployPlan_value [OF this] obtain ref run s b claim snap s1 s2 where plan: "currentRunRef (m_status m) = Some ref"
    "fst (k_getRun (sv_kube v) (if nr_namespace ref = '''' then m_namespace m else nr_namespace ref, nr_name ref) s) = Inr run"
    "deployRunExpectsAgent (phase (r_status run))" "Build b m claim run s1 = (Inr (plan, snap), s2)" "sv_planBuilder v = Some b"
    by blast
  then obtain c where "claim = Some c"
    by (cases claim) (auto simp: Build_def raise_def)
  then have "dp_machineName plan = m_name m \<and> dp_runName plan = r_name run \<and> dp_runUID plan = r_uid run \<and> Validate plan = None"
    using runs_value [OF runs_Build] plan(4) by (fastforce simp: built_from_def plan_of_def)
  moreover have "phase (r_status run) \<in> {PhasePending, PhasePartitioning, PhaseWritingContent, PhaseRunningPostHook, PhaseFinalizing}"
    using plan(3) by (auto simp: deployRunExpectsAgent_def split: DeployRunPhase.splits)
  ultimately show ?thesis
    using token lookup_session_value [OF m] plan(1,2) by blast
qed


lemma demo_token: "bearerToken (demo_request body) = Some ''t''" "hashToken (sv_sha demo_server) ''t'' = hex_encode ''t''"
  by (simp_all add: bearerToken_def demo_request_def hasPrefix_def demo_server_def hashToken_def)

lemma demo_next: "\<exists>w'. handleNext demo_server (demo_request None) demo_world = (Inr (NextDeploy (planned (demo_builder '''' :: store Builder) demo_run) 15), w')"
proof -
  have build: "sv_planBuilder demo_server = Some (demo_builder '''')" "sv_kube demo_server = ref_kube" "sv_now demo_server = 1000"
    "in_seconds (pollInterval (sv_config demo_server)) = 15"
    by (simp_all add: demo_server_def in_seconds_def pollInterval_def DefaultPollInterval_def second_def)
  have ph: "deployRunExpectsAgent (phase (r_status demo_run))"
    by (simp add: deployRunExpectsAgent_def demo_run_def)
  have kube: "k_listBySessionHash ref_kube (hex_encode ''t'') (srv demo_world) = (Inr [demo_machine], srv demo_world)"
    "k_getRun ref_kube (''n'', ''run'') (srv demo_world) = (Inr demo_run, srv demo_world)"
    "k_getClaim ref_kube (''n'', ''k'') (srv demo_world) = (Inr demo_claim, srv demo_world)"
    by (simp_all add: ref_kube_def demo_world_def ref_store_def lookup_or_def demo_machine_def ref_machine_def Let_def hex_encode_def)
  have m: "currentRunRef (m_status demo_machine) = Some \<lparr>nr_namespace = '''', nr_name = ''run''\<rparr>"
    "agentSession (m_status demo_machine) = Some \<lparr>as_tokenHash = hex_encode ''t'', as_expiresAt = Some 2000\<rparr>"
    "ms_claimRef (m_spec demo_machine) = Some \<lparr>cr_name = ''k'', cr_namespace = ''n'', cr_uid = ''x''\<rparr>"
    by (simp_all add: demo_machine_def Let_def)
  have "cl_uid demo_claim = ''x''" by (simp add: demo_claim_def ref_claim_def)
  then show ?thesis
    by (simp add: handleNext_def demo_token authenticated_def lookupMachineBySession_def Let_def kio_simps kcall_def kube m after_def build
        resolveDeployPlan_def getCurrentRun_def ph serverResolveClaimIntent_def getOpt_def demo_Build_any del: ret_def)
qed

theorem handed_out_plan_is_live_witness: "Validate (planned (demo_builder '''' :: store Builder) demo_run) = None \<and> dp_runUID (planned (demo_builder '''' :: store Builder) demo_run) = ''ru''"
proof -
  obtain w' where "handleNext demo_server (demo_request None :: unit http_request) demo_world = (Inr (NextDeploy (planned (demo_builder '''' :: store Builder) demo_run) 15), w')"
    using demo_next by blast
  from handed_out_plan_is_live [OF this] show ?thesis by (auto simp: plan_of_def demo_run_def)
qed


section \<open>What the credentials do not protect\<close>

lemma authenticated_found: "lookup w = (Inr (Some m), w1) \<Longrightarrow> authenticated lookup k w = k m w1"
  by (simp add: authenticated_def kio_simps)

lemma session_found:
  assumes "k_listBySessionHash (sv_kube v) (hashToken (sv_sha v) token) (srv w) = (Inr [m], s1)"
    and "agentSession (m_status m) = Some se" "as_expiresAt se = Some t" "sv_now v < t"
  shows "lookupMachineBySession v token w = (Inr (Some m), w\<lparr>srv := s1, trace := trace w @ [(ListBySessionHash (hashToken (sv_sha v) token), True)]\<rparr>)"
  using assms by (simp add: lookupMachineBySession_def Let_def kio_simps kcall_def after_def)

lemma retry_first: "m w = (Inr x, w') \<Longrightarrow> 0 < n \<Longrightarrow> retryOnConflict n m w = (Inr x, w')"
  by (cases n) (simp_all add: kio_simps)

lemma bindK_attempt: "m w = (Inr x, w') \<Longrightarrow> bindK (attempt m) f w = f (Inr x) w'"
  by (simp add: kio_simps)

text \<open>
  A session authorises reports on every run of its namespace: a report
  that names a run of another machine and carries no UID is written onto that run's status, even when
  the abort decision, made in the same request, is that the run is not the machine's own.
\<close>

theorem report_accepted_for_any_run:
  assumes "bearerToken r = Some token" "rq_body r = Some req" "pr_runUID req = ''''" "0 < sv_backoffSteps v"
    and "k_listBySessionHash (sv_kube v) (hashToken (sv_sha v) token) (srv w) = (Inr [m], s1)"
    and "agentSession (m_status m) = Some se" "as_expiresAt se = Some t" "sv_now v < t"
    and "sv_abort v = Some decide"
      "decide (m_name m) (pr_runName req) '''' (w\<lparr>srv := s1, trace := trace w @ [(ListBySessionHash (hashToken (sv_sha v) token), True)]\<rparr>) = (Inr True, w2)"
    and "k_getRun (sv_kube v) (m_namespace m, pr_runName req) (srv w2) = (Inr run, s3)" "nr_name (rs_machineRef (r_spec run)) \<noteq> m_name m"
    and "k_updateRunStatus (sv_kube v) (applyProgressToDeployRun (sv_lib v) (sv_now v) run req) s3 = (Inr run', s4)"
  shows "\<exists>w'. handleProgress v r w = (Inr (ProgressAnswer ActionAbort), w') \<and>
    last (trace w') = (UpdateRunStatus (applyProgressToDeployRun (sv_lib v) (sv_now v) run req), True)"
proof -
  let ?key = "(m_namespace m, pr_runName req)" and ?new = "applyProgressToDeployRun (sv_lib v) (sv_now v) run req"
  let ?w' = "w2\<lparr>srv := s4, trace := trace w2 @ [(GetRun ?key, True), (UpdateRunStatus ?new, True)]\<rparr>"
  let ?persist = "bindK (kcall (GetRun ?key) (k_getRun (sv_kube v) ?key)) (\<lambda>run.
      if pr_runUID req \<noteq> '''' \<and> r_uid run \<noteq> pr_runUID req then ret ()
      else let run' = applyProgressToDeployRun (sv_lib v) (sv_now v) run req in
        bindK (kcall (UpdateRunStatus run') (k_updateRunStatus (sv_kube v) run')) (\<lambda>_. ret ()))"
  have "?persist w2 = (Inr (), ?w')"
    using assms(3,11,13) by (simp add: kio_simps kcall_def Let_def)
  then have retried: "retryOnConflict (sv_backoffSteps v) ?persist w2 = (Inr (), ?w')"
    by (rule retry_first) (rule assms(4))
  have "persistProgress v m req w2 = (Inr (), ?w')"
    unfolding persistProgress_def Let_def
    by (rule bindK_attempt [THEN trans], rule retried [unfolded Let_def]) (simp add: ret_def)
  then have "handleProgress v r w = (Inr (ProgressAnswer ActionAbort), ?w')"
    using assms(1-3,9,10) session_found [OF assms(5-8)]
    by (simp add: handleProgress_def authenticated_found kio_simps)
  then show ?thesis by simp
qed

definition foreign_run :: DeployRun where
  "foreign_run = demo_run\<lparr>r_name := ''other'', r_spec := (r_spec demo_run)\<lparr>rs_machineRef := \<lparr>nr_namespace = ''n'', nr_name = ''m2''\<rparr>\<rparr>\<rparr>"

definition foreign_world :: "store world" where
  "foreign_world = \<lparr>srv = (ref_store demo_machine)\<lparr>st_runs := [((''n'', ''other''), foreign_run)]\<rparr>, trace = []\<rparr>"

definition foreign_report :: ProgressRequest where
  "foreign_report = failed_report\<lparr>pr_runName := ''other'', pr_runUID := ''''\<rparr>"

lemma demo_machine_fields [simp]:
  "m_name demo_machine = ''m''"
  "agentSession (m_status demo_machine) = Some \<lparr>as_tokenHash = hex_encode ''t'', as_expiresAt = Some 2000\<rparr>"
  "netBoot (m_status demo_machine) = Some \<lparr>nb_tokenHash = hex_encode ''t'', nb_expiresAt = Some 2000\<rparr>"
  "currentRunRef (m_status demo_machine) = Some \<lparr>nr_namespace = '''', nr_name = ''run''\<rparr>"
  by (simp_all add: demo_machine_def ref_machine_def Let_def)

theorem report_accepted_for_any_run_witness:
  "\<exists>w'. handleProgress demo_server (demo_request (Some foreign_report)) foreign_world = (Inr (ProgressAnswer ActionAbort), w') \<and>
    last (trace w') = (UpdateRunStatus (applyProgressToDeployRun ref_libs 1000 foreign_run foreign_report), True)"
proof -
  let ?w = "foreign_world\<lparr>trace := [(ListBySessionHash (hex_encode ''t''), True)]\<rparr>"
  let ?w2 = "foreign_world\<lparr>trace := [(ListBySessionHash (hex_encode ''t''), True), (ListMachines '''', True)]\<rparr>"
  have v: "sv_kube demo_server = ref_kube" "sv_lib demo_server = ref_libs" "sv_now demo_server = 1000" "sv_backoffSteps demo_server = 4"
    "sv_abort demo_server = Some (NewAbortDecider ref_kube)" "sv_sha demo_server = id"
    by (simp_all add: demo_server_def)
  have s: "st_machine (srv foreign_world) = demo_machine" "trace foreign_world = []" "srv foreign_world\<lparr>st_machine := demo_machine\<rparr> = srv foreign_world"
    by (simp_all add: foreign_world_def ref_store_def)
  have "NewAbortDecider ref_kube ''m'' ''other'' '''' ?w = (Inr True, ?w2)"
    by (simp add: NewAbortDecider_def findMachineByName_def kio_simps kcall_def ref_kube_def s)
  moreover have "k_listBySessionHash ref_kube (hex_encode ''t'') (srv foreign_world) = (Inr [demo_machine], srv foreign_world)"
    by (simp add: ref_kube_def s hex_encode_def)
  moreover have "k_getRun ref_kube (''n'', ''other'') (srv foreign_world) = (Inr foreign_run, srv foreign_world)"
    by (simp add: ref_kube_def foreign_world_def lookup_or_def)
  moreover have "\<exists>s4. k_updateRunStatus ref_kube x (srv foreign_world) = (Inr x, s4)" for x
    by (simp add: ref_kube_def)
  ultimately show ?thesis
    using report_accepted_for_any_run [of "demo_request (Some foreign_report)" "''t''" foreign_report demo_server foreign_world demo_machine "srv foreign_world"
        "\<lparr>as_tokenHash = hex_encode ''t'', as_expiresAt = Some 2000\<rparr>" 2000 "NewAbortDecider ref_kube" ?w2 foreign_run "srv foreign_world"]
      demo_token(1) [of "Some foreign_report"]
    by (auto simp: v hashToken_def s demo_request_def foreign_report_def foreign_run_def)
qed

lemma token_found:
  assumes "k_listByTokenHash (sv_kube v) (hashToken (sv_sha v) token) (srv w) = (Inr [m], s1)"
    and "netBoot (m_status m) = Some nb" "nb_expiresAt nb = Some t" "sv_now v < t"
  shows "lookupMachineByToken v token w = (Inr (Some m), w\<lparr>srv := s1, trace := trace w @ [(ListByTokenHash (hashToken (sv_sha v) token), True)]\<rparr>)"
  using assms by (simp add: lookupMachineByToken_def Let_def kio_simps kcall_def after_def)

text \<open>
  The boot token is single-use only as far as the indexed lookup is
  current: once the lookup has found the Machine, the registration is written onto whatever version
  of it the second read returns, even one whose boot token was already consumed or has been reissued,
  and the token recorded there is wiped along with it.
\<close>

theorem boot_token_not_rechecked:
  assumes "bearerToken r = Some token" "rq_body r = Some hardware" "0 < sv_backoffSteps v"
    and "k_listByTokenHash (sv_kube v) (hashToken (sv_sha v) token) (srv w) = (Inr [m], s1)"
    and "netBoot (m_status m) = Some nb" "nb_expiresAt nb = Some t" "sv_now v < t"
    and "ensureMachineHardware v m hardware
      (w\<lparr>srv := s1, trace := trace w @ [(ListByTokenHash (hashToken (sv_sha v) token), True)]\<rparr>) = (Inr (), w2)"
    and "mintSessionToken v (srv w2) = (Inr (session, hash), s3)"
    and "k_getMachine (sv_kube v) (m_key m) s3 = (Inr cur, s4)"
    and "netBoot (m_status cur) = Some nb'" "nb_tokenHash nb' \<noteq> hashToken (sv_sha v) token"
    and "k_updateMachineStatus (sv_kube v) (ingestRegistration (sv_lib v) cur hash (sv_now v) (sessionTTL (sv_config v))) s4 = (Inr x, s5)"
  shows "\<exists>w' new. handleRegister v r w = (Inr (Registered (m_name m) session (in_seconds (sessionTTL (sv_config v)))), w') \<and>
    last (trace w') = (UpdateMachineStatus new, True) \<and> netBoot (m_status new) = Some (nb'\<lparr>nb_tokenHash := ''''\<rparr>)"
proof -
  let ?new = "ingestRegistration (sv_lib v) cur hash (sv_now v) (sessionTTL (sv_config v))"
  let ?persist = "bindK (kcall (GetMachine (m_key m)) (k_getMachine (sv_kube v) (m_key m))) (\<lambda>current.
    let m' = ingestRegistration (sv_lib v) current hash (sv_now v) (sessionTTL (sv_config v)) in
    bindK (kcall (UpdateMachineStatus m') (k_updateMachineStatus (sv_kube v) m')) (\<lambda>_. ret ()))"
  let ?w3 = "w2\<lparr>srv := s3, trace := trace w2 @ [(MintToken (m_name m), True)]\<rparr>"
  let ?w' = "w2\<lparr>srv := s5, trace := trace w2 @ [(MintToken (m_name m), True), (GetMachine (m_key m), True), (UpdateMachineStatus ?new, True)]\<rparr>"
  have minted: "kcall (MintToken (m_name m)) (mintSessionToken v) w2 = (Inr (session, hash), ?w3)"
    using assms(9) by (simp add: kcall_def)
  have "?persist ?w3 = (Inr (), ?w')"
    using assms(10,13) by (simp add: kio_simps kcall_def Let_def)
  then have retried: "retryOnConflict (sv_backoffSteps v) ?persist ?w3 = (Inr (), ?w')"
    by (rule retry_first) (rule assms(3))
  have "handleRegister v r w = (Inr (Registered (m_name m) session (in_seconds (sessionTTL (sv_config v)))), ?w')"
    unfolding handleRegister_def assms(1) option.case
    by (rule trans [OF authenticated_found], rule token_found [OF assms(4-7)], unfold assms(2) option.case,
        rule trans [OF bindK_attempt], rule assms(8), unfold sum.case, rule trans [OF bindK_attempt], rule minted,
        unfold sum.case prod.case, rule trans [OF bindK_attempt], rule retried) (simp add: ret_def)
  then show ?thesis using assms(11) by (auto simp: ingestRegistration_def)
qed

definition consumed_machine :: Machine where
  "consumed_machine = upd_status (\<lambda>st. st\<lparr>netBoot := Some \<lparr>nb_tokenHash = '''', nb_expiresAt = Some 2000\<rparr>\<rparr>) demo_machine"

definition stale_server :: "store Server" where
  "stale_server = demo_server\<lparr>sv_kube := ref_kube\<lparr>k_listByTokenHash := \<lambda>h s. (Inr [demo_machine], s)\<rparr>\<rparr>"

definition consumed_world :: "store world" where
  "consumed_world = \<lparr>srv = ref_store consumed_machine, trace = []\<rparr>"

definition demo_inventory :: MachineHardwareSpec where
  "demo_inventory = \<lparr>hw_disks = [], hw_nics = [], hw_memoryBytes = 0, hw_cpuCount = 1\<rparr>"

theorem boot_token_not_rechecked_witness:
  "\<exists>w' new. handleRegister stale_server (demo_request (Some demo_inventory)) consumed_world = (Inr (Registered ''m'' (hex_encode ''r'') 21600), w') \<and>
    last (trace w') = (UpdateMachineStatus new, True) \<and> netBoot (m_status new) = Some \<lparr>nb_tokenHash = '''', nb_expiresAt = Some 2000\<rparr>"
proof -
  let ?nb = "\<lparr>nb_tokenHash = hex_encode ''t'', nb_expiresAt = Some 2000\<rparr>"
  let ?w = "consumed_world\<lparr>trace := [(ListByTokenHash (hex_encode ''t''), True)]\<rparr>"
  have v: "sv_lib stale_server = ref_libs" "sv_now stale_server = 1000" "sv_backoffSteps stale_server = 4" "sv_sha stale_server = id"
    "in_seconds (sessionTTL (sv_config stale_server)) = 21600"
    by (simp_all add: stale_server_def demo_server_def sessionTTL_def DefaultSessionTTL_def in_seconds_def hour_def second_def)
  have found: "k_listByTokenHash (sv_kube stale_server) h s = (Inr [demo_machine], s)" for h s
    by (simp add: stale_server_def)
  have kube: "k_getHardware (sv_kube stale_server) (''n'', ''m'') (srv consumed_world) = (Inl NotFound, srv consumed_world)"
    "\<exists>s'. k_createHardware (sv_kube stale_server) h (srv consumed_world) = (Inr h, s') \<and> st_machine s' = consumed_machine" for h
    by (simp_all add: stale_server_def ref_kube_def consumed_world_def ref_store_def lookup_or_def)
  have key: "m_namespace demo_machine = ''n''"
    by (simp add: demo_machine_def ref_machine_def Let_def)
  obtain w2 where hw: "ensureMachineHardware stale_server demo_machine demo_inventory ?w = (Inr (), w2)" "st_machine (srv w2) = consumed_machine"
    using kube(2) [of "\<lparr>hw_name = ''m'', hw_namespace = ''n'', hw_owners = [(''m'', m_uid demo_machine)], hw_spec = demo_inventory\<rparr>"]
    by (auto simp: ensureMachineHardware_def kube(1) key kio_simps kcall_def Let_def isNotFound_def)
  have mint: "mintSessionToken stale_server (srv w2) = (Inr (hex_encode ''r'', hex_encode (hex_encode ''r'')), srv w2)"
    by (simp add: mintSessionToken_def stale_server_def demo_server_def hashToken_def)
  have get: "k_getMachine (sv_kube stale_server) (m_key demo_machine) (srv w2) = (Inr consumed_machine, srv w2)"
    by (simp add: stale_server_def ref_kube_def hw(2) consumed_machine_def)
  obtain x s5 where upd: "k_updateMachineStatus (sv_kube stale_server) (ingestRegistration (sv_lib stale_server) consumed_machine (hex_encode (hex_encode ''r'')) (sv_now stale_server)
      (sessionTTL (sv_config stale_server))) (srv w2) = (Inr x, s5)"
    by (simp add: stale_server_def ref_kube_def put_status_def Let_def)
  show ?thesis
    using boot_token_not_rechecked [of "demo_request (Some demo_inventory)" "''t''" demo_inventory stale_server consumed_world demo_machine "srv consumed_world"
        ?nb 2000 w2 "hex_encode ''r''" "hex_encode (hex_encode ''r'')" "srv w2" consumed_machine "srv w2" "\<lparr>nb_tokenHash = '''', nb_expiresAt = Some 2000\<rparr>" x s5]
      found hw mint get upd demo_token(1) [of "Some demo_inventory"]
    by (auto simp: v hashToken_def demo_request_def consumed_machine_def consumed_world_def hex_encode_def)
qed

end
