(* ===== verification/Live_Layout.thy ===== *)
theory Live_Layout
  imports Agent_Server
begin

text \<open>
  The pure parts of the live agent's deploy package: the partition layout (sfdisk.go), the stop
  policy of the local torrent daemon (stoppolicy.go), the arguments of the file-system tools and the
  normalisation of a plan into disk plans (deploy.go), the environment of a script step (hooks.go)
  and the parsing that the finalize steps do (finalize.go). Text is ASCII.
\<close>

section \<open>Text\<close>

text \<open>\<^verbatim>\<open>strings.TrimSpace\<close>, \<^verbatim>\<open>strings.Join\<close> and \<^verbatim>\<open>strings.Split\<close> on a character.\<close>

definition go_space :: "char \<Rightarrow> bool" where
  "go_space c \<longleftrightarrow> c \<in> {CHR '' '', CHR 0x09, CHR 0x0A, CHR 0x0B, CHR 0x0C, CHR 0x0D}"

definition trim_space :: "string \<Rightarrow> string" where
  "trim_space s = rev (dropWhile go_space (rev (dropWhile go_space s)))"

section \<open>sfdisk.go\<close>

definition DevicePartitionPath :: "string \<Rightarrow> int \<Rightarrow> string" where
  "DevicePartitionPath disk number =
     (if disk = '''' then ''''
      else disk @ (if is_digit (last disk) then ''p'' else '''') @ show_int number)"

record sfdiskJSONPartition =
  sp_node :: string
  sp_start :: int
  sp_size :: int
  sp_type :: string
  sp_uuid :: string
  sp_name :: string
  sp_bootable :: bool

record sfdiskJSONTable =
  st_label :: string
  st_id :: string
  st_sectorSize :: int
  st_partitions :: "sfdiskJSONPartition list"

text \<open>
  \<open>sfdiskPartitionNumber\<close> accumulates in \<^verbatim>\<open>int32\<close>. The text \<^verbatim>\<open>encoding/json\<close> reads is a parameter:
  \<open>unmarshal\<close> gives the decoded dump or the decoder's error.
\<close>

definition trailing_digits :: "string \<Rightarrow> string" where
  "trailing_digits node = rev (takeWhile is_digit (rev node))"

definition sfdiskPartitionNumber :: "string \<Rightarrow> nat \<Rightarrow> int" where
  "sfdiskPartitionNumber node listIndex =
     (if trailing_digits node = '''' then wrap32 (int listIndex + 1)
      else foldl (\<lambda>n c. wrap32 (wrap32 (n * 10) + (int (of_char c) - 48))) 0 (trailing_digits node))"

definition sfdisk_fields :: "sfdiskJSONPartition \<Rightarrow> string list" where
  "sfdisk_fields p =
     [''start='' @ show_int (sp_start p), ''size='' @ show_int (sp_size p)] @
     (if sp_type p \<noteq> '''' then [''type='' @ sp_type p] else []) @
     (if sp_uuid p \<noteq> '''' then [''uuid='' @ sp_uuid p] else []) @
     (if sp_name p \<noteq> '''' then [''name='' @ go_quote (sp_name p)] else []) @
     (if sp_bootable p then [''bootable''] else [])"

definition newline :: string where
  "newline = [CHR 0x0A]"

definition sfdisk_line :: "string \<Rightarrow> nat \<times> sfdiskJSONPartition \<Rightarrow> string" where
  "sfdisk_line targetDisk ip = (case ip of (i, p) \<Rightarrow>
     DevicePartitionPath targetDisk (sfdiskPartitionNumber (sp_node p) i) @ '' : '' @ join_with '', '' (sfdisk_fields p) @ newline)"

definition SfdiskScript :: "(string \<Rightarrow> kerr + sfdiskJSONTable) \<Rightarrow> string \<Rightarrow> string \<Rightarrow> kerr + string" where
  "SfdiskScript unmarshal sfdiskJSON targetDisk =
     (case unmarshal sfdiskJSON of
        Inl e \<Rightarrow> Inl (Wrapped ''parse sfdisk JSON dump'' e)
      | Inr table \<Rightarrow>
          if st_label table = '''' then Inl (PlainError ''sfdisk JSON dump has no partition table label'')
          else if st_partitions table = [] then Inl (PlainError ''sfdisk JSON dump has no partitions'')
          else Inr (''label: '' @ st_label table @ newline @
            (if st_id table \<noteq> '''' then ''label-id: '' @ st_id table @ newline else '''') @
            ''unit: sectors'' @ newline @
            (if st_sectorSize table \<noteq> 0 then ''sector-size: '' @ show_int (st_sectorSize table) @ newline else '''') @
            newline @
            concat (map (sfdisk_line targetDisk) (enumerate 0 (st_partitions table)))))"

definition partition_end :: "int \<Rightarrow> sfdiskJSONPartition \<Rightarrow> int" where
  "partition_end sectorSize p = wrap64 (wrap64 (sp_start p + sp_size p) * sectorSize)"

definition MinimumDiskBytes :: "(string \<Rightarrow> kerr + sfdiskJSONTable) \<Rightarrow> string \<Rightarrow> kerr + int" where
  "MinimumDiskBytes unmarshal sfdiskJSON =
     (case unmarshal sfdiskJSON of
        Inl e \<Rightarrow> Inl (Wrapped ''parse sfdisk JSON dump'' e)
      | Inr table \<Rightarrow>
          (let sectorSize = (if st_sectorSize table = 0 then 512 else st_sectorSize table);
               maxEnd = foldl (\<lambda>m p. if partition_end sectorSize p > m then partition_end sectorSize p else m) 0 (st_partitions table)
           in if maxEnd = 0 then Inl (PlainError ''sfdisk JSON dump has no partitions'') else Inr maxEnd))"

section \<open>stoppolicy.go\<close>

record Torrent =
  to_hash :: string
  to_isFinished :: bool
  to_isPaused :: bool
  to_totalDone :: int
  to_total :: int
  to_totalPayloadUpload :: int
  to_finishedTime :: int
  to_lastUpload :: int

definition minFinishedSeconds :: int where "minFinishedSeconds = 60"

definition minIdleUploadSeconds :: int where "minIdleUploadSeconds = 60"

definition uploadRatioLimit :: int where "uploadRatioLimit = 3"

definition shouldPauseTorrent :: "Torrent \<Rightarrow> bool" where
  "shouldPauseTorrent t \<longleftrightarrow>
     (if to_isPaused t \<or> \<not> to_isFinished t then False
      else if to_totalPayloadUpload t > wrap64 (uploadRatioLimit * to_totalDone t) then True
      else to_finishedTime t > minFinishedSeconds \<and> (to_lastUpload t > minIdleUploadSeconds \<or> to_lastUpload t = -1))"

definition allStopped :: "(string \<times> Torrent) list \<Rightarrow> bool" where
  "allStopped torrents \<longleftrightarrow> torrents \<noteq> [] \<and> list_all (\<lambda>(h, t). to_isFinished t \<and> to_isPaused t) torrents"

section \<open>Disk plans and tool arguments\<close>

record EzioLaunchConfig =
  lc_cacheSizeMB :: "int option"
  lc_aioThreads :: "int option"
  lc_port :: "int option"

definition ezioLaunchConfigFromPlan :: "DeployPlan \<Rightarrow> EzioLaunchConfig" where
  "ezioLaunchConfigFromPlan plan = \<lparr>lc_cacheSizeMB = dp_cacheSizeMB plan, lc_aioThreads = dp_aioThreads plan, lc_port = dp_port plan\<rparr>"

record diskPlan =
  k_label :: string
  k_disk :: string
  k_sfdiskScript :: string
  k_slots :: "DeploySlot list"

definition data_diskPlan :: "nat \<times> DeployDataImagePlan \<Rightarrow> diskPlan" where
  "data_diskPlan idi = (case idi of (i, di) \<Rightarrow>
     \<lparr>k_label = ''dataImages['' @ show_int (int i) @ ''] '' @ nr_name (dd_imageRef di), k_disk = dd_targetDisk di,
      k_sfdiskScript = dd_sfdiskScript di, k_slots = dd_slots di\<rparr>)"

definition diskPlans :: "DeployPlan \<Rightarrow> diskPlan list" where
  "diskPlans plan =
     (if dp_targetDisk plan \<noteq> ''''
      then [\<lparr>k_label = ''OS image'', k_disk = dp_targetDisk plan, k_sfdiskScript = dp_sfdiskScript plan, k_slots = dp_slots plan\<rparr>] else []) @
     map data_diskPlan (enumerate 0 (dp_dataImages plan))"

definition hasTorrentSlot :: "diskPlan list \<Rightarrow> bool" where
  "hasTorrentSlot plans \<longleftrightarrow> list_ex (\<lambda>dp. list_ex (\<lambda>s. ds_torrent s \<noteq> None) (k_slots dp)) plans"

definition mkfsLabelFlag :: "string \<Rightarrow> string" where
  "mkfsLabelFlag fsType = (if fsType = ''vfat'' then ''-n'' else ''-L'')"

definition mkfsUUIDArgs :: "string \<Rightarrow> string \<Rightarrow> string list" where
  "mkfsUUIDArgs fsType uuid =
     (if fsType = ''xfs'' then [''-m'', ''uuid='' @ uuid]
      else if fsType = ''vfat'' then [''-i'', uuid]
      else [''-U'', uuid])"

definition torrentHashes :: "diskPlan list \<Rightarrow> string list" where
  "torrentHashes plans =
     concat (map (\<lambda>dp. concat (map (\<lambda>s. case ds_torrent s of Some t \<Rightarrow> [dt_infoHash t] | None \<Rightarrow> []) (k_slots dp))) plans)"

definition slot_numbers_of :: "(string \<rightharpoonup> int) \<Rightarrow> DeploySlot list \<Rightarrow> (string \<rightharpoonup> int)" where
  "slot_numbers_of = foldl (\<lambda>m s. case ds_torrent s of Some t \<Rightarrow> m(dt_infoHash t \<mapsto> ds_number s) | None \<Rightarrow> m)"

definition torrentSlotNumbers :: "diskPlan list \<Rightarrow> (string \<rightharpoonup> int)" where
  "torrentSlotNumbers plans = foldl (\<lambda>m dp. slot_numbers_of m (k_slots dp)) Map.empty plans"

text \<open>Go's integer division truncates towards zero.\<close>

definition go_div :: "int \<Rightarrow> int \<Rightarrow> int" where
  "go_div a b = (if (a < 0) = (b < 0) then abs a div abs b else - (abs a div abs b))"

definition aggregatePercent :: "int \<Rightarrow> int \<Rightarrow> int" where
  "aggregatePercent all done =
     (if all \<le> 0 then 0
      else let percent = go_div (wrap64 (done * 100)) all in
        if percent < 0 then 0 else if percent > 100 then 100 else percent)"

section \<open>hooks.go: the environment of a script step\<close>

definition slotEnv :: "string \<Rightarrow> string \<Rightarrow> DeploySlot list \<Rightarrow> string list" where
  "slotEnv listName devicePrefix slots =
     (if slots = [] then []
      else concat (map (\<lambda>s. if ds_device s \<noteq> '''' then [devicePrefix @ show_int (ds_number s) @ ''='' @ ds_device s] else []) slots) @
        [listName @ ''='' @ join_with '' '' (map (\<lambda>s. show_int (ds_number s)) slots)])"

definition data_env :: "nat \<times> DeployDataImagePlan \<Rightarrow> string list" where
  "data_env idi = (case idi of (i, di) \<Rightarrow>
     (if dd_targetDisk di = '''' then []
      else (let index = show_int (int i + 1) in
        (''KEZIO_DATA_DISK_'' @ index @ ''='' @ dd_targetDisk di) #
        slotEnv (''KEZIO_DATA_DISK_'' @ index @ ''_PARTITIONS'') (''KEZIO_DATA_DISK_'' @ index @ ''_PART_'') (dd_slots di))))"

definition data_indexes :: "DeployPlan \<Rightarrow> string list" where
  "data_indexes plan = map (\<lambda>(i, di). show_int (int i + 1)) (filter (\<lambda>(i, di). dd_targetDisk di \<noteq> '''') (enumerate 0 (dp_dataImages plan)))"

definition scriptStepEnv :: "DeployPlan \<Rightarrow> string list" where
  "scriptStepEnv plan =
     (if dp_targetDisk plan \<noteq> ''''
      then (''KEZIO_TARGET_DISK='' @ dp_targetDisk plan) # slotEnv ''KEZIO_PARTITIONS'' ''KEZIO_PART_'' (dp_slots plan) else []) @
     concat (map data_env (enumerate 0 (dp_dataImages plan))) @
     (if data_indexes plan \<noteq> [] then [''KEZIO_DATA_DISKS='' @ join_with '' '' (data_indexes plan)] else [])"

definition effectiveHookTimeout :: "ResolvedHookStep \<Rightarrow> duration" where
  "effectiveHookTimeout step =
     (if hs_timeoutSeconds step \<le> 0 then PostHookDefaultTimeoutSeconds else hs_timeoutSeconds step) * second"

section \<open>finalize.go: parameters and boot entries\<close>

definition efiRemovableLoaderPathForArch :: "string \<Rightarrow> kerr + string" where
  "efiRemovableLoaderPathForArch goarch =
     (if goarch = ''amd64'' then Inr (CHR 0x5C # ''EFI'' @ CHR 0x5C # ''BOOT'' @ CHR 0x5C # ''BOOTX64.EFI'')
      else if goarch = ''arm64'' then Inr (CHR 0x5C # ''EFI'' @ CHR 0x5C # ''BOOT'' @ CHR 0x5C # ''BOOTAA64.EFI'')
      else Inl (PlainError ''unsupported architecture for UEFI boot entries; kezio supports x86_64 and aarch64 only''))"

definition efibootLabel :: "DeployPlan \<Rightarrow> string" where
  "efibootLabel plan = ''kezio:'' @ (if dp_machineName plan = '''' then dp_runName plan else dp_machineName plan)"

definition param :: "(string \<rightharpoonup> string) \<Rightarrow> string \<Rightarrow> string" where
  "param params k = (case params k of None \<Rightarrow> '''' | Some v \<Rightarrow> v)"

definition finalizeDisk :: "DeployPlan \<Rightarrow> (string \<rightharpoonup> string) \<Rightarrow> string" where
  "finalizeDisk plan params = (if param params ''disk'' \<noteq> '''' then param params ''disk'' else dp_targetDisk plan)"

definition requirePartition :: "(string \<rightharpoonup> string) \<Rightarrow> kerr + int" where
  "requirePartition params =
     (let raw = param params ''part'' in
      if raw = '''' then Inl (PlainError ''params[part] is required (the ESP's partition number)'')
      else case atoi raw of
          Some n \<Rightarrow> if n \<le> 0 then Inl (PlainError ''params[part] is not a positive partition number'') else Inr (wrap32 n)
        | None \<Rightarrow> Inl (PlainError ''params[part] is not a positive partition number''))"

definition efi_entry :: "string \<Rightarrow> string \<Rightarrow> string list" where
  "efi_entry label line0 =
     (let line = trim_space line0 in
      if \<not> hasPrefix line ''Boot'' \<or> length line < 8 then []
      else let num = take 4 (drop 4 line) in
        if parse_uint 16 16 num = None then []
        else let rest = drop 8 line; rest' = trim_space (if hasPrefix rest ''*'' then drop 1 rest else rest) in
          if rest' = label then [num] else [])"

definition parseEFIBootEntries :: "string \<Rightarrow> string \<Rightarrow> string list" where
  "parseEFIBootEntries listing label = concat (map (efi_entry label) (split_on (CHR 0x0A) listing))"

definition fsResizeCommand :: "string \<Rightarrow> string \<Rightarrow> (string \<times> string list) option" where
  "fsResizeCommand fsType device =
     (if fsType \<in> {''ext2'', ''ext3'', ''ext4''} then Some (''resize2fs'', [device])
      else if fsType = ''xfs'' then Some (''xfs_growfs'', [device])
      else if fsType = ''btrfs'' then Some (''btrfs'', [''filesystem'', ''resize'', ''max'', device])
      else None)"

end
