(* ===== verification/Esp_Fallback.thy ===== *)
theory Esp_Fallback
  imports Live_Layout
begin

text \<open>
  The removable-media boot chain on a mounted EFI system partition (finalize.go,
  ensureRemovableFallbackChain and its helpers). The file system is a finite map from paths below the
  mount point to files and directories; names are looked up through \<open>fs_fold\<close>, the identity on a
  case-sensitive file system and a folding on vfat, and an access of a path in \<open>fs_fault\<close> fails with
  an I/O error. A write that fails half-way is not modelled: a copy is done or not.
\<close>

section \<open>A file system\<close>

datatype fs_node = FFile string | FDir

type_synonym path = "string list"

record esp =
  fs_nodes :: "(path \<times> fs_node) list"
  fs_fold :: "string \<Rightarrow> string"
  fs_fault :: "path \<Rightarrow> bool"

definition fs_key :: "esp \<Rightarrow> path \<Rightarrow> path" where
  "fs_key fs p = map (fs_fold fs) p"

definition fs_find :: "esp \<Rightarrow> path \<Rightarrow> fs_node option" where
  "fs_find fs p = (if p = [] then Some FDir else map_option snd (find (\<lambda>(q, n). fs_key fs q = fs_key fs p) (fs_nodes fs)))"

definition is_file :: "fs_node option \<Rightarrow> bool" where
  "is_file n \<longleftrightarrow> (case n of Some (FFile _) \<Rightarrow> True | _ \<Rightarrow> False)"

text \<open>A path that goes through a file is neither there nor absent: \<^verbatim>\<open>ENOTDIR\<close> is not \<^verbatim>\<open>os.IsNotExist\<close>.\<close>

definition through_file :: "esp \<Rightarrow> path \<Rightarrow> bool" where
  "through_file fs p \<longleftrightarrow> list_ex (\<lambda>i. is_file (fs_find fs (take i p))) [1..<length p]"

definition os_stat :: "esp \<Rightarrow> path \<Rightarrow> kerr + fs_node" where
  "os_stat fs p =
     (if fs_fault fs p then Inl (PlainError ''input/output error'')
      else if through_file fs p then Inl (PlainError ''not a directory'')
      else case fs_find fs p of None \<Rightarrow> Inl NotFound | Some n \<Rightarrow> Inr n)"

definition children :: "esp \<Rightarrow> path \<Rightarrow> (string \<times> fs_node) list" where
  "children fs p = sort_key fst (map (\<lambda>(q, n). (last q, n))
     (filter (\<lambda>(q, n). q \<noteq> [] \<and> fs_key fs (butlast q) = fs_key fs p) (fs_nodes fs)))"

definition os_readDir :: "esp \<Rightarrow> path \<Rightarrow> kerr + (string \<times> fs_node) list" where
  "os_readDir fs p =
     (case os_stat fs p of
        Inl e \<Rightarrow> Inl e
      | Inr FDir \<Rightarrow> Inr (children fs p)
      | Inr (FFile _) \<Rightarrow> Inl (PlainError ''not a directory''))"

text \<open>An operation that changes the file system returns its error, if any, and what is there afterwards.\<close>

fun mkdir_prefixes :: "esp \<Rightarrow> path list \<Rightarrow> kerr option \<times> esp" where
  "mkdir_prefixes fs [] = (None, fs)"
| "mkdir_prefixes fs (p # ps) =
     (case os_stat fs p of
        Inr FDir \<Rightarrow> mkdir_prefixes fs ps
      | Inr (FFile _) \<Rightarrow> (Some (PlainError ''not a directory''), fs)
      | Inl e \<Rightarrow> if isNotFound e then mkdir_prefixes (fs\<lparr>fs_nodes := fs_nodes fs @ [(p, FDir)]\<rparr>) ps else (Some e, fs))"

definition os_mkdirAll :: "esp \<Rightarrow> path \<Rightarrow> kerr option \<times> esp" where
  "os_mkdirAll fs p = mkdir_prefixes fs (map (\<lambda>i. take i p) [1..<Suc (length p)])"

definition fs_write :: "esp \<Rightarrow> path \<Rightarrow> string \<Rightarrow> esp" where
  "fs_write fs p content =
     fs\<lparr>fs_nodes := (if list_ex (\<lambda>(q, n). fs_key fs q = fs_key fs p) (fs_nodes fs)
        then map (\<lambda>(q, n). if fs_key fs q = fs_key fs p then (q, FFile content) else (q, n)) (fs_nodes fs)
        else fs_nodes fs @ [(p, FFile content)])\<rparr>"

section \<open>finalize.go\<close>

definition copyFile :: "esp \<Rightarrow> path \<Rightarrow> path \<Rightarrow> kerr + esp" where
  "copyFile fs src dst =
     (case os_stat fs src of
        Inl e \<Rightarrow> Inl e
      | Inr FDir \<Rightarrow> Inl (PlainError ''is a directory'')
      | Inr (FFile content) \<Rightarrow>
          if fs_find fs (butlast dst) \<noteq> Some FDir then Inl NotFound
          else (case os_stat fs dst of
             Inr FDir \<Rightarrow> Inl (PlainError ''is a directory'')
           | Inr (FFile _) \<Rightarrow> Inr (fs_write fs dst content)
           | Inl e \<Rightarrow> if isNotFound e then Inr (fs_write fs dst content) else Inl e))"

definition fileExists :: "esp \<Rightarrow> path \<Rightarrow> kerr + bool" where
  "fileExists fs p =
     (case os_stat fs p of
        Inr _ \<Rightarrow> Inr True
      | Inl e \<Rightarrow> if isNotFound e then Inr False else Inl (Wrapped ''checking'' e))"

definition errNoESPBootloader :: kerr where
  "errNoESPBootloader = PlainError ''no bootloader found under any EFI/<name>/ directory''"

text \<open>\<^verbatim>\<open>strings.EqualFold\<close> on ASCII.\<close>

definition equalFold :: "string \<Rightarrow> string \<Rightarrow> bool" where
  "equalFold a b \<longleftrightarrow> map lower_char a = map lower_char b"

definition bootloader_in :: "esp \<Rightarrow> string list \<Rightarrow> string \<times> fs_node \<Rightarrow> path list" where
  "bootloader_in fs candidates entry =
     (if snd entry \<noteq> FDir \<or> equalFold (fst entry) ''BOOT'' then []
      else filter (\<lambda>p. \<not> isl (os_stat fs p)) (map (\<lambda>c. [''EFI'', fst entry, c]) candidates))"

definition findESPBootloader :: "esp \<Rightarrow> string list \<Rightarrow> kerr + path" where
  "findESPBootloader fs candidates =
     (case os_readDir fs [''EFI''] of
        Inl e \<Rightarrow> Inl (Wrapped ''reading'' e)
      | Inr entries \<Rightarrow>
          (case concat (map (bootloader_in fs candidates) entries) of
             [] \<Rightarrow> Inl (Wrapped ''looking for a bootloader'' errNoESPBootloader)
           | p # _ \<Rightarrow> Inr p))"

definition installESPFile :: "esp \<Rightarrow> path \<Rightarrow> path \<Rightarrow> kerr option \<times> esp" where
  "installESPFile fs relPath src =
     (case os_mkdirAll fs (butlast relPath) of
        (Some e, fs1) \<Rightarrow> (Some (Wrapped ''creating'' e), fs1)
      | (None, fs1) \<Rightarrow> (case copyFile fs1 src relPath of Inl e \<Rightarrow> (Some (Wrapped ''copying'' e), fs1) | Inr fs2 \<Rightarrow> (None, fs2)))"

text \<open>
  The result is the error, if any, with the files installed before it, and the file system as it was
  left. \<open>second_stage\<close> is the part after the fallback path is known to be occupied.
\<close>

definition second_stage :: "esp \<Rightarrow> path \<Rightarrow> string \<Rightarrow> bool \<Rightarrow> path list \<Rightarrow> (path list \<times> kerr option) \<times> esp" where
  "second_stage fs relPath grubName installedShim installed =
     (let secondStage = butlast relPath @ [grubName] in
      case fileExists fs secondStage of
        Inl e \<Rightarrow> ((installed, Some e), fs)
      | Inr True \<Rightarrow> ((installed, None), fs)
      | Inr False \<Rightarrow>
          (case findESPBootloader fs [grubName] of
             Inl e \<Rightarrow> if error_root e = errNoESPBootloader \<and> \<not> installedShim then ((installed, None), fs)
               else ((installed, Some (Wrapped ''the fallback needs its second stage beside it to start'' e)), fs)
           | Inr src \<Rightarrow>
               (case installESPFile fs secondStage src of
                  (Some e, fs1) \<Rightarrow> ((installed, Some e), fs1)
                | (None, fs1) \<Rightarrow> ((installed @ [secondStage], None), fs1))))"

definition ensureRemovableFallbackChain :: "esp \<Rightarrow> path \<Rightarrow> string \<Rightarrow> string \<Rightarrow> (path list \<times> kerr option) \<times> esp" where
  "ensureRemovableFallbackChain fs relPath shimName grubName =
     (case fileExists fs relPath of
        Inl e \<Rightarrow> (([], Some e), fs)
      | Inr True \<Rightarrow> second_stage fs relPath grubName False []
      | Inr False \<Rightarrow>
          (case findESPBootloader fs [shimName, grubName] of
             Inl e \<Rightarrow> (([], Some e), fs)
           | Inr src \<Rightarrow>
               (case installESPFile fs relPath src of
                  (Some e, fs1) \<Rightarrow> (([], Some e), fs1)
                | (None, fs1) \<Rightarrow>
                    if \<not> equalFold (last src) shimName then (([relPath], None), fs1)
                    else second_stage fs1 relPath grubName True [relPath])))"

definition espBootDirListing :: "esp \<Rightarrow> path \<Rightarrow> kerr + string list" where
  "espBootDirListing fs bootDir =
     (case os_readDir fs bootDir of Inl e \<Rightarrow> Inl (Wrapped ''reading'' e) | Inr entries \<Rightarrow> Inr (map fst entries))"

definition espLoaderNames :: "string \<Rightarrow> kerr + (string \<times> string)" where
  "espLoaderNames goarch =
     (if goarch = ''amd64'' then Inr (''shimx64.efi'', ''grubx64.efi'')
      else if goarch = ''arm64'' then Inr (''shimaa64.efi'', ''grubaa64.efi'')
      else Inl (PlainError ''unsupported architecture for UEFI boot entries; kezio supports x86_64 and aarch64 only''))"

text \<open>The loader path as a path below the mount point: the leading backslash trimmed, the others separators.\<close>

definition loader_rel :: "string \<Rightarrow> path" where
  "loader_rel loaderPath = split_on (CHR 0x5C) (if hasPrefix loaderPath [CHR 0x5C] then tl loaderPath else loaderPath)"

end
