(* ===== verification/Live_Deploy.thy ===== *)
theory Live_Deploy
  imports Esp_Fallback
begin

text \<open>
  The live agent's deploy executor (internal/agent/deploy: deploy.go, progress.go, hooks.go,
  finalize.go) as functions over the machine it runs on. The commands, the local torrent daemon, the
  torrent fetcher, the reporter and the operating system are the parameters of the \<open>Executor\<close>; each
  use of one is an event of the log, with whether it succeeded. The context's cancellation is part
  of the machine's state: a command run after it fails in whatever way the runner makes it fail.
\<close>

section \<open>Events\<close>

record command =
  cm_timeout :: "duration option"      \<comment> \<open>of a hook step's context\<close>
  cm_env :: "string list"
  cm_stdin :: "string option"
  cm_name :: string
  cm_args :: "string list"

datatype live_event =
    Ran command
  | LaunchEzio EzioLaunchConfig
  | FetchTorrent string
  | AddTorrent string string bool int int   \<comment> \<open>torrent, save path, seed mode, uploads, connections\<close>
  | PollTorrents "string list"
  | PauseTorrent string
  | ShutdownEzio
  | StopEzio
  | Report ProgressRequest
  | Console string
  | MakeTemp
  | WriteTemp string string
  | ChmodTemp string
  | RemovePath string
  | TouchEsp string                         \<comment> \<open>the file operations below a mounted ESP\<close>

record 's live =
  mach :: 's
  log :: "(live_event \<times> bool) list"

type_synonym ('s, 'a) lact = "('s live, 'a) kio"

definition perform :: "live_event \<Rightarrow> ('s \<Rightarrow> (kerr + 'a) \<times> 's) \<Rightarrow> ('s, 'a) lact" where
  "perform ev op = (\<lambda>w. case op (mach w) of (r, s') \<Rightarrow> (r, w\<lparr>mach := s', log := log w @ [(ev, \<not> isl r)]\<rparr>))"

record 's Executor =
  ex_run :: "command \<Rightarrow> 's \<Rightarrow> (kerr + string) \<times> 's"
  ex_launch :: "EzioLaunchConfig \<Rightarrow> 's \<Rightarrow> (kerr + unit) \<times> 's"
  ex_addTorrent :: "string \<Rightarrow> string \<Rightarrow> bool \<Rightarrow> int \<Rightarrow> int \<Rightarrow> 's \<Rightarrow> (kerr + unit) \<times> 's"
  ex_getTorrentStatus :: "string list \<Rightarrow> 's \<Rightarrow> (kerr + (string \<times> Torrent) list) \<times> 's"
  ex_pauseTorrent :: "string \<Rightarrow> 's \<Rightarrow> (kerr + unit) \<times> 's"
  ex_shutdown :: "'s \<Rightarrow> (kerr + unit) \<times> 's"
  ex_stop :: "'s \<Rightarrow> (kerr + unit) \<times> 's"
  ex_fetchTorrent :: "string \<Rightarrow> 's \<Rightarrow> (kerr + string) \<times> 's"
  ex_progress :: "(ProgressRequest \<Rightarrow> 's \<Rightarrow> (kerr + unit) \<times> 's) option"
  ex_console :: "(string \<Rightarrow> 's \<Rightarrow> (kerr + unit) \<times> 's) option"
  ex_pollInterval :: duration
  ex_now :: "'s \<Rightarrow> time"
  ex_tick :: "duration \<Rightarrow> 's \<Rightarrow> bool \<times> 's"     \<comment> \<open>waits; true when the context is done\<close>
  ex_mkTemp :: "'s \<Rightarrow> (kerr + string) \<times> 's"
  ex_writeTemp :: "string \<Rightarrow> string \<Rightarrow> 's \<Rightarrow> (kerr + unit) \<times> 's"
  ex_chmod :: "string \<Rightarrow> 's \<Rightarrow> (kerr + unit) \<times> 's"
  ex_remove :: "string \<Rightarrow> 's \<Rightarrow> (kerr + unit) \<times> 's"
  ex_unmarshal :: "string \<Rightarrow> kerr + sfdiskJSONTable"
  ex_goarch :: string
  ex_esp :: "string \<Rightarrow> 's \<Rightarrow> esp"                \<comment> \<open>what is mounted at a directory\<close>
  ex_putEsp :: "string \<Rightarrow> esp \<Rightarrow> 's \<Rightarrow> 's"
  ex_fuel :: nat

definition run_cmd :: "'s Executor \<Rightarrow> duration option \<Rightarrow> string option \<Rightarrow> string \<Rightarrow> string list \<Rightarrow> ('s, string) lact" where
  "run_cmd e timeout stdin name args =
     (let c = \<lparr>cm_timeout = timeout, cm_env = [], cm_stdin = stdin, cm_name = name, cm_args = args\<rparr> in perform (Ran c) (ex_run e c))"

fun eachK :: "('a \<Rightarrow> ('w, unit) kio) \<Rightarrow> 'a list \<Rightarrow> ('w, unit) kio" where
  "eachK f [] = ret ()"
| "eachK f (x # xs) = bindK (f x) (\<lambda>_. eachK f xs)"

text \<open>A call whose error is only logged.\<close>

definition ignoring :: "('w, 'a) kio \<Rightarrow> ('w, unit) kio" where
  "ignoring m = bindK (attempt m) (\<lambda>_. ret ())"

section \<open>progress.go\<close>

definition report :: "'s Executor \<Rightarrow> DeployPlan \<Rightarrow> DeployRunPhase \<Rightarrow> ProgressState \<Rightarrow> string \<Rightarrow> int option \<Rightarrow> int option \<Rightarrow>
    ProgressPartition list \<Rightarrow> ('s, unit) lact" where
  "report e plan step st message percentDone bytesDone parts =
     (case ex_progress e of
        None \<Rightarrow> ret ()
      | Some send \<Rightarrow> (\<lambda>w.
          let req = \<lparr>pr_runName = dp_runName plan, pr_runUID = dp_runUID plan, pr_step = step, pr_state = st, pr_message = message,
            pr_percentDone = map_option wrap32 percentDone, pr_bytesDone = bytesDone, pr_partitions = parts, pr_timestamp = ex_now e (mach w)\<rparr>
          in ignoring (perform (Report req) (send req)) w))"

definition reportRunning :: "'s Executor \<Rightarrow> DeployPlan \<Rightarrow> DeployRunPhase \<Rightarrow> ('s, unit) lact" where
  "reportRunning e plan step = report e plan step ProgressRunning '''' None None []"

definition reportProgress :: "'s Executor \<Rightarrow> DeployPlan \<Rightarrow> DeployRunPhase \<Rightarrow> int \<Rightarrow> int \<Rightarrow> ProgressPartition list \<Rightarrow> ('s, unit) lact" where
  "reportProgress e plan step percentDone bytesDone parts = report e plan step ProgressRunning '''' (Some percentDone) (Some bytesDone) parts"

definition reportPartitionComplete :: "'s Executor \<Rightarrow> DeployPlan \<Rightarrow> DeployRunPhase \<Rightarrow> int \<Rightarrow> ('s, unit) lact" where
  "reportPartitionComplete e plan step number =
     report e plan step ProgressRunning '''' None None [\<lparr>ppn_number = number, ppn_percent = 100, ppn_bytesDone = 0\<rparr>]"

definition reportSucceeded :: "'s Executor \<Rightarrow> DeployPlan \<Rightarrow> DeployRunPhase \<Rightarrow> string \<Rightarrow> ('s, unit) lact" where
  "reportSucceeded e plan step message = report e plan step ProgressSucceeded message None None []"

definition reportFailed :: "'s Executor \<Rightarrow> DeployPlan \<Rightarrow> DeployRunPhase \<Rightarrow> string \<Rightarrow> ('s, unit) lact" where
  "reportFailed e plan step message = report e plan step ProgressFailed message None None []"

section \<open>deploy.go: checks before the first write\<close>

fun check_structure :: "string list \<Rightarrow> diskPlan list \<Rightarrow> kerr option" where
  "check_structure seen [] = None"
| "check_structure seen (dp # dps) =
     (if \<not> hasPrefix (k_disk dp) ''/dev/'' then Some (PlainError ''disk is not an absolute /dev/ path'')
      else if k_disk dp \<in> set seen then Some (PlainError ''disk is targeted by more than one image in this plan'')
      else if \<exists>s\<in>set (k_slots dp). ds_device s \<noteq> DevicePartitionPath (k_disk dp) (ds_number s)
        then Some (PlainError ''slot: device does not match the expected path'')
      else check_structure (k_disk dp # seen) dps)"

definition checkDiskSize :: "'s Executor \<Rightarrow> diskPlan \<Rightarrow> ('s, unit) lact" where
  "checkDiskSize e dp =
     (case MinimumDiskBytes (ex_unmarshal e) (k_sfdiskScript dp) of
        Inl err \<Rightarrow> raise (Wrapped (k_label dp) err)
      | Inr minBytes \<Rightarrow>
          bindK (wrapK ''checking disk exists and is readable'' (run_cmd e None None ''blockdev'' [''--getsize64'', k_disk dp])) (\<lambda>out.
          case atoi (trim_space out) of
            None \<Rightarrow> raise (PlainError ''parsing size of disk'')
          | Some actual \<Rightarrow> if actual < minBytes then raise (PlainError ''disk is smaller than its layout requires'') else ret ()))"

definition validate :: "'s Executor \<Rightarrow> diskPlan list \<Rightarrow> ('s, unit) lact" where
  "validate e plans =
     (case check_structure [] plans of
        Some err \<Rightarrow> raise err
      | None \<Rightarrow> eachK (checkDiskSize e) plans)"

section \<open>deploy.go: writing\<close>

definition writePartitionTable :: "'s Executor \<Rightarrow> diskPlan \<Rightarrow> ('s, unit) lact" where
  "writePartitionTable e dp =
     (case SfdiskScript (ex_unmarshal e) (k_sfdiskScript dp) (k_disk dp) of
        Inl err \<Rightarrow> raise (Wrapped (k_label dp) err)
      | Inr script \<Rightarrow>
          bindK (wrapK ''writing partition table'' (run_cmd e None (Some script) ''sfdisk'' [k_disk dp])) (\<lambda>_.
          bindK (wrapK ''re-reading partition table'' (run_cmd e None None ''blockdev'' [''--rereadpt'', k_disk dp])) (\<lambda>_. ret ())))"

definition mkfs_args :: "DeployMkfs \<Rightarrow> string \<Rightarrow> string list" where
  "mkfs_args m device =
     (if dm_label m \<noteq> '''' then [mkfsLabelFlag (dm_filesystem m), dm_label m] else []) @
     (if dm_uuid m \<noteq> '''' then mkfsUUIDArgs (dm_filesystem m) (dm_uuid m) else []) @ [device]"

definition runMkfs :: "'s Executor \<Rightarrow> DeployMkfs \<Rightarrow> DeploySlot \<Rightarrow> ('s, unit) lact" where
  "runMkfs e m s =
     bindK (wrapK ''mkfs'' (run_cmd e None None (''mkfs.'' @ dm_filesystem m) (mkfs_args m (ds_device s)))) (\<lambda>_. ret ())"

definition runMkswap :: "'s Executor \<Rightarrow> duration option \<Rightarrow> DeploySwap \<Rightarrow> DeploySlot \<Rightarrow> ('s, unit) lact" where
  "runMkswap e timeout sw s =
     bindK (wrapK ''mkswap'' (run_cmd e timeout None ''mkswap''
       (if dw_uuid sw \<noteq> '''' then [''--uuid'', dw_uuid sw, ds_device s] else [ds_device s]))) (\<lambda>_. ret ())"

definition writeSlot :: "'s Executor \<Rightarrow> DeployPlan \<Rightarrow> DeploySlot \<Rightarrow> ('s, unit) lact" where
  "writeSlot e plan s =
     (case ds_swap s of
        Some sw \<Rightarrow> runMkswap e None sw s
      | None \<Rightarrow>
     (case ds_mkfs s of
        Some m \<Rightarrow> runMkfs e m s
      | None \<Rightarrow>
     (case ds_torrent s of
        Some t \<Rightarrow>
          bindK (wrapK ''fetching torrent'' (perform (FetchTorrent (dt_url t)) (ex_fetchTorrent e (dt_url t)))) (\<lambda>torrent.
          let maxUploads = (if dp_maxUploads plan \<le> 0 then DefaultMaxUploads else dp_maxUploads plan);
              maxConnections = (if dp_maxConnections plan \<le> 0 then DefaultMaxConnections else dp_maxConnections plan) in
          wrapK ''AddTorrent'' (perform (AddTorrent torrent (ds_device s) False maxUploads maxConnections)
            (ex_addTorrent e torrent (ds_device s) False maxUploads maxConnections)))
      | None \<Rightarrow> raise (PlainError ''no content kind set''))))"

definition writeSlots :: "'s Executor \<Rightarrow> DeployPlan \<Rightarrow> diskPlan \<Rightarrow> ('s, unit) lact" where
  "writeSlots e plan dp =
     eachK (\<lambda>s. bindK (writeSlot e plan s) (\<lambda>_.
       if ds_torrent s = None then reportPartitionComplete e plan PhaseWritingContent (ds_number s) else ret ())) (k_slots dp)"

section \<open>deploy.go: seeding\<close>

definition progress_partitions :: "(string \<rightharpoonup> int) \<Rightarrow> (string \<times> Torrent) list \<Rightarrow> ProgressPartition list" where
  "progress_partitions numbers statuses =
     concat (map (\<lambda>(hash, t). case numbers hash of
         Some n \<Rightarrow> [\<lparr>ppn_number = n, ppn_percent = wrap32 (aggregatePercent (to_total t) (to_totalDone t)), ppn_bytesDone = to_totalDone t\<rparr>]
       | None \<Rightarrow> []) statuses)"

definition sum64 :: "(Torrent \<Rightarrow> int) \<Rightarrow> (string \<times> Torrent) list \<Rightarrow> int" where
  "sum64 f statuses = foldl (\<lambda>acc (hash, t). wrap64 (acc + f t)) 0 statuses"

text \<open>One turn of the loop: whether every torrent is finished and paused.\<close>

definition seed_turn :: "'s Executor \<Rightarrow> DeployPlan \<Rightarrow> diskPlan list \<Rightarrow> ('s, bool) lact" where
  "seed_turn e plan plans =
     bindK (attempt (perform (PollTorrents (torrentHashes plans)) (ex_getTorrentStatus e (torrentHashes plans)))) (\<lambda>r. case r of
         Inl err \<Rightarrow> ret False
       | Inr statuses \<Rightarrow>
           bindK (eachK (\<lambda>(hash, t). if shouldPauseTorrent t then ignoring (perform (PauseTorrent hash) (ex_pauseTorrent e hash)) else ret ()) statuses) (\<lambda>_.
           bindK (reportProgress e plan PhaseWritingContent (aggregatePercent (sum64 to_total statuses) (sum64 to_totalDone statuses))
               (sum64 to_totalDone statuses) (progress_partitions (torrentSlotNumbers plans) statuses)) (\<lambda>_.
           ret (allStopped statuses))))"

definition seedPollInterval :: "'s Executor \<Rightarrow> duration" where
  "seedPollInterval e = (if ex_pollInterval e \<le> 0 then 2 * second else ex_pollInterval e)"

definition await_tick :: "'s Executor \<Rightarrow> ('s, bool) lact" where
  "await_tick e = (\<lambda>w. case ex_tick e (seedPollInterval e) (mach w) of (done, s') \<Rightarrow> (Inr done, w\<lparr>mach := s'\<rparr>))"

fun seed_loop :: "nat \<Rightarrow> 's Executor \<Rightarrow> DeployPlan \<Rightarrow> diskPlan list \<Rightarrow> ('s, unit) lact" where
  "seed_loop 0 e plan plans = raise Diverged"
| "seed_loop (Suc n) e plan plans =
     bindK (seed_turn e plan plans) (\<lambda>stopped.
     if stopped then ret ()
     else bindK (await_tick e) (\<lambda>cancelled.
       if cancelled then raise (PlainError ''context canceled'') else seed_loop n e plan plans))"

definition seedUntilStopped :: "'s Executor \<Rightarrow> DeployPlan \<Rightarrow> diskPlan list \<Rightarrow> ('s, unit) lact" where
  "seedUntilStopped e plan plans = (if torrentHashes plans = [] then ret () else seed_loop (ex_fuel e) e plan plans)"

definition writeConsole :: "'s Executor \<Rightarrow> string \<Rightarrow> ('s, unit) lact" where
  "writeConsole e msg = (case ex_console e of None \<Rightarrow> ret () | Some put \<Rightarrow> ignoring (perform (Console msg) (put (''kezio-agent: '' @ msg @ newline))))"

definition AfterDeployPowerOff :: string where
  "AfterDeployPowerOff = ''PowerOff''"

definition rebootOrPowerOff :: "'s Executor \<Rightarrow> string \<Rightarrow> ('s, unit) lact" where
  "rebootOrPowerOff e afterDeploy =
     (let action = (if afterDeploy = AfterDeployPowerOff then ''poweroff'' else ''reboot'') in
      bindK (wrapK (''systemctl '' @ action) (run_cmd e None None ''systemctl'' [action])) (\<lambda>_. ret ()))"

section \<open>finalize.go\<close>

definition ensureEFIBootEntry :: "'s Executor \<Rightarrow> duration \<Rightarrow> DeployPlan \<Rightarrow> string \<Rightarrow> int \<Rightarrow> ('s, unit) lact" where
  "ensureEFIBootEntry e timeout plan disk part =
     (case efiRemovableLoaderPathForArch (ex_goarch e) of
        Inl err \<Rightarrow> raise err
      | Inr loaderPath \<Rightarrow>
          bindK (wrapK ''listing existing UEFI boot entries'' (run_cmd e (Some timeout) None ''efibootmgr'' [])) (\<lambda>out.
          bindK (eachK (\<lambda>num. bindK (wrapK ''deleting prior UEFI boot entry'' (run_cmd e (Some timeout) None ''efibootmgr'' [''--bootnum'', num, ''--delete-bootnum''])) (\<lambda>_. ret ()))
            (parseEFIBootEntries out (efibootLabel plan))) (\<lambda>_.
          bindK (wrapK ''creating UEFI boot entry'' (run_cmd e (Some timeout) None ''efibootmgr''
            [''--create'', ''--disk'', disk, ''--part'', show_int part, ''--loader'', loaderPath, ''--label'', efibootLabel plan])) (\<lambda>_. ret ()))))"

definition runBuiltinEfibootmgr :: "'s Executor \<Rightarrow> duration \<Rightarrow> DeployPlan \<Rightarrow> (string \<rightharpoonup> string) \<Rightarrow> ('s, unit) lact" where
  "runBuiltinEfibootmgr e timeout plan params =
     (case requirePartition params of
        Inl err \<Rightarrow> raise (Wrapped ''efibootmgr'' err)
      | Inr part \<Rightarrow> ensureEFIBootEntry e timeout plan (finalizeDisk plan params) part)"

definition hookCleanupTimeout :: duration where
  "hookCleanupTimeout = 30 * second"

definition unmount :: "'s Executor \<Rightarrow> string \<Rightarrow> ('s, unit) lact" where
  "unmount e target =
     bindK (attempt (run_cmd e (Some hookCleanupTimeout) None ''umount'' [target])) (\<lambda>r. case r of
         Inr _ \<Rightarrow> ret ()
       | Inl err \<Rightarrow> ignoring (run_cmd e (Some hookCleanupTimeout) None ''umount'' [''--lazy'', target]))"

definition unmountAll :: "'s Executor \<Rightarrow> string list \<Rightarrow> ('s, unit) lact" where
  "unmountAll e mounted = eachK (unmount e) (rev mounted)"

text \<open>The deferred clean-up runs on every return and its errors are only logged.\<close>

definition deferring :: "('w, unit) kio \<Rightarrow> ('w, 'a) kio \<Rightarrow> ('w, 'a) kio" where
  "deferring cleanup m = bindK (attempt m) (\<lambda>r. bindK cleanup (\<lambda>_. case r of Inl err \<Rightarrow> raise err | Inr x \<Rightarrow> ret x))"

definition fallback_chain :: "'s Executor \<Rightarrow> string \<Rightarrow> path \<Rightarrow> string \<Rightarrow> string \<Rightarrow> 's \<Rightarrow> (kerr + unit) \<times> 's" where
  "fallback_chain e mountpoint relPath shimName grubName s =
     (case ensureRemovableFallbackChain (ex_esp e mountpoint s) relPath shimName grubName of
        ((installed, err), fs) \<Rightarrow>
          (let s' = ex_putEsp e mountpoint fs s in
           case err of
             Some e' \<Rightarrow> (Inl (Wrapped ''ensuring removable fallback bootloader'' e'), s')
           | None \<Rightarrow> (case espBootDirListing fs (butlast relPath) of
                 Inl e' \<Rightarrow> (Inl (Wrapped ''reading the fallback directory back'' e'), s')
               | Inr listing \<Rightarrow> (Inr (), s'))))"

definition installRemovableFallback :: "'s Executor \<Rightarrow> duration \<Rightarrow> string \<Rightarrow> ('s, unit) lact" where
  "installRemovableFallback e timeout espDevice =
     (case (efiRemovableLoaderPathForArch (ex_goarch e), espLoaderNames (ex_goarch e)) of
        (Inl err, _) \<Rightarrow> raise err
      | (_, Inl err) \<Rightarrow> raise err
      | (Inr loaderPath, Inr (shimName, grubName)) \<Rightarrow>
          bindK (wrapK ''creating ESP mountpoint'' (perform MakeTemp (ex_mkTemp e))) (\<lambda>mountpoint.
          deferring (bindK (unmountAll e [mountpoint]) (\<lambda>_. ignoring (perform (RemovePath mountpoint) (ex_remove e mountpoint))))
            (bindK (wrapK ''mounting ESP'' (run_cmd e (Some timeout) None ''mount'' [''-t'', ''vfat'', espDevice, mountpoint])) (\<lambda>_.
             perform (TouchEsp mountpoint) (fallback_chain e mountpoint (loader_rel loaderPath) shimName grubName)))))"

definition runBuiltinInstallRemovableFallback :: "'s Executor \<Rightarrow> duration \<Rightarrow> DeployPlan \<Rightarrow> (string \<rightharpoonup> string) \<Rightarrow> ('s, unit) lact" where
  "runBuiltinInstallRemovableFallback e timeout plan params =
     (case requirePartition params of
        Inl err \<Rightarrow> raise (Wrapped ''install-removable-fallback'' err)
      | Inr part \<Rightarrow> installRemovableFallback e timeout (DevicePartitionPath (finalizeDisk plan params) part))"

definition growLastPartition :: "'s Executor \<Rightarrow> duration \<Rightarrow> string \<Rightarrow> int \<Rightarrow> string \<Rightarrow> string \<Rightarrow> ('s, unit) lact" where
  "growLastPartition e timeout disk part device fsType =
     bindK (wrapK ''growing partition'' (run_cmd e (Some timeout) None ''growpart'' [disk, show_int part])) (\<lambda>_.
     case fsResizeCommand fsType device of
       None \<Rightarrow> ret ()
     | Some (name, args) \<Rightarrow> bindK (wrapK ''growing file system'' (run_cmd e (Some timeout) None name args)) (\<lambda>_. ret ()))"

definition grow_target :: "DeployPlan \<Rightarrow> (string \<rightharpoonup> string) \<Rightarrow> kerr + (int \<times> string \<times> string)" where
  "grow_target plan params =
     (let disk = finalizeDisk plan params; raw = param params ''partition'' in
      if raw \<noteq> '''' then
        (case atoi raw of
           Some n \<Rightarrow> if n \<le> 0 then Inl (PlainError ''growLastPartition: params[partition] is not a positive partition number'')
             else Inr (wrap32 n, DevicePartitionPath disk (wrap32 n), '''')
         | None \<Rightarrow> Inl (PlainError ''growLastPartition: params[partition] is not a positive partition number''))
      else if disk \<noteq> dp_targetDisk plan then Inl (PlainError ''growLastPartition: disk has no default partition'')
      else if dp_slots plan = [] then Inl (PlainError ''growLastPartition: plan has no OS disk slots'')
      else (let s = last (dp_slots plan) in
        Inr (ds_number s, ds_device s, case ds_mkfs s of None \<Rightarrow> '''' | Some m \<Rightarrow> dm_filesystem m)))"

definition runBuiltinGrowLastPartition :: "'s Executor \<Rightarrow> duration \<Rightarrow> DeployPlan \<Rightarrow> (string \<rightharpoonup> string) \<Rightarrow> ('s, unit) lact" where
  "runBuiltinGrowLastPartition e timeout plan params =
     (case grow_target plan params of
        Inl err \<Rightarrow> raise err
      | Inr (part, device, fsType) \<Rightarrow>
          growLastPartition e timeout (finalizeDisk plan params) part device
            (if param params ''fsType'' \<noteq> '''' then param params ''fsType'' else fsType))"

section \<open>hooks.go\<close>

definition runBuiltinMkswap :: "'s Executor \<Rightarrow> duration \<Rightarrow> DeployPlan \<Rightarrow> ('s, unit) lact" where
  "runBuiltinMkswap e timeout plan =
     eachK (\<lambda>dp. eachK (\<lambda>s. case ds_swap s of None \<Rightarrow> ret () | Some sw \<Rightarrow> runMkswap e (Some timeout) sw s) (k_slots dp)) (diskPlans plan)"

definition runBuiltinStep :: "'s Executor \<Rightarrow> duration \<Rightarrow> DeployPlan \<Rightarrow> ResolvedHookStep \<Rightarrow> ('s, unit) lact" where
  "runBuiltinStep e timeout plan step =
     (if hs_builtin step = BuiltinStepMkswap then runBuiltinMkswap e timeout plan
      else if hs_builtin step = BuiltinStepEfibootmgr then runBuiltinEfibootmgr e timeout plan (hs_params step)
      else if hs_builtin step = BuiltinStepGrowLastPartition then runBuiltinGrowLastPartition e timeout plan (hs_params step)
      else if hs_builtin step = BuiltinStepInstallRemovableFallback then runBuiltinInstallRemovableFallback e timeout plan (hs_params step)
      else raise (PlainError ''unknown builtin post hook step''))"

definition runScriptStep :: "'s Executor \<Rightarrow> duration \<Rightarrow> DeployPlan \<Rightarrow> ResolvedHookStep \<Rightarrow> ('s, unit) lact" where
  "runScriptStep e timeout plan step =
     bindK (wrapK ''creating script temp file'' (perform MakeTemp (ex_mkTemp e))) (\<lambda>path.
     deferring (ignoring (perform (RemovePath path) (ex_remove e path)))
       (bindK (wrapK ''writing script temp file'' (perform (WriteTemp path (hs_content step)) (ex_writeTemp e path (hs_content step)))) (\<lambda>_.
        bindK (wrapK ''making script temp file executable'' (perform (ChmodTemp path) (ex_chmod e path))) (\<lambda>_.
        let c = \<lparr>cm_timeout = Some timeout, cm_env = scriptStepEnv plan, cm_stdin = None, cm_name = ''/bin/sh'', cm_args = [''-e'', path]\<rparr> in
        bindK (wrapK ''running script'' (perform (Ran c) (ex_run e c))) (\<lambda>_. ret ())))))"

definition runHookStep :: "'s Executor \<Rightarrow> duration \<Rightarrow> DeployPlan \<Rightarrow> ResolvedHookStep \<Rightarrow> ('s, unit) lact" where
  "runHookStep e timeout plan step =
     (case hs_type step of
        HookStepTypeBuiltin \<Rightarrow> runBuiltinStep e timeout plan step
      | HookStepTypeScript \<Rightarrow> runScriptStep e timeout plan step
      | HookStepTypeOther _ \<Rightarrow> raise (PlainError ''unknown post hook step type''))"

definition runHooks :: "'s Executor \<Rightarrow> DeployPlan \<Rightarrow> ('s, unit) lact" where
  "runHooks e plan =
     eachK (\<lambda>hook. eachK (\<lambda>step. wrapK ''post hook'' (runHookStep e (effectiveHookTimeout step) plan step)) (rh_steps hook)) (dp_hooks plan)"

section \<open>Execute\<close>

text \<open>
  The body returns the step and the error at which it stopped, or none; \<open>at_step\<close> gives an error the
  value that the variable \<^verbatim>\<open>step\<close> has there. A deferred \<^verbatim>\<open>handle.Stop\<close> runs when the body returns, before
  the deferred failure report.
\<close>

definition at_step :: "DeployRunPhase \<Rightarrow> ('s, 'a) lact \<Rightarrow> ('a \<Rightarrow> ('s, (DeployRunPhase \<times> kerr) option) lact) \<Rightarrow> ('s, (DeployRunPhase \<times> kerr) option) lact" where
  "at_step step m k = bindK (attempt m) (\<lambda>r. case r of Inl err \<Rightarrow> ret (Some (step, err)) | Inr x \<Rightarrow> k x)"

definition write_tables :: "'s Executor \<Rightarrow> DeployPlan \<Rightarrow> diskPlan list \<Rightarrow> ('s, unit) lact" where
  "write_tables e plan plans =
     bindK (reportRunning e plan PhasePartitioning) (\<lambda>_.
     bindK (eachK (writePartitionTable e) plans) (\<lambda>_.
     reportSucceeded e plan PhasePartitioning ''''))"

definition launch_ezio :: "'s Executor \<Rightarrow> DeployPlan \<Rightarrow> diskPlan list \<Rightarrow> ('s, unit) lact" where
  "launch_ezio e plan plans =
     bindK (reportRunning e plan PhaseWritingContent) (\<lambda>_.
     if hasTorrentSlot plans then
       wrapK ''launching local ezio daemon'' (perform (LaunchEzio (ezioLaunchConfigFromPlan plan)) (ex_launch e (ezioLaunchConfigFromPlan plan)))
     else ret ())"

definition write_content :: "'s Executor \<Rightarrow> DeployPlan \<Rightarrow> diskPlan list \<Rightarrow> ('s, unit) lact" where
  "write_content e plan plans =
     bindK (eachK (writeSlots e plan) plans) (\<lambda>_.
     bindK (if hasTorrentSlot plans then
         bindK (seedUntilStopped e plan plans) (\<lambda>_. ignoring (perform ShutdownEzio (ex_shutdown e)))
       else ret ()) (\<lambda>_.
     reportSucceeded e plan PhaseWritingContent ''''))"

definition run_post_hooks :: "'s Executor \<Rightarrow> DeployPlan \<Rightarrow> ('s, unit) lact" where
  "run_post_hooks e plan =
     bindK (reportRunning e plan PhaseRunningPostHook) (\<lambda>_.
     bindK (wrapK ''running post hooks'' (runHooks e plan)) (\<lambda>_.
     reportSucceeded e plan PhaseRunningPostHook ''''))"

definition finish :: "'s Executor \<Rightarrow> DeployPlan \<Rightarrow> ('s, unit) lact" where
  "finish e plan =
     bindK (reportSucceeded e plan PhaseSucceeded '''') (\<lambda>_.
     bindK (writeConsole e ''deploy finalized'') (\<lambda>_.
     wrapK ''after deploy action'' (rebootOrPowerOff e (dp_afterDeploy plan))))"

definition after_launch :: "'s Executor \<Rightarrow> DeployPlan \<Rightarrow> diskPlan list \<Rightarrow> ('s, (DeployRunPhase \<times> kerr) option) lact" where
  "after_launch e plan plans =
     at_step PhaseWritingContent (write_content e plan plans) (\<lambda>_.
     at_step PhaseRunningPostHook (run_post_hooks e plan) (\<lambda>_.
     at_step PhaseFinalizing (bindK (reportRunning e plan PhaseFinalizing) (\<lambda>_. reportSucceeded e plan PhaseFinalizing '''')) (\<lambda>_.
     at_step PhaseSucceeded (finish e plan) (\<lambda>_. ret None))))"

definition execute_plan :: "'s Executor \<Rightarrow> DeployPlan \<Rightarrow> diskPlan list \<Rightarrow> ('s, (DeployRunPhase \<times> kerr) option) lact" where
  "execute_plan e plan plans =
     at_step PhasePartitioning (wrapK ''refusing to deploy'' (validate e plans)) (\<lambda>_.
     at_step PhasePartitioning (write_tables e plan plans) (\<lambda>_.
     at_step PhaseWritingContent (launch_ezio e plan plans) (\<lambda>_.
     if hasTorrentSlot plans then deferring (ignoring (perform StopEzio (ex_stop e))) (after_launch e plan plans)
     else after_launch e plan plans)))"

definition Execute :: "'s Executor \<Rightarrow> DeployPlan \<Rightarrow> ('s, unit) lact" where
  "Execute e plan =
     (case Validate plan of
        Some verr \<Rightarrow> raise (Wrapped ''invalid plan'' verr)
      | None \<Rightarrow>
          bindK (execute_plan e plan (diskPlans plan)) (\<lambda>r. case r of
              None \<Rightarrow> ret ()
            | Some (step, err) \<Rightarrow> bindK (reportFailed e plan step (error_text err)) (\<lambda>_. raise err)))"

end
