(* ===== verification/Live_Agent.thy ===== *)
theory Live_Agent
  imports Live_Deploy
begin

text \<open>
  The live agent around the deploy executor (internal/agent): its HTTP client of the agent-facing
  server (client.go), the reporter that posts progress and cancels a deploy the server aborts
  (httpreporter.go), the torrent fetcher, the automatic cache size (ezio.go), the kernel command line
  and the life cycle (run.go). The network is a parameter: one function per endpoint, from the request
  to the answer or a transport error; the bodies are the decoded ones of Agent\_Server.
\<close>

section \<open>client.go\<close>

record 's Client =
  cl_register :: "MachineHardwareSpec http_request \<Rightarrow> 's \<Rightarrow> (kerr + http_response) \<times> 's"
  cl_next :: "unit http_request \<Rightarrow> 's \<Rightarrow> (kerr + http_response) \<times> 's"
  cl_progress :: "ProgressRequest http_request \<Rightarrow> 's \<Rightarrow> (kerr + http_response) \<times> 's"

definition agent_request :: "string \<Rightarrow> 'b option \<Rightarrow> 'b http_request" where
  "agent_request token body =
     \<lparr>rq_schemaVersion = show_int AgentSchemaVersion, rq_authorization = ''Bearer '' @ token, rq_body = body\<rparr>"

record RegisterResult =
  rr_machineName :: string
  rr_sessionToken :: string

definition Register :: "'s Client \<Rightarrow> string \<Rightarrow> MachineHardwareSpec \<Rightarrow> ('s, RegisterResult) kio" where
  "Register c token hardware =
     bindK (wrapK ''registration request failed'' (cl_register c (agent_request token (Some hardware)))) (\<lambda>resp.
     case resp of
       Registered name session ttl \<Rightarrow>
         if name = '''' then raise (PlainError ''registration response has no machine name'')
         else if session = '''' then raise (PlainError ''registration response has no session token'')
         else ret \<lparr>rr_machineName = name, rr_sessionToken = session\<rparr>
     | _ \<Rightarrow> raise (PlainError ''registration rejected''))"

datatype next_action = NextActionWait | NextActionDeploy DeployPlan

definition Next :: "'s Client \<Rightarrow> string \<Rightarrow> ('s, next_action \<times> int) kio" where
  "Next c session =
     bindK (wrapK ''poll request failed'' (cl_next c (agent_request session None))) (\<lambda>resp.
     case resp of
       NextWait poll \<Rightarrow> ret (NextActionWait, poll)
     | NextDeploy plan poll \<Rightarrow> ret (NextActionDeploy plan, poll)
     | _ \<Rightarrow> raise (PlainError ''poll rejected''))"

definition Progress :: "'s Client \<Rightarrow> string \<Rightarrow> ProgressRequest \<Rightarrow> ('s, ProgressAction) kio" where
  "Progress c session req =
     bindK (wrapK ''progress request failed'' (cl_progress c (agent_request session (Some req)))) (\<lambda>resp.
     case resp of
       ProgressAnswer action \<Rightarrow> ret action
     | _ \<Rightarrow> raise (PlainError ''progress report rejected''))"

section \<open>httpreporter.go\<close>

text \<open>
  \<open>hr_aborted\<close> reads and sets the \<^verbatim>\<open>sync.Once\<close> that guards \<^verbatim>\<open>Cancel\<close>; it lives as long as the reporter.
  \<open>hr_wait\<close> is the wait before a further attempt, true when the deploy's context is done first.
\<close>

record 's HTTPReporter =
  hr_client :: "'s Client"
  hr_sessionToken :: string
  hr_cancel :: "('s \<Rightarrow> 's) option"
  hr_aborted :: "('s \<Rightarrow> bool) \<times> ('s \<Rightarrow> 's)"
  hr_wait :: "'s \<Rightarrow> bool \<times> 's"

definition httpReporterMaxAttempts :: nat where
  "httpReporterMaxAttempts = 3"

definition abort_once :: "'s HTTPReporter \<Rightarrow> ('s, unit) kio" where
  "abort_once r = (\<lambda>s.
     (Inr (), if fst (hr_aborted r) s then s
       else (case hr_cancel r of None \<Rightarrow> id | Some cancel \<Rightarrow> cancel) (snd (hr_aborted r) s)))"

fun report_attempts :: "nat \<Rightarrow> bool \<Rightarrow> kerr \<Rightarrow> 's HTTPReporter \<Rightarrow> ProgressRequest \<Rightarrow> ('s, unit) kio" where
  "report_attempts 0 again lastErr r req = raise lastErr"
| "report_attempts (Suc n) again lastErr r req =
     bindK (if again then (\<lambda>s. case hr_wait r s of (ctxDone, s') \<Rightarrow> (Inr ctxDone, s')) else ret False) (\<lambda>ctxDone.
     if ctxDone then raise lastErr
     else bindK (attempt (Progress (hr_client r) (hr_sessionToken r) req)) (\<lambda>x. case x of
         Inl e \<Rightarrow> report_attempts n True e r req
       | Inr action \<Rightarrow> (if action = ActionAbort then abort_once r else ret ())))"

definition reportHTTP :: "'s HTTPReporter \<Rightarrow> ProgressRequest \<Rightarrow> ('s, unit) kio" where
  "reportHTTP r req = report_attempts httpReporterMaxAttempts False (PlainError '''') r req"

section \<open>torrentfetcher.go\<close>

definition DefaultTorrentFetchRetries :: nat where
  "DefaultTorrentFetchRetries = 5"

fun fetch_attempts :: "nat \<Rightarrow> bool \<Rightarrow> kerr \<Rightarrow> ('s \<Rightarrow> bool \<times> 's) \<Rightarrow> ('s, string) kio \<Rightarrow> ('s, string) kio" where
  "fetch_attempts 0 again lastErr wait once = raise (Wrapped ''fetching'' lastErr)"
| "fetch_attempts (Suc n) again lastErr wait once =
     bindK (if again then (\<lambda>s. case wait s of (ctxDone, s') \<Rightarrow> (Inr ctxDone, s')) else ret False) (\<lambda>ctxDone.
     if ctxDone then raise (PlainError ''context canceled'')
     else bindK (attempt once) (\<lambda>x. case x of Inl e \<Rightarrow> fetch_attempts n True e wait once | Inr body \<Rightarrow> ret body))"

definition fetchTorrent :: "int \<Rightarrow> ('s \<Rightarrow> bool \<times> 's) \<Rightarrow> ('s, string) kio \<Rightarrow> ('s, string) kio" where
  "fetchTorrent retries wait once =
     fetch_attempts (if retries \<le> 0 then DefaultTorrentFetchRetries else nat retries) False (PlainError '''') wait once"

section \<open>ezio.go\<close>

definition autoCacheReserveBytes :: nat where
  "autoCacheReserveBytes = 2 * 2 ^ 30"

definition AutoCacheSizeMB :: "nat \<Rightarrow> nat" where
  "AutoCacheSizeMB memTotalBytes =
     (if memTotalBytes \<le> autoCacheReserveBytes then 64
      else min (max ((memTotalBytes - autoCacheReserveBytes) div 2 div 2 ^ 20) 64) 8192)"

definition launch_args :: "string \<Rightarrow> nat option \<Rightarrow> EzioLaunchConfig \<Rightarrow> string list" where
  "launch_args addr memTotal cfg =
     [''--listen'', addr] @
     (case (lc_cacheSizeMB cfg, memTotal) of
        (Some n, _) \<Rightarrow> [''--cache-size'', show_int n]
      | (None, Some m) \<Rightarrow> [''--cache-size'', show_int (int (AutoCacheSizeMB m))]
      | (None, None) \<Rightarrow> []) @
     (case lc_aioThreads cfg of Some n \<Rightarrow> [''--aio-threads'', show_int n] | None \<Rightarrow> []) @
     (case lc_port cfg of Some n \<Rightarrow> [''--port'', show_int n] | None \<Rightarrow> [])"

section \<open>cmdline.go\<close>

record Cmdline =
  cmd_server :: string
  cmd_token :: string

text \<open>\<^verbatim>\<open>strings.Fields\<close>: the maximal runs of characters that are not white space.\<close>

fun fields_from :: "string \<Rightarrow> string \<Rightarrow> string list" where
  "fields_from cur [] = (if cur = '''' then [] else [cur])"
| "fields_from cur (c # cs) =
     (if go_space c then (if cur = '''' then [] else [cur]) @ fields_from '''' cs else fields_from (cur @ [c]) cs)"

definition go_fields :: "string \<Rightarrow> string list" where
  "go_fields s = fields_from '''' s"

definition cut_eq :: "string \<Rightarrow> (string \<times> string) option" where
  "cut_eq tok =
     (if CHR ''='' \<in> set tok then Some (takeWhile (\<lambda>c. c \<noteq> CHR ''='') tok, tl (dropWhile (\<lambda>c. c \<noteq> CHR ''='') tok)) else None)"

definition cmdline_token :: "Cmdline \<Rightarrow> string \<Rightarrow> Cmdline" where
  "cmdline_token c tok =
     (case cut_eq tok of
        None \<Rightarrow> c
      | Some (key, v) \<Rightarrow>
          if key = ''kezio.server'' then c\<lparr>cmd_server := v\<rparr>
          else if key = ''kezio.token'' then c\<lparr>cmd_token := v\<rparr> else c)"

definition ParseCmdline :: "string \<Rightarrow> Cmdline" where
  "ParseCmdline raw = foldl cmdline_token \<lparr>cmd_server = '''', cmd_token = ''''\<rparr> (go_fields raw)"

section \<open>run.go\<close>

text \<open>
  The loops end only when the context is done; they run on fuel. \<open>rn_wait\<close> waits for a duration, true
  when the context is done first.
\<close>

record 's RunConfig =
  rn_cmdline :: Cmdline
  rn_collect :: "('s, MachineHardwareSpec) kio"
  rn_registerRetryInterval :: duration
  rn_deploy :: "(DeployPlan \<Rightarrow> ('s, unit) kio) option"
  rn_onRegistered :: "RegisterResult \<Rightarrow> 's \<Rightarrow> 's"
  rn_client :: "'s Client"
  rn_done :: "'s \<Rightarrow> bool"
  rn_wait :: "duration \<Rightarrow> 's \<Rightarrow> bool \<times> 's"
  rn_fuel :: nat

definition DefaultRegisterRetryInterval :: duration where
  "DefaultRegisterRetryInterval = 5 * second"

definition AgentDefaultPollInterval :: duration where
  "AgentDefaultPollInterval = 10 * second"

definition await :: "'s RunConfig \<Rightarrow> duration \<Rightarrow> ('s, bool) kio" where
  "await cfg d = (\<lambda>s. case rn_wait cfg d s of (ctxDone, s') \<Rightarrow> (Inr ctxDone, s'))"

fun register_loop :: "nat \<Rightarrow> 's RunConfig \<Rightarrow> MachineHardwareSpec \<Rightarrow> ('s, RegisterResult) kio" where
  "register_loop 0 cfg hardware = raise Diverged"
| "register_loop (Suc n) cfg hardware =
     bindK (attempt (Register (rn_client cfg) (cmd_token (rn_cmdline cfg)) hardware)) (\<lambda>x. case x of
         Inr result \<Rightarrow> ret result
       | Inl e \<Rightarrow>
           bindK (await cfg (if rn_registerRetryInterval cfg \<le> 0 then DefaultRegisterRetryInterval else rn_registerRetryInterval cfg)) (\<lambda>ctxDone.
           if ctxDone then raise (PlainError ''context canceled'') else register_loop n cfg hardware))"

definition dispatchDeploy :: "'s RunConfig \<Rightarrow> DeployPlan \<Rightarrow> ('s, unit) kio" where
  "dispatchDeploy cfg plan = (case rn_deploy cfg of None \<Rightarrow> ret () | Some deploy \<Rightarrow> ignoring (deploy plan))"

definition poll_once :: "'s RunConfig \<Rightarrow> string \<Rightarrow> ('s, duration) kio" where
  "poll_once cfg session =
     bindK (attempt (Next (rn_client cfg) session)) (\<lambda>x. case x of
         Inl e \<Rightarrow> ret AgentDefaultPollInterval
       | Inr (action, poll) \<Rightarrow>
           bindK (case action of NextActionDeploy plan \<Rightarrow> dispatchDeploy cfg plan | NextActionWait \<Rightarrow> ret ()) (\<lambda>_.
           ret (if poll > 0 then poll * second else AgentDefaultPollInterval)))"

fun poll_loop :: "nat \<Rightarrow> 's RunConfig \<Rightarrow> string \<Rightarrow> ('s, unit) kio" where
  "poll_loop 0 cfg session = raise Diverged"
| "poll_loop (Suc n) cfg session = (\<lambda>s.
     if rn_done cfg s then (Inr (), s)
     else bindK (poll_once cfg session) (\<lambda>interval.
          bindK (await cfg interval) (\<lambda>ctxDone. if ctxDone then ret () else poll_loop n cfg session)) s)"

definition Run :: "'s RunConfig \<Rightarrow> ('s, unit) kio" where
  "Run cfg =
     (if cmd_server (rn_cmdline cfg) = '''' \<or> cmd_token (rn_cmdline cfg) = '''' then ret ()
      else bindK (wrapK ''collecting hardware inventory'' (rn_collect cfg)) (\<lambda>hardware.
           bindK (register_loop (rn_fuel cfg) cfg hardware) (\<lambda>result.
           bindK (\<lambda>s. (Inr (), rn_onRegistered cfg result s)) (\<lambda>_.
           poll_loop (rn_fuel cfg) cfg (rr_sessionToken result)))))"

end
