(* ===== verification/Live_Logic.thy ===== *)
theory Live_Logic
  imports Live_Agent
begin

text \<open>
  A logic for what the live agent does: \<open>emits Q m\<close> says that the events \<open>m\<close> adds to the log, taken with
  the value or error it ends in, satisfy \<open>Q\<close>. The rules follow the constructs the executor is written
  in; \<open>within P m\<close> is the special case in which every event satisfies \<open>P\<close>.
\<close>

named_theorems within_intros \<open>rules of \<open>within\<close>\<close>

definition emits :: "(kerr + 'a \<Rightarrow> (live_event \<times> bool) list \<Rightarrow> bool) \<Rightarrow> ('s, 'a) lact \<Rightarrow> bool" where
  "emits Q m \<longleftrightarrow> (\<forall>w. \<exists>es. log (snd (m w)) = log w @ es \<and> Q (fst (m w)) es)"

lemma emits_run:
  assumes "emits Q m" "m w = (r, w')"
  obtains es where "log w' = log w @ es" "Q r es"
  using assms unfolding emits_def by (metis fst_conv snd_conv)

lemma emits_mono: "emits P m \<Longrightarrow> (\<And>r es. P r es \<Longrightarrow> Q r es) \<Longrightarrow> emits Q m"
  unfolding emits_def by meson

lemma emits_ret: "Q (Inr x) [] \<Longrightarrow> emits Q (ret x)"
  by (simp add: emits_def ret_def)

lemma emits_raise: "Q (Inl err) [] \<Longrightarrow> emits Q (raise err)"
  by (simp add: emits_def raise_def)

lemma emits_perform: "(\<And>r. Q r [(ev, \<not> isl r)]) \<Longrightarrow> emits Q (perform ev op)"
  by (auto simp: emits_def perform_def split: prod.splits)

lemma emits_bind:
  assumes m: "emits P m" and f: "\<And>x es. P (Inr x) es \<Longrightarrow> emits (R x) (f x)"
    and err: "\<And>err es. P (Inl err) es \<Longrightarrow> Q (Inl err) es"
    and ok: "\<And>x es r es'. P (Inr x) es \<Longrightarrow> R x r es' \<Longrightarrow> Q r (es @ es')"
  shows "emits Q (bindK m f)"
  unfolding emits_def
proof
  fix w
  obtain r w1 where run: "m w = (r, w1)" by fastforce
  obtain es where es: "log w1 = log w @ es" "P r es"
    by (rule emits_run [OF m run])
  show "\<exists>es. log (snd (bindK m f w)) = log w @ es \<and> Q (fst (bindK m f w)) es"
  proof (cases r)
    case (Inl a)
    then show ?thesis using run es err by (simp add: bindK_def)
  next
    case (Inr x)
    obtain r' w2 where run': "f x w1 = (r', w2)" by fastforce
    obtain es' where "log w2 = log w1 @ es'" "R x r' es'"
      using emits_run [OF f run'] es(2) Inr by blast
    then show ?thesis using run run' es ok Inr by (auto simp: bindK_def)
  qed
qed

lemma emits_wrap:
  assumes "emits P m" and "\<And>err es. P (Inl err) es \<Longrightarrow> Q (Inl (if is_abort err then err else Wrapped c err)) es"
    and "\<And>x es. P (Inr x) es \<Longrightarrow> Q (Inr x) es"
  shows "emits Q (wrapK c m)"
  unfolding emits_def
proof
  fix w
  obtain r w1 where run: "m w = (r, w1)" by fastforce
  obtain es where "log w1 = log w @ es" "P r es" by (rule emits_run [OF assms(1) run])
  then show "\<exists>es. log (snd (wrapK c m w)) = log w @ es \<and> Q (fst (wrapK c m w)) es"
    using run assms(2,3) by (cases r) (auto simp: wrapK_def)
qed

lemma emits_attempt:
  assumes "emits P m" and "\<And>err es. P (Inl err) es \<Longrightarrow> Q (if is_abort err then Inl err else Inr (Inl err)) es"
    and "\<And>x es. P (Inr x) es \<Longrightarrow> Q (Inr (Inr x)) es"
  shows "emits Q (attempt m)"
  unfolding emits_def
proof
  fix w
  obtain r w1 where run: "m w = (r, w1)" by fastforce
  obtain es where "log w1 = log w @ es" "P r es" by (rule emits_run [OF assms(1) run])
  then show "\<exists>es. log (snd (attempt m w)) = log w @ es \<and> Q (fst (attempt m w)) es"
    using run assms(2,3) by (cases r) (auto simp: attempt_def)
qed

section \<open>Every event\<close>

definition within :: "(live_event \<Rightarrow> bool) \<Rightarrow> ('s, 'a) lact \<Rightarrow> bool" where
  "within P m \<longleftrightarrow> emits (\<lambda>r es. \<forall>x\<in>set es. P (fst x)) m"

lemma within_ret [within_intros]: "within P (ret x)"
  unfolding within_def by (rule emits_ret) simp

lemma within_raise [within_intros]: "within P (raise err)"
  unfolding within_def by (rule emits_raise) simp

lemma within_perform: "P ev \<Longrightarrow> within P (perform ev op)"
  unfolding within_def by (rule emits_perform) simp

lemma within_bind [within_intros]:
  assumes "within P m" "\<And>x. within P (f x)"
  shows "within P (bindK m f)"
  unfolding within_def
  by (rule emits_bind [OF assms [unfolded within_def]]) auto

lemma within_wrap [within_intros]: "within P m \<Longrightarrow> within P (wrapK c m)"
  unfolding within_def by (erule emits_wrap) auto

lemma within_attempt [within_intros]: "within P m \<Longrightarrow> within P (attempt m)"
  unfolding within_def by (erule emits_attempt) auto

lemma within_ignoring [within_intros]: "within P m \<Longrightarrow> within P (ignoring m)"
  unfolding ignoring_def by (intro within_intros)

lemma within_if [within_intros]: "(b \<Longrightarrow> within P m) \<Longrightarrow> (\<not> b \<Longrightarrow> within P m') \<Longrightarrow> within P (if b then m else m')"
  by simp

lemma within_option [within_intros]: "(o' = None \<Longrightarrow> within P m) \<Longrightarrow> (\<And>x. o' = Some x \<Longrightarrow> within P (f x)) \<Longrightarrow> within P (case o' of None \<Rightarrow> m | Some x \<Rightarrow> f x)"
  by (cases o') auto

lemma within_sum [within_intros]: "(\<And>x. v = Inl x \<Longrightarrow> within P (f x)) \<Longrightarrow> (\<And>y. v = Inr y \<Longrightarrow> within P (g y)) \<Longrightarrow> within P (case v of Inl x \<Rightarrow> f x | Inr y \<Rightarrow> g y)"
  by (cases v) auto

lemma within_prod [within_intros]: "(\<And>x y. v = (x, y) \<Longrightarrow> within P (f x y)) \<Longrightarrow> within P (case v of (x, y) \<Rightarrow> f x y)"
  by (cases v) auto

lemma within_let [within_intros]: "within P (f x) \<Longrightarrow> within P (let y = x in f y)"
  by simp

lemma within_each [within_intros]: "(\<And>x. x \<in> set xs \<Longrightarrow> within P (f x)) \<Longrightarrow> within P (eachK f xs)"
  by (induction xs) (auto intro: within_intros)

lemma within_deferring [within_intros]: "within P cleanup \<Longrightarrow> within P m \<Longrightarrow> within P (deferring cleanup m)"
  unfolding deferring_def by (intro within_intros)

lemma within_mono: "within P m \<Longrightarrow> (\<And>ev. P ev \<Longrightarrow> Q ev) \<Longrightarrow> within Q m"
  unfolding within_def by (erule emits_mono) auto

lemma within_run_cmd:
  "P (Ran \<lparr>cm_timeout = timeout, cm_env = [], cm_stdin = stdin, cm_name = name, cm_args = args\<rparr>) \<Longrightarrow> within P (run_cmd e timeout stdin name args)"
  unfolding run_cmd_def Let_def by (rule within_perform)

lemma within_report: "(\<And>req. P (Report req)) \<Longrightarrow> within P (report e plan step st msg pct bytes parts)"
proof -
  assume P: "\<And>req. P (Report req)"
  have "within P (\<lambda>w. ignoring (perform (Report (req w)) (send (req w))) w)" for req :: "'a live \<Rightarrow> ProgressRequest" and send
    unfolding within_def emits_def
  proof
    fix w
    have "within P (ignoring (perform (Report (req w)) (send (req w))))"
      by (intro within_ignoring within_perform P)
    then show "\<exists>es. log (snd (ignoring (perform (Report (req w)) (send (req w))) w)) = log w @ es \<and> (\<forall>x\<in>set es. P (fst x))"
      unfolding within_def emits_def by blast
  qed
  then show ?thesis
    unfolding report_def Let_def by (intro within_option within_ret)
qed

lemma within_reports [within_intros]:
  assumes "\<And>req. P (Report req)"
  shows "within P (reportRunning e plan step)" "within P (reportSucceeded e plan step msg)" "within P (reportFailed e plan step msg)"
    "within P (reportPartitionComplete e plan step n)" "within P (reportProgress e plan step pct bytes parts)"
  unfolding reportRunning_def reportSucceeded_def reportFailed_def reportPartitionComplete_def reportProgress_def
  by (intro within_report assms)+

end
