(* ===== verification/Live_Properties.thy ===== *)
theory Live_Properties
  imports Live_Logic Plan_Properties Agent_Reports
begin

text \<open>
  What the live agent's deploy does: which commands it runs and after which checks, what it reports
  and what the reports make of the DeployRun, that a plan the builder made passes the agent's own
  checks, and the boot chain it leaves on an EFI system partition.
\<close>

section \<open>What a deploy touches\<close>

definition plan_disks :: "DeployPlan \<Rightarrow> string set" where
  "plan_disks plan = k_disk ` set (diskPlans plan)"

definition plan_devices :: "DeployPlan \<Rightarrow> string set" where
  "plan_devices plan = (\<Union>dp\<in>set (diskPlans plan). (\<lambda>s. DevicePartitionPath (k_disk dp) (ds_number s)) ` set (k_slots dp))"

definition hook_commands :: "string set" where
  "hook_commands = {''mkswap'', ''efibootmgr'', ''mount'', ''umount'', ''growpart'', ''resize2fs'', ''xfs_growfs'', ''btrfs'', ''/bin/sh''}"

definition allowed_command :: "DeployPlan \<Rightarrow> command \<Rightarrow> bool" where
  "allowed_command plan c \<longleftrightarrow>
     (if cm_timeout c \<noteq> None then cm_name c \<in> hook_commands
      else cm_name c = ''sfdisk'' \<and> (\<exists>d\<in>plan_disks plan. cm_args c = [d]) \<or>
        cm_name c = ''blockdev'' \<and> (\<exists>d\<in>plan_disks plan. cm_args c \<in> {[''--getsize64'', d], [''--rereadpt'', d]}) \<or>
        (hasPrefix (cm_name c) ''mkfs.'' \<or> cm_name c = ''mkswap'') \<and> cm_args c \<noteq> [] \<and> last (cm_args c) \<in> plan_devices plan \<or>
        cm_name c = ''systemctl'' \<and> cm_args c \<in> {[''reboot''], [''poweroff'']})"

fun allowed :: "DeployPlan \<Rightarrow> live_event \<Rightarrow> bool" where
  "allowed plan (Ran c) = allowed_command plan c"
| "allowed plan (AddTorrent t device seedMode u c) = (device \<in> plan_devices plan)"
| "allowed plan _ = True"

definition size_query :: "diskPlan \<Rightarrow> command" where
  "size_query dp = \<lparr>cm_timeout = None, cm_env = [], cm_stdin = None, cm_name = ''blockdev'', cm_args = [''--getsize64'', k_disk dp]\<rparr>"

lemma structure_sound:
  assumes "check_structure ss plans = None"
  shows "distinct (map k_disk plans) \<and> set (map k_disk plans) \<inter> set ss = {} \<and>
    (\<forall>dp\<in>set plans. hasPrefix (k_disk dp) ''/dev/'' \<and> (\<forall>s\<in>set (k_slots dp). ds_device s = DevicePartitionPath (k_disk dp) (ds_number s)))"
  using assms
proof (induction ss plans rule: check_structure.induct)
  case (2 ss dp dps)
  have dp: "hasPrefix (k_disk dp) ''/dev/''" "k_disk dp \<notin> set ss" "\<forall>s\<in>set (k_slots dp). ds_device s = DevicePartitionPath (k_disk dp) (ds_number s)"
    and rest: "check_structure (k_disk dp # ss) dps = None"
    using 2(2) by (simp_all split: if_splits)
  have "distinct (map k_disk dps) \<and> set (map k_disk dps) \<inter> set (k_disk dp # ss) = {} \<and>
      (\<forall>dp\<in>set dps. hasPrefix (k_disk dp) ''/dev/'' \<and> (\<forall>s\<in>set (k_slots dp). ds_device s = DevicePartitionPath (k_disk dp) (ds_number s)))"
    using 2(1) dp rest by blast
  then show ?case using dp by simp
qed simp

lemma structure_devices:
  assumes "check_structure [] (diskPlans plan) = None" "dp \<in> set (diskPlans plan)" "s \<in> set (k_slots dp)"
  shows "ds_device s \<in> plan_devices plan"
  using structure_sound [OF assms(1)] assms(2,3) by (auto simp: plan_devices_def)

lemma within_mkfs:
  "ds_device s \<in> plan_devices plan \<Longrightarrow> within (allowed plan) (runMkfs e m s)"
  unfolding runMkfs_def
  by (intro within_intros within_run_cmd) (simp add: allowed_command_def mkfs_args_def hasPrefix_def)

lemma within_mkswap:
  "ds_device s \<in> plan_devices plan \<Longrightarrow> within (allowed plan) (runMkswap e timeout sw s)"
  unfolding runMkswap_def
  by (intro within_intros within_run_cmd) (simp add: allowed_command_def hook_commands_def)

lemma within_writeSlots:
  assumes "check_structure [] (diskPlans plan) = None" "dp \<in> set (diskPlans plan)"
  shows "within (allowed plan) (writeSlots e plan dp)"
  unfolding writeSlots_def writeSlot_def Let_def
  by (intro within_intros within_perform within_mkfs within_mkswap structure_devices [OF assms]; simp add: structure_devices [OF assms])

lemma within_tables:
  assumes "dp \<in> set (diskPlans plan)"
  shows "within (allowed plan) (writePartitionTable e dp)"
  unfolding writePartitionTable_def
  by (intro within_intros within_run_cmd) (use assms in \<open>auto simp: allowed_command_def plan_disks_def hasPrefix_def\<close>)

lemma within_seed_loop: "within (allowed plan) (seed_loop n e plan plans)"
proof (induction n)
  case (Suc n)
  have tick: "within (allowed plan) (await_tick e)"
    by (auto simp: within_def emits_def await_tick_def split: prod.splits)
  show ?case
    unfolding seed_loop.simps seed_turn_def
    by (intro within_intros within_perform tick Suc) simp_all
qed (simp add: within_raise)

fun hook_event :: "live_event \<Rightarrow> bool" where
  "hook_event (Ran c) = (cm_timeout c \<noteq> None \<and> cm_name c \<in> hook_commands)"
| "hook_event MakeTemp = True"
| "hook_event (WriteTemp p c) = True"
| "hook_event (ChmodTemp p) = True"
| "hook_event (RemovePath p) = True"
| "hook_event (TouchEsp p) = True"
| "hook_event _ = False"

lemma within_hook_cmd: "name \<in> hook_commands \<Longrightarrow> within hook_event (run_cmd e (Some timeout) stdin name args)"
  by (rule within_run_cmd) simp

lemma within_efibootmgr: "within hook_event (runBuiltinEfibootmgr e timeout p params)"
  unfolding runBuiltinEfibootmgr_def ensureEFIBootEntry_def
  by (intro within_intros within_hook_cmd) (simp_all add: hook_commands_def)

lemma within_grow: "within hook_event (runBuiltinGrowLastPartition e timeout p params)"
  unfolding runBuiltinGrowLastPartition_def growLastPartition_def
  by (intro within_intros within_hook_cmd) (auto simp: hook_commands_def fsResizeCommand_def split: if_splits)

lemma within_fallback: "within hook_event (runBuiltinInstallRemovableFallback e timeout p params)"
proof -
  have "within hook_event (unmountAll e ms)" for ms
    unfolding unmountAll_def unmount_def
    by (intro within_intros within_hook_cmd) (simp_all add: hook_commands_def)
  then have "within hook_event (installRemovableFallback e timeout device)" for device
    unfolding installRemovableFallback_def
    by (auto intro!: within_intros within_hook_cmd within_perform simp: hook_commands_def split: sum.split)
  then show ?thesis
    unfolding runBuiltinInstallRemovableFallback_def by (intro within_intros)
qed

lemma within_hooks: "within hook_event (runHooks e plan)"
proof -
  have "within hook_event (runBuiltinStep e timeout plan step)" for timeout step
    unfolding runBuiltinStep_def runBuiltinMkswap_def runMkswap_def
    by (intro within_intros within_hook_cmd within_efibootmgr within_grow within_fallback) (simp add: hook_commands_def)
  moreover have "within hook_event (runScriptStep e timeout plan step)" for timeout step
    unfolding runScriptStep_def Let_def
    by (intro within_intros within_perform) (simp_all add: hook_commands_def)
  ultimately have "within hook_event (runHookStep e timeout plan step)" for timeout step
    unfolding runHookStep_def by (cases "hs_type step") (auto intro: within_raise)
  then show ?thesis
    unfolding runHooks_def by (intro within_intros)
qed

lemma hook_event_allowed: "hook_event ev \<Longrightarrow> allowed plan ev"
  by (cases ev) (auto simp: allowed_command_def)

lemma within_at_step: "within P m \<Longrightarrow> (\<And>x. within P (k x)) \<Longrightarrow> within P (at_step step m k)"
  unfolding at_step_def by (intro within_intros)

lemma within_after_checks:
  assumes "check_structure [] (diskPlans plan) = None"
  shows "within (allowed plan) (at_step PhasePartitioning (write_tables e plan (diskPlans plan)) (\<lambda>_.
     at_step PhaseWritingContent (launch_ezio e plan (diskPlans plan)) (\<lambda>_.
     if hasTorrentSlot (diskPlans plan) then deferring (ignoring (perform StopEzio (ex_stop e))) (after_launch e plan (diskPlans plan))
     else after_launch e plan (diskPlans plan))))"
proof -
  have tables: "within (allowed plan) (write_tables e plan (diskPlans plan))"
    unfolding write_tables_def by (intro within_intros within_tables) simp_all
  have content: "within (allowed plan) (write_content e plan (diskPlans plan))"
    unfolding write_content_def seedUntilStopped_def
    by (intro within_intros within_perform within_writeSlots [OF assms] within_seed_loop) simp_all
  have finish: "within (allowed plan) (finish e plan)"
    unfolding finish_def writeConsole_def rebootOrPowerOff_def Let_def
    by (intro within_intros within_perform within_run_cmd) (simp_all add: allowed_command_def hasPrefix_def)
  have hooks: "within (allowed plan) (run_post_hooks e plan)"
    unfolding run_post_hooks_def by (intro within_intros within_mono [OF within_hooks hook_event_allowed]) simp_all
  have "within (allowed plan) (after_launch e plan (diskPlans plan))"
    unfolding after_launch_def by (intro within_at_step within_intros content hooks finish) simp_all
  then show ?thesis
    unfolding launch_ezio_def by (intro within_at_step within_intros within_perform tables) simp_all
qed

section \<open>Checks before the first write\<close>

lemma checkDiskSize_emits:
  "emits (\<lambda>r es. isl r \<and> es = [] \<or> (\<exists>ok. es = [(Ran (size_query dp), ok)] \<and> (isl r \<or> ok))) (checkDiskSize e dp)"
proof -
  have query: "emits (\<lambda>r es. es = [(Ran (size_query dp), \<not> isl r)]) (run_cmd e None None ''blockdev'' [''--getsize64'', k_disk dp])"
    unfolding run_cmd_def Let_def size_query_def by (rule emits_perform) simp
  have asked: "emits (\<lambda>r es. es = [(Ran (size_query dp), \<not> isl r)])
      (wrapK ''checking disk exists and is readable'' (run_cmd e None None ''blockdev'' [''--getsize64'', k_disk dp]))"
    by (rule emits_wrap [OF query]) auto
  show ?thesis
  proof (cases "MinimumDiskBytes (ex_unmarshal e) (k_sfdiskScript dp)")
    case (Inr minBytes)
    show ?thesis
      unfolding checkDiskSize_def Inr sum.case
      by (rule emits_bind [OF asked, where R = "\<lambda>x r es. es = []"]) (auto intro: emits_raise emits_ret split: option.split)
  qed (simp add: checkDiskSize_def emits_raise)
qed

lemma each_checked:
  "emits (\<lambda>r es. (\<forall>x\<in>set es. \<exists>dp\<in>set xs. fst x = Ran (size_query dp)) \<and> (isl r \<or> (\<forall>dp\<in>set xs. (Ran (size_query dp), True) \<in> set es)))
     (eachK (checkDiskSize e) xs)"
proof (induction xs)
  case (Cons dp xs)
  show ?case
    unfolding eachK.simps by (rule emits_bind [OF checkDiskSize_emits Cons]) auto
qed (simp add: emits_ret)

lemma validate_emits:
  "emits (\<lambda>r es. (\<forall>x\<in>set es. \<exists>dp\<in>set plans. fst x = Ran (size_query dp)) \<and>
     (isl r \<or> check_structure [] plans = None \<and> (\<forall>dp\<in>set plans. (Ran (size_query dp), True) \<in> set es))) (validate e plans)"
  unfolding validate_def
  by (cases "check_structure [] plans") (auto intro: emits_raise emits_mono [OF each_checked])

definition is_report :: "live_event \<Rightarrow> bool" where
  "is_report ev \<longleftrightarrow> (\<exists>req. ev = Report req)"

definition checked_first :: "DeployPlan \<Rightarrow> (live_event \<times> bool) list \<Rightarrow> bool" where
  "checked_first plan es \<longleftrightarrow> (\<exists>pre post. es = pre @ post \<and>
     (\<forall>x\<in>set pre. \<exists>dp\<in>set (diskPlans plan). fst x = Ran (size_query dp)) \<and> (\<forall>x\<in>set post. allowed plan (fst x)) \<and>
     ((\<exists>x\<in>set post. \<not> is_report (fst x)) \<longrightarrow> check_structure [] (diskPlans plan) = None \<and>
        (\<forall>dp\<in>set (diskPlans plan). (Ran (size_query dp), True) \<in> set pre)))"

lemma checked_report: "checked_first plan es \<Longrightarrow> (\<forall>x\<in>set es'. is_report (fst x)) \<Longrightarrow> checked_first plan (es @ es')"
  unfolding checked_first_def is_report_def
  by (elim exE conjE) (rule_tac x = pre in exI, rule_tac x = "post @ es'" in exI, auto)

lemma execute_plan_emits: "emits (\<lambda>r. checked_first plan) (execute_plan e plan (diskPlans plan))"
proof -
  let ?plans = "diskPlans plan"
  let ?V = "\<lambda>r es. (\<forall>x\<in>set es. \<exists>dp\<in>set ?plans. fst x = Ran (size_query dp)) \<and>
     (isl r \<or> check_structure [] ?plans = None \<and> (\<forall>dp\<in>set ?plans. (Ran (size_query dp), True) \<in> set es))"
  let ?W = "\<lambda>r es. (\<forall>x\<in>set es. \<exists>dp\<in>set ?plans. fst x = Ran (size_query dp)) \<and>
     (\<forall>u. r = Inr (Inr u) \<longrightarrow> check_structure [] ?plans = None \<and> (\<forall>dp\<in>set ?plans. (Ran (size_query dp), True) \<in> set es))"
  have v: "emits ?W (attempt (wrapK ''refusing to deploy'' (validate e ?plans)))"
    by (rule emits_attempt [OF emits_wrap [OF validate_emits, where Q = ?V]]) auto
  have none: "checked_first plan es" if "\<forall>x\<in>set es. \<exists>dp\<in>set ?plans. fst x = Ran (size_query dp)" for es
    using that unfolding checked_first_def by (intro exI [of _ es] exI [of _ "[]"]) auto
  show ?thesis
    unfolding execute_plan_def at_step_def [of PhasePartitioning "wrapK _ _"]
  proof (rule emits_bind [OF v, where R = "\<lambda>x r es. case x of Inl err \<Rightarrow> es = [] | Inr u \<Rightarrow> \<forall>x\<in>set es. allowed plan (fst x)"], goal_cases)
    case (1 x es)
    then show ?case
      using within_after_checks [of plan e] by (cases x) (auto simp: within_def emits_ret)
  next
    case (3 x es r es')
    show ?case
    proof (cases x)
      case (Inr u)
      then show ?thesis using 3 unfolding checked_first_def by (intro exI [of _ es] exI [of _ es']) auto
    qed (use 3 none in auto)
  qed (auto intro: none)
qed

text \<open>
  C5: the live agent destroys nothing it was not told to: every event
  of a deploy before the first write is the size query of one of the plan's disks, every later one is
  a command on a disk or a partition device of the plan (or one of the fixed commands of a hook step),
  and anything but a report happens only if the plan is valid, its disks are distinct absolute
  devices, every slot's device is the one its disk and number give, and the size of every disk has
  been read back successfully.
\<close>

theorem deploy_writes_only_after_checks:
  "\<exists>pre post. log (snd (Execute e plan w)) = log w @ pre @ post \<and>
     (\<forall>x\<in>set pre. \<exists>dp\<in>set (diskPlans plan). fst x = Ran (size_query dp)) \<and> (\<forall>x\<in>set post. allowed plan (fst x)) \<and>
     ((\<exists>x\<in>set post. \<not> is_report (fst x)) \<longrightarrow> Validate plan = None \<and> distinct (map k_disk (diskPlans plan)) \<and>
        (\<forall>dp\<in>set (diskPlans plan). hasPrefix (k_disk dp) ''/dev/'' \<and> (Ran (size_query dp), True) \<in> set pre \<and>
           (\<forall>s\<in>set (k_slots dp). ds_device s = DevicePartitionPath (k_disk dp) (ds_number s))))"
proof (cases "Validate plan")
  case None
  have reports: "within is_report (case r of None \<Rightarrow> ret () | Some (step, err) \<Rightarrow> bindK (reportFailed e plan step (error_text err)) (\<lambda>_. raise err))" for r
    by (intro within_intros) (simp add: is_report_def)
  have "emits (\<lambda>r. checked_first plan) (Execute e plan)"
    unfolding Execute_def None option.case
    by (rule emits_bind [OF execute_plan_emits reports [unfolded within_def]]) (auto intro: checked_report)
  then obtain es where es: "log (snd (Execute e plan w)) = log w @ es" "checked_first plan es"
    unfolding emits_def by blast
  from es(2) obtain pre post where split: "es = pre @ post" "\<forall>x\<in>set pre. \<exists>dp\<in>set (diskPlans plan). fst x = Ran (size_query dp)"
    "\<forall>x\<in>set post. allowed plan (fst x)"
    "(\<exists>x\<in>set post. \<not> is_report (fst x)) \<longrightarrow> check_structure [] (diskPlans plan) = None \<and> (\<forall>dp\<in>set (diskPlans plan). (Ran (size_query dp), True) \<in> set pre)"
    unfolding checked_first_def by blast
  show ?thesis
    using es(1) split None structure_sound [of "[]" "diskPlans plan"] by (intro exI [of _ pre] exI [of _ post]) auto
next
  case (Some verr)
  then show ?thesis
    by (intro exI [of _ "[]"]) (simp add: Execute_def raise_def)
qed

section \<open>A machine to deploy on\<close>

definition lab_table :: sfdiskJSONTable where
  "lab_table = \<lparr>st_label = ''gpt'', st_id = '''', st_sectorSize = 0,
     st_partitions = [\<lparr>sp_node = ''/dev/loop0p1'', sp_start = 2, sp_size = 5, sp_type = '''', sp_uuid = '''', sp_name = '''', sp_bootable = False\<rparr>]\<rparr>"

definition done_torrent :: Torrent where
  "done_torrent = \<lparr>to_hash = ''h'', to_isFinished = True, to_isPaused = True, to_totalDone = 10, to_total = 10,
     to_totalPayloadUpload = 0, to_finishedTime = 100, to_lastUpload = -1\<rparr>"

definition lab_esp :: esp where
  "lab_esp = \<lparr>fs_nodes = [], fs_fold = id, fs_fault = (\<lambda>_. False)\<rparr>"

text \<open>The state is what the fake machine keeps: nothing but whether the next command fails.\<close>

definition lab_executor :: "(command \<Rightarrow> bool) \<Rightarrow> unit Executor" where
  "lab_executor fails = \<lparr>
     ex_run = (\<lambda>c s. (if fails c then Inl (PlainError ''exit status 1'') else Inr (if take 1 (cm_args c) = [''--getsize64''] then ''9999'' else ''''), s)),
     ex_launch = (\<lambda>c s. (Inr (), s)), ex_addTorrent = (\<lambda>t d m u c s. (Inr (), s)),
     ex_getTorrentStatus = (\<lambda>hs s. (Inr (map (\<lambda>h. (h, done_torrent)) hs), s)),
     ex_pauseTorrent = (\<lambda>h s. (Inr (), s)), ex_shutdown = (\<lambda>s. (Inr (), s)), ex_stop = (\<lambda>s. (Inr (), s)),
     ex_fetchTorrent = (\<lambda>u s. (Inr ''torrent'', s)), ex_progress = Some (\<lambda>req s. (Inr (), s)), ex_console = None,
     ex_pollInterval = 0, ex_now = (\<lambda>s. 7), ex_tick = (\<lambda>d s. (False, s)), ex_mkTemp = (\<lambda>s. (Inr ''/tmp/x'', s)),
     ex_writeTemp = (\<lambda>p c s. (Inr (), s)), ex_chmod = (\<lambda>p s. (Inr (), s)), ex_remove = (\<lambda>p s. (Inr (), s)),
     ex_unmarshal = (\<lambda>t. Inr lab_table), ex_goarch = ''amd64'', ex_esp = (\<lambda>m s. lab_esp), ex_putEsp = (\<lambda>m f s. s), ex_fuel = 3\<rparr>"

definition lab_plan :: DeployPlan where
  "lab_plan = \<lparr>dp_schemaVersion = AgentSchemaVersion, dp_runName = ''run'', dp_runUID = ''ru'', dp_machineName = ''m'', dp_targetDisk = ''/dev/sda'',
     dp_sfdiskScript = ''{}'',
     dp_slots = [\<lparr>ds_number = 1, ds_device = ''/dev/sda1'', ds_torrent = Some \<lparr>dt_url = ''u'', dt_infoHash = ''h''\<rparr>, ds_mkfs = None, ds_swap = None\<rparr>,
       \<lparr>ds_number = 2, ds_device = ''/dev/sda2'', ds_torrent = None, ds_mkfs = None, ds_swap = Some \<lparr>dw_uuid = ''''\<rparr>\<rparr>],
     dp_dataImages = [], dp_hooks = [\<lparr>rh_name = ''hook'', rh_steps = [\<lparr>hs_type = HookStepTypeScript, hs_builtin = '''', hs_params = Map.empty,
       hs_content = ''true'', hs_osFamily = '''', hs_timeoutSeconds = 5\<rparr>]\<rparr>],
     dp_afterDeploy = '''', dp_maxUploads = 0, dp_maxConnections = 0, dp_cacheSizeMB = None, dp_aioThreads = None, dp_port = None\<rparr>"

definition lab :: "unit live" where
  "lab = \<lparr>mach = (), log = []\<rparr>"

lemma show_small: "show_int 1 = ''1''" "show_int 2 = ''2''"
  by (code_simp)+

lemma lab_numbers: "atoi (trim_space ''9999'') = Some 9999"
  by code_simp

lemma lab_min: "MinimumDiskBytes (\<lambda>t. Inr lab_table) j = Inr 3584"
  by (simp add: MinimumDiskBytes_def lab_table_def partition_end_def wrap64_def)

lemma lab_disks: "diskPlans lab_plan = [\<lparr>k_label = ''OS image'', k_disk = ''/dev/sda'', k_sfdiskScript = ''{}'', k_slots = dp_slots lab_plan\<rparr>]"
  by (simp add: diskPlans_def lab_plan_def)

lemma lab_valid: "Validate lab_plan = None" "check_structure [] (diskPlans lab_plan) = None"
  subgoal by (simp add: lab_plan_def Validate_def validateSlots_def slot_kinds_def validateHookStep_def)
  subgoal unfolding lab_disks by (simp add: lab_plan_def DevicePartitionPath_def hasPrefix_def is_digit_def show_small)
  done

lemma lab_script: "\<exists>x. SfdiskScript (\<lambda>t. Inr lab_table) j d = Inr x"
  by (simp add: SfdiskScript_def lab_table_def)


text \<open>Once no command fails, every stage of a deploy of this plan returns.\<close>

definition returns :: "('s, 'a) lact \<Rightarrow> 'a \<Rightarrow> bool" where
  "returns m x \<longleftrightarrow> (\<forall>w. \<exists>w'. m w = (Inr x, w'))"

lemma returns_ret: "returns (ret x) x"
  by (simp add: returns_def ret_def)

lemma returns_bind: "returns m x \<Longrightarrow> returns (f x) y \<Longrightarrow> returns (bindK m f) y"
  unfolding returns_def bindK_def by (metis (no_types, lifting) old.prod.case sum.case(2))

lemma returns_wrap: "returns m x \<Longrightarrow> returns (wrapK c m) x"
  unfolding returns_def wrapK_def by (metis (no_types, lifting) old.prod.case sum.case(2))

lemma returns_attempt: "returns m x \<Longrightarrow> returns (attempt m) (Inr x)"
  unfolding returns_def attempt_def by (metis (no_types, lifting) old.prod.case sum.case(2))

lemma returns_perform: "(\<And>s. \<exists>s'. op s = (Inr x, s')) \<Longrightarrow> returns (perform ev op) x"
  unfolding returns_def perform_def by (metis (no_types, lifting) old.prod.case)

lemma returns_ignoring: "returns m x \<Longrightarrow> returns (ignoring m) ()"
  unfolding ignoring_def by (rule returns_bind [OF returns_attempt returns_ret])

lemma returns_deferring: "returns c () \<Longrightarrow> returns m x \<Longrightarrow> returns (deferring c m) x"
  unfolding deferring_def by (rule returns_bind [OF returns_attempt], assumption, rule returns_bind, assumption) (simp add: returns_ret)

lemma returns_each: "(\<And>x. x \<in> set xs \<Longrightarrow> returns (f x) ()) \<Longrightarrow> returns (eachK f xs) ()"
  by (induction xs) (auto intro: returns_ret returns_bind)

lemma returns_at_step: "returns m x \<Longrightarrow> returns (k x) y \<Longrightarrow> returns (at_step step m k) y"
  unfolding at_step_def by (rule returns_bind [OF returns_attempt]) simp_all

text \<open>The only command that may fail is the last one.\<close>

definition only_reboot :: "(command \<Rightarrow> bool) \<Rightarrow> bool" where
  "only_reboot f \<longleftrightarrow> (\<forall>c. f c \<longrightarrow> cm_name c = ''systemctl'')"

lemma lab_fields [simp]:
  "ex_unmarshal (lab_executor f) = (\<lambda>t. Inr lab_table)" "ex_fuel (lab_executor f) = 3" "ex_console (lab_executor f) = None"
  "ex_fetchTorrent (lab_executor f) u s = (Inr ''torrent'', s)" "ex_addTorrent (lab_executor f) t d b n k s = (Inr (), s)"
  "ex_shutdown (lab_executor f) s = (Inr (), s)" "ex_stop (lab_executor f) s = (Inr (), s)" "ex_launch (lab_executor f) c s = (Inr (), s)"
  "ex_getTorrentStatus (lab_executor f) hs s = (Inr (map (\<lambda>h. (h, done_torrent)) hs), s)"
  "ex_mkTemp (lab_executor f) s = (Inr ''/tmp/x'', s)" "ex_writeTemp (lab_executor f) p x s = (Inr (), s)"
  "ex_chmod (lab_executor f) p s = (Inr (), s)" "ex_remove (lab_executor f) p s = (Inr (), s)"
  by (simp_all add: lab_executor_def)

lemma lab_progress: "ex_progress (lab_executor f) = Some (\<lambda>req s. (Inr (), s))"
  by (simp add: lab_executor_def)

lemma lab_report: "returns (report (lab_executor f) plan step st msg pct bytes parts) ()"
  by (simp add: returns_def report_def lab_executor_def ignoring_def perform_def kio_simps Let_def)

lemma lab_perform:
  "only_reboot f \<Longrightarrow> cm_name c \<noteq> ''systemctl'' \<Longrightarrow>
   returns (perform (Ran c) (ex_run (lab_executor f) c)) (if take 1 (cm_args c) = [''--getsize64''] then ''9999'' else '''')"
  by (rule returns_perform) (auto simp: lab_executor_def only_reboot_def)

lemma lab_run:
  "only_reboot f \<Longrightarrow> n \<noteq> ''systemctl'' \<Longrightarrow> returns (run_cmd (lab_executor f) t i n a) (if take 1 a = [''--getsize64''] then ''9999'' else '''')"
  unfolding run_cmd_def Let_def
  using lab_perform [of f "\<lparr>cm_timeout = t, cm_env = [], cm_stdin = i, cm_name = n, cm_args = a\<rparr>"] by simp

lemma lab_reports:
  "returns (reportRunning (lab_executor f) plan step) ()" "returns (reportSucceeded (lab_executor f) plan step msg) ()"
  "returns (reportPartitionComplete (lab_executor f) plan step k) ()" "returns (reportProgress (lab_executor f) plan step pct bytes parts) ()"
  unfolding reportRunning_def reportSucceeded_def reportPartitionComplete_def reportProgress_def by (rule lab_report)+

lemma lab_validate:
  assumes "only_reboot f"
  shows "returns (validate (lab_executor f) (diskPlans lab_plan)) ()"
proof -
  have "returns (checkDiskSize (lab_executor f) dp) ()" for dp
    unfolding checkDiskSize_def lab_fields lab_min sum.case
    by (rule returns_bind [OF returns_wrap [OF lab_run [OF assms]]]) (simp_all add: lab_numbers returns_ret)
  then show ?thesis
    unfolding validate_def lab_valid(2) by (simp add: returns_each)
qed

lemma lab_tables:
  assumes "only_reboot f"
  shows "returns (write_tables (lab_executor f) lab_plan plans) ()"
proof -
  have "returns (writePartitionTable (lab_executor f) dp) ()" for dp
    using lab_script [of "k_sfdiskScript dp" "k_disk dp"]
    by (auto simp: writePartitionTable_def intro!: returns_bind [OF returns_wrap [OF lab_run [OF assms]]] returns_ret)
  then show ?thesis
    unfolding write_tables_def by (intro returns_bind [of _ "()"] lab_reports returns_each)
qed

lemma lab_content:
  assumes "only_reboot f"
  shows "returns (write_content (lab_executor f) lab_plan (diskPlans lab_plan)) ()"
proof -
  have slot: "returns (writeSlot (lab_executor f) lab_plan s) ()" if "s \<in> set (dp_slots lab_plan)" for s
    using that
    by (auto simp: writeSlot_def runMkswap_def lab_plan_def Let_def
        intro!: returns_bind [OF returns_wrap [OF lab_run [OF assms]]] returns_bind [OF returns_wrap [OF returns_perform]] returns_wrap returns_perform returns_ret)
  have "returns (writeSlots (lab_executor f) lab_plan dp) ()" if "dp \<in> set (diskPlans lab_plan)" for dp
    unfolding writeSlots_def using that slot
    by (auto simp: lab_disks intro!: returns_each returns_bind [of _ "()"] lab_reports returns_ret)
  moreover have "returns (seed_turn (lab_executor f) lab_plan (diskPlans lab_plan)) True"
  proof -
    have "torrentHashes (diskPlans lab_plan) = [''h'']" unfolding torrentHashes_def lab_disks by (simp add: lab_plan_def)
    then show ?thesis
      unfolding seed_turn_def
      by (intro returns_bind [OF returns_attempt [OF returns_perform]])
        (auto simp: allStopped_def done_torrent_def shouldPauseTorrent_def intro!: returns_bind [of _ "()"] lab_reports returns_ret)
  qed
  then have "returns (seedUntilStopped (lab_executor f) lab_plan (diskPlans lab_plan)) ()"
    unfolding seedUntilStopped_def lab_fields
    by (auto simp: numeral_3_eq_3 intro!: returns_ret returns_bind [of _ True])
  ultimately show ?thesis
    unfolding write_content_def
    by (intro returns_bind [of _ "()"] returns_each lab_reports)
      (auto intro!: returns_ret returns_bind [of _ "()"] returns_ignoring returns_perform)
qed

lemma lab_hooks:
  assumes "only_reboot f"
  shows "returns (run_post_hooks (lab_executor f) lab_plan) ()"
proof -
  have "returns (runHooks (lab_executor f) lab_plan) ()"
    by (auto simp: runHooks_def lab_plan_def runHookStep_def runScriptStep_def Let_def
        intro!: returns_bind [of _ "()"] returns_ret returns_wrap returns_bind [OF returns_wrap [OF returns_perform], of _ "''/tmp/x''"]
          returns_deferring returns_ignoring returns_perform returns_bind [OF returns_wrap [OF lab_perform [OF assms]]])
  then show ?thesis
    unfolding run_post_hooks_def by (intro returns_bind [of _ "()"] returns_wrap lab_reports)
qed

text \<open>What is left is the step that hands the machine over.\<close>

lemma lab_execute:
  assumes "only_reboot f" "returns (at_step PhaseSucceeded (finish (lab_executor f) lab_plan) (\<lambda>_. ret None)) r"
  shows "returns (execute_plan (lab_executor f) lab_plan (diskPlans lab_plan)) r"
proof -
  have "returns (after_launch (lab_executor f) lab_plan (diskPlans lab_plan)) r"
    unfolding after_launch_def
    by (intro returns_at_step [of _ "()", OF lab_content [OF assms(1)]] returns_at_step [of _ "()", OF lab_hooks [OF assms(1)]]
        returns_at_step [of _ "()" _ _ PhaseFinalizing] returns_bind [of _ "()"] lab_reports assms(2))
  then show ?thesis
    unfolding execute_plan_def launch_ezio_def
    by (intro returns_at_step [of _ "()"] returns_wrap lab_validate [OF assms(1)] lab_tables [OF assms(1)] returns_bind [of _ "()"] lab_reports)
      (auto intro!: returns_deferring returns_ignoring returns_perform returns_wrap returns_ret)
qed

abbreviation healthy :: "unit Executor" where
  "healthy \<equiv> lab_executor (\<lambda>_. False)"

lemma lab_deploys: "fst (Execute healthy lab_plan w) = Inr ()"
proof -
  have run: "returns (run_cmd healthy t i n a) (if take 1 a = [''--getsize64''] then ''9999'' else '''')" for t i n a
    unfolding run_cmd_def Let_def by (rule returns_perform) (simp add: lab_executor_def)
  have "returns (finish healthy lab_plan) ()"
    unfolding finish_def writeConsole_def rebootOrPowerOff_def Let_def lab_fields option.case
    by (intro returns_bind [of _ "()"] lab_reports returns_ret returns_wrap) (intro returns_bind [OF returns_wrap [OF run]] returns_ret)
  then have "returns (execute_plan healthy lab_plan (diskPlans lab_plan)) None"
    by (intro lab_execute returns_at_step [of _ "()"] returns_ret) (simp_all add: only_reboot_def)
  then have "returns (Execute healthy lab_plan) ()"
    unfolding Execute_def lab_valid(1) by (auto intro!: returns_bind [of _ None] returns_ret)
  then show ?thesis unfolding returns_def by (metis fst_conv)
qed

theorem deploy_writes_only_after_checks_witness:
  "\<exists>pre post. log (snd (Execute healthy lab_plan lab)) = pre @ post \<and> fst (Execute healthy lab_plan lab) = Inr () \<and>
     (\<forall>x\<in>set pre. \<exists>dp\<in>set (diskPlans lab_plan). fst x = Ran (size_query dp)) \<and> (\<forall>x\<in>set post. allowed lab_plan (fst x))"
  using deploy_writes_only_after_checks [of healthy lab_plan lab] lab_deploys by (auto simp: lab_def)

section \<open>What a deploy reports\<close>

type_synonym word = "(DeployRunPhase \<times> ProgressState \<times> string) list"

definition reqs_of :: "(live_event \<times> bool) list \<Rightarrow> ProgressRequest list" where
  "reqs_of es = concat (map (\<lambda>(ev, ok). case ev of Report req \<Rightarrow> [req] | _ \<Rightarrow> []) es)"

abbreviation word_of :: "ProgressRequest \<Rightarrow> DeployRunPhase \<times> ProgressState \<times> string" where
  "word_of req \<equiv> (pr_step req, pr_state req, pr_message req)"

definition words :: "(live_event \<times> bool) list \<Rightarrow> word" where
  "words es = map word_of (reqs_of es)"

lemma words_append [simp]: "words (es @ es') = words es @ words es'" "words [] = []"
  by (simp_all add: words_def reqs_of_def)

definition aborted :: "kerr + 'a \<Rightarrow> bool" where
  "aborted r \<longleftrightarrow> (\<exists>err. r = Inl err \<and> is_abort err)"

definition says :: "(kerr + 'a \<Rightarrow> word \<Rightarrow> bool) \<Rightarrow> ('s, 'a) lact \<Rightarrow> bool" where
  "says S m \<longleftrightarrow> emits (\<lambda>r es. aborted r \<or> S r (words es)) m"

lemma says_mono: "says S m \<Longrightarrow> (\<And>r ws. S r ws \<Longrightarrow> T r ws) \<Longrightarrow> says T m"
  unfolding says_def by (erule emits_mono) blast

lemma says_ret: "S (Inr x) [] \<Longrightarrow> says S (ret x)"
  unfolding says_def by (rule emits_ret) simp

lemma says_raise: "S (Inl err) [] \<Longrightarrow> says S (raise err)"
  unfolding says_def by (rule emits_raise) simp

lemma says_bind:
  assumes "says A m" "\<And>x. says (B x) (f x)" "\<And>err ws. A (Inl err) ws \<Longrightarrow> C (Inl err) ws"
    "\<And>x ws r ws'. A (Inr x) ws \<Longrightarrow> B x r ws' \<Longrightarrow> C r (ws @ ws')"
  shows "says C (bindK m f)"
  unfolding says_def
  by (rule emits_bind [OF assms(1,2) [unfolded says_def]]) (use assms(3,4) in \<open>auto simp: aborted_def\<close>)

lemma says_wrap: "says A m \<Longrightarrow> (\<And>err ws. A (Inl err) ws \<Longrightarrow> \<not> is_abort err \<Longrightarrow> C (Inl (Wrapped c err)) ws) \<Longrightarrow> (\<And>x ws. A (Inr x) ws \<Longrightarrow> C (Inr x) ws) \<Longrightarrow> says C (wrapK c m)"
  unfolding says_def by (erule emits_wrap) (auto simp: aborted_def)

lemma says_attempt: "says A m \<Longrightarrow> (\<And>err ws. A (Inl err) ws \<Longrightarrow> \<not> is_abort err \<Longrightarrow> C (Inr (Inl err)) ws) \<Longrightarrow> (\<And>x ws. A (Inr x) ws \<Longrightarrow> C (Inr (Inr x)) ws) \<Longrightarrow> says C (attempt m)"
  unfolding says_def by (erule emits_attempt) (auto simp: aborted_def)

definition quiet_word :: "kerr + 'a \<Rightarrow> word \<Rightarrow> bool" where
  "quiet_word r ws \<longleftrightarrow> ws = []"

lemma says_silent:
  assumes "within (\<lambda>ev. \<not> is_report ev) m"
  shows "says quiet_word m"
proof -
  have "words es = []" if "\<forall>x\<in>set es. \<not> is_report (fst x)" for es
    using that by (induction es) (auto simp: words_def reqs_of_def is_report_def split: live_event.splits)
  then show ?thesis
    using assms unfolding says_def within_def quiet_word_def by (elim emits_mono) blast
qed

lemma says_report:
  assumes "ex_progress e = Some send"
  shows "says (\<lambda>r ws. r = Inr () \<and> ws = [(step, st, msg)]) (report e plan step st msg pct bytes parts)"
  using assms
  by (auto simp: says_def emits_def report_def ignoring_def perform_def kio_simps Let_def aborted_def words_def reqs_of_def split: prod.split sum.split)

definition stages :: "nat \<Rightarrow> word" where
  "stages k = [(PhasePartitioning, ProgressRunning, ''''), (PhasePartitioning, ProgressSucceeded, ''''), (PhaseWritingContent, ProgressRunning, '''')] @
     replicate k (PhaseWritingContent, ProgressRunning, '''') @
     [(PhaseWritingContent, ProgressSucceeded, ''''), (PhaseRunningPostHook, ProgressRunning, ''''), (PhaseRunningPostHook, ProgressSucceeded, ''''),
      (PhaseFinalizing, ProgressRunning, ''''), (PhaseFinalizing, ProgressSucceeded, ''''), (PhaseSucceeded, ProgressSucceeded, '''')]"

definition ticks :: "word \<Rightarrow> bool" where
  "ticks ws \<longleftrightarrow> (\<exists>k. ws = replicate k (PhaseWritingContent, ProgressRunning, ''''))"

lemma ticks_append: "ticks ws \<Longrightarrow> ticks ws' \<Longrightarrow> ticks (ws @ ws')" "ticks []" "ticks [(PhaseWritingContent, ProgressRunning, '''')]"
  by (auto simp: ticks_def replicate_add [symmetric] intro: exI [of _ 0] exI [of _ 1])

lemma says_each: "(\<And>x. x \<in> set xs \<Longrightarrow> says (\<lambda>r. ticks) (f x)) \<Longrightarrow> says (\<lambda>r. ticks) (eachK f xs)"
proof (induction xs)
  case (Cons x xs)
  then show ?case
    unfolding eachK.simps by (intro says_bind [where A = "\<lambda>r. ticks" and B = "\<lambda>x r. ticks"]) (auto intro: ticks_append)
qed (simp add: says_ret ticks_append)

lemma hook_event_silent: "hook_event ev \<Longrightarrow> \<not> is_report ev"
  by (cases ev) (auto simp: is_report_def)

lemma silent_intros:
  "within (\<lambda>ev. \<not> is_report ev) (run_cmd e t i n a)" "\<not> is_report ev \<Longrightarrow> within (\<lambda>ev. \<not> is_report ev) (perform ev op)"
  by (intro within_run_cmd within_perform; simp add: is_report_def)+

lemma silent_parts:
  "within (\<lambda>ev. \<not> is_report ev) (validate e plans)" "within (\<lambda>ev. \<not> is_report ev) (writePartitionTable e dp)"
  "within (\<lambda>ev. \<not> is_report ev) (writeSlot e plan s)" "within (\<lambda>ev. \<not> is_report ev) (rebootOrPowerOff e x)"
  unfolding validate_def checkDiskSize_def writePartitionTable_def writeSlot_def runMkfs_def runMkswap_def rebootOrPowerOff_def Let_def
  by (intro within_intros silent_intros; simp add: is_report_def)+


text \<open>A stage that reports its start, works silently and reports its success.\<close>

definition stage_word :: "DeployRunPhase \<Rightarrow> kerr + 'a \<Rightarrow> word \<Rightarrow> bool" where
  "stage_word step r ws \<longleftrightarrow> ws = (step, ProgressRunning, '''') # (if isl r then [] else [(step, ProgressSucceeded, '''')])"

lemma says_stage:
  assumes "ex_progress e = Some send" "within (\<lambda>ev. \<not> is_report ev) m"
  shows "says (stage_word step) (bindK (reportRunning e plan step) (\<lambda>_. bindK m (\<lambda>_. reportSucceeded e plan step '''')))"
proof -
  have "says (\<lambda>r ws. ws = (if isl r then [] else [(step, ProgressSucceeded, '''')])) (bindK m (\<lambda>_. reportSucceeded e plan step ''''))"
    unfolding reportSucceeded_def
    by (rule says_bind [OF says_silent [OF assms(2)] says_report [OF assms(1)]]) (auto simp: quiet_word_def)
  then show ?thesis
    unfolding reportRunning_def
    by (rule says_bind [OF says_report [OF assms(1)]]) (auto simp: stage_word_def)
qed

lemma says_tables: "ex_progress e = Some send \<Longrightarrow> says (stage_word PhasePartitioning) (write_tables e plan plans)"
  unfolding write_tables_def by (rule says_stage) (auto intro: within_each silent_parts)

lemma says_hooks: "ex_progress e = Some send \<Longrightarrow> says (stage_word PhaseRunningPostHook) (run_post_hooks e plan)"
  unfolding run_post_hooks_def
  by (rule says_stage) (auto intro: within_wrap within_mono [OF within_hooks hook_event_silent])

lemma says_finalizing:
  assumes "ex_progress e = Some send"
  shows "says (\<lambda>r ws. r = Inr () \<and> ws = [(PhaseFinalizing, ProgressRunning, ''''), (PhaseFinalizing, ProgressSucceeded, '''')])
    (bindK (reportRunning e plan PhaseFinalizing) (\<lambda>_. reportSucceeded e plan PhaseFinalizing ''''))"
  unfolding reportRunning_def reportSucceeded_def
  by (rule says_bind [OF says_report [OF assms] says_report [OF assms]]) auto

lemma says_finish:
  assumes "ex_progress e = Some send"
  shows "says (\<lambda>r ws. ws = [(PhaseSucceeded, ProgressSucceeded, '''')]) (finish e plan)"
proof -
  have "within (\<lambda>ev. \<not> is_report ev) (bindK (writeConsole e msg) (\<lambda>_. wrapK c (rebootOrPowerOff e x)))" for msg c x
    unfolding writeConsole_def by (intro within_intros silent_intros silent_parts) (simp add: is_report_def)
  from says_silent [OF this] show ?thesis
    unfolding finish_def reportSucceeded_def
    by (rule says_bind [OF says_report [OF assms]]) (auto simp: quiet_word_def)
qed

lemma says_launch:
  assumes "ex_progress e = Some send"
  shows "says (\<lambda>r ws. ws = [(PhaseWritingContent, ProgressRunning, '''')]) (launch_ezio e plan plans)"
proof -
  have "within (\<lambda>ev. \<not> is_report ev) (if b then wrapK c (perform (LaunchEzio x) op) else ret ())" for b c x and op :: "'a \<Rightarrow> (kerr + unit) \<times> 'a"
    by (intro within_intros silent_intros) (simp add: is_report_def)
  from says_silent [OF this] show ?thesis
    unfolding launch_ezio_def reportRunning_def
    by (rule says_bind [OF says_report [OF assms]]) (auto simp: quiet_word_def)
qed

lemma says_seed_loop:
  assumes "ex_progress e = Some send"
  shows "says (\<lambda>r. ticks) (seed_loop n e plan plans)"
proof (induction n)
  case (Suc n)
  have quiet: "within (\<lambda>ev. \<not> is_report ev) (attempt (perform (PollTorrents hs) op))" for hs and op :: "'a \<Rightarrow> (kerr + 'x) \<times> 'a"
    by (intro within_intros silent_intros) (simp add: is_report_def)
  have pause: "within (\<lambda>ev. \<not> is_report ev) (eachK (\<lambda>(hash, t). if shouldPauseTorrent t then ignoring (perform (PauseTorrent hash) (ex_pauseTorrent e hash)) else ret ()) sts)" for sts
    by (intro within_intros silent_intros) (simp add: is_report_def)
  have "says (\<lambda>r. ticks) (bindK (eachK (\<lambda>(hash, t). if shouldPauseTorrent t then ignoring (perform (PauseTorrent hash) (ex_pauseTorrent e hash)) else ret ()) sts)
      (\<lambda>_. bindK (reportProgress e plan PhaseWritingContent pct bytes parts) (\<lambda>_. ret x)))" for sts pct bytes parts x
    unfolding reportProgress_def
    by (rule says_bind [OF says_silent [OF pause] says_bind [OF says_report [OF assms] says_ret [where S = quiet_word], where C = "\<lambda>r. ticks"]])
      (auto simp: quiet_word_def ticks_append)
  then have turn: "says (\<lambda>r. ticks) (seed_turn e plan plans)"
    unfolding seed_turn_def
    by (intro says_bind [OF says_silent [OF quiet], where B = "\<lambda>x r. ticks"])
      (auto simp: quiet_word_def ticks_append intro: says_ret split: sum.split)
  have tick: "says quiet_word (await_tick e)"
    by (auto simp: says_def emits_def await_tick_def quiet_word_def split: prod.splits)
  have "says (\<lambda>r. ticks) (bindK (await_tick e) (\<lambda>cancelled. if cancelled then raise x else seed_loop n e plan plans))" for x
    by (rule says_bind [OF tick, where B = "\<lambda>x r. ticks"]) (auto simp: quiet_word_def ticks_append intro: says_raise Suc)
  then show ?case
    unfolding seed_loop.simps
    by (intro says_bind [OF turn, where B = "\<lambda>x r. ticks"]) (auto simp: ticks_append intro: says_ret)
qed (simp add: says_raise ticks_append)

lemma says_content:
  assumes "ex_progress e = Some send"
  shows "says (\<lambda>r ws. \<exists>t. ticks t \<and> ws = t @ (if isl r then [] else [(PhaseWritingContent, ProgressSucceeded, '''')])) (write_content e plan plans)"
proof -
  have slot: "says quiet_word (writeSlot e plan s)" for s
    by (rule says_silent [OF silent_parts(3)])
  have "says (\<lambda>r. ticks) (writeSlots e plan dp)" for dp
    unfolding writeSlots_def
  proof (rule says_each)
    fix s
    have "says (\<lambda>r. ticks) (if b then reportPartitionComplete e plan PhaseWritingContent n else ret ())" for b n
      unfolding reportPartitionComplete_def
      by (auto intro: says_ret ticks_append says_mono [OF says_report [OF assms]])
    then show "says (\<lambda>r. ticks) (bindK (writeSlot e plan s) (\<lambda>_. if ds_torrent s = None then reportPartitionComplete e plan PhaseWritingContent (ds_number s) else ret ()))"
      by (rule says_bind [OF slot]) (auto simp: quiet_word_def ticks_append)
  qed
  then have slots: "says (\<lambda>r. ticks) (eachK (writeSlots e plan) plans)"
    by (rule says_each)
  have down: "within (\<lambda>ev. \<not> is_report ev) (ignoring (perform ShutdownEzio (ex_shutdown e)))"
    by (intro within_intros silent_intros) (simp add: is_report_def)
  have "says (\<lambda>r. ticks) (seedUntilStopped e plan plans)"
    unfolding seedUntilStopped_def by (auto intro: says_ret ticks_append says_seed_loop [OF assms])
  then have "says (\<lambda>r. ticks) (bindK (seedUntilStopped e plan plans) (\<lambda>_. ignoring (perform ShutdownEzio (ex_shutdown e))))"
    by (rule says_bind [OF _ says_silent [OF down]]) (auto simp: quiet_word_def)
  then have seed: "says (\<lambda>r. ticks) (if b then bindK (seedUntilStopped e plan plans) (\<lambda>_. ignoring (perform ShutdownEzio (ex_shutdown e))) else ret ())" for b
    by (auto intro: says_ret ticks_append)
  have "says (\<lambda>r ws. \<exists>t. ticks t \<and> ws = t @ (if isl r then [] else [(PhaseWritingContent, ProgressSucceeded, '''')]))
      (bindK (if hasTorrentSlot plans then bindK (seedUntilStopped e plan plans) (\<lambda>_. ignoring (perform ShutdownEzio (ex_shutdown e))) else ret ())
        (\<lambda>_. reportSucceeded e plan PhaseWritingContent ''''))"
    unfolding reportSucceeded_def by (rule says_bind [OF seed says_report [OF assms]]) auto
  then show ?thesis
    unfolding write_content_def
    by (rule says_bind [OF slots]) (simp, elim exE conjE, intro exI conjI, rule ticks_append(1), assumption+, simp)
qed

lemma says_at_step:
  assumes "says A m" "\<And>x. says (B x) (k x)" "\<And>err ws. A (Inl err) ws \<Longrightarrow> C (Inr (Some (step, err))) ws"
    "\<And>x ws r ws'. A (Inr x) ws \<Longrightarrow> B x r ws' \<Longrightarrow> C r (ws @ ws')"
  shows "says C (at_step step m k)"
  unfolding at_step_def
proof (rule says_bind [OF says_attempt [OF assms(1), where C = "\<lambda>r ws. \<exists>v. r = Inr v \<and> A v ws"],
      where B = "\<lambda>x r ws. case x of Inl err \<Rightarrow> r = Inr (Some (step, err)) \<and> ws = [] | Inr y \<Rightarrow> B y r ws"], goal_cases)
  case (3 x)
  show ?case by (cases x) (auto intro: says_ret assms(2))
next
  case (5 x ws r ws')
  then show ?case using assms(3,4) by (cases x) auto
qed auto

lemma says_deferring:
  assumes "says T m" "says (\<lambda>r ws. r = Inr () \<and> ws = []) cleanup"
  shows "says T (deferring cleanup m)"
  unfolding deferring_def
proof (rule says_bind [OF says_attempt [OF assms(1), where C = "\<lambda>r ws. \<exists>v. r = Inr v \<and> T v ws"],
      where B = "\<lambda>x r ws. r = x \<and> ws = []"], goal_cases)
  case (3 x)
  show ?case
    by (rule says_bind [OF assms(2), where B = "\<lambda>_ r ws. r = x \<and> ws = []"]) (auto intro: says_ret says_raise split: sum.split)
qed auto

definition went_through :: "kerr + (DeployRunPhase \<times> kerr) option \<Rightarrow> bool" where
  "went_through r \<longleftrightarrow> r = Inr None \<or> (\<exists>err. r = Inr (Some (PhaseSucceeded, err)))"

definition stopped_in :: "DeployRunPhase \<Rightarrow> kerr + (DeployRunPhase \<times> kerr) option \<Rightarrow> bool" where
  "stopped_in step r \<longleftrightarrow> (\<exists>err. r = Inr (Some (step, err)))"

definition tail_word :: word where
  "tail_word = [(PhaseRunningPostHook, ProgressSucceeded, ''''), (PhaseFinalizing, ProgressRunning, ''''), (PhaseFinalizing, ProgressSucceeded, ''''),
     (PhaseSucceeded, ProgressSucceeded, '''')]"

lemma says_after_launch:
  assumes "ex_progress e = Some send"
  shows "says (\<lambda>r ws. \<exists>t. ticks t \<and>
      (stopped_in PhaseWritingContent r \<and> ws = t \<or>
       stopped_in PhaseRunningPostHook r \<and> ws = t @ [(PhaseWritingContent, ProgressSucceeded, ''''), (PhaseRunningPostHook, ProgressRunning, '''')] \<or>
       went_through r \<and> ws = t @ [(PhaseWritingContent, ProgressSucceeded, ''''), (PhaseRunningPostHook, ProgressRunning, '''')] @ tail_word))
    (after_launch e plan plans)"
proof -
  have finish: "says (\<lambda>r ws. went_through r \<and> ws = [(PhaseSucceeded, ProgressSucceeded, '''')])
      (at_step PhaseSucceeded (finish e plan) (\<lambda>_. ret None))"
    by (rule says_at_step [OF says_finish [OF assms] says_ret [where S = "\<lambda>r ws. r = Inr None \<and> ws = []"]]) (auto simp: went_through_def)
  have fin: "says (\<lambda>r ws. went_through r \<and> ws = tl tail_word) (at_step PhaseFinalizing
      (bindK (reportRunning e plan PhaseFinalizing) (\<lambda>_. reportSucceeded e plan PhaseFinalizing '''')) (\<lambda>_. at_step PhaseSucceeded (finish e plan) (\<lambda>_. ret None)))"
    by (rule says_at_step [OF says_finalizing [OF assms] finish]) (auto simp: tail_word_def)
  have hooks: "says (\<lambda>r ws. stopped_in PhaseRunningPostHook r \<and> ws = [(PhaseRunningPostHook, ProgressRunning, '''')] \<or>
       went_through r \<and> ws = (PhaseRunningPostHook, ProgressRunning, '''') # tail_word)
      (at_step PhaseRunningPostHook (run_post_hooks e plan) (\<lambda>_. at_step PhaseFinalizing
        (bindK (reportRunning e plan PhaseFinalizing) (\<lambda>_. reportSucceeded e plan PhaseFinalizing '''')) (\<lambda>_. at_step PhaseSucceeded (finish e plan) (\<lambda>_. ret None))))"
    by (rule says_at_step [OF says_hooks [OF assms] fin]) (auto simp: stage_word_def tail_word_def stopped_in_def)
  show ?thesis
    unfolding after_launch_def
    by (rule says_at_step [OF says_content [OF assms] hooks]) (auto simp: stopped_in_def)
qed

definition stop_word :: "DeployRunPhase \<Rightarrow> word \<Rightarrow> bool" where
  "stop_word step ws \<longleftrightarrow> (\<exists>k.
     step = PhasePartitioning \<and> ws = take k (take 1 (stages 0)) \<or>
     step = PhaseWritingContent \<and> ws = take (3 + k) (stages k) \<or>
     step = PhaseRunningPostHook \<and> ws = take (5 + k) (stages k) \<or>
     step = PhaseSucceeded \<and> ws = stages k)"

lemma stages_split: "stages k = [(PhasePartitioning, ProgressRunning, ''''), (PhasePartitioning, ProgressSucceeded, ''''), (PhaseWritingContent, ProgressRunning, '''')] @
    replicate k (PhaseWritingContent, ProgressRunning, '''') @ [(PhaseWritingContent, ProgressSucceeded, ''''), (PhaseRunningPostHook, ProgressRunning, '''')] @ tail_word"
  by (simp add: stages_def tail_word_def)


lemma stop_words:
  "stop_word PhaseWritingContent ((PhasePartitioning, ProgressRunning, []) # (PhasePartitioning, ProgressSucceeded, []) # (PhaseWritingContent, ProgressRunning, []) #
     replicate k (PhaseWritingContent, ProgressRunning, []))"
  "stop_word PhaseRunningPostHook ((PhasePartitioning, ProgressRunning, []) # (PhasePartitioning, ProgressSucceeded, []) # (PhaseWritingContent, ProgressRunning, []) #
     replicate k (PhaseWritingContent, ProgressRunning, []) @ [(PhaseWritingContent, ProgressSucceeded, []), (PhaseRunningPostHook, ProgressRunning, [])])"
  "stop_word PhaseSucceeded ((PhasePartitioning, ProgressRunning, []) # (PhasePartitioning, ProgressSucceeded, []) # (PhaseWritingContent, ProgressRunning, []) #
     replicate k (PhaseWritingContent, ProgressRunning, []) @ (PhaseWritingContent, ProgressSucceeded, []) # (PhaseRunningPostHook, ProgressRunning, []) # tail_word)"
  by (auto simp: stop_word_def stages_split numeral_eq_Suc intro!: exI [of _ k])

lemma says_ignoring:
  assumes "within (\<lambda>ev. \<not> is_report ev) m"
  shows "says (\<lambda>r ws. r = Inr () \<and> ws = []) (ignoring m)"
  unfolding ignoring_def
  by (rule says_bind [OF says_attempt [OF says_silent [OF assms], where C = "\<lambda>r ws. \<exists>v. r = Inr v \<and> ws = []"] says_ret [where S = "\<lambda>r ws. r = Inr () \<and> ws = []"]])
    (auto simp: quiet_word_def)

lemma says_execute_plan:
  assumes "ex_progress e = Some send"
  shows "says (\<lambda>r ws. (r = Inr None \<and> (\<exists>k. ws = stages k)) \<or> (\<exists>step err. r = Inr (Some (step, err)) \<and> stop_word step ws)) (execute_plan e plan plans)"
proof -
  let ?after = "if hasTorrentSlot plans then deferring (ignoring (perform StopEzio (ex_stop e))) (after_launch e plan plans) else after_launch e plan plans"
  let ?A = "\<lambda>r ws. \<exists>t. ticks t \<and>
      (stopped_in PhaseWritingContent r \<and> ws = t \<or>
       stopped_in PhaseRunningPostHook r \<and> ws = t @ [(PhaseWritingContent, ProgressSucceeded, ''''), (PhaseRunningPostHook, ProgressRunning, '''')] \<or>
       went_through r \<and> ws = t @ [(PhaseWritingContent, ProgressSucceeded, ''''), (PhaseRunningPostHook, ProgressRunning, '''')] @ tail_word)"
  let ?B = "\<lambda>r ws. \<exists>t. ticks t \<and>
      (stopped_in PhaseWritingContent r \<and> ws = (PhaseWritingContent, ProgressRunning, '''') # t \<or>
       stopped_in PhaseRunningPostHook r \<and> ws = (PhaseWritingContent, ProgressRunning, '''') # t @ [(PhaseWritingContent, ProgressSucceeded, ''''), (PhaseRunningPostHook, ProgressRunning, '''')] \<or>
       went_through r \<and> ws = (PhaseWritingContent, ProgressRunning, '''') # t @ [(PhaseWritingContent, ProgressSucceeded, ''''), (PhaseRunningPostHook, ProgressRunning, '''')] @ tail_word)"
  have stop: "says (\<lambda>r ws. r = Inr () \<and> ws = []) (ignoring (perform StopEzio (ex_stop e)))"
    by (rule says_ignoring, rule silent_intros(2)) (simp add: is_report_def)
  have after: "says ?A ?after"
    using says_after_launch [OF assms] says_deferring [OF says_after_launch [OF assms] stop] by simp
  have launch: "says ?B (at_step PhaseWritingContent (launch_ezio e plan plans) (\<lambda>_. ?after))"
    by (rule says_at_step [OF says_launch [OF assms] after]) (auto simp: stopped_in_def ticks_append intro!: exI [of _ "[]"])
  have whole: "(r = Inr None \<and> (\<exists>k. ws = stages k)) \<or> (\<exists>step err. r = Inr (Some (step, err)) \<and> stop_word step ws)"
    if "ws = (PhasePartitioning, ProgressRunning, '''') # (PhasePartitioning, ProgressSucceeded, '''') # ws'" "?B r ws'" for r ws ws'
    using that stop_words by (elim exE conjE disjE) (auto simp: ticks_def stopped_in_def went_through_def stages_split)
  have tables: "says (\<lambda>r ws. (r = Inr None \<and> (\<exists>k. ws = stages k)) \<or> (\<exists>step err. r = Inr (Some (step, err)) \<and> stop_word step ws))
      (at_step PhasePartitioning (write_tables e plan plans) (\<lambda>_. at_step PhaseWritingContent (launch_ezio e plan plans) (\<lambda>_. ?after)))"
  proof (rule says_at_step [OF says_tables [OF assms] launch], goal_cases)
    case (1 err ws)
    then have "ws = take 1 (take 1 (stages 0))" by (simp add: stage_word_def stages_def)
    then show ?case by (auto simp: stop_word_def intro: exI [of _ 1])
  next
    case (2 x ws r ws')
    then show ?case using whole [of "ws @ ws'" ws' r] by (simp add: stage_word_def)
  qed
  show ?thesis
    unfolding execute_plan_def
    by (rule says_at_step [OF says_silent [OF within_wrap [OF silent_parts(1)]] tables])
      (auto simp: quiet_word_def stop_word_def intro: exI [of _ 0])
qed

lemma deploy_words:
  assumes "ex_progress e = Some send" "Validate plan = None"
  shows "says (\<lambda>r ws. case r of Inr _ \<Rightarrow> \<exists>k. ws = stages k
    | Inl err \<Rightarrow> \<exists>step ws'. stop_word step ws' \<and> ws = ws' @ [(step, ProgressFailed, error_text err)]) (Execute e plan)"
proof -
  have "says (\<lambda>r ws. case x of None \<Rightarrow> r = Inr () \<and> ws = [] | Some (step, err) \<Rightarrow> r = Inl err \<and> ws = [(step, ProgressFailed, error_text err)])
      (case x of None \<Rightarrow> ret () | Some (step, err) \<Rightarrow> bindK (reportFailed e plan step (error_text err)) (\<lambda>_. raise err))" for x
  proof (cases x)
    case (Some y)
    obtain step err where y: "y = (step, err)" by fastforce
    have "says (\<lambda>r ws. r = Inl err \<and> ws = [(step, ProgressFailed, error_text err)]) (bindK (reportFailed e plan step (error_text err)) (\<lambda>_. raise err))"
      unfolding reportFailed_def
      by (rule says_bind [OF says_report [OF assms(1)] says_raise [where S = "\<lambda>r ws. r = Inl err \<and> ws = []"]]) auto
    then show ?thesis by (simp add: Some y)
  qed (simp add: says_ret)
  then show ?thesis
    unfolding Execute_def assms(2) option.case
    by (rule says_bind [OF says_execute_plan [OF assms(1)]]) (auto split: option.splits)
qed

lemma reported_last:
  assumes "map word_of (map snd received) = ws @ [x]"
  obtains t req where "reported l run received = applyProgressToDeployRun l t (reported l run (butlast received)) req" "word_of req = x"
    "map word_of (map snd (butlast received)) = ws"
proof -
  have ne: "received \<noteq> []" using assms by auto
  obtain t req where last: "last received = (t, req)" by fastforce
  then have split: "received = butlast received @ [(t, req)]" using ne by (metis append_butlast_last_id)
  have "map word_of (map snd (butlast received)) @ [word_of req] = ws @ [x]"
    using assms by (subst (asm) split) simp
  moreover have "reported l run received = applyProgressToDeployRun l t (reported l run (butlast received)) req"
    by (subst split) (simp add: reported_def)
  ultimately show ?thesis using that by simp
qed

lemma stages_last: "stages k = butlast (stages k) @ [(PhaseSucceeded, ProgressSucceeded, [])]"
  by (simp add: stages_def butlast_append)

text \<open>
  C20: the outcome of a deploy on the machine is the outcome the
  reconciler acts on. When the reports of a deploy of a valid plan are delivered in order, a deploy
  that returned has reported every phase started and succeeded in the fixed order and leaves the
  DeployRun Succeeded, and the agent deployer's next Provision step releases the DHCP reservation and
  is complete; a deploy that failed has reported a prefix of that order and then the failure, and
  leaves the run Failed, and the next Provision step fails with the deploy's own error and asks for a
  restart.
\<close>

theorem deploy_outcome_reaches_reconciler:
  assumes "ex_progress e = Some send" "Validate plan = None"
    and "Execute e plan w = (r, w')" "\<not> aborted r" "log w' = log w @ es" "map snd received = reqs_of es"
    and "meta_laws l" "found_message l" "a_lib a = l"
  shows "case r of
      Inr _ \<Rightarrow> (\<exists>k. words es = stages k) \<and> phase (r_status (reported l run received)) = PhaseSucceeded \<and>
        Provision a m (reported l run received) False = bindK (releaseDHCPReservation a m) (\<lambda>_. ret (m, result_of Complete))
    | Inl err \<Rightarrow> (\<exists>step ws. stop_word step ws \<and> words es = ws @ [(step, ProgressFailed, error_text err)]) \<and>
        phase (r_status (reported l run received)) = PhaseFailed \<and>
        Provision a m (reported l run received) False = ret (m, \<lparr>outcome = Failed, res_requeueAfter = 0, res_errorType = Restart,
          res_errorMessage = progressMessage (error_text err) ''deploy failed''\<rparr>)"
proof -
  obtain es' where "log w' = log w @ es'" and said: "case r of Inr _ \<Rightarrow> \<exists>k. words es' = stages k
      | Inl err \<Rightarrow> \<exists>step ws'. stop_word step ws' \<and> words es' = ws' @ [(step, ProgressFailed, error_text err)]"
    using emits_run [OF deploy_words [OF assms(1,2), unfolded says_def] assms(3)] assms(4) by blast
  with assms(5) have "es' = es" by simp
  note said = said [unfolded this]
  have all: "map word_of (map snd received) = words es" using assms(6) by (simp add: words_def)
  show ?thesis
  proof (cases r)
    case (Inl err)
    then obtain st ws where w: "stop_word st ws" "words es = ws @ [(st, ProgressFailed, error_text err)]" using said by auto
    from reported_last [OF trans [OF all w(2)]] obtain t req
      where "reported l run received = applyProgressToDeployRun l t (reported l run (butlast received)) req"
        "word_of req = (st, ProgressFailed, error_text err)"
      by metis
    then show ?thesis
      using w terminal_report_decides [OF assms(7,8,9), of req t _ m] by (auto simp: Inl Let_def)
  next
    case (Inr u)
    then obtain k where k: "words es = stages k" using said by auto
    from reported_last [OF trans [OF all trans [OF k stages_last]]] obtain t req
      where "reported l run received = applyProgressToDeployRun l t (reported l run (butlast received)) req"
        "word_of req = (PhaseSucceeded, ProgressSucceeded, [])"
      by metis
    then show ?thesis
      using k terminal_report_decides [OF assms(7,8,9), of req t _ m] by (auto simp: Inr Let_def)
  qed
qed

definition seen_at :: "time \<Rightarrow> (live_event \<times> bool) list \<Rightarrow> (time \<times> ProgressRequest) list" where
  "seen_at t es = map (\<lambda>req. (t, req)) (reqs_of es)"

lemma seen_all: "map snd (seen_at t es) = reqs_of es"
  by (simp add: seen_at_def comp_def)

theorem deploy_outcome_reaches_reconciler_witness:
  "phase (r_status (reported ref_libs demo_run (seen_at 9 (log (snd (Execute healthy lab_plan lab)))))) = PhaseSucceeded"
proof -
  obtain u w' where run: "Execute healthy lab_plan lab = (Inr u, w')" using lab_deploys [of lab] by (metis prod.collapse)
  have "log w' = log lab @ log w'" "a_lib (ref_agent ref_bmc) = ref_libs" by (simp_all add: lab_def ref_agent_def)
  then show ?thesis
    using deploy_outcome_reaches_reconciler [OF lab_progress lab_valid(1) run, of "log w'" "seen_at 9 (log w')" ref_libs "ref_agent ref_bmc" demo_run demo_machine]
      ref_meta_laws ref_found_message seen_all
    by (simp add: run aborted_def)
qed

text \<open>
  The success report is not final: when the command that hands the
  machine over fails after every phase has been reported, the deploy sends a failure after its
  success, the DeployRun goes from Succeeded to Failed, and the next Provision step asks for a
  restart, which writes the deployed disk again.
\<close>

theorem failed_handover_fails_run:
  assumes "ex_progress e = Some send" "Validate plan = None"
    and "Execute e plan w = (Inl err, w')" "\<not> is_abort err" "log w' = log w @ es" "map snd received = reqs_of es"
    and "(PhaseSucceeded, ProgressSucceeded, '''') \<in> set (words es)"
    and "meta_laws l" "found_message l" "a_lib a = l"
  shows "(\<exists>k. words es = stages k @ [(PhaseSucceeded, ProgressFailed, error_text err)]) \<and>
    phase (r_status (reported l run (butlast received))) = PhaseSucceeded \<and> phase (r_status (reported l run received)) = PhaseFailed \<and>
    Provision a m (reported l run received) False = ret (m, \<lparr>outcome = Failed, res_requeueAfter = 0, res_errorType = Restart,
      res_errorMessage = progressMessage (error_text err) ''deploy failed''\<rparr>)"
proof -
  obtain es' where "log w' = log w @ es'" and said: "\<exists>step ws'. stop_word step ws' \<and> words es' = ws' @ [(step, ProgressFailed, error_text err)]"
    using emits_run [OF deploy_words [OF assms(1,2), unfolded says_def] assms(3)] assms(4) by (auto simp: aborted_def)
  with assms(5) obtain step ws where stop: "stop_word step ws" "words es = ws @ [(step, ProgressFailed, error_text err)]" by auto
  have "(PhaseSucceeded, ProgressSucceeded, '''') \<notin> set (take n (stages k))" if "n \<le> 5 + k" for n k
    using that by (auto simp: stages_split take_Cons' take_append in_set_replicate dest!: in_set_takeD split: if_splits)
  then obtain k where k: "ws = stages k" "step = PhaseSucceeded"
    using stop assms(7) by (fastforce simp: stop_word_def min_def)
  have all: "map word_of (map snd received) = stages k @ [(PhaseSucceeded, ProgressFailed, error_text err)]"
    using assms(6) stop(2) k by (simp add: words_def)
  then obtain t req where fails: "reported l run received = applyProgressToDeployRun l t (reported l run (butlast received)) req"
      "word_of req = (PhaseSucceeded, ProgressFailed, error_text err)" "map word_of (map snd (butlast received)) = stages k"
    by (rule reported_last)
  from reported_last [OF trans [OF fails(3) stages_last]] obtain t' req'
    where "reported l run (butlast received) = applyProgressToDeployRun l t' (reported l run (butlast (butlast received))) req'"
      "word_of req' = (PhaseSucceeded, ProgressSucceeded, [])"
    by metis
  then show ?thesis
    using stop(2) k fails(1,2) terminal_report_decides [OF assms(8-10), of req t _ m] terminal_report_decides [OF assms(8-10), of req' t' _ m]
    by (auto simp: Let_def)
qed

abbreviation no_reboot :: "unit Executor" where
  "no_reboot \<equiv> lab_executor (\<lambda>c. cm_name c = ''systemctl'')"

definition handover_error :: kerr where
  "handover_error = Wrapped ''after deploy action'' (Wrapped ''systemctl reboot'' (PlainError ''exit status 1''))"

lemma bind_fails:
  assumes "returns m x" "\<And>w. \<exists>w'. f x w = (Inl err, w')"
  shows "\<exists>w'. bindK m f w = (Inl err, w')"
proof -
  obtain w1 where "m w = (Inr x, w1)" using assms(1) unfolding returns_def by blast
  then show ?thesis using assms(2) [of w1] by (simp add: bindK_def)
qed

lemma at_step_fails:
  assumes "\<And>w. \<exists>w'. m w = (Inl err, w')" "\<not> is_abort err"
  shows "returns (at_step step m k) (Some (step, err))"
  unfolding returns_def
proof
  fix w
  obtain w1 where "m w = (Inl err, w1)" using assms(1) by blast
  then show "\<exists>w'. at_step step m k w = (Inr (Some (step, err)), w')" using assms(2) by (simp add: at_step_def kio_simps)
qed

lemma lab_handover:
  "\<exists>w1 es k. execute_plan no_reboot lab_plan (diskPlans lab_plan) w = (Inr (Some (PhaseSucceeded, handover_error)), w1) \<and>
     log w1 = log w @ es \<and> words es = stages k"
proof -
  have "\<exists>w'. wrapK ''after deploy action'' (rebootOrPowerOff no_reboot (dp_afterDeploy lab_plan)) w = (Inl handover_error, w')" for w
    by (simp add: rebootOrPowerOff_def run_cmd_def Let_def lab_plan_def lab_executor_def perform_def kio_simps AfterDeployPowerOff_def handover_error_def)
  then have "\<exists>w'. finish no_reboot lab_plan w = (Inl handover_error, w')" for w
    unfolding finish_def writeConsole_def lab_fields option.case
    by (intro bind_fails [OF lab_reports(2)] bind_fails [OF returns_ret])
  then have "returns (at_step PhaseSucceeded (finish no_reboot lab_plan) (\<lambda>_. ret None)) (Some (PhaseSucceeded, handover_error))"
    by (rule at_step_fails) (simp add: handover_error_def)
  then have "returns (execute_plan no_reboot lab_plan (diskPlans lab_plan)) (Some (PhaseSucceeded, handover_error))"
    by (intro lab_execute) (simp_all add: only_reboot_def)
  then obtain w1 where run: "execute_plan no_reboot lab_plan (diskPlans lab_plan) w = (Inr (Some (PhaseSucceeded, handover_error)), w1)"
    unfolding returns_def by blast
  obtain es where "log w1 = log w @ es" "stop_word PhaseSucceeded (words es)"
    by (rule emits_run [OF says_execute_plan [OF lab_progress, unfolded says_def] run]) (auto simp: aborted_def)
  then show ?thesis using run by (auto simp: stop_word_def)
qed

theorem failed_handover_fails_run_witness:
  "phase (r_status (reported ref_libs demo_run (seen_at 9 (log (snd (Execute no_reboot lab_plan lab)))))) = PhaseFailed"
proof -
  obtain w1 es k where w1: "execute_plan no_reboot lab_plan (diskPlans lab_plan) lab = (Inr (Some (PhaseSucceeded, handover_error)), w1)"
      "log w1 = log lab @ es" "words es = stages k"
    using lab_handover by blast
  obtain w' where failed: "reportFailed no_reboot lab_plan PhaseSucceeded (error_text handover_error) w1 = (Inr (), w')"
    using lab_report [of "\<lambda>c. cm_name c = ''systemctl''"] unfolding reportFailed_def returns_def by blast
  with w1(1) have run: "Execute no_reboot lab_plan lab = (Inl handover_error, w')"
    by (simp add: Execute_def lab_valid(1) w1(1) kio_simps)
  have "(PhaseSucceeded, ProgressSucceeded, '''') \<in> set (words es)" unfolding w1(3) by (simp add: stages_def)
  moreover obtain es' where "log w' = log w1 @ es'"
    using emits_run [OF within_reports(3) [where P = "\<lambda>_. True", unfolded within_def] failed] by blast
  ultimately have "(PhaseSucceeded, ProgressSucceeded, '''') \<in> set (words (log w'))" "log w' = log lab @ log w'"
    using w1(2) by (simp_all add: lab_def)
  moreover have "a_lib (ref_agent ref_bmc) = ref_libs" "\<not> is_abort handover_error" by (simp_all add: ref_agent_def handover_error_def)
  ultimately show ?thesis
    using failed_handover_fails_run [OF lab_progress lab_valid(1) run, of "log w'" "seen_at 9 (log w')" ref_libs "ref_agent ref_bmc" demo_run demo_machine]
      ref_meta_laws ref_found_message seen_all
    by (simp add: run)
qed

section \<open>The builder's plans on the machine\<close>

lemma structure_complete:
  assumes "distinct (map k_disk plans)" "set (map k_disk plans) \<inter> set ss = {}"
    and "\<forall>dp\<in>set plans. hasPrefix (k_disk dp) ''/dev/'' \<and> (\<forall>s\<in>set (k_slots dp). ds_device s = DevicePartitionPath (k_disk dp) (ds_number s))"
  shows "check_structure ss plans = None"
  using assms
proof (induction plans arbitrary: ss)
  case (Cons dp plans)
  have "check_structure (k_disk dp # ss) plans = None"
    using Cons.prems by (intro Cons.IH) auto
  then show ?case using Cons.prems by simp
qed simp

lemma same_partition_path: "disk \<noteq> '''' \<Longrightarrow> DevicePartitionPath disk n = partitionDevicePath disk n"
  by (simp add: DevicePartitionPath_def partitionDevicePath_def ends_in_digit_def is_digit_def Let_def)

lemma slots_at:
  assumes "list_all2 (slot_of disk) ly slots" "disk \<noteq> ''''" "s \<in> set slots"
  shows "ds_device s = DevicePartitionPath disk (ds_number s)"
  using assms by (auto simp: list_all2_conv_all_nth in_set_conv_nth slot_of_def same_partition_path)

text \<open>
  C22: what the manager plans, the machine accepts: a plan the builder
  made from disks with absolute device names passes both the wire check and the structural check the
  live agent makes before it touches a disk, although the two sides derive the partition devices
  separately.
\<close>

theorem built_plan_passes_agent_checks:
  assumes "Build b m (Some c) run w = (Inr (plan, snap), w')"
    and "\<forall>d\<in>set (plan_targets c plan). hasPrefix d ''/dev/''"
  shows "Validate plan = None \<and> check_structure [] (diskPlans plan) = None"
proof -
  obtain disks os dis hooks where r: "images_resolved c disks os dis" "CheckDistinct (selections_of disks os dis) = None"
      "plan = plan_of b m c run os dis hooks" "Validate plan = None"
    using runs_value [OF runs_Build assms(1)] by (auto simp: built_from_def)
  have targets: "\<forall>d\<in>set (targets_of os dis). hasPrefix d ''/dev/''"
    using assms(2) unfolding r(3) plan_targets_of [OF r(1)] .
  then have named: "\<forall>d\<in>set (targets_of os dis). d \<noteq> []" by (auto simp: hasPrefix_def)
  have len: "length (elems (cs_dataImages (cl_spec c))) = length dis"
    using r(1) by (auto simp: images_resolved_def dest: list_all2_lengthD)
  have resolved: "list_all2 (slot_of (ri_targetDisk x)) (layout_of x) (ri_slots x)" if "x \<in> set_option os \<union> set dis" for x
    using images_resolved_all [OF r(1)] that by (auto simp: resolved_from_def)
  have plans: "map (\<lambda>dp. (k_disk dp, k_slots dp)) (diskPlans plan) = map (\<lambda>x. (ri_targetDisk x, ri_slots x)) ((case os of None \<Rightarrow> [] | Some x \<Rightarrow> [x]) @ dis)"
    using named by (cases os)
      (auto simp: diskPlans_def r(3) plan_of_def data_diskPlan_def len targets_of_def intro!: nth_equalityI simp: nth_enumerate_eq split: prod.splits)
  let ?xs = "(case os of None \<Rightarrow> [] | Some x \<Rightarrow> [x]) @ dis"
  have disks: "map k_disk (diskPlans plan) = targets_of os dis"
    using arg_cong [OF plans, of "map fst"] by (simp add: targets_of_def o_def split: option.splits)
  have "\<forall>dp\<in>set (diskPlans plan). hasPrefix (k_disk dp) ''/dev/'' \<and> (\<forall>s\<in>set (k_slots dp). ds_device s = DevicePartitionPath (k_disk dp) (ds_number s))"
  proof (intro ballI conjI)
    fix dp assume dp: "dp \<in> set (diskPlans plan)"
    then have target: "k_disk dp \<in> set (targets_of os dis)" by (simp flip: disks)
    with targets show "hasPrefix (k_disk dp) ''/dev/''" by blast
    have "(k_disk dp, k_slots dp) \<in> set (map (\<lambda>x. (ri_targetDisk x, ri_slots x)) ?xs)"
      unfolding plans [symmetric] using dp by force
    then obtain x where x: "x \<in> set_option os \<union> set dis" "k_disk dp = ri_targetDisk x" "k_slots dp = ri_slots x"
      by (auto split: option.splits)
    fix s assume "s \<in> set (k_slots dp)"
    then show "ds_device s = DevicePartitionPath (k_disk dp) (ds_number s)"
      using slots_at [OF resolved [OF x(1)]] x(2,3) named target by metis
  qed
  then have "check_structure [] (diskPlans plan) = None"
    using chosen_disks [OF r(1,2)] by (intro structure_complete) (simp_all add: disks)
  with r(4) show ?thesis by simp
qed

theorem built_plan_passes_agent_checks_witness: "Validate demo_plan = None \<and> check_structure [] (diskPlans demo_plan) = None"
  by (rule built_plan_passes_agent_checks [OF demo_Build]) code_simp

end
