(* ===== verification/Live_Wire.thy ===== *)
theory Live_Wire
  imports Live_Agent
begin

text \<open>
  The live agent on the wire: what an abort answered by the agent-facing server does to the deploy in
  progress.
\<close>

section \<open>Aborts\<close>

text \<open>Nothing but an abort touches the \<^verbatim>\<open>sync.Once\<close>: posting a report and waiting leave it as it is.\<close>

definition once_is_private :: "'s HTTPReporter \<Rightarrow> bool" where
  "once_is_private r \<longleftrightarrow>
     (\<forall>req s. fst (hr_aborted r) (snd (cl_progress (hr_client r) req s)) = fst (hr_aborted r) s) \<and>
     (\<forall>s. fst (hr_aborted r) (snd (hr_wait r s)) = fst (hr_aborted r) s)"

lemma bind_agree:
  assumes "p s" "\<And>s. p s \<Longrightarrow> p (snd (m s))" "\<And>x s. p s \<Longrightarrow> f x s = g x s"
  shows "bindK m f s = bindK m g s"
  using assms(2) [OF assms(1)] assms(3) by (auto simp: bindK_def split: prod.splits sum.splits)

lemma snd_attempt [simp]: "snd (attempt m s) = snd (m s)"
  by (auto simp: attempt_def split: prod.splits sum.splits)

lemma snd_Progress [simp]: "snd (Progress c session req s) = snd (cl_progress c (agent_request session (Some req)) s)"
  by (auto simp: Progress_def bindK_def wrapK_def ret_def raise_def split: prod.splits sum.splits http_response.splits)

lemma spent_once_ignores_cancel:
  assumes "once_is_private r" "fst (hr_aborted r) s"
  shows "report_attempts n again e (r\<lparr>hr_cancel := c\<rparr>) req s = report_attempts n again e (r\<lparr>hr_cancel := None\<rparr>) req s"
  using assms(2)
proof (induction n arbitrary: again e s)
  case (Suc n)
  let ?p = "fst (hr_aborted r)"
  have outcome: "(case x of Inl e \<Rightarrow> report_attempts n True e (r\<lparr>hr_cancel := c\<rparr>) req
        | Inr action \<Rightarrow> if action = ActionAbort then abort_once (r\<lparr>hr_cancel := c\<rparr>) else ret ()) s1 =
      (case x of Inl e \<Rightarrow> report_attempts n True e (r\<lparr>hr_cancel := None\<rparr>) req
        | Inr action \<Rightarrow> if action = ActionAbort then abort_once (r\<lparr>hr_cancel := None\<rparr>) else ret ()) s1" if "?p s1" for x s1
    using that Suc.IH by (cases x) (auto simp: abort_once_def)
  have posted: "?p s1 \<Longrightarrow> ?p (snd (attempt (Progress (hr_client r) (hr_sessionToken r) req) s1))" for s1
    using assms(1) by (simp add: once_is_private_def)
  have waited: "?p s1 \<Longrightarrow> ?p (snd ((if again then (\<lambda>s. case hr_wait r s of (ctxDone, s') \<Rightarrow> (Inr ctxDone, s')) else ret False) s1))" for s1
    using assms(1) by (auto simp: once_is_private_def ret_def split: prod.splits) (metis snd_conv)
  have fields: "hr_wait (r\<lparr>hr_cancel := d\<rparr>) = hr_wait r" "hr_client (r\<lparr>hr_cancel := d\<rparr>) = hr_client r"
      "hr_sessionToken (r\<lparr>hr_cancel := d\<rparr>) = hr_sessionToken r" for d
    by simp_all
  show ?case
    unfolding report_attempts.simps fields
    by (rule bind_agree [of ?p, OF Suc.prems waited]) (simp_all add: bind_agree [of ?p, OF _ posted outcome])
qed simp

text \<open>
  An abort that is answered to a report cancels the deploy in progress,
  but only the first of a reporter's life: once it was spent, a report behaves as if there were no
  deploy to cancel, whichever \<^verbatim>\<open>Cancel\<close> function the reporter was given since. The agent keeps one
  reporter for all the deploys it runs.
\<close>

theorem only_first_abort_cancels:
  assumes "once_is_private r"
  shows "if fst (hr_aborted r) s
    then reportHTTP (r\<lparr>hr_cancel := Some cancel\<rparr>) req s = reportHTTP (r\<lparr>hr_cancel := None\<rparr>) req s
    else \<forall>s'. cl_progress (hr_client r) (agent_request (hr_sessionToken r) (Some req)) s = (Inr (ProgressAnswer ActionAbort), s') \<longrightarrow>
      reportHTTP (r\<lparr>hr_cancel := Some cancel\<rparr>) req s = (Inr (), cancel (snd (hr_aborted r) s'))"
proof (cases "fst (hr_aborted r) s")
  case True
  then show ?thesis unfolding reportHTTP_def using spent_once_ignores_cancel [OF assms True] by simp
next
  case False
  have "reportHTTP (r\<lparr>hr_cancel := Some cancel\<rparr>) req s = (Inr (), cancel (snd (hr_aborted r) s'))"
    if "cl_progress (hr_client r) (agent_request (hr_sessionToken r) (Some req)) s = (Inr (ProgressAnswer ActionAbort), s')" for s'
  proof -
    have "fst (hr_aborted r) s' = fst (hr_aborted r) s"
      using assms that unfolding once_is_private_def by (metis snd_conv)
    then show ?thesis
      using False that
      by (simp add: reportHTTP_def httpReporterMaxAttempts_def numeral_3_eq_3 kio_simps Progress_def abort_once_def)
  qed
  with False show ?thesis by simp
qed

text \<open>A server that always answers abort, and the number of deploys cancelled so far.\<close>

definition abort_lab :: "(bool \<times> nat) HTTPReporter" where
  "abort_lab =
     \<lparr>hr_client = \<lparr>cl_register = (\<lambda>r s. (Inl NotFound, s)), cl_next = (\<lambda>r s. (Inl NotFound, s)), cl_progress = (\<lambda>r s. (Inr (ProgressAnswer ActionAbort), s))\<rparr>,
      hr_sessionToken = ''session'', hr_cancel = None, hr_aborted = (fst, \<lambda>(_, n). (True, n)), hr_wait = (\<lambda>s. (False, s))\<rparr>"

definition abort_lab_report :: ProgressRequest where
  "abort_lab_report = \<lparr>pr_runName = ''run'', pr_runUID = ''uid'', pr_step = PhasePartitioning, pr_state = ProgressRunning, pr_message = [],
     pr_percentDone = None, pr_bytesDone = None, pr_partitions = [], pr_timestamp = 0\<rparr>"

theorem only_first_abort_cancels_witness:
  "snd (reportHTTP (abort_lab\<lparr>hr_cancel := Some (\<lambda>(f, n). (f, Suc n))\<rparr>) abort_lab_report (False, 0)) = (True, 1) \<and>
   snd (reportHTTP (abort_lab\<lparr>hr_cancel := Some (\<lambda>(f, n). (f, Suc n))\<rparr>) abort_lab_report (True, 1)) = (True, 1)"
proof -
  have once: "once_is_private abort_lab" by (simp add: once_is_private_def abort_lab_def)
  have "snd (reportHTTP (abort_lab\<lparr>hr_cancel := None\<rparr>) abort_lab_report (True, 1)) = (True, 1)"
    by (simp add: reportHTTP_def httpReporterMaxAttempts_def numeral_3_eq_3 kio_simps Progress_def abort_once_def abort_lab_def)
  then show ?thesis
    using only_first_abort_cancels [OF once, of "(False, 0)" "\<lambda>(f, n). (f, Suc n)" abort_lab_report]
      only_first_abort_cancels [OF once, of "(True, 1)" "\<lambda>(f, n). (f, Suc n)" abort_lab_report]
    by (simp add: abort_lab_def)
qed

end
