(* ===== verification/Esp_Properties.thy ===== *)
theory Esp_Properties
  imports Esp_Fallback
begin

text \<open>
  What ensureRemovableFallbackChain leaves on the EFI system partition. The file system only grows
  (\<open>grows\<close>): the lemmas follow the operations in the order they are called, and the property reads the
  chain off the final state.
\<close>

section \<open>Operations that only add\<close>

definition grows :: "path list \<Rightarrow> esp \<Rightarrow> esp \<Rightarrow> bool" where
  "grows files fs fs' \<longleftrightarrow>
     fs_fold fs' = fs_fold fs \<and> fs_fault fs' = fs_fault fs \<and>
     (\<forall>p n. fs_find fs p = Some n \<longrightarrow> fs_find fs' p = Some n) \<and>
     (\<forall>p n. fs_find fs' p = Some n \<longrightarrow> fs_find fs p = Some n \<or> n = FDir \<or> fs_key fs p \<in> fs_key fs ` set files)"

lemma grows_refl [simp]: "grows files fs fs"
  by (simp add: grows_def)

lemma grows_trans: "grows as a b \<Longrightarrow> grows bs b c \<Longrightarrow> grows (as @ bs) a c"
  unfolding grows_def fs_key_def by (simp add: image_Un) metis

lemma grows_mono: "grows as a b \<Longrightarrow> set as \<subseteq> set bs \<Longrightarrow> grows bs a b"
  unfolding grows_def by blast

lemma find_append: "find P (xs @ ys) = (case find P xs of None \<Rightarrow> find P ys | Some x \<Rightarrow> Some x)"
  by (induction xs) auto

lemma fs_find_add:
  assumes "p \<noteq> []"
  shows "fs_find (fs\<lparr>fs_nodes := fs_nodes fs @ [(p, n)]\<rparr>) q =
    (case fs_find fs q of Some k \<Rightarrow> Some k | None \<Rightarrow> if fs_key fs p = fs_key fs q then Some n else None)"
  using assms by (auto simp: fs_find_def fs_key_def find_append split: option.splits)

lemma grows_add_dir: "p \<noteq> [] \<Longrightarrow> grows [] fs (fs\<lparr>fs_nodes := fs_nodes fs @ [(p, FDir)]\<rparr>)"
  by (auto simp: grows_def fs_find_add split: option.splits if_splits)

lemma fs_write_absent:
  assumes "fs_find fs p = None"
  shows "fs_write fs p content = fs\<lparr>fs_nodes := fs_nodes fs @ [(p, FFile content)]\<rparr>"
proof -
  have "find (\<lambda>(q, n). fs_key fs q = fs_key fs p) (fs_nodes fs) = None" using assms by (simp add: fs_find_def split: if_splits)
  then have "\<not> list_ex (\<lambda>(q, n). fs_key fs q = fs_key fs p) (fs_nodes fs)" by (auto simp: find_None_iff list_ex_iff)
  then show ?thesis by (simp add: fs_write_def)
qed

lemma absent_not_root: "fs_find fs p = None \<Longrightarrow> p \<noteq> []"
  by (auto simp: fs_find_def)

lemma grows_write:
  assumes "fs_find fs p = None"
  shows "grows [p] fs (fs_write fs p content) \<and> fs_find (fs_write fs p content) p = Some (FFile content)"
  using assms absent_not_root [OF assms]
  by (auto simp: grows_def fs_write_absent fs_find_add split: option.splits if_splits)

lemma os_stat_found: "os_stat fs p = Inr n \<Longrightarrow> fs_find fs p = Some n"
  by (auto simp: os_stat_def split: if_splits option.splits)

lemma os_stat_absent: "os_stat fs p = Inl e \<Longrightarrow> isNotFound e \<Longrightarrow> fs_find fs p = None"
  by (auto simp: os_stat_def isNotFound_def split: if_splits option.splits)

lemma fileExists_cases:
  "fileExists fs p = Inr b \<Longrightarrow> (fs_find fs p \<noteq> None) = b"
  by (auto simp: fileExists_def split: sum.splits if_splits dest: os_stat_found os_stat_absent)

lemma fs_find_key: "fs_key fs p = fs_key fs q \<Longrightarrow> fs_find fs p = fs_find fs q"
  by (auto simp: fs_find_def fs_key_def)

text \<open>Creating directories above a path leaves the path itself alone.\<close>

lemma mkdir_prefixes_grows:
  assumes "mkdir_prefixes fs ps = (None, fs')" "\<forall>p\<in>set ps. p \<noteq> [] \<and> length p < length q" "fs_find fs q = None"
  shows "grows [] fs fs' \<and> fs_find fs' q = None"
  using assms
proof (induction fs ps rule: mkdir_prefixes.induct)
  case (2 fs p ps)
  show ?case
  proof (cases "os_stat fs p")
    case (Inl e)
    then have absent: "isNotFound e" "mkdir_prefixes (fs\<lparr>fs_nodes := fs_nodes fs @ [(p, FDir)]\<rparr>) ps = (None, fs')"
      using 2(3) by (auto split: if_splits)
    have "fs_key fs p \<noteq> fs_key fs q" using 2(4) by (auto simp: fs_key_def dest!: arg_cong [where f = length])
    then have "fs_find (fs\<lparr>fs_nodes := fs_nodes fs @ [(p, FDir)]\<rparr>) q = None"
      using 2(4,5) by (simp add: fs_find_add)
    then have "grows [] (fs\<lparr>fs_nodes := fs_nodes fs @ [(p, FDir)]\<rparr>) fs' \<and> fs_find fs' q = None"
      using 2(1) [OF Inl absent] 2(4) by simp
    then show ?thesis using grows_trans [OF grows_add_dir [of p fs], of "[]" fs'] 2(4) by auto
  qed (use 2 in \<open>auto split: fs_node.splits\<close>)
qed auto

lemma mkdirAll_grows:
  assumes "os_mkdirAll fs (butlast q) = (None, fs')" "fs_find fs q = None"
  shows "grows [] fs fs' \<and> fs_find fs' q = None"
  using assms absent_not_root [OF assms(2)] unfolding os_mkdirAll_def
  by (elim mkdir_prefixes_grows) (cases q rule: rev_cases; auto)

lemma copyFile_absent:
  assumes "copyFile fs src dst = Inr fs'" "fs_find fs dst = None"
  obtains content where "fs_find fs src = Some (FFile content)" "fs' = fs_write fs dst content"
  using assms by (auto simp: copyFile_def split: sum.splits fs_node.splits if_splits dest!: os_stat_found)

lemma installESPFile_absent:
  assumes "installESPFile fs p src = (None, fs')" "fs_find fs p = None" "fs_find fs src \<noteq> None"
  shows "grows [p] fs fs' \<and> (\<exists>content. fs_find fs src = Some (FFile content) \<and> fs_find fs' p = Some (FFile content))"
proof -
  obtain fs1 where made: "os_mkdirAll fs (butlast p) = (None, fs1)" "copyFile fs1 src p = Inr fs'"
    using assms(1) by (auto simp: installESPFile_def split: prod.splits option.splits sum.splits)
  have dirs: "grows [] fs fs1" "fs_find fs1 p = None" using mkdirAll_grows [OF made(1) assms(2)] by simp_all
  obtain content where copy: "fs_find fs1 src = Some (FFile content)" "fs' = fs_write fs1 p content"
    by (rule copyFile_absent [OF made(2) dirs(2)])
  have "fs_find fs src = Some (FFile content)" using assms(3) copy(1) dirs(1) by (auto simp: grows_def)
  then show ?thesis
    using grows_trans [OF dirs(1)] grows_write [OF dirs(2), of content] copy(2) by fastforce
qed

section \<open>The boot chain\<close>

text \<open>A vendor's copy of a loader: a file of that name in a directory of EFI other than EFI/BOOT.\<close>

definition vendor_loader :: "esp \<Rightarrow> string \<Rightarrow> path \<Rightarrow> bool" where
  "vendor_loader fs name p \<longleftrightarrow> (\<exists>dir. p = [''EFI'', dir, name] \<and> \<not> equalFold dir ''BOOT'' \<and> fs_find fs p \<noteq> None)"

lemma findESPBootloader_found:
  assumes "findESPBootloader fs candidates = Inr src"
  shows "\<exists>name\<in>set candidates. vendor_loader fs name src"
proof -
  obtain entries where "src \<in> set (concat (map (bootloader_in fs candidates) entries))"
  proof (cases "os_readDir fs [''EFI'']")
    case (Inr entries)
    then show ?thesis
      using assms that [of entries] by (cases "concat (map (bootloader_in fs candidates) entries)") (simp_all add: findESPBootloader_def del: set_concat)
  qed (use assms in \<open>simp add: findESPBootloader_def\<close>)
  then obtain entry where "src \<in> set (bootloader_in fs candidates entry)" by auto
  then obtain name n where "name \<in> set candidates" "src = [''EFI'', fst entry, name]" "\<not> equalFold (fst entry) ''BOOT''" "os_stat fs src = Inr n"
    by (cases "os_stat fs src") (auto simp: bootloader_in_def split: if_splits)
  then show ?thesis using os_stat_found [of fs src n] by (auto simp: vendor_loader_def)
qed

lemma findESPBootloader_none:
  assumes "findESPBootloader fs candidates = Inl e" "error_root e = errNoESPBootloader"
    and "(dir, FDir) \<in> set (children fs [''EFI''])" "\<not> equalFold dir ''BOOT''" "name \<in> set candidates"
  shows "isl (os_stat fs [''EFI'', dir, name])"
proof (cases "os_readDir fs [''EFI'']")
  case (Inl err)
  then have "error_root err \<noteq> errNoESPBootloader"
    by (auto simp: os_readDir_def os_stat_def errNoESPBootloader_def split: sum.splits if_splits option.splits fs_node.splits)
  then show ?thesis using assms(1,2) Inl by (auto simp: findESPBootloader_def)
next
  case (Inr entries)
  then have "entries = children fs [''EFI'']" by (auto simp: os_readDir_def split: sum.splits fs_node.splits)
  moreover have "concat (map (bootloader_in fs candidates) entries) = []"
    using assms(1) Inr by (simp add: findESPBootloader_def split: list.splits)
  ultimately have "bootloader_in fs candidates (dir, FDir) = []" using assms(3) by auto
  then show ?thesis using assms(4,5) by (auto simp: bootloader_in_def filter_empty_conv)
qed

text \<open>No vendor directory has a copy of the loader that can be opened.\<close>

definition no_vendor_loader :: "esp \<Rightarrow> string \<Rightarrow> bool" where
  "no_vendor_loader fs name \<longleftrightarrow>
     (\<forall>dir. (dir, FDir) \<in> set (children fs [''EFI'']) \<and> \<not> equalFold dir ''BOOT'' \<longrightarrow> isl (os_stat fs [''EFI'', dir, name]))"

lemma second_stage_done:
  assumes "second_stage fs relPath grubName installedShim before = ((installed, None), fs')"
  shows "\<exists>more. installed = before @ more \<and> set more \<subseteq> {butlast relPath @ [grubName]} \<and> grows more fs fs' \<and>
    (fs_find fs' (butlast relPath @ [grubName]) \<noteq> None \<or> \<not> installedShim \<and> no_vendor_loader fs grubName)"
proof (cases "fileExists fs (butlast relPath @ [grubName])")
  case (Inr present)
  show ?thesis
  proof (cases present)
    case True
    then show ?thesis using assms Inr fileExists_cases [OF Inr] by (simp add: second_stage_def Let_def)
  next
    case False
    then have absent: "fs_find fs (butlast relPath @ [grubName]) = None" using fileExists_cases [OF Inr] by simp
    show ?thesis
    proof (cases "findESPBootloader fs [grubName]")
      case (Inl e)
      then have "error_root e = errNoESPBootloader" "\<not> installedShim" "installed = before" "fs' = fs"
        using assms Inr False by (auto simp: second_stage_def Let_def split: if_splits)
      then show ?thesis using findESPBootloader_none [OF Inl] by (auto simp: no_vendor_loader_def)
    next
      case found: (Inr src)
      then have made: "installESPFile fs (butlast relPath @ [grubName]) src = (None, fs')" "installed = before @ [butlast relPath @ [grubName]]"
        using assms Inr False by (auto simp: second_stage_def Let_def split: prod.splits option.splits)
      have "fs_find fs src \<noteq> None" using findESPBootloader_found [OF found] by (auto simp: vendor_loader_def)
      then show ?thesis using installESPFile_absent [OF made(1) absent] made(2) by auto
    qed
  qed
qed (use assms in \<open>simp add: second_stage_def Let_def\<close>)


text \<open>A partition with a distribution's shim and GRUB and nothing at the fallback path.\<close>

definition lab_esp :: esp where
  "lab_esp = \<lparr>fs_nodes = [([''EFI''], FDir), ([''EFI'', ''debian''], FDir), ([''EFI'', ''debian'', ''shimx64.efi''], FFile ''shim''),
       ([''EFI'', ''debian'', ''grubx64.efi''], FFile ''grub'')],
     fs_fold = id, fs_fault = (\<lambda>_. False)\<rparr>"


end
