(* ===== verification/Go_URL.thy ===== *)
theory Go_URL
  imports Go_Text Subnet_Dhcp
begin

text \<open>
  The part of package net/url the boot plane relies on: \<^verbatim>\<open>url.Parse\<close> with its scheme, authority and
  path, percent-decoding in its three modes, and the cuts and trims of package strings. Fragment and
  query are cut off; no caller reads them, or the user information, which is only checked.
\<close>

section \<open>Cutting strings\<close>

text \<open>\<^verbatim>\<open>strings.Cut\<close> on a one-character separator, and \<^verbatim>\<open>strings.LastIndex\<close> as a split at the last one.\<close>

definition cut :: "char \<Rightarrow> string \<Rightarrow> string \<times> string" where
  "cut c s = (takeWhile (\<lambda>x. x \<noteq> c) s, drop 1 (dropWhile (\<lambda>x. x \<noteq> c) s))"

definition cut_last :: "char \<Rightarrow> string \<Rightarrow> (string \<times> string) option" where
  "cut_last c s =
     (if c \<in> set s then Some (rev (drop 1 (dropWhile (\<lambda>x. x \<noteq> c) (rev s))), rev (takeWhile (\<lambda>x. x \<noteq> c) (rev s))) else None)"

definition trim_right :: "char \<Rightarrow> string \<Rightarrow> string" where
  "trim_right c s = rev (dropWhile (\<lambda>x. x = c) (rev s))"

definition hasSuffix :: "string \<Rightarrow> string \<Rightarrow> bool" where
  "hasSuffix s suffix \<longleftrightarrow> drop (length s - length suffix) s = suffix"

definition replace_char :: "char \<Rightarrow> char \<Rightarrow> string \<Rightarrow> string" where
  "replace_char a b s = map (\<lambda>c. if c = a then b else c) s"

section \<open>Characters\<close>

definition is_alpha :: "char \<Rightarrow> bool" where
  "is_alpha c \<longleftrightarrow> (let n = of_char c :: nat in 65 \<le> n \<and> n \<le> 90 \<or> 97 \<le> n \<and> n \<le> 122)"

definition is_decimal :: "char \<Rightarrow> bool" where
  "is_decimal c \<longleftrightarrow> (let n = of_char c :: nat in 48 \<le> n \<and> n \<le> 57)"

definition ctl_byte :: "char \<Rightarrow> bool" where
  "ctl_byte c \<longleftrightarrow> (let n = of_char c :: nat in n < 32 \<or> n = 127)"

text \<open>A byte a host name may have as it is: \<^verbatim>\<open>shouldEscape(c, encodeHost)\<close> negated.\<close>

definition host_byte :: "char \<Rightarrow> bool" where
  "host_byte c \<longleftrightarrow> is_alpha c \<or> is_decimal c \<or> c \<in> set ''-_.~!$&()*+,;=:[]<>'' \<or> c = CHR 0x22 \<or> c = CHR 0x27"

datatype url_mode = EncodePath | EncodeHost | EncodeZone | EncodeUserPassword

section \<open>Percent-decoding\<close>

definition url_error :: "string \<Rightarrow> kerr" where
  "url_error what = PlainError (''parse: '' @ what)"

fun unescape :: "url_mode \<Rightarrow> string \<Rightarrow> kerr + string" where
  "unescape mode [] = Inr []"
| "unescape mode (c # s) =
     (if c = CHR ''%'' then
        (case s of
           a # b # rest \<Rightarrow>
             (case (digit_value a, digit_value b) of
                (Some x, Some y) \<Rightarrow>
                  if mode = EncodeHost \<and> x < 8 \<and> (a, b) \<noteq> (CHR ''2'', CHR ''5'') then Inl (url_error ''invalid URL escape'')
                  else if mode = EncodeZone \<and> (a, b) \<noteq> (CHR ''2'', CHR ''5'') \<and> char_of (16 * x + y) \<noteq> CHR '' '' \<and>
                    \<not> host_byte (char_of (16 * x + y)) then Inl (url_error ''invalid URL escape'')
                  else (case unescape mode rest of Inl e \<Rightarrow> Inl e | Inr t \<Rightarrow> Inr (char_of (16 * x + y) # t))
              | _ \<Rightarrow> Inl (url_error ''invalid URL escape''))
         | _ \<Rightarrow> Inl (url_error ''invalid URL escape''))
      else if (mode = EncodeHost \<or> mode = EncodeZone) \<and> (of_char c :: nat) < 128 \<and> \<not> host_byte c
      then Inl (url_error ''invalid character in host name'')
      else (case unescape mode s of Inl e \<Rightarrow> Inl e | Inr t \<Rightarrow> Inr (c # t)))"

section \<open>url.Parse\<close>

text \<open>\<^verbatim>\<open>getScheme\<close>: the scheme and the rest, or an error for a leading colon.\<close>

fun get_scheme :: "string \<Rightarrow> string \<Rightarrow> string \<Rightarrow> kerr + (string \<times> string)" where
  "get_scheme raw pre [] = Inr ([], raw)"
| "get_scheme raw pre (c # s) =
     (if is_alpha c then get_scheme raw (pre @ [c]) s
      else if is_decimal c \<or> c \<in> set ''+-.'' then (if pre = [] then Inr ([], raw) else get_scheme raw (pre @ [c]) s)
      else if c = CHR '':'' then (if pre = [] then Inl (url_error ''missing protocol scheme'') else Inr (pre, s))
      else Inr ([], raw))"

definition validOptionalPort :: "string \<Rightarrow> bool" where
  "validOptionalPort port \<longleftrightarrow> port = [] \<or> hd port = CHR '':'' \<and> list_all is_decimal (tl port)"

fun find_zone :: "string \<Rightarrow> string \<Rightarrow> (string \<times> string) option" where
  "find_zone pre [] = None"
| "find_zone pre (c # s) = (if hasPrefix (c # s) ''%25'' then Some (pre, c # s) else find_zone (pre @ [c]) s)"

definition parse_host :: "string \<Rightarrow> kerr + string" where
  "parse_host host =
     (if hasPrefix host ''['' then
        (case cut_last (CHR '']'') host of
           None \<Rightarrow> Inl (url_error ''missing ] in host'')
         | Some (inner, port) \<Rightarrow>
             if \<not> validOptionalPort port then Inl (url_error ''invalid port after host'')
             else (case find_zone [] inner of
                 None \<Rightarrow> unescape EncodeHost host
               | Some (addr, zone) \<Rightarrow>
                   (case (unescape EncodeHost addr, unescape EncodeZone zone, unescape EncodeHost ('']'' @ port)) of
                      (Inr h1, Inr h2, Inr h3) \<Rightarrow> Inr (h1 @ h2 @ h3)
                    | (Inl e, _, _) \<Rightarrow> Inl e | (_, Inl e, _) \<Rightarrow> Inl e | (_, _, Inl e) \<Rightarrow> Inl e)))
      else (case cut_last (CHR '':'') host of
          Some (name, port) \<Rightarrow>
            if \<not> validOptionalPort (CHR '':'' # port) then Inl (url_error ''invalid port after host'') else unescape EncodeHost host
        | None \<Rightarrow> unescape EncodeHost host))"

definition userinfo_byte :: "char \<Rightarrow> bool" where
  "userinfo_byte c \<longleftrightarrow> is_alpha c \<or> is_decimal c \<or> c \<in> set ''-._:~!$&()*+,;=%@'' \<or> c = CHR 0x27"

definition parse_authority :: "string \<Rightarrow> kerr + string" where
  "parse_authority authority =
     (case cut_last (CHR ''@'') authority of
        None \<Rightarrow> parse_host authority
      | Some (userinfo, host) \<Rightarrow>
          (case parse_host host of
             Inl e \<Rightarrow> Inl e
           | Inr h \<Rightarrow>
               if \<not> list_all userinfo_byte userinfo then Inl (url_error ''net/url: invalid userinfo'')
               else (case (unescape EncodeUserPassword (fst (cut (CHR '':'') userinfo)), unescape EncodeUserPassword (snd (cut (CHR '':'') userinfo))) of
                   (Inr _, Inr _) \<Rightarrow> Inr h
                 | (Inl e, _) \<Rightarrow> Inl e
                 | (_, Inl e) \<Rightarrow> Inl e)))"

record url =
  u_scheme :: string
  u_host :: string
  u_path :: string

definition set_path :: "string \<Rightarrow> string \<Rightarrow> string \<Rightarrow> kerr + url" where
  "set_path scheme host p =
     (case unescape EncodePath p of Inl e \<Rightarrow> Inl e | Inr path \<Rightarrow> Inr \<lparr>u_scheme = scheme, u_host = host, u_path = path\<rparr>)"

definition parse_url :: "string \<Rightarrow> kerr + url" where
  "parse_url raw =
     (if list_ex ctl_byte raw then Inl (url_error ''net/url: invalid control character in URL'')
      else if raw = ''*'' then Inr \<lparr>u_scheme = [], u_host = [], u_path = ''*''\<rparr>
      else case get_scheme raw [] raw of
        Inl e \<Rightarrow> Inl e
      | Inr (scheme', rest') \<Rightarrow>
          (let scheme = map lower_char scheme';
               rest = fst (cut (CHR ''?'') rest')
           in if \<not> hasPrefix rest ''/'' \<and> scheme \<noteq> [] then Inr \<lparr>u_scheme = scheme, u_host = [], u_path = []\<rparr>
              else if \<not> hasPrefix rest ''/'' \<and> CHR '':'' \<in> set (fst (cut (CHR ''/'') rest))
              then Inl (url_error ''first path segment in URL cannot contain colon'')
              else if hasPrefix rest ''//'' \<and> (scheme \<noteq> [] \<or> \<not> hasPrefix rest ''///'')
              then (case parse_authority (takeWhile (\<lambda>c. c \<noteq> CHR ''/'') (drop 2 rest)) of
                      Inl e \<Rightarrow> Inl e
                    | Inr host \<Rightarrow> set_path scheme host (dropWhile (\<lambda>c. c \<noteq> CHR ''/'') (drop 2 rest)))
              else set_path scheme [] rest))"

text \<open>\<^verbatim>\<open>url.Parse\<close>: the fragment is cut off before and decoded after, which may fail.\<close>

definition url_Parse :: "string \<Rightarrow> kerr + url" where
  "url_Parse raw =
     (case cut (CHR ''#'') raw of (u, frag) \<Rightarrow>
        case parse_url u of
          Inl e \<Rightarrow> Inl e
        | Inr x \<Rightarrow> (case unescape EncodePath frag of Inl e \<Rightarrow> Inl e | Inr _ \<Rightarrow> Inr x))"

end
