(* ===== verification/Boot_Server.thy ===== *)
theory Boot_Server
  imports Go_URL Agent_Deployer Torrent_Store
begin

text \<open>
  The HTTP side of internal/bootserver (grub.go, server.go, config.go, efi.go, index.go) and the path
  syntax of internal/bootd/grubpath.go: the GRUB configuration a machine gets when it boots from the
  network, with the kernel command line that carries its registration token. A request is the name at
  the end of its path; a response is a value. The manager's cache, the Secret and the Subnet are read
  through parameters on an abstract state, which also holds the token store; the serving of files is
  left to the file server and only the decision is modelled.
\<close>

section \<open>config.go\<close>

record BootConfig =
  bc_artifactsDir :: string
  bc_serverURL :: string
  bc_agentServerURL :: string
  bc_kernelPath :: string
  bc_initrdPath :: string
  bc_squashfsPath :: string
  bc_efiDir :: string
  bc_defaultConsole :: "string list"

definition withDefaults :: "BootConfig \<Rightarrow> BootConfig" where
  "withDefaults c =
     (let c1 = (if bc_kernelPath c = '''' then c\<lparr>bc_kernelPath := ''vmlinuz''\<rparr> else c);
          c2 = (if bc_initrdPath c1 = '''' then c1\<lparr>bc_initrdPath := ''initrd.img''\<rparr> else c1);
          c3 = (if bc_squashfsPath c2 = '''' then c2\<lparr>bc_squashfsPath := ''filesystem.squashfs''\<rparr> else c2);
          c4 = (if bc_efiDir c3 = '''' then c3\<lparr>bc_efiDir := bc_artifactsDir c3\<rparr> else c3)
      in if bc_agentServerURL c4 = '''' then c4\<lparr>bc_agentServerURL := bc_serverURL c4\<rparr> else c4)"

section \<open>grub.go\<close>

text \<open>The text is told apart only as a whole: the answer that starts the local system, the same for everyone.\<close>

definition newl :: string where
  "newl = [CHR 0x0A]"

definition quot :: string where
  "quot = [CHR 0x22]"

definition bootLocalConfig :: string where
  "bootLocalConfig =
     ''# kezio: this machine does not need the live boot environment right now.'' @ newl @
     ''set timeout=0'' @ newl @
     ''search --no-floppy --file --set=kezio_esp /EFI/BOOT/BOOTX64.EFI'' @ newl @
     ''if [ -n '' @ quot @ ''${kezio_esp}'' @ quot @ '' ]; then'' @ newl @
     ''  echo '' @ quot @ ''kezio: starting the local system from (${kezio_esp})/EFI/BOOT/BOOTX64.EFI'' @ quot @ newl @
     ''  set root=${kezio_esp}'' @ newl @
     ''  chainloader /EFI/BOOT/BOOTX64.EFI'' @ newl @
     ''  boot'' @ newl @
     ''  echo '' @ quot @ ''kezio: that loader did not start the local system; its EFI/BOOT directory is incomplete'' @ quot @ newl @
     ''else'' @ newl @
     ''  echo '' @ quot @ ''kezio: no disk on this machine carries /EFI/BOOT/BOOTX64.EFI'' @ quot @ newl @
     ''fi'' @ newl @
     ''exit'' @ newl"

definition grubSearchRedirectConfig :: string where
  "grubSearchRedirectConfig =
     ''# kezio: re-entering the config search with this machine'' @ [CHR 0x27] @ ''s MAC.'' @ newl @
     ''set timeout=0'' @ newl @
     ''configfile ${prefix}/grub.cfg-01-${net_default_mac}'' @ newl"

definition GrubNetPath :: "string \<Rightarrow> string \<Rightarrow> kerr + string" where
  "GrubNetPath serverURL filePath =
     (case url_Parse serverURL of
        Inl e \<Rightarrow> Inl (Wrapped ''parsing server URL'' e)
      | Inr u \<Rightarrow>
          if u_scheme u \<noteq> ''http'' then Inl (PlainError ''GRUB network stack supports only http'')
          else if u_host u = '''' then Inl (PlainError ''server URL carries no host'')
          else Inr (''('' @ u_scheme u @ '','' @ u_host u @ '')'' @ trim_right (CHR ''/'') (u_path u) @
            (if hasPrefix filePath ''/'' then filePath else CHR ''/'' # filePath)))"

definition DefaultProxyPort :: int where
  "DefaultProxyPort = 80"

definition HasBootPlane :: "Subnet \<Rightarrow> bool" where
  "HasBootPlane sn \<longleftrightarrow> sn_dhcp sn \<noteq> None"

definition subnetBootBaseURL :: "Subnet \<Rightarrow> string option" where
  "subnetBootBaseURL sn =
     (if HasBootPlane sn then Some (''http://'' @ sn_bootdServerIP sn @ '':'' @ show_int DefaultProxyPort) else None)"

definition resolveConsole :: "string list \<Rightarrow> string list \<Rightarrow> string list" where
  "resolveConsole machineConsole defaultConsole = (if machineConsole \<noteq> [] then machineConsole else defaultConsole)"

definition consoleCmdlineArgs :: "string list \<Rightarrow> string" where
  "consoleCmdlineArgs console = concat (map (\<lambda>c. '' console='' @ c) console)"

text \<open>
  The rendered text in its parts: the configuration, and the kernel arguments on its \<^verbatim>\<open>linux\<close> line after
  the path of the kernel.
\<close>

definition kernel_args :: "BootConfig \<Rightarrow> string \<Rightarrow> string list \<Rightarrow> string" where
  "kernel_args cfg token console =
     ''boot=live fetch='' @ trim_right (CHR ''/'') (bc_serverURL cfg) @ ''/boot/artifacts/'' @ bc_squashfsPath cfg @
     '' kezio.server='' @ trim_right (CHR ''/'') (bc_agentServerURL cfg) @
     (if token \<noteq> '''' then '' kezio.token='' @ token else '''') @ consoleCmdlineArgs console"

definition renderNetBootConfig :: "BootConfig \<Rightarrow> string \<Rightarrow> string list \<Rightarrow> kerr + string" where
  "renderNetBootConfig cfg token console =
     (let base = trim_right (CHR ''/'') (bc_serverURL cfg) in
      case GrubNetPath base (''/boot/artifacts/'' @ bc_kernelPath cfg) of
        Inl e \<Rightarrow> Inl e
      | Inr kernelPath \<Rightarrow>
          (case GrubNetPath base (''/boot/artifacts/'' @ bc_initrdPath cfg) of
             Inl e \<Rightarrow> Inl e
           | Inr initrdPath \<Rightarrow>
               Inr (''set timeout=5'' @ newl @ ''linux '' @ kernelPath @ '' '' @ kernel_args cfg token console @ newl @
                 ''initrd '' @ initrdPath @ newl @ ''boot'' @ newl)))"

section \<open>index.go\<close>

definition IndexMachineBootMAC :: "Machine \<Rightarrow> string list" where
  "IndexMachineBootMAC m = (case NormalizeMAC (ms_bootMACAddress (m_spec m)) of None \<Rightarrow> [] | Some mac \<Rightarrow> [mac])"

section \<open>server.go\<close>

record 's BootServer =
  bs_listByBootMAC :: "string \<Rightarrow> 's \<Rightarrow> (kerr + Machine list) \<times> 's"
  bs_getSubnet :: "key \<Rightarrow> 's \<Rightarrow> (kerr + Subnet) \<times> 's"
  bs_getSecret :: "key \<Rightarrow> 's \<Rightarrow> (kerr + Secret) \<times> 's"
  bs_config :: BootConfig
  bs_tokens :: "(('s \<Rightarrow> TokenStore) \<times> (TokenStore \<Rightarrow> 's \<Rightarrow> 's)) option"
  bs_sha :: "string \<Rightarrow> string"
  bs_parseTime :: "string \<Rightarrow> time option"
  bs_now :: time

datatype boot_response = BootNotFound | GrubConfig string

definition lookupMachine :: "'s BootServer \<Rightarrow> string \<Rightarrow> ('s, Machine option) kio" where
  "lookupMachine v mac =
     bindK (wrapK ''listing machines by boot MAC'' (bs_listByBootMAC v mac)) (\<lambda>items.
     case items of
       [] \<Rightarrow> ret None
     | [m] \<Rightarrow> ret (Some m)
     | _ \<Rightarrow> raise (PlainError ''machines share boot MAC address''))"

definition resolveBootSubnet :: "'s BootServer \<Rightarrow> Machine \<Rightarrow> ('s, Subnet) kio" where
  "resolveBootSubnet v machine =
     (let ref = ms_subnetRef (m_spec machine);
          ns = (if nr_namespace ref = '''' then m_namespace machine else nr_namespace ref)
      in wrapK ''getting Subnet'' (bs_getSubnet v (ns, nr_name ref)))"

definition needsNetBoot :: "Machine \<Rightarrow> bool" where
  "needsNetBoot machine \<longleftrightarrow> m_state machine = Inspecting \<or> m_state machine = Provisioning"

definition data_of :: "Secret \<Rightarrow> string \<Rightarrow> string" where
  "data_of secret k = (case map_of (s_data secret) k of None \<Rightarrow> '''' | Some v \<Rightarrow> v)"

definition lookupTokenFromSecret :: "'s BootServer \<Rightarrow> string \<Rightarrow> Machine \<Rightarrow> string \<Rightarrow> ('s, string) kio" where
  "lookupTokenFromSecret v mac machine wantHash =
     bindK (attempt (bs_getSecret v (m_namespace machine, BootTokenSecretName (m_name machine)))) (\<lambda>r. case r of
         Inl e \<Rightarrow> ret ''''
       | Inr secret \<Rightarrow>
           if data_of secret ''mac'' \<noteq> mac then ret ''''
           else (let token = data_of secret ''token'' in
             if token = '''' \<or> hashToken (bs_sha v) token \<noteq> wantHash then ret ''''
             else (case bs_parseTime v (data_of secret ''expiresAt'') of
                 None \<Rightarrow> ret ''''
               | Some t \<Rightarrow>
                   if \<not> bs_now v < t then ret ''''
                   else (case bs_tokens v of
                       None \<Rightarrow> ret token
                     | Some (get, put) \<Rightarrow> (\<lambda>s. (Inr token, put (Restore mac token wantHash (get s)) s))))))"

definition lookupToken :: "'s BootServer \<Rightarrow> string \<Rightarrow> Machine \<Rightarrow> ('s, string) kio" where
  "lookupToken v mac machine =
     (case netBoot (m_status machine) of
        None \<Rightarrow> ret ''''
      | Some nb \<Rightarrow>
          (let wantHash = nb_tokenHash nb in
           if wantHash = '''' then ret ''''
           else case bs_tokens v of
               None \<Rightarrow> lookupTokenFromSecret v mac machine wantHash
             | Some (get, put) \<Rightarrow> (\<lambda>s.
                 case Lookup (get s) mac wantHash of
                   Some token \<Rightarrow> (Inr token, s)
                 | None \<Rightarrow> lookupTokenFromSecret v mac machine wantHash s)))"

definition handleGrubConfig :: "'s BootServer \<Rightarrow> string \<Rightarrow> ('s, boot_response) kio" where
  "handleGrubConfig v rawMAC =
     (case NormalizeMAC rawMAC of
        None \<Rightarrow> ret (GrubConfig bootLocalConfig)
      | Some mac \<Rightarrow>
          bindK (attempt (lookupMachine v mac)) (\<lambda>r. case r of
              Inl e \<Rightarrow> ret (GrubConfig bootLocalConfig)
            | Inr None \<Rightarrow> ret (GrubConfig bootLocalConfig)
            | Inr (Some machine) \<Rightarrow>
                if \<not> needsNetBoot machine then ret (GrubConfig bootLocalConfig)
                else
                  bindK (lookupToken v mac machine) (\<lambda>token.
                  bindK (attempt (resolveBootSubnet v machine)) (\<lambda>r.
                  let renderCfg =
                    (case r of
                       Inl e \<Rightarrow> bs_config v
                     | Inr subnet \<Rightarrow>
                         (case subnetBootBaseURL subnet of
                            None \<Rightarrow> bs_config v
                          | Some base \<Rightarrow> (bs_config v)\<lparr>bc_serverURL := base, bc_agentServerURL := base\<rparr>))
                  in if bc_serverURL renderCfg = '''' then ret (GrubConfig bootLocalConfig)
                     else case renderNetBootConfig renderCfg token
                         (resolveConsole (ms_console (m_spec machine)) (bc_defaultConsole renderCfg)) of
                       Inl e \<Rightarrow> ret (GrubConfig bootLocalConfig)
                     | Inr config \<Rightarrow> ret (GrubConfig config)))))"

definition strip_prefix :: "string \<Rightarrow> string \<Rightarrow> string option" where
  "strip_prefix s prefix = (if hasPrefix s prefix then Some (drop (length prefix) s) else None)"

definition handleBootPath :: "'s BootServer \<Rightarrow> string \<Rightarrow> ('s, boot_response) kio" where
  "handleBootPath v name =
     (case strip_prefix name ''grub.cfg-'' of
        None \<Rightarrow> ret BootNotFound
      | Some rawMAC \<Rightarrow> handleGrubConfig v rawMAC)"

definition handleHTTPBootGrubSearch :: "'s BootServer \<Rightarrow> string \<Rightarrow> ('s, boot_response) kio" where
  "handleHTTPBootGrubSearch v name =
     (if name = ''grub.cfg'' then ret (GrubConfig grubSearchRedirectConfig)
      else case strip_prefix name ''grub.cfg-01-'' of
        None \<Rightarrow> ret BootNotFound
      | Some dashMAC \<Rightarrow> handleGrubConfig v (replace_char (CHR ''-'') (CHR '':'') dashMAC))"

text \<open>efi.go: the directory and the name of the file served, if any.\<close>

definition handleEFI :: "'s BootServer \<Rightarrow> string \<Rightarrow> (string \<times> string) option" where
  "handleEFI v name =
     (if name = ''shimx64.efi'' \<or> name = ''grubx64.efi'' then Some (bc_efiDir (bs_config v), name) else None)"

end
