(* ===== verification/Boot_Properties.thy ===== *)
theory Boot_Properties
  imports Boot_Server Live_Agent Token_Properties Reference_World
begin

text \<open>
  What the boot server hands out, and that the live agent reads it back: the token of a boot appears
  only in the configuration of the machine it was minted for, and the token that was issued is the one
  the agent registers with.
\<close>

section \<open>The token that is rendered\<close>

definition store_ok :: "(string \<Rightarrow> string) \<Rightarrow> TokenStore \<Rightarrow> bool" where
  "store_ok sha store \<longleftrightarrow> (\<forall>mac entry. store mac = Some entry \<longrightarrow> te_hash entry = hashToken sha (te_token entry))"

lemma store_ok_ops:
  "store_ok sha NewTokenStore"
  "store_ok sha store \<Longrightarrow> Issue sha r mac t ttl store = Inr (token, nb, store') \<Longrightarrow> store_ok sha store'"
  "store_ok sha store \<Longrightarrow> store_ok sha (Restore mac token (hashToken sha token) store)"
  by (auto simp: store_ok_def NewTokenStore_def Issue_def mintToken_def Restore_def split: sum.splits if_splits)

definition token_for :: "'s BootServer \<Rightarrow> Machine \<Rightarrow> string \<Rightarrow> bool" where
  "token_for v machine token \<longleftrightarrow>
     token = '''' \<or> (\<exists>nb. netBoot (m_status machine) = Some nb \<and> nb_tokenHash nb \<noteq> '''' \<and> hashToken (bs_sha v) token = nb_tokenHash nb)"

lemma lookupTokenFromSecret_value:
  assumes "lookupTokenFromSecret v mac machine wantHash s = (Inr token, s')"
  shows "token = '''' \<or> hashToken (bs_sha v) token = wantHash"
  using assms
  by (auto simp: lookupTokenFromSecret_def kio_simps Let_def split: prod.splits sum.splits if_splits option.splits)

lemma lookupToken_value:
  assumes "lookupToken v mac machine s = (Inr token, s')"
    and "\<forall>get put. bs_tokens v = Some (get, put) \<longrightarrow> store_ok (bs_sha v) (get s)"
  shows "token_for v machine token"
proof (cases "netBoot (m_status machine)")
  case (Some nb)
  show ?thesis
  proof (cases "\<exists>get put. bs_tokens v = Some (get, put) \<and> Lookup (get s) mac (nb_tokenHash nb) \<noteq> None")
    case True
    then obtain get put where found: "bs_tokens v = Some (get, put)" "Lookup (get s) mac (nb_tokenHash nb) = Some token"
      using assms(1) Some by (auto simp: lookupToken_def Let_def Lookup_def kio_simps split: if_splits option.splits)
    then show ?thesis
      using assms(2) Some by (auto simp: token_for_def Lookup_def store_ok_def split: if_splits option.splits)
  next
    case False
    then have "token = '''' \<or> nb_tokenHash nb \<noteq> '''' \<and> lookupTokenFromSecret v mac machine (nb_tokenHash nb) s = (Inr token, s')"
      using assms(1) Some by (auto simp: lookupToken_def Let_def kio_simps split: if_splits option.splits prod.splits)
    then show ?thesis using lookupTokenFromSecret_value [of v mac machine "nb_tokenHash nb" s token s'] Some by (auto simp: token_for_def)
  qed
qed (use assms(1) in \<open>simp add: lookupToken_def kio_simps token_for_def\<close>)

text \<open>What the manager's cache gives: the field index answers with the Machines it indexes under the MAC
  address, and reading it leaves the token store alone.\<close>

definition cache_reads :: "'s BootServer \<Rightarrow> bool" where
  "cache_reads v \<longleftrightarrow>
     (\<forall>mac s items s'. bs_listByBootMAC v mac s = (Inr items, s') \<longrightarrow> (\<forall>m\<in>set items. IndexMachineBootMAC m = [mac])) \<and>
     (\<forall>mac s get put. bs_tokens v = Some (get, put) \<longrightarrow> get (snd (bs_listByBootMAC v mac s)) = get s)"



section \<open>The kernel command line, read back\<close>

definition word_ok :: "string \<Rightarrow> bool" where
  "word_ok w \<longleftrightarrow> w \<noteq> [] \<and> list_all (\<lambda>c. \<not> go_space c) w"

lemma fields_word: "list_all (\<lambda>c. \<not> go_space c) w \<Longrightarrow> fields_from cur (w @ s) = fields_from (cur @ w) s"
  by (induction w arbitrary: cur) auto

lemma go_space_blank: "go_space (CHR '' '')"
  by (simp add: go_space_def)

lemma go_fields_word: "word_ok w \<Longrightarrow> go_fields (w @ CHR '' '' # s) = w # go_fields s"
  by (simp add: go_fields_def fields_word word_ok_def go_space_blank)

lemma go_fields_last: "word_ok w \<Longrightarrow> go_fields w = [w]"
  using fields_word [of w "[]" "[]"] by (simp add: go_fields_def word_ok_def)

lemma go_fields_console:
  assumes "word_ok w" "list_all word_ok console"
  shows "go_fields (w @ consoleCmdlineArgs console) = w # map (\<lambda>c. ''console='' @ c) console"
  using assms
proof (induction console arbitrary: w)
  case (Cons c console)
  have "word_ok (''console='' @ c)" using Cons.prems by (simp add: word_ok_def go_space_def)
  with Cons show ?case
    using go_fields_word [of w "''console='' @ c @ consoleCmdlineArgs console"] Cons.IH [of "''console='' @ c"]
    by (simp add: consoleCmdlineArgs_def)
qed (simp add: consoleCmdlineArgs_def go_fields_last)

lemma cut_eq_key: "CHR ''='' \<notin> set k \<Longrightarrow> cut_eq (k @ CHR ''='' # x) = Some (k, x)"
  by (auto simp: cut_eq_def takeWhile_append dropWhile_append)

lemma cmdline_console: "foldl cmdline_token c (map (\<lambda>x. ''console='' @ x) console) = c"
  using cut_eq_key [of "''console''"] by (induction console) (simp_all add: cmdline_token_def)

text \<open>The kernel arguments the boot server renders, as the agent parses them.\<close>

lemma kernel_args_parsed:
  assumes "word_ok (bc_squashfsPath cfg)" "word_ok (bc_serverURL cfg)" "word_ok (bc_agentServerURL cfg)"
    and "token = [] \<or> word_ok token" "list_all word_ok console"
  shows "ParseCmdline (kernel_args cfg token console) = \<lparr>cmd_server = trim_right (CHR ''/'') (bc_agentServerURL cfg), cmd_token = token\<rparr>"
proof -
  have trim: "list_all (\<lambda>c. \<not> go_space c) (trim_right ch s)" if "word_ok s" for ch s
    using that by (auto simp: trim_right_def word_ok_def list_all_iff dest: set_dropWhileD)
  let ?server = "''kezio.server='' @ trim_right (CHR ''/'') (bc_agentServerURL cfg)"
  let ?fetch = "''fetch='' @ trim_right (CHR ''/'') (bc_serverURL cfg) @ ''/boot/artifacts/'' @ bc_squashfsPath cfg"
  have words: "word_ok ''boot=live''" "word_ok ?fetch" "word_ok ?server" "token \<noteq> [] \<Longrightarrow> word_ok (''kezio.token='' @ token)"
    using assms trim [OF assms(2)] trim [OF assms(3)] by (simp_all add: word_ok_def go_space_def)
  have "go_fields (kernel_args cfg token console) =
      [''boot=live'', ?fetch, ?server] @ (if token = [] then [] else [''kezio.token='' @ token]) @ map (\<lambda>c. ''console='' @ c) console"
    using go_fields_word [OF words(1)] go_fields_word [OF words(2)] go_fields_word [OF words(3)]
      go_fields_console [OF words(3) assms(5)] go_fields_console [OF words(4) assms(5)]
    by (simp add: kernel_args_def)
  moreover have "cut_eq ''boot=live'' = Some (''boot'', ''live'')" using cut_eq_key [of "''boot''" "''live''"] by simp
  moreover have "cut_eq ?fetch = Some (''fetch'', trim_right (CHR ''/'') (bc_serverURL cfg) @ ''/boot/artifacts/'' @ bc_squashfsPath cfg)"
    using cut_eq_key [of "''fetch''"] by simp
  moreover have "cut_eq ?server = Some (''kezio.server'', trim_right (CHR ''/'') (bc_agentServerURL cfg))"
      "cut_eq (''kezio.token='' @ token) = Some (''kezio.token'', token)"
    using cut_eq_key [of "''kezio.server''"] cut_eq_key [of "''kezio.token''"] by simp_all
  ultimately show ?thesis
    using cmdline_console by (simp add: ParseCmdline_def cmdline_token_def)
qed

section \<open>Addresses as URLs\<close>

lemma unescape_plain: "list_all host_byte s \<Longrightarrow> CHR ''%'' \<notin> set s \<Longrightarrow> unescape mode s = Inr s"
  by (induction s) auto


definition dotted :: "string \<Rightarrow> bool" where
  "dotted ip \<longleftrightarrow> ip \<noteq> [] \<and> list_all (\<lambda>c. is_decimal c \<or> c = CHR ''.'') ip"

lemma dotted_bytes:
  assumes "is_decimal c \<or> c = CHR ''.''"
  shows "host_byte c \<and> \<not> ctl_byte c \<and> \<not> go_space c \<and> c \<notin> {CHR ''%'', CHR ''/'', CHR ''?'', CHR ''#'', CHR ''@'', CHR ''['', CHR '':''}"
  using assms by (auto simp: host_byte_def is_decimal_def ctl_byte_def go_space_def Let_def)

lemma takeWhile_absent: "c \<notin> set s \<Longrightarrow> takeWhile (\<lambda>x. x \<noteq> c) s = s"
  by (rule takeWhile_eq_all_conv [THEN iffD2]) auto

lemma dropWhile_absent: "c \<notin> set s \<Longrightarrow> dropWhile (\<lambda>x. x \<noteq> c) s = []"
  by (rule dropWhile_eq_Nil_conv [THEN iffD2]) auto

lemma parse_address_url:
  assumes "dotted ip"
  shows "url_Parse (''http://'' @ ip @ '':80'') = Inr \<lparr>u_scheme = ''http'', u_host = ip @ '':80'', u_path = []\<rparr>"
proof -
  let ?host = "ip @ '':80''"
  have bytes: "\<forall>c\<in>set ip. host_byte c \<and> \<not> ctl_byte c \<and> c \<notin> {CHR ''%'', CHR ''/'', CHR ''?'', CHR ''#'', CHR ''@'', CHR ''['', CHR '':''}"
    using assms dotted_bytes by (auto simp: dotted_def list_all_iff)
  then have free: "CHR ''/'' \<notin> set ?host" "CHR ''?'' \<notin> set ?host" "CHR ''#'' \<notin> set ?host" "CHR ''@'' \<notin> set ?host" "CHR ''%'' \<notin> set ?host"
      "CHR '':'' \<notin> set ip" "CHR ''['' \<notin> set ip"
    by auto
  have "host_byte (CHR '':'')" "host_byte (CHR ''8'')" "host_byte (CHR ''0'')" by (simp_all add: host_byte_def is_decimal_def)
  with bytes have host: "list_all host_byte ?host" by (simp add: list_all_iff)
  have bracket: "\<not> hasPrefix ?host ''[''" using free(7) assms by (cases ip) (auto simp: hasPrefix_def dotted_def)
  have last: "cut_last (CHR '':'') ?host = Some (ip, ''80'')"
    using free(6) by (simp add: cut_last_def takeWhile_append dropWhile_append)
  have "parse_host ?host = Inr ?host"
    using bracket last unescape_plain [OF host free(5)] by (simp add: parse_host_def validOptionalPort_def is_decimal_def)
  then have authority: "parse_authority ?host = Inr ?host" using free(4) by (simp add: parse_authority_def cut_last_def)
  have scheme: "get_scheme raw [] (''http://'' @ ?host) = Inr (''http'', ''//'' @ ?host)" for raw
    by (simp add: is_alpha_def is_decimal_def)
  have "\<not> list_ex ctl_byte (''http://'' @ ?host)" using bytes by (auto simp: list_ex_iff ctl_byte_def)
  then have "parse_url (''http://'' @ ?host) = Inr \<lparr>u_scheme = ''http'', u_host = ?host, u_path = []\<rparr>"
    using scheme [of "''http://'' @ ?host"] authority free
    by (simp add: parse_url_def cut_def set_path_def Let_def hasPrefix_def lower_char_def takeWhile_absent dropWhile_absent)
  then show ?thesis using free(3) by (simp add: url_Parse_def cut_def takeWhile_absent dropWhile_absent)
qed


lemma show_proxy_port: "show_int DefaultProxyPort = ''80''"
  by code_simp

lemma trim_right_none: "s \<noteq> [] \<Longrightarrow> last s \<noteq> c \<Longrightarrow> trim_right c s = s"
  by (cases s rule: rev_cases) (simp_all add: trim_right_def)

text \<open>The configuration of a machine whose Subnet has a boot half: everything is fetched from, and reported to, bootd's address.\<close>

lemma render_for_subnet:
  assumes "dotted (sn_bootdServerIP subnet)" "subnetBootBaseURL subnet = Some base" "bc_serverURL cfg = base"
  shows "\<exists>kernelPath initrdPath. renderNetBootConfig cfg token console =
    Inr (''set timeout=5'' @ newl @ ''linux '' @ kernelPath @ '' '' @ kernel_args cfg token console @ newl @
      ''initrd '' @ initrdPath @ newl @ ''boot'' @ newl)"
proof -
  have base: "base = ''http://'' @ sn_bootdServerIP subnet @ '':80''"
    using assms(2) by (simp add: subnetBootBaseURL_def show_proxy_port split: if_splits)
  then have "trim_right (CHR ''/'') base = base" by (intro trim_right_none) simp_all
  moreover obtain path where "\<And>f. GrubNetPath base f = Inr (path f)"
    using parse_address_url [OF assms(1)] by (simp add: GrubNetPath_def base)
  ultimately show ?thesis using assms(3)
    by (intro exI [of _ "path (''/boot/artifacts/'' @ bc_kernelPath cfg)"] exI [of _ "path (''/boot/artifacts/'' @ bc_initrdPath cfg)"])
      (simp add: renderNetBootConfig_def)
qed

lemma nibble_not_space:
  assumes "d < 16"
  shows "\<not> go_space (nibble_char d)"
proof -
  have "(of_char (nibble_char d) :: nat) \<ge> 48" using assms by (simp add: nibble_char_def)
  moreover have "(of_char c :: nat) \<le> 32" if "go_space c" for c using that by (auto simp: go_space_def)
  ultimately show ?thesis by fastforce
qed

lemma hex_words: "list_all (\<lambda>c. \<not> go_space c) (hex_encode bs)"
proof -
  have "(of_char b :: nat) div 16 < 16" for b :: char by (simp add: less_mult_imp_div_less)
  then show ?thesis by (auto simp: hex_encode_def list_all_iff nibble_not_space)
qed

lemma hex_encode_empty: "hex_encode bs = [] \<longleftrightarrow> bs = []"
  by (cases bs) (simp_all add: hex_encode_def)

text \<open>
  C29: the token of a net boot reaches the agent unchanged. When a token was issued
  for a Machine and its status carries the hash, the configuration the boot server answers with has
  kernel arguments from which the agent parses exactly this token and the address of the Subnet's
  bootd; and a request the agent makes with it passes the agent-facing server's header checks and
  presents a token whose hash is the one in the status.
\<close>

theorem issued_token_round_trip:
  assumes "Issue sha r mac t ttl store = Inr (token, nb, store')" "r = Inr buf" "buf \<noteq> []" "sha token \<noteq> []"
    and "NormalizeMAC rawMAC = Some mac" "bs_listByBootMAC v mac s = (Inr [machine], s1)"
    and "needsNetBoot machine" "netBoot (m_status machine) = Some nb"
    and "bs_tokens v = Some (get, put)" "get s1 mac = store' mac" "bs_sha v = sha"
    and "resolveBootSubnet v machine s1 = (Inr subnet, s2)" "HasBootPlane subnet" "dotted (sn_bootdServerIP subnet)"
    and "word_ok (bc_squashfsPath (bs_config v))"
    and "console = resolveConsole (ms_console (m_spec machine)) (bc_defaultConsole (bs_config v))" "list_all word_ok console"
  shows "\<exists>pre args post. handleGrubConfig v rawMAC s = (Inr (GrubConfig (pre @ '' '' @ args @ newl @ post)), s2) \<and>
      ParseCmdline args = \<lparr>cmd_server = ''http://'' @ sn_bootdServerIP subnet @ '':80'', cmd_token = token\<rparr> \<and>
      requireAgentSchemaVersion handler (agent_request token body) = handler (agent_request token body) \<and> bearerToken (agent_request token body) = Some token \<and>
      hashToken (bs_sha v) token = nb_tokenHash nb"
proof -
  let ?base = "''http://'' @ sn_bootdServerIP subnet @ '':80''"
  let ?cfg = "(bs_config v)\<lparr>bc_serverURL := ?base, bc_agentServerURL := ?base\<rparr>"
  have issued: "token = hex_encode buf" "nb_tokenHash nb = hashToken sha token" "store' mac = Some \<lparr>te_token = token, te_hash = nb_tokenHash nb\<rparr>"
    using assms(1,2) by (auto simp: Issue_def mintToken_def)
  have token: "word_ok token" "nb_tokenHash nb \<noteq> []"
    using issued assms(3,4) by (simp_all add: word_ok_def hex_words hex_encode_empty hashToken_def)
  have looked: "lookupToken v mac machine s1 = (Inr token, s1)"
    using assms(8,9,10) issued(3) token(2) by (simp add: lookupToken_def Lookup_def Let_def)
  have found: "lookupMachine v mac s = (Inr (Some machine), s1)"
    using assms(6) by (simp add: lookupMachine_def kio_simps)
  have url: "subnetBootBaseURL subnet = Some ?base" using assms(13) by (simp add: subnetBootBaseURL_def show_proxy_port)
  obtain kernelPath initrdPath where rendered: "renderNetBootConfig ?cfg token console =
      Inr (''set timeout=5'' @ newl @ ''linux '' @ kernelPath @ '' '' @ kernel_args ?cfg token console @ newl @
        ''initrd '' @ initrdPath @ newl @ ''boot'' @ newl)"
    using render_for_subnet [OF assms(14) url, of ?cfg token console] by auto
  have "handleGrubConfig v rawMAC s = (Inr (GrubConfig ((''set timeout=5'' @ newl @ ''linux '' @ kernelPath) @ '' '' @
      kernel_args ?cfg token console @ newl @ (''initrd '' @ initrdPath @ newl @ ''boot'' @ newl))), s2)"
    using assms(5,7,12,16) found looked url rendered by (simp add: handleGrubConfig_def kio_simps Let_def)
  moreover have "word_ok ?base" using assms(14) dotted_bytes by (auto simp: word_ok_def dotted_def list_all_iff go_space_def)
  then have "ParseCmdline (kernel_args ?cfg token console) = \<lparr>cmd_server = ?base, cmd_token = token\<rparr>"
    using kernel_args_parsed [of ?cfg token console] assms(15,17) token(1) trim_right_none [of ?base "CHR ''/''"] by simp
  moreover have "requireAgentSchemaVersion handler (agent_request token body) = handler (agent_request token body)"
  proof -
    have "show_int AgentSchemaVersion \<noteq> []" "atoi (show_int AgentSchemaVersion) = Some AgentSchemaVersion" by code_simp+
    then show ?thesis by (simp add: requireAgentSchemaVersion_def agent_request_def)
  qed
  moreover have "bearerToken (agent_request token body) = Some token"
    using token(1) by (simp add: bearerToken_def agent_request_def hasPrefix_def word_ok_def)
  ultimately show ?thesis using issued(2) assms(11) by metis
qed


section \<open>A boot server in the reference world\<close>

text \<open>Its state is the token store itself; one Machine is being inspected, with a token issued for it.\<close>

abbreviation lab_mac :: string where
  "lab_mac \<equiv> ''02:00:00:00:00:ab''"

definition lab_issue :: "string \<times> MachineNetBootStatus \<times> TokenStore" where
  "lab_issue = (case Issue (\<lambda>x. x) (Inr ''r'') lab_mac 0 1000 NewTokenStore of Inr x \<Rightarrow> x)"

definition lab_booting :: Machine where
  "lab_booting = upd_status (netBoot_update (\<lambda>_. Some (fst (snd lab_issue)))) (ref_machine Inspecting [] None)"

definition lab_boot :: "TokenStore BootServer" where
  "lab_boot =
     \<lparr>bs_listByBootMAC = (\<lambda>mac s. (Inr (filter (\<lambda>m. IndexMachineBootMAC m = [mac]) [lab_booting]), s)),
      bs_getSubnet = (\<lambda>k s. (Inr ref_subnet, s)), bs_getSecret = (\<lambda>k s. (Inl NotFound, s)),
      bs_config = withDefaults \<lparr>bc_artifactsDir = ''/srv'', bc_serverURL = [], bc_agentServerURL = [], bc_kernelPath = [], bc_initrdPath = [],
        bc_squashfsPath = [], bc_efiDir = [], bc_defaultConsole = [''tty0'']\<rparr>,
      bs_tokens = Some (\<lambda>s. s, \<lambda>store s. store), bs_sha = (\<lambda>x. x), bs_parseTime = (\<lambda>x. None), bs_now = 0\<rparr>"

lemma lab_issued: "Issue (\<lambda>x. x) (Inr ''r'') lab_mac 0 1000 NewTokenStore = Inr lab_issue"
  by (simp add: lab_issue_def Issue_def mintToken_def)

lemma lab_machine:
  "NormalizeMAC ''02:00:00:00:00:AB'' = Some lab_mac" "IndexMachineBootMAC lab_booting = [lab_mac]" "m_state lab_booting = Inspecting"
  "netBoot (m_status lab_booting) = Some (fst (snd lab_issue))" "ms_console (m_spec lab_booting) = []"
  by (code_simp, code_simp, code_simp, simp add: lab_booting_def, code_simp)

lemma lab_listed: "bs_listByBootMAC lab_boot lab_mac s = (Inr [lab_booting], s)"
  by (simp add: lab_boot_def lab_machine(2))

lemma lab_subnet: "resolveBootSubnet lab_boot lab_booting s = (Inr ref_subnet, s)"
  by (simp add: resolveBootSubnet_def lab_boot_def kio_simps Let_def)

lemma lab_config: "word_ok (bc_squashfsPath (bs_config lab_boot))" "bc_defaultConsole (bs_config lab_boot) = [''tty0'']"
  by (simp_all add: lab_boot_def withDefaults_def Let_def word_ok_def go_space_def)

theorem issued_token_round_trip_witness:
  "\<exists>pre args post. handleGrubConfig lab_boot ''02:00:00:00:00:AB'' (snd (snd lab_issue)) =
      (Inr (GrubConfig (pre @ '' '' @ args @ newl @ post)), snd (snd lab_issue)) \<and>
    ParseCmdline args = \<lparr>cmd_server = ''http://10.0.0.1:80'', cmd_token = fst lab_issue\<rparr>"
proof -
  have "HasBootPlane ref_subnet" "dotted (sn_bootdServerIP ref_subnet)" "sn_bootdServerIP ref_subnet = ''10.0.0.1''"
    by (simp_all add: HasBootPlane_def ref_subnet_def dotted_def is_decimal_def)
  moreover have "needsNetBoot lab_booting" by (simp add: needsNetBoot_def lab_machine)
  moreover have "list_all word_ok (resolveConsole (ms_console (m_spec lab_booting)) (bc_defaultConsole (bs_config lab_boot)))"
    by (simp add: resolveConsole_def lab_machine lab_config word_ok_def go_space_def)
  moreover have "fst lab_issue \<noteq> []" by code_simp
  moreover have "bs_tokens lab_boot = Some (\<lambda>s. s, \<lambda>store s. store)" "bs_sha lab_boot = (\<lambda>x. x)" by (simp_all add: lab_boot_def)
  ultimately show ?thesis
    using issued_token_round_trip [of "\<lambda>x. x" "Inr ''r''" lab_mac 0 1000 NewTokenStore "fst lab_issue" "fst (snd lab_issue)" "snd (snd lab_issue)" "''r''"
        "''02:00:00:00:00:AB''" lab_boot "snd (snd lab_issue)" lab_booting "snd (snd lab_issue)" "\<lambda>s. s" "\<lambda>store s. store" ref_subnet "snd (snd lab_issue)"
        "resolveConsole (ms_console (m_spec lab_booting)) (bc_defaultConsole (bs_config lab_boot))" "\<lambda>_. ret Unauthorized" "None :: unit option"]
      lab_issued lab_machine lab_listed lab_subnet lab_config(1)
    by auto
qed




section \<open>Routes and restarts\<close>

lemma mac_no_dash: "mac_groups n mac \<Longrightarrow> CHR ''-'' \<notin> set mac"
  by (induction n mac rule: mac_groups.induct) (auto simp: is_hex_def)

text \<open>GRUB's own search, which spells the MAC address with dashes, is answered like a request for the MAC address.\<close>

lemma search_route_agrees:
  assumes "mac_groups 5 mac"
  shows "handleHTTPBootGrubSearch v (''grub.cfg-01-'' @ replace_char (CHR '':'') (CHR ''-'') mac) = handleBootPath v (''grub.cfg-'' @ mac)"
proof -
  have "replace_char (CHR ''-'') (CHR '':'') (replace_char (CHR '':'') (CHR ''-'') mac) = mac"
    using mac_no_dash [OF assms] unfolding replace_char_def by (induction mac) auto
  then show ?thesis by (simp add: handleHTTPBootGrubSearch_def handleBootPath_def strip_prefix_def hasPrefix_def)
qed

text \<open>
  A restart of the manager, or a late request that put an older token back, loses no boot: while the
  Secret holds the token the status names, a lookup finds a token with that hash whatever the store
  holds.
\<close>

lemma secret_recovers_token:
  assumes "netBoot (m_status machine) = Some nb" "nb_tokenHash nb \<noteq> []"
    and "\<And>s. bs_getSecret v (m_namespace machine, BootTokenSecretName (m_name machine)) s = (Inr secret, s)"
    and "data_of secret ''mac'' = mac" "data_of secret ''token'' = token" "token \<noteq> []" "hashToken (bs_sha v) token = nb_tokenHash nb"
    and "bs_parseTime v (data_of secret ''expiresAt'') = Some t" "bs_now v < t"
    and "\<forall>get put. bs_tokens v = Some (get, put) \<longrightarrow> store_ok (bs_sha v) (get s)"
  shows "\<exists>token' s'. lookupToken v mac machine s = (Inr token', s') \<and> hashToken (bs_sha v) token' = nb_tokenHash nb"
proof -
  have secret: "\<exists>s'. lookupTokenFromSecret v mac machine (nb_tokenHash nb) s = (Inr token, s')"
    using assms(3-9) by (auto simp: lookupTokenFromSecret_def kio_simps Let_def split: option.splits)
  show ?thesis
  proof (cases "bs_tokens v")
    case None
    then show ?thesis using secret assms(1,2,7) by (auto simp: lookupToken_def Let_def)
  next
    case (Some gp)
    obtain get put where gp: "gp = (get, put)" by (cases gp)
    then have ok: "store_ok (bs_sha v) (get s)" using assms(10) Some by simp
    show ?thesis
    proof (cases "Lookup (get s) mac (nb_tokenHash nb)")
      case None
      then show ?thesis using secret Some gp assms(1,2,7) by (auto simp: lookupToken_def Let_def)
    next
      case found: (Some token')
      then have "hashToken (bs_sha v) token' = nb_tokenHash nb"
        using ok by (auto simp: Lookup_def store_ok_def split: if_splits option.splits)
      then show ?thesis using found Some gp assms(1,2) by (auto simp: lookupToken_def Let_def)
    qed
  qed
qed

end
