(* ===== verification/Fake_Deployer.thy ===== *)
theory Fake_Deployer
  imports Agent_Server Deployer_Contract
begin

text \<open>
  The fake deployer (internal/deployer/fake.go), which backs the test lanes that have no hardware: a
  second implementation of the Deployer contract. Each step may be replaced by a function of the
  caller (\<open>None\<close> is the nil function); the default steps fabricate an inventory and walk a run through
  its phases, one per call.
\<close>

section \<open>Annotations\<close>

definition FakeFailAnnotation :: string where
  "FakeFailAnnotation = ''kezio.kojuro.date/fake-fail''"

definition FakeDisksAnnotation :: string where
  "FakeDisksAnnotation = ''kezio.kojuro.date/fake-disks''"

definition fakeSingleDisk :: "MachineHardwareDisk list" where
  "fakeSingleDisk =
     [\<lparr>d_deviceName = ''/dev/vda'', d_serialNumber = [], d_wwn = [], d_model = [], d_vendor = [], d_sizeBytes = 32 * 2 ^ 30,
       d_rotational = None, d_pciePath = [], d_hctl = [], d_slotNumber = None\<rparr>]"

definition fakeTwoDisks :: "MachineHardwareDisk list" where
  "fakeTwoDisks =
     [\<lparr>d_deviceName = ''/dev/vda'', d_serialNumber = ''fake-disk-0'', d_wwn = ''0x5000000000000000'', d_model = ''FakeDisk0'',
       d_vendor = ''FakeVendor'', d_sizeBytes = 32 * 2 ^ 30, d_rotational = Some False, d_pciePath = [], d_hctl = [], d_slotNumber = None\<rparr>,
      \<lparr>d_deviceName = ''/dev/vdb'', d_serialNumber = ''fake-disk-1'', d_wwn = ''0x5000000000000001'', d_model = ''FakeDisk1'',
       d_vendor = ''FakeVendor'', d_sizeBytes = 64 * 2 ^ 30, d_rotational = Some False, d_pciePath = [], d_hctl = [], d_slotNumber = None\<rparr>]"

definition fakeDisks :: "Machine \<Rightarrow> MachineHardwareDisk list" where
  "fakeDisks m = (if map_of (m_annotations m) FakeDisksAnnotation = Some ''2'' then fakeTwoDisks else fakeSingleDisk)"

definition fakeFailOverride :: "Machine \<Rightarrow> string \<Rightarrow> Result option" where
  "fakeFailOverride m step =
     (case map_of (m_annotations m) FakeFailAnnotation of
        None \<Rightarrow> None
      | Some raw \<Rightarrow>
          if CHR '':'' \<notin> set raw \<or> takeWhile (\<lambda>c. c \<noteq> CHR '':'') raw \<noteq> step then None
          else (let countRaw = tl (dropWhile (\<lambda>c. c \<noteq> CHR '':'') raw);
                    failed = \<lparr>outcome = Failed, res_requeueAfter = 0, res_errorType = Transient,
                      res_errorMessage = ''fake deployer: scripted failure via '' @ FakeFailAnnotation @ ''='' @ go_quote raw\<rparr>
                in if countRaw = ''forever'' then Some failed
                   else case atoi countRaw of
                       None \<Rightarrow> None
                     | Some limit \<Rightarrow> if limit < 0 \<or> errorCount (m_status m) \<ge> limit then None else Some failed))"

section \<open>The walk of a run\<close>

definition deployRunPhaseOrder :: "DeployRunPhase list" where
  "deployRunPhaseOrder =
     [PhasePending, PhasePartitioning, PhaseWritingContent, PhaseRunningPostHook, PhaseFinalizing, PhaseSucceeded]"

fun index_after :: "DeployRunPhase \<Rightarrow> nat \<Rightarrow> DeployRunPhase list \<Rightarrow> nat" where
  "index_after current i [] = 0"
| "index_after current i (p # ps) = (if p = current then i + 1 else index_after current (i + 1) ps)"

definition nextDeployRunPhase :: "DeployRunPhase \<Rightarrow> kerr + (DeployRunPhase \<times> bool)" where
  "nextDeployRunPhase current =
     (let index = index_after current 0 deployRunPhaseOrder in
      if current \<noteq> PhaseEmpty \<and> index = 0 then Inl (PlainError ''run status.phase is not one the fake deployer can advance from'')
      else if index \<ge> length deployRunPhaseOrder then Inl (PlainError ''run status.phase is already terminal'')
      else Inr (deployRunPhaseOrder ! index, index = length deployRunPhaseOrder - 1))"

definition fake_advance :: "libs \<Rightarrow> time \<Rightarrow> DeployRun \<Rightarrow> kerr + (DeployRun \<times> bool)" where
  "fake_advance l t run =
     (case nextDeployRunPhase (phase (r_status run)) of
        Inl e \<Rightarrow> Inl e
      | Inr (nxt, finished) \<Rightarrow>
          (let st = (r_status run)\<lparr>phase := nxt,
                 phaseTimings := closeCurrentPhaseTiming (phaseTimings (r_status run)) t @
                   [\<lparr>pt_phase = nxt, pt_startedAt = t, pt_finishedAt = (if finished then Some t else None)\<rparr>]\<rparr>;
               run' = run\<lparr>r_status := st\<rparr>
           in Inr (if finished then setSucceededCondition l run' CondTrue ''FakeDeploySucceeded''
                ''fake deployer completed this run without touching real hardware'' else run', finished)))"

section \<open>The deployer\<close>

record 's FakeDeployer =
  fk_kube :: "'s kube"
  fk_lib :: libs
  fk_now :: time
  fk_inspect :: "(Machine \<Rightarrow> bool \<Rightarrow> ('s, Machine \<times> Result) act) option"
  fk_provision :: "(Machine \<Rightarrow> DeployRun \<Rightarrow> bool \<Rightarrow> ('s, Machine \<times> Result) act) option"
  fk_deprovision :: "(Machine \<Rightarrow> bool \<Rightarrow> ('s, Machine \<times> Result) act) option"
  fk_powerOff :: "(Machine \<Rightarrow> ('s, Machine \<times> Result) act) option"
  fk_reboot :: "(Machine \<Rightarrow> bool \<Rightarrow> ('s, Machine \<times> Result) act) option"

definition fakeInspect :: "'s FakeDeployer \<Rightarrow> Machine \<Rightarrow> bool \<Rightarrow> ('s, Machine \<times> Result) act" where
  "fakeInspect f m restart =
     (case fk_inspect f of
        Some step \<Rightarrow> step m restart
      | None \<Rightarrow>
          (let hw = \<lparr>hw_name = m_name m, hw_namespace = m_namespace m, hw_owners = [(m_name m, m_uid m)],
                 hw_spec = \<lparr>hw_disks = fakeDisks m, hw_nics = [\<lparr>n_name = ''eth0'', n_macAddress = ms_bootMACAddress (m_spec m)\<rparr>],
                   hw_memoryBytes = 4 * 2 ^ 30, hw_cpuCount = 2\<rparr>\<rparr>
           in bindK (attempt (kcall (CreateHardware hw) (k_createHardware (fk_kube f) hw))) (\<lambda>r. case r of
               Inl e \<Rightarrow> if isAlreadyExists e then ret (m, result_of Complete)
                 else raise (Wrapped ''fake deployer: writing synthetic MachineHardware'' e)
             | Inr _ \<Rightarrow> ret (m, result_of Complete))))"

definition fakeProvision :: "'s FakeDeployer \<Rightarrow> Machine \<Rightarrow> DeployRun \<Rightarrow> bool \<Rightarrow> ('s, Machine \<times> Result) act" where
  "fakeProvision f m run restart =
     (case fk_provision f of
        Some step \<Rightarrow> step m run restart
      | None \<Rightarrow>
          (case fakeFailOverride m ''provision'' of
             Some result \<Rightarrow> ret (m, result)
           | None \<Rightarrow>
               (case fake_advance (fk_lib f) (fk_now f) run of
                  Inl e \<Rightarrow> raise (Wrapped ''fake deployer'' e)
                | Inr (run', finished) \<Rightarrow>
                    bindK (wrapK ''fake deployer: writing DeployRun status'' (kcall (UpdateRunStatus run') (k_updateRunStatus (fk_kube f) run'))) (\<lambda>_.
                    ret (m, result_of (if finished then Complete else Continuing))))))"

definition fakeDeprovision :: "'s FakeDeployer \<Rightarrow> Machine \<Rightarrow> bool \<Rightarrow> ('s, Machine \<times> Result) act" where
  "fakeDeprovision f m restart =
     (case fk_deprovision f of
        Some step \<Rightarrow> step m restart
      | None \<Rightarrow> (case fakeFailOverride m ''deprovision'' of Some result \<Rightarrow> ret (m, result) | None \<Rightarrow> ret (m, result_of Complete)))"

definition fakePowerOff :: "'s FakeDeployer \<Rightarrow> Machine \<Rightarrow> ('s, Machine \<times> Result) act" where
  "fakePowerOff f m = (case fk_powerOff f of Some step \<Rightarrow> step m | None \<Rightarrow> ret (m, result_of Complete))"

definition fakeReboot :: "'s FakeDeployer \<Rightarrow> Machine \<Rightarrow> bool \<Rightarrow> ('s, Machine \<times> Result) act" where
  "fakeReboot f m hard = (case fk_reboot f of Some step \<Rightarrow> step m hard | None \<Rightarrow> ret (m, result_of Complete))"

definition FakeDeployer_of :: "'s FakeDeployer \<Rightarrow> 's deployer" where
  "FakeDeployer_of f = \<lparr>d_inspect = fakeInspect f, d_provision = fakeProvision f, d_deprovision = fakeDeprovision f,
     d_powerOff = fakePowerOff f, d_reboot = fakeReboot f\<rparr>"

text \<open>The fake with no function replaced.\<close>

definition default_fake :: "'s kube \<Rightarrow> libs \<Rightarrow> time \<Rightarrow> 's FakeDeployer" where
  "default_fake k l t = \<lparr>fk_kube = k, fk_lib = l, fk_now = t, fk_inspect = None, fk_provision = None, fk_deprovision = None,
     fk_powerOff = None, fk_reboot = None\<rparr>"

section \<open>It keeps the contract\<close>

lemma override_result: "fakeFailOverride m step = Some r \<Longrightarrow> result_ok r \<and> never_restart r"
  by (auto simp: fakeFailOverride_def result_ok_def never_restart_def Let_def split: option.splits if_splits)

lemma fake_result: "oc \<in> {Complete, Continuing} \<Longrightarrow> Q (result_of oc) \<Longrightarrow> step_ok k l m Q (ret (m, result_of oc))"
  unfolding step_ok_def by (auto intro!: kspec_ret simp: result_ok_def)

lemma fake_scripted: "fakeFailOverride m step = Some r \<Longrightarrow> (never_restart r \<Longrightarrow> Q r) \<Longrightarrow> step_ok k l m Q (ret (m, r))"
  using override_result [of m step r] unfolding step_ok_def by (auto intro!: kspec_ret)

lemma fake_request:
  assumes "\<not> reconciler_call c" "\<And>r. step_ok k l m Q (f r)"
  shows "step_ok k l m Q (bindK (attempt (kcall c op)) f)" "(\<And>x. step_ok k l m Q (g x)) \<Longrightarrow> step_ok k l m Q (bindK (wrapK ctx (kcall c op)) g)"
  using assms unfolding step_ok_def
  by (auto intro!: kspec_bind [where Q = "\<lambda>_. True"] kspec_wrap kspec_kcall kspec_weaken [OF kspec_attempt [OF kspec_kcall [where R = "\<lambda>_. True"]]])

lemma fake_raise: "step_ok k l m Q (raise e)"
  unfolding step_ok_def by (rule kspec_raise)

interpretation fd: deployer_contract "FakeDeployer_of (default_fake k l t)" k l for k :: "'s kube" and l t
  by unfold_locales
    (auto simp: FakeDeployer_of_def default_fake_def fakeInspect_def fakeProvision_def fakeDeprovision_def fakePowerOff_def fakeReboot_def Let_def never_restart_def
      intro!: fake_result fake_request fake_raise split: option.splits sum.splits elim!: fake_scripted)

section \<open>A run under the fake deployer\<close>

text \<open>What \<open>n\<close> calls of Provision make of a run.\<close>

fun fake_walk :: "libs \<Rightarrow> time \<Rightarrow> nat \<Rightarrow> DeployRun \<Rightarrow> kerr + DeployRun" where
  "fake_walk l t 0 run = Inr run"
| "fake_walk l t (Suc n) run = (case fake_advance l t run of Inl e \<Rightarrow> Inl e | Inr (run', _) \<Rightarrow> fake_walk l t n run')"

lemma fake_advance_phase:
  "fake_advance l t run = Inr (run', finished) \<Longrightarrow> nextDeployRunPhase (phase (r_status run)) = Inr (phase (r_status run'), finished)"
  by (auto simp: fake_advance_def setSucceededCondition_def Let_def split: sum.splits if_splits)


text \<open>
  A fresh run is walked through every phase in order and succeeds with the sixth call, each phase timed
  and closed; the seventh call fails, so a caller that lost the answer of the sixth (its own status
  write failed) never sees the run complete.
\<close>

theorem fake_run_succeeds:
  assumes "phase (r_status run) = PhaseEmpty" "phaseTimings (r_status run) = []"
  shows "\<exists>run'. fake_walk l t 6 run = Inr run' \<and> phase (r_status run') = PhaseSucceeded \<and>
    map pt_phase (phaseTimings (r_status run')) = deployRunPhaseOrder \<and>
    list_all (\<lambda>x. pt_finishedAt x = Some t) (phaseTimings (r_status run')) \<and> isl (fake_walk l t 7 run)"
  using assms
  by (simp add: numeral_eq_Suc fake_advance_def nextDeployRunPhase_def deployRunPhaseOrder_def closeCurrentPhaseTiming_def
      setSucceededCondition_def Let_def)

theorem fake_complete_not_repeated:
  assumes "phase (r_status run) = PhaseSucceeded" "fakeFailOverride m ''provision'' = None"
  shows "fakeProvision (default_fake k l t) m run restart = raise (Wrapped ''fake deployer'' (PlainError ''run status.phase is already terminal''))"
  using assms by (simp add: fakeProvision_def default_fake_def fake_advance_def nextDeployRunPhase_def deployRunPhaseOrder_def)

end
