(* ===== verification/Net_Validate.thy ===== *)
theory Net_Validate
  imports Subnet_Dhcp
begin

text \<open>
  The checks of a Subnet's network configuration: internal/subnetvalidate (the lease range and bootd's
  address against the Subnet's own network) and internal/nadvalidate (the address pools of the
  NetworkAttachmentDefinitions it names). encoding/json and the IPv6 half of package net are
  parameters: a CNI configuration is a text outside the repository's schemas and may hold IPv6
  networks. A message keeps the fixed part of its format.
\<close>

section \<open>Package net\<close>

text \<open>
  A network is the predicate \<^verbatim>\<open>IPNet.Contains\<close> on IPv4 addresses. \<open>nl_parseIP6\<close> is \<^verbatim>\<open>net.ParseIP\<close> on a text
  that is no dotted quad (the inner option is \<^verbatim>\<open>To4\<close>), \<open>nl_parseCIDR6\<close> \<^verbatim>\<open>net.ParseCIDR\<close> on one that is no
  IPv4 network, with the host address.
\<close>

type_synonym ipnet = "ip4 \<Rightarrow> bool"

record cniIPAM =
  ci_type :: string
  ci_addresses :: "string list"
  ci_range :: string
  ci_subnet :: string
  ci_rangeStart :: string
  ci_rangeEnd :: string

record net_lib =
  nl_parseIP6 :: "string \<Rightarrow> ip4 option option"
  nl_parseCIDR6 :: "string \<Rightarrow> (ip4 option \<times> ipnet) option"
  nl_topLevel :: "string \<Rightarrow> kerr + (string option \<times> string option list)"
  nl_ipam :: "string \<Rightarrow> kerr + cniIPAM"

definition go_ParseIP :: "net_lib \<Rightarrow> string \<Rightarrow> ip4 option option" where
  "go_ParseIP L s = (case parseIP4 s of Some v \<Rightarrow> Some (Some v) | None \<Rightarrow> nl_parseIP6 L s)"

definition parseIPv4 :: "net_lib \<Rightarrow> string \<Rightarrow> ip4 option" where
  "parseIPv4 L s = (case go_ParseIP L s of None \<Rightarrow> None | Some ip \<Rightarrow> ip)"

definition cidr_host :: "string \<Rightarrow> ip4 option" where
  "cidr_host s = parseIP4 (takeWhile (\<lambda>c. c \<noteq> CHR ''/'') s)"

definition go_ParseCIDR :: "net_lib \<Rightarrow> string \<Rightarrow> (ip4 option \<times> ipnet) option" where
  "go_ParseCIDR L s =
     (case parseCIDR4 s of Some (n, m) \<Rightarrow> Some (cidr_host s, \<lambda>ip. ip AND m = n) | None \<Rightarrow> nl_parseCIDR6 L s)"

section \<open>nadvalidate.go\<close>

datatype Verdict = OK | Violation | Advisory | Indeterminate

record CheckResult =
  verdict :: Verdict
  cr_reason :: string
  cr_message :: string

abbreviation check_result :: "Verdict \<Rightarrow> string \<Rightarrow> string \<Rightarrow> CheckResult" where
  "check_result v r m \<equiv> \<lparr>verdict = v, cr_reason = r, cr_message = m\<rparr>"

section \<open>ipam.go\<close>

definition KindStatic :: string where "KindStatic = ''static''"
definition KindWhereabouts :: string where "KindWhereabouts = ''whereabouts''"
definition KindHostLocal :: string where "KindHostLocal = ''host-local''"
definition KindNone :: string where "KindNone = ''''"

lemmas kind_defs = KindStatic_def KindWhereabouts_def KindHostLocal_def KindNone_def

record IPAM =
  ip_kind :: string
  ip_addresses :: "ip4 list"
  ip_range :: "ipnet option"
  ip_subnet :: "ipnet option"
  ip_rangeBounded :: bool

abbreviation ipam_of :: "string \<Rightarrow> IPAM" where
  "ipam_of kind \<equiv> \<lparr>ip_kind = kind, ip_addresses = [], ip_range = None, ip_subnet = None, ip_rangeBounded = False\<rparr>"

definition ErrConfigUnparseable :: kerr where
  "ErrConfigUnparseable = PlainError ''nad config: cannot parse spec.config''"

definition ErrNoIPAMSection :: kerr where
  "ErrNoIPAMSection = PlainError ''nad config: no ipam section present''"

definition parseHostAddress :: "net_lib \<Rightarrow> string \<Rightarrow> ip4 option" where
  "parseHostAddress L s =
     (case go_ParseIP L s of
        Some ip \<Rightarrow> ip
      | None \<Rightarrow> (case go_ParseCIDR L s of Some (Some ip, _) \<Rightarrow> Some ip | _ \<Rightarrow> None))"

fun static_addresses :: "net_lib \<Rightarrow> string list \<Rightarrow> ip4 list option" where
  "static_addresses L [] = Some []"
| "static_addresses L (a # as) =
     (case parseHostAddress L a of
        None \<Rightarrow> None
      | Some ip \<Rightarrow> (case static_addresses L as of None \<Rightarrow> None | Some ips \<Rightarrow> Some (ip # ips)))"

definition first_some :: "'a option list \<Rightarrow> 'a option" where
  "first_some xs = (case dropWhile (\<lambda>x. x = None) xs of [] \<Rightarrow> None | x # _ \<Rightarrow> x)"

definition ParseIPAM :: "net_lib \<Rightarrow> string \<Rightarrow> kerr + IPAM" where
  "ParseIPAM L configJSON =
     (case nl_topLevel L configJSON of
        Inl e \<Rightarrow> Inl ErrConfigUnparseable
      | Inr (topIPAM, plugins) \<Rightarrow>
          (case (case topIPAM of Some raw \<Rightarrow> Some raw | None \<Rightarrow> first_some plugins) of
             None \<Rightarrow> Inl ErrNoIPAMSection
           | Some raw \<Rightarrow>
               (case nl_ipam L raw of
                  Inl e \<Rightarrow> Inl ErrConfigUnparseable
                | Inr parsed \<Rightarrow>
                    if ci_type parsed = KindStatic then
                      (case static_addresses L (ci_addresses parsed) of
                         None \<Rightarrow> Inl ErrConfigUnparseable
                       | Some addrs \<Rightarrow> Inr ((ipam_of KindStatic)\<lparr>ip_addresses := addrs\<rparr>))
                    else if ci_type parsed = KindWhereabouts then
                      (case go_ParseCIDR L (ci_range parsed) of
                         None \<Rightarrow> Inl ErrConfigUnparseable
                       | Some (_, net) \<Rightarrow> Inr ((ipam_of KindWhereabouts)\<lparr>ip_range := Some net\<rparr>))
                    else if ci_type parsed = KindHostLocal then
                      (if ci_rangeStart parsed \<noteq> '''' \<or> ci_rangeEnd parsed \<noteq> '''' then Inr ((ipam_of KindHostLocal)\<lparr>ip_rangeBounded := True\<rparr>)
                       else case go_ParseCIDR L (ci_subnet parsed) of
                           None \<Rightarrow> Inl ErrConfigUnparseable
                         | Some (_, net) \<Rightarrow> Inr ((ipam_of KindHostLocal)\<lparr>ip_subnet := Some net\<rparr>))
                    else Inr (ipam_of (ci_type parsed)))))"

section \<open>checks.go\<close>

definition bad_address :: "string \<Rightarrow> CheckResult" where
  "bad_address what = check_result Indeterminate (what @ ''Invalid'') ''is not a valid IPv4 address''"

definition CheckBootdAddress :: "net_lib \<Rightarrow> string \<Rightarrow> string \<Rightarrow> CheckResult" where
  "CheckBootdAddress L bootdConfig bootdServerIP =
     (case parseIPv4 L bootdServerIP of
        None \<Rightarrow> bad_address ''BootdServerIP''
      | Some ip \<Rightarrow>
          (case ParseIPAM L bootdConfig of
             Inl e \<Rightarrow> check_result Indeterminate ''BootdNADConfigUnparseable'' (error_text e)
           | Inr ipam \<Rightarrow>
               if ip_kind ipam = KindStatic then
                 (if ip \<in> set (ip_addresses ipam) then check_result OK ''BootdAddressMatch'' ''bootd NAD static ipam includes bootdServerIP''
                  else check_result Violation ''BootdAddressMismatch'' ''bootd NAD static ipam does not include bootdServerIP'')
               else if ip_kind ipam = KindNone then check_result Violation ''BootdIPAMEmpty'' ''bootd NAD has no ipam configured''
               else if ip_kind ipam = KindWhereabouts then check_result Violation ''BootdIPAMNotStatic'' ''bootd NAD hands out an address from a range''
               else if ip_kind ipam = KindHostLocal then
                 (if ip_rangeBounded ipam then check_result Indeterminate ''BootdIPAMHostLocalBounded'' ''bootd NAD narrows its subnet''
                  else check_result Violation ''BootdIPAMNotStatic'' ''bootd NAD allocates from its full subnet'')
               else check_result Indeterminate ''BootdIPAMUnrecognised'' ''bootd NAD ipam type is not recognised''))"

text \<open>The part CheckSeederOverlap and CheckTrackerAddress share: whether the pool can hand out the address.\<close>

definition check_pool :: "IPAM \<Rightarrow> ip4 \<Rightarrow> string \<Rightarrow> string \<Rightarrow> CheckResult" where
  "check_pool ipam ip prefix free =
     (if ip_kind ipam = KindNone then check_result OK ''SeederIPAMEmpty'' ''seeder NAD has no ipam configured''
      else if ip_kind ipam = KindStatic then
        (if ip \<in> set (ip_addresses ipam) then check_result Violation (prefix @ ''OverlapStatic'') ''seeder NAD static ipam includes the address''
         else check_result OK free ''seeder NAD static ipam does not include the address'')
      else if ip_kind ipam = KindWhereabouts then
        (if (case ip_range ipam of None \<Rightarrow> False | Some net \<Rightarrow> net ip)
         then check_result Violation (prefix @ ''OverlapWhereabouts'') ''seeder NAD whereabouts range includes the address''
         else check_result OK free ''seeder NAD whereabouts range does not include the address'')
      else if ip_kind ipam = KindHostLocal then
        (if ip_rangeBounded ipam then check_result Indeterminate (prefix @ ''IPAMHostLocalBounded'') ''seeder NAD narrows its subnet''
         else (case ip_subnet ipam of
             None \<Rightarrow> check_result Indeterminate (prefix @ ''IPAMHostLocalBounded'') ''seeder NAD narrows its subnet''
           | Some net \<Rightarrow>
               if net ip then check_result Violation (prefix @ ''OverlapHostLocal'') ''seeder NAD host-local subnet includes the address''
               else check_result OK free ''seeder NAD host-local subnet does not include the address''))
      else check_result Indeterminate ''SeederIPAMUnrecognised'' ''seeder NAD ipam type is not recognised'')"

definition CheckSeederOverlap :: "net_lib \<Rightarrow> string \<Rightarrow> string \<Rightarrow> CheckResult" where
  "CheckSeederOverlap L seederConfig bootdServerIP =
     (if bootdServerIP = '''' then check_result OK ''NoBootdAddress'' ''this Subnet has no boot half''
      else case parseIPv4 L bootdServerIP of
        None \<Rightarrow> bad_address ''BootdServerIP''
      | Some ip \<Rightarrow>
          (case ParseIPAM L seederConfig of
             Inl e \<Rightarrow> check_result Indeterminate ''SeederNADConfigUnparseable'' (error_text e)
           | Inr ipam \<Rightarrow> check_pool ipam ip ''Seeder'' ''SeederOverlapNone''))"

definition CheckTrackerAddress :: "net_lib \<Rightarrow> string \<Rightarrow> string \<Rightarrow> string \<Rightarrow> CheckResult" where
  "CheckTrackerAddress L subnetCIDR seederConfig trackerIP =
     (case parseIPv4 L trackerIP of
        None \<Rightarrow> bad_address ''TrackerIP''
      | Some ip \<Rightarrow>
          (case go_ParseCIDR L subnetCIDR of
             None \<Rightarrow> check_result Indeterminate ''SubnetCIDRUnparseable'' ''seeding Subnet cidr''
           | Some (_, cidr) \<Rightarrow>
               if \<not> cidr ip then check_result Violation ''TrackerAddressOutsideCIDR'' ''tracker.ip falls outside the seeding Subnet''
               else case ParseIPAM L seederConfig of
                   Inl e \<Rightarrow> check_result Indeterminate ''SeederNADConfigUnparseable'' (error_text e)
                 | Inr ipam \<Rightarrow> check_pool ipam ip ''Tracker'' ''TrackerAddressAvailable''))"

definition CheckSeederStaticWithTracker :: "net_lib \<Rightarrow> string \<Rightarrow> string \<Rightarrow> CheckResult" where
  "CheckSeederStaticWithTracker L seederConfig trackerIP =
     (if trackerIP = '''' then check_result OK ''NoManagedTracker'' ''this Site has no tracker on the seeder NAD''
      else case ParseIPAM L seederConfig of
          Inl e \<Rightarrow> check_result Indeterminate ''SeederNADConfigUnparseable'' (error_text e)
        | Inr ipam \<Rightarrow>
            if ip_kind ipam \<noteq> KindStatic then check_result OK ''SeederIPAMNotStatic'' ''seeder NAD ipam is not static''
            else check_result Violation ''SeederStaticIPAMWithTracker'' ''seeder NAD uses static ipam while this Site pins tracker.ip'')"

definition CheckSeederStaticMultiImage :: "net_lib \<Rightarrow> string \<Rightarrow> int \<Rightarrow> CheckResult" where
  "CheckSeederStaticMultiImage L seederConfig concurrentImages =
     (case ParseIPAM L seederConfig of
        Inl e \<Rightarrow> check_result Indeterminate ''SeederNADConfigUnparseable'' (error_text e)
      | Inr ipam \<Rightarrow>
          if ip_kind ipam \<noteq> KindStatic then check_result OK ''SeederIPAMNotStatic'' ''seeder NAD ipam is not static''
          else if concurrentImages \<le> 1 then check_result OK ''SeederStaticIPAMSingleImage'' ''safe while at most one Image deploys''
          else check_result Advisory ''SeederStaticIPAMMultiImage'' ''static ipam hands every seeder pod the same address'')"

section \<open>subnetvalidate.go\<close>

definition CheckDHCPLeaseRange :: "net_lib \<Rightarrow> string \<Rightarrow> string \<Rightarrow> string \<Rightarrow> CheckResult" where
  "CheckDHCPLeaseRange L cidr leaseRangeStart leaseRangeEnd =
     (if leaseRangeStart = '''' \<and> leaseRangeEnd = '''' then check_result OK ''DHCPLeaseRangeAutoDerived'' ''no explicit lease range set''
      else if (leaseRangeStart \<noteq> '''') \<noteq> (leaseRangeEnd \<noteq> '''')
      then check_result Indeterminate ''DHCPLeaseRangeIncomplete'' ''leaseRangeStart and leaseRangeEnd must both be set, or both left empty''
      else case go_ParseCIDR L cidr of
          None \<Rightarrow> check_result Indeterminate ''SubnetCIDRInvalid'' ''is not a valid IPv4 CIDR''
        | Some (_, ipnet) \<Rightarrow>
            (case parseIPv4 L leaseRangeStart of
               None \<Rightarrow> bad_address ''DHCPLeaseRangeStart''
             | Some start \<Rightarrow>
                 (case parseIPv4 L leaseRangeEnd of
                    None \<Rightarrow> bad_address ''DHCPLeaseRangeEnd''
                  | Some stop \<Rightarrow>
                      if stop < start then check_result Violation ''DHCPLeaseRangeReversed'' ''leaseRangeStart is after leaseRangeEnd''
                      else if \<not> ipnet start \<or> \<not> ipnet stop
                      then check_result Violation ''DHCPLeaseRangeOutsideCIDR'' ''lease range is not fully inside cidr''
                      else check_result OK ''DHCPLeaseRangeValid'' ''lease range is ordered and inside cidr'')))"

definition CheckBootdServerIPInCIDR :: "net_lib \<Rightarrow> string \<Rightarrow> string \<Rightarrow> CheckResult" where
  "CheckBootdServerIPInCIDR L cidr bootdServerIP =
     (case go_ParseCIDR L cidr of
        None \<Rightarrow> check_result Indeterminate ''SubnetCIDRInvalid'' ''is not a valid IPv4 CIDR''
      | Some (_, ipnet) \<Rightarrow>
          (case parseIPv4 L bootdServerIP of
             None \<Rightarrow> bad_address ''BootdServerIP''
           | Some ip \<Rightarrow>
               if \<not> ipnet ip then check_result Violation ''BootdServerIPOutsideCIDR'' ''bootdServerIP is not inside cidr''
               else check_result OK ''BootdServerIPInCIDR'' ''bootdServerIP is inside cidr''))"

end
