(* ===== verification/Subnet_Controller.thy ===== *)
theory Subnet_Controller
  imports Net_Validate Plan_Builder Boot_Server
begin

text \<open>
  The Subnet controller (subnet\_controller.go) with the bootd Deployment it builds
  (subnet\_bootd\_deployment.go, subnet\_bootd\_config.go): garbage collection of DHCP reservations, the
  checks of the network configuration, the Deployment and the lease volume, the Valid and Ready
  conditions. Maps are listed in key order, so that two objects are semantically equal when their
  records are. A fresh object gets its owner from \<open>sn_own\<close>, controller-runtime's
  \<^verbatim>\<open>SetControllerReference\<close>.
\<close>

section \<open>Durations as text\<close>

text \<open>\<^verbatim>\<open>time.Duration.String\<close>: \<open>fmt_frac\<close> prints \<open>v mod 10^prec\<close> as a fraction without trailing zeros.\<close>

definition pad_left :: "nat \<Rightarrow> string \<Rightarrow> string" where
  "pad_left n s = replicate (n - length s) (CHR ''0'') @ s"

definition fmt_frac :: "nat \<Rightarrow> nat \<Rightarrow> string" where
  "fmt_frac v prec =
     (let digits = trim_right (CHR ''0'') (pad_left prec (show_nat (v mod 10 ^ prec)))
      in if v mod 10 ^ prec = 0 then [] else CHR ''.'' # digits)"

definition duration_string :: "duration \<Rightarrow> string" where
  "duration_string d =
     (let u = nat (abs d); sign = (if d < 0 then ''-'' else []) in
      if u = 0 then ''0s''
      else if u < 10 ^ 9 then
        (let (unit, prec) = (if u < 10 ^ 3 then (''ns'', 0) else if u < 10 ^ 6 then ([CHR 0xC2, CHR 0xB5, CHR ''s''], 3) else (''ms'', 6))
         in sign @ show_nat (u div 10 ^ prec) @ fmt_frac u prec @ unit)
      else
        (let total_s = u div 10 ^ 9; s = show_nat (total_s mod 60) @ fmt_frac u 9 @ ''s''; mins = total_s div 60
         in sign @
            (if mins = 0 then s
             else if mins div 60 = 0 then show_nat (mins mod 60) @ ''m'' @ s
             else show_nat (mins div 60) @ ''h'' @ show_nat (mins mod 60) @ ''m'' @ s)))"

section \<open>subnet\_bootd\_config.go\<close>

record BootdDeploymentConfig =
  bd_image :: string
  bd_bootArtifactsImage :: string
  bd_serviceAccountName :: string
  bd_agentUpstreamURL :: string
  bd_bootUpstreamURL :: string
  bd_httpBootURL :: string
  bd_leaseStorageClassName :: string

definition bootdDefaultServiceAccountName :: string where
  "bootdDefaultServiceAccountName = ''kezio-bootd''"

definition bootd_enabled :: "BootdDeploymentConfig \<Rightarrow> bool" where
  "bootd_enabled c \<longleftrightarrow> bd_image c \<noteq> '''' \<and> bd_bootArtifactsImage c \<noteq> ''''"

definition serviceAccountName :: "BootdDeploymentConfig \<Rightarrow> string" where
  "serviceAccountName c = (if bd_serviceAccountName c \<noteq> '''' then bd_serviceAccountName c else bootdDefaultServiceAccountName)"

section \<open>subnet\_bootd\_deployment.go\<close>

definition bootdDeploymentNamePrefix :: string where
  "bootdDeploymentNamePrefix = ''kezio-bootd-''"

definition bootdMaxNameLength :: nat where
  "bootdMaxNameLength = 63"

text \<open>The digest of package crypto/sha256 is the parameter \<open>sha\<close>.\<close>

definition short_hash :: "(string \<Rightarrow> string) \<Rightarrow> string \<Rightarrow> string" where
  "short_hash sha s = take 8 (hex_encode (sha s))"

definition bootdDeploymentName :: "(string \<Rightarrow> string) \<Rightarrow> string \<Rightarrow> string" where
  "bootdDeploymentName sha subnetName =
     (let name = bootdDeploymentNamePrefix @ subnetName; suffix = ''-'' @ short_hash sha subnetName in
      if length name \<le> bootdMaxNameLength then name
      else bootdDeploymentNamePrefix @ take (bootdMaxNameLength - length bootdDeploymentNamePrefix - length suffix) subnetName @ suffix)"

definition bootdLeasePVCName :: "(string \<Rightarrow> string) \<Rightarrow> string \<Rightarrow> string" where
  "bootdLeasePVCName sha subnetName =
     (let name = bootdDeploymentNamePrefix @ subnetName @ ''-leases''; suffix = ''-'' @ short_hash sha subnetName @ ''-leases'' in
      if length name \<le> bootdMaxNameLength then name
      else bootdDeploymentNamePrefix @ take (bootdMaxNameLength - length bootdDeploymentNamePrefix - length suffix) subnetName @ suffix)"

definition bootd_labels :: "Subnet \<Rightarrow> (string \<times> string) list" where
  "bootd_labels sn = [(''app.kubernetes.io/component'', ''bootd''), (''app.kubernetes.io/name'', ''kezio''), (''kezio.kojuro.date/bootd-subnet'', sn_name sn)]"

text \<open>A nil pointer that is dereferenced here, or below, is a panic of the caller: the definitions take the value.\<close>

definition bootdPodAnnotations :: "Subnet \<Rightarrow> NameRef \<Rightarrow> (string \<times> string) list" where
  "bootdPodAnnotations sn ref = [(''k8s.v1.cni.cncf.io/networks'', ResolveNamespace ref (sn_namespace sn) @ ''/'' @ nr_name ref)]"

definition show_bool :: "bool \<Rightarrow> string" where
  "show_bool b = (if b then ''true'' else ''false'')"

definition bootdEnv :: "Subnet \<Rightarrow> SubnetDHCP \<Rightarrow> BootdDeploymentConfig \<Rightarrow> (string \<times> string) list" where
  "bootdEnv sn dhcp cfg =
     [(''BOOTD_SERVER_IP'', sn_bootdServerIP sn), (''BOOTD_PROVISIONING_CIDR'', sn_cidr sn), (''BOOTD_DHCP_INTERFACE'', ''net1''),
      (''BOOTD_TFTP_DIR'', ''/tftp''), (''BOOTD_LEASE_MODE'', show_bool (sd_mode dhcp = ModeLease)),
      (''BOOTD_SUBNET_NAME'', sn_name sn), (''BOOTD_SUBNET_NAMESPACE'', sn_namespace sn)] @
     (if sd_mode dhcp = ModeLease then
        (case sd_gateway dhcp of None \<Rightarrow> [] | Some g \<Rightarrow> [(''BOOTD_GATEWAY'', g)]) @
        (if sd_leaseRangeStart dhcp \<noteq> '''' then [(''BOOTD_LEASE_RANGE_START'', sd_leaseRangeStart dhcp)] else []) @
        (if sd_leaseRangeEnd dhcp \<noteq> '''' then [(''BOOTD_LEASE_RANGE_END'', sd_leaseRangeEnd dhcp)] else []) @
        (case sd_leaseTime dhcp of None \<Rightarrow> [] | Some d \<Rightarrow> [(''BOOTD_LEASE_TIME'', duration_string d)]) @
        [(''BOOTD_LEASE_DIR'', ''/var/lib/bootd-leases'')] else []) @
     (if bd_agentUpstreamURL cfg \<noteq> '''' then [(''BOOTD_AGENT_UPSTREAM_URL'', bd_agentUpstreamURL cfg)] else []) @
     (if bd_bootUpstreamURL cfg \<noteq> '''' then
        [(''BOOTD_BOOT_UPSTREAM_URL'', bd_bootUpstreamURL cfg),
         (''BOOTD_BOOT_CONFIG_URL'', ''http://'' @ sn_bootdServerIP sn @ '':'' @ show_int DefaultProxyPort)] else []) @
     (if bd_httpBootURL cfg \<noteq> '''' then [(''BOOTD_HTTP_BOOT_URL'', bd_httpBootURL cfg)] else [])"

definition buildBootdDeployment :: "(string \<Rightarrow> string) \<Rightarrow> Subnet \<Rightarrow> SubnetDHCP \<Rightarrow> NameRef \<Rightarrow> BootdDeploymentConfig \<Rightarrow> Workload.Deployment" where
  "buildBootdDeployment sha sn dhcp ref cfg =
     (let labels = bootd_labels sn; leaseMode = (sd_mode dhcp = ModeLease) in
      \<lparr>dpl_name = bootdDeploymentName sha (sn_name sn), dpl_namespace = sn_namespace sn, dpl_labels = labels, dpl_annotations = [], dpl_deletionTimestamp = None, dpl_owner = None,
       dpl_spec = \<lparr>ds_replicas = 1, ds_recreate = leaseMode, ds_selector = labels,
         ds_template = \<lparr>pt_labels = labels, pt_annotations = bootdPodAnnotations sn ref,
           pt_serviceAccountName = serviceAccountName cfg, pt_nodeSelector = sn_nodeSelector sn,
           pt_initContainers = [\<lparr>co_name = ''fetch-boot-artifacts'', co_image = bd_bootArtifactsImage cfg,
             co_command = [''cp'', ''-a'', ''/boot-artifacts/shimx64.efi'', ''/boot-artifacts/grubx64.efi'', ''/dest''], co_args = [], co_env = [],
             co_mounts = [\<lparr>vm_name = ''tftp'', vm_path = ''/dest'', vm_readOnly = False\<rparr>]\<rparr>],
           pt_containers = [\<lparr>co_name = ''bootd'', co_image = bd_image cfg, co_command = [], co_args = [], co_env = bootdEnv sn dhcp cfg,
             co_mounts = [\<lparr>vm_name = ''tftp'', vm_path = ''/tftp'', vm_readOnly = True\<rparr>, \<lparr>vm_name = ''run'', vm_path = ''/run/bootd'', vm_readOnly = False\<rparr>] @
               (if leaseMode then [\<lparr>vm_name = ''leases'', vm_path = ''/var/lib/bootd-leases'', vm_readOnly = False\<rparr>] else [])\<rparr>],
           pt_volumes = [(''tftp'', EmptyDir), (''run'', EmptyDir)] @
             (if leaseMode then [(''leases'', FromPVC (bootdLeasePVCName sha (sn_name sn)))] else [])\<rparr>\<rparr>,
       dpl_conditions = [], dpl_availableReplicas = 0\<rparr>)"

definition buildBootdLeasePVC :: "(string \<Rightarrow> string) \<Rightarrow> Subnet \<Rightarrow> BootdDeploymentConfig \<Rightarrow> PVC" where
  "buildBootdLeasePVC sha sn cfg =
     \<lparr>pvc_name = bootdLeasePVCName sha (sn_name sn), pvc_namespace = sn_namespace sn, pvc_labels = bootd_labels sn, pvc_owner = None,
      pvc_accessModes = [''ReadWriteOnce''], pvc_bytes = 64 * 2 ^ 20, pvc_storageClass = (if bd_leaseStorageClassName cfg \<noteq> '''' then Some (bd_leaseStorageClassName cfg) else None)\<rparr>"

definition deploymentAvailable :: "Workload.Deployment \<Rightarrow> bool" where
  "deploymentAvailable dep = (case find (\<lambda>c. c_type c = ''Available'') (dpl_conditions dep) of None \<Rightarrow> False | Some c \<Rightarrow> c_status c = CondTrue)"

definition deploymentUnavailableReason :: "Workload.Deployment \<Rightarrow> string \<times> string" where
  "deploymentUnavailableReason dep =
     (case find (\<lambda>c. c_type c = ''ReplicaFailure'' \<and> c_status c = CondTrue) (dpl_conditions dep) of
        Some c \<Rightarrow> (c_reason c, ''bootd Deployment could not create its pod: '' @ c_message c)
      | None \<Rightarrow>
          (case find (\<lambda>c. c_type c = ''Progressing'' \<and> c_status c = CondFalse) (dpl_conditions dep) of
             Some c \<Rightarrow> (c_reason c, ''bootd Deployment stopped progressing: '' @ c_message c)
           | None \<Rightarrow> (''BootdDeploymentUnavailable'', ''bootd Deployment for this Subnet has not become Available yet'')))"

section \<open>The reconciler's parameters\<close>

text \<open>
  \<open>nk_getNAD\<close> reads a NetworkAttachmentDefinition; its value is what \<^verbatim>\<open>unstructured.NestedString\<close> finds at
  spec.config. \<open>nk_isNoMatch\<close> is \<^verbatim>\<open>meta.IsNoMatchError\<close>, \<open>nk_getNamespace\<close> answers with the labels.
\<close>

record 's netkube =
  nk_getSubnet :: "key \<Rightarrow> 's \<Rightarrow> (kerr + Subnet) \<times> 's"
  nk_getMachine :: "key \<Rightarrow> 's \<Rightarrow> (kerr + Machine) \<times> 's"
  nk_getSite :: "key \<Rightarrow> 's \<Rightarrow> (kerr + Site) \<times> 's"
  nk_getNAD :: "key \<Rightarrow> 's \<Rightarrow> (kerr + (kerr + string option)) \<times> 's"
  nk_getNamespace :: "string \<Rightarrow> 's \<Rightarrow> (kerr + (string \<times> string) list) \<times> 's"
  nk_getServiceAccount :: "key \<Rightarrow> 's \<Rightarrow> (kerr + unit) \<times> 's"
  nk_listSubnets :: "string \<Rightarrow> 's \<Rightarrow> (kerr + Subnet list) \<times> 's"
  nk_listDeployments :: "string \<Rightarrow> 's \<Rightarrow> (kerr + Workload.Deployment list) \<times> 's"
  nk_getDeployment :: "key \<Rightarrow> 's \<Rightarrow> (kerr + Workload.Deployment) \<times> 's"
  nk_createDeployment :: "Workload.Deployment \<Rightarrow> 's \<Rightarrow> (kerr + Workload.Deployment) \<times> 's"
  nk_updateDeployment :: "Workload.Deployment \<Rightarrow> 's \<Rightarrow> (kerr + Workload.Deployment) \<times> 's"
  nk_getPVC :: "key \<Rightarrow> 's \<Rightarrow> (kerr + PVC) \<times> 's"
  nk_createPVC :: "PVC \<Rightarrow> 's \<Rightarrow> (kerr + PVC) \<times> 's"
  nk_updateSubnetStatus :: "Subnet \<Rightarrow> 's \<Rightarrow> (kerr + Subnet) \<times> 's"
  nk_isNoMatch :: "kerr \<Rightarrow> bool"

record 's SubnetReconciler =
  sn_kube :: "'s netkube"
  sn_lib :: libs
  sn_net :: net_lib
  sn_bootd :: BootdDeploymentConfig
  sn_sha :: "string \<Rightarrow> string"
  sn_ownDeployment :: "Subnet \<Rightarrow> Workload.Deployment \<Rightarrow> kerr + Workload.Deployment"
  sn_ownPVC :: "Subnet \<Rightarrow> PVC \<Rightarrow> kerr + PVC"

text \<open>\<open>subnetCheck\<close>: a result and whether a violation withholds the Deployment.\<close>

type_synonym subnetCheck = "CheckResult \<times> bool"

definition bootdNamespacePrerequisiteRequeueAfter :: duration where
  "bootdNamespacePrerequisiteRequeueAfter = minute"

definition bootdDeploymentOwnershipRequeueAfter :: duration where
  "bootdDeploymentOwnershipRequeueAfter = minute"

section \<open>Garbage collection of reservations\<close>

definition reservation_current :: "Subnet \<Rightarrow> DHCPReservation \<Rightarrow> Machine \<Rightarrow> bool" where
  "reservation_current sn res machine \<longleftrightarrow>
     NormalizeMAC (ms_bootMACAddress (m_spec machine)) = Some (res_mac res) \<and>
     ResolveNamespace (ms_subnetRef (m_spec machine)) (m_namespace machine) = sn_namespace sn \<and>
     nr_name (ms_subnetRef (m_spec machine)) = sn_name sn"

fun gc_each :: "'s SubnetReconciler \<Rightarrow> Subnet \<Rightarrow> DHCPReservation list \<Rightarrow> ('s, DHCPReservation list) act" where
  "gc_each r sn [] = ret []"
| "gc_each r sn (res # rest) =
     bindK (getOpt (kcall (GetMachine (sn_namespace sn, res_machine res)) (nk_getMachine (sn_kube r) (sn_namespace sn, res_machine res)))) (\<lambda>machine.
     bindK (gc_each r sn rest) (\<lambda>kept.
       ret (case machine of Some m \<Rightarrow> if reservation_current sn res m then res # kept else kept | None \<Rightarrow> kept)))"

definition gcDHCPReservations :: "'s SubnetReconciler \<Rightarrow> Subnet \<Rightarrow> ('s, Subnet) act" where
  "gcDHCPReservations r sn =
     (case (sn_dhcp sn, sn_dhcpStatus sn) of
        (Some dhcp, Some st) \<Rightarrow>
          if sd_mode dhcp \<noteq> ModeLease \<or> reservations st = [] then ret sn
          else bindK (wrapK ''get machine for DHCP reservation garbage collection'' (gc_each r sn (reservations st))) (\<lambda>kept.
               if length kept = length (reservations st) then ret sn
               else ret (sn\<lparr>sn_dhcpStatus := Some (st\<lparr>reservations := kept, revision := Revision (sn_sha r) kept\<rparr>)\<rparr>))
      | _ \<Rightarrow> ret sn)"

section \<open>Network checks\<close>

datatype nad_error = NadGet kerr | NadContent kerr

definition fetchNADConfig :: "'s SubnetReconciler \<Rightarrow> NameRef \<Rightarrow> string \<Rightarrow> ('s, nad_error + string) act" where
  "fetchNADConfig r ref defaultNS =
     (let key = (ResolveNamespace ref defaultNS, nr_name ref) in
      bindK (attempt (kcall (GetNAD key) (nk_getNAD (sn_kube r) key))) (\<lambda>x. ret (case x of
          Inl e \<Rightarrow> Inl (NadGet e)
        | Inr (Inl e) \<Rightarrow> Inl (NadContent (Wrapped ''spec.config'' e))
        | Inr (Inr None) \<Rightarrow> Inl (NadContent (PlainError ''spec.config not set''))
        | Inr (Inr (Some config)) \<Rightarrow> Inr config)))"

definition isIndeterminateNADErr :: "'s netkube \<Rightarrow> nad_error \<Rightarrow> bool" where
  "isIndeterminateNADErr k err \<longleftrightarrow> (case err of NadGet e \<Rightarrow> isNotFound e \<or> nk_isNoMatch k e | NadContent _ \<Rightarrow> True)"

definition nad_cause :: "nad_error \<Rightarrow> kerr" where
  "nad_cause err = (case err of NadGet e \<Rightarrow> e | NadContent e \<Rightarrow> e)"

definition indeterminateFromFetchErr :: "'s netkube \<Rightarrow> string \<Rightarrow> string \<Rightarrow> nad_error \<Rightarrow> CheckResult" where
  "indeterminateFromFetchErr k reasonPrefix what err =
     check_result Indeterminate
       (reasonPrefix @ (if isNotFound (nad_cause err) then ''NADNotFound'' else if nk_isNoMatch k (nad_cause err) then ''NADKindAbsent'' else ''NADUnresolved''))
       (what @ '': '' @ error_text (nad_cause err))"

definition concurrentSeederDeployments :: "'s SubnetReconciler \<Rightarrow> Subnet \<Rightarrow> ('s, int) act" where
  "concurrentSeederDeployments r sn =
     bindK (wrapK ''list seeder deployments'' (kcall (ListDeployments (sn_namespace sn)) (nk_listDeployments (sn_kube r) (sn_namespace sn)))) (\<lambda>items.
     ret (int (length (filter (\<lambda>d.
       map_of (dpl_labels d) ''app.kubernetes.io/component'' = Some ''image-seeder'' \<and>
       map_of (dpl_labels d) ''kezio.kojuro.date/seeder-subnet'' = Some (sn_name sn) \<and> dpl_availableReplicas d > 0) items))))"

text \<open>A NAD that is named but nil is dereferenced: the boot half without its network is a panic.\<close>

definition bootd_ref :: "Subnet \<Rightarrow> ('s, NameRef) act" where
  "bootd_ref sn = (case sn_bootdNetworkRef sn of Some ref \<Rightarrow> ret ref | None \<Rightarrow> raise (GoPanic ''nil BootdNetworkRef''))"

definition bootd_nad_check :: "'s SubnetReconciler \<Rightarrow> Subnet \<Rightarrow> ('s, subnetCheck list) act" where
  "bootd_nad_check r sn =
     (if \<not> HasBootPlane sn then ret []
      else bindK (bootd_ref sn) (\<lambda>ref.
           bindK (fetchNADConfig r ref (sn_namespace sn)) (\<lambda>x. case x of
               Inl err \<Rightarrow> if \<not> isIndeterminateNADErr (sn_kube r) err then raise (nad_cause err)
                 else ret [(indeterminateFromFetchErr (sn_kube r) ''Bootd'' ''bootd NAD'' err, False)]
             | Inr config \<Rightarrow> ret [(CheckBootdAddress (sn_net r) config (sn_bootdServerIP sn), False)])))"

definition runNADChecks :: "'s SubnetReconciler \<Rightarrow> Subnet \<Rightarrow> ('s, subnetCheck list) act" where
  "runNADChecks r sn =
     bindK (bootd_nad_check r sn) (\<lambda>checks.
     case sn_seederNetworkRef sn of
       None \<Rightarrow> ret checks
     | Some ref \<Rightarrow>
         bindK (fetchNADConfig r ref (sn_namespace sn)) (\<lambda>x. case x of
             Inl err \<Rightarrow> if \<not> isIndeterminateNADErr (sn_kube r) err then raise (nad_cause err)
               else ret (checks @ [(indeterminateFromFetchErr (sn_kube r) ''Seeder'' ''seeder NAD'' err, False)])
           | Inr config \<Rightarrow>
               bindK (concurrentSeederDeployments r sn) (\<lambda>n.
               ret (checks @ [(CheckSeederOverlap (sn_net r) config (sn_bootdServerIP sn), False), (CheckSeederStaticMultiImage (sn_net r) config n, False)]))))"

definition checkSiteRef :: "'s SubnetReconciler \<Rightarrow> Subnet \<Rightarrow> ('s, subnetCheck) act" where
  "checkSiteRef r sn =
     (let key = (ResolveNamespace (sn_siteRef sn) (sn_namespace sn), nr_name (sn_siteRef sn)) in
      bindK (attempt (kcall (GetSite key) (nk_getSite (sn_kube r) key))) (\<lambda>x. case x of
          Inr _ \<Rightarrow> ret (check_result OK ''SiteFound'' ''Site exists'', False)
        | Inl e \<Rightarrow> if isNotFound e then ret (check_result Violation ''SiteNotFound'' ''spec.siteRef names a Site which does not exist'', False)
            else raise (Wrapped ''get site'' e)))"

section \<open>Collisions and prerequisites\<close>

definition same_bootd_network :: "key \<Rightarrow> Subnet \<Rightarrow> bool" where
  "same_bootd_network net candidate \<longleftrightarrow>
     (case sn_bootdNetworkRef candidate of
        None \<Rightarrow> False
      | Some ref \<Rightarrow> (ResolveNamespace ref (sn_namespace candidate), nr_name ref) = net)"

definition earlier :: "Subnet \<Rightarrow> Subnet \<Rightarrow> bool" where
  "earlier a b \<longleftrightarrow> sn_namespace a < sn_namespace b \<or> sn_namespace a = sn_namespace b \<and> sn_name a < sn_name b"

definition better_party :: "key \<Rightarrow> uid \<Rightarrow> Subnet option \<Rightarrow> Subnet \<Rightarrow> Subnet option" where
  "better_party net uid other candidate =
     (if sn_uid candidate = uid \<or> \<not> same_bootd_network net candidate then other
      else case other of None \<Rightarrow> Some candidate | Some o' \<Rightarrow> if earlier candidate o' then Some candidate else other)"

definition findBootdNetworkCollision :: "'s SubnetReconciler \<Rightarrow> Subnet \<Rightarrow> ('s, Subnet option) act" where
  "findBootdNetworkCollision r sn =
     bindK (wrapK ''list subnets'' (kcall (ListSubnets '''') (nk_listSubnets (sn_kube r) ''''))) (\<lambda>items.
     bindK (bootd_ref sn) (\<lambda>ref.
     ret (foldl (better_party (ResolveNamespace ref (sn_namespace sn), nr_name ref) (sn_uid sn)) None items)))"

definition checkBootdNamespacePrerequisites :: "'s SubnetReconciler \<Rightarrow> Subnet \<Rightarrow> ('s, subnetCheck list) act" where
  "checkBootdNamespacePrerequisites r sn =
     bindK (wrapK ''get namespace'' (kcall (GetNamespace (sn_namespace sn)) (nk_getNamespace (sn_kube r) (sn_namespace sn)))) (\<lambda>labels.
     let saKey = (sn_namespace sn, serviceAccountName (sn_bootd r));
         psa = (if map_of labels ''pod-security.kubernetes.io/enforce'' = Some ''privileged''
                then check_result OK ''BootdNamespacePSALabelPresent'' ''namespace carries the label''
                else check_result Violation ''BootdNamespacePSALabelMissing'' ''namespace has no privileged label'')
     in bindK (attempt (kcall (GetServiceAccount saKey) (nk_getServiceAccount (sn_kube r) saKey))) (\<lambda>x. case x of
            Inr _ \<Rightarrow> ret [(psa, False), (check_result OK ''BootdServiceAccountPresent'' ''ServiceAccount exists'', False)]
          | Inl e \<Rightarrow> if isNotFound e then ret [(psa, False), (check_result Violation ''BootdServiceAccountMissing'' ''ServiceAccount does not exist'', False)]
              else raise (Wrapped ''get serviceaccount'' e)))"

section \<open>The Deployment and the lease volume\<close>

definition reconcileBootdDeployment :: "'s SubnetReconciler \<Rightarrow> Subnet \<Rightarrow> SubnetDHCP \<Rightarrow> NameRef \<Rightarrow> ('s, Workload.Deployment \<times> bool) act" where
  "reconcileBootdDeployment r sn dhcp ref =
     (case sn_ownDeployment r sn (buildBootdDeployment (sn_sha r) sn dhcp ref (sn_bootd r)) of
        Inl e \<Rightarrow> raise (Wrapped ''set owner reference on bootd deployment'' e)
      | Inr desired \<Rightarrow>
          bindK (attempt (kcall (GetDeployment (dpl_key desired)) (nk_getDeployment (sn_kube r) (dpl_key desired)))) (\<lambda>x. case x of
              Inl e \<Rightarrow>
                if isNotFound e then
                  bindK (create_or_exists ''create bootd deployment'' (kcall (CreateDeployment desired) (nk_createDeployment (sn_kube r) desired))) (\<lambda>_.
                  ret (desired, False))
                else raise (Wrapped ''get bootd deployment'' e)
            | Inr existing \<Rightarrow>
                if \<not> controlled_by (dpl_owner existing) (sn_uid sn) then ret (existing, True)
                else if dpl_spec existing \<noteq> dpl_spec desired \<or> dpl_labels existing \<noteq> dpl_labels desired then
                  (let changed = existing\<lparr>dpl_labels := dpl_labels desired, dpl_spec := dpl_spec desired\<rparr> in
                   bindK (wrapK ''update bootd deployment'' (kcall (UpdateDeployment changed) (nk_updateDeployment (sn_kube r) changed))) (\<lambda>updated.
                   ret (updated, False)))
                else ret (existing, False)))"

definition reconcileBootdLeasePVC :: "'s SubnetReconciler \<Rightarrow> Subnet \<Rightarrow> ('s, unit) act" where
  "reconcileBootdLeasePVC r sn =
     (case sn_ownPVC r sn (buildBootdLeasePVC (sn_sha r) sn (sn_bootd r)) of
        Inl e \<Rightarrow> raise (Wrapped ''set owner reference on bootd lease PVC'' e)
      | Inr desired \<Rightarrow>
          bindK (attempt (kcall (GetPVC (pvc_key desired)) (nk_getPVC (sn_kube r) (pvc_key desired)))) (\<lambda>x. case x of
              Inl e \<Rightarrow>
                if isNotFound e then create_or_exists ''create bootd lease PVC'' (kcall (CreatePVC desired) (nk_createPVC (sn_kube r) desired))
                else raise (Wrapped ''get bootd lease PVC'' e)
            | Inr existing \<Rightarrow>
                if \<not> controlled_by (pvc_owner existing) (sn_uid sn)
                then raise (PlainError ''a PersistentVolumeClaim already exists and is not controlled by this Subnet'') else ret ()))"

section \<open>Conditions\<close>

definition pick_violation :: "subnetCheck option \<Rightarrow> subnetCheck \<Rightarrow> subnetCheck option" where
  "pick_violation v c =
     (if verdict (fst c) \<noteq> Violation then v
      else case v of None \<Rightarrow> Some c | Some x \<Rightarrow> if snd c \<and> \<not> snd x then Some c else v)"

definition worst_violation :: "subnetCheck list \<Rightarrow> CheckResult option" where
  "worst_violation checks = map_option fst (foldl pick_violation None checks)"

definition first_indeterminate :: "subnetCheck list \<Rightarrow> CheckResult option" where
  "first_indeterminate checks = map_option fst (find (\<lambda>c. verdict (fst c) = Indeterminate) checks)"

record bootd_state =
  bs_configured :: bool
  bs_available :: bool
  bs_reason :: string
  bs_message :: string

definition subnet_condition :: "string \<Rightarrow> Subnet \<Rightarrow> cond_status \<Rightarrow> string \<Rightarrow> string \<Rightarrow> condition" where
  "subnet_condition ty sn st reason msg = \<lparr>c_type = ty, c_status = st, c_observedGeneration = sn_generation sn, c_reason = reason, c_message = msg\<rparr>"

definition valid_condition :: "Subnet \<Rightarrow> subnetCheck list \<Rightarrow> condition" where
  "valid_condition sn checks =
     (case worst_violation checks of
        Some v \<Rightarrow> subnet_condition ''Valid'' sn CondFalse (cr_reason v) (cr_message v)
      | None \<Rightarrow>
          (case first_indeterminate checks of
             Some i \<Rightarrow> subnet_condition ''Valid'' sn CondUnknown (cr_reason i) (cr_message i)
           | None \<Rightarrow> subnet_condition ''Valid'' sn CondTrue ''SubnetValid'' ''no blocking validation issues found''))"

definition ready_condition :: "Subnet \<Rightarrow> subnetCheck list \<Rightarrow> bootd_state option \<Rightarrow> condition" where
  "ready_condition sn checks bootd =
     (case worst_violation checks of
        Some v \<Rightarrow> subnet_condition ''Ready'' sn CondFalse (cr_reason v) (cr_message v)
      | None \<Rightarrow>
          if (case bootd of None \<Rightarrow> False | Some b \<Rightarrow> \<not> bs_configured b \<or> \<not> bs_available b)
          then subnet_condition ''Ready'' sn CondFalse (bs_reason (the bootd)) (bs_message (the bootd))
          else case first_indeterminate checks of
              Some i \<Rightarrow> subnet_condition ''Ready'' sn CondUnknown (cr_reason i) (cr_message i)
            | None \<Rightarrow> (case bootd of
                None \<Rightarrow> subnet_condition ''Ready'' sn CondTrue ''SubnetReady'' ''this Subnet carries no boot half; validation found no issues''
              | Some _ \<Rightarrow> subnet_condition ''Ready'' sn CondTrue ''BootdReady'' ''bootd Deployment is available and validation found no issues''))"

definition updateSubnetConditions :: "'s SubnetReconciler \<Rightarrow> Subnet \<Rightarrow> subnetCheck list \<Rightarrow> bootd_state option \<Rightarrow> ('s, unit) act" where
  "updateSubnetConditions r sn checks bootd =
     (let sn' = sn\<lparr>sn_conditions := setStatusCondition (sn_lib r)
            (setStatusCondition (sn_lib r) (sn_conditions sn) (valid_condition sn checks)) (ready_condition sn checks bootd)\<rparr>
      in bindK (wrapK ''update subnet status'' (kcall (UpdateSubnetStatus sn') (nk_updateSubnetStatus (sn_kube r) sn'))) (\<lambda>_. ret ()))"

section \<open>Reconcile\<close>

text \<open>The branches of onChange's switch: the checks it adds, what is known of bootd, and when to look again.\<close>

definition withheld :: bootd_state where
  "withheld = \<lparr>bs_configured = False, bs_available = False, bs_reason = [], bs_message = []\<rparr>"

definition run_bootd :: "'s SubnetReconciler \<Rightarrow> Subnet \<Rightarrow> SubnetDHCP \<Rightarrow> NameRef \<Rightarrow> ('s, subnetCheck list \<times> bootd_state \<times> duration) act" where
  "run_bootd r sn dhcp ref =
     bindK (checkBootdNamespacePrerequisites r sn) (\<lambda>prereq.
     let requeue = (if list_ex (\<lambda>c. verdict (fst c) = Violation) prereq then bootdNamespacePrerequisiteRequeueAfter else 0) in
     bindK (if sd_mode dhcp = ModeLease then reconcileBootdLeasePVC r sn else ret ()) (\<lambda>_.
     bindK (reconcileBootdDeployment r sn dhcp ref) (\<lambda>(dep, unowned).
     if unowned then
       ret (prereq @ [(check_result Violation ''BootdDeploymentOwnership'' ''a Deployment already exists and is not controlled by this Subnet'', True)],
         \<lparr>bs_configured = True, bs_available = False, bs_reason = [], bs_message = []\<rparr>, bootdDeploymentOwnershipRequeueAfter)
     else (case deploymentUnavailableReason dep of (reason, msg) \<Rightarrow>
       ret (prereq, \<lparr>bs_configured = True, bs_available = deploymentAvailable dep, bs_reason = reason, bs_message = msg\<rparr>, requeue)))))"

definition own_network_checks :: "'s SubnetReconciler \<Rightarrow> Subnet \<Rightarrow> SubnetDHCP \<Rightarrow> subnetCheck list" where
  "own_network_checks r sn dhcp =
     (CheckBootdServerIPInCIDR (sn_net r) (sn_cidr sn) (sn_bootdServerIP sn), True) #
     (if sd_mode dhcp = ModeLease
      then [(CheckDHCPLeaseRange (sn_net r) (sn_cidr sn) (sd_leaseRangeStart dhcp) (sd_leaseRangeEnd dhcp), True)] else [])"

definition boot_half :: "'s SubnetReconciler \<Rightarrow> Subnet \<Rightarrow> SubnetDHCP \<Rightarrow> ('s, subnetCheck list \<times> bootd_state \<times> duration) act" where
  "boot_half r sn dhcp =
     (let checks = own_network_checks r sn dhcp
      in bindK (findBootdNetworkCollision r sn) (\<lambda>colliding.
         bindK (bootd_ref sn) (\<lambda>ref.
         case colliding of
           Some other \<Rightarrow> ret (checks @ [(check_result Violation ''BootdNetworkCollision'' ''another Subnet also targets bootdNetworkRef'', True)], withheld, 0)
         | None \<Rightarrow>
             if list_ex (\<lambda>c. verdict (fst c) = Violation) checks then ret (checks, withheld, 0)
             else if bootd_enabled (sn_bootd r) then
               bindK (run_bootd r sn dhcp ref) (\<lambda>(more, bootd, requeue). ret (checks @ more, bootd, requeue))
             else ret (checks, withheld\<lparr>bs_reason := ''BootdDeploymentImageUnconfigured'', bs_message := ''no bootd Deployment image is configured on the manager''\<rparr>, 0))))"

definition onChangeSubnet :: "'s SubnetReconciler \<Rightarrow> Subnet \<Rightarrow> ('s, ctrl_result) act" where
  "onChangeSubnet r subnet =
     bindK (gcDHCPReservations r subnet) (\<lambda>sn.
     bindK (runNADChecks r sn) (\<lambda>nad.
     bindK (checkSiteRef r sn) (\<lambda>site.
     case sn_dhcp sn of
       None \<Rightarrow> bindK (updateSubnetConditions r sn (nad @ [site]) None) (\<lambda>_. ret noRequeue)
     | Some dhcp \<Rightarrow>
         bindK (boot_half r sn dhcp) (\<lambda>(checks, bootd, requeueAfter).
         bindK (updateSubnetConditions r sn (nad @ [site] @ checks) (Some bootd)) (\<lambda>_.
         ret (requeueIn requeueAfter))))))"

definition reconcileSubnet :: "'s SubnetReconciler \<Rightarrow> key \<Rightarrow> ('s, ctrl_result) act" where
  "reconcileSubnet r key =
     bindK (getOpt (kcall (GetSubnet key) (nk_getSubnet (sn_kube r) key))) (\<lambda>subnet. case subnet of
         None \<Rightarrow> ret noRequeue
       | Some sn \<Rightarrow> if sn_deletionTimestamp sn \<noteq> None then ret noRequeue else onChangeSubnet r sn)"

section \<open>Watches\<close>

definition mapSiteToSubnets :: "'s SubnetReconciler \<Rightarrow> Site \<Rightarrow> ('s, key list) act" where
  "mapSiteToSubnets r site =
     bindK (attempt (kcall (ListSubnets (si_namespace site)) (nk_listSubnets (sn_kube r) (si_namespace site)))) (\<lambda>x. case x of
         Inl e \<Rightarrow> ret []
       | Inr items \<Rightarrow> ret (map (\<lambda>sn. (sn_namespace sn, sn_name sn)) (filter (\<lambda>sn. SiteRefIdentity sn = SiteIdentity site) items)))"

definition mapMachineToSubnets :: "'s SubnetReconciler \<Rightarrow> Machine \<Rightarrow> ('s, key list) act" where
  "mapMachineToSubnets r machine =
     bindK (attempt (kcall (ListSubnets (m_namespace machine)) (nk_listSubnets (sn_kube r) (m_namespace machine)))) (\<lambda>x. case x of
         Inl e \<Rightarrow> ret []
       | Inr items \<Rightarrow> ret (map (\<lambda>sn. (sn_namespace sn, sn_name sn)) items))"

end
