(* ===== verification/Subnet_Validity.thy ===== *)
theory Subnet_Validity
  imports Subnet_Controller Subnet_Properties Agent_Reports "HOL-Library.Sublist"
begin

text \<open>
  What the Subnet controller guarantees: a lease range that passed validation hands out addresses of
  the Subnet's own network only; bootd's Deployment and lease volume are created or changed only for
  a Subnet whose own network configuration shows no violation and whose network no other Subnet claims;
  a Subnet reported Ready has a bootd address and a lease range inside its network; the collection of
  DHCP reservations keeps the table's invariant, and drops those of Machines of another namespace.
\<close>

section \<open>Networks are intervals of addresses\<close>

lemma split_at_mask:
  fixes x :: ip4
  shows "(x AND NOT (mask k)) + (x AND mask k) = x"
proof -
  have "(x AND NOT (mask k)) AND (x AND mask k) = 0"
    by (rule bit_eqI) (auto simp: bit_simps)
  then have "(x AND NOT (mask k)) + (x AND mask k) = (x AND NOT (mask k)) OR (x AND mask k)"
    by (simp add: disjunctive_add_eq_or)
  also have "\<dots> = x"
    by (rule bit_eqI) (auto simp: bit_simps)
  finally show ?thesis .
qed

lemma unat_network:
  fixes x :: ip4
  shows "unat (x AND NOT (mask k)) = unat x div 2 ^ k * 2 ^ k"
proof -
  have t: "unat (x AND mask k) = unat x mod 2 ^ k"
    by (metis take_bit_eq_mask take_bit_eq_mod unsigned_take_bit_eq)
  have "x AND NOT (mask k) = x - (x AND mask k)"
    using split_at_mask [of x k] by (metis add_diff_cancel_right')
  moreover have "x AND mask k \<le> x"
    using t by (simp add: word_le_nat_alt)
  ultimately have "unat (x AND NOT (mask k)) = unat x - unat x mod 2 ^ k"
    using t by (simp add: unat_sub)
  then show ?thesis
    by (simp add: minus_mod_eq_div_mult)
qed

lemma network_interval:
  fixes n x :: ip4
  assumes "n AND mask k = 0" "k \<le> 32"
  shows "x AND NOT (mask k) = n \<longleftrightarrow> n \<le> x \<and> x \<le> n OR mask k"
proof -
  have n: "unat n = unat n div 2 ^ k * 2 ^ k"
    using unat_network [of n k] split_at_mask [of n k] assms(1) by simp
  have "x AND NOT (mask k) = n \<longleftrightarrow> unat x div 2 ^ k * 2 ^ k = unat n"
    by (metis unat_network word_unat_eq_iff)
  also have "\<dots> \<longleftrightarrow> unat n \<le> unat x \<and> unat x \<le> unat n + (2 ^ k - 1)"
  proof
    assume "unat x div 2 ^ k * 2 ^ k = unat n"
    moreover have "unat x mod 2 ^ k \<le> 2 ^ k - 1"
    proof -
      have "unat x mod 2 ^ k < 2 ^ k" by simp
      then show ?thesis by linarith
    qed
    ultimately show "unat n \<le> unat x \<and> unat x \<le> unat n + (2 ^ k - 1)"
      using div_mult_mod_eq [of "unat x" "2 ^ k"] by linarith
  next
    assume x: "unat n \<le> unat x \<and> unat x \<le> unat n + (2 ^ k - 1)"
    have "(0 :: nat) < 2 ^ k" by simp
    with x have "unat x < unat n + 2 ^ k" by linarith
    with x n have "unat x div 2 ^ k = unat n div 2 ^ k"
      by (intro div_nat_eqI) (simp_all add: mult.commute)
    then show "unat x div 2 ^ k * 2 ^ k = unat n"
      using n by simp
  qed
  finally show ?thesis
    using host_part [OF assms] by (simp add: word_le_nat_alt)
qed

lemma network_convex:
  assumes "parseCIDR4 c = Some (n, m)" "a AND m = n" "b AND m = n" "a \<le> v" "v \<le> b"
  shows "v AND m = n"
proof -
  obtain p where p: "m = prefix_mask p" "n AND NOT m = 0"
    using parseCIDR4_mask [OF assms(1)] by metis
  then have "n AND mask (32 - p) = 0"
    by (simp add: prefix_mask_def)
  note net = network_interval [OF this, of _, simplified prefix_mask_def [symmetric]]
  have "n \<le> a" "b \<le> n OR mask (32 - p)"
    using assms(2,3) net [of a] net [of b] p(1) by simp_all
  then have "n \<le> v" "v \<le> n OR mask (32 - p)"
    using assms(4,5) by (meson order_trans)+
  then show ?thesis
    using net [of v] p(1) by simp
qed


definition no_net_lib :: net_lib where
  "no_net_lib = \<lparr>nl_parseIP6 = (\<lambda>_. None), nl_parseCIDR6 = (\<lambda>_. None), nl_topLevel = (\<lambda>_. Inr (Some ''i'', [])),
     nl_ipam = (\<lambda>_. Inr \<lparr>ci_type = ''static'', ci_addresses = [''0.0.0.1''], ci_range = [], ci_subnet = [], ci_rangeStart = [], ci_rangeEnd = []\<rparr>)\<rparr>"


section \<open>The workload of a Subnet\<close>

text \<open>The requests that create or change what runs for a Subnet.\<close>

definition workload_call :: "call \<Rightarrow> bool" where
  "workload_call c \<longleftrightarrow> (case c of CreateDeployment _ \<Rightarrow> True | UpdateDeployment _ \<Rightarrow> True | CreatePVC _ \<Rightarrow> True | _ \<Rightarrow> False)"

definition status_call :: "call \<Rightarrow> bool" where
  "status_call c \<longleftrightarrow> (case c of UpdateSubnetStatus _ \<Rightarrow> True | _ \<Rightarrow> False)"

text \<open>Documented behaviour of \<^verbatim>\<open>SetControllerReference\<close>: it makes the Subnet the controller and changes nothing else.\<close>

definition own_laws :: "'s SubnetReconciler \<Rightarrow> bool" where
  "own_laws r \<longleftrightarrow>
     (\<forall>sn d d'. sn_ownDeployment r sn d = Inr d' \<longrightarrow> controlled_by (dpl_owner d') (sn_uid sn) \<and> d'\<lparr>dpl_owner := dpl_owner d\<rparr> = d) \<and>
     (\<forall>sn p p'. sn_ownPVC r sn p = Inr p' \<longrightarrow> controlled_by (pvc_owner p') (sn_uid sn) \<and> p'\<lparr>pvc_owner := pvc_owner p\<rparr> = p)"

lemma own_specD:
  assumes "own_laws r" "sn_ownDeployment r sn d = Inr d'"
  shows "controlled_by (dpl_owner d') (sn_uid sn)" "dpl_spec d' = dpl_spec d" "dpl_labels d' = dpl_labels d" "dpl_key d' = dpl_key d"
proof -
  have *: "controlled_by (dpl_owner d') (sn_uid sn)" "d'\<lparr>dpl_owner := dpl_owner d\<rparr> = d"
    using assms unfolding own_laws_def by blast+
  then have "dpl_spec (d'\<lparr>dpl_owner := dpl_owner d\<rparr>) = dpl_spec d" "dpl_labels (d'\<lparr>dpl_owner := dpl_owner d\<rparr>) = dpl_labels d"
    "dpl_key (d'\<lparr>dpl_owner := dpl_owner d\<rparr>) = dpl_key d" by simp_all
  with *(1) show "controlled_by (dpl_owner d') (sn_uid sn)" "dpl_spec d' = dpl_spec d" "dpl_labels d' = dpl_labels d" "dpl_key d' = dpl_key d"
    by (simp_all add: dpl_key_def)
qed

text \<open>What holds of a request about the workload, given the network \<open>ref\<close> bootd is attached to.\<close>

definition own_workload :: "'s SubnetReconciler \<Rightarrow> Subnet \<Rightarrow> SubnetDHCP \<Rightarrow> NameRef \<Rightarrow> call \<Rightarrow> bool" where
  "own_workload r sn dhcp ref c \<longleftrightarrow> (case c of
       CreateDeployment d \<Rightarrow> controlled_by (dpl_owner d) (sn_uid sn) \<and> dpl_spec d = dpl_spec (buildBootdDeployment (sn_sha r) sn dhcp ref (sn_bootd r))
     | UpdateDeployment d \<Rightarrow> controlled_by (dpl_owner d) (sn_uid sn) \<and> dpl_spec d = dpl_spec (buildBootdDeployment (sn_sha r) sn dhcp ref (sn_bootd r))
     | CreatePVC p \<Rightarrow> sd_mode dhcp = ModeLease \<and> controlled_by (pvc_owner p) (sn_uid sn) \<and> pvc_namespace p = sn_namespace sn
     | _ \<Rightarrow> True)"

lemma quiet_parts:
  assumes "\<And>c. \<not> workload_call c \<Longrightarrow> \<not> status_call c \<Longrightarrow> P c"
  shows "kspec P (\<lambda>_. True) (runNADChecks r sn)" "kspec P (\<lambda>_. True) (checkSiteRef r sn)"
    "kspec P (\<lambda>_. True) (bootd_ref sn)" "kspec P (\<lambda>_. True) (checkBootdNamespacePrerequisites r sn)"
  unfolding runNADChecks_def bootd_nad_check_def bootd_ref_def fetchNADConfig_def concurrentSeederDeployments_def checkSiteRef_def
    checkBootdNamespacePrerequisites_def Let_def
  by ((intro quiet_intros; simp add: assms workload_call_def status_call_def)+)

lemma update_conditions_call:
  assumes "P (UpdateSubnetStatus (sn\<lparr>sn_conditions := setStatusCondition (sn_lib r)
            (setStatusCondition (sn_lib r) (sn_conditions sn) (valid_condition sn checks)) (ready_condition sn checks bootd)\<rparr>))"
  shows "kspec P (\<lambda>_. True) (updateSubnetConditions r sn checks bootd)"
  unfolding updateSubnetConditions_def Let_def by (intro quiet_intros assms)

lemma gc_frame:
  assumes "\<And>k. P (GetMachine k)"
  shows "kspec P (\<lambda>sn'. \<exists>x. sn' = sn\<lparr>sn_dhcpStatus := x\<rparr>) (gcDHCPReservations r sn)"
proof -
  have "kspec P (\<lambda>_. True) (gc_each r sn rs)" for rs
    by (induction rs) (auto intro!: quiet_intros assms)
  then have each: "kspec P (\<lambda>_. True) (wrapK m (gc_each r sn rs))" for m rs
    by (intro quiet_intros)
  have "sn = sn\<lparr>sn_dhcpStatus := sn_dhcpStatus sn\<rparr>" by simp
  then have keep: "\<exists>x. sn = sn\<lparr>sn_dhcpStatus := x\<rparr>" ..
  show ?thesis
    unfolding gcDHCPReservations_def
    by (auto split: option.splits intro!: kspec_ret kspec_if kspec_bindT [OF each] keep)
qed


lemma better_party_none:
  "foldl (better_party net u) a items = None \<longleftrightarrow> a = None \<and> (\<forall>o'\<in>set items. sn_uid o' = u \<or> \<not> same_bootd_network net o')"
proof (induction items arbitrary: a)
  case (Cons x xs)
  then show ?case by (cases a) (auto simp: better_party_def)
qed simp

text \<open>No other Subnet of a listing the server gave names the same network.\<close>

definition network_unshared :: "'s SubnetReconciler \<Rightarrow> Subnet \<Rightarrow> NameRef \<Rightarrow> bool" where
  "network_unshared r sn ref \<longleftrightarrow>
     (\<exists>s items s'. nk_listSubnets (sn_kube r) '''' s = (Inr items, s') \<and>
        (\<forall>o'\<in>set items. sn_uid o' = sn_uid sn \<or> \<not> same_bootd_network (ResolveNamespace ref (sn_namespace sn), nr_name ref) o'))"

lemma collision_spec:
  assumes "\<And>c. \<not> workload_call c \<Longrightarrow> P c" "sn_bootdNetworkRef sn = Some ref"
  shows "kspec P (\<lambda>x. x = None \<longrightarrow> network_unshared r sn ref) (findBootdNetworkCollision r sn)"
  unfolding findBootdNetworkCollision_def bootd_ref_def assms(2) option.case bindK_ret
proof (rule kspec_bind [OF kspec_wrap [OF kspec_kcall]])
  show "P (ListSubnets [])" by (simp add: assms(1) workload_call_def)
  fix s items s'
  assume "nk_listSubnets (sn_kube r) [] s = (Inr items, s')"
  then show "\<exists>s s'. nk_listSubnets (sn_kube r) [] s = (Inr items, s')" by blast
qed (rule kspec_ret, simp add: better_party_none network_unshared_def, blast)

lemma run_bootd_spec:
  assumes "own_laws r" "\<And>c. \<not> workload_call c \<Longrightarrow> P c" "\<And>c. own_workload r sn dhcp ref c \<Longrightarrow> P c"
  shows "kspec P (\<lambda>_. True) (run_bootd r sn dhcp ref)"
proof -
  have pvc: "kspec P (\<lambda>_. True) (reconcileBootdLeasePVC r sn)" if "sd_mode dhcp = ModeLease"
  proof (cases "sn_ownPVC r sn (buildBootdLeasePVC (sn_sha r) sn (sn_bootd r))")
    case (Inr p)
    then have p: "controlled_by (pvc_owner p) (sn_uid sn)" "p\<lparr>pvc_owner := pvc_owner (buildBootdLeasePVC (sn_sha r) sn (sn_bootd r))\<rparr> = buildBootdLeasePVC (sn_sha r) sn (sn_bootd r)"
      using assms(1) unfolding own_laws_def by blast+
    from p(2) have "pvc_namespace (p\<lparr>pvc_owner := pvc_owner (buildBootdLeasePVC (sn_sha r) sn (sn_bootd r))\<rparr>) = sn_namespace sn"
      by (simp add: buildBootdLeasePVC_def)
    then have "P (CreatePVC p)" "P (GetPVC (pvc_key p))"
      using p(1) that by (auto intro!: assms(2,3) simp: own_workload_def workload_call_def)
    then show ?thesis
      unfolding reconcileBootdLeasePVC_def create_or_exists_def Inr by (auto intro!: quiet_intros)
  qed (simp add: reconcileBootdLeasePVC_def kspec_raise)
  have dep: "kspec P (\<lambda>_. True) (reconcileBootdDeployment r sn dhcp ref)"
  proof (cases "sn_ownDeployment r sn (buildBootdDeployment (sn_sha r) sn dhcp ref (sn_bootd r))")
    case (Inr d)
    note d = own_specD [OF assms(1) Inr]
    have "P (CreateDeployment d)" "P (GetDeployment (dpl_key d))"
      "controlled_by (dpl_owner e) (sn_uid sn) \<Longrightarrow> P (UpdateDeployment (e\<lparr>dpl_labels := dpl_labels d, dpl_spec := dpl_spec d\<rparr>))" for e
      using d by (auto intro!: assms(2,3) simp: own_workload_def workload_call_def)
    then show ?thesis
      unfolding reconcileBootdDeployment_def create_or_exists_def Inr by (auto intro!: quiet_intros)
  qed (simp add: reconcileBootdDeployment_def kspec_raise)
  show ?thesis
    unfolding run_bootd_def Let_def
    by (intro quiet_intros; simp add: pvc dep quiet_parts [where P = P] assms(2))
qed

lemma build_frame [simp]:
  "buildBootdDeployment sha (sn\<lparr>sn_dhcpStatus := x\<rparr>) dhcp ref cfg = buildBootdDeployment sha sn dhcp ref cfg"
  by (simp add: buildBootdDeployment_def bootd_labels_def bootdPodAnnotations_def bootdEnv_def Let_def)

text \<open>A Subnet that may run bootd, as far as its own specification and the listing show.\<close>

definition may_serve :: "'s SubnetReconciler \<Rightarrow> Subnet \<Rightarrow> SubnetDHCP \<Rightarrow> NameRef \<Rightarrow> bool" where
  "may_serve r sn dhcp ref \<longleftrightarrow> bootd_enabled (sn_bootd r) \<and> network_unshared r sn ref \<and>
     verdict (CheckBootdServerIPInCIDR (sn_net r) (sn_cidr sn) (sn_bootdServerIP sn)) \<noteq> Violation \<and>
     (sd_mode dhcp = ModeLease \<longrightarrow>
        verdict (CheckDHCPLeaseRange (sn_net r) (sn_cidr sn) (sd_leaseRangeStart dhcp) (sd_leaseRangeEnd dhcp)) \<noteq> Violation)"

lemma serve_frame [simp]:
  "own_network_checks r (sn\<lparr>sn_dhcpStatus := x\<rparr>) dhcp = own_network_checks r sn dhcp"
  "own_workload r (sn\<lparr>sn_dhcpStatus := x\<rparr>) dhcp ref c = own_workload r sn dhcp ref c"
  "may_serve r (sn\<lparr>sn_dhcpStatus := x\<rparr>) dhcp ref = may_serve r sn dhcp ref"
    apply (simp add: own_network_checks_def)
   apply (cases c; simp add: own_workload_def)
  apply (simp add: may_serve_def network_unshared_def)
  done

lemma boot_half_spec:
  assumes "own_laws r" "\<And>c. \<not> workload_call c \<Longrightarrow> P c"
    "\<And>ref c. sn_bootdNetworkRef sn = Some ref \<Longrightarrow> may_serve r sn dhcp ref \<Longrightarrow> own_workload r sn dhcp ref c \<Longrightarrow> P c"
  shows "kspec P (\<lambda>_. True) (boot_half r sn dhcp)"
proof (cases "sn_bootdNetworkRef sn")
  case None
  then show ?thesis
    unfolding boot_half_def findBootdNetworkCollision_def bootd_ref_def Let_def
    by (auto intro!: quiet_intros simp: assms(2) workload_call_def)
next
  case (Some ref)
  have run: "kspec P (\<lambda>_. True) (run_bootd r sn dhcp ref)" if "may_serve r sn dhcp ref"
    using assms(1,2) assms(3) [OF Some that] by (rule run_bootd_spec)
  have serve: "may_serve r sn dhcp ref"
    if "network_unshared r sn ref" "bootd_enabled (sn_bootd r)" "\<not> list_ex (\<lambda>c. verdict (fst c) = Violation) (own_network_checks r sn dhcp)"
    using that by (auto simp: may_serve_def own_network_checks_def split: if_splits)
  show ?thesis
    unfolding boot_half_def Let_def bootd_ref_def Some option.case bindK_ret
    by (rule kspec_bind [OF collision_spec [where P = P, OF assms(2) Some]], simp)
      (intro quiet_intros; use run serve in blast)
qed

text \<open>
  C12: whatever the API server answers, a pass over a Subnet creates or
  changes a Deployment or a lease volume only when the Subnet has a boot half, bootd is configured,
  bootd's address and the lease range show no violation of the Subnet's own network, and the server
  listed no other Subnet on the same network; the Deployment then is controlled by this Subnet and has
  exactly the specification built from it, and a lease volume is made in lease mode only.
\<close>

theorem bootd_runs_only_on_valid_network:
  assumes "own_laws r" "(c, ok) \<in> set (calls_of (onChangeSubnet r sn) w)" "workload_call c"
  shows "\<exists>dhcp ref. sn_dhcp sn = Some dhcp \<and> sn_bootdNetworkRef sn = Some ref \<and> may_serve r sn dhcp ref \<and> own_workload r sn dhcp ref c"
proof -
  define P where "P c \<longleftrightarrow> (workload_call c \<longrightarrow>
    (\<exists>dhcp ref. sn_dhcp sn = Some dhcp \<and> sn_bootdNetworkRef sn = Some ref \<and> may_serve r sn dhcp ref \<and> own_workload r sn dhcp ref c))" for c
  have quiet: "P c" if "\<not> workload_call c" for c
    using that by (simp add: P_def)
  have half: "kspec P (\<lambda>_. True) (boot_half r (sn\<lparr>sn_dhcpStatus := x\<rparr>) dhcp)" if "sn_dhcp sn = Some dhcp" for x dhcp
    by (rule boot_half_spec [OF assms(1) quiet]) (use that in \<open>auto simp: P_def\<close>)
  have "kspec P (\<lambda>_. True) (onChangeSubnet r sn)"
    unfolding onChangeSubnet_def
    by (rule kspec_bind [OF gc_frame])
      (auto intro!: quiet_intros quiet_parts update_conditions_call half quiet split: option.splits simp: workload_call_def)
  from kspec_calls [OF this assms(2)] assms(3) show ?thesis unfolding P_def by blast
qed


section \<open>The conditions\<close>

lemma worst_violation_none: "worst_violation checks = None \<longleftrightarrow> (\<forall>c\<in>set checks. verdict (fst c) \<noteq> Violation)"
proof -
  have "foldl pick_violation a checks = None \<longleftrightarrow> a = None \<and> (\<forall>c\<in>set checks. verdict (fst c) \<noteq> Violation)" for a
  proof (induction checks arbitrary: a)
    case (Cons x xs)
    then show ?case by (cases a) (auto simp: pick_violation_def)
  qed simp
  then show ?thesis by (simp add: worst_violation_def)
qed

lemma first_indeterminate_none: "first_indeterminate checks = None \<longleftrightarrow> (\<forall>c\<in>set checks. verdict (fst c) \<noteq> Indeterminate)"
  by (auto simp: first_indeterminate_def find_None_iff)

lemma valid_status:
  "c_status (valid_condition sn checks) =
     (if \<exists>c\<in>set checks. verdict (fst c) = Violation then CondFalse
      else if \<exists>c\<in>set checks. verdict (fst c) = Indeterminate then CondUnknown else CondTrue)"
proof (cases "worst_violation checks")
  case None
  then show ?thesis
    using worst_violation_none [of checks] first_indeterminate_none [of checks]
    by (cases "first_indeterminate checks") (auto simp: valid_condition_def subnet_condition_def)
next
  case (Some v)
  then have "\<exists>c\<in>set checks. verdict (fst c) = Violation"
    using worst_violation_none [of checks] by auto
  with Some show ?thesis by (simp add: valid_condition_def subnet_condition_def)
qed

lemma ready_statusD:
  assumes "c_status (ready_condition sn checks bootd) = CondTrue"
  shows "c_status (valid_condition sn checks) = CondTrue" "bootd = Some b \<Longrightarrow> bs_configured b \<and> bs_available b"
proof -
  have "worst_violation checks = None" "first_indeterminate checks = None"
    "\<not> (case bootd of None \<Rightarrow> False | Some b \<Rightarrow> \<not> bs_configured b \<or> \<not> bs_available b)"
    using assms by (auto simp: ready_condition_def subnet_condition_def split: option.splits if_splits)
  then show "c_status (valid_condition sn checks) = CondTrue" "bootd = Some b \<Longrightarrow> bs_configured b \<and> bs_available b"
    by (auto simp: valid_status worst_violation_none first_indeterminate_none)
qed

lemma passed_own_checks:
  assumes "\<forall>c\<in>set (own_network_checks r sn dhcp). verdict (fst c) \<noteq> Violation \<and> verdict (fst c) \<noteq> Indeterminate"
  shows "\<exists>v h net. parseIPv4 (sn_net r) (sn_bootdServerIP sn) = Some v \<and> go_ParseCIDR (sn_net r) (sn_cidr sn) = Some (h, net) \<and> net v"
    "sd_mode dhcp = ModeLease \<Longrightarrow> verdict (CheckDHCPLeaseRange (sn_net r) (sn_cidr sn) (sd_leaseRangeStart dhcp) (sd_leaseRangeEnd dhcp)) = OK"
proof -
  let ?c = "CheckBootdServerIPInCIDR (sn_net r) (sn_cidr sn) (sn_bootdServerIP sn)"
  have "verdict ?c \<noteq> Violation \<and> verdict ?c \<noteq> Indeterminate"
    using assms by (simp add: own_network_checks_def)
  then show "\<exists>v h net. parseIPv4 (sn_net r) (sn_bootdServerIP sn) = Some v \<and> go_ParseCIDR (sn_net r) (sn_cidr sn) = Some (h, net) \<and> net v"
    by (auto simp: CheckBootdServerIPInCIDR_def bad_address_def split: option.splits if_splits)
  let ?l = "CheckDHCPLeaseRange (sn_net r) (sn_cidr sn) (sd_leaseRangeStart dhcp) (sd_leaseRangeEnd dhcp)"
  assume "sd_mode dhcp = ModeLease"
  then have "verdict ?l \<noteq> Violation \<and> verdict ?l \<noteq> Indeterminate"
    using assms by (simp add: own_network_checks_def)
  then show "verdict ?l = OK"
    by (auto simp: CheckDHCPLeaseRange_def bad_address_def split: option.splits if_splits)
qed

text \<open>What a status update that says Ready implies about the Subnet.\<close>

definition servable :: "'s SubnetReconciler \<Rightarrow> Subnet \<Rightarrow> bool" where
  "servable r sn \<longleftrightarrow> (\<forall>dhcp. sn_dhcp sn = Some dhcp \<longrightarrow> bootd_enabled (sn_bootd r) \<and>
     (\<exists>v h net. parseIPv4 (sn_net r) (sn_bootdServerIP sn) = Some v \<and> go_ParseCIDR (sn_net r) (sn_cidr sn) = Some (h, net) \<and> net v) \<and>
     (sd_mode dhcp = ModeLease \<longrightarrow>
        verdict (CheckDHCPLeaseRange (sn_net r) (sn_cidr sn) (sd_leaseRangeStart dhcp) (sd_leaseRangeEnd dhcp)) = OK))"

lemma boot_half_result:
  assumes "\<And>c. \<not> status_call c \<Longrightarrow> P c"
  shows "kspec P (\<lambda>(checks, bootd, d). set (own_network_checks r sn dhcp) \<subseteq> set checks \<and> (bs_configured bootd \<longrightarrow> bootd_enabled (sn_bootd r)))
     (boot_half r sn dhcp)"
proof -
  have P: "P c" if "c \<in> {ListSubnets ns, GetNamespace ns, GetServiceAccount k, GetPVC k, CreatePVC p, GetDeployment k, CreateDeployment d, UpdateDeployment d}" for c ns k p d
    using that by (auto intro!: assms simp: status_call_def)
  have run: "kspec P (\<lambda>_. True) (run_bootd r sn dhcp ref)" for ref
    unfolding run_bootd_def Let_def checkBootdNamespacePrerequisites_def reconcileBootdLeasePVC_def reconcileBootdDeployment_def create_or_exists_def
    by (intro quiet_intros; simp add: P)
  have "kspec P (\<lambda>_. True) (findBootdNetworkCollision r sn)" "kspec P (\<lambda>_. True) (bootd_ref sn)"
    unfolding findBootdNetworkCollision_def bootd_ref_def by (intro quiet_intros; simp add: P)+
  then show ?thesis
    unfolding boot_half_def Let_def by (auto intro!: quiet_intros run simp: withheld_def split: option.splits)
qed

lemma ready_servable:
  assumes "c_status (ready_condition sn' checks (Some bootd)) = CondTrue" "set (own_network_checks r sn dhcp) \<subseteq> set checks"
    "bs_configured bootd \<longrightarrow> bootd_enabled (sn_bootd r)" "sn_dhcp sn = Some dhcp"
  shows "servable r sn"
proof -
  have ok: "c_status (valid_condition sn' checks) = CondTrue" "bs_configured bootd"
    using ready_statusD [OF assms(1)] by simp_all
  then have "\<forall>c\<in>set checks. verdict (fst c) \<noteq> Violation \<and> verdict (fst c) \<noteq> Indeterminate"
    by (auto simp: valid_status split: if_splits)
  with assms(2) have "\<forall>c\<in>set (own_network_checks r sn dhcp). verdict (fst c) \<noteq> Violation \<and> verdict (fst c) \<noteq> Indeterminate"
    by blast
  from passed_own_checks [OF this] ok(2) assms(3,4) show ?thesis
    by (simp add: servable_def)
qed

lemma servable_no_boot: "sn_dhcp sn = None \<Longrightarrow> servable r sn"
  by (simp add: servable_def)

lemma written_conditions:
  assumes "meta_laws L"
  shows "isStatusConditionTrue L (setStatusCondition L (setStatusCondition L cs (valid_condition sn checks)) (ready_condition sn checks bootd)) ''Ready''
      \<longleftrightarrow> c_status (ready_condition sn checks bootd) = CondTrue"
    "isStatusConditionTrue L (setStatusCondition L (setStatusCondition L cs (valid_condition sn checks)) (ready_condition sn checks bootd)) ''Valid''
      \<longleftrightarrow> c_status (valid_condition sn checks) = CondTrue"
proof -
  have set: "isStatusConditionTrue L (setStatusCondition L cs c) t = (if t = c_type c then c_status c = CondTrue else isStatusConditionTrue L cs t)" for cs c t
    using assms unfolding meta_laws_def by (cases "t = c_type c") auto
  have "c_type (valid_condition sn checks) = ''Valid''" "c_type (ready_condition sn checks bootd) = ''Ready''"
    by (simp_all add: valid_condition_def ready_condition_def subnet_condition_def split: option.splits)
  then show "isStatusConditionTrue L (setStatusCondition L (setStatusCondition L cs (valid_condition sn checks)) (ready_condition sn checks bootd)) ''Ready''
      \<longleftrightarrow> c_status (ready_condition sn checks bootd) = CondTrue"
    "isStatusConditionTrue L (setStatusCondition L (setStatusCondition L cs (valid_condition sn checks)) (ready_condition sn checks bootd)) ''Valid''
      \<longleftrightarrow> c_status (valid_condition sn checks) = CondTrue"
    by (simp_all add: set)
qed

text \<open>
  C36: whenever a pass writes a Subnet's status with the condition Ready true, the
  condition Valid is true in it as well, and a Subnet with a boot half has bootd configured, a bootd
  address that parses and lies inside the Subnet's network, and, in lease mode, a lease range that passed
  its check.
\<close>

theorem ready_subnet_is_servable:
  assumes "meta_laws (sn_lib r)" "(UpdateSubnetStatus sn', ok) \<in> set (calls_of (onChangeSubnet r sn) w)"
    and "isStatusConditionTrue (sn_lib r) (sn_conditions sn') ''Ready''"
  shows "isStatusConditionTrue (sn_lib r) (sn_conditions sn') ''Valid'' \<and> servable r sn"
proof -
  define P where "P c \<longleftrightarrow> (\<forall>sn'. c = UpdateSubnetStatus sn' \<and> isStatusConditionTrue (sn_lib r) (sn_conditions sn') ''Ready'' \<longrightarrow>
    isStatusConditionTrue (sn_lib r) (sn_conditions sn') ''Valid'' \<and> servable r sn)" for c
  have other: "P c" if "\<not> status_call c" for c
    using that by (auto simp: P_def status_call_def)
  have cond: "kspec P (\<lambda>_. True) (updateSubnetConditions r (sn\<lparr>sn_dhcpStatus := x\<rparr>) checks bootd)"
    if "c_status (ready_condition (sn\<lparr>sn_dhcpStatus := x\<rparr>) checks bootd) = CondTrue \<longrightarrow> servable r sn" for x checks bootd
    using that ready_statusD(1) by (intro update_conditions_call) (auto simp: P_def written_conditions [OF assms(1)])
  have half: "kspec P (\<lambda>(checks, bootd, d). c_status (ready_condition sx (more @ checks) (Some bootd)) = CondTrue \<longrightarrow> servable r sn)
      (boot_half r (sn\<lparr>sn_dhcpStatus := x\<rparr>) dhcp)" if "sn_dhcp sn = Some dhcp" for x dhcp sx more
    by (rule kspec_weaken [OF boot_half_result [OF other]]) (use that in \<open>auto intro!: ready_servable\<close>)
  have "kspec P (\<lambda>_. True) (onChangeSubnet r sn)"
    unfolding onChangeSubnet_def
    apply (rule kspec_bind [OF gc_frame], simp add: other status_call_def)
    apply (elim exE, hypsubst)
    subgoal for sn2 x
      apply (rule kspec_bindT [OF quiet_parts(1)], simp add: other)
      subgoal for nad
        apply (rule kspec_bindT [OF quiet_parts(2)], simp add: other)
        subgoal for site
          by (rule kspec_case_option)
            (auto simp: servable_no_boot intro!: quiet_intros cond kspec_bind [OF half [where more = "nad @ [site]" and sx = "sn\<lparr>sn_dhcpStatus := x\<rparr>"]])
        done
      done
    done
  from kspec_calls [OF this assms(2)] assms(3) show ?thesis unfolding P_def by blast
qed


section \<open>A concrete cluster\<close>

text \<open>One Subnet with a boot half, its Site, its network and a Deployment of an older specification that is available.\<close>

definition serving_subnet :: Subnet where
  "serving_subnet = small_subnet\<lparr>sn_bootdNetworkRef := Some \<lparr>nr_namespace = '''', nr_name = ''net''\<rparr>\<rparr>"

definition serving_config :: BootdDeploymentConfig where
  "serving_config = \<lparr>bd_image = ''bootd:1'', bd_bootArtifactsImage = ''art:1'', bd_serviceAccountName = '''', bd_agentUpstreamURL = '''',
     bd_bootUpstreamURL = '''', bd_httpBootURL = '''', bd_leaseStorageClassName = ''''\<rparr>"

definition own_it :: "Subnet \<Rightarrow> string \<times> string \<times> uid" where
  "own_it sn = (''Subnet'', sn_name sn, sn_uid sn)"

definition old_deployment :: Workload.Deployment where
  "old_deployment = (buildBootdDeployment (\<lambda>x. x) serving_subnet (the (sn_dhcp serving_subnet)) \<lparr>nr_namespace = '''', nr_name = ''old''\<rparr> serving_config)
     \<lparr>dpl_owner := Some (own_it serving_subnet), dpl_conditions := [\<lparr>c_type = ''Available'', c_status = CondTrue, c_observedGeneration = 1, c_reason = '''', c_message = ''''\<rparr>],
      dpl_availableReplicas := 1\<rparr>"

definition serving_kube :: "unit netkube" where
  "serving_kube = \<lparr>nk_getSubnet = (\<lambda>k s. (Inr serving_subnet, s)), nk_getMachine = (\<lambda>k s. (Inl NotFound, s)),
     nk_getSite = (\<lambda>k s. (Inr \<lparr>si_name = ''site'', si_namespace = ''n'', si_seederSubnetRef = None, si_trackerURL = ''''\<rparr>, s)),
     nk_getNAD = (\<lambda>k s. (Inr (Inr (Some ''cni'')), s)),
     nk_getNamespace = (\<lambda>k s. (Inr [(''pod-security.kubernetes.io/enforce'', ''privileged'')], s)),
     nk_getServiceAccount = (\<lambda>k s. (Inr (), s)), nk_listSubnets = (\<lambda>ns s. (Inr [serving_subnet], s)), nk_listDeployments = (\<lambda>ns s. (Inr [], s)),
     nk_getDeployment = (\<lambda>k s. (Inr old_deployment, s)), nk_createDeployment = (\<lambda>d s. (Inr d, s)), nk_updateDeployment = (\<lambda>d s. (Inr d, s)),
     nk_getPVC = (\<lambda>k s. (Inl NotFound, s)), nk_createPVC = (\<lambda>p s. (Inr p, s)), nk_updateSubnetStatus = (\<lambda>sn s. (Inr sn, s)), nk_isNoMatch = (\<lambda>_. False)\<rparr>"

definition serving_controller :: "unit SubnetReconciler" where
  "serving_controller = \<lparr>sn_kube = serving_kube, sn_lib = ref_libs, sn_net = no_net_lib, sn_bootd = serving_config, sn_sha = (\<lambda>x. x),
     sn_ownDeployment = (\<lambda>sn d. Inr (d\<lparr>dpl_owner := Some (own_it sn)\<rparr>)), sn_ownPVC = (\<lambda>sn p. Inr (p\<lparr>pvc_owner := Some (own_it sn)\<rparr>))\<rparr>"

definition serving_calls :: trace where
  "serving_calls = calls_of (onChangeSubnet serving_controller serving_subnet) \<lparr>srv = (), trace = []\<rparr>"

definition says_ready :: "call \<Rightarrow> bool" where
  "says_ready c \<longleftrightarrow> (case c of UpdateSubnetStatus sn' \<Rightarrow> isStatusConditionTrue ref_libs (sn_conditions sn') ''Ready'' | _ \<Rightarrow> False)"

lemma serving_run: "map (\<lambda>(c, ok). (workload_call c, says_ready c)) serving_calls =
   replicate 6 (False, False) @ [(True, False), (False, False), (True, False), (False, True)]"
  by code_simp

lemma serving_own_laws: "own_laws serving_controller"
  by (auto simp: own_laws_def serving_controller_def controlled_by_def own_it_def)

lemma serving_lib: "sn_lib serving_controller = ref_libs"
  by (simp add: serving_controller_def)

theorem bootd_runs_only_on_valid_network_witness:
  "\<exists>c dhcp ref. workload_call c \<and> sn_dhcp serving_subnet = Some dhcp \<and> sn_bootdNetworkRef serving_subnet = Some ref \<and>
     may_serve serving_controller serving_subnet dhcp ref \<and> own_workload serving_controller serving_subnet dhcp ref c"
proof -
  have "(True, False) \<in> set (map (\<lambda>(c, ok). (workload_call c, says_ready c)) serving_calls)"
    unfolding serving_run by simp
  then obtain c ok where "(c, ok) \<in> set serving_calls" "workload_call c" by auto
  with bootd_runs_only_on_valid_network [OF serving_own_laws, of c ok serving_subnet "\<lparr>srv = (), trace = []\<rparr>"] show ?thesis
    unfolding serving_calls_def by blast
qed

theorem ready_subnet_is_servable_witness:
  "\<exists>sn' :: Subnet. isStatusConditionTrue ref_libs (sn_conditions sn') ''Valid'' \<and> servable serving_controller serving_subnet"
proof -
  have "(False, True) \<in> set (map (\<lambda>(c, ok). (workload_call c, says_ready c)) serving_calls)"
    unfolding serving_run by simp
  then obtain c ok where c: "(c, ok) \<in> set serving_calls" "says_ready c" by auto
  then obtain sn' where "c = UpdateSubnetStatus sn'" "isStatusConditionTrue ref_libs (sn_conditions sn') ''Ready''"
    by (cases c) (auto simp: says_ready_def)
  then have "isStatusConditionTrue (sn_lib serving_controller) (sn_conditions sn') ''Valid'' \<and> servable serving_controller serving_subnet"
    using c(1) by (intro ready_subnet_is_servable [where ok = ok and w = "\<lparr>srv = (), trace = []\<rparr>"])
      (simp_all add: serving_calls_def serving_lib ref_meta_laws)
  then show ?thesis
    unfolding serving_lib by blast
qed

section \<open>Garbage collection of reservations\<close>

lemma gc_each_subseq: "kspec (\<lambda>_. True) (\<lambda>kept. subseq kept rs) (gc_each r sn rs)"
proof (induction rs)
  case (Cons res rs)
  show ?case
    by (auto intro!: kspec_bindT [OF kspec_getOptT [OF kspec_callT]] kspec_bind [OF Cons] kspec_ret split: option.splits)
qed (simp add: kspec_ret)

lemma gc_each_keeps:
  fixes r :: "'s SubnetReconciler"
  assumes "res \<in> set rs" "\<And>s. \<exists>m s'. nk_getMachine (sn_kube r) (sn_namespace sn, res_machine res) s = (Inr m, s') \<and> reservation_current sn res m"
  shows "kspec (\<lambda>_. True) (\<lambda>kept. res \<in> set kept) (gc_each r sn rs)"
  using assms(1)
proof (induction rs)
  case (Cons x rs)
  show ?case
  proof (cases "x = res")
    case True
    have "kspec (\<lambda>_. True) (\<lambda>m. \<exists>m'. m = Some m' \<and> reservation_current sn res m') (getOpt (kcall (GetMachine (sn_namespace sn, res_machine res))
        (nk_getMachine (sn_kube r) (sn_namespace sn, res_machine res))))"
      unfolding kspec_def
    proof
      fix w :: "'s world"
      obtain m s' where "nk_getMachine (sn_kube r) (sn_namespace sn, res_machine res) (srv w) = (Inr m, s')" "reservation_current sn res m"
        using assms(2) by blast
      then show "\<exists>cs. trace (snd (getOpt (kcall (GetMachine (sn_namespace sn, res_machine res)) (nk_getMachine (sn_kube r) (sn_namespace sn, res_machine res))) w)) =
          trace w @ cs \<and> (\<forall>c\<in>set cs. True) \<and>
        (\<forall>x. fst (getOpt (kcall (GetMachine (sn_namespace sn, res_machine res)) (nk_getMachine (sn_kube r) (sn_namespace sn, res_machine res))) w) = Inr x \<longrightarrow>
           (\<exists>m'. x = Some m' \<and> reservation_current sn res m'))"
        by (simp add: getOpt_def kio_simps kcall_def)
    qed
    then show ?thesis
      unfolding True gc_each.simps
      by (rule kspec_bind) (auto intro!: kspec_bindT kspec_weaken [OF gc_each_subseq] kspec_ret)
  next
    case False
    with Cons show ?thesis
      by (auto intro!: kspec_bindT [OF kspec_getOptT [OF kspec_callT]] kspec_bind [OF Cons.IH] kspec_ret split: option.splits)
  qed
qed simp


lemma kspec_conj: "kspec P R m \<Longrightarrow> kspec P Q m \<Longrightarrow> kspec P (\<lambda>x. R x \<and> Q x) m"
  unfolding kspec_def by metis

lemma gc_spec:
  assumes "kspec (\<lambda>_. True) R (gc_each r sn (table_of sn))"
  shows "kspec (\<lambda>_. True) (\<lambda>sn'. sn' = sn \<and> ((\<exists>d. sn_dhcp sn = Some d \<and> sd_mode d = ModeLease) \<and> table_of sn \<noteq> [] \<longrightarrow>
        (\<exists>ks. R ks \<and> length ks = length (table_of sn))) \<or>
      (\<exists>st ks. sn_dhcpStatus sn = Some st \<and> R ks \<and>
      sn' = sn\<lparr>sn_dhcpStatus := Some (st\<lparr>reservations := ks, revision := Revision (sn_sha r) ks\<rparr>)\<rparr>)) (gcDHCPReservations r sn)"
proof (cases "sn_dhcpStatus sn")
  case (Some st)
  then show ?thesis
    using assms unfolding gcDHCPReservations_def
    by (auto simp: table_of_def split: option.splits intro!: kspec_if kspec_ret kspec_bind [OF kspec_wrap])
qed (auto simp: gcDHCPReservations_def table_of_def intro!: kspec_ret split: option.splits)

lemma subseq_distinct_map: "subseq ks rs \<Longrightarrow> distinct (map f rs) \<Longrightarrow> distinct (map f ks)"
proof (induction rule: list_emb.induct)
  case (list_emb_Cons2 x y xs ys)
  then show ?case by (auto dest: list_emb_set)
qed auto

lemma table_ok_subseq:
  assumes "table_ok sn" "subseq ks (table_of sn)" "table_of sn' = ks" "LeaseRange sn' = LeaseRange sn" "ReservedAddresses sn' = ReservedAddresses sn"
  shows "table_ok sn'"
proof -
  have "distinct (map f ks)" if "distinct (map f (table_of sn))" for f :: "DHCPReservation \<Rightarrow> string"
    using assms(2) that by (rule subseq_distinct_map)
  moreover have "set ks \<subseteq> set (table_of sn)"
    using assms(2) by (auto dest: list_emb_set)
  ultimately show ?thesis
    using assms(1,3-5) by (auto simp: table_ok_def)
qed

text \<open>
  The collection of stale reservations keeps the table's invariant, adds
  nothing to it, and keeps the reservation of every Machine the server finds in the Subnet's namespace
  with the same boot MAC address and a reference to this Subnet; a table it changed gets the revision
  of its new contents.
\<close>

theorem gc_keeps_live_reservations:
  assumes "table_ok sn" "fst (gcDHCPReservations r sn w) = Inr sn'"
  shows "table_ok sn' \<and> subseq (table_of sn') (table_of sn) \<and>
    (sn' = sn \<or> (\<exists>d. sn_dhcpStatus sn' = Some d \<and> revision d = Revision (sn_sha r) (table_of sn'))) \<and>
    (\<forall>res\<in>set (table_of sn). (\<forall>s. \<exists>m s'. nk_getMachine (sn_kube r) (sn_namespace sn, res_machine res) s = (Inr m, s') \<and> reservation_current sn res m)
       \<longrightarrow> res \<in> set (table_of sn'))"
proof -
  have frame: "table_of sn' = ks" "LeaseRange sn' = LeaseRange sn" "ReservedAddresses sn' = ReservedAddresses sn"
    if "sn' = sn\<lparr>sn_dhcpStatus := Some (st\<lparr>reservations := ks, revision := v\<rparr>)\<rparr>" for st ks v
    using that by (simp_all add: table_of_def LeaseRange_def ReservedAddresses_def cong: option.case_cong)
  have "res \<in> set (table_of sn')"
    if "res \<in> set (table_of sn)" "\<forall>s. \<exists>m s'. nk_getMachine (sn_kube r) (sn_namespace sn, res_machine res) s = (Inr m, s') \<and> reservation_current sn res m" for res
    using kspec_value [OF gc_spec [OF gc_each_keeps [OF that(1)]] assms(2)] that frame by auto
  moreover have "table_ok sn' \<and> subseq (table_of sn') (table_of sn) \<and>
      (sn' = sn \<or> (\<exists>d. sn_dhcpStatus sn' = Some d \<and> revision d = Revision (sn_sha r) (table_of sn')))"
    using kspec_value [OF gc_spec [OF gc_each_subseq] assms(2)]
  proof (elim disjE exE conjE)
    fix st ks
    assume "subseq ks (table_of sn)" and new: "sn' = sn\<lparr>sn_dhcpStatus := Some (st\<lparr>reservations := ks, revision := Revision (sn_sha r) ks\<rparr>)\<rparr>"
    with table_ok_subseq [OF assms(1) _ frame [OF new]] show ?thesis
      using frame(1) [OF new] by simp
  qed (simp add: assms(1))
  ultimately show ?thesis by blast
qed

definition held_subnet :: Subnet where
  "held_subnet = put_table (\<lambda>x. x) [\<lparr>res_address = ip_string 2, res_machine = ''m'', res_mac = the (NormalizeMAC ''02:00:00:00:00:AB''), res_since = 7\<rparr>] small_subnet"

definition holding_controller :: "unit SubnetReconciler" where
  "holding_controller = serving_controller\<lparr>sn_kube := serving_kube\<lparr>nk_getMachine := (\<lambda>k s.
     if k = (''n'', ''m'') then (Inr (ref_machine Available [] None), s) else (Inl NotFound, s))\<rparr>\<rparr>"

lemma held_current: "reservation_current held_subnet res (ref_machine Available [] None)" if "res \<in> set (table_of held_subnet)"
proof -
  have "NormalizeMAC ''02:00:00:00:00:AB'' \<noteq> None" by code_simp
  then show ?thesis
    using that by (auto simp: held_subnet_def reservation_current_def ref_machine_def ResolveNamespace_def put_table_def small_subnet_def table_of_def)
qed

theorem gc_keeps_live_reservations_witness:
  "\<exists>sn'. fst (gcDHCPReservations holding_controller held_subnet \<lparr>srv = (), trace = []\<rparr>) = Inr sn' \<and> table_of sn' \<noteq> [] \<and> table_ok sn'"
proof -
  let ?w = "\<lparr>srv = (), trace = []\<rparr> :: unit world"
  have held: "table_ok held_subnet"
  proof -
    have "ReservedAddresses small_subnet = [''0.0.0.1'']"
      by (simp add: ReservedAddresses_def small_subnet_def)
    moreover have "parseIP4 ''0.0.0.1'' = Some 1" by code_simp
    then have "ip_string 2 \<noteq> ''0.0.0.1''" using parse_ip_string [of 2] by auto
    moreover have "\<exists>v :: ip4. 1 \<le> v \<and> v \<le> 6 \<and> ip_string 2 = ip_string v" by (intro exI [of _ 2]) simp
    ultimately show ?thesis
      using lease_range_is_the_hosts_witness by (simp add: held_subnet_def table_ok_def)
  qed
  have get: "\<forall>s. \<exists>m s'. nk_getMachine (sn_kube holding_controller) (sn_namespace held_subnet, res_machine res) s = (Inr m, s') \<and> reservation_current held_subnet res m"
    if "res \<in> set (table_of held_subnet)" for res
    using that held_current by (auto simp: holding_controller_def held_subnet_def put_table_def small_subnet_def table_of_def)
  have "\<not> isl (fst (gcDHCPReservations holding_controller held_subnet ?w))"
    by (simp add: gcDHCPReservations_def held_subnet_def put_table_def small_subnet_def holding_controller_def serving_controller_def
      kio_simps kcall_def getOpt_def)
  then obtain sn' where sn': "fst (gcDHCPReservations holding_controller held_subnet ?w) = Inr sn'"
    by (metis isl_def sum.exhaust)
  obtain res where "res \<in> set (table_of held_subnet)" by (auto simp: held_subnet_def)
  then have "res \<in> set (table_of sn')" "table_ok sn'"
    using gc_keeps_live_reservations [OF held sn'] get by blast+
  then show ?thesis
    using sn' by auto
qed

lemma gc_each_drops:
  assumes "\<forall>s. nk_getMachine (sn_kube r) (sn_namespace sn, mn) s = (Inl NotFound, s)"
  shows "kspec (\<lambda>_. True) (\<lambda>ks. \<forall>res\<in>set ks. res_machine res \<noteq> mn) (gc_each r sn rs)"
proof (induction rs)
  case (Cons x rs)
  have "kspec (\<lambda>_. True) (\<lambda>m. res_machine x = mn \<longrightarrow> m = None)
      (getOpt (kcall (GetMachine (sn_namespace sn, res_machine x)) (nk_getMachine (sn_kube r) (sn_namespace sn, res_machine x))))"
  proof (cases "res_machine x = mn")
    case True
    then show ?thesis
      using assms by (simp add: kspec_def getOpt_def kio_simps kcall_def isNotFound_def)
  qed (auto intro!: kspec_weaken [OF kspec_getOptT [OF kspec_callT]])
  then show ?case
    unfolding gc_each.simps
    by (rule kspec_bind) (rule kspec_bind [OF Cons], auto intro!: kspec_ret split: option.splits if_splits)
qed (simp add: kspec_ret)

text \<open>
  A Machine may name a Subnet of another namespace, and its reservation is
  entered on that Subnet under the Machine's bare name; the collection looks the name up in the
  Subnet's own namespace, so that the next pass over the Subnet drops the reservation although the
  Machine exists, has that boot MAC address and still names the Subnet.
\<close>

theorem gc_drops_foreign_reservation:
  assumes "sn_dhcp sn = Some d" "sd_mode d = ModeLease"
    and ref: "subnetKeyOf m = (sn_namespace sn, sn_name sn)" "NormalizeMAC (ms_bootMACAddress (m_spec m)) = Some mac"
    and reserved: "Reserve sha sn (m_name m) mac t = Inr (addr, True, sn1)"
    and absent: "\<forall>s. nk_getMachine (sn_kube r) (sn_namespace sn, m_name m) s = (Inl NotFound, s)"
    and pass: "fst (gcDHCPReservations r sn1 w) = Inr sn2"
  shows "(\<exists>res\<in>set (table_of sn1). res_machine res = m_name m \<and> res_address res = addr \<and> reservation_current sn1 res m) \<and>
    (\<forall>res\<in>set (table_of sn2). res_machine res \<noteq> m_name m)"
proof -
  from reserved obtain v where sn1: "sn1 = put_table sha (table_of sn @ [\<lparr>res_address = ip_string v, res_machine = m_name m, res_mac = mac, res_since = t\<rparr>]) sn"
    and addr: "addr = ip_string v"
    by (cases rule: Reserve_cases) auto
  have frame: "sn_namespace sn1 = sn_namespace sn" "sn_name sn1 = sn_name sn" "sn_dhcp sn1 = sn_dhcp sn"
    using sn1 by (simp_all add: put_table_def)
  have entry: "\<exists>res\<in>set (table_of sn1). res_machine res = m_name m \<and> res_address res = addr \<and> reservation_current sn1 res m"
    using sn1 addr ref frame by (simp add: reservation_current_def subnetKeyOf_def)
  have "kspec (\<lambda>_. True) (\<lambda>ks. (\<forall>res\<in>set ks. res_machine res \<noteq> m_name m) \<and> subseq ks (table_of sn1)) (gc_each r sn1 (table_of sn1))"
    using absent frame by (intro kspec_conj gc_each_drops gc_each_subseq) simp
  from kspec_value [OF gc_spec [OF this] pass] have "\<forall>res\<in>set (table_of sn2). res_machine res \<noteq> m_name m"
  proof (elim disjE exE conjE)
    assume "sn2 = sn1" "(\<exists>d. sn_dhcp sn1 = Some d \<and> sd_mode d = ModeLease) \<and> table_of sn1 \<noteq> [] \<longrightarrow>
      (\<exists>ks. ((\<forall>res\<in>set ks. res_machine res \<noteq> m_name m) \<and> subseq ks (table_of sn1)) \<and> length ks = length (table_of sn1))"
    then show ?thesis
      using entry frame assms(1,2) subseq_same_length by (metis empty_iff list.set(1))
  qed (simp add: table_of_def)
  with entry show ?thesis ..
qed

lemma small_tables: "table_of small_subnet = []" "ReservedAddresses small_subnet = [''0.0.0.1'']"
  by (simp_all add: table_of_def ReservedAddresses_def small_subnet_def)

theorem gc_drops_foreign_reservation_witness:
  "\<exists>sn2. fst (gcDHCPReservations serving_controller held_subnet \<lparr>srv = (), trace = []\<rparr>) = Inr sn2 \<and>
     (\<forall>res\<in>set (table_of sn2). res_machine res \<noteq> ''m'')"
proof -
  let ?w = "\<lparr>srv = (), trace = []\<rparr> :: unit world"
  let ?m = "(ref_machine Available [] None)\<lparr>m_namespace := ''other'', m_spec :=
    (m_spec (ref_machine Available [] None))\<lparr>ms_subnetRef := \<lparr>nr_namespace = ''n'', nr_name = ''s''\<rparr>\<rparr>\<rparr>"
  have "\<not> isl (fst (gcDHCPReservations serving_controller held_subnet ?w))"
    by (simp add: gcDHCPReservations_def held_subnet_def put_table_def small_subnet_def serving_controller_def serving_kube_def kio_simps
      kcall_def getOpt_def isNotFound_def)
  then obtain sn2 where sn2: "fst (gcDHCPReservations serving_controller held_subnet ?w) = Inr sn2"
    by (metis isl_def sum.exhaust)
  have mac: "NormalizeMAC (ms_bootMACAddress (m_spec ?m)) = Some (the (NormalizeMAC ''02:00:00:00:00:AB''))"
    by (simp add: ref_machine_def, code_simp)
  have "Reserve (\<lambda>x. x) small_subnet (m_name ?m) (the (NormalizeMAC ''02:00:00:00:00:AB'')) 7 = Inr (ip_string 2, True, held_subnet)"
    using small_free lease_range_is_the_hosts_witness small_tables
    by (simp add: Reserve_def held_subnet_def ref_machine_def)
  from gc_drops_foreign_reservation [OF _ _ _ mac this _ sn2] have "\<forall>res\<in>set (table_of sn2). res_machine res \<noteq> ''m''"
    by (simp add: small_subnet_def serving_controller_def serving_kube_def subnetKeyOf_def ResolveNamespace_def ref_machine_def)
  with sn2 show ?thesis by blast
qed

end
