(* ===== verification/Bootd_Config.thy ===== *)
theory Bootd_Config
  imports Net_Validate Boot_Server
begin

text \<open>
  How bootd is configured: its environment (cmd/bootd/main.go), the dnsmasq configuration, the GRUB
  bootstrap configuration and the hostsfile it renders (config.go, render.go), the URL a UEFI HTTP Boot
  client is given (proxy.go). An environment is a lookup of names, so that an unset variable is told
  apart from an empty one. Error texts keep the fixed part of their format.
\<close>

section \<open>Standard library\<close>

text \<open>\<^verbatim>\<open>filepath.Join\<close> of two elements: the result is cleaned lexically.\<close>

fun clean_parts :: "bool \<Rightarrow> string list \<Rightarrow> string list \<Rightarrow> string list" where
  "clean_parts rooted acc [] = rev acc"
| "clean_parts rooted acc (p # ps) =
     (if p = '''' \<or> p = ''.'' then clean_parts rooted acc ps
      else if p = ''..'' then
        (case acc of
           [] \<Rightarrow> clean_parts rooted (if rooted then [] else [p]) ps
         | a # as \<Rightarrow> clean_parts rooted (if a = ''..'' then p # acc else as) ps)
      else clean_parts rooted (p # acc) ps)"

definition join_slash :: "string list \<Rightarrow> string" where
  "join_slash ps = (case ps of [] \<Rightarrow> '''' | p # r \<Rightarrow> p @ concat (map (\<lambda>x. CHR ''/'' # x) r))"

definition clean_path :: "string \<Rightarrow> string" where
  "clean_path s =
     (let rooted = hasPrefix s ''/''; body = join_slash (clean_parts rooted [] (split_on (CHR ''/'') s))
      in if rooted then CHR ''/'' # body else if body = '''' then ''.'' else body)"

definition path_join :: "string \<Rightarrow> string \<Rightarrow> string" where
  "path_join a b = (if a = '''' then (if b = '''' then '''' else clean_path b) else clean_path (a @ ''/'' @ b))"

text \<open>
  \<^verbatim>\<open>net.IP\<close>: nil, or an address with what \<^verbatim>\<open>To4\<close> makes of it. \<^verbatim>\<open>net.ParseCIDR\<close> as the network: \<open>Some (Some (n, m))\<close>
  for an IPv4 network, \<open>Some None\<close> for another one.
\<close>

type_synonym net_ip = "ip4 option option"

definition To4 :: "net_ip \<Rightarrow> ip4 option" where
  "To4 ip = (case ip of None \<Rightarrow> None | Some x \<Rightarrow> x)"

definition go_ParseNet :: "net_lib \<Rightarrow> string \<Rightarrow> (ip4 \<times> ip4) option option" where
  "go_ParseNet L s =
     (case parseCIDR4 s of
        Some nm \<Rightarrow> Some (Some nm)
      | None \<Rightarrow> (case nl_parseCIDR6 L s of None \<Rightarrow> None | Some _ \<Rightarrow> Some None))"

text \<open>\<^verbatim>\<open>net.SplitHostPort\<close> and \<^verbatim>\<open>net.JoinHostPort\<close>.\<close>

definition SplitHostPort :: "string \<Rightarrow> kerr + (string \<times> string)" where
  "SplitHostPort hostport =
     (case cut_last (CHR '':'') hostport of
        None \<Rightarrow> Inl (PlainError ''missing port in address'')
      | Some (before, port) \<Rightarrow>
          if hasPrefix hostport ''['' then
            (let inner = takeWhile (\<lambda>c. c \<noteq> CHR '']'') (tl hostport) in
             if CHR '']'' \<notin> set hostport then Inl (PlainError ''missing ']' in address'')
             else if before \<noteq> CHR ''['' # inner @ '']'' then
               (if hasPrefix (drop (length inner + 2) hostport) '':'' then Inl (PlainError ''too many colons in address'')
                else Inl (PlainError ''missing port in address''))
             else if CHR ''['' \<in> set (tl hostport) then Inl (PlainError ''unexpected '[' in address'')
             else if CHR '']'' \<in> set port then Inl (PlainError ''unexpected ']' in address'')
             else Inr (inner, port))
          else if CHR '':'' \<in> set before then Inl (PlainError ''too many colons in address'')
          else if CHR ''['' \<in> set hostport then Inl (PlainError ''unexpected '[' in address'')
          else if CHR '']'' \<in> set hostport then Inl (PlainError ''unexpected ']' in address'')
          else Inr (before, port))"

definition JoinHostPort :: "string \<Rightarrow> string \<Rightarrow> string" where
  "JoinHostPort host port = (if CHR '':'' \<in> set host then ''['' @ host @ '']:'' @ port else host @ '':'' @ port)"

section \<open>config.go\<close>

definition ShimFilename :: string where
  "ShimFilename = ''shimx64.efi''"

definition GrubFilename :: string where
  "GrubFilename = ''grubx64.efi''"

definition DefaultBootFilename :: string where
  "DefaultBootFilename = ShimFilename"

definition DefaultLeaseTime :: duration where
  "DefaultLeaseTime = 30 * (60 * second)"

record BootdConfig =
  bcf_interface :: string
  bcf_serverIP :: net_ip
  bcf_nextServerIP :: net_ip
  bcf_provisioningNet :: "(ip4 \<times> ip4) option option"
  bcf_bootFilename :: string
  bcf_tftpDir :: string
  bcf_httpBootURL :: string
  bcf_answerAll :: bool
  bcf_leaseMode :: bool
  bcf_gateway :: "string option"
  bcf_leaseRangeStart :: net_ip
  bcf_leaseRangeEnd :: net_ip
  bcf_leaseTime :: duration
  bcf_leaseFilePath :: string

definition bootd_withDefaults :: "BootdConfig \<Rightarrow> BootdConfig" where
  "bootd_withDefaults c =
     (let c1 = (if bcf_bootFilename c = '''' then c\<lparr>bcf_bootFilename := DefaultBootFilename\<rparr> else c)
      in if bcf_leaseTime c1 = 0 then c1\<lparr>bcf_leaseTime := DefaultLeaseTime\<rparr> else c1)"

section \<open>render.go\<close>

definition kezioTag :: string where "kezioTag = ''kezio''"
definition httpClientTag :: string where "httpClientTag = ''httpclient''"
definition archX64UEFIHTTP :: int where "archX64UEFIHTTP = 16"
definition httpBootVendorClass :: string where "httpBootVendorClass = ''HTTPClient''"
definition pxeVendorClass :: string where "pxeVendorClass = ''PXEClient''"
definition HostsfileName :: string where "HostsfileName = ''dhcp-hosts.conf''"
definition leasefileName :: string where "leasefileName = ''dnsmasq.leases''"

definition HostsfilePath :: "string \<Rightarrow> string" where
  "HostsfilePath runDir = path_join runDir HostsfileName"

definition validateHTTPBootURL :: "string \<Rightarrow> kerr option" where
  "validateHTTPBootURL rawURL =
     (case url_Parse rawURL of
        Inl e \<Rightarrow> Some (Wrapped ''HTTPBootURL is not a valid URL'' e)
      | Inr u \<Rightarrow>
          if u_scheme u \<noteq> ''http'' \<and> u_scheme u \<noteq> ''https'' then Some (PlainError ''HTTPBootURL must be an http or https URL, firmware fetches nothing else'')
          else if u_host u = '''' then Some (PlainError ''HTTPBootURL names no host'')
          else None)"

definition leaseRange :: "BootdConfig \<Rightarrow> ip4 \<Rightarrow> ip4 \<Rightarrow> kerr + (ip4 \<times> ip4)" where
  "leaseRange cfg network m =
     (if (bcf_leaseRangeStart cfg \<noteq> None) \<noteq> (bcf_leaseRangeEnd cfg \<noteq> None)
      then Inl (PlainError ''LeaseRangeStart and LeaseRangeEnd must both be set, or both left empty for auto-derivation'')
      else if bcf_leaseRangeStart cfg \<noteq> None then
        (case To4 (bcf_leaseRangeStart cfg) of
           None \<Rightarrow> Inl (PlainError ''LeaseRangeStart is not a valid IPv4 address'')
         | Some start \<Rightarrow>
             (case To4 (bcf_leaseRangeEnd cfg) of
                None \<Rightarrow> Inl (PlainError ''LeaseRangeEnd is not a valid IPv4 address'')
              | Some stop \<Rightarrow> Inr (start, stop)))
      else if NOT m - 1 < 1 then Inl (PlainError ''ProvisioningNet has no usable host addresses for an auto-derived lease range'')
      else Inr (network + 1, (network OR NOT m) - 1))"

text \<open>
  \<open>int64(d.Seconds())\<close> truncates. (It goes through a float64, which holds every lease time below 2^22
  seconds to the nanosecond.)
\<close>

definition trunc_div :: "int \<Rightarrow> int \<Rightarrow> int" where
  "trunc_div a b = (if a < 0 then - ((- a) div b) else a div b)"

definition formatDNSMasqDuration :: "duration \<Rightarrow> string" where
  "formatDNSMasqDuration d =
     (if d mod (3600 * second) = 0 then show_int (d div (3600 * second)) @ ''h''
      else if d mod (60 * second) = 0 then show_int (d div (60 * second)) @ ''m''
      else show_int (trunc_div d second))"

definition range_line :: "BootdConfig \<Rightarrow> (ip4 \<times> ip4) option \<Rightarrow> ip4 \<Rightarrow> ip4 \<Rightarrow> string" where
  "range_line cfg rng network m =
     (case rng of
        Some (start, stop) \<Rightarrow> ''dhcp-range='' @ ip_string start @ '','' @ ip_string stop @ '','' @ formatDNSMasqDuration (bcf_leaseTime cfg)
      | None \<Rightarrow> ''dhcp-range='' @ ip_string network @ '',proxy,'' @ ip_string m)"

definition gateway_lines :: "net_lib \<Rightarrow> BootdConfig \<Rightarrow> kerr + string list" where
  "gateway_lines L cfg =
     (case (bcf_leaseMode cfg, bcf_gateway cfg) of
        (True, Some g) \<Rightarrow>
          if g = '''' then Inr [''dhcp-option=3'']
          else (case parseIPv4 L g of
              None \<Rightarrow> Inl (PlainError ''Config.Gateway is not a valid IPv4 address'')
            | Some ip \<Rightarrow> Inr [''dhcp-option=3,'' @ ip_string ip])
      | _ \<Rightarrow> Inr [])"

definition arch_match :: string where
  "arch_match = ''dhcp-match=set:'' @ httpClientTag @ '',option:client-arch,'' @ show_int archX64UEFIHTTP"

definition boot_lines :: "BootdConfig \<Rightarrow> ip4 \<Rightarrow> string list" where
  "boot_lines cfg nextServer =
     (let file = bcf_bootFilename cfg; srv_ip = ip_string nextServer; url = bcf_httpBootURL cfg;
          label = '',x86-64_EFI,'' @ quot @ ''kezio network boot'' @ quot @ '','' @ file @ '','' @ srv_ip
      in if bcf_leaseMode cfg then
           [''dhcp-boot='' @ file @ '',,'' @ srv_ip, ''dhcp-match=set:efi-x86_64,option:client-arch,7'',
            ''dhcp-boot=tag:efi-x86_64,'' @ file @ '',,'' @ srv_ip] @
           (if url \<noteq> '''' then [arch_match, ''dhcp-option-force=tag:'' @ httpClientTag @ '',60,'' @ httpBootVendorClass,
              ''dhcp-boot=tag:'' @ httpClientTag @ '','' @ url] else [])
         else
           [if bcf_answerAll cfg then ''pxe-service='' @ tl label else ''pxe-service=tag:'' @ kezioTag @ label] @
           (if url \<noteq> '''' then [''dhcp-pxe-vendor='' @ pxeVendorClass @ '','' @ httpBootVendorClass, arch_match,
              ''dhcp-boot=tag:'' @ httpClientTag @ '','' @ url] else []))"

definition gate_line :: string where
  "gate_line = ''dhcp-ignore=tag:!'' @ kezioTag"

definition conf_lines :: "BootdConfig \<Rightarrow> string \<Rightarrow> (ip4 \<times> ip4) option \<Rightarrow> ip4 \<Rightarrow> ip4 \<Rightarrow> ip4 \<Rightarrow> string list \<Rightarrow> string list" where
  "conf_lines cfg runDir rng network m nextServer gateway =
     [''# Generated by kezio-bootd - do not edit.'',
      ''# dnsmasq re-reads only dhcp-hostsfile on SIGHUP; any change here'',
      ''# requires a dnsmasq restart (bootd restarts it on crash only).'',
      ''port=0'', ''log-dhcp''] @
     (if bcf_interface cfg \<noteq> '''' then [''bind-interfaces'', ''interface='' @ bcf_interface cfg] else []) @
     [''dhcp-leasefile='' @ (if bcf_leaseFilePath cfg = '''' then path_join runDir leasefileName else bcf_leaseFilePath cfg),
      range_line cfg rng network m, ''dhcp-hostsfile='' @ HostsfilePath runDir] @
     gateway @ boot_lines cfg nextServer @
     (if bcf_answerAll cfg then [] else [gate_line]) @
     [''dhcp-no-override'', ''dhcp-ignore-clid'']"

definition unlines :: "string list \<Rightarrow> string" where
  "unlines ls = concat (map (\<lambda>l. l @ newl) ls)"

definition RenderDnsmasqConf :: "net_lib \<Rightarrow> BootdConfig \<Rightarrow> string \<Rightarrow> kerr + string" where
  "RenderDnsmasqConf L cfg0 runDir =
     (let cfg = bootd_withDefaults cfg0 in
      case (if bcf_httpBootURL cfg \<noteq> '''' then validateHTTPBootURL (bcf_httpBootURL cfg) else None) of
        Some e \<Rightarrow> Inl e
      | None \<Rightarrow>
      (case To4 (bcf_serverIP cfg) of
        None \<Rightarrow> Inl (PlainError ''ServerIP is not a valid IPv4 address'')
      | Some serverIP \<Rightarrow>
      (case bcf_provisioningNet cfg of
        None \<Rightarrow> Inl (PlainError ''ProvisioningNet is required'')
      | Some None \<Rightarrow> Inl (PlainError ''ProvisioningNet is not an IPv4 network'')
      | Some (Some (network, m)) \<Rightarrow>
          (let nextServer = (case To4 (bcf_nextServerIP cfg) of None \<Rightarrow> serverIP | Some ip \<Rightarrow> ip) in
           case (if bcf_leaseMode cfg then map_sum id Some (leaseRange cfg network m) else Inr None) of
             Inl e \<Rightarrow> Inl e
           | Inr rng \<Rightarrow>
               (case gateway_lines L cfg of
                  Inl e \<Rightarrow> Inl e
                | Inr gateway \<Rightarrow> Inr (unlines (conf_lines cfg runDir rng network m nextServer gateway)))))))"

definition GrubConfigPath :: string where
  "GrubConfigPath = ''grub/grub.cfg''"

definition RenderGrubConfig :: "string \<Rightarrow> kerr + string" where
  "RenderGrubConfig bootConfigURL =
     (case GrubNetPath bootConfigURL ''/boot/grub.cfg-${net_default_mac}'' of
        Inl e \<Rightarrow> Inl (Wrapped ''rendering grub/grub.cfg'' e)
      | Inr configPath \<Rightarrow> Inr (''# Generated by kezio-bootd - do not edit.'' @ newl @ ''configfile '' @ configPath @ newl))"

text \<open>\<^verbatim>\<open>slices.Sort\<close> and \<^verbatim>\<open>slices.Compact\<close>; the map of reservations is a lookup.\<close>

definition host_line :: "(string \<rightharpoonup> string) \<Rightarrow> string \<Rightarrow> string" where
  "host_line pins mac =
     (case pins mac of
        Some addr \<Rightarrow> if addr \<noteq> '''' then mac @ '',set:'' @ kezioTag @ '','' @ addr else mac @ '',set:'' @ kezioTag
      | None \<Rightarrow> mac @ '',set:'' @ kezioTag)"

definition RenderHostsfile :: "string list \<Rightarrow> (string \<rightharpoonup> string) \<Rightarrow> string" where
  "RenderHostsfile macs pins = (if macs = [] then '''' else unlines (map (host_line pins) (remdups_adj (sort macs))))"

section \<open>proxy.go\<close>

record ProxyConfig =
  px_addr :: string
  px_agentUpstreamURL :: string
  px_bootUpstreamURL :: string

definition proxy_enabled :: "ProxyConfig \<Rightarrow> bool" where
  "proxy_enabled c \<longleftrightarrow> px_agentUpstreamURL c \<noteq> '''' \<or> px_bootUpstreamURL c \<noteq> ''''"

definition DefaultProxyAddr :: string where
  "DefaultProxyAddr = '':'' @ show_int DefaultProxyPort"

definition proxy_addr :: "ProxyConfig \<Rightarrow> string" where
  "proxy_addr c = (if px_addr c \<noteq> '''' then px_addr c else DefaultProxyAddr)"

definition bootRoutePrefix :: string where "bootRoutePrefix = ''/boot/''"
definition agentRoutePrefix :: string where "agentRoutePrefix = ''/agent/''"
definition grubNetSearchRoutePrefix :: string where "grubNetSearchRoutePrefix = ''/grub/''"
definition httpBootRoutePrefix :: string where "httpBootRoutePrefix = bootRoutePrefix @ ''http/''"

definition HTTPBootURL :: "string \<Rightarrow> string \<Rightarrow> string \<Rightarrow> kerr + string" where
  "HTTPBootURL proxyAddr fallbackHost bootFilename =
     (case SplitHostPort proxyAddr of
        Inl e \<Rightarrow> Inl (Wrapped ''proxy address'' e)
      | Inr (h, port) \<Rightarrow>
          (let host = (if h = '''' \<or> h = ''0.0.0.0'' \<or> h = ''::'' then fallbackHost else h);
               authority = (if port \<noteq> '''' \<and> port \<noteq> show_int DefaultProxyPort then JoinHostPort host port else host)
           in Inr (''http://'' @ authority @ httpBootRoutePrefix @ bootFilename)))"

definition newReverseProxy :: "string \<Rightarrow> kerr + url" where
  "newReverseProxy rawURL =
     (case url_Parse rawURL of
        Inl e \<Rightarrow> Inl (Wrapped ''parsing URL'' e)
      | Inr target \<Rightarrow>
          if u_scheme target \<noteq> ''http'' \<and> u_scheme target \<noteq> ''https'' then Inl (PlainError ''scheme is not http or https'')
          else if u_host target = '''' then Inl (PlainError ''missing host'')
          else Inr target)"

text \<open>The routes of the mux: a prefix and the upstream it forwards to.\<close>

definition NewProxyServer :: "ProxyConfig \<Rightarrow> kerr + ((string \<times> url) list \<times> string)" where
  "NewProxyServer cfg =
     (if \<not> proxy_enabled cfg then Inl (PlainError ''bootd: NewProxyServer requires at least one of AgentUpstreamURL or BootUpstreamURL'')
      else case (if px_agentUpstreamURL cfg = '''' then Inr [] else map_sum (Wrapped ''agent upstream URL'') (\<lambda>u. [(agentRoutePrefix, u)]) (newReverseProxy (px_agentUpstreamURL cfg))) of
        Inl e \<Rightarrow> Inl e
      | Inr agent \<Rightarrow>
          (case (if px_bootUpstreamURL cfg = '''' then Inr []
                 else map_sum (Wrapped ''boot upstream URL'') (\<lambda>u. [(bootRoutePrefix, u), (grubNetSearchRoutePrefix, u)]) (newReverseProxy (px_bootUpstreamURL cfg))) of
             Inl e \<Rightarrow> Inl e
           | Inr boot \<Rightarrow> Inr (agent @ boot, proxy_addr cfg)))"


section \<open>cmd/bootd: the environment\<close>

text \<open>\<open>ev_parseDuration\<close> is \<^verbatim>\<open>time.ParseDuration\<close>.\<close>

record bootd_env =
  ev_lookup :: "string \<Rightarrow> string option"
  ev_parseDuration :: "string \<Rightarrow> kerr + duration"

definition getenv :: "bootd_env \<Rightarrow> string \<Rightarrow> string" where
  "getenv E name = (case ev_lookup E name of None \<Rightarrow> '''' | Some v \<Rightarrow> v)"

record bootdConfig =
  bcd_server :: BootdConfig
  bcd_tftpDir :: string
  bcd_tftpAddr :: string
  bcd_runDir :: string
  bcd_leaseDir :: string
  bcd_dnsmasqPath :: string
  bcd_grubConfig :: string
  bcd_proxy :: ProxyConfig
  bcd_subnetName :: string
  bcd_subnetNamespace :: string

definition gatewayFromEnv :: "net_lib \<Rightarrow> bootd_env \<Rightarrow> bool \<Rightarrow> kerr + string option" where
  "gatewayFromEnv L E leaseMode =
     (case ev_lookup E ''BOOTD_GATEWAY'' of
        None \<Rightarrow> if leaseMode then Inl (PlainError ''BOOTD_GATEWAY is required when BOOTD_LEASE_MODE is true'') else Inr None
      | Some s \<Rightarrow> if s \<noteq> '''' \<and> parseIPv4 L s = None then Inl (PlainError ''BOOTD_GATEWAY is not a valid IPv4 address'') else Inr (Some s))"

definition leaseRangeFromEnv :: "net_lib \<Rightarrow> bootd_env \<Rightarrow> kerr + (net_ip \<times> net_ip)" where
  "leaseRangeFromEnv L E =
     (let startStr = getenv E ''BOOTD_LEASE_RANGE_START''; endStr = getenv E ''BOOTD_LEASE_RANGE_END'' in
      if (startStr = '''') \<noteq> (endStr = '''') then Inl (PlainError ''BOOTD_LEASE_RANGE_START and BOOTD_LEASE_RANGE_END must both be set, or both left unset'')
      else if startStr = '''' then Inr (None, None)
      else if parseIPv4 L startStr = None then Inl (PlainError ''BOOTD_LEASE_RANGE_START is not a valid IPv4 address'')
      else if parseIPv4 L endStr = None then Inl (PlainError ''BOOTD_LEASE_RANGE_END is not a valid IPv4 address'')
      else Inr (go_ParseIP L startStr, go_ParseIP L endStr))"

definition leaseTimeFromEnv :: "bootd_env \<Rightarrow> kerr + duration" where
  "leaseTimeFromEnv E =
     (let s = getenv E ''BOOTD_LEASE_TIME'' in
      if s = '''' then Inr 0
      else case ev_parseDuration E s of
          Inl e \<Rightarrow> Inl (Wrapped ''BOOTD_LEASE_TIME is not a valid duration'' e)
        | Inr leaseTime \<Rightarrow> if leaseTime < 2 * (60 * second) then Inl (PlainError ''BOOTD_LEASE_TIME must be at least 2m'') else Inr leaseTime)"

text \<open>The early returns of the function: \<open>require\<close> fails with the error, \<open>let_ok\<close> goes on with a value.\<close>

definition let_ok :: "kerr + 'a \<Rightarrow> ('a \<Rightarrow> kerr + 'b) \<Rightarrow> kerr + 'b" where
  "let_ok m f = (case m of Inl e \<Rightarrow> Inl e | Inr x \<Rightarrow> f x)"

definition require_that :: "bool \<Rightarrow> kerr \<Rightarrow> kerr + 'b \<Rightarrow> kerr + 'b" where
  "require_that b e m = (if b then m else Inl e)"

definition removed_variables :: "string list" where
  "removed_variables = [''BOOTD_DHCP_ADDR'', ''BOOTD_PXE_ADDR'', ''BOOTD_DHCP_RELAY_SERVER'']"

definition grub_from_env :: "bootd_env \<Rightarrow> kerr + string" where
  "grub_from_env E =
     (let s = getenv E ''BOOTD_BOOT_CONFIG_URL'' in
      if s = '''' then Inr '''' else map_sum (Wrapped ''BOOTD_BOOT_CONFIG_URL'') id (RenderGrubConfig s))"

definition proxy_from_env :: "bootd_env \<Rightarrow> ip4 \<Rightarrow> ProxyConfig" where
  "proxy_from_env E serverIP =
     (let c = \<lparr>px_addr = getenv E ''BOOTD_PROXY_ADDR'', px_agentUpstreamURL = getenv E ''BOOTD_AGENT_UPSTREAM_URL'',
               px_bootUpstreamURL = getenv E ''BOOTD_BOOT_UPSTREAM_URL''\<rparr>
      in if proxy_enabled c \<and> px_addr c = '''' then c\<lparr>px_addr := ip_string serverIP @ '':80''\<rparr> else c)"

definition http_boot_from_env :: "bootd_env \<Rightarrow> ip4 \<Rightarrow> ProxyConfig \<Rightarrow> string \<Rightarrow> kerr + string" where
  "http_boot_from_env E serverIP proxyCfg bootFilename =
     (let url = getenv E ''BOOTD_HTTP_BOOT_URL'' in
      if url = '''' \<and> px_bootUpstreamURL proxyCfg \<noteq> ''''
      then map_sum (Wrapped ''deriving the UEFI HTTP Boot URL'') id (HTTPBootURL (px_addr proxyCfg) (ip_string serverIP) bootFilename)
      else Inr url)"

definition bootdConfigFromEnv :: "net_lib \<Rightarrow> bootd_env \<Rightarrow> kerr + bootdConfig" where
  "bootdConfigFromEnv L E =
     require_that (\<not> list_ex (\<lambda>n. getenv E n \<noteq> '''') removed_variables) (PlainError ''is no longer supported; unset it'') (
     let serverIPStr = getenv E ''BOOTD_SERVER_IP'' in
     require_that (serverIPStr \<noteq> '''') (PlainError ''BOOTD_SERVER_IP is required'') (
     case parseIPv4 L serverIPStr of None \<Rightarrow> Inl (PlainError ''BOOTD_SERVER_IP is not a valid IPv4 address'') | Some serverIP \<Rightarrow>
     let cidrStr = getenv E ''BOOTD_PROVISIONING_CIDR'' in
     require_that (cidrStr \<noteq> '''') (PlainError ''BOOTD_PROVISIONING_CIDR is required'') (
     case go_ParseNet L cidrStr of None \<Rightarrow> Inl (PlainError ''BOOTD_PROVISIONING_CIDR is not a valid CIDR'') | Some provisioningNet \<Rightarrow>
     let tftpDir = getenv E ''BOOTD_TFTP_DIR''; nextStr = getenv E ''BOOTD_NEXT_SERVER_IP'' in
     require_that (tftpDir \<noteq> '''') (PlainError ''BOOTD_TFTP_DIR is required'') (
     require_that (nextStr = '''' \<or> parseIPv4 L nextStr \<noteq> None) (PlainError ''BOOTD_NEXT_SERVER_IP is not a valid IPv4 address'') (
     let_ok (grub_from_env E) (\<lambda>grubConfig.
     let leaseMode = (getenv E ''BOOTD_LEASE_MODE'' = ''true'') in
     let_ok (leaseRangeFromEnv L E) (\<lambda>(start, stop).
     let_ok (gatewayFromEnv L E leaseMode) (\<lambda>gateway.
     let_ok (leaseTimeFromEnv E) (\<lambda>leaseTime.
     let proxyCfg = proxy_from_env E serverIP;
         bootFilename = (if getenv E ''BOOTD_BOOT_FILENAME'' = '''' then DefaultBootFilename else getenv E ''BOOTD_BOOT_FILENAME'') in
     let_ok (http_boot_from_env E serverIP proxyCfg bootFilename) (\<lambda>httpBootURL.
     let subnetName = getenv E ''BOOTD_SUBNET_NAME'';
         subnetNamespace = (if subnetName \<noteq> '''' \<and> getenv E ''BOOTD_SUBNET_NAMESPACE'' = '''' then getenv E ''POD_NAMESPACE''
                            else getenv E ''BOOTD_SUBNET_NAMESPACE'') in
     Inr \<lparr>bcd_server = \<lparr>bcf_interface = getenv E ''BOOTD_DHCP_INTERFACE'', bcf_serverIP = Some (Some serverIP),
            bcf_nextServerIP = (if nextStr = '''' then None else go_ParseIP L nextStr), bcf_provisioningNet = Some provisioningNet,
            bcf_bootFilename = bootFilename, bcf_tftpDir = tftpDir, bcf_httpBootURL = httpBootURL,
            bcf_answerAll = (getenv E ''BOOTD_ANSWER_ALL'' = ''true''), bcf_leaseMode = leaseMode, bcf_gateway = gateway,
            bcf_leaseRangeStart = start, bcf_leaseRangeEnd = stop, bcf_leaseTime = leaseTime, bcf_leaseFilePath = ''''\<rparr>,
          bcd_tftpDir = tftpDir, bcd_tftpAddr = getenv E ''BOOTD_TFTP_ADDR'', bcd_runDir = getenv E ''BOOTD_RUN_DIR'',
          bcd_leaseDir = getenv E ''BOOTD_LEASE_DIR'', bcd_dnsmasqPath = getenv E ''BOOTD_DNSMASQ_PATH'', bcd_grubConfig = grubConfig,
          bcd_proxy = proxyCfg, bcd_subnetName = subnetName, bcd_subnetNamespace = subnetNamespace\<rparr>))))))))))"

section \<open>tftp.go\<close>

text \<open>What a read request is answered with: text from memory, a file of the directory, or nothing.\<close>

datatype tftp_answer = TftpText string | TftpFile string | TftpRejected

definition path_base :: "string \<Rightarrow> string" where
  "path_base s =
     (if s = '''' then ''.''
      else let t = trim_right (CHR ''/'') s in
        if t = '''' then ''/'' else rev (takeWhile (\<lambda>c. c \<noteq> CHR ''/'') (rev t)))"

definition tftp_read :: "string \<Rightarrow> string \<Rightarrow> string \<Rightarrow> tftp_answer" where
  "tftp_read dir grubConfig filename =
     (let name = (if hasPrefix filename ''/'' then tl filename else filename); base = path_base name in
      if name = GrubConfigPath \<and> grubConfig \<noteq> '''' then TftpText grubConfig
      else if base \<notin> {ShimFilename, GrubFilename} \<or> base \<noteq> name then TftpRejected
      else TftpFile (path_join dir base))"

section \<open>readyz.go\<close>

text \<open>\<open>addrs\<close> is what the interface lookup returns: the IPv4 form of each address, where it has one.\<close>

definition ProvisioningInterfaceReady :: "(ip4 \<times> ip4) option \<Rightarrow> kerr + ip4 option list \<Rightarrow> kerr option" where
  "ProvisioningInterfaceReady provisioningNet addrs =
     (case provisioningNet of
        None \<Rightarrow> Some (PlainError ''no provisioning CIDR configured'')
      | Some (n, m) \<Rightarrow>
          (case addrs of
             Inl e \<Rightarrow> Some (Wrapped ''looking up interface'' e)
           | Inr as \<Rightarrow> if list_ex (\<lambda>a. case a of None \<Rightarrow> False | Some ip \<Rightarrow> ip AND m = n) as then None
               else Some (PlainError ''interface has no IPv4 address inside provisioning CIDR'')))"

end
