(* ===== verification/Bootd_Process.thy ===== *)
theory Bootd_Process
  imports Bootd_Config Live_Agent
begin

text \<open>
  bootd as a running process: the cache of enrolled boot MAC addresses (maccache.go), the cache of the
  Subnet's reservations (subnetdhcp.go), the lease file (leaserelease.go) and the supervisor of dnsmasq
  (dnsmasq.go). The supervisor's goroutines, the child process and the pipe its log comes through
  interleave: \<open>bootd_step\<close> is their step relation, one rule per section of code between two points where
  another goroutine can run.
\<close>

section \<open>maccache.go\<close>

record machineRecord =
  mr_mac :: string
  mr_local :: bool

record MACCache =
  mc_counts :: "(string \<times> int) list"
  mc_localCounts :: "(string \<times> int) list"
  mc_records :: "(string \<times> machineRecord) list"
  mc_localNamespace :: string
  mc_localName :: string
  mc_synced :: bool

definition NewMACCache :: "string \<Rightarrow> string \<Rightarrow> MACCache" where
  "NewMACCache ns name = \<lparr>mc_counts = [], mc_localCounts = [], mc_records = [], mc_localNamespace = ns, mc_localName = name, mc_synced = False\<rparr>"

text \<open>\<open>counts[mac]++\<close>, and the removal of one count.\<close>

definition count_of :: "(string \<times> int) list \<Rightarrow> string \<Rightarrow> int" where
  "count_of cs mac = (case map_of cs mac of None \<Rightarrow> 0 | Some n \<Rightarrow> n)"

definition bump :: "string \<Rightarrow> (string \<times> int) list \<Rightarrow> (string \<times> int) list" where
  "bump mac cs = alist_put mac (count_of cs mac + 1) cs"

definition unbump :: "string \<Rightarrow> (string \<times> int) list \<Rightarrow> (string \<times> int) list" where
  "unbump mac cs = (if count_of cs mac \<le> 1 then alist_delete mac cs else alist_put mac (count_of cs mac - 1) cs)"

definition addRecordLocked :: "machineRecord \<Rightarrow> MACCache \<Rightarrow> MACCache" where
  "addRecordLocked rec c =
     c\<lparr>mc_counts := bump (mr_mac rec) (mc_counts c),
       mc_localCounts := (if mr_local rec then bump (mr_mac rec) (mc_localCounts c) else mc_localCounts c)\<rparr>"

definition removeRecordLocked :: "machineRecord \<Rightarrow> MACCache \<Rightarrow> MACCache" where
  "removeRecordLocked rec c =
     c\<lparr>mc_counts := unbump (mr_mac rec) (mc_counts c),
       mc_localCounts := (if mr_local rec then unbump (mr_mac rec) (mc_localCounts c) else mc_localCounts c)\<rparr>"

definition isLocalLocked :: "MACCache \<Rightarrow> Machine \<Rightarrow> bool" where
  "isLocalLocked c machine \<longleftrightarrow> mc_localName c \<noteq> '''' \<and>
     ResolveNamespace (ms_subnetRef (m_spec machine)) (m_namespace machine) = mc_localNamespace c \<and>
     nr_name (ms_subnetRef (m_spec machine)) = mc_localName c"

definition cache_key :: "Machine \<Rightarrow> string" where
  "cache_key m = m_namespace m @ ''/'' @ m_name m"

definition applyLocked :: "Machine \<Rightarrow> Machine option \<Rightarrow> MACCache \<Rightarrow> MACCache" where
  "applyLocked identity newMachine c =
     (let key = cache_key identity;
          c1 = (case map_of (mc_records c) key of
                  None \<Rightarrow> c
                | Some prev \<Rightarrow> (removeRecordLocked prev c)\<lparr>mc_records := alist_delete key (mc_records c)\<rparr>)
      in case newMachine of
           None \<Rightarrow> c1
         | Some m \<Rightarrow>
             (case NormalizeMAC (ms_bootMACAddress (m_spec m)) of
                None \<Rightarrow> c1
              | Some mac \<Rightarrow>
                  let rec = \<lparr>mr_mac = mac, mr_local = isLocalLocked c1 m\<rparr>
                  in addRecordLocked rec (c1\<lparr>mc_records := alist_put key rec (mc_records c1)\<rparr>)))"

text \<open>Informer events; a tombstone carries the last known object.\<close>

datatype machine_event = MachineAdded Machine | MachineUpdated Machine Machine | MachineDeleted Machine

fun onMachineEvent :: "machine_event \<Rightarrow> MACCache \<Rightarrow> MACCache" where
  "onMachineEvent (MachineAdded m) c = applyLocked m (Some m) c"
| "onMachineEvent (MachineUpdated old m) c = applyLocked old (Some m) c"
| "onMachineEvent (MachineDeleted m) c = applyLocked m None c"

definition snapshotLocked :: "MACCache \<Rightarrow> string list" where
  "snapshotLocked c = sort (map fst (mc_counts c))"

definition Snapshot :: "MACCache \<Rightarrow> string list" where
  "Snapshot c = (if mc_synced c then snapshotLocked c else [])"

text \<open>What an event, or the first sync, pushes to the sink.\<close>

definition pushLocked :: "MACCache \<Rightarrow> string list option" where
  "pushLocked c = (if mc_synced c then Some (snapshotLocked c) else None)"

text \<open>\<^verbatim>\<open>Start\<close>: a cache that never syncs pushes nothing.\<close>

definition maccache_start :: "bool \<Rightarrow> MACCache \<Rightarrow> MACCache \<times> string list option" where
  "maccache_start cacheSynced c = (if cacheSynced then (let c' = c\<lparr>mc_synced := True\<rparr> in (c', pushLocked c')) else (c, None))"

definition HasLocalMember :: "MACCache \<Rightarrow> string \<Rightarrow> bool" where
  "HasLocalMember c mac \<longleftrightarrow> mc_synced c \<and> count_of (mc_localCounts c) mac > 0"

section \<open>subnetdhcp.go\<close>

record SubnetDHCPCache =
  sdc_namespace :: string
  sdc_name :: string
  sdc_synced :: bool
  sdc_revision :: string

definition pushed_addresses :: "Subnet \<Rightarrow> string \<times> (string \<times> string) list" where
  "pushed_addresses subnet =
     (case (sn_dhcp subnet, sn_dhcpStatus subnet) of
        (Some d, Some st) \<Rightarrow>
          if sd_mode d = ModeLease
          then (revision st, foldl (\<lambda>acc r. case NormalizeMAC (res_mac r) of None \<Rightarrow> acc | Some mac \<Rightarrow> alist_put mac (res_address r) acc) [] (reservations st))
          else ('''', [])
      | _ \<Rightarrow> ('''', []))"

definition push :: "Subnet \<Rightarrow> SubnetDHCPCache \<Rightarrow> SubnetDHCPCache \<times> (string \<times> (string \<times> string) list)" where
  "push subnet c = (c\<lparr>sdc_revision := fst (pushed_addresses subnet)\<rparr>, pushed_addresses subnet)"

text \<open>An event of another Subnet, or before the first snapshot, pushes nothing.\<close>

definition onSubnetEvent :: "Subnet \<Rightarrow> SubnetDHCPCache \<Rightarrow> SubnetDHCPCache \<times> (string \<times> (string \<times> string) list) option" where
  "onSubnetEvent subnet c =
     (if sn_namespace subnet \<noteq> sdc_namespace c \<or> sn_name subnet \<noteq> sdc_name c \<or> \<not> sdc_synced c then (c, None)
      else map_prod id Some (push subnet c))"

text \<open>The snapshot at the start and at every resync; an error pushes nothing.\<close>

definition getAndPush :: "kerr + Subnet \<Rightarrow> SubnetDHCPCache \<Rightarrow> SubnetDHCPCache \<times> (string \<times> (string \<times> string) list) option" where
  "getAndPush read c = (case read of Inl e \<Rightarrow> (c, None) | Inr subnet \<Rightarrow> map_prod id Some (push subnet c))"

definition subnet_cache_start :: "bool \<Rightarrow> kerr + Subnet \<Rightarrow> SubnetDHCPCache \<Rightarrow> SubnetDHCPCache \<times> (string \<times> (string \<times> string) list) option" where
  "subnet_cache_start cacheSynced read c =
     (if cacheSynced then (case getAndPush read c of (c', pushed) \<Rightarrow> (c'\<lparr>sdc_synced := True\<rparr>, pushed)) else (c, None))"

text \<open>The status patch that acknowledges a revision, given the Subnet that was read.\<close>

definition MarkApplied :: "SubnetDHCPCache \<Rightarrow> string \<Rightarrow> kerr + Subnet \<Rightarrow> Subnet option" where
  "MarkApplied c rv read =
     (if rv \<noteq> sdc_revision c then None
      else case read of
        Inl e \<Rightarrow> None
      | Inr subnet \<Rightarrow>
          (let st = (case sn_dhcpStatus subnet of None \<Rightarrow> \<lparr>reservations = [], revision = '''', appliedRevision = ''''\<rparr> | Some st \<Rightarrow> st)
           in if appliedRevision st = rv then None
              else Some (subnet\<lparr>sn_dhcpStatus := Some (st\<lparr>appliedRevision := rv\<rparr>)\<rparr>)))"

section \<open>leaserelease.go\<close>

definition macDiff :: "string list \<Rightarrow> string list \<Rightarrow> string list" where
  "macDiff old current = filter (\<lambda>mac. mac \<notin> set current) old"

definition parseLeaseLine :: "string \<Rightarrow> (string \<times> string) option" where
  "parseLeaseLine line =
     (let fields = go_fields line in
      if length fields < 3 then None
      else case NormalizeMAC (fields ! 1) of None \<Rightarrow> None | Some mac \<Rightarrow> Some (mac, fields ! 2))"

text \<open>A file that does not exist is \<open>None\<close>, and so is the map read from it.\<close>

definition readLeaseFileByMAC :: "string option \<Rightarrow> (string \<times> string) list" where
  "readLeaseFileByMAC file =
     (case file of
        None \<Rightarrow> []
      | Some content \<Rightarrow> foldl (\<lambda>acc line. if line = '''' then acc else case parseLeaseLine line of None \<Rightarrow> acc | Some (mac, ip) \<Rightarrow> alist_put mac ip acc)
          [] (split_on (CHR 0x0A) content))"

definition kept_line :: "string list \<Rightarrow> string \<Rightarrow> bool" where
  "kept_line allowed line \<longleftrightarrow> (case parseLeaseLine line of None \<Rightarrow> True | Some (mac, _) \<Rightarrow> mac \<in> set allowed)"

definition lease_lines :: "string \<Rightarrow> string list" where
  "lease_lines content = filter (\<lambda>l. l \<noteq> '''') (split_on (CHR 0x0A) (trim_right (CHR 0x0A) content))"

text \<open>The number of dropped leases and the new file, when the rewrite succeeds.\<close>

definition filterLeaseFile :: "string option \<Rightarrow> string list \<Rightarrow> nat \<times> string option" where
  "filterLeaseFile file allowed =
     (case file of
        None \<Rightarrow> (0, None)
      | Some content \<Rightarrow>
          (let kept = filter (kept_line allowed) (lease_lines content)
           in (length (lease_lines content) - length kept, Some (unlines kept))))"

definition releaseLeases :: "string \<Rightarrow> string option \<Rightarrow> string list \<Rightarrow> (string \<times> string) list" where
  "releaseLeases iface file macs =
     (if iface = '''' then []
      else List.map_filter (\<lambda>mac. map_option (\<lambda>ip. (mac, ip)) (map_of (readLeaseFileByMAC file) mac)) macs)"

section \<open>dnsmasq.go: the shared fields\<close>

record Dnsmasq =
  dq_leaseMode :: bool
  dq_interface :: string
  dq_macs :: "string list"
  dq_reservations :: "(string \<times> string) list"
  dq_revision :: string
  dq_revSet :: bool
  dq_pendingReleases :: "string list"
  dq_firstMACs :: bool
  dq_dirty :: bool

definition requeueDirty :: "Dnsmasq \<Rightarrow> Dnsmasq" where
  "requeueDirty d = d\<lparr>dq_dirty := True\<rparr>"

definition SetAllowedMACs :: "string list \<Rightarrow> Dnsmasq \<Rightarrow> Dnsmasq" where
  "SetAllowedMACs macs d =
     requeueDirty (d\<lparr>dq_macs := macs,
       dq_pendingReleases := dq_pendingReleases d @ (if dq_leaseMode d then macDiff (dq_macs d) macs else []),
       dq_firstMACs := True\<rparr>)"

text \<open>\<open>member\<close> is the optional \<^verbatim>\<open>SubnetMember\<close>, asked outside the lock.\<close>

definition SetReservations :: "(string \<Rightarrow> bool) option \<Rightarrow> string \<Rightarrow> (string \<times> string) list \<Rightarrow> Dnsmasq \<Rightarrow> Dnsmasq" where
  "SetReservations member rv pins d =
     (let toRelease = (case member of
            None \<Rightarrow> []
          | Some local \<Rightarrow> if dq_leaseMode d
              then filter (\<lambda>mac. map_of pins mac = None \<and> mac \<in> set (dq_macs d) \<and> \<not> local mac) (map fst (dq_reservations d)) else [])
      in requeueDirty (d\<lparr>dq_reservations := pins, dq_revision := rv, dq_revSet := True,
           dq_pendingReleases := dq_pendingReleases d @ toRelease\<rparr>))"


section \<open>dnsmasq.go: the hostsfile loop, the child and its log\<close>

text \<open>
  Where \<^verbatim>\<open>hostsfileLoop\<close> is: waiting for the dirty signal, in the debounce window, and then through one turn
  with what it rendered, the child and the revision it saw under the lock, and the baseline of reads.
\<close>

datatype loop_pc =
    LoopIdle
  | LoopDebounce
  | LoopRendered string "nat option" string bool
  | LoopCheck "nat option" string bool
  | LoopSignal nat nat string bool
  | LoopWaiting nat string bool
  | LoopApply string bool

text \<open>
  \<open>bp_file\<close> is the hostsfile on disk. A child that has to read it (at its start, or after a SIGHUP) is marked by
  \<open>bp_mustRead\<close>; \<open>bp_loaded\<close> is what the last read saw, and \<open>bp_pipe\<close> the reads whose log line has not been
  forwarded. \<open>bp_acks\<close> lists the calls of \<^verbatim>\<open>OnApplied\<close>, \<open>bp_released\<close> the leases released, \<open>bp_pushed\<close> the
  allowlists and \<open>bp_revisions\<close> the reservations pushed so far.
\<close>

record bootd_proc =
  bp_dq :: Dnsmasq
  bp_file :: string
  bp_leases :: "string option"
  bp_filtered :: bool
  bp_child :: "nat option"
  bp_nextChild :: nat
  bp_mustRead :: bool
  bp_loaded :: "string option"
  bp_pipe :: "string list"
  bp_readSeq :: nat
  bp_pc :: loop_pc
  bp_lastWritten :: string
  bp_lastApplied :: "string option"
  bp_confirmed :: bool
  bp_acks :: "string list"
  bp_released :: "(string \<times> string) list"
  bp_pushed :: "string list list"
  bp_revisions :: "(string \<times> (string \<times> string) list) list"

abbreviation upd_dq :: "(Dnsmasq \<Rightarrow> Dnsmasq) \<Rightarrow> bootd_proc \<Rightarrow> bootd_proc" where
  "upd_dq f p \<equiv> p\<lparr>bp_dq := f (bp_dq p)\<rparr>"

definition rendered_now :: "bootd_proc \<Rightarrow> string" where
  "rendered_now p = RenderHostsfile (dq_macs (bp_dq p)) (map_of (dq_reservations (bp_dq p)))"

definition noteHostsfileRead :: "bootd_proc \<Rightarrow> bootd_proc" where
  "noteHostsfileRead p = p\<lparr>bp_readSeq := bp_readSeq p + 1\<rparr>"

definition loop_wake :: "bootd_proc \<Rightarrow> bootd_proc" where
  "loop_wake p = p\<lparr>bp_dq := (bp_dq p)\<lparr>dq_dirty := False\<rparr>, bp_pc := LoopDebounce\<rparr>"

text \<open>The section under the lock, with the drained signal before it and the releases after it.\<close>

definition loop_render :: "bootd_proc \<Rightarrow> bootd_proc" where
  "loop_render p =
     (let d = bp_dq p; toRelease = dq_pendingReleases d in
      p\<lparr>bp_dq := d\<lparr>dq_dirty := False, dq_pendingReleases := []\<rparr>,
        bp_released := bp_released p @ (if toRelease = [] then [] else releaseLeases (dq_interface d) (bp_leases p) toRelease),
        bp_pc := LoopRendered (rendered_now p) (bp_child p) (dq_revision d) (dq_revSet d)\<rparr>)"

definition loop_write :: "bool \<Rightarrow> bootd_proc \<Rightarrow> bootd_proc" where
  "loop_write ok p =
     (case bp_pc p of
        LoopRendered content child rv revSet \<Rightarrow>
          if content = bp_lastWritten p then p\<lparr>bp_pc := LoopCheck child rv revSet\<rparr>
          else if ok then p\<lparr>bp_file := content, bp_lastWritten := content, bp_confirmed := False, bp_pc := LoopCheck child rv revSet\<rparr>
          else p\<lparr>bp_pc := LoopIdle\<rparr>
      | _ \<Rightarrow> p)"

definition loop_check :: "bootd_proc \<Rightarrow> bootd_proc" where
  "loop_check p =
     (case bp_pc p of
        LoopCheck child rv revSet \<Rightarrow>
          if bp_confirmed p then p\<lparr>bp_pc := LoopApply rv revSet\<rparr>
          else (case child of
              None \<Rightarrow> (upd_dq requeueDirty p)\<lparr>bp_pc := LoopIdle\<rparr>
            | Some pid \<Rightarrow> p\<lparr>bp_pc := LoopSignal pid (bp_readSeq p) rv revSet\<rparr>)
      | _ \<Rightarrow> p)"

text \<open>A child that is gone cannot be signalled; another may still fail to be.\<close>

definition loop_signal :: "bool \<Rightarrow> bootd_proc \<Rightarrow> bootd_proc" where
  "loop_signal ok p =
     (case bp_pc p of
        LoopSignal pid base rv revSet \<Rightarrow>
          if ok \<and> bp_child p = Some pid then p\<lparr>bp_mustRead := True, bp_pc := LoopWaiting base rv revSet\<rparr>
          else (upd_dq requeueDirty p)\<lparr>bp_pc := LoopIdle\<rparr>
      | _ \<Rightarrow> p)"

definition loop_wait :: "bool \<Rightarrow> bootd_proc \<Rightarrow> bootd_proc" where
  "loop_wait elapsed p =
     (case bp_pc p of
        LoopWaiting base rv revSet \<Rightarrow>
          if bp_readSeq p > base then p\<lparr>bp_confirmed := True, bp_pc := LoopApply rv revSet\<rparr>
          else if elapsed then (upd_dq requeueDirty p)\<lparr>bp_pc := LoopIdle\<rparr>
          else p
      | _ \<Rightarrow> p)"

definition loop_apply :: "bootd_proc \<Rightarrow> bootd_proc" where
  "loop_apply p =
     (case bp_pc p of
        LoopApply rv revSet \<Rightarrow>
          if revSet \<and> bp_lastApplied p \<noteq> Some rv
          then p\<lparr>bp_lastApplied := Some rv, bp_acks := bp_acks p @ [rv], bp_pc := LoopIdle\<rparr>
          else p\<lparr>bp_pc := LoopIdle\<rparr>
      | _ \<Rightarrow> p)"

text \<open>
  \<^verbatim>\<open>Start\<close> writes the hostsfile of what is known at that time, which is the empty one when nothing has been
  pushed, and starts the loop.
\<close>

definition bootd_start :: "Dnsmasq \<Rightarrow> string option \<Rightarrow> bootd_proc" where
  "bootd_start d leases =
     (let initial = RenderHostsfile (dq_macs d) (map_of (dq_reservations d)) in
      \<lparr>bp_dq = d, bp_file = initial, bp_leases = leases, bp_filtered = False, bp_child = None, bp_nextChild = 0, bp_mustRead = False, bp_loaded = None, bp_pipe = [],
       bp_readSeq = 0, bp_pc = LoopIdle, bp_lastWritten = initial, bp_lastApplied = None, bp_confirmed = False, bp_acks = [], bp_released = [],
       bp_pushed = (if dq_firstMACs d then [dq_macs d] else []), bp_revisions = (if dq_revSet d then [(dq_revision d, dq_reservations d)] else [])\<rparr>)"

text \<open>The startup filter of a lease-mode bootd, once the first allowlist is there; a rewrite that fails is logged only.\<close>

definition filter_leases :: "bool \<Rightarrow> bootd_proc \<Rightarrow> bootd_proc" where
  "filter_leases ok p = p\<lparr>bp_filtered := True, bp_leases := (if ok then snd (filterLeaseFile (bp_leases p) (dq_macs (bp_dq p))) else bp_leases p)\<rparr>"

definition running :: "bootd_proc \<Rightarrow> bool" where
  "running p \<longleftrightarrow> (dq_leaseMode (bp_dq p) \<longrightarrow> bp_filtered p)"

definition fresh_dnsmasq :: "bool \<Rightarrow> string \<Rightarrow> Dnsmasq" where
  "fresh_dnsmasq leaseMode iface = \<lparr>dq_leaseMode = leaseMode, dq_interface = iface, dq_macs = [], dq_reservations = [], dq_revision = '''',
     dq_revSet = False, dq_pendingReleases = [], dq_firstMACs = False, dq_dirty = False\<rparr>"

text \<open>
  The steps. With \<open>prompt\<close> a baseline of reads is taken only when every read has been forwarded. In lease mode
  the loop and the child start after the lease file was filtered; a child ends after its log is
  forwarded.
\<close>

inductive bootd_step :: "bool \<Rightarrow> bootd_proc \<Rightarrow> bootd_proc \<Rightarrow> bool" for prompt where
  push_macs: "bootd_step prompt p (p\<lparr>bp_dq := SetAllowedMACs macs (bp_dq p), bp_pushed := macs # bp_pushed p\<rparr>)"
| push_pins: "bootd_step prompt p (p\<lparr>bp_dq := SetReservations member rv pins (bp_dq p), bp_revisions := (rv, pins) # bp_revisions p\<rparr>)"
| filtering: "dq_leaseMode (bp_dq p) \<Longrightarrow> dq_firstMACs (bp_dq p) \<Longrightarrow> \<not> bp_filtered p \<Longrightarrow> bootd_step prompt p (filter_leases ok p)"
| wake: "running p \<Longrightarrow> bp_pc p = LoopIdle \<Longrightarrow> dq_dirty (bp_dq p) \<Longrightarrow> bootd_step prompt p (loop_wake p)"
| render: "bp_pc p = LoopDebounce \<Longrightarrow> bootd_step prompt p (loop_render p)"
| writing: "bootd_step prompt p (loop_write ok p)"
| check: "prompt \<longrightarrow> bp_pipe p = [] \<Longrightarrow> bootd_step prompt p (loop_check p)"
| signal: "bootd_step prompt p (loop_signal ok p)"
| await: "bootd_step prompt p (loop_wait elapsed p)"
| applied: "bootd_step prompt p (loop_apply p)"
| child_start: "running p \<Longrightarrow> bp_child p = None \<Longrightarrow>
    bootd_step prompt p (p\<lparr>bp_child := Some (bp_nextChild p), bp_nextChild := Suc (bp_nextChild p), bp_mustRead := True\<rparr>)"
| child_read: "bp_child p \<noteq> None \<Longrightarrow> bp_mustRead p \<Longrightarrow>
    bootd_step prompt p (p\<lparr>bp_mustRead := False, bp_loaded := Some (bp_file p), bp_pipe := bp_pipe p @ [bp_file p]\<rparr>)"
| forward: "bp_pipe p = c # rest \<Longrightarrow> bootd_step prompt p (noteHostsfileRead (p\<lparr>bp_pipe := rest\<rparr>))"
| child_exit: "bp_child p \<noteq> None \<Longrightarrow> bp_pipe p = [] \<Longrightarrow> bootd_step prompt p (p\<lparr>bp_child := None, bp_mustRead := False\<rparr>)"
| leases_change: "bp_child p \<noteq> None \<Longrightarrow> bootd_step prompt p (p\<lparr>bp_leases := l\<rparr>)"

inductive bootd_reach :: "bool \<Rightarrow> Dnsmasq \<Rightarrow> bootd_proc \<Rightarrow> bool" for prompt d where
  started: "bootd_reach prompt d (bootd_start d leases)"
| stepped: "bootd_reach prompt d p \<Longrightarrow> bootd_step prompt p p' \<Longrightarrow> bootd_reach prompt d p'"

section \<open>dnsmasq.go: supervision of the child\<close>

definition maxFastExits :: nat where
  "maxFastExits = 3"

definition maxBackoff :: duration where
  "maxBackoff = 30 * second"

text \<open>
  The restart loop over a sequence of uptimes: \<open>Inl\<close> the fatal error and how many children were run, \<open>Inr\<close> the
  delay before the next start, for each.
\<close>

fun supervise :: "duration \<Rightarrow> duration \<Rightarrow> nat \<Rightarrow> duration \<Rightarrow> duration list \<Rightarrow> duration list \<times> bool" where
  "supervise window initial fast backoff [] = ([], False)"
| "supervise window initial fast backoff (uptime # ups) =
     (let fast' = (if uptime < window then fast + 1 else 0); backoff' = (if uptime < window then backoff else initial) in
      if uptime < window \<and> fast' \<ge> maxFastExits then ([], True)
      else case supervise window initial fast' (min (backoff' * 2) maxBackoff) ups of (ds, fatal) \<Rightarrow> (backoff' # ds, fatal))"

end
