(* ===== verification/Bootd_Properties.thy ===== *)
theory Bootd_Properties
  imports Bootd_Process Subnet_Validity
begin

text \<open>
  What bootd guarantees: the allowlist it serves is exactly the set of boot MAC addresses of the Machines
  there are; the hostsfile never admits another MAC, and nothing before the first allowlist; a revision
  it acknowledges is the one in the hostsfile, and dnsmasq has read it, provided the log lines of earlier
  reads have arrived; leases of Machines that are gone do not survive a restart; and the lease range
  dnsmasq is configured with is the one the reservation table uses.
\<close>

section \<open>The cache of boot MAC addresses\<close>

text \<open>The Machines the informer has shown, by key.\<close>

fun known_after :: "machine_event \<Rightarrow> (string \<rightharpoonup> Machine) \<Rightarrow> (string \<rightharpoonup> Machine)" where
  "known_after (MachineAdded m) k = k(cache_key m \<mapsto> m)"
| "known_after (MachineUpdated old m) k = k(cache_key old \<mapsto> m)"
| "known_after (MachineDeleted m) k = k(cache_key m := None)"

definition record_of :: "MACCache \<Rightarrow> Machine \<Rightarrow> machineRecord option" where
  "record_of c m = (case NormalizeMAC (ms_bootMACAddress (m_spec m)) of None \<Rightarrow> None | Some mac \<Rightarrow> Some \<lparr>mr_mac = mac, mr_local = isLocalLocked c m\<rparr>)"

text \<open>The counts are those of the records: \<open>tally P rs\<close> many of them satisfy \<open>P\<close>.\<close>

definition tally :: "(machineRecord \<Rightarrow> bool) \<Rightarrow> (string \<times> machineRecord) list \<Rightarrow> int" where
  "tally P rs = int (length (filter (\<lambda>kv. P (snd kv)) rs))"

definition counts_ok :: "(string \<times> int) list \<Rightarrow> (string \<Rightarrow> int) \<Rightarrow> bool" where
  "counts_ok cs f \<longleftrightarrow> distinct (map fst cs) \<and> (\<forall>mac. map_of cs mac = (if f mac > 0 then Some (f mac) else None))"

definition cache_ok :: "(string \<rightharpoonup> Machine) \<Rightarrow> MACCache \<Rightarrow> bool" where
  "cache_ok k c \<longleftrightarrow> distinct (map fst (mc_records c)) \<and>
     (\<forall>key. map_of (mc_records c) key = Option.bind (k key) (record_of c)) \<and>
     counts_ok (mc_counts c) (\<lambda>mac. tally (\<lambda>rec. mr_mac rec = mac) (mc_records c)) \<and>
     counts_ok (mc_localCounts c) (\<lambda>mac. tally (\<lambda>rec. mr_mac rec = mac \<and> mr_local rec) (mc_records c))"

lemma tally_nonneg: "0 \<le> tally P rs"
  by (simp add: tally_def)

lemma tally_cons [simp]: "tally P ((k, rec) # rs) = (if P rec then 1 else 0) + tally P rs"
  by (simp add: tally_def)

lemma tally_delete:
  assumes "distinct (map fst rs)" "map_of rs k = Some rec"
  shows "tally P rs = tally P (alist_delete k rs) + (if P rec then 1 else 0)"
  using assms
proof (induction rs)
  case (Cons kv rs)
  obtain k' r' where kv: "kv = (k', r')" by fastforce
  show ?case
  proof (cases "k' = k")
    case True
    then have "alist_delete k rs = rs"
      using Cons.prems(1) kv by (force simp: alist_delete_def filter_id_conv)
    then show ?thesis
      using True Cons.prems(2) kv by (simp add: alist_delete_def)
  next
    case False
    then have "tally P rs = tally P (alist_delete k rs) + (if P rec then 1 else 0)"
      using Cons kv by simp
    then show ?thesis
      using False kv by (simp add: alist_delete_def)
  qed
qed simp

lemma counts_bump:
  assumes "counts_ok cs f" "\<forall>mac. 0 \<le> f mac"
  shows "counts_ok (bump mac cs) (\<lambda>x. f x + (if x = mac then 1 else 0))"
proof -
  have "count_of cs mac = f mac"
    using assms by (auto simp: counts_ok_def count_of_def order.order_iff_strict)
  then show ?thesis
    using assms distinct_alist_put [of cs mac] by (auto simp: counts_ok_def bump_def order.order_iff_strict)
qed

lemma counts_unbump:
  assumes "counts_ok cs (\<lambda>x. f x + (if x = mac then 1 else 0))" "\<forall>mac. 0 \<le> f mac"
  shows "counts_ok (unbump mac cs) f"
proof -
  have n: "count_of cs mac = f mac + 1"
    using assms spec [OF assms(2), of mac] by (simp add: counts_ok_def count_of_def)
  have other: "map_of cs x = (if f x > 0 then Some (f x) else None)" if "x \<noteq> mac" for x
    using assms(1) that by (simp add: counts_ok_def)
  have d: "distinct (map fst cs)"
    using assms(1) by (simp add: counts_ok_def)
  show ?thesis
    using n other d distinct_alist_put [of cs mac] distinct_alist_delete [OF d, of mac] spec [OF assms(2), of mac]
    by (auto simp: counts_ok_def unbump_def)
qed

definition forgotten :: "string \<Rightarrow> MACCache \<Rightarrow> MACCache" where
  "forgotten key c = (case map_of (mc_records c) key of
     None \<Rightarrow> c | Some prev \<Rightarrow> (removeRecordLocked prev c)\<lparr>mc_records := alist_delete key (mc_records c)\<rparr>)"

lemma record_of_frame:
  "mc_localName c' = mc_localName c \<Longrightarrow> mc_localNamespace c' = mc_localNamespace c \<Longrightarrow> record_of c' = record_of c"
  by (rule ext) (simp add: record_of_def isLocalLocked_def split: option.splits)

lemma forgotten_frame [simp]:
  "isLocalLocked (forgotten key c) = isLocalLocked c"
  "mc_localName (forgotten key c) = mc_localName c" "mc_localNamespace (forgotten key c) = mc_localNamespace c"
  "record_of (forgotten key c) = record_of c" "map_of (mc_records (forgotten key c)) = (map_of (mc_records c))(key := None)"
  by (auto simp: forgotten_def removeRecordLocked_def fun_eq_iff record_of_def isLocalLocked_def split: option.splits)

lemma forgotten_ok:
  assumes "cache_ok k c"
  shows "cache_ok (k(key := None)) (forgotten key c)"
proof (cases "map_of (mc_records c) key")
  case None
  then have "forgotten key c = c" by (simp add: forgotten_def)
  moreover have "\<forall>x. map_of (mc_records c) x = Option.bind ((k(key := None)) x) (record_of c)"
    using assms None by (simp add: cache_ok_def)
  ultimately show ?thesis
    using assms by (simp add: cache_ok_def)
next
  case (Some prev)
  let ?rs = "alist_delete key (mc_records c)"
  have d: "distinct (map fst (mc_records c))"
    using assms by (simp add: cache_ok_def)
  have split: "tally P (mc_records c) = tally P ?rs + (if P prev then 1 else 0)" for P
    by (rule tally_delete [OF d Some])
  have "counts_ok (unbump (mr_mac prev) (mc_counts c)) (\<lambda>mac. tally (\<lambda>rec. mr_mac rec = mac) ?rs)"
    using assms by (intro counts_unbump) (auto simp: cache_ok_def split tally_nonneg eq_commute cong: if_cong)
  moreover have "counts_ok (if mr_local prev then unbump (mr_mac prev) (mc_localCounts c) else mc_localCounts c)
      (\<lambda>mac. tally (\<lambda>rec. mr_mac rec = mac \<and> mr_local rec) ?rs)"
    using assms by (auto intro!: counts_unbump simp: cache_ok_def split tally_nonneg eq_commute cong: if_cong)
  moreover have "mc_records (forgotten key c) = ?rs" "mc_counts (forgotten key c) = unbump (mr_mac prev) (mc_counts c)"
    "mc_localCounts (forgotten key c) = (if mr_local prev then unbump (mr_mac prev) (mc_localCounts c) else mc_localCounts c)"
    by (simp_all add: forgotten_def Some removeRecordLocked_def)
  moreover have "\<forall>x. map_of (mc_records c) x = Option.bind (k x) (record_of c)"
    using assms by (simp add: cache_ok_def)
  ultimately show ?thesis
    unfolding cache_ok_def using distinct_alist_delete [OF d, of key] by simp
qed

lemma entered_ok:
  assumes "cache_ok k c" "k key = None" "record_of c m = Some rec"
  shows "cache_ok (k(key \<mapsto> m)) (addRecordLocked rec (c\<lparr>mc_records := alist_put key rec (mc_records c)\<rparr>))"
proof -
  have none: "map_of (mc_records c) key = None"
    using assms(1,2) by (simp add: cache_ok_def)
  then have same: "alist_delete key (mc_records c) = mc_records c"
    by (auto simp: alist_delete_def filter_id_conv map_of_eq_None_iff)
  have "counts_ok (bump (mr_mac rec) (mc_counts c)) (\<lambda>mac. tally (\<lambda>rec. mr_mac rec = mac) (mc_records c) + (if mac = mr_mac rec then 1 else 0))"
    using assms(1) by (intro counts_bump) (auto simp: cache_ok_def tally_nonneg)
  moreover have "counts_ok (if mr_local rec then bump (mr_mac rec) (mc_localCounts c) else mc_localCounts c)
      (\<lambda>mac. tally (\<lambda>rec. mr_mac rec = mac \<and> mr_local rec) (mc_records c) + (if mac = mr_mac rec \<and> mr_local rec then 1 else 0))"
    using assms(1) by (auto intro!: counts_bump simp: cache_ok_def tally_nonneg)
  moreover have "distinct (map fst (alist_put key rec (mc_records c)))"
    using assms(1) by (simp add: cache_ok_def distinct_alist_put)
  moreover have "record_of (addRecordLocked rec (c\<lparr>mc_records := alist_put key rec (mc_records c)\<rparr>)) = record_of c"
    by (rule record_of_frame) (simp_all add: addRecordLocked_def)
  ultimately show ?thesis
    using assms by (auto simp: cache_ok_def addRecordLocked_def alist_put_def same eq_commute add.commute cong: if_cong)
qed

lemma applyLocked_ok:
  assumes "cache_ok k c"
  shows "cache_ok (k(cache_key identity := newMachine)) (applyLocked identity newMachine c)"
proof -
  let ?key = "cache_key identity"
  have base: "cache_ok (k(?key := None)) (forgotten ?key c)"
    by (rule forgotten_ok [OF assms])
  show ?thesis
  proof (cases newMachine)
    case None
    then show ?thesis
      using base by (simp add: applyLocked_def forgotten_def Let_def)
  next
    case (Some m)
    show ?thesis
    proof (cases "record_of (forgotten ?key c) m")
      case None
      then have "NormalizeMAC (ms_bootMACAddress (m_spec m)) = None"
        by (simp add: record_of_def split: option.splits)
      moreover have "cache_ok (k(?key \<mapsto> m)) (forgotten ?key c)"
        using base None by (auto simp: cache_ok_def)
      ultimately show ?thesis
        using Some by (simp add: applyLocked_def forgotten_def Let_def)
    next
      case rec: (Some rec)
      then obtain mac where "NormalizeMAC (ms_bootMACAddress (m_spec m)) = Some mac" "rec = \<lparr>mr_mac = mac, mr_local = isLocalLocked (forgotten ?key c) m\<rparr>"
        by (auto simp: record_of_def split: option.splits)
      moreover have "cache_ok (k(?key \<mapsto> m)) (addRecordLocked rec ((forgotten ?key c)\<lparr>mc_records := alist_put ?key rec (mc_records (forgotten ?key c))\<rparr>))"
        using entered_ok [OF base _ rec, of ?key] by simp
      ultimately show ?thesis
        using Some by (simp add: applyLocked_def forgotten_def Let_def)
    qed
  qed
qed

lemma events_ok: "cache_ok k c \<Longrightarrow> cache_ok (fold known_after evs k) (fold onMachineEvent evs c)"
proof (induction evs arbitrary: k c)
  case (Cons ev evs)
  have "cache_ok (known_after ev k) (onMachineEvent ev c)"
    using Cons.prems by (cases ev) (simp_all add: applyLocked_ok)
  then show ?case
    using Cons.IH by simp
qed simp

lemma event_local [simp]:
  "mc_localName (onMachineEvent ev c) = mc_localName c" "mc_localNamespace (onMachineEvent ev c) = mc_localNamespace c"
proof -
  have "mc_localName (applyLocked a b c) = mc_localName c" "mc_localNamespace (applyLocked a b c) = mc_localNamespace c" for a b
    by (simp_all add: applyLocked_def Let_def addRecordLocked_def removeRecordLocked_def split: option.splits)
  then show "mc_localName (onMachineEvent ev c) = mc_localName c" "mc_localNamespace (onMachineEvent ev c) = mc_localNamespace c"
    by (cases ev; simp)+
qed

lemma events_local [simp]:
  "mc_localName (fold onMachineEvent evs c) = mc_localName c"
  "mc_localNamespace (fold onMachineEvent evs c) = mc_localNamespace c"
  by (induction evs arbitrary: c) simp_all

lemma new_cache_ok: "cache_ok Map.empty (NewMACCache ns name)"
  by (simp add: cache_ok_def NewMACCache_def counts_ok_def tally_def)

lemma tally_pos: "distinct (map fst rs) \<Longrightarrow> tally P rs > 0 \<longleftrightarrow> (\<exists>key rec. map_of rs key = Some rec \<and> P rec)"
  by (force simp: tally_def map_of_eq_Some_iff filter_empty_conv)

lemma allowlist_spec:
  fixes evs ns name
  defines "c \<equiv> fold onMachineEvent evs (NewMACCache ns name)" and "k \<equiv> fold known_after evs Map.empty"
  shows "set (snapshotLocked c) = {mac. \<exists>key m. k key = Some m \<and> NormalizeMAC (ms_bootMACAddress (m_spec m)) = Some mac} \<and>
    sorted (snapshotLocked c) \<and> distinct (snapshotLocked c) \<and>
    (HasLocalMember (c\<lparr>mc_synced := True\<rparr>) mac \<longleftrightarrow> name \<noteq> '''' \<and>
       (\<exists>key m. k key = Some m \<and> NormalizeMAC (ms_bootMACAddress (m_spec m)) = Some mac \<and> subnetKeyOf m = (ns, name)))"
proof -
  have ok: "cache_ok k c"
    unfolding c_def k_def by (rule events_ok [OF new_cache_ok])
  then have d: "distinct (map fst (mc_records c))" and recs: "\<And>key. map_of (mc_records c) key = Option.bind (k key) (record_of c)"
    by (simp_all add: cache_ok_def)
  have local_eq: "isLocalLocked c m \<longleftrightarrow> name \<noteq> '''' \<and> subnetKeyOf m = (ns, name)" for m
    by (auto simp: isLocalLocked_def subnetKeyOf_def c_def NewMACCache_def)
  have some: "record_of c m = Some rec \<longleftrightarrow> (\<exists>mac. NormalizeMAC (ms_bootMACAddress (m_spec m)) = Some mac \<and> rec = \<lparr>mr_mac = mac, mr_local = isLocalLocked c m\<rparr>)" for m rec
    by (auto simp: record_of_def split: option.splits)
  have pos: "tally P (mc_records c) > 0 \<longleftrightarrow>
      (\<exists>key m mac. k key = Some m \<and> NormalizeMAC (ms_bootMACAddress (m_spec m)) = Some mac \<and> P \<lparr>mr_mac = mac, mr_local = isLocalLocked c m\<rparr>)" for P
    unfolding tally_pos [OF d] recs bind_eq_Some_conv some by blast
  have "set (map fst (mc_counts c)) = {mac. map_of (mc_counts c) mac \<noteq> None}"
    by (auto simp: map_of_eq_None_iff)
  also have "\<dots> = {mac. tally (\<lambda>rec. mr_mac rec = mac) (mc_records c) > 0}"
    using ok by (simp add: cache_ok_def counts_ok_def)
  also have "\<dots> = {mac. \<exists>key m. k key = Some m \<and> NormalizeMAC (ms_bootMACAddress (m_spec m)) = Some mac}"
    by (simp add: pos)
  finally have "set (snapshotLocked c) = {mac. \<exists>key m. k key = Some m \<and> NormalizeMAC (ms_bootMACAddress (m_spec m)) = Some mac}"
    by (simp add: snapshotLocked_def)
  moreover have "sorted (snapshotLocked c)" "distinct (snapshotLocked c)"
    using ok by (simp_all add: snapshotLocked_def cache_ok_def counts_ok_def)
  moreover have "HasLocalMember (c\<lparr>mc_synced := True\<rparr>) mac \<longleftrightarrow> tally (\<lambda>rec. mr_mac rec = mac \<and> mr_local rec) (mc_records c) > 0"
    using ok by (simp add: HasLocalMember_def cache_ok_def counts_ok_def count_of_def)
  ultimately show ?thesis
    by (simp add: pos local_eq) blast
qed

text \<open>
  C23: after any sequence of informer events the list pushed to dnsmasq is the
  sorted list of exactly the normalised boot MAC addresses of the Machines there are, also when several
  Machines share an address or an address changes; and a MAC counts as a member of bootd's own Subnet
  exactly when one of the Machines with it names that Subnet.
\<close>

theorem allowlist_is_the_enrolled_macs:
  "let c = fold onMachineEvent evs (NewMACCache ns name); k = fold known_after evs Map.empty in
    set (snapshotLocked c) = {mac. \<exists>key m. k key = Some m \<and> NormalizeMAC (ms_bootMACAddress (m_spec m)) = Some mac} \<and>
    sorted (snapshotLocked c) \<and> distinct (snapshotLocked c) \<and>
    (HasLocalMember (c\<lparr>mc_synced := True\<rparr>) mac \<longleftrightarrow> name \<noteq> '''' \<and>
       (\<exists>key m. k key = Some m \<and> NormalizeMAC (ms_bootMACAddress (m_spec m)) = Some mac \<and> subnetKeyOf m = (ns, name)))"
  unfolding Let_def by (rule allowlist_spec)

section \<open>The hostsfile\<close>

definition dq_ok :: "Dnsmasq \<Rightarrow> bool" where
  "dq_ok d \<longleftrightarrow> (\<not> dq_firstMACs d \<longrightarrow> dq_macs d = []) \<and> (\<not> dq_revSet d \<longrightarrow> dq_reservations d = [])"

text \<open>A hostsfile rendered from an allowlist and reservations that were pushed, or from none.\<close>

definition from_pushes :: "string list list \<Rightarrow> (string \<times> (string \<times> string) list) list \<Rightarrow> string \<Rightarrow> bool" where
  "from_pushes pushed revs content \<longleftrightarrow> (\<exists>macs pins. content = RenderHostsfile macs (map_of pins) \<and>
     (macs = [] \<or> macs \<in> set pushed) \<and> (pins = [] \<or> pins \<in> snd ` set revs))"

text \<open>The same for one revision.\<close>

definition renders_revision :: "string list list \<Rightarrow> (string \<times> (string \<times> string) list) list \<Rightarrow> string \<Rightarrow> string \<Rightarrow> bool" where
  "renders_revision pushed revs rv content \<longleftrightarrow> (\<exists>macs pins. content = RenderHostsfile macs (map_of pins) \<and>
     (macs = [] \<or> macs \<in> set pushed) \<and> (rv, pins) \<in> set revs)"

fun pc_ok :: "string list list \<Rightarrow> (string \<times> (string \<times> string) list) list \<Rightarrow> string \<Rightarrow> loop_pc \<Rightarrow> bool" where
  "pc_ok P R file (LoopRendered content _ rv revSet) \<longleftrightarrow> from_pushes P R content \<and> (revSet \<longrightarrow> renders_revision P R rv content)"
| "pc_ok P R file (LoopCheck _ rv revSet) \<longleftrightarrow> (revSet \<longrightarrow> renders_revision P R rv file)"
| "pc_ok P R file (LoopSignal _ _ rv revSet) \<longleftrightarrow> (revSet \<longrightarrow> renders_revision P R rv file)"
| "pc_ok P R file (LoopWaiting _ rv revSet) \<longleftrightarrow> (revSet \<longrightarrow> renders_revision P R rv file)"
| "pc_ok P R file (LoopApply rv revSet) \<longleftrightarrow> (revSet \<longrightarrow> renders_revision P R rv file)"
| "pc_ok P R file pc \<longleftrightarrow> True"

definition proc_ok :: "bootd_proc \<Rightarrow> bool" where
  "proc_ok p \<longleftrightarrow> dq_ok (bp_dq p) \<and> bp_lastWritten p = bp_file p \<and> from_pushes (bp_pushed p) (bp_revisions p) (bp_file p) \<and>
     (if dq_firstMACs (bp_dq p) then dq_macs (bp_dq p) \<in> set (bp_pushed p) else bp_pushed p = []) \<and>
     (dq_revSet (bp_dq p) \<longrightarrow> (dq_revision (bp_dq p), dq_reservations (bp_dq p)) \<in> set (bp_revisions p)) \<and>
     pc_ok (bp_pushed p) (bp_revisions p) (bp_file p) (bp_pc p) \<and>
     (\<forall>c. bp_loaded p = Some c \<longrightarrow> from_pushes (bp_pushed p) (bp_revisions p) c)"

lemma pushes_mono:
  "from_pushes P R content \<Longrightarrow> set P \<subseteq> set P' \<Longrightarrow> set R \<subseteq> set R' \<Longrightarrow> from_pushes P' R' content"
  "renders_revision P R rv content \<Longrightarrow> set P \<subseteq> set P' \<Longrightarrow> set R \<subseteq> set R' \<Longrightarrow> renders_revision P' R' rv content"
  unfolding from_pushes_def renders_revision_def by blast+

lemma pc_ok_mono: "pc_ok P R file pc \<Longrightarrow> set P \<subseteq> set P' \<Longrightarrow> set R \<subseteq> set R' \<Longrightarrow> pc_ok P' R' file pc"
  by (cases pc) (auto intro: pushes_mono)

lemmas loop_defs = loop_wake_def loop_render_def loop_write_def loop_check_def loop_signal_def loop_wait_def loop_apply_def
  noteHostsfileRead_def requeueDirty_def filter_leases_def

lemma proc_ok_push_macs:
  assumes "proc_ok p"
  shows "proc_ok (p\<lparr>bp_dq := SetAllowedMACs macs (bp_dq p), bp_pushed := macs # bp_pushed p\<rparr>)"
  using assms pc_ok_mono [of "bp_pushed p" "bp_revisions p" _ _ "macs # bp_pushed p" "bp_revisions p"]
    pushes_mono(1) [of "bp_pushed p" "bp_revisions p" _ "macs # bp_pushed p" "bp_revisions p"]
  by (simp add: proc_ok_def dq_ok_def SetAllowedMACs_def requeueDirty_def subset_insertI)

lemma proc_ok_push_pins:
  assumes "proc_ok p"
  shows "proc_ok (p\<lparr>bp_dq := SetReservations member rv pins (bp_dq p), bp_revisions := (rv, pins) # bp_revisions p\<rparr>)"
  using assms pc_ok_mono [of "bp_pushed p" "bp_revisions p" _ _ "bp_pushed p" "(rv, pins) # bp_revisions p"]
    pushes_mono(1) [of "bp_pushed p" "bp_revisions p" _ "bp_pushed p" "(rv, pins) # bp_revisions p"]
  by (simp add: proc_ok_def dq_ok_def SetReservations_def requeueDirty_def subset_insertI Let_def)

lemma proc_ok_render:
  assumes "proc_ok p" "bp_pc p = LoopDebounce"
  shows "proc_ok (loop_render p)"
proof -
  let ?d = "bp_dq p"
  have macs: "dq_macs ?d = [] \<or> dq_macs ?d \<in> set (bp_pushed p)"
    using assms(1) by (auto simp: proc_ok_def dq_ok_def split: if_splits)
  have pins: "dq_revSet ?d \<Longrightarrow> (dq_revision ?d, dq_reservations ?d) \<in> set (bp_revisions p)" "\<not> dq_revSet ?d \<Longrightarrow> dq_reservations ?d = []"
    using assms(1) by (auto simp: proc_ok_def dq_ok_def)
  have "dq_reservations ?d = [] \<or> dq_reservations ?d \<in> snd ` set (bp_revisions p)"
    using pins by force
  with macs have f: "from_pushes (bp_pushed p) (bp_revisions p) (rendered_now p)"
    unfolding from_pushes_def rendered_now_def by (intro exI conjI) (rule refl)
  have r: "renders_revision (bp_pushed p) (bp_revisions p) (dq_revision ?d) (rendered_now p)" if "dq_revSet ?d"
    using macs pins(1) that unfolding renders_revision_def rendered_now_def by (intro exI conjI) (rule refl)
  show ?thesis
    using assms f r by (simp add: proc_ok_def dq_ok_def loop_render_def Let_def)
qed

lemma proc_ok_write: "proc_ok p \<Longrightarrow> proc_ok (loop_write ok p)"
  by (cases "bp_pc p") (auto simp: proc_ok_def loop_write_def)

lemma proc_ok_loop:
  assumes "proc_ok p"
  shows "proc_ok (loop_wake p)" "proc_ok (loop_check p)" "proc_ok (loop_signal ok p)" "proc_ok (loop_wait elapsed p)" "proc_ok (loop_apply p)"
proof -
  show "proc_ok (loop_wake p)" using assms by (auto simp: proc_ok_def dq_ok_def loop_wake_def)
  show "proc_ok (loop_check p)" using assms by (cases "bp_pc p") (auto simp: proc_ok_def dq_ok_def loop_check_def requeueDirty_def split: option.splits)
  show "proc_ok (loop_signal ok p)" using assms by (cases "bp_pc p") (auto simp: proc_ok_def dq_ok_def loop_signal_def requeueDirty_def)
  show "proc_ok (loop_wait elapsed p)" using assms by (cases "bp_pc p") (auto simp: proc_ok_def dq_ok_def loop_wait_def requeueDirty_def)
  show "proc_ok (loop_apply p)" using assms by (cases "bp_pc p") (auto simp: proc_ok_def loop_apply_def)
qed

lemma proc_ok_child:
  assumes "proc_ok p"
  shows "proc_ok (p\<lparr>bp_child := a, bp_nextChild := n, bp_mustRead := b\<rparr>)" "proc_ok (p\<lparr>bp_child := a, bp_mustRead := b\<rparr>)"
    "proc_ok (p\<lparr>bp_mustRead := b, bp_loaded := Some (bp_file p), bp_pipe := q\<rparr>)" "proc_ok (noteHostsfileRead (p\<lparr>bp_pipe := q\<rparr>))"
    "proc_ok (p\<lparr>bp_leases := ls\<rparr>)" "proc_ok (filter_leases ok p)"
  using assms
  by (simp_all add: proc_ok_def loop_defs)

lemma proc_ok_step: "bootd_step prompt p p' \<Longrightarrow> proc_ok p \<Longrightarrow> proc_ok p'"
  by (induction rule: bootd_step.induct)
    (simp_all add: proc_ok_push_macs proc_ok_push_pins proc_ok_render proc_ok_write proc_ok_loop proc_ok_child)

lemma proc_ok_start: "dq_ok d \<Longrightarrow> proc_ok (bootd_start d leases)"
  by (auto simp: proc_ok_def bootd_start_def Let_def from_pushes_def dq_ok_def)

lemma reach_ok: "bootd_reach prompt d p \<Longrightarrow> dq_ok d \<Longrightarrow> proc_ok p"
  by (induction rule: bootd_reach.induct) (auto intro: proc_ok_start proc_ok_step)


section \<open>Acknowledged revisions\<close>

definition served_ok :: "bootd_proc \<Rightarrow> bool" where
  "served_ok p \<longleftrightarrow> (bp_confirmed p \<longrightarrow> bp_loaded p = Some (bp_file p)) \<and>
     (case bp_pc p of
        LoopSignal _ base _ _ \<Rightarrow> (bp_readSeq p > base \<or> bp_pipe p \<noteq> [] \<longrightarrow> bp_loaded p = Some (bp_file p)) \<and> base \<le> bp_readSeq p
      | LoopWaiting base _ _ \<Rightarrow> (bp_readSeq p > base \<or> bp_pipe p \<noteq> [] \<longrightarrow> bp_loaded p = Some (bp_file p)) \<and> base \<le> bp_readSeq p
      | LoopApply _ _ \<Rightarrow> bp_confirmed p
      | _ \<Rightarrow> True)"

lemma served_ok_loop:
  assumes "served_ok p"
  shows "served_ok (loop_write ok p)" "bp_pipe p = [] \<Longrightarrow> served_ok (loop_check p)" "served_ok (loop_signal ok p)"
    "served_ok (loop_wait elapsed p)" "served_ok (loop_apply p)"
proof -
  show "served_ok (loop_write ok p)" using assms by (cases "bp_pc p") (auto simp: served_ok_def loop_write_def)
  show "bp_pipe p = [] \<Longrightarrow> served_ok (loop_check p)" using assms by (cases "bp_pc p") (auto simp: served_ok_def loop_check_def split: option.splits)
  show "served_ok (loop_signal ok p)" using assms by (cases "bp_pc p") (auto simp: served_ok_def loop_signal_def)
  show "served_ok (loop_wait elapsed p)" using assms by (cases "bp_pc p") (auto simp: served_ok_def loop_wait_def)
  show "served_ok (loop_apply p)" using assms by (cases "bp_pc p") (auto simp: served_ok_def loop_apply_def)
qed

lemma served_ok_step: "bootd_step True p p' \<Longrightarrow> served_ok p \<Longrightarrow> served_ok p'"
proof (induction rule: bootd_step.induct)
  case (wake p)
  then show ?case by (simp add: served_ok_def loop_wake_def)
next
  case (render p)
  then show ?case by (simp add: served_ok_def loop_render_def Let_def)
next
  case (child_read p)
  then show ?case by (cases "bp_pc p") (auto simp: served_ok_def)
next
  case (forward p c rest)
  then show ?case by (cases "bp_pc p") (auto simp: served_ok_def noteHostsfileRead_def)
next
  case (filtering p ok)
  then show ?case by (simp add: served_ok_def filter_leases_def split: loop_pc.splits)
qed (simp_all add: served_ok_loop, simp_all add: served_ok_def split: loop_pc.splits)

lemma reach_served: "bootd_reach True d p \<Longrightarrow> served_ok p"
proof (induction rule: bootd_reach.induct)
  case (started leases)
  show ?case by (simp add: served_ok_def bootd_start_def Let_def)
qed (rule served_ok_step)

text \<open>Only the last section of a turn acknowledges.\<close>

lemma ack_step:
  assumes "bootd_step prompt p p'" "bp_acks p' \<noteq> bp_acks p"
  obtains rv where "bp_pc p = LoopApply rv True" "p' = loop_apply p" "bp_acks p' = bp_acks p @ [rv]"
  using assms
proof (induction rule: bootd_step.induct)
  case (applied p)
  then show ?case by (cases "bp_pc p") (auto simp: loop_apply_def split: if_splits)
qed (auto simp: loop_defs Let_def split: loop_pc.splits option.splits if_splits)

text \<open>
  C14: when bootd acknowledges a revision of the reservation table, and it took its
  baseline of hostsfile reads with no earlier read still in dnsmasq's log pipe, then the hostsfile is the
  one rendered from the reservations of that revision with an allowlist that was pushed, and it is what
  dnsmasq last read.
\<close>

theorem acked_revision_is_served:
  assumes "bootd_reach True d p" "dq_ok d" "bootd_step True p p'" "bp_acks p' \<noteq> bp_acks p"
  shows "\<exists>rv macs pins. bp_acks p' = bp_acks p @ [rv] \<and> (rv, pins) \<in> set (bp_revisions p) \<and> (macs = [] \<or> macs \<in> set (bp_pushed p)) \<and>
    bp_file p' = RenderHostsfile macs (map_of pins) \<and> bp_loaded p' = Some (bp_file p')"
proof -
  obtain rv where rv: "bp_pc p = LoopApply rv True" "p' = loop_apply p" "bp_acks p' = bp_acks p @ [rv]"
    using ack_step [OF assms(3,4)] .
  then have "renders_revision (bp_pushed p) (bp_revisions p) rv (bp_file p)"
    using reach_ok [OF assms(1,2)] by (simp add: proc_ok_def)
  moreover have "bp_loaded p = Some (bp_file p)"
    using reach_served [OF assms(1)] rv(1) by (simp add: served_ok_def)
  moreover have "bp_file p' = bp_file p" "bp_loaded p' = bp_loaded p"
    using rv(1,2) by (simp_all add: loop_apply_def)
  ultimately show ?thesis
    using rv(3) unfolding renders_revision_def by auto
qed


section \<open>Runs\<close>

text \<open>The steps as actions that can be played, to show that runs exist.\<close>

datatype bootd_action =
    PushMacs "string list" | PushPins string "(string \<times> string) list" | FilterLeases bool | Wake | Render | Writing bool | Check
  | Signal bool | Await bool | Applied | ChildStart | ChildRead | Forward | ChildExit

definition guarded :: "bool \<Rightarrow> bootd_proc \<Rightarrow> bootd_proc option" where
  "guarded b p = (if b then Some p else None)"

fun act :: "bool \<Rightarrow> bootd_action \<Rightarrow> bootd_proc \<Rightarrow> bootd_proc option" where
  "act prompt (PushMacs macs) p = Some (p\<lparr>bp_dq := SetAllowedMACs macs (bp_dq p), bp_pushed := macs # bp_pushed p\<rparr>)"
| "act prompt (PushPins rv pins) p = Some (p\<lparr>bp_dq := SetReservations None rv pins (bp_dq p), bp_revisions := (rv, pins) # bp_revisions p\<rparr>)"
| "act prompt (FilterLeases ok) p = guarded (dq_leaseMode (bp_dq p) \<and> dq_firstMACs (bp_dq p) \<and> \<not> bp_filtered p) (filter_leases ok p)"
| "act prompt Wake p = guarded (running p \<and> bp_pc p = LoopIdle \<and> dq_dirty (bp_dq p)) (loop_wake p)"
| "act prompt Render p = guarded (bp_pc p = LoopDebounce) (loop_render p)"
| "act prompt (Writing ok) p = Some (loop_write ok p)"
| "act prompt Check p = guarded (prompt \<longrightarrow> bp_pipe p = []) (loop_check p)"
| "act prompt (Signal ok) p = Some (loop_signal ok p)"
| "act prompt (Await elapsed) p = Some (loop_wait elapsed p)"
| "act prompt Applied p = Some (loop_apply p)"
| "act prompt ChildStart p = guarded (running p \<and> bp_child p = None) (p\<lparr>bp_child := Some (bp_nextChild p), bp_nextChild := Suc (bp_nextChild p), bp_mustRead := True\<rparr>)"
| "act prompt ChildRead p = guarded (bp_child p \<noteq> None \<and> bp_mustRead p) (p\<lparr>bp_mustRead := False, bp_loaded := Some (bp_file p), bp_pipe := bp_pipe p @ [bp_file p]\<rparr>)"
| "act prompt Forward p = (case bp_pipe p of [] \<Rightarrow> None | c # rest \<Rightarrow> Some (noteHostsfileRead (p\<lparr>bp_pipe := rest\<rparr>)))"
| "act prompt ChildExit p = guarded (bp_child p \<noteq> None \<and> bp_pipe p = []) (p\<lparr>bp_child := None, bp_mustRead := False\<rparr>)"

fun play :: "bool \<Rightarrow> bootd_action list \<Rightarrow> bootd_proc \<Rightarrow> bootd_proc option" where
  "play prompt [] p = Some p"
| "play prompt (a # as) p = Option.bind (act prompt a p) (play prompt as)"

lemma act_step: "act prompt a p = Some p' \<Longrightarrow> bootd_step prompt p p'"
  by (cases a) (auto simp: guarded_def intro: bootd_step.intros split: if_splits list.splits)

lemma play_reach: "play prompt as p = Some p' \<Longrightarrow> bootd_reach prompt d p \<Longrightarrow> bootd_reach prompt d p'"
proof (induction as arbitrary: p)
  case (Cons a as)
  then obtain q where q: "act prompt a p = Some q" "play prompt as q = Some p'"
    by (auto simp: bind_eq_Some_conv)
  show ?case
    by (rule Cons.IH [OF q(2) stepped [OF Cons.prems(2) act_step [OF q(1)]]])
qed simp

definition lab_bootd :: Dnsmasq where
  "lab_bootd = fresh_dnsmasq False ''net1''"

definition lab_started :: bootd_proc where
  "lab_started = bootd_start lab_bootd None"

lemma lab_bootd_ok: "dq_ok lab_bootd" "bootd_reach prompt lab_bootd lab_started"
  by (simp_all add: lab_bootd_def fresh_dnsmasq_def dq_ok_def lab_started_def started)

definition served_run :: "bootd_action list" where
  "served_run = [ChildStart, ChildRead, Forward, PushMacs [''m''], PushPins ''r'' [(''m'', ''a'')], Wake, Render, Writing True, Check, Signal True, ChildRead, Forward, Await False]"

lemma lab_served:
  "map_option (\<lambda>p. (bp_acks p, map_option bp_acks (act True Applied p), bp_loaded p = Some (bp_file p), bp_file p)) (play True served_run lab_started)
     = Some ([], Some [''r''], True, ''m,set:kezio,a'' @ newl)"
  by code_simp


theorem acked_revision_is_served_witness:
  "\<exists>p' pins. map_option (act True Applied) (play True served_run lab_started) = Some (Some p') \<and> bp_acks p' = [''r''] \<and>
     bp_loaded p' = Some (bp_file p') \<and> (''r'', pins) \<in> set (bp_revisions p')"
proof -
  obtain p p' where p: "play True served_run lab_started = Some p" "act True Applied p = Some p'" "bp_acks p' = [''r'']" "bp_acks p = []"
    using lab_served by (cases "play True served_run lab_started") auto
  then have same: "bp_revisions p' = bp_revisions p"
    by (auto simp: loop_apply_def split: loop_pc.splits if_splits)
  obtain pins where "(''r'', pins) \<in> set (bp_revisions p)" "bp_loaded p' = Some (bp_file p')"
    using acked_revision_is_served [OF play_reach [OF p(1) lab_bootd_ok(2)] lab_bootd_ok(1) act_step [OF p(2)]] p(3,4) by auto
  with p same show ?thesis by auto
qed

text \<open>
  Without that proviso a revision can be acknowledged before dnsmasq has read it: the log
  line of dnsmasq's read at its start is counted after the baseline of the SIGHUP was taken, and taken for
  the reload.
\<close>

theorem early_ack_possible:
  "\<exists>p. bootd_reach False lab_bootd p \<and> bp_acks p = [''r''] \<and> bp_loaded p = Some '''' \<and> bp_file p = ''m,set:kezio,a'' @ newl"
proof -
  let ?run = "[ChildStart, ChildRead, PushMacs [''m''], PushPins ''r'' [(''m'', ''a'')], Wake, Render, Writing True, Check, Signal True, Forward, Await False, Applied]"
  have "map_option (\<lambda>p. (bp_acks p, bp_loaded p, bp_file p)) (play False ?run lab_started) = Some ([''r''], Some '''', ''m,set:kezio,a'' @ newl)"
    by code_simp
  then obtain p where "play False ?run lab_started = Some p" "bp_acks p = [''r'']" "bp_loaded p = Some ''''" "bp_file p = ''m,set:kezio,a'' @ newl"
    by (cases "play False ?run lab_started") auto
  with play_reach [OF this(1) lab_bootd_ok(2)] show ?thesis by blast
qed


section \<open>Leases that survive a restart\<close>

lemma unlines_split:
  assumes "\<forall>l\<in>set ls. CHR 0x0A \<notin> set l"
  shows "split_on (CHR 0x0A) (unlines ls) = ls @ [[]]"
  using assms
proof (induction ls)
  case (Cons l ls)
  then show ?case
    by (simp add: unlines_def newl_def split_on_append)
qed (simp add: unlines_def)

lemma split_on_free: "l \<in> set (split_on c s) \<Longrightarrow> c \<notin> set l"
  by (induction c s arbitrary: l rule: split_on.induct) (auto split: if_splits list.splits)

lemma read_leases_from:
  "map_of (foldl (\<lambda>acc line. if line = '''' then acc else case parseLeaseLine line of None \<Rightarrow> acc | Some (mac, ip) \<Rightarrow> alist_put mac ip acc) acc ls) mac = Some ip
   \<Longrightarrow> map_of acc mac = Some ip \<or> (\<exists>l\<in>set ls. parseLeaseLine l = Some (mac, ip))"
proof (induction ls arbitrary: acc)
  case (Cons l ls)
  from Cons.IH [OF Cons.prems [unfolded foldl_Cons]] show ?case
    by (auto split: option.splits if_splits)
qed simp

text \<open>
  After the startup filter of a lease-mode bootd, every lease in the file
  belongs to a MAC address of the allowlist, while the line of every lease that does is kept as it was.
\<close>

theorem filtered_leases_are_enrolled:
  assumes "filterLeaseFile (Some content) allowed = (dropped, Some left)"
  shows "(\<forall>mac ip. map_of (readLeaseFileByMAC (Some left)) mac = Some ip \<longrightarrow> mac \<in> set allowed) \<and>
    (\<forall>l\<in>set (lease_lines content). \<forall>mac ip. parseLeaseLine l = Some (mac, ip) \<and> mac \<in> set allowed \<longrightarrow> l \<in> set (split_on (CHR 0x0A) left)) \<and>
    int dropped = int (length (lease_lines content)) - int (length (filter (kept_line allowed) (lease_lines content)))"
proof -
  let ?ls = "filter (kept_line allowed) (lease_lines content)"
  have left: "left = unlines ?ls" "dropped = length (lease_lines content) - length ?ls"
    using assms by (simp_all add: filterLeaseFile_def Let_def)
  have lines: "split_on (CHR 0x0A) left = ?ls @ [[]]"
    unfolding left(1) by (rule unlines_split) (auto simp: lease_lines_def dest: split_on_free)
  have "mac \<in> set allowed" if "map_of (readLeaseFileByMAC (Some left)) mac = Some ip" for mac ip
    using read_leases_from [of "[]" "?ls @ [[]]" mac ip] that
    by (auto simp: readLeaseFileByMAC_def lines kept_line_def parseLeaseLine_def go_fields_def)
  moreover have "l \<in> set (split_on (CHR 0x0A) left)"
    if "l \<in> set (lease_lines content)" "parseLeaseLine l = Some (mac, ip)" "mac \<in> set allowed" for l mac ip
    using that lines by (simp add: kept_line_def)
  moreover have "length ?ls \<le> length (lease_lines content)"
    by simp
  ultimately show ?thesis
    using left(2) by auto
qed

theorem filtered_leases_are_enrolled_witness:
  "\<exists>left. filterLeaseFile (Some (''9 02:00:00:00:00:0a 10.0.0.5 h *'' @ newl @ ''9 02:00:00:00:00:0b 10.0.0.6 h *'' @ newl)) [''02:00:00:00:00:0a''] = (1, Some left) \<and>
     (\<forall>mac ip. map_of (readLeaseFileByMAC (Some left)) mac = Some ip \<longrightarrow> mac \<in> set [''02:00:00:00:00:0a''])"
proof -
  let ?c = "''9 02:00:00:00:00:0a 10.0.0.5 h *'' @ newl @ ''9 02:00:00:00:00:0b 10.0.0.6 h *'' @ newl"
  have eq: "filterLeaseFile (Some ?c) [''02:00:00:00:00:0a''] = (1, Some (''9 02:00:00:00:00:0a 10.0.0.5 h *'' @ newl))"
    by code_simp
  from filtered_leases_are_enrolled [OF eq] eq show ?thesis by blast
qed


section \<open>The configuration the controller gives bootd\<close>

lemma early_return:
  "let_ok m f = Inr y \<longleftrightarrow> (\<exists>x. m = Inr x \<and> f x = Inr y)"
  "require_that b e m' = Inr y \<longleftrightarrow> b \<and> m' = Inr y"
  "(case v of None \<Rightarrow> Inl e | Some z \<Rightarrow> g z) = Inr y \<longleftrightarrow> (\<exists>z. v = Some z \<and> g z = Inr y)"
  by (auto simp: let_ok_def require_that_def split: sum.splits option.splits)

lemma config_fields:
  assumes "bootdConfigFromEnv L E = Inr bc"
  obtains serverIP net start stop gateway leaseTime where
    "parseIPv4 L (getenv E ''BOOTD_SERVER_IP'') = Some serverIP" "go_ParseNet L (getenv E ''BOOTD_PROVISIONING_CIDR'') = Some net"
    "leaseRangeFromEnv L E = Inr (start, stop)" "gatewayFromEnv L E (getenv E ''BOOTD_LEASE_MODE'' = ''true'') = Inr gateway"
    "leaseTimeFromEnv E = Inr leaseTime"
    "bcf_serverIP (bcd_server bc) = Some (Some serverIP)" "bcf_provisioningNet (bcd_server bc) = Some net"
    "bcf_leaseRangeStart (bcd_server bc) = start" "bcf_leaseRangeEnd (bcd_server bc) = stop" "bcf_gateway (bcd_server bc) = gateway"
    "bcf_leaseTime (bcd_server bc) = leaseTime" "bcf_leaseMode (bcd_server bc) \<longleftrightarrow> getenv E ''BOOTD_LEASE_MODE'' = ''true''"
    "bcf_answerAll (bcd_server bc) \<longleftrightarrow> getenv E ''BOOTD_ANSWER_ALL'' = ''true''"
    "bcd_subnetName bc = getenv E ''BOOTD_SUBNET_NAME''"
    "getenv E ''BOOTD_SUBNET_NAMESPACE'' \<noteq> '''' \<Longrightarrow> bcd_subnetNamespace bc = getenv E ''BOOTD_SUBNET_NAMESPACE''"
proof -
  obtain serverIP net grubConfig range gateway leaseTime url where
    facts: "parseIPv4 L (getenv E ''BOOTD_SERVER_IP'') = Some serverIP" "go_ParseNet L (getenv E ''BOOTD_PROVISIONING_CIDR'') = Some net"
    "leaseRangeFromEnv L E = Inr range" "gatewayFromEnv L E (getenv E ''BOOTD_LEASE_MODE'' = ''true'') = Inr gateway"
    "leaseTimeFromEnv E = Inr leaseTime"
    and bc: "Inr \<lparr>bcd_server = \<lparr>bcf_interface = getenv E ''BOOTD_DHCP_INTERFACE'', bcf_serverIP = Some (Some serverIP),
            bcf_nextServerIP = (if getenv E ''BOOTD_NEXT_SERVER_IP'' = '''' then None else go_ParseIP L (getenv E ''BOOTD_NEXT_SERVER_IP'')), bcf_provisioningNet = Some net,
            bcf_bootFilename = (if getenv E ''BOOTD_BOOT_FILENAME'' = '''' then DefaultBootFilename else getenv E ''BOOTD_BOOT_FILENAME''),
            bcf_tftpDir = getenv E ''BOOTD_TFTP_DIR'', bcf_httpBootURL = url,
            bcf_answerAll = (getenv E ''BOOTD_ANSWER_ALL'' = ''true''), bcf_leaseMode = (getenv E ''BOOTD_LEASE_MODE'' = ''true''), bcf_gateway = gateway,
            bcf_leaseRangeStart = fst range, bcf_leaseRangeEnd = snd range, bcf_leaseTime = leaseTime, bcf_leaseFilePath = ''''\<rparr>,
          bcd_tftpDir = getenv E ''BOOTD_TFTP_DIR'', bcd_tftpAddr = getenv E ''BOOTD_TFTP_ADDR'', bcd_runDir = getenv E ''BOOTD_RUN_DIR'',
          bcd_leaseDir = getenv E ''BOOTD_LEASE_DIR'', bcd_dnsmasqPath = getenv E ''BOOTD_DNSMASQ_PATH'', bcd_grubConfig = grubConfig,
          bcd_proxy = proxy_from_env E serverIP, bcd_subnetName = getenv E ''BOOTD_SUBNET_NAME'',
          bcd_subnetNamespace = (if getenv E ''BOOTD_SUBNET_NAME'' \<noteq> '''' \<and> getenv E ''BOOTD_SUBNET_NAMESPACE'' = '''' then getenv E ''POD_NAMESPACE''
                            else getenv E ''BOOTD_SUBNET_NAMESPACE'')\<rparr> = (Inr bc :: kerr + bootdConfig)"
    using assms unfolding bootdConfigFromEnv_def Let_def early_return case_prod_beta by (elim exE conjE)
  show thesis
    by (rule that [OF facts(1,2) _ facts(4,5)]) (use facts(3) bc in \<open>auto simp: prod_eq_iff\<close>)
qed

lemma map_of_either: "map_of (xs @ ys) k = (case map_of xs k of None \<Rightarrow> map_of ys k | Some v \<Rightarrow> Some v)"
  by (simp add: map_add_def)

lemma map_of_if: "map_of (if b then xs else ys) k = (if b then map_of xs k else map_of ys k)"
  by simp

lemma map_of_case: "map_of (case v of None \<Rightarrow> xs | Some z \<Rightarrow> f z) k = (case v of None \<Rightarrow> map_of xs k | Some z \<Rightarrow> map_of (f z) k)"
  by (cases v) simp_all

lemma env_values:
  assumes "\<forall>n. hasPrefix n ''BOOTD_'' \<longrightarrow> ev_lookup E n = map_of (bootdEnv sn d cfg) n" "sd_mode d = ModeLease"
  shows "getenv E ''BOOTD_SERVER_IP'' = sn_bootdServerIP sn" "getenv E ''BOOTD_PROVISIONING_CIDR'' = sn_cidr sn"
    "getenv E ''BOOTD_LEASE_MODE'' = ''true''" "getenv E ''BOOTD_ANSWER_ALL'' = ''''"
    "getenv E ''BOOTD_SUBNET_NAME'' = sn_name sn" "getenv E ''BOOTD_SUBNET_NAMESPACE'' = sn_namespace sn"
    "getenv E ''BOOTD_LEASE_RANGE_START'' = sd_leaseRangeStart d" "getenv E ''BOOTD_LEASE_RANGE_END'' = sd_leaseRangeEnd d"
    "ev_lookup E ''BOOTD_GATEWAY'' = sd_gateway d"
proof -
  have look: "ev_lookup E (''BOOTD_'' @ n) = map_of (bootdEnv sn d cfg) (''BOOTD_'' @ n)" for n
    using assms(1) by (simp add: hasPrefix_def)
  note value_of = look [of "''SERVER_IP''", simplified] look [of "''PROVISIONING_CIDR''", simplified] look [of "''LEASE_MODE''", simplified]
    look [of "''ANSWER_ALL''", simplified] look [of "''SUBNET_NAME''", simplified] look [of "''SUBNET_NAMESPACE''", simplified]
    look [of "''LEASE_RANGE_START''", simplified] look [of "''LEASE_RANGE_END''", simplified] look [of "''GATEWAY''", simplified]
  show "getenv E ''BOOTD_SERVER_IP'' = sn_bootdServerIP sn" "getenv E ''BOOTD_PROVISIONING_CIDR'' = sn_cidr sn"
    "getenv E ''BOOTD_LEASE_MODE'' = ''true''" "getenv E ''BOOTD_ANSWER_ALL'' = ''''"
    "getenv E ''BOOTD_SUBNET_NAME'' = sn_name sn" "getenv E ''BOOTD_SUBNET_NAMESPACE'' = sn_namespace sn"
    "getenv E ''BOOTD_LEASE_RANGE_START'' = sd_leaseRangeStart d" "getenv E ''BOOTD_LEASE_RANGE_END'' = sd_leaseRangeEnd d"
    "ev_lookup E ''BOOTD_GATEWAY'' = sd_gateway d"
    unfolding getenv_def value_of
    by (simp_all add: bootdEnv_def assms(2) show_bool_def map_of_either map_of_if map_of_case del: map_of_append split: option.split)
qed


lemma defaults_frame [simp]:
  "bcf_leaseRangeStart (bootd_withDefaults c) = bcf_leaseRangeStart c" "bcf_leaseRangeEnd (bootd_withDefaults c) = bcf_leaseRangeEnd c"
  "bcf_provisioningNet (bootd_withDefaults c) = bcf_provisioningNet c" "bcf_leaseMode (bootd_withDefaults c) = bcf_leaseMode c"
  "bcf_answerAll (bootd_withDefaults c) = bcf_answerAll c" "bcf_gateway (bootd_withDefaults c) = bcf_gateway c"
  by (simp_all add: bootd_withDefaults_def Let_def)

lemma defaults_range [simp]: "leaseRange (bootd_withDefaults c) = leaseRange c"
  unfolding leaseRange_def fun_eq_iff defaults_frame by blast

text \<open>
  C24: the bootd that the controller's environment configures for a lease-mode
  Subnet leases from exactly the range its reservation table allocates from: the two programs derive it
  separately, and the dnsmasq configuration bootd renders has the table's range, and the line that
  ignores every MAC address that is not enrolled. Explicit ends of the range are dotted quads, as the
  schema of the resource demands.
\<close>

theorem bootd_leases_the_reserved_range:
  assumes dhcp: "sn_dhcp sn = Some d" "sd_mode d = ModeLease"
    and env: "\<forall>n. hasPrefix n ''BOOTD_'' \<longrightarrow> ev_lookup E n = map_of (bootdEnv sn d cfg) n"
    and parsed: "bootdConfigFromEnv L E = Inr bc"
    and cidr: "parseCIDR4 (sn_cidr sn) = Some (n, m)"
    and quads: "sd_leaseRangeStart d = '''' \<or> parseIP4 (sd_leaseRangeStart d) \<noteq> None" "sd_leaseRangeEnd d = '''' \<or> parseIP4 (sd_leaseRangeEnd d) \<noteq> None"
    and rendered: "RenderDnsmasqConf L (bcd_server bc) runDir = Inr conf"
  shows "\<exists>ls s e. conf = unlines ls \<and> LeaseRange sn = Inr (s, e) \<and> range_line (bootd_withDefaults (bcd_server bc)) (Some (s, e)) n m \<in> set ls \<and>
    gate_line \<in> set ls \<and> bcd_subnetName bc = sn_name sn \<and> bcf_gateway (bcd_server bc) = sd_gateway d"
proof -
  note vars = env_values [OF env dhcp(2)]
  obtain serverIP net start stop gateway where f: "go_ParseNet L (sn_cidr sn) = Some net" "leaseRangeFromEnv L E = Inr (start, stop)"
    "gatewayFromEnv L E True = Inr gateway" "bcf_provisioningNet (bcd_server bc) = Some net"
    "bcf_leaseRangeStart (bcd_server bc) = start" "bcf_leaseRangeEnd (bcd_server bc) = stop" "bcf_gateway (bcd_server bc) = gateway"
    "bcf_leaseMode (bcd_server bc)" "\<not> bcf_answerAll (bcd_server bc)" "bcd_subnetName bc = sn_name sn"
    by (rule config_fields [OF parsed]) (simp_all add: vars)
  have net: "net = Some (n, m)"
    using f(1) cidr by (simp add: go_ParseNet_def)
  have gw: "gateway = sd_gateway d"
    using f(3) vars(9) by (auto simp: gatewayFromEnv_def split: option.splits if_splits)
  have range: "LeaseRange sn = Inr (s, e)" if "leaseRange (bootd_withDefaults (bcd_server bc)) n m = Inr (s, e)" for s e
  proof -
    have ends: "(start = None \<and> stop = None \<and> sd_leaseRangeStart d = '''') \<or>
        (start = Some (parseIP4 (sd_leaseRangeStart d)) \<and> stop = Some (parseIP4 (sd_leaseRangeEnd d)) \<and> sd_leaseRangeStart d \<noteq> '''' \<and> sd_leaseRangeEnd d \<noteq> '''')"
      using f(2) quads by (auto simp: leaseRangeFromEnv_def vars Let_def go_ParseIP_def split: if_splits)
    from ends that show ?thesis
      using cidr dhcp(1) by (elim disjE) (auto simp: leaseRange_def LeaseRange_def f To4_def split: if_splits option.splits)
  qed
  let ?c = "bootd_withDefaults (bcd_server bc)"
  obtain s e next_ip gws where ls: "leaseRange ?c n m = Inr (s, e)" "conf = unlines (conf_lines ?c runDir (Some (s, e)) n m next_ip gws)"
  proof (cases "leaseRange ?c n m")
    case (Inl err)
    then show thesis
      using rendered f(4,8) net by (simp add: RenderDnsmasqConf_def Let_def split: option.splits if_splits)
  next
    case (Inr se)
    then show thesis
      using rendered f(4,8) net that [of "fst se" "snd se"] by (auto simp: RenderDnsmasqConf_def Let_def split: option.splits if_splits sum.splits)
  qed
  have "range_line ?c (Some (s, e)) n m \<in> set (conf_lines ?c runDir (Some (s, e)) n m next_ip gws)" "gate_line \<in> set (conf_lines ?c runDir (Some (s, e)) n m next_ip gws)"
    using f(9) by (simp_all add: conf_lines_def)
  with ls range f(7,10) gw show ?thesis by blast
qed


definition lab_lease_subnet :: Subnet where
  "lab_lease_subnet = small_subnet\<lparr>sn_dhcp := Some \<lparr>sd_mode = ModeLease, sd_leaseRangeStart = '''', sd_leaseRangeEnd = '''', sd_gateway = Some '''', sd_leaseTime = None\<rparr>\<rparr>"

definition lab_lease_dhcp :: SubnetDHCP where
  "lab_lease_dhcp = \<lparr>sd_mode = ModeLease, sd_leaseRangeStart = '''', sd_leaseRangeEnd = '''', sd_gateway = Some '''', sd_leaseTime = None\<rparr>"

definition lab_environment :: bootd_env where
  "lab_environment = \<lparr>ev_lookup = map_of (bootdEnv lab_lease_subnet lab_lease_dhcp serving_config), ev_parseDuration = (\<lambda>_. Inl (PlainError ''duration''))\<rparr>"

lemma lab_config_parses:
  "map_sum id (\<lambda>bc. let c = bcd_server bc in (bcf_httpBootURL c, bcf_gateway c, bcf_leaseRangeStart c, bcf_leaseRangeEnd c, To4 (bcf_serverIP c) = None, bcf_provisioningNet c))
     (bootdConfigFromEnv no_net_lib lab_environment) = Inr ('''', Some '''', None, None, False, Some (Some (0, prefix_mask 29)))"
  by code_simp

theorem bootd_leases_the_reserved_range_witness:
  "\<exists>ls s e. LeaseRange lab_lease_subnet = Inr (s, e) \<and> gate_line \<in> set ls \<and> (\<exists>c. range_line c (Some (s, e)) 0 (prefix_mask 29) \<in> set ls)"
proof -
  obtain bc where bc: "bootdConfigFromEnv no_net_lib lab_environment = Inr bc"
    using lab_config_parses by (cases "bootdConfigFromEnv no_net_lib lab_environment") auto
  let ?c = "bootd_withDefaults (bcd_server bc)"
  have c: "bcf_httpBootURL ?c = ''''" "bcf_gateway ?c = Some ''''" "bcf_leaseRangeStart ?c = None" "bcf_leaseRangeEnd ?c = None"
    "To4 (bcf_serverIP ?c) \<noteq> None" "bcf_provisioningNet ?c = Some (Some (0, prefix_mask 29))"
    using lab_config_parses bc by (simp_all add: Let_def bootd_withDefaults_def)
  then have "leaseRange ?c 0 (prefix_mask 29) = Inr (1, 6)"
    unfolding leaseRange_def by (simp add: prefix_mask_def mask_eq_exp_minus_1)
  moreover have "\<exists>gws. gateway_lines no_net_lib ?c = Inr gws"
    using c(2) by (cases "bcf_leaseMode ?c") (simp_all add: gateway_lines_def)
  ultimately obtain conf where conf: "RenderDnsmasqConf no_net_lib (bcd_server bc) ''/run/bootd'' = Inr conf"
    using c by (cases "bcf_leaseMode ?c") (auto simp: RenderDnsmasqConf_def Let_def)
  have "sn_dhcp lab_lease_subnet = Some lab_lease_dhcp" "sd_mode lab_lease_dhcp = ModeLease" "sd_leaseRangeStart lab_lease_dhcp = ''''" "sd_leaseRangeEnd lab_lease_dhcp = ''''"
    by (simp_all add: lab_lease_subnet_def lab_lease_dhcp_def)
  moreover have "parseCIDR4 (sn_cidr lab_lease_subnet) = Some (0, prefix_mask 29)"
    by code_simp
  ultimately show ?thesis
    using bootd_leases_the_reserved_range [OF _ _ _ bc _ _ _ conf, of lab_lease_subnet lab_lease_dhcp serving_config 0 "prefix_mask 29"]
    by (auto simp: lab_environment_def)
qed

section \<open>Supervision of dnsmasq\<close>

text \<open>
  A child that keeps ending right after its start is started three times at most before bootd gives up, and
  the delay before a restart never exceeds the larger of its first value and thirty seconds.
\<close>

lemma supervise_gives_up:
  "list_all (\<lambda>u. u < window) ups \<Longrightarrow> length ups + fast \<ge> maxFastExits \<Longrightarrow> fast < maxFastExits \<Longrightarrow>
   snd (supervise window initial fast backoff ups) \<and> length (fst (supervise window initial fast backoff ups)) + 1 + fast = maxFastExits"
proof (induction ups arbitrary: fast backoff)
  case (Cons u ups)
  show ?case
  proof (cases "fast + 1 \<ge> maxFastExits")
    case True
    then show ?thesis using Cons.prems by (simp add: Let_def)
  next
    case False
    then have "snd (supervise window initial (fast + 1) (min (backoff * 2) maxBackoff) ups) \<and>
        length (fst (supervise window initial (fast + 1) (min (backoff * 2) maxBackoff) ups)) + 1 + (fast + 1) = maxFastExits"
      using Cons.prems by (intro Cons.IH) auto
    then show ?thesis
      using False Cons.prems by (auto simp: Let_def split: prod.splits)
  qed
qed (simp add: maxFastExits_def)

lemma supervise_delays:
  "backoff \<le> max initial maxBackoff \<Longrightarrow> \<forall>d\<in>set (fst (supervise window initial fast backoff ups)). d \<le> max initial maxBackoff"
proof (induction ups arbitrary: fast backoff)
  case (Cons u ups)
  have "min (b * 2) maxBackoff \<le> max initial maxBackoff" for b by simp
  with Cons show ?case
    by (auto simp: Let_def split: prod.splits) (metis fst_conv)+
qed simp

end
