(* ===== verification/Content_Demand.thy ===== *)
theory Content_Demand
  imports Plan_Builder Machine_Controller
begin

text \<open>
  What the controllers of the content plane (PartitionContent, Image, ImageImport) share: their client
  and configuration, which Image refers to which content (partitioncontent\_index.go), which Images a
  claim or a deploy run names (partitioncontent\_demand.go, partitioncontent\_finalizer.go), and the
  demand for seeders by Site (seeder\_demand.go). A Go map that is ranged over is an association list;
  the order of the range, which Go leaves open, is the order of the list.
\<close>

section \<open>Configuration and client\<close>

record PartitionContentPublishConfig =
  pu_image :: string
  pu_serviceAccountName :: string
  pu_storageClassName :: string
  pu_accessModes :: "string list"
  pu_jobTTL :: duration

record ImageSeederConfig =
  se_image :: string
  se_gracePeriod :: duration
  se_maxUploads :: int
  se_maxConnections :: int

record ImageIngestConfig =
  ig_image :: string
  ig_sourceFormat :: string
  ig_serviceAccountName :: string
  ig_scratchStorageClassName :: string
  ig_scratchSizeBytes :: int
  ig_scratchAccessModes :: "string list"
  ig_stagingPVCName :: string
  ig_imageServiceURL :: string
  ig_imageServiceToken :: string
  ig_ioBandwidthBytesPerSec :: int
  ig_unprivileged :: bool
  ig_jobTTL :: duration

text \<open>
  \<open>ck_listImages\<close> and \<open>ck_listClaimsByImage\<close> are lists through a field index; \<open>ck_listPods\<close> answers, for
  every pod of a Job, the termination message of each of its containers that has terminated.
\<close>

record 's contentkube =
  ck_getContent :: "key \<Rightarrow> 's \<Rightarrow> (kerr + PartitionContent) \<times> 's"
  ck_createContent :: "PartitionContent \<Rightarrow> 's \<Rightarrow> (kerr + PartitionContent) \<times> 's"
  ck_updateContent :: "PartitionContent \<Rightarrow> 's \<Rightarrow> (kerr + PartitionContent) \<times> 's"
  ck_patchContent :: "PartitionContent \<Rightarrow> 's \<Rightarrow> (kerr + PartitionContent) \<times> 's"
  ck_applyContentStatus :: "PartitionContent \<Rightarrow> 's \<Rightarrow> (kerr + PartitionContent) \<times> 's"
  ck_listImages :: "key \<Rightarrow> 's \<Rightarrow> (kerr + Image list) \<times> 's"
  ck_listClaimsByImage :: "key \<Rightarrow> 's \<Rightarrow> (kerr + MachineClaim list) \<times> 's"
  ck_createImage :: "Image \<Rightarrow> 's \<Rightarrow> (kerr + Image) \<times> 's"
  ck_applyImageStatus :: "Image \<Rightarrow> 's \<Rightarrow> (kerr + Image) \<times> 's"
  ck_getPVC :: "key \<Rightarrow> 's \<Rightarrow> (kerr + PVC) \<times> 's"
  ck_createPVC :: "PVC \<Rightarrow> 's \<Rightarrow> (kerr + PVC) \<times> 's"
  ck_getJob :: "key \<Rightarrow> 's \<Rightarrow> (kerr + Job) \<times> 's"
  ck_createJob :: "Job \<Rightarrow> 's \<Rightarrow> (kerr + Job) \<times> 's"
  ck_deleteJob :: "key \<Rightarrow> 's \<Rightarrow> (kerr + unit) \<times> 's"
  ck_listPods :: "key \<Rightarrow> 's \<Rightarrow> (kerr + string option list list) \<times> 's"
  ck_listDeployments :: "string \<Rightarrow> 's \<Rightarrow> (kerr + Workload.Deployment list) \<times> 's"
  ck_getDeployment :: "key \<Rightarrow> 's \<Rightarrow> (kerr + Workload.Deployment) \<times> 's"
  ck_createDeployment :: "Workload.Deployment \<Rightarrow> 's \<Rightarrow> (kerr + Workload.Deployment) \<times> 's"
  ck_patchDeployment :: "Workload.Deployment \<Rightarrow> 's \<Rightarrow> (kerr + Workload.Deployment) \<times> 's"
  ck_deleteDeployment :: "key \<Rightarrow> 's \<Rightarrow> (kerr + unit) \<times> 's"
  ck_getSite :: "key \<Rightarrow> 's \<Rightarrow> (kerr + Site) \<times> 's"
  ck_getImport :: "key \<Rightarrow> 's \<Rightarrow> (kerr + ImageImport) \<times> 's"
  ck_applyImportStatus :: "ImageImport \<Rightarrow> 's \<Rightarrow> (kerr + ImageImport) \<times> 's"
  ck_deleteImport :: "key \<Rightarrow> 's \<Rightarrow> (kerr + unit) \<times> 's"

text \<open>What an ingest or publish Job reports (internal/ingest/result.go).\<close>

record ResultPartition =
  rp_number :: int
  rp_role :: PartitionRole
  rp_fsType :: string
  rp_usedBytes :: int
  rp_sizeBytes :: int
  rp_lastExtentEnd :: int
  rp_pieceLength :: int
  rp_uuid :: string
  rp_typeGUID :: string
  rp_partUUID :: string

record ResultDisk =
  rk_sizeBytes :: int
  rk_partitionTable :: string
  rk_sfdiskJSON :: string
  rk_partitions :: "ResultPartition list"

record IngestResult =
  ir_success :: bool
  ir_error :: string
  ir_disk :: "ResultDisk option"
  ir_publish :: "string option"  \<comment> \<open>the info hash of \<^verbatim>\<open>ResultPublish\<close>\<close>

text \<open>
  \<open>ce_unmarshal\<close> is \<^verbatim>\<open>json.Unmarshal\<close> into a \<^verbatim>\<open>Result\<close>; \<open>ce_setControllerReference\<close> and
  \<open>ce_setOwnerReference\<close> are the functions of controllerutil, on the field they change; \<open>ce_parseTime\<close>
  and \<open>ce_formatTime\<close> are RFC 3339 text.
\<close>

type_synonym owner = "string \<times> string \<times> uid"

record 's content_env =
  ce_kube :: "'s kube"
  ce_client :: "'s contentkube"
  ce_lib :: libs
  ce_publish :: PartitionContentPublishConfig
  ce_seeder :: ImageSeederConfig
  ce_ingest :: ImageIngestConfig
  ce_now :: time
  ce_sha :: "string \<Rightarrow> string"
  ce_unmarshal :: "string \<Rightarrow> kerr + IngestResult"
  ce_setControllerReference :: "owner \<Rightarrow> owner option \<Rightarrow> kerr + owner option"
  ce_setOwnerReference :: "uid \<Rightarrow> uid list \<Rightarrow> kerr + uid list"
  ce_parseTime :: "string \<Rightarrow> time option"
  ce_formatTime :: "time \<Rightarrow> string"

section \<open>partitioncontent\_index.go\<close>

fun content_ref_names :: "string list \<Rightarrow> ImageSlot list \<Rightarrow> string list" where
  "content_ref_names seen_names [] = []"
| "content_ref_names seen_names (s # ss) =
     (case sl_contentRef s of
        None \<Rightarrow> content_ref_names seen_names ss
      | Some ref \<Rightarrow>
          if nr_name ref = '''' \<or> nr_name ref \<in> set seen_names then content_ref_names seen_names ss
          else nr_name ref # content_ref_names (nr_name ref # seen_names) ss)"

definition imageContentRefNames :: "Image \<Rightarrow> string list" where
  "imageContentRefNames img = content_ref_names [] (ly_slots (is_layout (im_spec img)))"

definition imageReferencesContent :: "Image \<Rightarrow> string \<Rightarrow> bool" where
  "imageReferencesContent img cname \<longleftrightarrow>
     (\<exists>slot\<in>set (ly_slots (is_layout (im_spec img))). case sl_contentRef slot of None \<Rightarrow> False | Some ref \<Rightarrow> nr_name ref = cname)"

definition mapImageToPartitionContents :: "Image \<Rightarrow> key list" where
  "mapImageToPartitionContents img = map (\<lambda>name. (im_namespace img, name)) (imageContentRefNames img)"

section \<open>Which Images a run and a claim name\<close>

definition isDeployRunActive :: "DeployRun \<Rightarrow> bool" where
  "isDeployRunActive run \<longleftrightarrow> (case phase (r_status run) of PhaseSucceeded \<Rightarrow> False | PhaseFailed \<Rightarrow> False | _ \<Rightarrow> True)"

definition ref_key :: "string \<Rightarrow> NameRef \<Rightarrow> key" where
  "ref_key defaultNS ref = (if nr_namespace ref = '''' then defaultNS else nr_namespace ref, nr_name ref)"

definition deployRunImageNames :: "DeployRun \<Rightarrow> key list" where
  "deployRunImageNames run =
     map (ref_key (r_namespace run))
       ((case rs_imageRef (r_spec run) of None \<Rightarrow> [] | Some ref \<Rightarrow> [ref]) @ map di_imageRef (elems (rs_dataImages (r_spec run))))"

fun keep_first :: "key list \<Rightarrow> key list \<Rightarrow> key list" where
  "keep_first seen_keys [] = []"
| "keep_first seen_keys (k # ks) = (if k \<in> set seen_keys then keep_first seen_keys ks else k # keep_first (k # seen_keys) ks)"

definition claimImageRefs :: "MachineClaim \<Rightarrow> key list" where
  "claimImageRefs claim = keep_first []
     (map (ref_key (cl_namespace claim))
       ((case cs_imageRef (cl_spec claim) of None \<Rightarrow> [] | Some ref \<Rightarrow> [ref]) @ map di_imageRef (elems (cs_dataImages (cl_spec claim)))))"

definition objectKeyIndexString :: "key \<Rightarrow> string" where
  "objectKeyIndexString k = fst k @ ''/'' @ snd k"

definition indexClaimImageRefs :: "MachineClaim \<Rightarrow> string list" where
  "indexClaimImageRefs claim = map objectKeyIndexString (claimImageRefs claim)"

definition imagesReferencing :: "'s content_env \<Rightarrow> PartitionContent \<Rightarrow> ('s, Image list) act" where
  "imagesReferencing r pc = kcall (ListImages (pc_namespace pc, pc_name pc)) (ck_listImages (ce_client r) (pc_namespace pc, pc_name pc))"

text \<open>The loops of activeDeployRunsReferencing: the memo of Images already read is passed along.\<close>

fun run_references :: "'s content_env \<Rightarrow> string \<Rightarrow> key list \<Rightarrow> (key \<times> bool) list \<Rightarrow> ('s, bool \<times> (key \<times> bool) list) act" where
  "run_references r name [] memo = ret (False, memo)"
| "run_references r name (k # ks) memo =
     (case map_of memo k of
        Some refs \<Rightarrow> if refs then ret (True, memo) else run_references r name ks memo
      | None \<Rightarrow>
          bindK (getOpt (kcall (GetImage k) (k_getImage (ce_kube r) k))) (\<lambda>img.
          let refs = (case img of None \<Rightarrow> False | Some i \<Rightarrow> imageReferencesContent i name);
              memo' = (k, refs) # memo
          in if refs then ret (True, memo') else run_references r name ks memo'))"

fun active_runs :: "'s content_env \<Rightarrow> string \<Rightarrow> DeployRun list \<Rightarrow> (key \<times> bool) list \<Rightarrow> ('s, DeployRun list) act" where
  "active_runs r name [] memo = ret []"
| "active_runs r name (run # runs) memo =
     (if \<not> isDeployRunActive run then active_runs r name runs memo
      else bindK (run_references r name (deployRunImageNames run) memo) (\<lambda>(refs, memo').
           bindK (active_runs r name runs memo') (\<lambda>matches. ret (if refs then run # matches else matches))))"

definition activeDeployRunsReferencing :: "'s content_env \<Rightarrow> PartitionContent \<Rightarrow> ('s, DeployRun list) act" where
  "activeDeployRunsReferencing r pc =
     bindK (kcall (ListRuns (pc_namespace pc)) (k_listRuns (ce_kube r) (pc_namespace pc))) (\<lambda>runs.
     active_runs r (pc_name pc) runs [])"

section \<open>partitioncontent\_demand.go\<close>

definition anyLiveClaim :: "MachineClaim list \<Rightarrow> bool" where
  "anyLiveClaim claims \<longleftrightarrow> (\<exists>c\<in>set claims. cl_deletionTimestamp c = None)"

definition hasLiveClaimReferencing :: "'s content_env \<Rightarrow> Image \<Rightarrow> ('s, bool) act" where
  "hasLiveClaimReferencing r img =
     (let k = (im_namespace img, im_name img)
      in bindK (kcall (ListClaimsByImage k) (ck_listClaimsByImage (ce_client r) k)) (\<lambda>claims. ret (anyLiveClaim claims)))"

fun any_live_image :: "'s content_env \<Rightarrow> Image list \<Rightarrow> ('s, bool) act" where
  "any_live_image r [] = ret False"
| "any_live_image r (i # imgs) =
     bindK (wrapK ''listing claims referencing image'' (hasLiveClaimReferencing r i)) (\<lambda>live. if live then ret True else any_live_image r imgs)"

definition resolveSeedDemand :: "'s content_env \<Rightarrow> PartitionContent \<Rightarrow> ('s, bool) act" where
  "resolveSeedDemand r pc =
     bindK (wrapK ''listing referencing images'' (imagesReferencing r pc)) (\<lambda>images.
     bindK (any_live_image r images) (\<lambda>live.
     if live then ret True
     else bindK (wrapK ''listing referencing deploy runs'' (activeDeployRunsReferencing r pc)) (\<lambda>runs. ret (runs \<noteq> []))))"

definition machineClaimImageRefs :: "'s kube \<Rightarrow> Machine \<Rightarrow> ('s, key list) act" where
  "machineClaimImageRefs k machine =
     bindK (resolveClaimIntent k machine) (\<lambda>claim. ret (case claim of None \<Rightarrow> [] | Some c \<Rightarrow> claimImageRefs c))"

fun content_requests :: "'s content_env \<Rightarrow> key list \<Rightarrow> key list \<Rightarrow> ('s, key list) act" where
  "content_requests r seen_keys [] = ret []"
| "content_requests r seen_keys (ref # refs) =
     bindK (attempt (kcall (GetImage ref) (k_getImage (ce_kube r) ref))) (\<lambda>x. case x of
         Inl e \<Rightarrow> content_requests r seen_keys refs
       | Inr img \<Rightarrow>
           (let fresh = filter (\<lambda>k. k \<notin> set seen_keys) (mapImageToPartitionContents img)
            in bindK (content_requests r (fresh @ seen_keys) refs) (\<lambda>rest. ret (fresh @ rest))))"

definition imageRefsToPartitionContentRequests :: "'s content_env \<Rightarrow> key list \<Rightarrow> ('s, key list) act" where
  "imageRefsToPartitionContentRequests r refs = content_requests r [] refs"

definition mapMachineToPartitionContents :: "'s content_env \<Rightarrow> Machine \<Rightarrow> ('s, key list) act" where
  "mapMachineToPartitionContents r machine =
     bindK (attempt (machineClaimImageRefs (ce_kube r) machine)) (\<lambda>x. case x of
         Inl e \<Rightarrow> ret [] | Inr refs \<Rightarrow> imageRefsToPartitionContentRequests r refs)"

definition mapMachineClaimToPartitionContents :: "'s content_env \<Rightarrow> MachineClaim \<Rightarrow> ('s, key list) act" where
  "mapMachineClaimToPartitionContents r claim = imageRefsToPartitionContentRequests r (claimImageRefs claim)"

definition mapDeployRunToPartitionContents :: "'s content_env \<Rightarrow> DeployRun \<Rightarrow> ('s, key list) act" where
  "mapDeployRunToPartitionContents r run = imageRefsToPartitionContentRequests r (deployRunImageNames run)"

section \<open>seeder\_demand.go\<close>

record seederSiteDemand =
  dm_count :: int
  dm_resolution :: Resolution

definition machineDeployPending :: "'s kube \<Rightarrow> Machine \<Rightarrow> MachineClaim \<Rightarrow> ('s, bool) act" where
  "machineDeployPending k machine claim =
     (if isEmptyDeployPayload (Some claim) then ret False
      else case lastSuccessfulRunRef (m_status machine) of
        None \<Rightarrow> ret True
      | Some ref \<Rightarrow>
          (let key = ref_key (m_namespace machine) ref in
           bindK (getOpt (kcall (GetRun key) (k_getRun k key))) (\<lambda>run. ret (case run of
               None \<Rightarrow> True
             | Some rn \<Rightarrow> \<not> nameRefEqual (cs_imageRef (cl_spec claim)) (rs_imageRef (r_spec rn)) \<or>
                 cs_dataImages (cl_spec claim) \<noteq> rs_dataImages (r_spec rn)))))"

fun demanding_machines :: "'s kube \<Rightarrow> key \<Rightarrow> Machine list \<Rightarrow> ('s, Machine list) act" where
  "demanding_machines k img [] = ret []"
| "demanding_machines k img (m # ms) =
     (if m_deletionTimestamp m \<noteq> None then demanding_machines k img ms
      else bindK (resolveClaimIntent k m) (\<lambda>claim. case claim of
          None \<Rightarrow> demanding_machines k img ms
        | Some c \<Rightarrow>
            if img \<notin> set (claimImageRefs c) then demanding_machines k img ms
            else bindK (if m_state m = Provisioned then machineDeployPending k m c else ret True) (\<lambda>pending.
                 bindK (demanding_machines k img ms) (\<lambda>rest. ret (if pending then m # rest else rest)))))"

definition machinesReferencingImage :: "'s kube \<Rightarrow> key \<Rightarrow> ('s, Machine list) act" where
  "machinesReferencingImage k img =
     bindK (kcall (ListMachines (fst img)) (k_listMachines k (fst img))) (demanding_machines k img)"

text \<open>The part of the client that sitederive reads.\<close>

definition site_reader :: "'s content_env \<Rightarrow> 's world reader" where
  "site_reader r = \<lparr>rd_machineHardware = (\<lambda>_. raise NotFound), rd_image = (\<lambda>_. raise NotFound), rd_partitionContent = (\<lambda>_. raise NotFound),
     rd_postHook = (\<lambda>_. raise NotFound), rd_configMap = (\<lambda>_. raise NotFound), rd_secret = (\<lambda>_. raise NotFound),
     rd_subnet = (\<lambda>k. kcall (GetSubnet k) (k_getSubnet (ce_kube r) k)),
     rd_site = (\<lambda>k. kcall (GetSite k) (ck_getSite (ce_client r) k)),
     rd_deployment = (\<lambda>_. raise NotFound), rd_pods = (\<lambda>_ _. raise NotFound)\<rparr>"

definition count_site :: "Resolution \<Rightarrow> (string \<times> seederSiteDemand) list \<Rightarrow> (string \<times> seederSiteDemand) list" where
  "count_site res demand =
     (case map_of demand (sr_siteIdentity res) of
        None \<Rightarrow> demand @ [(sr_siteIdentity res, \<lparr>dm_count = 1, dm_resolution = res\<rparr>)]
      | Some _ \<Rightarrow> map (\<lambda>(s, d). if s = sr_siteIdentity res then (s, d\<lparr>dm_count := dm_count d + 1\<rparr>) else (s, d)) demand)"

fun demand_sites :: "'s content_env \<Rightarrow> Machine list \<Rightarrow> (string \<times> seederSiteDemand) list \<Rightarrow> string list \<Rightarrow> ('s, (string \<times> seederSiteDemand) list \<times> string list) act" where
  "demand_sites r [] demand none = ret (demand, sort (remdups none))"
| "demand_sites r (m # ms) demand none =
     bindK (attempt (Resolve (site_reader r) m)) (\<lambda>x. case x of
         Inl e \<Rightarrow> demand_sites r ms demand none
       | Inr res \<Rightarrow> if \<not> sr_hasSeeder res then demand_sites r ms demand (sr_siteIdentity res # none)
                   else demand_sites r ms (count_site res demand) none)"

definition seederDemandBySite :: "'s content_env \<Rightarrow> (key \<times> Machine) list \<Rightarrow> ('s, (string \<times> seederSiteDemand) list \<times> string list) act" where
  "seederDemandBySite r machines = demand_sites r (map snd machines) [] []"

text \<open>
  Both callers add the Machine of every active run they found: a Machine already there is kept, one
  that cannot be read is left out.
\<close>

fun add_run_machines :: "'s content_env \<Rightarrow> DeployRun list \<Rightarrow> (key \<times> Machine) list \<Rightarrow> ('s, (key \<times> Machine) list) act" where
  "add_run_machines r [] machines = ret machines"
| "add_run_machines r (run # runs) machines =
     (let k = ref_key (r_namespace run) (rs_machineRef (r_spec run)) in
      if map_of machines k \<noteq> None then add_run_machines r runs machines
      else bindK (attempt (kcall (GetMachine k) (k_getMachine (ce_kube r) k))) (\<lambda>x. case x of
          Inl e \<Rightarrow> add_run_machines r runs machines
        | Inr m \<Rightarrow> add_run_machines r runs (machines @ [(k, m)])))"

definition put_machine :: "Machine \<Rightarrow> (key \<times> Machine) list \<Rightarrow> (key \<times> Machine) list" where
  "put_machine m machines = alist_put (m_namespace m, m_name m) m machines"

end
