(* ===== verification/Content_Controller.thy ===== *)
theory Content_Controller
  imports Content_Demand
begin

text \<open>
  The PartitionContent controller (partitioncontent\_*.go): the volume and the publish Job of a content,
  the publish walk Pending, Publishing, Ready or Failed, the finalizer that keeps a content while it is
  referenced, and the reflection of the seeders that serve it. With it the reading of a Job's result
  and the listing of an Image's seeder Deployments, which the other two controllers use as well.
  A status write answers with the object as the server stored it.
\<close>

section \<open>Names\<close>

definition k8sNameMaxLength :: nat where
  "k8sNameMaxLength = 63"

definition truncatedName :: "(string \<Rightarrow> string) \<Rightarrow> string \<Rightarrow> nat \<Rightarrow> string" where
  "truncatedName sha base max_len =
     (if length base \<le> max_len then base
      else (let suffix = ''-'' @ hex_encode (take 4 (sha base)); keep = max_len - length suffix in take keep base @ suffix))"

definition publishJobNamePrefix :: string where
  "publishJobNamePrefix = ''pc-publish-''"

definition publishJobName :: "(string \<Rightarrow> string) \<Rightarrow> string \<Rightarrow> string" where
  "publishJobName sha cname = truncatedName sha (publishJobNamePrefix @ cname) k8sNameMaxLength"

definition ingestScratchPVCNamePrefix :: string where
  "ingestScratchPVCNamePrefix = ''image-ingest-scratch-''"

definition ingestScratchPVCName :: "(string \<Rightarrow> string) \<Rightarrow> string \<Rightarrow> string" where
  "ingestScratchPVCName sha importName = truncatedName sha (ingestScratchPVCNamePrefix @ importName) k8sNameMaxLength"

definition DefaultWorkDir :: string where
  "DefaultWorkDir = ''/work''"

definition ContentMountRoot :: string where
  "ContentMountRoot = ''/content''"

text \<open>\<^verbatim>\<open>filepath.Join\<close> of the root and a file name.\<close>

definition ContentMountPath :: "string \<Rightarrow> string" where
  "ContentMountPath cname = ContentMountRoot @ ''/'' @ PVCName cname"

section \<open>partitioncontent\_config.go\<close>

definition defaultPublishJobTTL :: duration where
  "defaultPublishJobTTL = 60 * minute"

definition accessModes :: "PartitionContentPublishConfig \<Rightarrow> string list" where
  "accessModes cfg = (if pu_accessModes cfg \<noteq> [] then pu_accessModes cfg else [''ReadWriteMany''])"

definition publish_ready :: "PartitionContentPublishConfig \<Rightarrow> bool" where
  "publish_ready cfg \<longleftrightarrow> pu_image cfg \<noteq> ''''"

text \<open>The conversion of a number of seconds to \<^verbatim>\<open>int32\<close>, shared by the publish and the ingest Job.\<close>

definition ttl_seconds :: "duration \<Rightarrow> duration \<Rightarrow> int" where
  "ttl_seconds ttl default_ttl = wrap32 ((if ttl \<le> 0 then default_ttl else ttl) div second)"

definition jobTTLSeconds :: "PartitionContentPublishConfig \<Rightarrow> int" where
  "jobTTLSeconds cfg = ttl_seconds (pu_jobTTL cfg) defaultPublishJobTTL"

section \<open>partitioncontent\_status.go\<close>

definition PartitionContentConditionValid :: string where
  "PartitionContentConditionValid = ''Valid''"
definition PartitionContentConditionSeederDegraded :: string where
  "PartitionContentConditionSeederDegraded = ''SeederDegraded''"
definition PartitionContentConditionDeletionBlocked :: string where
  "PartitionContentConditionDeletionBlocked = ''DeletionBlocked''"
definition PartitionContentFinalizer :: string where
  "PartitionContentFinalizer = ''kezio.kojuro.date/partitioncontent''"

definition put_condition :: "libs \<Rightarrow> string \<Rightarrow> cond_status \<Rightarrow> string \<Rightarrow> string \<Rightarrow> PartitionContent \<Rightarrow> PartitionContent" where
  "put_condition L ctype status reason message pc =
     pc\<lparr>pc_conditions := setStatusCondition L (pc_conditions pc)
       \<lparr>c_type = ctype, c_status = status, c_observedGeneration = pc_generation pc, c_reason = reason, c_message = message\<rparr>\<rparr>"

definition setPartitionContentReadyCondition :: "libs \<Rightarrow> cond_status \<Rightarrow> string \<Rightarrow> string \<Rightarrow> PartitionContent \<Rightarrow> PartitionContent" where
  "setPartitionContentReadyCondition L status reason message pc = put_condition L PartitionContentConditionReady status reason message pc"

definition setPartitionContentValidCondition :: "libs \<Rightarrow> PartitionContent \<Rightarrow> PartitionContent" where
  "setPartitionContentValidCondition L pc =
     put_condition L PartitionContentConditionValid CondTrue ''SpecValid'' ''spec is CEL-validated at admission'' pc"

definition setPartitionContentSeederDegradedCondition :: "libs \<Rightarrow> cond_status \<Rightarrow> string \<Rightarrow> string \<Rightarrow> PartitionContent \<Rightarrow> PartitionContent" where
  "setPartitionContentSeederDegradedCondition L status reason message pc =
     put_condition L PartitionContentConditionSeederDegraded status reason message pc"

definition setPartitionContentDeletionBlockedCondition :: "libs \<Rightarrow> string \<Rightarrow> string \<Rightarrow> PartitionContent \<Rightarrow> PartitionContent" where
  "setPartitionContentDeletionBlockedCondition L reason message pc =
     put_condition L PartitionContentConditionDeletionBlocked CondTrue reason message pc"

definition applyPartitionContentStatus :: "'s content_env \<Rightarrow> PartitionContent \<Rightarrow> call list \<Rightarrow> ('s, PartitionContent) act" where
  "applyPartitionContentStatus r pc onSuccess =
     bindK (kcall (ApplyContentStatus pc) (ck_applyContentStatus (ce_client r) pc)) (\<lambda>pc'. bindK (note_calls onSuccess) (\<lambda>_. ret pc'))"

section \<open>partitioncontent\_pvc.go\<close>

definition partitionContentPVCHeadroomBytes :: int where
  "partitionContentPVCHeadroomBytes = 32 * 1024 * 1024"

definition partitionContentPVCSize :: "int \<Rightarrow> int" where
  "partitionContentPVCSize sizeBytes =
     (let requested = wrap64 (sizeBytes + partitionContentPVCHeadroomBytes)
      in if requested < partitionContentPVCHeadroomBytes then partitionContentPVCHeadroomBytes else requested)"

definition buildContentPVC :: "'s content_env \<Rightarrow> PartitionContent \<Rightarrow> string \<Rightarrow> PVC" where
  "buildContentPVC r pc name =
     \<lparr>pvc_name = name, pvc_namespace = pc_namespace pc,
      pvc_labels = [(''app.kubernetes.io/component'', ''partition-content''), (''app.kubernetes.io/name'', ''kezio'')], pvc_owner = None,
      pvc_accessModes = accessModes (ce_publish r), pvc_bytes = partitionContentPVCSize (ct_sizeBytes (pc_spec pc)),
      pvc_storageClass = (if pu_storageClassName (ce_publish r) \<noteq> '''' then Some (pu_storageClassName (ce_publish r)) else None)\<rparr>"

definition content_owner :: "PartitionContent \<Rightarrow> owner" where
  "content_owner pc = (''PartitionContent'', pc_name pc, pc_uid pc)"

definition ensureContentPVC :: "'s content_env \<Rightarrow> PartitionContent \<Rightarrow> ('s, PVC) act" where
  "ensureContentPVC r pc =
     (let name = PVCName (pc_name pc); key = (pc_namespace pc, name) in
      bindK (wrapK ''getting content PVC'' (getOpt (kcall (GetPVC key) (ck_getPVC (ce_client r) key)))) (\<lambda>existing. case existing of
          Some pvc \<Rightarrow> ret pvc
        | None \<Rightarrow>
            (let pvc = buildContentPVC r pc name in
             case ce_setControllerReference r (content_owner pc) (pvc_owner pvc) of
               Inl e \<Rightarrow> raise (Wrapped ''setting content PVC owner reference'' e)
             | Inr own \<Rightarrow>
                 (let pvc' = pvc\<lparr>pvc_owner := own\<rparr> in
                  bindK (create_or_exists ''creating content PVC'' (kcall (CreatePVC pvc') (ck_createPVC (ce_client r) pvc'))) (\<lambda>_. ret pvc')))))"

section \<open>partitioncontent\_job.go\<close>

definition publish_labels :: "(string \<times> string) list" where
  "publish_labels = [(''app.kubernetes.io/component'', ''partition-content-publish''), (''app.kubernetes.io/name'', ''kezio'')]"

definition buildPublishJob :: "'s content_env \<Rightarrow> PartitionContent \<Rightarrow> string \<Rightarrow> Job" where
  "buildPublishJob r pc pvcName =
     (let scratch = ingestScratchPVCName (ce_sha r) (ct_importName (pc_spec pc));
          sourceContentDir = DefaultWorkDir @ ''/content-'' @ show_int (ct_partitionNumber (pc_spec pc)) in
      \<lparr>job_name = publishJobName (ce_sha r) (pc_name pc), job_namespace = pc_namespace pc, job_labels = publish_labels, job_owner = None,
       job_ttlSeconds = jobTTLSeconds (ce_publish r), job_privileged = False,
       job_template = \<lparr>pt_labels = publish_labels, pt_annotations = [], pt_serviceAccountName = pu_serviceAccountName (ce_publish r),
         pt_nodeSelector = [], pt_initContainers = [],
         pt_containers = [\<lparr>co_name = ''publish'', co_image = pu_image (ce_publish r), co_command = [], co_args = [],
           co_env = [(''INGEST_MODE'', ''publish''), (''PARTITION_CONTENT_NAME'', pc_name pc), (''SOURCE_CONTENT_DIR'', sourceContentDir)],
           co_mounts = [\<lparr>vm_name = ''content'', vm_path = ContentMountPath (pc_name pc), vm_readOnly = False\<rparr>,
             \<lparr>vm_name = ''scratch'', vm_path = DefaultWorkDir, vm_readOnly = True\<rparr>]\<rparr>],
         pt_volumes = [(''content'', FromPVC pvcName), (''scratch'', FromPVCReadOnly scratch)]\<rparr>,
       job_succeeded = 0, job_failed = 0\<rparr>)"

definition publishJobFor :: "'s content_env \<Rightarrow> PartitionContent \<Rightarrow> ('s, Job option) act" where
  "publishJobFor r pc =
     (let key = (pc_namespace pc, publishJobName (ce_sha r) (pc_name pc))
      in wrapK ''getting publish job'' (getOpt (kcall (GetJob key) (ck_getJob (ce_client r) key))))"

definition createPublishJob :: "'s content_env \<Rightarrow> PartitionContent \<Rightarrow> string \<Rightarrow> ('s, unit) act" where
  "createPublishJob r pc pvcName =
     (let job = buildPublishJob r pc pvcName in
      case ce_setControllerReference r (content_owner pc) (job_owner job) of
        Inl e \<Rightarrow> raise (Wrapped ''setting publish job owner reference'' e)
      | Inr own \<Rightarrow>
          (let job' = job\<lparr>job_owner := own\<rparr>
           in create_or_exists ''creating publish job'' (kcall (CreateJob job') (ck_createJob (ce_client r) job'))))"

section \<open>The outcome of a Job\<close>

datatype jobOutcome = JobRunning | JobSucceeded | JobFailed

definition outcomeOf :: "Job \<Rightarrow> jobOutcome" where
  "outcomeOf job = (if job_succeeded job > 0 then JobSucceeded else if job_failed job > 0 then JobFailed else JobRunning)"

definition readJobResult :: "'s content_env \<Rightarrow> string \<Rightarrow> Job \<Rightarrow> ('s, IngestResult) act" where
  "readJobResult r ns job =
     bindK (wrapK ''listing pods for job'' (kcall (ListPods (ns, job_name job)) (ck_listPods (ce_client r) (ns, job_name job)))) (\<lambda>pods.
     case find (\<lambda>m. m \<noteq> None \<and> m \<noteq> Some '''') (concat pods) of
       Some (Some message) \<Rightarrow>
         (case ce_unmarshal r message of Inl e \<Rightarrow> raise (Wrapped ''parse ingest result'' e) | Inr result \<Rightarrow> ret result)
     | _ \<Rightarrow> raise (PlainError ''job completed with no pod termination message''))"

section \<open>partitioncontent\_controller.go: the publish walk\<close>

definition publishPollInterval :: duration where
  "publishPollInterval = 30 * second"

definition pvc_ref :: "PVC \<Rightarrow> NameRef" where
  "pvc_ref pvc = \<lparr>nr_namespace = '''', nr_name = pvc_name pvc\<rparr>"

definition recordContentPending :: "'s content_env \<Rightarrow> PartitionContent \<Rightarrow> PVC \<Rightarrow> ('s, ctrl_result) act" where
  "recordContentPending r pc pvc =
     (let pc1 = setPartitionContentReadyCondition (ce_lib r) CondFalse ''PublishConfigMissing''
            ''no publish Job image is configured on the manager; content stays Pending until it is''
            (pc\<lparr>pc_state := ContentPending, pc_pvcRef := Some (pvc_ref pvc)\<rparr>)
      in bindK (wrapK ''recording Pending'' (applyPartitionContentStatus r pc1 [])) (\<lambda>_. ret noRequeue))"

definition recordContentPublishing :: "'s content_env \<Rightarrow> PartitionContent \<Rightarrow> PVC \<Rightarrow> ('s, ctrl_result) act" where
  "recordContentPublishing r pc pvc =
     (let pc1 = setPartitionContentReadyCondition (ce_lib r) CondFalse ''Publishing'' ''publish job is running''
            (pc\<lparr>pc_state := ContentPublishing, pc_pvcRef := Some (pvc_ref pvc)\<rparr>)
      in bindK (wrapK ''recording Publishing'' (applyPartitionContentStatus r pc1 [])) (\<lambda>_. ret (requeueIn publishPollInterval)))"

definition recordContentReady :: "'s content_env \<Rightarrow> PartitionContent \<Rightarrow> PVC \<Rightarrow> string \<Rightarrow> ('s, ctrl_result) act" where
  "recordContentReady r pc pvc infoHash =
     (let pc1 = setPartitionContentReadyCondition (ce_lib r) CondTrue ''PublishJobSucceeded''
            ''publish job succeeded; torrent.info is present in the content PVC''
            (pc\<lparr>pc_state := ContentReady, pc_pvcRef := Some (pvc_ref pvc), pc_infoHash := infoHash\<rparr>)
      in bindK (wrapK ''recording Ready'' (applyPartitionContentStatus r pc1 [Event ''PartitionContentReady''])) (\<lambda>_. ret noRequeue))"

definition recordContentFailedMessage :: "'s content_env \<Rightarrow> PartitionContent \<Rightarrow> string \<Rightarrow> ('s, ctrl_result) act" where
  "recordContentFailedMessage r pc message =
     (let pc1 = setPartitionContentReadyCondition (ce_lib r) CondFalse ''PublishJobFailed'' message (pc\<lparr>pc_state := ContentFailed\<rparr>)
      in bindK (wrapK ''recording Failed'' (applyPartitionContentStatus r pc1 [Event ''PartitionContentPublishFailed''])) (\<lambda>_. ret noRequeue))"

definition recordContentFailed :: "'s content_env \<Rightarrow> PartitionContent \<Rightarrow> Job \<Rightarrow> ('s, ctrl_result) act" where
  "recordContentFailed r pc job = recordContentFailedMessage r pc (''publish job '' @ go_quote (job_name job) @ '' failed'')"

definition completePublish :: "'s content_env \<Rightarrow> PartitionContent \<Rightarrow> PVC \<Rightarrow> Job \<Rightarrow> ('s, ctrl_result) act" where
  "completePublish r pc pvc job =
     bindK (attempt (readJobResult r (pc_namespace pc) job)) (\<lambda>x. case x of
         Inl e \<Rightarrow> recordContentFailedMessage r pc (''reading publish result: '' @ error_text e)
       | Inr result \<Rightarrow>
           if \<not> ir_success result then recordContentFailedMessage r pc (''publish job reported failure: '' @ ir_error result)
           else case ir_publish result of
             None \<Rightarrow> recordContentFailedMessage r pc ''publish job reported success with no info hash''
           | Some infoHash \<Rightarrow>
               if infoHash = '''' then recordContentFailedMessage r pc ''publish job reported success with no info hash''
               else case ParseInfoHash infoHash of
                 Inl e \<Rightarrow> recordContentFailedMessage r pc (''publish job reported an invalid info hash: '' @ error_text e)
               | Inr _ \<Rightarrow> recordContentReady r pc pvc infoHash)"

section \<open>partitioncontent\_seeder.go\<close>

definition imageSeederSiteAnnotation :: string where
  "imageSeederSiteAnnotation = ''kezio.kojuro.date/seeder-site''"

definition site_of_deployment :: "Workload.Deployment \<Rightarrow> string" where
  "site_of_deployment dep = (case map_of (dpl_annotations dep) imageSeederSiteAnnotation of None \<Rightarrow> '''' | Some s \<Rightarrow> s)"

text \<open>listImageSeederDeployments of image\_seeder\_placement.go; a later Deployment of a Site replaces an earlier one.\<close>

definition own_seeders :: "Image \<Rightarrow> Workload.Deployment list \<Rightarrow> (string \<times> Workload.Deployment) list" where
  "own_seeders img items =
     foldl (\<lambda>out dep. if map_of (dpl_labels dep) ''app.kubernetes.io/component'' = Some ''image-seeder'' \<and>
          controlled_by (dpl_owner dep) (im_uid img) \<and> site_of_deployment dep \<noteq> ''''
        then alist_put (site_of_deployment dep) dep out else out) [] items"

definition listImageSeederDeployments :: "'s content_env \<Rightarrow> Image \<Rightarrow> ('s, (string \<times> Workload.Deployment) list) act" where
  "listImageSeederDeployments r img =
     bindK (wrapK ''list seeder deployments'' (kcall (ListDeployments (im_namespace img)) (ck_listDeployments (ce_client r) (im_namespace img)))) (\<lambda>items.
     ret (own_seeders img items))"

definition seeder_ready :: "ImageSeederConfig \<Rightarrow> bool" where
  "seeder_ready cfg \<longleftrightarrow> se_image cfg \<noteq> ''''"

record seederSiteFindings =
  sf_sites :: "PartitionContentSeederSite list"
  sf_demandBySite :: "(string \<times> seederSiteDemand) list"
  sf_noSeederSites :: "string list"

fun image_machines :: "'s content_env \<Rightarrow> Image list \<Rightarrow> (key \<times> Machine) list \<Rightarrow> ('s, (key \<times> Machine) list) act" where
  "image_machines r [] machines = ret machines"
| "image_machines r (i # imgs) machines =
     bindK (wrapK ''listing machines referencing image'' (machinesReferencingImage (ce_kube r) (im_namespace i, im_name i))) (\<lambda>live.
     image_machines r imgs (fold put_machine live machines))"

definition demandMachinesForContent :: "'s content_env \<Rightarrow> PartitionContent \<Rightarrow> Image list \<Rightarrow> ('s, (key \<times> Machine) list) act" where
  "demandMachinesForContent r pc images =
     bindK (image_machines r images []) (\<lambda>machines.
     bindK (wrapK ''listing referencing deploy runs'' (activeDeployRunsReferencing r pc)) (\<lambda>runs. add_run_machines r runs machines))"

fun available_sites :: "'s content_env \<Rightarrow> Image list \<Rightarrow> ('s, string list) act" where
  "available_sites r [] = ret []"
| "available_sites r (i # imgs) =
     bindK (wrapK ''listing seeder deployments for image'' (listImageSeederDeployments r i)) (\<lambda>deps.
     bindK (available_sites r imgs) (\<lambda>rest.
     ret (map fst (filter (\<lambda>(_, d). dpl_deletionTimestamp d = None \<and> dpl_availableReplicas d > 0) deps) @ rest)))"

definition collectSeederSites :: "'s content_env \<Rightarrow> PartitionContent \<Rightarrow> Image list \<Rightarrow> ('s, seederSiteFindings) act" where
  "collectSeederSites r pc images =
     bindK (demandMachinesForContent r pc images) (\<lambda>machines.
     bindK (seederDemandBySite r machines) (\<lambda>(demand, noSeederSites).
     bindK (available_sites r images) (\<lambda>sites.
     ret \<lparr>sf_sites = map (\<lambda>s. \<lparr>ps_site = s, ps_machineCount = wrap32 (case map_of demand s of None \<Rightarrow> 0 | Some d \<Rightarrow> dm_count d)\<rparr>) (sort (remdups sites)),
          sf_demandBySite = demand, sf_noSeederSites = noSeederSites\<rparr>)))"

definition unavailable_causes :: "'s content_env \<Rightarrow> seederSiteFindings \<Rightarrow> (string \<times> string) list" where
  "unavailable_causes r findings =
     (let causes =
        (if sf_demandBySite findings \<noteq> [] \<and> \<not> seeder_ready (ce_seeder r) then
           [(''SeederImageUnconfigured'', ''no seeder image is configured on the manager (PARTITIONCONTENT_SEEDER_IMAGE); '' @
             ''seeding is demanded but no seeder Deployment can be created until it is set'')] else []) @
        (if sf_noSeederSites findings \<noteq> [] then
           [(''SeederSubnetRefUnset'', ''Site.spec.seederSubnetRef is unset for site(s) '' @ join_with '', '' (sf_noSeederSites findings) @
             ''; no seeder Deployment is created there, so machines there cannot build a deploy plan for this content until it is set'')] else [])
      in if causes = [] then
           [(''SeederUnavailable'', ''seeding is demanded but no Site has a seeder deployment with an available replica yet'')]
         else causes)"

definition recordSeederUnavailable :: "'s content_env \<Rightarrow> seederSiteFindings \<Rightarrow> PartitionContent \<Rightarrow> PartitionContent" where
  "recordSeederUnavailable r findings pc =
     (case unavailable_causes r findings of
        [(reason, message)] \<Rightarrow> setPartitionContentSeederDegradedCondition (ce_lib r) CondTrue reason message pc
      | causes \<Rightarrow> setPartitionContentSeederDegradedCondition (ce_lib r) CondTrue ''SeederDegraded'' (join_with ''; '' (map snd causes)) pc)"

definition recordSeederStatus :: "'s content_env \<Rightarrow> PartitionContent \<Rightarrow> seederSiteFindings \<Rightarrow> bool \<Rightarrow> ('s, ctrl_result) act" where
  "recordSeederStatus r pc findings demand =
     (let pc1 = pc\<lparr>pc_seeders := sf_sites findings\<rparr>;
          pc2 = (if \<not> demand then pc1\<lparr>pc_conditions := removeStatusCondition (ce_lib r) (pc_conditions pc1) PartitionContentConditionSeederDegraded\<rparr>
                 else if sf_sites findings \<noteq> [] then
                   setPartitionContentSeederDegradedCondition (ce_lib r) CondFalse ''SeederAvailable''
                     ''at least one Site has a seeder deployment with an available replica'' pc1
                 else recordSeederUnavailable r findings pc1)
      in bindK (wrapK ''recording seeder status'' (applyPartitionContentStatus r pc2 [])) (\<lambda>_. ret noRequeue))"

definition reconcileSeeder :: "'s content_env \<Rightarrow> PartitionContent \<Rightarrow> ('s, ctrl_result) act" where
  "reconcileSeeder r pc =
     bindK (wrapK ''listing referencing images'' (imagesReferencing r pc)) (\<lambda>images.
     bindK (resolveSeedDemand r pc) (\<lambda>demand.
     bindK (collectSeederSites r pc images) (\<lambda>findings. recordSeederStatus r pc findings demand)))"

text \<open>mapSeederDeploymentToPartitionContents: the owner of a seeder Deployment is its Image.\<close>

definition mapSeederDeploymentToPartitionContents :: "'s content_env \<Rightarrow> Workload.Deployment \<Rightarrow> ('s, key list) act" where
  "mapSeederDeploymentToPartitionContents r dep =
     (if map_of (dpl_labels dep) ''app.kubernetes.io/component'' \<noteq> Some ''image-seeder'' then ret []
      else case dpl_owner dep of
        None \<Rightarrow> ret []
      | Some (okind, imageName, _) \<Rightarrow>
          if okind \<noteq> ''Image'' \<or> imageName = '''' then ret []
          else bindK (attempt (kcall (GetImage (dpl_namespace dep, imageName)) (k_getImage (ce_kube r) (dpl_namespace dep, imageName)))) (\<lambda>x. case x of
              Inl e \<Rightarrow> ret [] | Inr img \<Rightarrow> ret (mapImageToPartitionContents img)))"

section \<open>partitioncontent\_controller.go: a pass\<close>

definition onChangeContent :: "'s content_env \<Rightarrow> PartitionContent \<Rightarrow> ('s, ctrl_result) act" where
  "onChangeContent r pc0 =
     bindK (ensureContentPVC r pc0) (\<lambda>pvc.
     let pc = setPartitionContentValidCondition (ce_lib r) pc0 in
     if pc_state pc = ContentReady then reconcileSeeder r pc
     else bindK (publishJobFor r pc) (\<lambda>job. case job of
         None \<Rightarrow>
           if \<not> publish_ready (ce_publish r) then recordContentPending r pc pvc
           else bindK (createPublishJob r pc (pvc_name pvc)) (\<lambda>_. recordContentPublishing r pc pvc)
       | Some j \<Rightarrow> (case outcomeOf j of
             JobSucceeded \<Rightarrow> completePublish r pc pvc j
           | JobFailed \<Rightarrow> recordContentFailed r pc j
           | JobRunning \<Rightarrow> recordContentPublishing r pc pvc)))"

section \<open>partitioncontent\_finalizer.go\<close>

definition deletionBlockRequeueInterval :: duration where
  "deletionBlockRequeueInterval = 30 * second"

definition maxBlockingRefsNamed :: nat where
  "maxBlockingRefsNamed = 5"

definition blockingReferences :: "'s content_env \<Rightarrow> PartitionContent \<Rightarrow> ('s, string list) act" where
  "blockingReferences r pc =
     bindK (wrapK ''listing referencing images'' (imagesReferencing r pc)) (\<lambda>images.
     bindK (wrapK ''listing referencing deploy runs'' (activeDeployRunsReferencing r pc)) (\<lambda>runs.
     ret (sort (map (\<lambda>i. ''image/'' @ im_name i) images @ map (\<lambda>run. ''deployrun/'' @ r_name run) runs))))"

definition formatBlockers :: "string list \<Rightarrow> string" where
  "formatBlockers blockers =
     (if length blockers \<le> maxBlockingRefsNamed then join_with '', '' blockers
      else join_with '', '' (take maxBlockingRefsNamed blockers) @ '', and '' @ show_nat (length blockers - maxBlockingRefsNamed) @ '' more'')"

definition recordDeletionBlocked :: "'s content_env \<Rightarrow> PartitionContent \<Rightarrow> string list \<Rightarrow> ('s, ctrl_result) act" where
  "recordDeletionBlocked r pc blockers =
     (let pc1 = setPartitionContentDeletionBlockedCondition (ce_lib r) ''ReferencesRemain''
            (''deletion blocked: still referenced by '' @ formatBlockers blockers) pc
      in bindK (wrapK ''recording deletion blocked'' (applyPartitionContentStatus r pc1 [Event ''PartitionContentDeletionBlocked''])) (\<lambda>_.
         ret (requeueIn deletionBlockRequeueInterval)))"

definition deletePublishJob :: "'s content_env \<Rightarrow> PartitionContent \<Rightarrow> ('s, unit) act" where
  "deletePublishJob r pc =
     bindK (publishJobFor r pc) (\<lambda>job. case job of
         None \<Rightarrow> ret ()
       | Some j \<Rightarrow>
           bindK (attempt (kcall (DeleteJob (job_key j)) (ck_deleteJob (ce_client r) (job_key j)))) (\<lambda>x. case x of
               Inr _ \<Rightarrow> ret () | Inl e \<Rightarrow> if isNotFound e then ret () else raise (Wrapped ''deleting publish job'' e)))"

definition onDeleteContent :: "'s content_env \<Rightarrow> PartitionContent \<Rightarrow> ('s, ctrl_result) act" where
  "onDeleteContent r pc =
     (if \<not> containsFinalizer (ce_lib r) (pc_finalizers pc) PartitionContentFinalizer then ret noRequeue
      else bindK (blockingReferences r pc) (\<lambda>blockers.
        if blockers \<noteq> [] then recordDeletionBlocked r pc blockers
        else bindK (deletePublishJob r pc) (\<lambda>_.
          let pc1 = pc\<lparr>pc_finalizers := snd (removeFinalizer (ce_lib r) (pc_finalizers pc) PartitionContentFinalizer)\<rparr>
          in bindK (wrapK ''removing finalizer'' (kcall (UpdateContent pc1) (ck_updateContent (ce_client r) pc1))) (\<lambda>_. ret noRequeue))))"

definition reconcileContent :: "'s content_env \<Rightarrow> key \<Rightarrow> ('s, ctrl_result) act" where
  "reconcileContent r key =
     bindK (getOpt (kcall (GetContent key) (ck_getContent (ce_client r) key))) (\<lambda>content. case content of
         None \<Rightarrow> ret noRequeue
       | Some pc \<Rightarrow>
           if pc_deletionTimestamp pc \<noteq> None then onDeleteContent r pc
           else if \<not> containsFinalizer (ce_lib r) (pc_finalizers pc) PartitionContentFinalizer then
             (let pc1 = pc\<lparr>pc_finalizers := snd (addFinalizer (ce_lib r) (pc_finalizers pc) PartitionContentFinalizer)\<rparr>
              in bindK (kcall (UpdateContent pc1) (ck_updateContent (ce_client r) pc1)) (\<lambda>_. ret requeueNow))
           else onChangeContent r pc)"

section \<open>Watch predicates\<close>

definition claimDeletionTimestampSetPredicate :: "MachineClaim \<Rightarrow> MachineClaim \<Rightarrow> bool" where
  "claimDeletionTimestampSetPredicate old new \<longleftrightarrow> cl_deletionTimestamp old = None \<and> cl_deletionTimestamp new \<noteq> None"

definition deployRunDemandPredicate :: "DeployRun \<Rightarrow> DeployRun \<Rightarrow> bool" where
  "deployRunDemandPredicate old new \<longleftrightarrow> phase (r_status old) \<noteq> phase (r_status new)"

end
