(* ===== verification/Image_Controller.thy ===== *)
theory Image_Controller
  imports Content_Controller
begin

text \<open>
  The Image controller (image\_*.go): the readiness of an Image from the contents its slots name, the
  owner references it leaves on them, and the seeder Deployment it keeps at every Site that has demand.
\<close>

section \<open>image\_content.go and image\_status.go\<close>

definition ImageConditionValid :: string where
  "ImageConditionValid = ''Valid''"
definition ImageConditionSeederDegraded :: string where
  "ImageConditionSeederDegraded = ''SeederDegraded''"

definition imageMissingContentMessageLimit :: nat where
  "imageMissingContentMessageLimit = 5"

definition boundedMessage :: "string list \<Rightarrow> string" where
  "boundedMessage items =
     (if length items \<le> imageMissingContentMessageLimit then join_with ''; '' items
      else join_with ''; '' (take imageMissingContentMessageLimit items) @ '' (+'' @ show_nat (length items - imageMissingContentMessageLimit) @ '' more)'')"

record slotContentAggregation =
  ag_stale :: bool
  ag_failed :: "string list"
  ag_notReady :: "string list"
  ag_invalidSizes :: "string list"

definition slot_problem :: "ImageSlot \<Rightarrow> NameRef \<Rightarrow> string \<Rightarrow> string" where
  "slot_problem s ref what = ''slot '' @ show_int (sl_number s) @ '': PartitionContent '' @ go_quote (nr_name ref) @ what"

definition slot_ready :: "'s content_env \<Rightarrow> ImageSlot \<Rightarrow> NameRef \<Rightarrow> PartitionContent \<Rightarrow> slotContentAggregation \<Rightarrow> slotContentAggregation" where
  "slot_ready r s ref content agg =
     (case findStatusCondition (ce_lib r) (pc_conditions content) PartitionContentConditionReady of
        None \<Rightarrow> agg\<lparr>ag_notReady := ag_notReady agg @ [slot_problem s ref '' has no Ready condition yet'']\<rparr>
      | Some cond \<Rightarrow>
          if conditionObservedGenerationStale (Some cond) (pc_generation content) then agg\<lparr>ag_stale := True\<rparr>
          else if pc_state content = ContentFailed then agg\<lparr>ag_failed := ag_failed agg @ [slot_problem s ref '' failed'']\<rparr>
          else if c_status cond \<noteq> CondTrue then
            agg\<lparr>ag_notReady := ag_notReady agg @ [slot_problem s ref ('' not Ready ('' @ c_reason cond @ '')'')]\<rparr>
          else agg)"

definition slot_size :: "ImageSlot \<Rightarrow> NameRef \<Rightarrow> PartitionContent \<Rightarrow> slotContentAggregation \<Rightarrow> slotContentAggregation" where
  "slot_size s ref content agg =
     (if sl_sizeBytes s \<noteq> 0 \<and> sl_sizeBytes s < ct_lastExtentEnd (pc_spec content)
      then agg\<lparr>ag_invalidSizes := ag_invalidSizes agg @
        [''slot '' @ show_int (sl_number s) @ '': sizeBytes ('' @ show_int (sl_sizeBytes s) @ '') is smaller than PartitionContent '' @ go_quote (nr_name ref) @
         '' lastExtentEnd ('' @ show_int (ct_lastExtentEnd (pc_spec content)) @ '')'']\<rparr>
      else agg)"

fun aggregate_slots :: "'s content_env \<Rightarrow> string \<Rightarrow> ImageSlot list \<Rightarrow> slotContentAggregation \<Rightarrow> ('s, slotContentAggregation) act" where
  "aggregate_slots r ns [] agg = ret agg"
| "aggregate_slots r ns (s # ss) agg =
     (case sl_contentRef s of
        None \<Rightarrow> aggregate_slots r ns ss agg
      | Some ref \<Rightarrow>
          (let key = ref_key ns ref in
           bindK (wrapK ''getting PartitionContent for slot'' (getOpt (kcall (GetContent key) (ck_getContent (ce_client r) key)))) (\<lambda>content.
           case content of
             None \<Rightarrow> aggregate_slots r ns ss (agg\<lparr>ag_notReady := ag_notReady agg @ [slot_problem s ref '' not found'']\<rparr>)
           | Some pc \<Rightarrow> aggregate_slots r ns ss (slot_ready r s ref pc (slot_size s ref pc agg)))))"

definition aggregateSlotContents :: "'s content_env \<Rightarrow> Image \<Rightarrow> ('s, slotContentAggregation) act" where
  "aggregateSlotContents r img =
     aggregate_slots r (im_namespace img) (ly_slots (is_layout (im_spec img)))
       \<lparr>ag_stale = False, ag_failed = [], ag_notReady = [], ag_invalidSizes = []\<rparr>"

fun own_contents :: "'s content_env \<Rightarrow> Image \<Rightarrow> ImageSlot list \<Rightarrow> ('s, unit) act" where
  "own_contents r img [] = ret ()"
| "own_contents r img (s # ss) =
     (case sl_contentRef s of
        None \<Rightarrow> own_contents r img ss
      | Some ref \<Rightarrow>
          (let key = ref_key (im_namespace img) ref in
           bindK (wrapK ''getting PartitionContent for owner reference'' (getOpt (kcall (GetContent key) (ck_getContent (ce_client r) key)))) (\<lambda>content.
           case content of
             None \<Rightarrow> own_contents r img ss
           | Some pc \<Rightarrow>
               if im_uid img \<in> set (pc_owners pc) then own_contents r img ss
               else (case ce_setOwnerReference r (im_uid img) (pc_owners pc) of
                   Inl e \<Rightarrow> raise (Wrapped ''setting owner reference on PartitionContent'' e)
                 | Inr owners \<Rightarrow>
                     (let pc' = pc\<lparr>pc_owners := owners\<rparr> in
                      bindK (wrapK ''patching PartitionContent owner reference'' (kcall (PatchContent pc') (ck_patchContent (ce_client r) pc'))) (\<lambda>_.
                      own_contents r img ss))))))"

definition ensureContentOwnerRefs :: "'s content_env \<Rightarrow> Image \<Rightarrow> ('s, unit) act" where
  "ensureContentOwnerRefs r img = own_contents r img (ly_slots (is_layout (im_spec img)))"

definition put_image_condition :: "libs \<Rightarrow> string \<Rightarrow> cond_status \<Rightarrow> string \<Rightarrow> string \<Rightarrow> Image \<Rightarrow> Image" where
  "put_image_condition L ctype status reason message img =
     img\<lparr>im_conditions := setStatusCondition L (im_conditions img)
       \<lparr>c_type = ctype, c_status = status, c_observedGeneration = im_generation img, c_reason = reason, c_message = message\<rparr>\<rparr>"

definition setImageReadyCondition :: "libs \<Rightarrow> cond_status \<Rightarrow> string \<Rightarrow> string \<Rightarrow> Image \<Rightarrow> Image" where
  "setImageReadyCondition L status reason message img = put_image_condition L ImageConditionReady status reason message img"

definition setImageValidCondition :: "libs \<Rightarrow> bool \<Rightarrow> string list \<Rightarrow> Image \<Rightarrow> Image" where
  "setImageValidCondition L valid problems img =
     (if valid then put_image_condition L ImageConditionValid CondTrue ''SlotSizesOK''
        ''every contentRef slot's declared sizeBytes fits its content's lastExtentEnd'' img
      else put_image_condition L ImageConditionValid CondFalse ''SlotSizeTooSmall'' (boundedMessage problems) img)"

definition applyImageStatus :: "'s content_env \<Rightarrow> Image \<Rightarrow> ('s, Image) act" where
  "applyImageStatus r img = kcall (ApplyImageStatus img) (ck_applyImageStatus (ce_client r) img)"

definition recordImageReady :: "'s content_env \<Rightarrow> Image \<Rightarrow> ('s, Image) act" where
  "recordImageReady r img =
     wrapK ''recording Ready'' (applyImageStatus r
       (setImageReadyCondition (ce_lib r) CondTrue ''ContentReady'' ''every referenced PartitionContent is Ready'' (img\<lparr>im_state := ImageStateReady\<rparr>)))"

definition recordImagePending :: "'s content_env \<Rightarrow> Image \<Rightarrow> string list \<Rightarrow> ('s, ctrl_result) act" where
  "recordImagePending r img notReady =
     bindK (wrapK ''recording Pending'' (applyImageStatus r
       (setImageReadyCondition (ce_lib r) CondFalse ''ContentNotReady'' (boundedMessage notReady) (img\<lparr>im_state := ImageStatePending\<rparr>)))) (\<lambda>_. ret noRequeue)"

definition recordImageInvalid :: "'s content_env \<Rightarrow> Image \<Rightarrow> string list \<Rightarrow> ('s, ctrl_result) act" where
  "recordImageInvalid r img invalidSizes =
     bindK (wrapK ''recording Pending (invalid)'' (applyImageStatus r
       (setImageReadyCondition (ce_lib r) CondFalse ''Invalid'' (boundedMessage invalidSizes) (img\<lparr>im_state := ImageStatePending\<rparr>)))) (\<lambda>_. ret noRequeue)"

definition recordImageFailed :: "'s content_env \<Rightarrow> Image \<Rightarrow> string list \<Rightarrow> ('s, ctrl_result) act" where
  "recordImageFailed r img failed =
     bindK (wrapK ''recording Failed'' (applyImageStatus r
       (setImageReadyCondition (ce_lib r) CondFalse ''ContentFailed'' (boundedMessage failed) (img\<lparr>im_state := ImageStateFailed\<rparr>)))) (\<lambda>_. ret noRequeue)"

section \<open>image\_seeder\_demand.go\<close>

definition deployRunNamesImage :: "DeployRun \<Rightarrow> Image \<Rightarrow> bool" where
  "deployRunNamesImage run img \<longleftrightarrow> (im_namespace img, im_name img) \<in> set (deployRunImageNames run)"

definition demandMachinesForImage :: "'s content_env \<Rightarrow> Image \<Rightarrow> ('s, (key \<times> Machine) list) act" where
  "demandMachinesForImage r img =
     bindK (wrapK ''listing machines referencing it'' (machinesReferencingImage (ce_kube r) (im_namespace img, im_name img))) (\<lambda>live.
     bindK (wrapK ''listing deploy runs'' (kcall (ListRuns (im_namespace img)) (k_listRuns (ce_kube r) (im_namespace img)))) (\<lambda>runs.
     add_run_machines r (filter (\<lambda>run. isDeployRunActive run \<and> deployRunNamesImage run img) runs) (fold put_machine live [])))"

definition imageSeedDemandBySite :: "'s content_env \<Rightarrow> Image \<Rightarrow> ('s, (string \<times> seederSiteDemand) list \<times> string list) act" where
  "imageSeedDemandBySite r img = bindK (demandMachinesForImage r img) (seederDemandBySite r)"

section \<open>image\_seeder\_config.go and image\_seeder\_placement.go\<close>

definition defaultSeederGracePeriod :: duration where
  "defaultSeederGracePeriod = 5 * minute"

definition gracePeriod :: "ImageSeederConfig \<Rightarrow> duration" where
  "gracePeriod cfg = (if se_gracePeriod cfg > 0 then se_gracePeriod cfg else defaultSeederGracePeriod)"

definition DefaultSeederMaxConnections :: int where
  "DefaultSeederMaxConnections = 5"

definition seederMaxUploads :: "ImageSeederConfig \<Rightarrow> int" where
  "seederMaxUploads cfg = ResolveMaxUploads (se_maxUploads cfg) None"

definition seederMaxConnections :: "ImageSeederConfig \<Rightarrow> int" where
  "seederMaxConnections cfg = (if se_maxConnections cfg > 0 then se_maxConnections cfg else DefaultSeederMaxConnections)"

definition EzioGRPCPort :: int where
  "EzioGRPCPort = 50051"
definition EzioBTPort :: int where
  "EzioBTPort = 16881"

text \<open>The panic of a network reference without a Subnet cannot arise from \<open>Resolve\<close>; the namespace is then empty.\<close>

definition seederPodAnnotations :: "Resolution \<Rightarrow> (string \<times> string) list" where
  "seederPodAnnotations res =
     (case sr_seederNetworkRef res of
        None \<Rightarrow> []
      | Some ref \<Rightarrow> [(''v1.multus-cni.io/default-network'',
          resolveNamespace ref (case sr_subnet res of None \<Rightarrow> '''' | Some sn \<Rightarrow> sn_namespace sn) @ ''/'' @ nr_name ref)])"

definition seederRegisterEnv :: "ImageSeederConfig \<Rightarrow> Resolution \<Rightarrow> (string \<times> string) list" where
  "seederRegisterEnv cfg res =
     [(''CONTENT_ROOT'', ContentMountRoot), (''EZIO_TARGET'', ''127.0.0.1:'' @ show_int EzioGRPCPort),
      (''EZIO_MAX_UPLOADS'', show_int (seederMaxUploads cfg)), (''EZIO_MAX_CONNECTIONS'', show_int (seederMaxConnections cfg))] @
     (if sr_trackerURL res \<noteq> '''' then [(''TRACKER_URL'', sr_trackerURL res)] else [])"

record seededContent =
  sc_name :: string
  sc_infoHash :: string

fun seeded_contents :: "'s content_env \<Rightarrow> string \<Rightarrow> string list \<Rightarrow> ImageSlot list \<Rightarrow> ('s, seededContent list) act" where
  "seeded_contents r ns seen_names [] = ret []"
| "seeded_contents r ns seen_names (s # ss) =
     (case sl_contentRef s of
        None \<Rightarrow> seeded_contents r ns seen_names ss
      | Some ref \<Rightarrow>
          if nr_name ref \<in> set seen_names then seeded_contents r ns seen_names ss
          else (let key = ref_key ns ref in
            bindK (wrapK ''getting partitioncontent'' (getOpt (kcall (GetContent key) (ck_getContent (ce_client r) key)))) (\<lambda>content.
            bindK (seeded_contents r ns (nr_name ref # seen_names) ss) (\<lambda>rest.
            ret (case content of
                None \<Rightarrow> rest
              | Some pc \<Rightarrow> if isStatusConditionTrue (ce_lib r) (pc_conditions pc) PartitionContentConditionReady \<and> pc_infoHash pc \<noteq> ''''
                  then \<lparr>sc_name = pc_name pc, sc_infoHash = pc_infoHash pc\<rparr> # rest else rest)))))"

definition imageSeededContents :: "'s content_env \<Rightarrow> Image \<Rightarrow> ('s, seededContent list) act" where
  "imageSeededContents r img =
     bindK (seeded_contents r (im_namespace img) [] (ly_slots (is_layout (im_spec img)))) (\<lambda>contents. ret (sort_key sc_name contents))"

definition seederContentVolumeName :: "string \<Rightarrow> string" where
  "seederContentVolumeName infoHash = ''content-'' @ take 16 infoHash"

definition imageSeederInstanceLabel :: string where
  "imageSeederInstanceLabel = ''kezio.kojuro.date/seeder-instance''"

definition seeder_mounts :: "seededContent list \<Rightarrow> volume_mount list" where
  "seeder_mounts contents = map (\<lambda>c. \<lparr>vm_name = seederContentVolumeName (sc_infoHash c), vm_path = ContentMountPath (sc_name c), vm_readOnly = True\<rparr>) contents"

definition buildImageSeederDeployment :: "'s content_env \<Rightarrow> Image \<Rightarrow> string \<Rightarrow> seededContent list \<Rightarrow> Resolution \<Rightarrow> Workload.Deployment" where
  "buildImageSeederDeployment r img siteIdentity contents res =
     (let name = Name (ce_sha r) (im_name img) siteIdentity;
          labels = [(''app.kubernetes.io/component'', ''image-seeder''), (''app.kubernetes.io/name'', ''kezio''), (imageSeederInstanceLabel, name)];
          depLabels = labels @ (case sr_subnet res of None \<Rightarrow> [] | Some sn \<Rightarrow> [(''kezio.kojuro.date/seeder-subnet'', sn_name sn)])
      in \<lparr>dpl_name = name, dpl_namespace = im_namespace img, dpl_labels = depLabels,
          dpl_annotations = [(imageSeederSiteAnnotation, siteIdentity)], dpl_deletionTimestamp = None, dpl_owner = None,
          dpl_spec = \<lparr>ds_replicas = 1, ds_recreate = False, ds_selector = labels,
            ds_template = \<lparr>pt_labels = labels, pt_annotations = seederPodAnnotations res, pt_serviceAccountName = '''',
              pt_nodeSelector = sr_nodeSelector res, pt_initContainers = [],
              pt_containers =
                [\<lparr>co_name = ''ezio'', co_image = se_image (ce_seeder r), co_command = [], co_args = [],
                  co_env = [(''EZIO_GRPC_LISTEN'', ''0.0.0.0:'' @ show_int EzioGRPCPort), (''EZIO_BT_PORT'', show_int EzioBTPort)],
                  co_mounts = seeder_mounts contents\<rparr>,
                 \<lparr>co_name = ''seeder-register'', co_image = se_image (ce_seeder r), co_command = [''/usr/local/bin/kezio-seeder-register''], co_args = [],
                  co_env = seederRegisterEnv (ce_seeder r) res, co_mounts = seeder_mounts contents\<rparr>],
              pt_volumes = map (\<lambda>c. (seederContentVolumeName (sc_infoHash c), FromPVCReadOnly (PVCName (sc_name c)))) contents\<rparr>\<rparr>,
          dpl_conditions = [], dpl_availableReplicas = 0\<rparr>)"

section \<open>image\_seeder.go\<close>

definition imageSeederEmptySinceAnnotation :: string where
  "imageSeederEmptySinceAnnotation = ''kezio.kojuro.date/seeder-empty-since''"
definition imageSeederUnreadySinceAnnotation :: string where
  "imageSeederUnreadySinceAnnotation = ''kezio.kojuro.date/seeder-unready-since''"

datatype seederSiteProblem = NoProblem | ForeignOwner string | Unready string

definition image_owner :: "Image \<Rightarrow> owner" where
  "image_owner img = (''Image'', im_name img, im_uid img)"

definition createImageSeederDeployment :: "'s content_env \<Rightarrow> Image \<Rightarrow> string \<Rightarrow> seededContent list \<Rightarrow> Resolution \<Rightarrow> ('s, bool) act" where
  "createImageSeederDeployment r img site contents res =
     (let dep = buildImageSeederDeployment r img site contents res in
      case ce_setControllerReference r (image_owner img) (dpl_owner dep) of
        Inl e \<Rightarrow> raise (Wrapped ''setting seeder deployment owner reference'' e)
      | Inr own \<Rightarrow>
          (let dep' = dep\<lparr>dpl_owner := own\<rparr> in
           bindK (attempt (kcall (CreateDeployment dep') (ck_createDeployment (ce_client r) dep'))) (\<lambda>x. case x of
               Inr _ \<Rightarrow> ret False
             | Inl e \<Rightarrow>
                 if \<not> isAlreadyExists e then raise (Wrapped ''creating seeder deployment'' e)
                 else bindK (wrapK ''getting seeder deployment after AlreadyExists''
                        (kcall (GetDeployment (dpl_key dep')) (ck_getDeployment (ce_client r) (dpl_key dep')))) (\<lambda>existing.
                      ret (\<not> controlled_by (dpl_owner existing) (im_uid img))))))"

definition patchDeployment :: "'s content_env \<Rightarrow> string \<Rightarrow> Workload.Deployment \<Rightarrow> ('s, Workload.Deployment) act" where
  "patchDeployment r ctx dep = wrapK ctx (kcall (PatchDeployment dep) (ck_patchDeployment (ce_client r) dep))"

definition ensureImageSeederPlacement :: "'s content_env \<Rightarrow> Image \<Rightarrow> string \<Rightarrow> Workload.Deployment \<Rightarrow> seededContent list \<Rightarrow> Resolution \<Rightarrow> ('s, Workload.Deployment) act" where
  "ensureImageSeederPlacement r img site dep contents res =
     (let desired = buildImageSeederDeployment r img site contents res;
          tmpl = ds_template (dpl_spec dep); want = ds_template (dpl_spec desired)
      in if pt_annotations tmpl = pt_annotations want \<and> pt_nodeSelector tmpl = pt_nodeSelector want \<and>
            dpl_labels dep = dpl_labels desired \<and> pt_containers tmpl = pt_containers want then ret dep
         else patchDeployment r ''updating seeder deployment placement''
           (dep\<lparr>dpl_labels := dpl_labels desired,
                dpl_spec := (dpl_spec dep)\<lparr>ds_template := tmpl\<lparr>pt_annotations := pt_annotations want, pt_nodeSelector := pt_nodeSelector want,
                  pt_containers := pt_containers want\<rparr>\<rparr>\<rparr>))"

definition parseSeederEmptySince :: "'s content_env \<Rightarrow> Workload.Deployment \<Rightarrow> time option" where
  "parseSeederEmptySince r dep =
     (case map_of (dpl_annotations dep) imageSeederEmptySinceAnnotation of None \<Rightarrow> None | Some raw \<Rightarrow> ce_parseTime r raw)"

definition stamp :: "string \<Rightarrow> string \<Rightarrow> Workload.Deployment \<Rightarrow> Workload.Deployment" where
  "stamp k v dep = dep\<lparr>dpl_annotations := alist_put k v (dpl_annotations dep)\<rparr>"

definition unstamp :: "string \<Rightarrow> Workload.Deployment \<Rightarrow> Workload.Deployment" where
  "unstamp k dep = dep\<lparr>dpl_annotations := alist_delete k (dpl_annotations dep)\<rparr>"

definition stampSeederEmptySince :: "'s content_env \<Rightarrow> Workload.Deployment \<Rightarrow> time \<Rightarrow> ('s, Workload.Deployment) act" where
  "stampSeederEmptySince r dep at = patchDeployment r ''stamping empty-since'' (stamp imageSeederEmptySinceAnnotation (ce_formatTime r at) dep)"

definition cancelSeederShutdown :: "'s content_env \<Rightarrow> Workload.Deployment \<Rightarrow> ('s, Workload.Deployment) act" where
  "cancelSeederShutdown r dep =
     (if map_of (dpl_annotations dep) imageSeederEmptySinceAnnotation = None then ret dep
      else patchDeployment r ''clearing empty-since'' (unstamp imageSeederEmptySinceAnnotation dep))"

definition stampSeederUnreadySince :: "'s content_env \<Rightarrow> Workload.Deployment \<Rightarrow> time \<Rightarrow> ('s, Workload.Deployment) act" where
  "stampSeederUnreadySince r dep at = patchDeployment r ''stamping unready-since'' (stamp imageSeederUnreadySinceAnnotation (ce_formatTime r at) dep)"

definition cancelSeederUnready :: "'s content_env \<Rightarrow> Workload.Deployment \<Rightarrow> ('s, Workload.Deployment) act" where
  "cancelSeederUnready r dep =
     (if map_of (dpl_annotations dep) imageSeederUnreadySinceAnnotation = None then ret dep
      else patchDeployment r ''clearing unready-since'' (unstamp imageSeederUnreadySinceAnnotation dep))"

definition checkSeederUnready :: "'s content_env \<Rightarrow> Workload.Deployment \<Rightarrow> ('s, bool) act" where
  "checkSeederUnready r dep =
     (let marked = (map_of (dpl_annotations dep) imageSeederUnreadySinceAnnotation \<noteq> None) in
      if dpl_availableReplicas dep > 0 then
        (if marked then bindK (cancelSeederUnready r dep) (\<lambda>_. ret False) else ret False)
      else if marked then ret True
      else bindK (stampSeederUnreadySince r dep (ce_now r)) (\<lambda>_. ret True))"

definition shutdownImageSeederDeployment :: "'s content_env \<Rightarrow> Workload.Deployment \<Rightarrow> ('s, ctrl_result) act" where
  "shutdownImageSeederDeployment r dep =
     (case parseSeederEmptySince r dep of
        None \<Rightarrow> bindK (stampSeederEmptySince r dep (ce_now r)) (\<lambda>_. ret (requeueIn (gracePeriod (ce_seeder r))))
      | Some since \<Rightarrow>
          (let remaining = gracePeriod (ce_seeder r) - (ce_now r - since) in
           if remaining > 0 then ret (requeueIn remaining)
           else bindK (attempt (kcall (DeleteDeployment (dpl_key dep)) (ck_deleteDeployment (ce_client r) (dpl_key dep)))) (\<lambda>x. case x of
               Inr _ \<Rightarrow> ret noRequeue | Inl e \<Rightarrow> if isNotFound e then ret noRequeue else raise (Wrapped ''deleting seeder deployment'' e))))"

definition reconcileImageSeederSite ::
    "'s content_env \<Rightarrow> Image \<Rightarrow> string \<Rightarrow> seederSiteDemand option \<Rightarrow> Workload.Deployment option \<Rightarrow> seededContent list \<Rightarrow> ('s, ctrl_result \<times> seederSiteProblem) act" where
  "reconcileImageSeederSite r img site demand dep contents =
     (case dep of
        Some d \<Rightarrow>
          if dpl_deletionTimestamp d \<noteq> None then ret (noRequeue, NoProblem)
          else (case demand of
              Some dm \<Rightarrow>
                if dm_count dm > 0 then
                  bindK (ensureImageSeederPlacement r img site d contents (dm_resolution dm)) (\<lambda>d1.
                  bindK (cancelSeederShutdown r d1) (\<lambda>d2.
                  bindK (checkSeederUnready r d2) (\<lambda>unready.
                  ret (noRequeue, if unready then Unready site else NoProblem))))
                else bindK (shutdownImageSeederDeployment r d) (\<lambda>result. ret (result, NoProblem))
            | None \<Rightarrow> bindK (shutdownImageSeederDeployment r d) (\<lambda>result. ret (result, NoProblem)))
      | None \<Rightarrow>
          (case demand of
             Some dm \<Rightarrow>
               if dm_count dm > 0 \<and> seeder_ready (ce_seeder r) then
                 bindK (createImageSeederDeployment r img site contents (dm_resolution dm)) (\<lambda>foreign.
                 ret (noRequeue, if foreign then ForeignOwner site else NoProblem))
               else ret (noRequeue, NoProblem)
           | None \<Rightarrow> ret (noRequeue, NoProblem)))"

definition minRequeue :: "ctrl_result \<Rightarrow> ctrl_result \<Rightarrow> ctrl_result" where
  "minRequeue a b =
     (if requeueAfter a = 0 then b else if requeueAfter b = 0 then a else if requeueAfter a < requeueAfter b then a else b)"

text \<open>
  The loop over the Sites: an error at one Site is kept and does not stop the others; in the end the
  first one stands for \<^verbatim>\<open>errors.Join\<close>.
\<close>

fun seeder_sites ::
    "'s content_env \<Rightarrow> Image \<Rightarrow> (string \<times> seederSiteDemand) list \<Rightarrow> (string \<times> Workload.Deployment) list \<Rightarrow> seededContent list \<Rightarrow> string list \<Rightarrow>
     ctrl_result \<Rightarrow> seederSiteProblem list \<Rightarrow> kerr list \<Rightarrow> ('s, ctrl_result \<times> seederSiteProblem list) act" where
  "seeder_sites r img demand existing contents [] result problems errs =
     (case errs of [] \<Rightarrow> ret (result, problems) | e # _ \<Rightarrow> raise e)"
| "seeder_sites r img demand existing contents (site # sites) result problems errs =
     bindK (attempt (reconcileImageSeederSite r img site (map_of demand site) (map_of existing site) contents)) (\<lambda>x. case x of
         Inl e \<Rightarrow> seeder_sites r img demand existing contents sites result problems (errs @ [e])
       | Inr (siteResult, problem) \<Rightarrow>
           seeder_sites r img demand existing contents sites (minRequeue result siteResult)
             (if problem = NoProblem then problems else problems @ [problem]) errs)"

definition degraded_causes :: "seederSiteProblem list \<Rightarrow> string list \<Rightarrow> (string \<times> string) list" where
  "degraded_causes problems unset =
     (let foreign = [s. ForeignOwner s \<leftarrow> problems]; unready = [s. Unready s \<leftarrow> problems] in
      (if unset \<noteq> [] then [(''SeederSubnetRefUnset'', ''Site.spec.seederSubnetRef is unset for site(s) '' @ join_with '', '' (sort unset) @
        ''; no seeder Deployment is created there, so machines there cannot build a deploy plan for this Image until it is set'')] else []) @
      (if foreign \<noteq> [] then [(''SeederDeploymentForeignOwner'', ''seeder deployment name is already controlled by a different object for site(s) '' @ join_with '', '' (sort foreign) @
        ''; left untouched and not counted as served'')] else []) @
      (if unready \<noteq> [] then [(''SeederPodUnready'', ''seeder deployment has reported no available replica for site(s) '' @ join_with '', '' (sort unready) @
        ''; check its pod status (crash loop, bad image, or an unsatisfiable nodeSelector)'')] else []))"

text \<open>\<^verbatim>\<open>SetStatusCondition\<close> and \<^verbatim>\<open>RemoveStatusCondition\<close> report a change: here, that the conditions differ.\<close>

definition updateImageSeederCondition :: "'s content_env \<Rightarrow> Image \<Rightarrow> seederSiteProblem list \<Rightarrow> string list \<Rightarrow> ('s, unit) act" where
  "updateImageSeederCondition r img problems unset =
     (let img' = (case degraded_causes problems unset of
            [] \<Rightarrow> img\<lparr>im_conditions := removeStatusCondition (ce_lib r) (im_conditions img) ImageConditionSeederDegraded\<rparr>
          | [(reason, message)] \<Rightarrow> put_image_condition (ce_lib r) ImageConditionSeederDegraded CondTrue reason message img
          | causes \<Rightarrow> put_image_condition (ce_lib r) ImageConditionSeederDegraded CondTrue ''SeederDegraded'' (join_with ''; '' (map snd causes)) img)
      in if im_conditions img' = im_conditions img then ret ()
         else bindK (wrapK ''recording seeder degraded condition'' (applyImageStatus r img')) (\<lambda>_. ret ()))"

definition reconcileImageSeeder :: "'s content_env \<Rightarrow> Image \<Rightarrow> ('s, ctrl_result) act" where
  "reconcileImageSeeder r img =
     bindK (imageSeedDemandBySite r img) (\<lambda>(demand, noSeederSites).
     bindK (listImageSeederDeployments r img) (\<lambda>existing.
     bindK (if demand \<noteq> [] then imageSeededContents r img else ret []) (\<lambda>contents.
     bindK (seeder_sites r img demand existing contents (remdups (map fst demand @ map fst existing)) noRequeue [] []) (\<lambda>(result, problems).
     bindK (updateImageSeederCondition r img problems noSeederSites) (\<lambda>_. ret result)))))"

section \<open>image\_controller.go\<close>

definition imageStaleContentRequeueInterval :: duration where
  "imageStaleContentRequeueInterval = 5 * second"

definition onChangeImage :: "'s content_env \<Rightarrow> Image \<Rightarrow> ('s, ctrl_result) act" where
  "onChangeImage r img =
     bindK (ensureContentOwnerRefs r img) (\<lambda>_.
     if im_state img = ImageStateReady then reconcileImageSeeder r img
     else bindK (aggregateSlotContents r img) (\<lambda>agg.
       if ag_stale agg then ret (requeueIn imageStaleContentRequeueInterval)
       else (let validOK = (ag_invalidSizes agg = []);
                 img1 = setImageValidCondition (ce_lib r) validOK (ag_invalidSizes agg) img
             in if ag_failed agg \<noteq> [] then recordImageFailed r img1 (ag_failed agg)
                else if ag_notReady agg = [] \<and> validOK then
                  bindK (recordImageReady r img1) (\<lambda>img2. reconcileImageSeeder r img2)
                else if ag_notReady agg = [] then recordImageInvalid r img1 (ag_invalidSizes agg)
                else recordImagePending r img1 (ag_notReady agg))))"

definition reconcileImage :: "'s content_env \<Rightarrow> key \<Rightarrow> ('s, ctrl_result) act" where
  "reconcileImage r key =
     bindK (getOpt (kcall (GetImage key) (k_getImage (ce_kube r) key))) (\<lambda>img. case img of
         None \<Rightarrow> ret noRequeue | Some i \<Rightarrow> onChangeImage r i)"

definition mapPartitionContentToImages :: "'s content_env \<Rightarrow> PartitionContent \<Rightarrow> ('s, key list) act" where
  "mapPartitionContentToImages r pc =
     bindK (attempt (imagesReferencing r pc)) (\<lambda>x. ret (case x of Inl e \<Rightarrow> [] | Inr images \<Rightarrow> map (\<lambda>i. (im_namespace i, im_name i)) images))"

definition mapMachineToImages :: "'s content_env \<Rightarrow> Machine \<Rightarrow> ('s, key list) act" where
  "mapMachineToImages r machine = bindK (attempt (machineClaimImageRefs (ce_kube r) machine)) (\<lambda>x. ret (case x of Inl e \<Rightarrow> [] | Inr refs \<Rightarrow> refs))"

definition mapMachineClaimToImages :: "MachineClaim \<Rightarrow> key list" where
  "mapMachineClaimToImages claim = claimImageRefs claim"

definition mapDeployRunToImages :: "DeployRun \<Rightarrow> key list" where
  "mapDeployRunToImages run = deployRunImageNames run"

definition machineProvisionedTransitionPredicate :: "Machine \<Rightarrow> Machine \<Rightarrow> bool" where
  "machineProvisionedTransitionPredicate old new \<longleftrightarrow> (m_state old = Provisioned) \<noteq> (m_state new = Provisioned)"

end
