(* ===== verification/Import_Controller.thy ===== *)
theory Import_Controller
  imports Content_Controller
begin

text \<open>
  The ImageImport controller (imageimport\_*.go): the scratch volume and the ingest Job of an import, the
  walk Pending, Ingesting, Succeeded or Failed, the contents and the Image an import creates, and the
  removal of a finished import. The HTTP requests that ask for the size of a source and the floating
  point product that scales it are parameters of the definitions that use them.
\<close>

section \<open>imageimport\_config.go\<close>

definition ingest_ready :: "ImageIngestConfig \<Rightarrow> bool" where
  "ingest_ready cfg \<longleftrightarrow> ig_image cfg \<noteq> ''''"

definition sourceFormat :: "ImageIngestConfig \<Rightarrow> string" where
  "sourceFormat cfg = (if ig_sourceFormat cfg \<noteq> '''' then ig_sourceFormat cfg else ''qcow2'')"

definition scratchSizeBytes :: "ImageIngestConfig \<Rightarrow> int" where
  "scratchSizeBytes cfg = (if ig_scratchSizeBytes cfg > 0 then ig_scratchSizeBytes cfg else 16 * 1024 * 1024 * 1024)"

definition scratchAccessModes :: "ImageIngestConfig \<Rightarrow> string list" where
  "scratchAccessModes cfg = (if ig_scratchAccessModes cfg \<noteq> [] then ig_scratchAccessModes cfg else [''ReadWriteMany''])"

definition ioBandwidthBytesPerSec :: "ImageIngestConfig \<Rightarrow> int" where
  "ioBandwidthBytesPerSec cfg = (if ig_ioBandwidthBytesPerSec cfg > 0 then ig_ioBandwidthBytesPerSec cfg else 64 * 1024 * 1024)"

definition attachMode :: "ImageIngestConfig \<Rightarrow> string" where
  "attachMode cfg = (if ig_unprivileged cfg then ''copy'' else ''nbd'')"

definition defaultIngestJobTTL :: duration where
  "defaultIngestJobTTL = 60 * minute"

definition ingestJobTTLSeconds :: "ImageIngestConfig \<Rightarrow> int" where
  "ingestJobTTLSeconds cfg = ttl_seconds (ig_jobTTL cfg) defaultIngestJobTTL"

section \<open>imageimport\_scratchsize.go\<close>

definition gibiByte :: int where
  "gibiByte = 1024 * 1024 * 1024"

text \<open>Go's remainder of a non-negative number; \<open>wrap64\<close> is the sum's width.\<close>

definition roundUpGiB :: "int \<Rightarrow> int" where
  "roundUpGiB n = (let rem = n mod gibiByte in if rem \<noteq> 0 then wrap64 (n + (gibiByte - rem)) else n)"

definition computeIngestScratchSizeBytes :: "int \<Rightarrow> int \<Rightarrow> bool \<Rightarrow> (int \<Rightarrow> int) \<Rightarrow> int" where
  "computeIngestScratchSizeBytes floorBytes sourceSizeBytes sourceSizeKnown scale =
     (if \<not> sourceSizeKnown \<or> sourceSizeBytes \<le> 0 then floorBytes
      else (let computed = roundUpGiB (scale sourceSizeBytes) in if computed > floorBytes then computed else floorBytes))"

record http_reply =
  hp_status :: int
  hp_contentLength :: int   \<comment> \<open>-1 when absent\<close>
  hp_contentRange :: string

definition contentLengthOf :: "http_reply \<Rightarrow> int option" where
  "contentLengthOf resp = (if hp_contentLength resp < 0 then None else Some (hp_contentLength resp))"

definition after_slash :: "string \<Rightarrow> string option" where
  "after_slash v = (if CHR ''/'' \<in> set v then Some (tl (dropWhile (\<lambda>c. c \<noteq> CHR ''/'') v)) else None)"

text \<open>\<^verbatim>\<open>strconv.ParseInt\<close> of an unsigned or signed decimal number of 64 bits.\<close>

definition parse_int64 :: "string \<Rightarrow> int option" where
  "parse_int64 s =
     (case s of
        [] \<Rightarrow> None
      | c # cs \<Rightarrow>
          (let neg = (c = CHR ''-''); body = (if c = CHR ''-'' \<or> c = CHR ''+'' then cs else s) in
           if body = [] then None
           else case digits_value 10 0 body of
             None \<Rightarrow> None
           | Some n \<Rightarrow> if neg then (if n \<le> 2 ^ 63 then Some (- int n) else None)
                      else if n < 2 ^ 63 then Some (int n) else None))"

definition parseContentRangeTotal :: "string \<Rightarrow> int option" where
  "parseContentRangeTotal v =
     (case after_slash v of
        None \<Rightarrow> None
      | Some total_s \<Rightarrow>
          if total_s = ''*'' then None
          else case parse_int64 total_s of None \<Rightarrow> None | Some n \<Rightarrow> if n \<le> 0 then None else Some n)"

text \<open>\<open>http meth url token range\<close> is \<^verbatim>\<open>http.DefaultClient.Do\<close>.\<close>

type_synonym 's http = "string \<Rightarrow> string \<Rightarrow> string \<Rightarrow> string \<Rightarrow> 's \<Rightarrow> (kerr + http_reply) \<times> 's"

definition http_do :: "'s http \<Rightarrow> string \<Rightarrow> string \<Rightarrow> string \<Rightarrow> string \<Rightarrow> ('s, http_reply option) act" where
  "http_do h meth url token range_h = (\<lambda>w. case h meth url token range_h (srv w) of
       (Inl e, s') \<Rightarrow> (Inr None, w\<lparr>srv := s'\<rparr>) | (Inr resp, s') \<Rightarrow> (Inr (Some resp), w\<lparr>srv := s'\<rparr>))"

definition StagedURLScheme :: string where
  "StagedURLScheme = ''kezio-staged''"

definition staged_prefix :: string where
  "staged_prefix = StagedURLScheme @ ''://''"

definition trim_suffix :: "string \<Rightarrow> string \<Rightarrow> string" where
  "trim_suffix suffix s = (if suffix \<noteq> [] \<and> length suffix \<le> length s \<and> drop (length s - length suffix) s = suffix then take (length s - length suffix) s else s)"

definition discoverStagedSourceSizeBytes :: "'s http \<Rightarrow> string \<Rightarrow> string \<Rightarrow> string \<Rightarrow> ('s, int option) act" where
  "discoverStagedSourceSizeBytes h baseURL token name =
     bindK (http_do h ''HEAD'' (trim_suffix ''/'' baseURL @ ''/uploads/'' @ name) token '''') (\<lambda>x. ret (case x of
         None \<Rightarrow> None
       | Some resp \<Rightarrow> if hp_status resp \<noteq> 200 then None else contentLengthOf resp))"

definition headContentLength :: "'s http \<Rightarrow> string \<Rightarrow> ('s, int option) act" where
  "headContentLength h url =
     bindK (http_do h ''HEAD'' url '''' '''') (\<lambda>x. ret (case x of
         None \<Rightarrow> None
       | Some resp \<Rightarrow> if hp_status resp < 200 \<or> hp_status resp \<ge> 300 then None else contentLengthOf resp))"

definition rangeContentLength :: "'s http \<Rightarrow> string \<Rightarrow> ('s, int option) act" where
  "rangeContentLength h url =
     bindK (http_do h ''GET'' url '''' ''bytes=0-0'') (\<lambda>x. ret (case x of
         None \<Rightarrow> None
       | Some resp \<Rightarrow> if hp_status resp \<noteq> 206 then None else parseContentRangeTotal (hp_contentRange resp)))"

definition discoverHTTPSourceSizeBytes :: "'s http \<Rightarrow> string \<Rightarrow> ('s, int option) act" where
  "discoverHTTPSourceSizeBytes h url =
     bindK (headContentLength h url) (\<lambda>x. case x of Some n \<Rightarrow> ret (Some n) | None \<Rightarrow> rangeContentLength h url)"

definition discoverSourceSizeBytes :: "'s http \<Rightarrow> ImageIngestConfig \<Rightarrow> string \<Rightarrow> ('s, int option) act" where
  "discoverSourceSizeBytes h cfg url =
     (if hasPrefix url staged_prefix then
        (if ig_imageServiceURL cfg = '''' then ret None
         else discoverStagedSourceSizeBytes h (ig_imageServiceURL cfg) (ig_imageServiceToken cfg) (drop (length staged_prefix) url))
      else if hasPrefix url ''http://'' \<or> hasPrefix url ''https://'' then discoverHTTPSourceSizeBytes h url
      else ret None)"

section \<open>imageimport\_ingest.go\<close>

datatype scratch_factor = AttachFactor | SourceFactor | SourceFactorRaw

record 's import_env =
  ie_env :: "'s content_env"
  ie_http :: "'s http"
  ie_scale :: "scratch_factor \<Rightarrow> int \<Rightarrow> int"

text \<open>\<^verbatim>\<open>strings.EqualFold\<close> on ASCII.\<close>

definition equal_fold :: "string \<Rightarrow> string \<Rightarrow> bool" where
  "equal_fold a b \<longleftrightarrow> map lower_char a = map lower_char b"

definition scratch_scale :: "ImageIngestConfig \<Rightarrow> scratch_factor" where
  "scratch_scale cfg =
     (if ig_unprivileged cfg then (if equal_fold (sourceFormat cfg) ''raw'' then SourceFactorRaw else SourceFactor) else AttachFactor)"

definition ingestScratchSizeBytes :: "'s import_env \<Rightarrow> ImageImport \<Rightarrow> ('s, int) act" where
  "ingestScratchSizeBytes e imp =
     (let cfg = ce_ingest (ie_env e) in
      case ii_scratchSize (imp_spec imp) of
        Some n \<Rightarrow> ret n
      | None \<Rightarrow>
          bindK (discoverSourceSizeBytes (ie_http e) cfg (ii_sourceURL (imp_spec imp))) (\<lambda>source.
          bindK (if source = None then note_call (Event ''ScratchSizeUnknown'') else ret ()) (\<lambda>_.
          ret (computeIngestScratchSizeBytes (scratchSizeBytes cfg) (case source of None \<Rightarrow> 0 | Some n \<Rightarrow> n) (source \<noteq> None) (ie_scale e (scratch_scale cfg))))))"

definition import_owner :: "ImageImport \<Rightarrow> owner" where
  "import_owner imp = (''ImageImport'', imp_name imp, imp_uid imp)"

definition ingestJobNamePrefix :: string where
  "ingestJobNamePrefix = ''image-ingest-''"

definition ingestJobName :: "(string \<Rightarrow> string) \<Rightarrow> ImageImport \<Rightarrow> string" where
  "ingestJobName sha imp = truncatedName sha (ingestJobNamePrefix @ imp_name imp) k8sNameMaxLength"

definition buildIngestScratchPVC :: "'s content_env \<Rightarrow> ImageImport \<Rightarrow> string \<Rightarrow> int \<Rightarrow> PVC" where
  "buildIngestScratchPVC r imp name size_b =
     \<lparr>pvc_name = name, pvc_namespace = imp_namespace imp,
      pvc_labels = [(''app.kubernetes.io/component'', ''image-ingest-scratch''), (''app.kubernetes.io/name'', ''kezio'')], pvc_owner = None,
      pvc_accessModes = scratchAccessModes (ce_ingest r), pvc_bytes = size_b,
      pvc_storageClass = (if ig_scratchStorageClassName (ce_ingest r) \<noteq> '''' then Some (ig_scratchStorageClassName (ce_ingest r)) else None)\<rparr>"

definition ensureIngestScratchPVC :: "'s import_env \<Rightarrow> ImageImport \<Rightarrow> ('s, PVC) act" where
  "ensureIngestScratchPVC e imp =
     (let r = ie_env e; name = ingestScratchPVCName (ce_sha r) (imp_name imp); key = (imp_namespace imp, name) in
      bindK (wrapK ''getting ingest scratch PVC'' (getOpt (kcall (GetPVC key) (ck_getPVC (ce_client r) key)))) (\<lambda>existing. case existing of
          Some pvc \<Rightarrow> ret pvc
        | None \<Rightarrow>
            bindK (ingestScratchSizeBytes e imp) (\<lambda>size_b.
            let pvc = buildIngestScratchPVC r imp name size_b in
            case ce_setControllerReference r (import_owner imp) (pvc_owner pvc) of
              Inl err \<Rightarrow> raise (Wrapped ''setting ingest scratch PVC owner reference'' err)
            | Inr own \<Rightarrow>
                (let pvc' = pvc\<lparr>pvc_owner := own\<rparr> in
                 bindK (create_or_exists ''creating ingest scratch PVC'' (kcall (CreatePVC pvc') (ck_createPVC (ce_client r) pvc'))) (\<lambda>_. ret pvc')))))"

definition ingest_labels :: "(string \<times> string) list" where
  "ingest_labels = [(''app.kubernetes.io/component'', ''image-ingest-job''), (''app.kubernetes.io/name'', ''kezio'')]"

definition buildIngestJob :: "'s content_env \<Rightarrow> ImageImport \<Rightarrow> string \<Rightarrow> Job" where
  "buildIngestJob r imp scratchPVCName =
     (let cfg = ce_ingest r; staged = hasPrefix (ii_sourceURL (imp_spec imp)) staged_prefix in
      \<lparr>job_name = ingestJobName (ce_sha r) imp, job_namespace = imp_namespace imp, job_labels = ingest_labels, job_owner = None,
       job_ttlSeconds = ingestJobTTLSeconds cfg, job_privileged = \<not> ig_unprivileged cfg,
       job_template = \<lparr>pt_labels = ingest_labels, pt_annotations = [], pt_serviceAccountName = ig_serviceAccountName cfg,
         pt_nodeSelector = [], pt_initContainers = [],
         pt_containers = [\<lparr>co_name = ''ingest'', co_image = ig_image cfg, co_command = [], co_args = [],
           co_env = [(''INGEST_MODE'', ''ingest''), (''SOURCE_URL'', ii_sourceURL (imp_spec imp)), (''SOURCE_CHECKSUM'', ii_sourceChecksum (imp_spec imp)),
               (''SOURCE_FORMAT'', sourceFormat cfg), (''WORK_DIR'', DefaultWorkDir), (''IO_BANDWIDTH_BYTES_PER_SEC'', show_int (ioBandwidthBytesPerSec cfg)),
               (''IMAGE_INGEST_ATTACH'', attachMode cfg)] @ (if staged then [(''STAGING_ROOT'', ''/staging'')] else []),
           co_mounts = [\<lparr>vm_name = ''work'', vm_path = DefaultWorkDir, vm_readOnly = False\<rparr>] @
             (if staged then [\<lparr>vm_name = ''staging'', vm_path = ''/staging'', vm_readOnly = False\<rparr>] else []) @
             (if ig_unprivileged cfg then [] else [\<lparr>vm_name = ''dev'', vm_path = ''/dev'', vm_readOnly = False\<rparr>])\<rparr>],
         pt_volumes = [(''work'', FromPVC scratchPVCName)] @ (if staged then [(''staging'', FromPVC (ig_stagingPVCName cfg))] else []) @
           (if ig_unprivileged cfg then [] else [(''dev'', HostPath ''/dev'')])\<rparr>,
       job_succeeded = 0, job_failed = 0\<rparr>)"

definition ingestJobFor :: "'s content_env \<Rightarrow> ImageImport \<Rightarrow> ('s, Job option) act" where
  "ingestJobFor r imp =
     (let key = (imp_namespace imp, ingestJobName (ce_sha r) imp)
      in wrapK ''getting ingest job'' (getOpt (kcall (GetJob key) (ck_getJob (ce_client r) key))))"

definition createIngestJob :: "'s content_env \<Rightarrow> ImageImport \<Rightarrow> string \<Rightarrow> ('s, unit) act" where
  "createIngestJob r imp scratchPVCName =
     (let job = buildIngestJob r imp scratchPVCName in
      case ce_setControllerReference r (import_owner imp) (job_owner job) of
        Inl e \<Rightarrow> raise (Wrapped ''setting ingest job owner reference'' e)
      | Inr own \<Rightarrow>
          (let job' = job\<lparr>job_owner := own\<rparr>
           in create_or_exists ''creating ingest job'' (kcall (CreateJob job') (ck_createJob (ce_client r) job'))))"

section \<open>imageimport\_status.go\<close>

definition ImageImportConditionReady :: string where
  "ImageImportConditionReady = ''Ready''"

definition imageIngestPollInterval :: duration where
  "imageIngestPollInterval = 30 * second"

definition setImageImportReadyCondition :: "libs \<Rightarrow> cond_status \<Rightarrow> string \<Rightarrow> string \<Rightarrow> ImageImport \<Rightarrow> ImageImport" where
  "setImageImportReadyCondition L status reason message imp =
     imp\<lparr>imp_conditions := setStatusCondition L (imp_conditions imp)
       \<lparr>c_type = ImageImportConditionReady, c_status = status, c_observedGeneration = imp_generation imp, c_reason = reason, c_message = message\<rparr>\<rparr>"

definition applyImageImportStatus :: "'s content_env \<Rightarrow> ImageImport \<Rightarrow> ('s, ImageImport) act" where
  "applyImageImportStatus r imp = kcall (ApplyImportStatus imp) (ck_applyImportStatus (ce_client r) imp)"

definition stampCompletionTime :: "time \<Rightarrow> ImageImport \<Rightarrow> ImageImport" where
  "stampCompletionTime at imp = (if imp_completionTime imp = None then imp\<lparr>imp_completionTime := Some at\<rparr> else imp)"

text \<open>A nil completion time is dereferenced.\<close>

definition enforceImportTTL :: "'s content_env \<Rightarrow> ImageImport \<Rightarrow> ('s, ctrl_result) act" where
  "enforceImportTTL r imp =
     (case ii_ttlSecondsAfterFinished (imp_spec imp) of
        None \<Rightarrow> ret noRequeue
      | Some secs \<Rightarrow>
          (case imp_completionTime imp of
             None \<Rightarrow> raise (GoPanic ''nil CompletionTime'')
           | Some completed \<Rightarrow>
               (let remaining = secs * second - (ce_now r - completed); key = (imp_namespace imp, imp_name imp) in
                if remaining > 0 then ret (requeueIn remaining)
                else bindK (attempt (kcall (DeleteImport key) (ck_deleteImport (ce_client r) key))) (\<lambda>x. case x of
                    Inr _ \<Rightarrow> ret noRequeue
                  | Inl e \<Rightarrow> if isNotFound e then ret noRequeue else raise (Wrapped ''deleting after ttlSecondsAfterFinished'' e)))))"

definition recordImportPending :: "'s content_env \<Rightarrow> ImageImport \<Rightarrow> string \<Rightarrow> string \<Rightarrow> ('s, ctrl_result) act" where
  "recordImportPending r imp reason message =
     bindK (wrapK ''recording Pending'' (applyImageImportStatus r
       (setImageImportReadyCondition (ce_lib r) CondFalse reason message (imp\<lparr>imp_state := ImportPending\<rparr>)))) (\<lambda>_. ret noRequeue)"

definition recordIngesting :: "'s content_env \<Rightarrow> ImageImport \<Rightarrow> string \<Rightarrow> string \<Rightarrow> ('s, ctrl_result) act" where
  "recordIngesting r imp reason message =
     bindK (wrapK ''recording Ingesting'' (applyImageImportStatus r
       (setImageImportReadyCondition (ce_lib r) CondFalse reason message (imp\<lparr>imp_state := ImportIngesting\<rparr>)))) (\<lambda>_. ret (requeueIn imageIngestPollInterval))"

definition recordImportSucceeded :: "'s content_env \<Rightarrow> ImageImport \<Rightarrow> NameRef list \<Rightarrow> ('s, ctrl_result) act" where
  "recordImportSucceeded r imp contentRefs =
     (let imp1 = stampCompletionTime (ce_now r) (imp\<lparr>imp_state := ImportSucceeded,
            imp_imageRef := Some \<lparr>nr_namespace = '''', nr_name = ii_imageName (imp_spec imp)\<rparr>, imp_contentRefs := contentRefs\<rparr>)
      in bindK (wrapK ''recording Succeeded'' (applyImageImportStatus r
           (setImageImportReadyCondition (ce_lib r) CondTrue ''ImportComplete''
             (''captured '' @ show_nat (length contentRefs) @ '' partition content object(s) and created Image '' @ go_quote (ii_imageName (imp_spec imp))) imp1)))
         (enforceImportTTL r))"

definition recordImportFailed :: "'s content_env \<Rightarrow> ImageImport \<Rightarrow> string \<Rightarrow> ('s, ctrl_result) act" where
  "recordImportFailed r imp message =
     (let imp1 = stampCompletionTime (ce_now r) (imp\<lparr>imp_state := ImportFailed\<rparr>)
      in bindK (wrapK ''recording Failed'' (applyImageImportStatus r
           (setImageImportReadyCondition (ce_lib r) CondFalse ''ImportFailed'' message imp1))) (enforceImportTTL r))"

definition migrateLegacyReadyState :: "'s content_env \<Rightarrow> ImageImport \<Rightarrow> ('s, ctrl_result) act" where
  "migrateLegacyReadyState r imp =
     bindK (wrapK ''rewriting legacy Ready state to Succeeded'' (applyImageImportStatus r
       (stampCompletionTime (ce_now r) (imp\<lparr>imp_state := ImportSucceeded\<rparr>)))) (enforceImportTTL r)"

definition reconcileFinished :: "'s content_env \<Rightarrow> ImageImport \<Rightarrow> ('s, ctrl_result) act" where
  "reconcileFinished r imp =
     (if imp_completionTime imp = None then
        bindK (wrapK ''backfilling completionTime'' (applyImageImportStatus r (stampCompletionTime (ce_now r) imp))) (enforceImportTTL r)
      else enforceImportTTL r imp)"

section \<open>imageimport\_layout.go\<close>

definition imported_slot :: "string \<Rightarrow> ResultPartition \<Rightarrow> ImageSlot" where
  "imported_slot prefix part =
     \<lparr>sl_number = rp_number part, sl_role = rp_role part,
      sl_contentRef = (if rp_role part = RoleSwap then None else Some \<lparr>nr_namespace = '''', nr_name = ContentName prefix (rp_number part)\<rparr>),
      sl_fsType = '''', sl_uuid = (if rp_role part = RoleSwap then rp_uuid part else ''''),
      sl_typeGUID = rp_typeGUID part, sl_partUUID = rp_partUUID part, sl_sizeBytes = rp_sizeBytes part\<rparr>"

definition importLayout :: "ImageImport \<Rightarrow> ResultDisk \<Rightarrow> kerr + ImageDiskLayout" where
  "importLayout imp disk =
     (if rk_sfdiskJSON disk = '''' then Inl (PlainError ''ingest result carries no partition table dump'')
      else if rk_partitions disk = [] then Inl (PlainError ''ingest result carries no partitions'')
      else Inr \<lparr>ly_partitionTable = rk_partitionTable disk, ly_sfdiskJSON = rk_sfdiskJSON disk,
        ly_slots = map (imported_slot (ii_contentPrefix (imp_spec imp))) (rk_partitions disk)\<rparr>)"

section \<open>imageimport\_controller.go\<close>

definition imageImportAnnotation :: string where
  "imageImportAnnotation = ''kezio.kojuro.date/image-import''"

text \<open>\<^verbatim>\<open>errors.As\<close> with \<^verbatim>\<open>importNameConflictError\<close>: the answer \<open>Some message\<close> is that error.\<close>

definition name_conflict :: "string \<Rightarrow> string \<Rightarrow> string" where
  "name_conflict knd name = knd @ '' '' @ go_quote name @ '' already exists and was not created by this import: '' @ knd @
     '' is immutable, so the import will not write over it; re-run the import with a different name''"

definition imported_content :: "ImageImport \<Rightarrow> string \<Rightarrow> ResultPartition \<Rightarrow> PartitionContent" where
  "imported_content imp name part =
     \<lparr>pc_name = name, pc_namespace = imp_namespace imp, pc_uid = '''', pc_generation = 0, pc_deletionTimestamp = None, pc_finalizers = [], pc_owners = [],
      pc_spec = \<lparr>ct_fsType = rp_fsType part, ct_usedBytes = rp_usedBytes part, ct_sizeBytes = rp_sizeBytes part, ct_lastExtentEnd = rp_lastExtentEnd part,
        ct_pieceLength = rp_pieceLength part, ct_importName = imp_name imp, ct_partitionNumber = rp_number part\<rparr>,
      pc_state = ContentStateEmpty, pc_infoHash = '''', pc_pvcRef = None, pc_seeders = [], pc_conditions = []\<rparr>"

definition ensureImportedContent :: "'s content_env \<Rightarrow> ImageImport \<Rightarrow> string \<Rightarrow> ResultPartition \<Rightarrow> ('s, string option) act" where
  "ensureImportedContent r imp name part =
     (let key = (imp_namespace imp, name) in
      bindK (wrapK ''getting PartitionContent'' (getOpt (kcall (GetContent key) (ck_getContent (ce_client r) key)))) (\<lambda>existing. case existing of
          Some pc \<Rightarrow> ret (if ct_importName (pc_spec pc) = imp_name imp then None else Some (name_conflict ''PartitionContent'' name))
        | None \<Rightarrow>
            (let pc = imported_content imp name part in
             bindK (create_or_exists ''creating PartitionContent'' (kcall (CreateContent pc) (ck_createContent (ce_client r) pc))) (\<lambda>_. ret None))))"

definition imported_image :: "ImageImport \<Rightarrow> ImageDiskLayout \<Rightarrow> Image" where
  "imported_image imp layout =
     \<lparr>im_name = ii_imageName (imp_spec imp), im_namespace = imp_namespace imp, im_uid = '''', im_generation = 0,
      im_annotations = [(imageImportAnnotation, imp_name imp)],
      im_spec = \<lparr>is_osFamily = ii_osFamily (imp_spec imp), is_bootable = ii_bootable (imp_spec imp), is_layout = layout,
        is_params = ii_params (imp_spec imp), is_postHookRefs = ii_postHookRefs (imp_spec imp)\<rparr>,
      im_state = ImageStateEmpty, im_conditions = []\<rparr>"

definition ensureImportedImage :: "'s content_env \<Rightarrow> ImageImport \<Rightarrow> ImageDiskLayout \<Rightarrow> ('s, string option) act" where
  "ensureImportedImage r imp layout =
     (let key = (imp_namespace imp, ii_imageName (imp_spec imp)) in
      bindK (wrapK ''getting Image'' (getOpt (kcall (GetImage key) (k_getImage (ce_kube r) key)))) (\<lambda>existing. case existing of
          Some img \<Rightarrow> ret (if map_of (im_annotations img) imageImportAnnotation = Some (imp_name imp) then None
                            else Some (name_conflict ''Image'' (ii_imageName (imp_spec imp))))
        | None \<Rightarrow>
            (let img = imported_image imp layout in
             bindK (create_or_exists ''creating Image'' (kcall (CreateImage img) (ck_createImage (ce_client r) img))) (\<lambda>_. ret None))))"

text \<open>The loop over the partitions: the names of the contents, or the conflict that ends it.\<close>

fun import_contents :: "'s content_env \<Rightarrow> ImageImport \<Rightarrow> ResultPartition list \<Rightarrow> ('s, string + NameRef list) act" where
  "import_contents r imp [] = ret (Inr [])"
| "import_contents r imp (part # parts) =
     (if rp_role part = RoleSwap then import_contents r imp parts
      else (let name = ContentName (ii_contentPrefix (imp_spec imp)) (rp_number part) in
        bindK (ensureImportedContent r imp name part) (\<lambda>conflict. case conflict of
            Some message \<Rightarrow> ret (Inl message)
          | None \<Rightarrow> bindK (import_contents r imp parts) (\<lambda>rest. ret (case rest of
                Inl message \<Rightarrow> Inl message | Inr refs \<Rightarrow> Inr (\<lparr>nr_namespace = '''', nr_name = name\<rparr> # refs))))))"

definition completeIngest :: "'s content_env \<Rightarrow> ImageImport \<Rightarrow> Job \<Rightarrow> ('s, ctrl_result) act" where
  "completeIngest r imp job =
     bindK (attempt (readJobResult r (imp_namespace imp) job)) (\<lambda>x. case x of
         Inl e \<Rightarrow> recordImportFailed r imp (''reading ingest result: '' @ error_text e)
       | Inr result \<Rightarrow>
           if \<not> ir_success result then recordImportFailed r imp (''ingest job reported failure: '' @ ir_error result)
           else case ir_disk result of
             None \<Rightarrow> recordImportFailed r imp ''ingest job reported success with no disk result''
           | Some disk \<Rightarrow>
               (case importLayout imp disk of
                  Inl e \<Rightarrow> recordImportFailed r imp (error_text e)
                | Inr layout \<Rightarrow>
                    bindK (import_contents r imp (rk_partitions disk)) (\<lambda>contents. case contents of
                        Inl message \<Rightarrow> recordImportFailed r imp message
                      | Inr refs \<Rightarrow>
                          bindK (ensureImportedImage r imp layout) (\<lambda>conflict. case conflict of
                              Some message \<Rightarrow> recordImportFailed r imp message
                            | None \<Rightarrow> recordImportSucceeded r imp refs))))"

definition reconcileIngesting :: "'s import_env \<Rightarrow> ImageImport \<Rightarrow> ('s, ctrl_result) act" where
  "reconcileIngesting e imp =
     (let r = ie_env e in
      if hasPrefix (ii_sourceURL (imp_spec imp)) staged_prefix \<and> ig_stagingPVCName (ce_ingest r) = '''' then
        recordImportPending r imp ''StagingUnconfigured'' ''spec.source.url uses a staged upload but no staging PVC is configured on the manager; the import stays Pending until it is''
      else bindK (ensureIngestScratchPVC e imp) (\<lambda>scratch.
           bindK (ingestJobFor r imp) (\<lambda>job. case job of
               None \<Rightarrow> bindK (createIngestJob r imp (pvc_name scratch)) (\<lambda>_. recordIngesting r imp ''IngestJobCreated'' ''ingest job created'')
             | Some j \<Rightarrow> (case outcomeOf j of
                   JobSucceeded \<Rightarrow> completeIngest r imp j
                 | JobFailed \<Rightarrow> recordImportFailed r imp (''ingest job '' @ go_quote (job_name j) @ '' failed'')
                 | JobRunning \<Rightarrow> recordIngesting r imp ''IngestRunning'' ''ingest job is running''))))"

definition legacyReadyState :: ImageImportState where
  "legacyReadyState = ImportStateOther ''Ready''"

definition onChangeImport :: "'s import_env \<Rightarrow> ImageImport \<Rightarrow> ('s, ctrl_result) act" where
  "onChangeImport e imp =
     (let r = ie_env e in
      if imp_state imp = ImportSucceeded \<or> imp_state imp = ImportFailed then reconcileFinished r imp
      else if imp_state imp = legacyReadyState then migrateLegacyReadyState r imp
      else if \<not> ingest_ready (ce_ingest r) then
        recordImportPending r imp ''IngestUnconfigured'' ''no ingest Job image is configured on the manager; the import stays Pending until it is''
      else reconcileIngesting e imp)"

definition reconcileImport :: "'s import_env \<Rightarrow> key \<Rightarrow> ('s, ctrl_result) act" where
  "reconcileImport e key =
     bindK (getOpt (kcall (GetImport key) (ck_getImport (ce_client (ie_env e)) key))) (\<lambda>x. case x of
         None \<Rightarrow> ret noRequeue | Some imp \<Rightarrow> onChangeImport e imp)"

end
