(* ===== verification/Content_World.thy ===== *)
theory Content_World
  imports Import_Controller Plan_World
begin

text \<open>
  A concrete world for the controllers of the content plane: the client answers from fixed lists of
  objects and accepts every request; a Job's message is the info hash it reports.
\<close>

record lab =
  lb_contents :: "PartitionContent list"
  lb_images :: "Image list"
  lb_jobs :: "Job list"
  lb_deployments :: "Workload.Deployment list"
  lb_message :: string

definition pick :: "('a \<Rightarrow> key) \<Rightarrow> 'a list \<Rightarrow> key \<Rightarrow> 's \<Rightarrow> (kerr + 'a) \<times> 's" where
  "pick f xs k s = (case find (\<lambda>x. f x = k) xs of None \<Rightarrow> (Inl NotFound, s) | Some x \<Rightarrow> (Inr x, s))"

definition accept :: "'a \<Rightarrow> 's \<Rightarrow> (kerr + 'a) \<times> 's" where
  "accept x s = (Inr x, s)"

definition lab_client :: "lab \<Rightarrow> store contentkube" where
  "lab_client l = \<lparr>ck_getContent = pick (\<lambda>pc. (pc_namespace pc, pc_name pc)) (lb_contents l), ck_createContent = accept, ck_updateContent = accept,
     ck_patchContent = accept, ck_applyContentStatus = accept,
     ck_listImages = (\<lambda>k. accept (filter (\<lambda>i. im_namespace i = fst k \<and> snd k \<in> set (imageContentRefNames i)) (lb_images l))),
     ck_listClaimsByImage = (\<lambda>k. accept []), ck_createImage = accept, ck_applyImageStatus = accept,
     ck_getPVC = (\<lambda>k s. (Inl NotFound, s)), ck_createPVC = accept, ck_getJob = pick job_key (lb_jobs l), ck_createJob = accept,
     ck_deleteJob = (\<lambda>k. accept ()), ck_listPods = (\<lambda>k. accept [[None, Some (lb_message l)]]),
     ck_listDeployments = (\<lambda>ns. accept (lb_deployments l)), ck_getDeployment = pick dpl_key (lb_deployments l), ck_createDeployment = accept,
     ck_patchDeployment = accept, ck_deleteDeployment = (\<lambda>k. accept ()), ck_getSite = (\<lambda>k s. (Inl NotFound, s)),
     ck_getImport = (\<lambda>k s. (Inl NotFound, s)), ck_applyImportStatus = accept, ck_deleteImport = (\<lambda>k. accept ())\<rparr>"

definition lab_result :: "string \<Rightarrow> kerr + IngestResult" where
  "lab_result message = Inr \<lparr>ir_success = True, ir_error = '''', ir_disk = Some \<lparr>rk_sizeBytes = 10, rk_partitionTable = ''gpt'', rk_sfdiskJSON = ''{}'',
     rk_partitions = [\<lparr>rp_number = 1, rp_role = RoleData, rp_fsType = ''ext4'', rp_usedBytes = 1, rp_sizeBytes = 9, rp_lastExtentEnd = 8, rp_pieceLength = 1,
       rp_uuid = '''', rp_typeGUID = '''', rp_partUUID = ''''\<rparr>]\<rparr>, ir_publish = Some message\<rparr>"

definition lab_env :: "lab \<Rightarrow> store content_env" where
  "lab_env l = \<lparr>ce_kube = ref_kube, ce_client = lab_client l, ce_lib = ref_libs,
     ce_publish = \<lparr>pu_image = ''publish:1'', pu_serviceAccountName = '''', pu_storageClassName = '''', pu_accessModes = [], pu_jobTTL = 0\<rparr>,
     ce_seeder = \<lparr>se_image = ''seeder:1'', se_gracePeriod = 0, se_maxUploads = 0, se_maxConnections = 0\<rparr>,
     ce_ingest = \<lparr>ig_image = ''ingest:1'', ig_sourceFormat = '''', ig_serviceAccountName = '''', ig_scratchStorageClassName = '''', ig_scratchSizeBytes = 0,
       ig_scratchAccessModes = [], ig_stagingPVCName = '''', ig_imageServiceURL = '''', ig_imageServiceToken = '''', ig_ioBandwidthBytesPerSec = 0,
       ig_unprivileged = False, ig_jobTTL = 0\<rparr>,
     ce_now = 10 ^ 12, ce_sha = (\<lambda>x. x), ce_unmarshal = lab_result, ce_setControllerReference = (\<lambda>o' x. Inr (Some o')),
     ce_setOwnerReference = (\<lambda>u us. Inr (us @ [u])), ce_parseTime = (\<lambda>s. if s = '''' then None else Some 0), ce_formatTime = show_int\<rparr>"

definition lab_world :: "(key \<times> DeployRun) list \<Rightarrow> store world" where
  "lab_world rs = \<lparr>srv = (ref_store (ref_machine Available [] None))\<lparr>st_runs := rs\<rparr>, trace = []\<rparr>"

lemma lab_env_sel [simp]:
  "ce_lib (lab_env l) = ref_libs" "ce_client (lab_env l) = lab_client l" "ce_kube (lab_env l) = ref_kube"
  by (simp_all add: lab_env_def)

text \<open>A content as an import creates it, the same content being deleted, its publish Job, and an Image that refers to it.\<close>

definition lab_content :: PartitionContent where
  "lab_content = demo_content\<lparr>pc_finalizers := [PartitionContentFinalizer], pc_state := ContentStateEmpty, pc_infoHash := '''', pc_conditions := []\<rparr>"

definition lab_doomed :: PartitionContent where
  "lab_doomed = lab_content\<lparr>pc_deletionTimestamp := Some 5\<rparr>"

definition lab_job :: Job where
  "lab_job = (buildPublishJob (lab_env \<lparr>lb_contents = [], lb_images = [], lb_jobs = [], lb_deployments = [], lb_message = ''''\<rparr>) lab_content ''pc-content'')\<lparr>job_succeeded := 1\<rparr>"

definition lab_hash :: string where
  "lab_hash = hex_encode (replicate 20 (CHR ''x''))"

definition lab_slot :: ImageSlot where
  "lab_slot = demo_slot 1 RoleData (Some \<lparr>nr_namespace = '''', nr_name = ''pc''\<rparr>)"

definition lab_image :: Image where
  "lab_image = (demo_image ''i'' '''' [lab_slot])\<lparr>im_state := ImageStatePending\<rparr>"

definition lab_of :: "PartitionContent list \<Rightarrow> Image list \<Rightarrow> Job list \<Rightarrow> Workload.Deployment list \<Rightarrow> lab" where
  "lab_of cs is' js ds = \<lparr>lb_contents = cs, lb_images = is', lb_jobs = js, lb_deployments = ds, lb_message = lab_hash\<rparr>"

end
