(* ===== verification/Content_Properties.thy ===== *)
theory Content_Properties
  imports Image_Controller Content_World
begin

text \<open>
  Properties of the PartitionContent controller and of the Image controller: when a content becomes
  Ready and what its status then says, when it may be removed, when an Image becomes Ready, and when a
  seeder is stopped. The server may answer anything; where the code relies on an answer it was given,
  \<open>answered\<close> names it.
\<close>

section \<open>Answers\<close>

definition answered :: "('s \<Rightarrow> (kerr + 'a) \<times> 's) \<Rightarrow> 'a \<Rightarrow> bool" where
  "answered op x \<longleftrightarrow> (\<exists>s s'. op s = (Inr x, s'))"

lemma kspec_answer: "P c \<Longrightarrow> kspec P (answered op) (kcall c op)"
  by (rule kspec_kcall) (auto simp: answered_def)

lemma kspec_getOpt_answer: "P c \<Longrightarrow> kspec P (\<lambda>x. \<forall>y. x = Some y \<longrightarrow> answered op y) (getOpt (kcall c op))"
  by (rule kspec_getOpt [OF kspec_answer])

section \<open>The publish walk\<close>

abbreviation content_ready_true :: "libs \<Rightarrow> PartitionContent \<Rightarrow> bool" where
  "content_ready_true L pc \<equiv> isStatusConditionTrue L (pc_conditions pc) PartitionContentConditionReady"

text \<open>What a successful publish Job reported: the witness of a Ready content.\<close>

definition published :: "'s content_env \<Rightarrow> PartitionContent \<Rightarrow> string \<Rightarrow> bool" where
  "published r pc h \<longleftrightarrow>
     (\<exists>job pods message result.
        answered (ck_getJob (ce_client r) (pc_namespace pc, publishJobName (ce_sha r) (pc_name pc))) job \<and> outcomeOf job = JobSucceeded \<and>
        answered (ck_listPods (ce_client r) (pc_namespace pc, job_name job)) pods \<and>
        find (\<lambda>m. m \<noteq> None \<and> m \<noteq> Some '''') (concat pods) = Some (Some message) \<and>
        ce_unmarshal r message = Inr result \<and> ir_success result \<and> ir_publish result = Some h \<and> (\<exists>x. ParseInfoHash h = Inr x))"

text \<open>A status write of a pass over \<open>pc\<close>.\<close>

definition content_advances :: "'s content_env \<Rightarrow> PartitionContent \<Rightarrow> PartitionContent \<Rightarrow> bool" where
  "content_advances r pc pc' \<longleftrightarrow>
     pc_spec pc' = pc_spec pc \<and> pc_name pc' = pc_name pc \<and> pc_namespace pc' = pc_namespace pc \<and>
     (if pc_state pc = ContentReady
      then pc_state pc' = ContentReady \<and> pc_infoHash pc' = pc_infoHash pc \<and> content_ready_true (ce_lib r) pc' = content_ready_true (ce_lib r) pc
      else if pc_state pc' = ContentReady then published r pc (pc_infoHash pc') \<and> content_ready_true (ce_lib r) pc'
      else pc_infoHash pc' = pc_infoHash pc \<and>
        (content_ready_true (ce_lib r) pc' \<longrightarrow> pc_state pc' = pc_state pc \<and> content_ready_true (ce_lib r) pc))"

definition content_write :: "call \<Rightarrow> bool" where
  "content_write c \<longleftrightarrow> (case c of ApplyContentStatus _ \<Rightarrow> True | UpdateContent _ \<Rightarrow> True | _ \<Rightarrow> False)"

lemma condition_names [simp]:
  "PartitionContentConditionValid \<noteq> PartitionContentConditionReady" "PartitionContentConditionReady \<noteq> PartitionContentConditionValid"
  "PartitionContentConditionSeederDegraded \<noteq> PartitionContentConditionReady" "PartitionContentConditionReady \<noteq> PartitionContentConditionSeederDegraded"
  "PartitionContentConditionDeletionBlocked \<noteq> PartitionContentConditionReady" "PartitionContentConditionReady \<noteq> PartitionContentConditionDeletionBlocked"
  by (simp_all add: PartitionContentConditionValid_def PartitionContentConditionReady_def PartitionContentConditionSeederDegraded_def
    PartitionContentConditionDeletionBlocked_def)

lemma put_condition_frame [simp]:
  "pc_spec (put_condition L t st re ms pc) = pc_spec pc" "pc_name (put_condition L t st re ms pc) = pc_name pc"
  "pc_namespace (put_condition L t st re ms pc) = pc_namespace pc" "pc_state (put_condition L t st re ms pc) = pc_state pc"
  "pc_infoHash (put_condition L t st re ms pc) = pc_infoHash pc" "pc_finalizers (put_condition L t st re ms pc) = pc_finalizers pc"
  by (simp_all add: put_condition_def)

lemma put_condition_ready:
  assumes "meta_laws L"
  shows "content_ready_true L (put_condition L PartitionContentConditionReady st re ms pc) \<longleftrightarrow> st = CondTrue"
    "t \<noteq> PartitionContentConditionReady \<Longrightarrow> content_ready_true L (put_condition L t st re ms pc) = content_ready_true L pc"
  using assms by (auto simp: put_condition_def meta_lawsD)

lemmas setter_defs = setPartitionContentReadyCondition_def setPartitionContentValidCondition_def
  setPartitionContentSeederDegradedCondition_def setPartitionContentDeletionBlockedCondition_def

lemma apply_status_spec:
  assumes "P (ApplyContentStatus pc)" "\<And>e. P (Event e)"
  shows "kspec P (\<lambda>_. True) (applyPartitionContentStatus r pc (map Event es))"
proof -
  have "kspec P (\<lambda>_. True) (note_calls (map Event es))"
    by (rule kspec_note_calls) (auto simp: assms(2))
  then show ?thesis
    unfolding applyPartitionContentStatus_def
    by (intro kspec_bindT kspec_callT assms) (auto intro!: kspec_ret)
qed

lemmas apply_status_none = apply_status_spec [where es = "[]", simplified]
lemmas apply_status_one = apply_status_spec [where es = "[e]" for e, simplified]

text \<open>The reads and creations a pass makes besides.\<close>

lemma content_parts:
  assumes "\<And>c. \<not> content_write c \<Longrightarrow> P c"
  shows "kspec P (\<lambda>_. True) (ensureContentPVC r pc)" "kspec P (\<lambda>_. True) (createPublishJob r pc v)" "kspec P (\<lambda>_. True) (imagesReferencing r pc)"
    "kspec P (\<lambda>x. \<forall>y. x = Some y \<longrightarrow> answered (ck_getJob (ce_client r) (pc_namespace pc, publishJobName (ce_sha r) (pc_name pc))) y) (publishJobFor r pc)"
proof -
  have P: "P (GetPVC a)" "P (CreatePVC b)" "P (CreateJob j)" "P (ListImages a)" "P (GetJob a)" for a b j
    by (simp_all add: assms content_write_def)
  show "kspec P (\<lambda>_. True) (ensureContentPVC r pc)" "kspec P (\<lambda>_. True) (createPublishJob r pc v)" "kspec P (\<lambda>_. True) (imagesReferencing r pc)"
    unfolding ensureContentPVC_def createPublishJob_def create_or_exists_def imagesReferencing_def Let_def
    by (auto split: sum.splits option.splits intro!: quiet_intros P)
  show "kspec P (\<lambda>x. \<forall>y. x = Some y \<longrightarrow> answered (ck_getJob (ce_client r) (pc_namespace pc, publishJobName (ce_sha r) (pc_name pc))) y) (publishJobFor r pc)"
    unfolding publishJobFor_def Let_def by (rule kspec_wrap [OF kspec_getOpt_answer]) (rule P)
qed

lemma read_result_spec:
  assumes "\<And>c. \<not> content_write c \<Longrightarrow> P c"
  shows "kspec P (\<lambda>result. \<exists>pods message. answered (ck_listPods (ce_client r) (ns, job_name job)) pods \<and>
     find (\<lambda>m. m \<noteq> None \<and> m \<noteq> Some '''') (concat pods) = Some (Some message) \<and> ce_unmarshal r message = Inr result) (readJobResult r ns job)"
  unfolding readJobResult_def
  by (rule kspec_bind [OF kspec_wrap [OF kspec_answer]])
    (auto simp: assms content_write_def split: option.splits sum.splits intro!: kspec_raise kspec_ret)


text \<open>The requests of the demand computation: it only reads.\<close>

definition content_read :: "call \<Rightarrow> bool" where
  "content_read c \<longleftrightarrow> (case c of
       GetImage _ \<Rightarrow> True | GetRun _ \<Rightarrow> True | GetClaim _ \<Rightarrow> True | GetMachine _ \<Rightarrow> True | GetSubnet _ \<Rightarrow> True | GetSite _ \<Rightarrow> True
     | ListRuns _ \<Rightarrow> True | ListImages _ \<Rightarrow> True | ListMachines _ \<Rightarrow> True | ListClaimsByImage _ \<Rightarrow> True | ListDeployments _ \<Rightarrow> True
     | _ \<Rightarrow> False)"

lemma read_quiet: "content_read c \<Longrightarrow> \<not> content_write c"
  by (cases c) (simp_all add: content_read_def content_write_def)

lemma reads_parts:
  assumes "\<And>c. content_read c \<Longrightarrow> P c"
  shows "kspec P (\<lambda>_. True) (run_references r n ks memo)" "kspec P (\<lambda>_. True) (active_runs r n rs memo)"
    "kspec P (\<lambda>_. True) (activeDeployRunsReferencing r pc)" "kspec P (\<lambda>_. True) (resolveSeedDemand r pc)"
proof -
  have P: "P (GetImage a)" "P (ListRuns b)" "P (ListClaimsByImage a)" "P (ListImages a)" for a b
    by (simp_all add: assms content_read_def)
  show refs: "kspec P (\<lambda>_. True) (run_references r n ks memo)" for n ks memo
    by (induction r n ks memo rule: run_references.induct) (auto simp: Let_def split: option.splits intro!: quiet_intros P)
  show active: "kspec P (\<lambda>_. True) (active_runs r n rs memo)" for n rs memo
    by (induction rs arbitrary: memo) (auto intro!: quiet_intros refs)
  show runs: "kspec P (\<lambda>_. True) (activeDeployRunsReferencing r pc)"
    unfolding activeDeployRunsReferencing_def by (intro quiet_intros active P)
  have live: "kspec P (\<lambda>_. True) (any_live_image r xs)" for xs
    by (induction xs) (auto simp: hasLiveClaimReferencing_def Let_def intro!: quiet_intros P)
  show "kspec P (\<lambda>_. True) (resolveSeedDemand r pc)"
    unfolding resolveSeedDemand_def imagesReferencing_def by (intro quiet_intros live runs P)
qed

lemma site_parts:
  assumes "\<And>c. content_read c \<Longrightarrow> P c"
  shows "kspec P (\<lambda>_. True) (machinesReferencingImage (k :: 'a kube) key)" "kspec P (\<lambda>_. True) (seederDemandBySite r ms)"
    "kspec P (\<lambda>_. True) (add_run_machines r rs machines)" "kspec P (\<lambda>_. True) (listImageSeederDeployments r img)"
proof -
  have P: "P (GetRun a)" "P (ListMachines b)" "P (GetClaim a)" "P (GetSubnet a)" "P (GetSite a)" "P (GetMachine a)" "P (ListDeployments b)" for a b
    by (simp_all add: assms content_read_def)
  have claim: "kspec P (\<lambda>_. True) (resolveClaimIntent k m)" for k :: "'a kube" and m
    unfolding resolveClaimIntent_def by (auto split: option.splits intro!: quiet_intros P)
  have pending: "kspec P (\<lambda>_. True) (machineDeployPending k m c)" for k :: "'a kube" and m c
    unfolding machineDeployPending_def Let_def by (auto split: option.splits intro!: quiet_intros P)
  have each: "kspec P (\<lambda>_. True) (demanding_machines k key ms)" for ms
    by (induction k key ms rule: demanding_machines.induct) (auto split: option.splits intro!: quiet_intros claim pending)
  show "kspec P (\<lambda>_. True) (machinesReferencingImage k key)"
    unfolding machinesReferencingImage_def by (intro quiet_intros each P)
  have resolve: "kspec P (\<lambda>_. True) (Resolve (site_reader r) m)" for m
    unfolding Resolve_def site_reader_def read_or_def Let_def by (auto split: option.splits sum.splits intro!: quiet_intros P)
  have sites: "kspec P (\<lambda>_. True) (demand_sites r ms demand none)" for ms demand none
    by (induction ms arbitrary: demand none) (auto split: sum.splits intro!: quiet_intros resolve)
  show "kspec P (\<lambda>_. True) (seederDemandBySite r ms)"
    unfolding seederDemandBySite_def by (rule sites)
  show "kspec P (\<lambda>_. True) (add_run_machines r rs machines)"
    by (induction rs arbitrary: machines) (auto simp: Let_def split: sum.splits intro!: quiet_intros P)
  show "kspec P (\<lambda>_. True) (listImageSeederDeployments r img)"
    unfolding listImageSeederDeployments_def by (intro quiet_intros P)
qed

lemma collect_parts:
  assumes "\<And>c. content_read c \<Longrightarrow> P c"
  shows "kspec P (\<lambda>_. True) (collectSeederSites r pc images)"
proof -
  note parts = site_parts [of P, OF assms] reads_parts [of P, OF assms]
  have machines: "kspec P (\<lambda>_. True) (image_machines r xs ms)" for xs ms
    by (induction xs arbitrary: ms) (auto intro!: quiet_intros parts)
  have sites: "kspec P (\<lambda>_. True) (available_sites r xs)" for xs
    by (induction xs) (auto intro!: quiet_intros parts)
  show ?thesis
    unfolding collectSeederSites_def demandMachinesForContent_def by (auto intro!: quiet_intros parts machines sites)
qed


lemma published_frame [simp]: "published r (put_condition L t st re ms pc) h = published r pc h"
  by (simp add: published_def)

lemma advances_valid:
  assumes "meta_laws (ce_lib r)" "content_advances r (setPartitionContentValidCondition (ce_lib r) pc) pc'"
  shows "content_advances r pc pc'"
  using assms(2) unfolding content_advances_def setter_defs put_condition_frame published_frame
  by (simp add: put_condition_ready [OF assms(1)] split: if_splits)

lemma record_specs:
  assumes "meta_laws (ce_lib r)" "\<And>c. \<not> content_write c \<Longrightarrow> P c" "\<And>pc'. content_advances r pc pc' \<Longrightarrow> P (ApplyContentStatus pc')" "pc_state pc \<noteq> ContentReady"
  shows "kspec P (\<lambda>_. True) (recordContentPending r pc v)" "kspec P (\<lambda>_. True) (recordContentPublishing r pc v)"
    "kspec P (\<lambda>_. True) (recordContentFailedMessage r pc m)" "published r pc h \<Longrightarrow> kspec P (\<lambda>_. True) (recordContentReady r pc v h)"
proof -
  have e: "P (Event x)" for x by (simp add: assms(2) content_write_def)
  have frame: "published r (pc\<lparr>pc_state := a, pc_pvcRef := b, pc_infoHash := c\<rparr>) = published r pc" for a b c
    by (auto simp: published_def fun_eq_iff)
  show "kspec P (\<lambda>_. True) (recordContentPending r pc v)" "kspec P (\<lambda>_. True) (recordContentPublishing r pc v)"
    "kspec P (\<lambda>_. True) (recordContentFailedMessage r pc m)" "published r pc h \<Longrightarrow> kspec P (\<lambda>_. True) (recordContentReady r pc v h)"
    unfolding recordContentPending_def recordContentPublishing_def recordContentFailedMessage_def recordContentReady_def Let_def
    by (intro quiet_intros apply_status_none apply_status_one e assms(3);
      simp add: content_advances_def setter_defs put_condition_ready assms(1,4))+
qed

lemma complete_spec:
  assumes "meta_laws (ce_lib r)" "\<And>c. \<not> content_write c \<Longrightarrow> P c" "\<And>pc'. content_advances r pc pc' \<Longrightarrow> P (ApplyContentStatus pc')" "pc_state pc \<noteq> ContentReady"
    "answered (ck_getJob (ce_client r) (pc_namespace pc, publishJobName (ce_sha r) (pc_name pc))) job" "outcomeOf job = JobSucceeded"
  shows "kspec P (\<lambda>_. True) (completePublish r pc v job)"
proof -
  have pub: "published r pc h"
    if "answered (ck_listPods (ce_client r) (pc_namespace pc, job_name job)) pods" "find (\<lambda>m. m \<noteq> None \<and> m \<noteq> Some '''') (concat pods) = Some (Some message)"
      "ce_unmarshal r message = Inr result" "ir_success result" "ir_publish result = Some h" "ParseInfoHash h = Inr x" for pods message result h x
    using that assms(5,6) unfolding published_def by blast
  note recs = record_specs [where P = P, OF assms(1-4)]
  have res: "kspec P (\<lambda>result. \<exists>pods message. answered (ck_listPods (ce_client r) (pc_namespace pc, job_name job)) pods \<and>
     find (\<lambda>m. m \<noteq> None \<and> m \<noteq> Some '''') (concat pods) = Some (Some message) \<and> ce_unmarshal r message = Inr result) (readJobResult r (pc_namespace pc) job)"
    by (rule read_result_spec) (rule assms(2))
  show ?thesis
    unfolding completePublish_def
    apply (rule kspec_bind [OF kspec_attempt [OF res]])
    subgoal premises prems for x
    proof -
      have "published r pc h" if "x = Inr result" "ir_success result" "ir_publish result = Some h" "ParseInfoHash h = Inr y" for result h y
        using that pub prems by blast
      then show ?thesis by (auto split: sum.splits option.splits intro: recs)
    qed
    done
qed

lemma seeder_spec:
  assumes "meta_laws (ce_lib r)" "\<And>c. \<not> content_write c \<Longrightarrow> P c" "\<And>pc'. content_advances r pc pc' \<Longrightarrow> P (ApplyContentStatus pc')" "pc_state pc = ContentReady"
  shows "kspec P (\<lambda>_. True) (reconcileSeeder r pc)"
proof -
  have e: "P (Event x)" for x by (simp add: assms(2) content_write_def)
  have frame: "content_advances r pc (recordSeederUnavailable r findings (pc\<lparr>pc_seeders := ss\<rparr>))" for findings ss
    using assms(1,4) by (simp add: content_advances_def recordSeederUnavailable_def setter_defs put_condition_ready split: list.splits)
  have rec: "kspec P (\<lambda>_. True) (recordSeederStatus r pc findings demand)" for findings demand
    unfolding recordSeederStatus_def Let_def
    by (intro quiet_intros apply_status_none e assms(3))
      (auto simp: frame, simp_all add: content_advances_def setter_defs put_condition_ready assms(1,4) meta_lawsD)
  show ?thesis
    unfolding reconcileSeeder_def imagesReferencing_def
    by (intro quiet_intros rec collect_parts reads_parts assms(2); (erule read_quiet | simp add: content_write_def))
qed

lemma change_spec:
  assumes "meta_laws (ce_lib r)" "\<And>c. \<not> content_write c \<Longrightarrow> P c" "\<And>pc'. content_advances r pc pc' \<Longrightarrow> P (ApplyContentStatus pc')"
  shows "kspec P (\<lambda>_. True) (onChangeContent r pc)"
proof -
  define pc1 where "pc1 = setPartitionContentValidCondition (ce_lib r) pc"
  have adv: "P (ApplyContentStatus pc')" if "content_advances r pc1 pc'" for pc'
    using advances_valid [OF assms(1)] that assms(3) by (simp add: pc1_def)
  note parts = content_parts [of P, OF assms(2)]
  note recs = record_specs [where P = P and pc = pc1, OF assms(1,2) adv] complete_spec [where P = P and pc = pc1, OF assms(1,2) adv]
    seeder_spec [where P = P and pc = pc1, OF assms(1,2) adv]
  show ?thesis
    unfolding onChangeContent_def Let_def pc1_def [symmetric] recordContentFailed_def
    by (intro kspec_bindT kspec_bind [OF parts(4)] parts(1,2) kspec_if kspec_case_option)
      (auto split: jobOutcome.splits intro!: recs parts(1,2) kspec_bindT)
qed

section \<open>A pass over a content\<close>

lemma blocked_advances:
  "meta_laws (ce_lib r) \<Longrightarrow> content_advances r pc (setPartitionContentDeletionBlockedCondition (ce_lib r) re ms pc)"
  by (simp add: content_advances_def setter_defs put_condition_ready published_def)

lemma delete_job_spec: "(\<And>c. \<not> content_write c \<Longrightarrow> P c) \<Longrightarrow> kspec P (\<lambda>_. True) (deletePublishJob r pc)"
  unfolding deletePublishJob_def
  by (rule kspec_bind [OF content_parts(4)]) (auto split: option.splits simp: content_write_def intro!: quiet_intros)

lemma blockers_spec:
  assumes "\<And>c. \<not> content_write c \<Longrightarrow> P c"
  shows "kspec P (\<lambda>_. True) (blockingReferences r pc)"
proof -
  have reads: "P c" if "content_read c" for c
    using that by (intro assms read_quiet)
  note parts = content_parts(3) [of P, OF assms] reads_parts(3) [of P, OF reads]
  show ?thesis
    unfolding blockingReferences_def by (intro quiet_intros parts)
qed

lemma delete_spec:
  assumes "meta_laws (ce_lib r)" "\<And>c. \<not> content_write c \<Longrightarrow> P c" "\<And>pc'. content_advances r pc pc' \<Longrightarrow> P (ApplyContentStatus pc')" "\<And>pc'. P (UpdateContent pc')"
  shows "kspec P (\<lambda>_. True) (onDeleteContent r pc)"
proof -
  have e: "P (Event x)" for x by (simp add: assms(2) content_write_def)
  show ?thesis
    unfolding onDeleteContent_def recordDeletionBlocked_def Let_def
    by (intro quiet_intros blockers_spec delete_job_spec apply_status_one e assms(2-4) blocked_advances assms(1))
qed

text \<open>The status of a content: what the passes write, starting from the empty status, and whatever others change besides the status.\<close>

inductive content_reach :: "'s content_env \<Rightarrow> PartitionContent \<Rightarrow> bool" for r where
  created: "pc_state pc = ContentStateEmpty \<Longrightarrow> pc_infoHash pc = '''' \<Longrightarrow> \<not> content_ready_true (ce_lib r) pc \<Longrightarrow> content_reach r pc"
| pass: "content_reach r pc \<Longrightarrow> m = onChangeContent r pc \<or> m = onDeleteContent r pc \<Longrightarrow>
    (ApplyContentStatus pc', ok) \<in> set (calls_of m w) \<Longrightarrow> content_reach r pc'"
| edited: "content_reach r pc \<Longrightarrow> pc_state pc' = pc_state pc \<Longrightarrow> pc_infoHash pc' = pc_infoHash pc \<Longrightarrow> pc_conditions pc' = pc_conditions pc \<Longrightarrow> content_reach r pc'"

lemma pass_advances:
  assumes "meta_laws (ce_lib r)" "m = onChangeContent r pc \<or> m = onDeleteContent r pc" "(ApplyContentStatus pc', ok) \<in> set (calls_of m w)"
  shows "content_advances r pc pc'"
proof -
  define P where "P c \<longleftrightarrow> (\<forall>pc'. c = ApplyContentStatus pc' \<longrightarrow> content_advances r pc pc')" for c
  have quiet: "P c" if "\<not> content_write c" for c
    using that by (auto simp: P_def content_write_def)
  have "kspec P (\<lambda>_. True) (onChangeContent r pc)"
    by (rule change_spec [OF assms(1) quiet]) (simp_all add: P_def)
  moreover have "kspec P (\<lambda>_. True) (onDeleteContent r pc)"
    by (rule delete_spec [OF assms(1) quiet]) (simp_all add: P_def)
  ultimately have "P (ApplyContentStatus pc')"
    using assms(2,3) kspec_calls by blast
  then show ?thesis by (simp add: P_def)
qed

text \<open>
  C15: whatever the API server answers, a pass over a PartitionContent
  that is not Ready records Ready only when the content's publish Job was read as succeeded, the first
  termination message of its pods decoded to a successful result with an info hash, and that hash parses;
  the status then carries exactly this hash and a true Ready condition. A pass over a Ready content never
  takes Ready back and never changes the hash, and no pass changes the specification.
\<close>

theorem content_ready_only_when_published:
  assumes "meta_laws (ce_lib r)" "m = onChangeContent r pc \<or> m = onDeleteContent r pc" "(ApplyContentStatus pc', ok) \<in> set (calls_of m w)"
  shows "pc_spec pc' = pc_spec pc \<and>
    (pc_state pc = ContentReady \<longrightarrow> pc_state pc' = ContentReady \<and> pc_infoHash pc' = pc_infoHash pc) \<and>
    (pc_state pc \<noteq> ContentReady \<and> pc_state pc' = ContentReady \<longrightarrow> published r pc (pc_infoHash pc') \<and> content_ready_true (ce_lib r) pc')"
  using pass_advances [OF assms] by (auto simp: content_advances_def split: if_splits)

lemma content_reach_status:
  assumes "content_reach r pc" "meta_laws (ce_lib r)"
  shows "(content_ready_true (ce_lib r) pc \<longleftrightarrow> pc_state pc = ContentReady) \<and>
    (if pc_state pc = ContentReady then \<exists>h. ParseInfoHash (pc_infoHash pc) = Inr h else pc_infoHash pc = '''')"
  using assms(1)
proof (induction rule: content_reach.induct)
  case (pass pc m pc' ok w)
  have "content_advances r pc pc'"
    using assms(2) pass.hyps(2,3) by (rule pass_advances)
  with pass.IH show ?case
    by (auto simp: content_advances_def published_def split: if_splits)
qed auto

text \<open>
  C16: in every status a PartitionContent can reach through passes of its
  controller, also passes over an outdated read, and through edits of others outside the status, the Ready
  condition is true exactly in the state Ready, and the info hash is empty until then and parses from then
  on. So the plan builder, which reads the condition and parses the hash, never rejects the hash of a
  content it takes for Ready.
\<close>

theorem reachable_content_is_plannable:
  assumes "content_reach r pc" "meta_laws (ce_lib r)"
  shows "(content_ready_true (ce_lib r) pc \<longleftrightarrow> pc_state pc = ContentReady) \<and>
    (if pc_state pc = ContentReady then \<exists>h. ParseInfoHash (pc_infoHash pc) = Inr h else pc_infoHash pc = [])"
  using assms by (rule content_reach_status)

section \<open>What the plan builder relies on\<close>

text \<open>
  The plan builder reads contents that another controller writes. The contract between them: a content
  whose Ready condition is true has an info hash that parses.
\<close>

lemma empty_hash_invalid: "ParseInfoHash [] \<noteq> Inr h"
  by (simp add: ParseInfoHash_def InfoHashSize_def)

locale content_provider =
  fixes written :: "PartitionContent \<Rightarrow> bool"
    and conditionTrue :: "condition list \<Rightarrow> string \<Rightarrow> bool"
  assumes ready_hash: "written pc \<Longrightarrow> conditionTrue (pc_conditions pc) PartitionContentConditionReady \<Longrightarrow> \<exists>h. ParseInfoHash (pc_infoHash pc) = Inr h"
begin

lemma hash_nonempty_if_ready:
  "written pc \<Longrightarrow> conditionTrue (pc_conditions pc) PartitionContentConditionReady \<Longrightarrow> pc_infoHash pc \<noteq> []"
  using ready_hash [of pc] empty_hash_invalid by auto

lemma torrent_of_ready:
  assumes "written pc" "b_conditionTrue b = conditionTrue"
    "rd_partitionContent (b_client b) (resolveNamespace ref (im_namespace img), nr_name ref) s = (Inr pc, s')"
    "conditionTrue (pc_conditions pc) PartitionContentConditionReady"
  shows "\<exists>hash. ParseInfoHash (pc_infoHash pc) = Inr hash \<and>
    buildTorrent b machine img ref site s =
      bindK (resolve_site b machine site) (\<lambda>(res, site'). case res of
          Inl e \<Rightarrow> raise (ValidationError (''resolving machine's seeder placement: '' @ error_text e))
        | Inr siteRes \<Rightarrow>
            if \<not> sr_hasSeeder siteRes then raise (NotReadyError ''machine's Site has no seeding subnet configured'')
            else bindK (resolveTorrentURL b (im_namespace img) (im_name img) (sr_siteIdentity siteRes) hash) (\<lambda>url.
                 ret (\<lparr>dt_url = url, dt_infoHash = infoHash_string hash\<rparr>, site'))) s'"
proof -
  obtain hash where hash: "ParseInfoHash (pc_infoHash pc) = Inr hash"
    using ready_hash assms(1,4) by blast
  have read: "read_or absent what (rd_partitionContent (b_client b) (resolveNamespace ref (im_namespace img), nr_name ref)) s = (Inr pc, s')" for absent what
    using assms(3) by (simp add: read_or_def kio_simps)
  have "bindK (read_or absent what (rd_partitionContent (b_client b) (resolveNamespace ref (im_namespace img), nr_name ref))) f s = f pc s'"
    for absent what and f :: "PartitionContent \<Rightarrow> ('a, DeployTorrent \<times> lazySite) kio"
    by (simp add: bindK_def read)
  then show ?thesis
    using assms(2,4) hash hash_nonempty_if_ready [OF assms(1,4)]
    by (intro exI [of _ hash]) (simp add: buildTorrent_def Let_def cong: sum.case_cong if_cong prod.case_cong)
qed

end

interpretation pcc: content_provider "\<lambda>pc. content_reach r pc \<and> meta_laws (ce_lib r)" "isStatusConditionTrue (ce_lib r)" for r
  by unfold_locales (metis content_reach_status)

text \<open>
  C17: when the plan builder reads a PartitionContent in a status its controller
  can bring about, and the Ready condition is true, the torrent of the slot is built from the parsed info
  hash and the Site alone: neither the branch for a missing hash nor the one for a malformed hash can be
  taken, and the torrent carries exactly the hash of the status.
\<close>

theorem torrent_of_reachable_content:
  assumes "content_reach r pc" "meta_laws (ce_lib r)" "b_conditionTrue b = isStatusConditionTrue (ce_lib r)"
    "rd_partitionContent (b_client b) (resolveNamespace ref (im_namespace img), nr_name ref) s = (Inr pc, s')"
    "content_ready_true (ce_lib r) pc"
  shows "\<exists>hash. ParseInfoHash (pc_infoHash pc) = Inr hash \<and>
    buildTorrent b machine img ref site s =
      bindK (resolve_site b machine site) (\<lambda>(res, site'). case res of
          Inl e \<Rightarrow> raise (ValidationError (''resolving machine's seeder placement: '' @ error_text e))
        | Inr siteRes \<Rightarrow>
            if \<not> sr_hasSeeder siteRes then raise (NotReadyError ''machine's Site has no seeding subnet configured'')
            else bindK (resolveTorrentURL b (im_namespace img) (im_name img) (sr_siteIdentity siteRes) hash) (\<lambda>url.
                 ret (\<lparr>dt_url = url, dt_infoHash = infoHash_string hash\<rparr>, site'))) s'"
  using assms by (intro pcc.torrent_of_ready) auto

section \<open>Removal of a content\<close>

definition refused :: "('s \<Rightarrow> (kerr + 'a) \<times> 's) \<Rightarrow> bool" where
  "refused op \<longleftrightarrow> (\<exists>s e s'. op s = (Inl e, s') \<and> isNotFound e)"

lemma kspec_getOpt_refused:
  assumes "P c"
  shows "kspec P (\<lambda>x. case x of None \<Rightarrow> refused op | Some y \<Rightarrow> answered op y) (getOpt (kcall c op))"
  unfolding kspec_def getOpt_def
proof
  fix w
  show "\<exists>cs. trace (snd (bindK (attempt (kcall c op)) (\<lambda>r. case r of Inl e \<Rightarrow> if isNotFound e then ret None else raise e | Inr x \<Rightarrow> ret (Some x)) w)) = trace w @ cs \<and>
      (\<forall>d\<in>set cs. P (fst d)) \<and>
      (\<forall>x. fst (bindK (attempt (kcall c op)) (\<lambda>r. case r of Inl e \<Rightarrow> if isNotFound e then ret None else raise e | Inr x \<Rightarrow> ret (Some x)) w) = Inr x \<longrightarrow>
        (case x of None \<Rightarrow> refused op | Some y \<Rightarrow> answered op y))"
    by (cases "op (srv w)"; cases "fst (op (srv w))")
      (auto simp: kio_simps kcall_def assms refused_def answered_def ret_def raise_def split: if_splits)
qed

text \<open>An Image that, by an answer of the server, does not refer to a content of this name: it is gone, or its slots name other contents.\<close>

definition image_unrelated :: "'s content_env \<Rightarrow> string \<Rightarrow> key \<Rightarrow> bool" where
  "image_unrelated r n k \<longleftrightarrow> refused (k_getImage (ce_kube r) k) \<or> (\<exists>i. answered (k_getImage (ce_kube r) k) i \<and> \<not> imageReferencesContent i n)"

definition memo_ok :: "'s content_env \<Rightarrow> string \<Rightarrow> (key \<times> bool) list \<Rightarrow> bool" where
  "memo_ok r n memo \<longleftrightarrow> (\<forall>k. map_of memo k = Some False \<longrightarrow> image_unrelated r n k)"

lemma memo_okI: "memo_ok r n memo \<Longrightarrow> \<not> refs \<longrightarrow> image_unrelated r n k \<Longrightarrow> memo_ok r n ((k, refs) # memo)"
  by (auto simp: memo_ok_def)

lemma references_spec:
  assumes "\<And>c. \<not> content_write c \<Longrightarrow> P c"
  shows "memo_ok r n memo \<Longrightarrow>
    kspec P (\<lambda>(refs, memo'). memo_ok r n memo' \<and> (\<not> refs \<longrightarrow> (\<forall>k\<in>set ks. image_unrelated r n k))) (run_references r n ks memo)"
proof (induction ks arbitrary: memo)
  case (Cons k ks)
  show ?case
  proof (cases "map_of memo k")
    case None
    have "kspec P (\<lambda>x. case x of None \<Rightarrow> refused (k_getImage (ce_kube r) k) | Some y \<Rightarrow> answered (k_getImage (ce_kube r) k) y)
       (getOpt (kcall (GetImage k) (k_getImage (ce_kube r) k)))"
      by (rule kspec_getOpt_refused) (simp add: assms content_write_def)
    then show ?thesis
      unfolding run_references.simps None option.case Let_def
    proof (rule kspec_bind)
      fix x
      assume x: "case x of None \<Rightarrow> refused (k_getImage (ce_kube r) k) | Some y \<Rightarrow> answered (k_getImage (ce_kube r) k) y"
      let ?refs = "case x of None \<Rightarrow> False | Some i \<Rightarrow> imageReferencesContent i n"
      have un: "image_unrelated r n k" if "\<not> ?refs"
        using x that by (auto simp: image_unrelated_def split: option.splits)
      then have "memo_ok r n ((k, ?refs) # memo)"
        using Cons.prems by (intro memo_okI) auto
      from Cons.IH [OF this] un this
      show "kspec P (\<lambda>(refs, memo'). memo_ok r n memo' \<and> (\<not> refs \<longrightarrow> (\<forall>k\<in>set (k # ks). image_unrelated r n k)))
         (if ?refs then ret (True, (k, ?refs) # memo) else run_references r n ks ((k, ?refs) # memo))"
        by (auto intro!: kspec_ret elim: kspec_weaken)
    qed
  next
    case (Some refs)
    then have "\<not> refs \<Longrightarrow> image_unrelated r n k"
      using Cons.prems unfolding memo_ok_def by (metis (full_types))
    with Cons.IH [OF Cons.prems] Cons.prems Some show ?thesis
      by (auto intro!: kspec_ret elim: kspec_weaken)
  qed
qed (auto intro: kspec_ret)

lemma active_spec:
  assumes "\<And>c. \<not> content_write c \<Longrightarrow> P c"
  shows "memo_ok r n memo \<Longrightarrow> kspec P (\<lambda>matches. matches = [] \<longrightarrow>
     (\<forall>run\<in>set rs. isDeployRunActive run \<longrightarrow> (\<forall>k\<in>set (deployRunImageNames run). image_unrelated r n k))) (active_runs r n rs memo)"
proof (induction rs arbitrary: memo)
  case (Cons run rs)
  show ?case
  proof (cases "isDeployRunActive run")
    case True
    note refs = references_spec [of P r n memo "deployRunImageNames run", OF assms Cons.prems]
    show ?thesis
      unfolding active_runs.simps
      by (simp add: True, rule kspec_bind [OF refs], assumption, clarsimp, rule kspec_bind [OF Cons.IH], assumption, rule kspec_ret) auto
  next
    case False
    with Cons.IH [OF Cons.prems] show ?thesis by (auto elim: kspec_weaken)
  qed
qed (auto intro: kspec_ret)


lemma sort_nil [simp]: "sort xs = [] \<longleftrightarrow> xs = []" for xs :: "string list"
  by (metis length_0_conv length_sort)

lemma blocking_spec:
  assumes "\<And>c. \<not> content_write c \<Longrightarrow> P c"
  shows "kspec P (\<lambda>bs. bs = [] \<longrightarrow> answered (ck_listImages (ce_client r) (pc_namespace pc, pc_name pc)) [] \<and>
     (\<exists>rs. answered (k_listRuns (ce_kube r) (pc_namespace pc)) rs \<and>
       (\<forall>run\<in>set rs. isDeployRunActive run \<longrightarrow> (\<forall>k\<in>set (deployRunImageNames run). image_unrelated r (pc_name pc) k)))) (blockingReferences r pc)"
proof -
  have P: "P (ListImages a)" "P (ListRuns b)" for a b by (simp_all add: assms content_write_def)
  have memo: "memo_ok r (pc_name pc) []" by (simp add: memo_ok_def)
  have rs: "kspec P (\<lambda>matches. matches = [] \<longrightarrow> (\<exists>rs. answered (k_listRuns (ce_kube r) (pc_namespace pc)) rs \<and>
      (\<forall>run\<in>set rs. isDeployRunActive run \<longrightarrow> (\<forall>k\<in>set (deployRunImageNames run). image_unrelated r (pc_name pc) k)))) (activeDeployRunsReferencing r pc)"
    unfolding activeDeployRunsReferencing_def
    by (rule kspec_bind [OF kspec_answer]) (auto intro!: P kspec_weaken [OF active_spec [of P, OF assms memo]])
  show ?thesis
    unfolding blockingReferences_def imagesReferencing_def
    by (rule kspec_bind [OF kspec_wrap [OF kspec_answer]], rule P, rule kspec_bind [OF kspec_wrap [OF rs]]) (auto intro!: kspec_ret)
qed

text \<open>
  C18: the controller lets go of a PartitionContent that is being deleted,
  by an update without its finalizer, only when the server listed no Image of the namespace with a slot
  for it, and listed the deploy runs of the namespace such that every Image an active one of them names
  was answered as gone or as one whose slots name other contents.
\<close>

theorem content_removed_only_unreferenced:
  assumes "finalizer_laws (ce_lib r)" "(UpdateContent pc', ok) \<in> set (calls_of (onDeleteContent r pc) w)"
  shows "PartitionContentFinalizer \<notin> set (pc_finalizers pc') \<and> answered (ck_listImages (ce_client r) (pc_namespace pc, pc_name pc)) [] \<and>
    (\<exists>rs. answered (k_listRuns (ce_kube r) (pc_namespace pc)) rs \<and>
       (\<forall>run\<in>set rs. isDeployRunActive run \<longrightarrow> (\<forall>k\<in>set (deployRunImageNames run). image_unrelated r (pc_name pc) k)))"
proof -
  define Q where "Q \<longleftrightarrow> answered (ck_listImages (ce_client r) (pc_namespace pc, pc_name pc)) [] \<and>
    (\<exists>rs. answered (k_listRuns (ce_kube r) (pc_namespace pc)) rs \<and>
       (\<forall>run\<in>set rs. isDeployRunActive run \<longrightarrow> (\<forall>k\<in>set (deployRunImageNames run). image_unrelated r (pc_name pc) k)))"
  define P where "P c \<longleftrightarrow> (\<forall>pc'. c = UpdateContent pc' \<longrightarrow> PartitionContentFinalizer \<notin> set (pc_finalizers pc') \<and> Q)" for c
  have quiet: "P c" if "\<not> content_write c" for c
    using that by (auto simp: P_def content_write_def)
  have e: "P (Event x)" "P (ApplyContentStatus y)" for x y by (simp_all add: P_def)
  have b: "kspec P (\<lambda>bs. bs = [] \<longrightarrow> Q) (blockingReferences r pc)"
    unfolding Q_def by (rule blocking_spec) (rule quiet)
  have "kspec P (\<lambda>_. True) (onDeleteContent r pc)"
    unfolding onDeleteContent_def recordDeletionBlocked_def Let_def
    by (intro kspec_if kspec_ret kspec_bind [OF b])
      (auto intro!: quiet_intros delete_job_spec [OF quiet] apply_status_one e simp: P_def assms(1) [unfolded finalizer_laws_def])
  from kspec_calls [OF this assms(2)] show ?thesis by (simp add: P_def Q_def)
qed


section \<open>Deploy runs as blockers\<close>

text \<open>A cluster whose reads agree: reading an Image and listing the Images of a content answer from the same Images.\<close>

definition images_agree :: "'s content_env \<Rightarrow> Image list \<Rightarrow> 's \<Rightarrow> bool" where
  "images_agree r cluster s \<longleftrightarrow>
     (\<forall>k. k_getImage (ce_kube r) k s =
        (case find (\<lambda>i. (im_namespace i, im_name i) = k) cluster of None \<Rightarrow> (Inl NotFound, s) | Some i \<Rightarrow> (Inr i, s))) \<and>
     (\<forall>k. ck_listImages (ce_client r) k s = (Inr (filter (\<lambda>i. im_namespace i = fst k \<and> snd k \<in> set (imageContentRefNames i)) cluster), s)) \<and>
     (\<forall>ns. snd (k_listRuns (ce_kube r) ns s) = s)"

lemma content_ref_names_set:
  "set (content_ref_names seen_names ss) = {nr_name ref |ref. \<exists>s\<in>set ss. sl_contentRef s = Some ref \<and> nr_name ref \<noteq> ''''} - set seen_names"
  by (induction seen_names ss rule: content_ref_names.induct) (auto split: option.splits)

lemma references_indexed: "n \<noteq> '''' \<Longrightarrow> n \<in> set (imageContentRefNames i) \<longleftrightarrow> imageReferencesContent i n"
  by (auto simp: imageContentRefNames_def content_ref_names_set imageReferencesContent_def split: option.splits)

definition foreign_memo :: "string \<Rightarrow> (key \<times> bool) list \<Rightarrow> bool" where
  "foreign_memo ns memo \<longleftrightarrow> (\<forall>k. map_of memo k = Some True \<longrightarrow> fst k \<noteq> ns)"

lemma getImage_run:
  assumes "images_agree r cluster (srv w)"
  shows "\<exists>t. getOpt (kcall (GetImage k) (k_getImage (ce_kube r) k)) w =
    (Inr (find (\<lambda>i. (im_namespace i, im_name i) = k) cluster), w\<lparr>trace := t\<rparr>)"
proof -
  from assms have "k_getImage (ce_kube r) k (srv w) =
      (case find (\<lambda>i. (im_namespace i, im_name i) = k) cluster of None \<Rightarrow> (Inl NotFound, srv w) | Some i \<Rightarrow> (Inr i, srv w))"
    unfolding images_agree_def by blast
  then show ?thesis
    by (cases "find (\<lambda>i. (im_namespace i, im_name i) = k) cluster"; cases w) (simp_all add: getOpt_def kcall_def kio_simps isNotFound_def)
qed

lemma references_foreign:
  assumes "images_agree r cluster (srv w)" "\<forall>i\<in>set cluster. im_namespace i = ns \<longrightarrow> \<not> imageReferencesContent i n" "foreign_memo ns memo"
  shows "\<exists>refs memo' t. run_references r n ks memo w = (Inr (refs, memo'), w\<lparr>trace := t\<rparr>) \<and> foreign_memo ns memo' \<and>
    (refs \<longrightarrow> (\<exists>k\<in>set ks. fst k \<noteq> ns))"
  using assms(1,3)
proof (induction ks arbitrary: w memo)
  case Nil
  then show ?case by (cases w) (auto simp: kio_simps)
next
  case (Cons k ks)
  show ?case
  proof (cases "map_of memo k")
    case None
    obtain t where t: "getOpt (kcall (GetImage k) (k_getImage (ce_kube r) k)) w =
        (Inr (find (\<lambda>i. (im_namespace i, im_name i) = k) cluster), w\<lparr>trace := t\<rparr>)"
      using getImage_run [OF Cons.prems(1)] by blast
    let ?refs = "case find (\<lambda>i. (im_namespace i, im_name i) = k) cluster of None \<Rightarrow> False | Some i \<Rightarrow> imageReferencesContent i n"
    have foreign: "fst k \<noteq> ns" if ?refs
      using that assms(2) by (auto split: option.splits dest!: find_mem)
    then have memo: "foreign_memo ns ((k, ?refs) # memo)"
      using Cons.prems(2) by (auto simp: foreign_memo_def)
    have agree: "images_agree r cluster (srv (w\<lparr>trace := t\<rparr>))" using Cons.prems(1) by simp
    have run: "run_references r n (k # ks) memo w =
        (if ?refs then (Inr (True, (k, ?refs) # memo), w\<lparr>trace := t\<rparr>) else run_references r n ks ((k, ?refs) # memo) (w\<lparr>trace := t\<rparr>))"
      using None t by (simp add: kio_simps Let_def)
    show ?thesis
    proof (cases ?refs)
      case True
      with foreign memo show ?thesis unfolding run by (simp, blast)
    next
      case False
      from Cons.IH [OF agree memo] obtain refs memo' t' where
        "run_references r n ks ((k, ?refs) # memo) (w\<lparr>trace := t\<rparr>) = (Inr (refs, memo'), w\<lparr>trace := t'\<rparr>)" "foreign_memo ns memo'"
        "refs \<longrightarrow> (\<exists>k\<in>set ks. fst k \<noteq> ns)" by auto
      with False show ?thesis unfolding run by auto
    qed
  next
    case (Some refs)
    with Cons.prems have "refs \<longrightarrow> fst k \<noteq> ns" unfolding foreign_memo_def by metis
    with Cons.IH [OF Cons.prems] Cons.prems(2) Some show ?thesis
      by (cases w; cases refs) (auto simp: kio_simps)
  qed
qed

lemma active_foreign:
  assumes "images_agree r cluster (srv w)" "\<forall>i\<in>set cluster. im_namespace i = ns \<longrightarrow> \<not> imageReferencesContent i n" "foreign_memo ns memo"
  shows "\<exists>matches t. active_runs r n rs memo w = (Inr matches, w\<lparr>trace := t\<rparr>) \<and> (\<forall>run\<in>set matches. \<exists>k\<in>set (deployRunImageNames run). fst k \<noteq> ns)"
  using assms(1,3)
proof (induction rs arbitrary: w memo)
  case Nil
  then show ?case by (cases w) (auto simp: kio_simps)
next
  case (Cons run rs)
  show ?case
  proof (cases "isDeployRunActive run")
    case True
    obtain refs memo' t where refs: "run_references r n (deployRunImageNames run) memo w = (Inr (refs, memo'), w\<lparr>trace := t\<rparr>)" "foreign_memo ns memo'"
        "refs \<longrightarrow> (\<exists>k\<in>set (deployRunImageNames run). fst k \<noteq> ns)"
      using references_foreign [OF Cons.prems(1) assms(2) Cons.prems(2)] by blast
    have "images_agree r cluster (srv (w\<lparr>trace := t\<rparr>))" using Cons.prems(1) by simp
    from Cons.IH [OF this refs(2)] obtain matches t' where
      "active_runs r n rs memo' (w\<lparr>trace := t\<rparr>) = (Inr matches, w\<lparr>trace := t'\<rparr>)" "\<forall>run\<in>set matches. \<exists>k\<in>set (deployRunImageNames run). fst k \<noteq> ns"
      by auto
    with refs True have "active_runs r n (run # rs) memo w = (Inr (if refs then run # matches else matches), w\<lparr>trace := t'\<rparr>) \<and>
        (\<forall>x\<in>set (if refs then run # matches else matches). \<exists>k\<in>set (deployRunImageNames x). fst k \<noteq> ns)"
      by (simp add: kio_simps)
    then show ?thesis by blast
  next
    case False
    with Cons.IH [OF Cons.prems] show ?thesis by simp
  qed
qed

text \<open>
  In a cluster whose reads agree, where no Image of the content's
  namespace refers to the content, the only deploy runs counted as referring to it are runs that name an
  Image of another namespace, whose slots can only name contents of that namespace. So the check of the
  active runs never keeps a content that the check of the Images does not keep already, and in particular
  does not keep one whose Image was deleted while a run still deploys it.
\<close>

theorem runs_block_only_by_foreign_images:
  assumes "images_agree r cluster (srv w)" "pc_name pc \<noteq> ''''" "fst (imagesReferencing r pc w) = Inr []"
    "fst (activeDeployRunsReferencing r pc w) = Inr matches" "run \<in> set matches"
  shows "\<exists>k\<in>set (deployRunImageNames run). fst k \<noteq> pc_namespace pc"
proof -
  have "filter (\<lambda>i. im_namespace i = pc_namespace pc \<and> pc_name pc \<in> set (imageContentRefNames i)) cluster = []"
    using assms(1,3) by (simp add: images_agree_def imagesReferencing_def kcall_def)
  then have none: "\<forall>i\<in>set cluster. im_namespace i = pc_namespace pc \<longrightarrow> \<not> imageReferencesContent i (pc_name pc)"
    using references_indexed [OF assms(2)] by (auto simp: filter_empty_conv)
  obtain x s' where list: "k_listRuns (ce_kube r) (pc_namespace pc) (srv w) = (x, s')" by fastforce
  then have "s' = srv w" using assms(1) unfolding images_agree_def by (metis snd_conv)
  with list assms(4) obtain rs w' where rs: "fst (active_runs r (pc_name pc) rs [] w') = Inr matches" "srv w' = srv w"
    by (cases x) (auto simp: activeDeployRunsReferencing_def kcall_def kio_simps)
  with active_foreign [of r cluster w' "pc_namespace pc" "pc_name pc" "[]" rs] assms(1) none obtain t where
    "\<forall>run\<in>set matches. \<exists>k\<in>set (deployRunImageNames run). fst k \<noteq> pc_namespace pc"
    by (auto simp: foreign_memo_def)
  with assms(5) show ?thesis by blast
qed

section \<open>In the laboratory\<close>

text \<open>A first pass over a content whose publish Job succeeded, and a pass over a content being deleted while a run names an Image that is gone.\<close>

definition publishes :: "call \<Rightarrow> bool" where
  "publishes c = (case c of ApplyContentStatus pc \<Rightarrow> pc_state pc = ContentReady | _ \<Rightarrow> False)"

definition lets_go :: "call \<Rightarrow> bool" where
  "lets_go c = (case c of UpdateContent pc \<Rightarrow> True | _ \<Rightarrow> False)"

definition lab_stale_run :: DeployRun where
  "lab_stale_run = demo_run\<lparr>r_spec := (r_spec demo_run)\<lparr>rs_imageRef := Some \<lparr>nr_namespace = '''', nr_name = ''gone''\<rparr>\<rparr>\<rparr>"

abbreviation publish_env :: "store content_env" where
  "publish_env \<equiv> lab_env (lab_of [] [] [lab_job] [])"

lemma lab_publish_run: "list_ex (publishes \<circ> fst) (calls_of (onChangeContent publish_env lab_content) (lab_world []))"
  by code_simp

lemma lab_delete_run: "list_ex (lets_go \<circ> fst) (calls_of (onDeleteContent publish_env lab_doomed) (lab_world [((''n'', ''run''), lab_stale_run)]))"
  by code_simp

lemma lab_published:
  obtains pc' ok where "(ApplyContentStatus pc', ok) \<in> set (calls_of (onChangeContent publish_env lab_content) (lab_world []))" "pc_state pc' = ContentReady"
proof -
  from lab_publish_run obtain c ok where "(c, ok) \<in> set (calls_of (onChangeContent publish_env lab_content) (lab_world []))" "publishes c"
    by (auto simp: list_ex_iff)
  with that show thesis by (cases c) (auto simp: publishes_def)
qed

lemma lab_fresh: "pc_state lab_content = ContentStateEmpty" "pc_infoHash lab_content = ''''" "\<not> content_ready_true ref_libs lab_content"
  by (simp_all add: lab_content_def) code_simp

theorem content_ready_only_when_published_witness: "\<exists>h. published publish_env lab_content h"
proof -
  obtain pc' ok where run: "(ApplyContentStatus pc', ok) \<in> set (calls_of (onChangeContent publish_env lab_content) (lab_world []))" "pc_state pc' = ContentReady"
    by (rule lab_published)
  have "meta_laws (ce_lib publish_env)" by (simp add: ref_meta_laws)
  from content_ready_only_when_published [OF this disjI1 [OF refl] run(1)] run(2) lab_fresh(1) show ?thesis by auto
qed

theorem reachable_content_is_plannable_witness:
  "\<exists>pc'. pc_state pc' = ContentReady \<and> content_ready_true ref_libs pc' \<and> (\<exists>h. ParseInfoHash (pc_infoHash pc') = Inr h)"
proof -
  obtain pc' ok where run: "(ApplyContentStatus pc', ok) \<in> set (calls_of (onChangeContent publish_env lab_content) (lab_world []))" "pc_state pc' = ContentReady"
    by (rule lab_published)
  have "content_reach publish_env lab_content" using lab_fresh by (intro content_reach.created) simp_all
  then have "content_reach publish_env pc'" using run(1) by (rule content_reach.pass [OF _ disjI1 [OF refl]])
  from reachable_content_is_plannable [OF this] run(2) show ?thesis by (auto simp: ref_meta_laws)
qed

theorem torrent_of_reachable_content_witness:
  "\<exists>pc' hash. ParseInfoHash (pc_infoHash pc') = Inr hash \<and> content_ready_true ref_libs pc' \<and>
     rd_partitionContent ((demo_reader []) \<lparr>rd_partitionContent := (\<lambda>_ s. (Inr pc', s))\<rparr> :: unit reader) (''n'', ''pc'') () = (Inr pc', ())"
proof -
  obtain pc' ok where run: "(ApplyContentStatus pc', ok) \<in> set (calls_of (onChangeContent publish_env lab_content) (lab_world []))" "pc_state pc' = ContentReady"
    by (rule lab_published)
  have "content_reach publish_env lab_content" using lab_fresh by (intro content_reach.created) simp_all
  then have reach: "content_reach publish_env pc'" using run(1) by (rule content_reach.pass [OF _ disjI1 [OF refl]])
  have laws: "meta_laws (ce_lib publish_env)" by (simp add: ref_meta_laws)
  have ready: "content_ready_true (ce_lib publish_env) pc'" using content_reach_status [OF reach laws] run(2) by simp
  let ?b = "(demo_builder [])\<lparr>b_client := (demo_reader []) \<lparr>rd_partitionContent := (\<lambda>_ s. (Inr pc', s))\<rparr>, b_conditionTrue := isStatusConditionTrue (ce_lib publish_env)\<rparr> :: unit Builder"
  have "\<exists>hash. ParseInfoHash (pc_infoHash pc') = Inr hash"
    using torrent_of_reachable_content [OF reach laws, of ?b "\<lparr>nr_namespace = [], nr_name = ''pc''\<rparr>" lab_image "()" "()"] ready by fastforce
  with ready show ?thesis by (intro exI [of _ pc']) simp
qed

theorem content_removed_only_unreferenced_witness:
  "\<exists>pc' :: PartitionContent. PartitionContentFinalizer \<notin> set (pc_finalizers pc') \<and>
     answered (ck_listImages (ce_client publish_env) (pc_namespace lab_doomed, pc_name lab_doomed)) []"
proof -
  from lab_delete_run obtain c ok where "(c, ok) \<in> set (calls_of (onDeleteContent publish_env lab_doomed) (lab_world [((''n'', ''run''), lab_stale_run)]))" "lets_go c"
    by (auto simp: list_ex_iff)
  then obtain pc' where run: "(UpdateContent pc', ok) \<in> set (calls_of (onDeleteContent publish_env lab_doomed) (lab_world [((''n'', ''run''), lab_stale_run)]))"
    by (cases c) (auto simp: lets_go_def)
  have "finalizer_laws (ce_lib publish_env)" by (simp add: ref_finalizer_laws)
  from content_removed_only_unreferenced [OF this run] show ?thesis by blast
qed

end
