(* ===== verification/Image_Properties.thy ===== *)
theory Image_Properties
  imports Content_Properties
begin

text \<open>
  Properties of the Image controller: an Image becomes Ready only over contents that are Ready, fresh and
  fit their slots; a seeder is stopped only after its grace period.
\<close>

section \<open>Readiness of an Image\<close>

text \<open>A slot whose content, as the server answered it, is Ready for its present generation and fits.\<close>

definition slot_served :: "'s content_env \<Rightarrow> string \<Rightarrow> ImageSlot \<Rightarrow> bool" where
  "slot_served r ns s \<longleftrightarrow> (\<forall>ref. sl_contentRef s = Some ref \<longrightarrow>
     (\<exists>pc cond. answered (ck_getContent (ce_client r) (ref_key ns ref)) pc \<and>
        findStatusCondition (ce_lib r) (pc_conditions pc) PartitionContentConditionReady = Some cond \<and>
        c_status cond = CondTrue \<and> c_observedGeneration cond = pc_generation pc \<and> pc_state pc \<noteq> ContentFailed \<and>
        (sl_sizeBytes s = 0 \<or> ct_lastExtentEnd (pc_spec pc) \<le> sl_sizeBytes s)))"

definition spotless :: "slotContentAggregation \<Rightarrow> bool" where
  "spotless agg \<longleftrightarrow> \<not> ag_stale agg \<and> ag_failed agg = [] \<and> ag_notReady agg = [] \<and> ag_invalidSizes agg = []"

lemma slot_spotless:
  assumes "spotless (slot_ready r s ref pc (slot_size s ref pc agg))" "answered (ck_getContent (ce_client r) (ref_key ns ref)) pc" "sl_contentRef s = Some ref"
  shows "spotless agg \<and> slot_served r ns s"
  using assms
  by (auto simp: spotless_def slot_ready_def slot_size_def slot_served_def conditionObservedGenerationStale_def split: option.splits if_splits)

lemma aggregate_spec:
  assumes "\<And>k. P (GetContent k)"
  shows "kspec P (\<lambda>agg'. spotless agg' \<longrightarrow> spotless agg \<and> (\<forall>s\<in>set ss. slot_served r ns s)) (aggregate_slots r ns ss agg)"
proof (induction ss arbitrary: agg)
  case (Cons s ss)
  show ?case
  proof (cases "sl_contentRef s")
    case None
    with Cons.IH [of agg] show ?thesis by (auto simp: slot_served_def elim: kspec_weaken)
  next
    case (Some ref)
    have get: "kspec P (\<lambda>x. \<forall>y. x = Some y \<longrightarrow> answered (ck_getContent (ce_client r) (ref_key ns ref)) y)
        (wrapK c (getOpt (kcall (GetContent (ref_key ns ref)) (ck_getContent (ce_client r) (ref_key ns ref)))))" for c
      by (intro kspec_wrap kspec_getOpt_answer assms)
    show ?thesis
      unfolding aggregate_slots.simps Some option.case Let_def
    proof (rule kspec_bind [OF get], rule kspec_case_option)
      show "kspec P (\<lambda>agg'. spotless agg' \<longrightarrow> spotless agg \<and> (\<forall>s\<in>set (s # ss). slot_served r ns s))
         (aggregate_slots r ns ss (agg\<lparr>ag_notReady := ag_notReady agg @ [slot_problem s ref '' not found'']\<rparr>))"
        by (rule kspec_weaken [OF Cons.IH]) (auto simp: spotless_def)
      fix x pc
      assume "\<forall>y. x = Some y \<longrightarrow> answered (ck_getContent (ce_client r) (ref_key ns ref)) y" "x = Some pc"
      then have "answered (ck_getContent (ce_client r) (ref_key ns ref)) pc" by simp
      from slot_spotless [OF _ this Some]
      show "kspec P (\<lambda>agg'. spotless agg' \<longrightarrow> spotless agg \<and> (\<forall>s\<in>set (s # ss). slot_served r ns s))
         (aggregate_slots r ns ss (slot_ready r s ref pc (slot_size s ref pc agg)))"
        by (intro kspec_weaken [OF Cons.IH]) auto
    qed
  qed
qed (auto intro: kspec_ret)

lemma own_spec:
  assumes "\<And>k. P (GetContent k)" "\<And>pc. P (PatchContent pc)"
  shows "kspec P (\<lambda>_. True) (ensureContentOwnerRefs r img)"
proof -
  have "kspec P (\<lambda>_. True) (own_contents r img ss)" for ss
    by (induction ss) (auto simp: Let_def split: option.splits sum.splits intro!: quiet_intros assms)
  then show ?thesis unfolding ensureContentOwnerRefs_def .
qed

lemma condition_state [simp]:
  "im_state (put_image_condition L t st re ms img) = im_state img"
  by (simp add: put_image_condition_def)

section \<open>The seeders of an Image\<close>

lemma own_seeders_mem:
  assumes "map_of (own_seeders img items) site = Some d"
  shows "d \<in> set items \<and> controlled_by (dpl_owner d) (im_uid img)"
proof -
  define own where "own dep \<longleftrightarrow> map_of (dpl_labels dep) ''app.kubernetes.io/component'' = Some ''image-seeder'' \<and>
    controlled_by (dpl_owner dep) (im_uid img) \<and> site_of_deployment dep \<noteq> ''''" for dep
  have "map_of (foldl (\<lambda>out dep. if own dep then alist_put (site_of_deployment dep) dep out else out) out items) site = Some d \<Longrightarrow>
     map_of out site = Some d \<or> d \<in> set items \<and> own d" for out
  proof (induction items arbitrary: out)
    case (Cons dep items)
    from Cons.IH [of "if own dep then alist_put (site_of_deployment dep) dep out else out"] Cons.prems
    show ?case by (auto split: if_splits)
  qed simp
  from this [of "[]"] assms show ?thesis by (simp add: own_seeders_def own_def)
qed

text \<open>A Deployment that may be stopped: one of the Image's own, listed, without demand since the grace period.\<close>

definition may_stop :: "'s content_env \<Rightarrow> Image \<Rightarrow> key \<Rightarrow> bool" where
  "may_stop r img k \<longleftrightarrow> (\<exists>items d since. answered (ck_listDeployments (ce_client r) (im_namespace img)) items \<and> d \<in> set items \<and>
     dpl_key d = k \<and> controlled_by (dpl_owner d) (im_uid img) \<and> dpl_deletionTimestamp d = None \<and>
     parseSeederEmptySince r d = Some since \<and> gracePeriod (ce_seeder r) \<le> ce_now r - since)"

lemma site_step_spec:
  assumes "\<And>c. (\<forall>k. c \<noteq> DeleteDeployment k) \<Longrightarrow> P c"
    "\<And>d since. dep = Some d \<Longrightarrow> dpl_deletionTimestamp d = None \<Longrightarrow> parseSeederEmptySince r d = Some since \<Longrightarrow>
       gracePeriod (ce_seeder r) \<le> ce_now r - since \<Longrightarrow> P (DeleteDeployment (dpl_key d))"
  shows "kspec P (\<lambda>_. True) (reconcileImageSeederSite r img site demand dep contents)"
proof -
  have P: "P (CreateDeployment d)" "P (PatchDeployment d)" "P (GetDeployment k)" for d k by (simp_all add: assms(1))
  have patch: "kspec P (\<lambda>_. True) (patchDeployment r c d)" for c d
    unfolding patchDeployment_def by (intro quiet_intros P)
  have create: "kspec P (\<lambda>_. True) (createImageSeederDeployment r img site contents res)" for res
    unfolding createImageSeederDeployment_def Let_def by (auto split: sum.splits intro!: quiet_intros P)
  have keep: "kspec P (\<lambda>_. True) (ensureImageSeederPlacement r img site d contents res)" "kspec P (\<lambda>_. True) (cancelSeederShutdown r d)"
      "kspec P (\<lambda>_. True) (checkSeederUnready r d)" for d res
    unfolding ensureImageSeederPlacement_def cancelSeederShutdown_def checkSeederUnready_def cancelSeederUnready_def stampSeederUnreadySince_def Let_def
    by (intro quiet_intros patch)+
  have stop: "kspec P (\<lambda>_. True) (shutdownImageSeederDeployment r d)" if "dep = Some d" "dpl_deletionTimestamp d = None" for d
    unfolding shutdownImageSeederDeployment_def stampSeederEmptySince_def Let_def
    by (auto split: option.splits sum.splits intro!: quiet_intros patch assms(2) [OF that])
  show ?thesis
    unfolding reconcileImageSeederSite_def by (auto split: option.splits intro!: quiet_intros create keep stop)
qed

lemma image_seeder_spec:
  assumes "\<And>c. (\<forall>k. c \<noteq> DeleteDeployment k) \<Longrightarrow> P c" "\<And>k. may_stop r img k \<Longrightarrow> P (DeleteDeployment k)"
  shows "kspec P (\<lambda>_. True) (reconcileImageSeeder r img)"
proof -
  have read: "P c" if "content_read c" for c using that by (intro assms(1)) (auto simp: content_read_def)
  have P: "P (GetContent k)" "P (ApplyImageStatus i)" "P (ListDeployments ns)" "P (ListRuns ns)" for k i ns by (simp_all add: assms(1))
  have demand: "kspec P (\<lambda>_. True) (imageSeedDemandBySite r img)"
    unfolding imageSeedDemandBySite_def demandMachinesForImage_def by (intro quiet_intros site_parts P) (simp_all add: read)
  have seeded: "kspec P (\<lambda>_. True) (seeded_contents r ns ns' ss)" for ns ns' ss
    by (induction ss arbitrary: ns') (auto simp: Let_def split: option.splits intro!: quiet_intros P)
  have upd: "kspec P (\<lambda>_. True) (updateImageSeederCondition r img ps us)" for ps us
    unfolding updateImageSeederCondition_def applyImageStatus_def Let_def by (intro quiet_intros P)
  have listing: "kspec P (\<lambda>ex. \<exists>items. answered (ck_listDeployments (ce_client r) (im_namespace img)) items \<and> ex = own_seeders img items) (listImageSeederDeployments r img)"
    unfolding listImageSeederDeployments_def by (rule kspec_bind [OF kspec_wrap [OF kspec_answer]]) (auto intro: kspec_ret P)
  have sites: "kspec P (\<lambda>_. True) (seeder_sites r img dm ex cs ss res ps es)"
    if ex: "\<exists>items. answered (ck_listDeployments (ce_client r) (im_namespace img)) items \<and> ex = own_seeders img items" for dm ex cs ss res ps es
  proof (induction ss arbitrary: res ps es)
    case Nil
    then show ?case by (auto split: list.splits intro: kspec_ret kspec_raise)
  next
    case (Cons site ss)
    have "kspec P (\<lambda>_. True) (reconcileImageSeederSite r img site (map_of dm site) (map_of ex site) cs)"
      by (rule site_step_spec [OF assms(1)], assumption, rule assms(2)) (use ex own_seeders_mem in \<open>fastforce simp: may_stop_def\<close>)
    with Cons.IH show ?case by (auto split: sum.splits prod.splits intro!: quiet_intros)
  qed
  show ?thesis
    unfolding reconcileImageSeeder_def imageSeededContents_def
    by (intro kspec_bindT [OF demand] kspec_case_prod kspec_bind [OF listing] kspec_bindT [OF sites] upd quiet_intros seeded) auto
qed


text \<open>
  C19: a pass over an Image that is not Ready records the state Ready, or
  touches a seeder Deployment, only when for every slot with a contentRef the server answered a content
  whose Ready condition is true for the content's present generation, which has not failed, and whose last
  extent ends within the slot's declared size.
\<close>

theorem image_ready_only_when_contents_fit:
  assumes "im_state img \<noteq> ImageStateReady" "(c, ok) \<in> set (calls_of (onChangeImage r img) w)"
    "(\<exists>img'. c = ApplyImageStatus img' \<and> im_state img' = ImageStateReady) \<or> (\<exists>d. c = CreateDeployment d \<or> c = PatchDeployment d) \<or> (\<exists>k. c = DeleteDeployment k)"
    "s \<in> set (ly_slots (is_layout (im_spec img)))"
  shows "slot_served r (im_namespace img) s"
proof -
  let ?ok = "\<forall>s\<in>set (ly_slots (is_layout (im_spec img))). slot_served r (im_namespace img) s"
  define P where "P c \<longleftrightarrow> ((\<exists>img'. c = ApplyImageStatus img' \<and> im_state img' = ImageStateReady) \<or> (\<exists>d. c = CreateDeployment d \<or> c = PatchDeployment d) \<or>
    (\<exists>k. c = DeleteDeployment k) \<longrightarrow> ?ok)" for c
  have applies: "kspec P (\<lambda>_. True) (applyImageStatus r img')" if "im_state img' = ImageStateReady \<longrightarrow> ?ok" for img'
    unfolding applyImageStatus_def using that by (intro quiet_intros) (simp add: P_def)
  have agg: "kspec P (\<lambda>agg. spotless agg \<longrightarrow> ?ok) (aggregateSlotContents r img)"
    unfolding aggregateSlotContents_def by (rule kspec_weaken [OF aggregate_spec]) (auto simp: P_def)
  have seeder: "kspec P (\<lambda>_. True) (reconcileImageSeeder r i)" if ?ok for i
    using that by (intro image_seeder_spec) (simp_all add: P_def)
  have ready: "kspec P (\<lambda>_. True) (recordImageReady r i)" if ?ok for i
    unfolding recordImageReady_def using that by (intro quiet_intros applies) simp
  have other: "kspec P (\<lambda>_. True) (recordImageFailed r i xs)" "kspec P (\<lambda>_. True) (recordImageInvalid r i xs)" "kspec P (\<lambda>_. True) (recordImagePending r i xs)" for i xs
    unfolding recordImageFailed_def recordImageInvalid_def recordImagePending_def setImageReadyCondition_def by (intro quiet_intros applies; simp)+
  have own: "kspec P (\<lambda>_. True) (ensureContentOwnerRefs r img)"
    by (rule own_spec) (simp_all add: P_def)
  have "kspec P (\<lambda>_. True) (onChangeImage r img)"
    unfolding onChangeImage_def Let_def using assms(1)
    by (intro kspec_bindT [OF own] kspec_if kspec_bind [OF agg] kspec_ret kspec_bindT [OF ready] seeder other) (auto simp: spotless_def)
  from kspec_calls [OF this assms(2)] assms(3,4) show ?thesis unfolding P_def by blast
qed

section \<open>In the laboratory\<close>

definition readies :: "call \<Rightarrow> bool" where
  "readies c = (case c of ApplyImageStatus i \<Rightarrow> im_state i = ImageStateReady | _ \<Rightarrow> False)"

definition stops :: "call \<Rightarrow> bool" where
  "stops c = (case c of DeleteDeployment k \<Rightarrow> True | _ \<Rightarrow> False)"

text \<open>A seeder whose Site has no demand since long.\<close>

definition lab_seeder :: Workload.Deployment where
  "lab_seeder = \<lparr>dpl_name = ''seeder'', dpl_namespace = ''n'', dpl_labels = [(''app.kubernetes.io/component'', ''image-seeder'')],
     dpl_annotations = [(imageSeederSiteAnnotation, ''n/site''), (imageSeederEmptySinceAnnotation, ''0'')], dpl_deletionTimestamp = None,
     dpl_owner = Some (image_owner lab_image),
     dpl_spec = \<lparr>ds_replicas = 1, ds_recreate = False, ds_selector = [], ds_template = \<lparr>pt_labels = [], pt_annotations = [], pt_serviceAccountName = '''',
       pt_nodeSelector = [], pt_initContainers = [], pt_containers = [], pt_volumes = []\<rparr>\<rparr>, dpl_conditions = [], dpl_availableReplicas = 0\<rparr>"

abbreviation seeder_env :: "store content_env" where
  "seeder_env \<equiv> lab_env (lab_of [demo_content] [] [] [lab_seeder])"

lemma lab_ready_run: "list_ex (readies \<circ> fst) (calls_of (onChangeImage seeder_env lab_image) (lab_world []))"
  by code_simp

lemma lab_stop_run: "list_ex (stops \<circ> fst) (calls_of (reconcileImageSeeder seeder_env lab_image) (lab_world []))"
  by code_simp


theorem image_ready_only_when_contents_fit_witness: "slot_served seeder_env ''n'' lab_slot"
proof -
  from lab_ready_run obtain c ok where "(c, ok) \<in> set (calls_of (onChangeImage seeder_env lab_image) (lab_world []))" "readies c"
    by (auto simp: list_ex_iff)
  then obtain img' where run: "(ApplyImageStatus img', ok) \<in> set (calls_of (onChangeImage seeder_env lab_image) (lab_world []))" "im_state img' = ImageStateReady"
    by (cases c) (auto simp: readies_def)
  have lab: "im_state lab_image \<noteq> ImageStateReady" "lab_slot \<in> set (ly_slots (is_layout (im_spec lab_image)))" "im_namespace lab_image = ''n''"
    by (simp_all add: lab_image_def demo_image_def)
  from image_ready_only_when_contents_fit [OF lab(1) run(1) _ lab(2)] run(2) show ?thesis by (simp add: lab(3))
qed

end
