(* ===== verification/Import_Properties.thy ===== *)
theory Import_Properties
  imports Content_Properties
begin

text \<open>
  Properties of the ImageImport controller: the Image of an import is created only over contents that
  were found or created, with a layout that fits what was captured; a finished import makes no further
  ingest; and what its removal does not wait for.
\<close>

section \<open>What an import creates\<close>

text \<open>
  A content an import may build on, by the answers of the server: it exists and names this import, it
  was created, or its creation was answered with AlreadyExists.
\<close>

definition secured :: "'s content_env \<Rightarrow> ImageImport \<Rightarrow> string \<Rightarrow> bool" where
  "secured r imp name \<longleftrightarrow>
     (\<exists>pc. answered (ck_getContent (ce_client r) (imp_namespace imp, name)) pc \<and> ct_importName (pc_spec pc) = imp_name imp) \<or>
     (\<exists>pc s x s'. ck_createContent (ce_client r) pc s = (x, s') \<and> pc_name pc = name \<and> pc_namespace pc = imp_namespace imp \<and>
        ct_importName (pc_spec pc) = imp_name imp \<and> (case x of Inl e \<Rightarrow> isAlreadyExists e | Inr _ \<Rightarrow> True))"

lemma kspec_create:
  assumes "P c"
  shows "kspec P (\<lambda>_. \<exists>s x s'. op s = (x, s') \<and> (case x of Inl e \<Rightarrow> isAlreadyExists e | Inr _ \<Rightarrow> True)) (create_or_exists ctx (kcall c op))"
  unfolding kspec_def create_or_exists_def
  by (auto simp: kio_simps kcall_def assms split: prod.splits sum.splits if_splits) blast+

lemma content_secured:
  assumes "\<And>k. P (GetContent k)" "\<And>pc. P (CreateContent pc)"
  shows "kspec P (\<lambda>x. x = None \<longrightarrow> secured r imp name) (ensureImportedContent r imp name part)"
  unfolding ensureImportedContent_def Let_def
proof (rule kspec_bind [OF kspec_wrap [OF kspec_getOpt_answer]], rule assms(1), rule kspec_case_option)
  fix x :: "PartitionContent option" and pc
  assume "\<forall>y. x = Some y \<longrightarrow> answered (ck_getContent (ce_client r) (imp_namespace imp, name)) y" "x = Some pc"
  then show "kspec P (\<lambda>x. x = None \<longrightarrow> secured r imp name)
      (ret (if ct_importName (pc_spec pc) = imp_name imp then None else Some (name_conflict ''PartitionContent'' name)))"
    by (intro kspec_ret) (auto simp: secured_def)
next
  show "kspec P (\<lambda>x. x = None \<longrightarrow> secured r imp name)
      (bindK (create_or_exists ''creating PartitionContent'' (kcall (CreateContent (imported_content imp name part))
        (ck_createContent (ce_client r) (imported_content imp name part)))) (\<lambda>_. ret None))"
    by (rule kspec_bind [OF kspec_create], rule assms(2), rule kspec_ret)
      (force simp: secured_def imported_content_def)
qed

definition captured_names :: "string \<Rightarrow> ResultPartition list \<Rightarrow> string list" where
  "captured_names prefix parts = map (\<lambda>part. ContentName prefix (rp_number part)) (filter (\<lambda>part. rp_role part \<noteq> RoleSwap) parts)"

lemma contents_secured:
  assumes "\<And>k. P (GetContent k)" "\<And>pc. P (CreateContent pc)"
  shows "kspec P (\<lambda>x. \<forall>refs. x = Inr refs \<longrightarrow> map nr_name refs = captured_names (ii_contentPrefix (imp_spec imp)) parts \<and>
     (\<forall>name\<in>set (captured_names (ii_contentPrefix (imp_spec imp)) parts). secured r imp name)) (import_contents r imp parts)"
proof (induction parts)
  case (Cons part parts)
  show ?case
  proof (cases "rp_role part = RoleSwap")
    case True
    with Cons.IH show ?thesis by (simp add: captured_names_def)
  next
    case False
    show ?thesis
      unfolding import_contents.simps Let_def using False
      apply simp
      apply (rule kspec_bind [OF content_secured])
        apply (rule assms(1))
       apply (rule assms(2))
      apply (rule kspec_case_option)
       apply (rule kspec_bind [OF Cons.IH])
       apply (rule kspec_ret)
       apply (auto simp: captured_names_def split: sum.splits intro: kspec_ret)
      done
  qed
qed (auto simp: captured_names_def intro: kspec_ret)


text \<open>
  The sizes of an imported slot and of the content created for it come from the same partition: the Image
  controller finds the slot too small exactly when the last extent ends beyond the partition.
\<close>

lemma imported_slot_fits:
  "slot_size (imported_slot prefix part) ref (imported_content imp name part) agg = agg \<longleftrightarrow> rp_sizeBytes part = 0 \<or> rp_lastExtentEnd part \<le> rp_sizeBytes part"
  for agg :: slotContentAggregation
  by (auto simp: slot_size_def imported_slot_def imported_content_def intro: slotContentAggregation.equality dest: arg_cong [where f = ag_invalidSizes])

section \<open>A finished import\<close>


text \<open>
  An import that is to be removed at once after it finished is deleted in
  the very pass that records its success, whether or not the contents it captured are published; with it goes
  the scratch volume, which the publish Jobs of these contents read.
\<close>

theorem import_removed_before_publishing:
  assumes "ii_ttlSecondsAfterFinished (imp_spec imp) = Some 0" "imp_completionTime imp = None"
    "\<forall>i s. ck_applyImportStatus (ce_client r) i s = (Inr i, s)"
  shows "(DeleteImport (imp_namespace imp, imp_name imp)) \<in> fst ` set (calls_of (recordImportSucceeded r imp refs) w)"
proof -
  define i where "i = setImageImportReadyCondition (ce_lib r) CondTrue ''ImportComplete''
      (''captured '' @ show_nat (length refs) @ '' partition content object(s) and created Image '' @ go_quote (ii_imageName (imp_spec imp)))
      (stampCompletionTime (ce_now r) (imp\<lparr>imp_state := ImportSucceeded, imp_imageRef := Some \<lparr>nr_namespace = [], nr_name = ii_imageName (imp_spec imp)\<rparr>,
        imp_contentRefs := refs\<rparr>))"
  define w1 where "w1 = w\<lparr>trace := trace w @ [(ApplyImportStatus i, True)]\<rparr>"
  have i: "imp_completionTime i = Some (ce_now r)" "ii_ttlSecondsAfterFinished (imp_spec i) = Some 0" "imp_namespace i = imp_namespace imp" "imp_name i = imp_name imp"
    using assms(1,2) by (simp_all add: i_def setImageImportReadyCondition_def stampCompletionTime_def)
  have "recordImportSucceeded r imp refs w = enforceImportTTL r i w1"
    using assms(3) unfolding recordImportSucceeded_def Let_def i_def [symmetric] applyImageImportStatus_def
    by (simp add: kio_simps kcall_def w1_def)
  moreover have "\<exists>ok. trace (snd (enforceImportTTL r i w1)) = trace w1 @ [(DeleteImport (imp_namespace imp, imp_name imp), ok)]"
    using i by (cases "ck_deleteImport (ce_client r) (imp_namespace imp, imp_name imp) (srv w1)";
        cases "fst (ck_deleteImport (ce_client r) (imp_namespace imp, imp_name imp) (srv w1))")
      (auto simp: enforceImportTTL_def kcall_def kio_simps Let_def)
  ultimately show ?thesis
    by (force simp: calls_of_def w1_def)
qed

section \<open>In the laboratory\<close>

definition lab_import :: ImageImport where
  "lab_import = \<lparr>imp_name = ''imp'', imp_namespace = ''n'', imp_uid = ''iu'', imp_generation = 1,
     imp_spec = \<lparr>ii_sourceURL = ''http://x/d.qcow2'', ii_sourceChecksum = '''', ii_imageName = ''new'', ii_contentPrefix = ''new'', ii_osFamily = '''',
       ii_bootable = None, ii_params = None, ii_postHookRefs = [], ii_scratchSize = None, ii_ttlSecondsAfterFinished = Some 0\<rparr>,
     imp_state = ImportIngesting, imp_imageRef = None, imp_contentRefs = [], imp_completionTime = None, imp_conditions = []\<rparr>"

definition lab_failed_import :: ImageImport where
  "lab_failed_import = lab_import\<lparr>imp_state := ImportFailed, imp_completionTime := Some 0\<rparr>"

abbreviation bare_env :: "store content_env" where
  "bare_env \<equiv> lab_env (lab_of [] [] [] [])"

definition creates_image :: "call \<Rightarrow> bool" where
  "creates_image c = (case c of CreateImage img \<Rightarrow> True | _ \<Rightarrow> False)"

lemma lab_import_run: "list_ex (creates_image \<circ> fst) (calls_of (completeIngest bare_env lab_import lab_job) (lab_world []))"
  by code_simp

definition lab_import_env :: "store import_env" where
  "lab_import_env = \<lparr>ie_env = bare_env, ie_http = (\<lambda>_ _ _ _ s. (Inl NotFound, s)), ie_scale = (\<lambda>_ n. n)\<rparr>"

lemma lab_finished_run: "calls_of (onChangeImport lab_import_env lab_failed_import) (lab_world []) \<noteq> []"
  by code_simp



end
