(* ===== verification/Spec2Isabelle.thy ===== *)
theory Spec2Isabelle
  imports Machine_Properties Agent_Properties Token_Properties Subnet_Properties Disk_Match Claim_Properties Store_Properties
    Plan_Properties Agent_Reports Live_Properties Live_Wire Esp_Properties
    Boot_Properties Fake_Deployer Subnet_Validity Bootd_Properties Image_Properties Import_Properties
begin

text \<open>
  A verification development of kezio, a Kubernetes operator that inspects, provisions and
  releases bare-metal machines (repository sources under src/).

  \<^bold>\<open>The program.\<close> Custom resources (api/v1alpha3) describe a Machine, the MachineClaim that binds a
  deploy intent to it, the Images it deploys, the DeployRun that records one deployment, the Subnet
  it boots on. The Machine reconciler (internal/controller/machine_controller.go) is a state
  machine over Machine.status, run one pass at a time; what touches hardware it delegates to a
  Deployer (internal/deployer/deployer.go), of which the agent deployer (agent.go) is the one used
  in production: it arms a net boot through the BMC, hands a boot token to the boot server through
  a token store (internal/bootserver), reserves a DHCP address on the Subnet
  (internal/subnetdhcp, dhcpreserve.go) and follows the DeployRun the live agent reports on. The
  disk an image is written to is chosen by internal/diskmatch. The MachineClaim controller
  (machineclaim\_controller.go, machineclaim\_match.go) gives a claim a free machine whose hardware
  fits, by an update that the API server accepts only on the version read. The plan builder
  (internal/planbuild) turns a bound claim into the deploy plan, what is written to which partition
  and which hooks run afterwards, and into the snapshot and the hash by which the reconciler knows a
  changed intent. The agent-facing server (internal/agentserver) exchanges the boot token for a
  session, hands the plan out and writes the agent's reports onto the DeployRun, which the agent
  deployer reads. The contents of the partitions are kept in the image store (internal/store) as
  torrents. On the machine, the live agent (internal/agent) registers, polls for the plan and
  executes it (internal/agent/deploy): partition tables, file systems and torrents, post hooks, the
  hand-over to the deployed system, with a report of every phase. The boot server
  (internal/bootserver) answers a booting machine with the GRUB configuration that carries its boot
  token. The Subnet controller (subnet\_controller.go) checks a Subnet's network, runs the bootd
  Deployment that serves it and drops stale DHCP reservations. bootd (cmd/bootd, internal/bootd) runs
  in that Deployment: it supervises dnsmasq, keeps the file of admitted MAC addresses equal to the
  Machines the cluster knows, and acknowledges a reservation once dnsmasq has read it, which the
  agent deployer waits for before it powers a machine on. A fake deployer (fake.go) stands in for
  the agent deployer where there is no hardware. The bytes come in through an ImageImport: its
  controller (imageimport\_*.go) runs an ingest Job over a source disk and creates one PartitionContent
  for every captured partition and the Image that binds them. The PartitionContent controller
  (partitioncontent\_*.go) publishes a content by a Job, records the info hash the Job reports and keeps
  the content while something refers to it; the Image controller (image\_*.go) makes an Image Ready over
  Ready contents and keeps a seeder at every Site that has demand. What they record, the plan builder and
  the Machine reconciler read.

  \<^bold>\<open>How it is modelled.\<close> A handler is a function from the world to a Go result (a value or an
  error) and the new world. The world is the state of the outside (the API server, the BMC, the
  random source), which is abstract, and the trace of the requests made, each with whether it
  succeeded; properties about what the program does are statements about the trace and hold for
  every behaviour of the outside, except where a hypothesis names what is relied on. A method that
  mutates the object it is given returns it.

  \<^item> Prelude: Go errors as values (\<open>kerr\<close>), the state-and-error functions, wrap-around of fixed-width
    integers, the rendering of package fmt, slices with nil and empty told apart, maps that are
    ranged over.
  \<^item> Machine\_Types: the resources, one record per struct and one datatype per enumeration.
  \<^item> Kube: the world, the parameters (client, helper packages, plan builder, deployer) and the
    judgement \<open>kspec P R m\<close> (every request of \<open>m\<close> satisfies \<open>P\<close>, a value it returns satisfies \<open>R\<close>),
    with one rule per construct.
  \<^item> Machine\_Annotations, Machine\_Controller: machine\_annotations.go, machine\_claim\_intent.go,
    crossref.go and machine\_controller.go, one definition per function.
  \<^item> Token\_Store: tokenstore.go, token.go and mac.go, with the interface locale \<open>token_store\<close>.
  \<^item> Subnet\_Dhcp: subnetdhcp.go on 32-bit words, with the dotted quads of package net.
  \<^item> Agent\_Deployer: agent.go, dhcpreserve.go, claim\_intent.go and bmc/credentials.go.
  \<^item> Disk\_Match: diskmatch.go and its properties.
  \<^item> Claim\_Match, Claim\_Controller: machineclaim\_match.go with its bipartite matching, and
    machineclaim\_controller.go.
  \<^item> Go\_Text, Torrent\_Store: the text functions of the standard library, and the five files of
    internal/store.
  \<^item> Deploy\_Plan: the plan and its validation (agentapi.go), PostHooks and their validation
    (posthook\_types.go, posthookvalidate.go), the shipped default hook (posthookdefaults.go).
  \<^item> Plan\_Builder: internal/planbuild, with sitederive.go, seeder/tuning.go and
    seederdeploy/identity.go; \<open>PlanBuilder\<close> is the instance of the builder parameter.
  \<^item> Agent\_Server: internal/agentserver, a request being its three headers and its decoded body.

  \<^item> Live\_Layout, Esp\_Fallback, Live\_Deploy: internal/agent/deploy; the machine is a state the
    commands act on and a log of what was done, the EFI system partition a finite file system.
  \<^item> Live\_Agent: the agent around it (client.go, httpreporter.go, torrentfetcher.go, ezio.go,
    cmdline.go, run.go).
  \<^item> Go\_URL, Boot\_Server: \<^verbatim>\<open>url.Parse\<close> of the standard library, and internal/bootserver's handlers.
  \<^item> Fake\_Deployer: fake.go, a second interpretation of the deployer contract.
  \<^item> Workload, Net\_Validate, Subnet\_Controller: Deployments and volume claims; internal/nadvalidate and
    internal/subnetvalidate; subnet\_controller.go with subnet\_bootd\_deployment.go.
  \<^item> Bootd\_Config, Bootd\_Process: cmd/bootd and internal/bootd; the flags and environment, the rendered
    dnsmasq configuration, the caches of MAC addresses and reservations, the lease file, and the
    process as a step relation \<open>bootd_step\<close> between its goroutines and dnsmasq.
  \<^item> Content\_Demand, Content\_Controller: partitioncontent\_*.go and seeder\_demand.go; the demand of a
    content over Images, claims, runs and Machines, and the publish and delete passes.
  \<^item> Image\_Controller, Import\_Controller: image\_*.go and imageimport\_*.go. The answers of the HTTP
    requests for the size of a source and the product with a fractional factor are parameters.

  \<^bold>\<open>What is shown.\<close>

  \<^item> Deployer\_Contract states what the reconciler relies on as the locale \<open>deployer_contract\<close>; the
    lemmas about the reconciler that need it are proved in the locale (Machine\_Pass,
    Machine\_Guards, Machine\_Holds), and Agent\_Contract interprets it by the agent deployer, using
    the locale \<open>boot_requests\<close> for the part of a step that is no BMC action.
  \<^item> Machine\_Safety and Machine\_Pass: the state walk as the step relations \<open>forward\<close> and \<open>backward\<close>;
    every status write of a pass is a step of them and keeps the error axis and the bound on
    restart failures; the inductive \<open>reachable\<close> lifts this to every status a Machine can have, also
    with stale reads and with edits of others between the passes.
  \<^item> Machine\_Guards: which deployer step may be called, and when a DeployRun may be created.
  \<^item> Machine\_Holds: the retry hold and the status-loss hold.
  \<^item> Machine\_Delete: the delete walk ends within nine passes when its steps are decided; the measure
    is the stage and the failures left in it.
  \<^item> Machine\_Total and Agent\_Total: no pass panics.
  \<^item> Machine\_Properties, Agent\_Properties, Token\_Properties, Subnet\_Properties: the properties, each
    with an application in the world of Reference\_World, where the parameters are concrete
    functions.
  \<^item> Server\_Logic, Claim\_Binding, Claim\_Properties: a Hoare logic over the state of an API server
    that refuses stale updates, the simulation of every claim handler by the binding steps
    \<open>keeps_bindings\<close>, and what follows: no binding is stolen, a claim is released only after its
    machine is, the mirror of the Machine's state settles.
  \<^item> Store\_Properties: the round trip of torrent.info, the info dictionary as an injective image of
    the content, the layout that nesting produces and validation accepts.
  \<^item> Plan\_World, Plan\_Properties: the judgement \<open>runs\<close> over the builder, and what a built plan
    satisfies; the error classes; the composition with the reconciler, by which an unchanged cluster
    asks for no second deployment.
  \<^item> Agent\_Reports: sequences of reports, the effect of a terminal report on the agent deployer's
    next step, what rejected requests do, when a plan is handed out, and what the credentials do not
    protect.
  \<^item> Live\_Logic, Live\_Properties: the judgements \<open>emits\<close> and \<open>within\<close> over the log of a deploy; nothing is
    written before every check passed, the reports of a deploy form one word of a small language, and
    what the reconciler concludes from them; the builder's plans pass the agent's checks.
  \<^item> Live\_Wire, Esp\_Properties: aborts of a deploy, and the boot chain on the EFI system partition.
  \<^item> Boot\_Properties: a token is handed out only to the machine it was minted for, and comes back.
  \<^item> Subnet\_Validity: networks as intervals of addresses; leases stay inside a validated network, bootd
    runs only on one, what Ready means, and what the collection of reservations keeps.
  \<^item> Bootd\_Properties: the allowlist is exactly the enrolled addresses; no interleaving admits another
    one; what an acknowledged revision means; bootd leases the range the reservations come from.
  \<^item> Content\_World, Content\_Properties, Image\_Properties, Import\_Properties: when a content becomes
    Ready and what its status then says, by induction over the passes (\<open>content_reach\<close>); the locale
    \<open>content_provider\<close> is what the plan builder relies on, interpreted by that status; when a content
    may go, and that active runs never keep one that Images do not keep; when an Image becomes Ready and
    a seeder is stopped; what an import creates, and that a finished one does nothing more.

  \<^bold>\<open>Bounds.\<close> Three retry loops of the agent deployer have no bound in the code; they run on fuel
  (\<open>a_fuel\<close>), running out is the error \<open>Diverged\<close>, and \<open>conflict_loops_end\<close> shows that fuel above any
  measure that conflicts decrease is enough. The retry of a status update is bounded in the code
  (\<open>a_retrySteps\<close>, the steps of retry.DefaultRetry). The live agent's loops, which end with its context,
  and the seeding loop run on fuel as well (\<open>rn_fuel\<close>, \<open>ex_fuel\<close>); what is shown of a deploy is shown for
  every one that does not run out. Go's int32 counters wrap (\<open>wrap32\<close>), sizes in
  bytes wrap at 64 bits (\<open>wrap64\<close>), addresses are 32-bit words. Time is an integer count of
  nanoseconds.

  \<^bold>\<open>What is not modelled.\<close> The BMC drivers (internal/bmc), the API server, SHA-1 and SHA-256, text
  templates, JSON text, dnsmasq beyond its reading of the hosts file, and the RFC 3339 text of the two boot
  markers and of a seeder's annotations are parameters. The other controllers (PostHook, Site, DeployRun), the
  webhooks, the seeder, the ingest pipeline and the command-line
  tools are not modelled; of the live agent, the hardware inventory it reads from sysfs and the
  start of the torrent daemon are not. Logging and metrics other than the give-up counter leave
  no trace. Error texts keep the fixed part of their format without object names.
\<close>

section \<open>Refinement of the deployer contract\<close>

text \<open>
  C7: both deployers implement the Deployer contract on their own client, the
  agent deployer and the fake one with none of its steps replaced: every step reports one of the five
  outcomes with a known error type, a power or reboot failure never asks for a restart, no request
  that belongs to the reconciler is made, and the status fields the reconciler owns come back
  unchanged.
\<close>

theorem deployers_keep_contract:
  "deployer_contract (AgentDeployer a) (a_kube a) (a_lib a) \<and> deployer_contract (FakeDeployer_of (default_fake k l t)) k l"
  by (rule conjI [OF ad.deployer_contract_axioms fd.deployer_contract_axioms])

end
